(* ===== verification/SF_Prelude.thy ===== *)
theory SF_Prelude
  imports Main "HOL-Library.Word" "HOL-Library.Sublist"
begin

text \<open>
  Shared ground of the ShellFleet development: the machine types of the wire format, Rust's
  \<open>Result\<close> as a sum with the error on the left, the byte-string functions of the Rust standard
  library the sources call, SQL statements over tables kept as row lists, HTTP responses, and
  reachability of a labelled step relation.

  A Rust \<open>String\<close> is its UTF-8 byte sequence: \<open>string\<close> has one \<open>char\<close> per byte, so
  \<open>length\<close> is Rust's \<open>len\<close>. Timestamps (\<open>i64\<close> seconds) are \<open>int\<close>; unsigned
  integers that travel on the wire are words of their width; an \<open>f32\<close> is its bit pattern.
\<close>

section \<open>Collections and machine types\<close>

named_theorems result_simps \<open>unfolding of the result combinators\<close>
named_theorems sql_simps \<open>unfolding of the SQL statements\<close>

type_synonym byte = "8 word"
type_synonym u16 = "16 word"
type_synonym u32 = "32 word"
type_synonym u64 = "64 word"
type_synonym i32 = int
type_synonym i64 = int
type_synonym f32 = "32 word"

section \<open>Results\<close>

text \<open>Rust's \<open>?\<close> operator, \<open>Option::ok_or\<close> and \<open>Result::map_err\<close>.\<close>

type_synonym ('e, 'a) result = "'e + 'a"

definition try_bind :: "('e, 'a) result \<Rightarrow> ('a \<Rightarrow> ('e, 'b) result) \<Rightarrow> ('e, 'b) result" where
  "try_bind r f = (case r of Inl e \<Rightarrow> Inl e | Inr x \<Rightarrow> f x)"

definition ok_or :: "'a option \<Rightarrow> 'e \<Rightarrow> ('e, 'a) result" where
  "ok_or x e = (case x of None \<Rightarrow> Inl e | Some v \<Rightarrow> Inr v)"

definition ensure :: "bool \<Rightarrow> 'e \<Rightarrow> ('e, unit) result" where
  "ensure b e = (if b then Inr () else Inl e)"

definition is_ok :: "('e, 'a) result \<Rightarrow> bool" where
  "is_ok r = (case r of Inl _ \<Rightarrow> False | Inr _ \<Rightarrow> True)"

lemma try_bind_simps [simp]:
  "try_bind (Inl e) f = Inl e"
  "try_bind (Inr x) f = f x"
  by (simp_all add: try_bind_def)

lemma try_bind_Inr_iff [result_simps]:
  "try_bind r f = Inr y \<longleftrightarrow> (\<exists>x. r = Inr x \<and> f x = Inr y)"
  by (cases r) auto

lemma try_bind_Inl_iff [result_simps]:
  "try_bind r f = Inl e \<longleftrightarrow> r = Inl e \<or> (\<exists>x. r = Inr x \<and> f x = Inl e)"
  by (cases r) auto

lemma ok_or_simps [simp]:
  "ok_or None e = Inl e"
  "ok_or (Some v) e = Inr v"
  by (simp_all add: ok_or_def)

lemma ok_or_Inr_iff [result_simps]: "ok_or x e = Inr v \<longleftrightarrow> x = Some v"
  by (cases x) auto

lemma ok_or_Inl_iff [result_simps]: "ok_or x e = Inl e' \<longleftrightarrow> x = None \<and> e' = e"
  by (cases x) auto

lemma ensure_simps [simp]:
  "ensure True e = Inr ()"
  "ensure False e = Inl e"
  by (simp_all add: ensure_def)

lemma ensure_iff [result_simps]:
  "ensure b e = Inr u \<longleftrightarrow> b"
  "ensure b e = Inl e' \<longleftrightarrow> \<not> b \<and> e' = e"
  by (auto simp: ensure_def)

lemma is_ok_simps [simp]:
  "is_ok (Inl e) = False"
  "is_ok (Inr x) = True"
  by (simp_all add: is_ok_def)

lemma is_ok_iff: "is_ok r \<longleftrightarrow> (\<exists>x. r = Inr x)"
  by (cases r) auto

section \<open>Byte strings\<close>

text \<open>
  \<open>str::starts_with\<close>, \<open>strip_prefix\<close>, \<open>ends_with\<close>, \<open>split(char)\<close>, \<open>split_once(char)\<close>,
  \<open>contains(char)\<close>, \<open>trim\<close> and \<open>to_ascii_lowercase\<close>/\<open>uppercase\<close>. \<open>trim\<close> removes the ASCII
  white space; header values that reach it passed \<open>HeaderValue::to_str\<close>, which admits only
  visible ASCII, blanks and tabs.
\<close>

definition starts_with :: "string \<Rightarrow> string \<Rightarrow> bool" where
  "starts_with s p \<longleftrightarrow> take (length p) s = p"

definition strip_prefix_str :: "string \<Rightarrow> string \<Rightarrow> string option" where
  "strip_prefix_str p s = (if starts_with s p then Some (drop (length p) s) else None)"

definition ends_with :: "string \<Rightarrow> string \<Rightarrow> bool" where
  "ends_with s p \<longleftrightarrow> starts_with (rev s) (rev p)"

definition contains_char :: "string \<Rightarrow> char \<Rightarrow> bool" where
  "contains_char s c \<longleftrightarrow> c \<in> set s"

fun split_on :: "char \<Rightarrow> string \<Rightarrow> string list" where
  "split_on c [] = [[]]"
| "split_on c (x # xs) =
     (if x = c then [] # split_on c xs
      else (case split_on c xs of [] \<Rightarrow> [[x]] | s # ss \<Rightarrow> (x # s) # ss))"

fun join_with :: "string \<Rightarrow> string list \<Rightarrow> string" where
  "join_with sep [] = []"
| "join_with sep [s] = s"
| "join_with sep (s # t # ss) = s @ sep @ join_with sep (t # ss)"

text \<open>\<open>str::lines\<close>: a carriage return is part of the line break only before a line feed.\<close>

definition strip_cr :: "string \<Rightarrow> string" where
  "strip_cr l = (if l \<noteq> [] \<and> last l = char_of (13 :: nat) then butlast l else l)"

definition str_lines :: "string \<Rightarrow> string list" where
  "str_lines s =
     (let ls = split_on (char_of (10 :: nat)) s
      in map strip_cr (butlast ls) @ (if last ls = [] then [] else [last ls]))"

fun split_once_on :: "char \<Rightarrow> string \<Rightarrow> (string \<times> string) option" where
  "split_once_on c [] = None"
| "split_once_on c (x # xs) =
     (if x = c then Some ([], xs)
      else map_option (\<lambda>(a, b). (x # a, b)) (split_once_on c xs))"

definition is_ascii_ws :: "char \<Rightarrow> bool" where
  "is_ascii_ws c \<longleftrightarrow> (of_char c :: nat) \<in> {9, 10, 11, 12, 13, 32}"

definition trim :: "string \<Rightarrow> string" where
  "trim s = rev (dropWhile is_ascii_ws (rev (dropWhile is_ascii_ws s)))"

definition ascii_lower :: "char \<Rightarrow> char" where
  "ascii_lower c =
     (let n = (of_char c :: nat) in if 65 \<le> n \<and> n \<le> 90 then char_of (n + 32) else c)"

definition ascii_upper :: "char \<Rightarrow> char" where
  "ascii_upper c =
     (let n = (of_char c :: nat) in if 97 \<le> n \<and> n \<le> 122 then char_of (n - 32) else c)"

definition to_ascii_lowercase :: "string \<Rightarrow> string" where
  "to_ascii_lowercase s = map ascii_lower s"

definition to_ascii_uppercase :: "string \<Rightarrow> string" where
  "to_ascii_uppercase s = map ascii_upper s"

definition is_ascii_alphanumeric :: "char \<Rightarrow> bool" where
  "is_ascii_alphanumeric c \<longleftrightarrow>
     (let n = (of_char c :: nat)
      in (48 \<le> n \<and> n \<le> 57) \<or> (65 \<le> n \<and> n \<le> 90) \<or> (97 \<le> n \<and> n \<le> 122))"

definition str_bytes :: "string \<Rightarrow> byte list" where
  "str_bytes s = map (\<lambda>c. word_of_nat (of_char c)) s"

lemma starts_with_append [simp]: "starts_with (p @ s) p"
  by (simp add: starts_with_def)

lemma starts_with_iff: "starts_with s p \<longleftrightarrow> (\<exists>r. s = p @ r)"
  by (metis append_eq_conv_conj append_take_drop_id starts_with_def)

lemma split_on_not_Nil [simp]: "split_on c s \<noteq> []"
  by (induction s) (auto split: list.splits)

lemma split_on_no_sep: "x \<in> set (split_on c s) \<Longrightarrow> c \<notin> set x"
  by (induction s arbitrary: x) (auto split: list.splits if_splits)

lemma split_on_append_sep:
  "split_on c (s @ c # t) = split_on c s @ split_on c t"
  by (induction s) (auto split: list.splits)

lemma split_on_single: "c \<notin> set s \<Longrightarrow> split_on c s = [s]"
  by (induction s) auto

lemma split_on_join:
  assumes "ss \<noteq> []" and "\<forall>s\<in>set ss. c \<notin> set s"
  shows "split_on c (join_with [c] ss) = ss"
  using assms by (induction "[c]" ss rule: join_with.induct)
    (auto simp: split_on_single split_on_append_sep)

lemma unat_byte_of_nat: "unat (word_of_nat n :: byte) = n mod 256"
  by (simp add: unat_of_nat take_bit_eq_mod)

lemma of_char_less_256: "(of_char c :: nat) < 256"
  by (cases c) simp

lemma char_byte_inj: "inj (\<lambda>c. word_of_nat (of_char c) :: byte)"
proof (rule injI)
  fix c d :: char
  assume "(word_of_nat (of_char c) :: byte) = word_of_nat (of_char d)"
  then have "(of_char c :: nat) mod 256 = of_char d mod 256"
    by (simp flip: unat_byte_of_nat)
  then show "c = d" by simp
qed

lemma inj_str_bytes: "inj str_bytes"
proof (rule injI)
  fix x y :: string
  assume "str_bytes x = str_bytes y"
  then show "x = y"
    unfolding str_bytes_def using char_byte_inj by (simp add: inj_map_eq_map)
qed

lemma str_bytes_eq_iff [simp]: "str_bytes x = str_bytes y \<longleftrightarrow> x = y"
  using inj_str_bytes by (auto dest: injD)

lemma length_str_bytes [simp]: "length (str_bytes s) = length s"
  by (simp add: str_bytes_def)

text \<open>\<open>i64::to_string\<close>: decimal digits, with a minus sign in front of negative numbers.\<close>

fun nat_to_dec :: "nat \<Rightarrow> string" where
  "nat_to_dec n = (if n < 10 then [char_of (48 + n)]
                   else nat_to_dec (n div 10) @ [char_of (48 + n mod 10)])"

declare nat_to_dec.simps [simp del]

definition int_to_dec :: "int \<Rightarrow> string" where
  "int_to_dec i = (if i < 0 then CHR ''-'' # nat_to_dec (nat (- i)) else nat_to_dec (nat i))"

fun dec_value :: "string \<Rightarrow> nat" where
  "dec_value s = foldl (\<lambda>a c. 10 * a + (of_char c - 48)) 0 s"

lemma dec_value_nat_to_dec: "dec_value (nat_to_dec n) = n"
proof (induction n rule: nat_to_dec.induct)
  case (1 n)
  show ?case
  proof (cases "n < 10")
    case True
    then show ?thesis by (subst nat_to_dec.simps) (simp add: of_char_of)
  next
    case False
    then have "foldl (\<lambda>a c. 10 * a + (of_char c - 48)) 0 (nat_to_dec (n div 10)) = n div 10"
      using 1 by simp
    with False show ?thesis
      by (subst nat_to_dec.simps) (simp add: of_char_of)
  qed
qed

lemma nat_to_dec_inj: "nat_to_dec m = nat_to_dec n \<longleftrightarrow> m = n"
  by (metis dec_value_nat_to_dec)

lemma nat_to_dec_digits: "c \<in> set (nat_to_dec n) \<Longrightarrow> 48 \<le> (of_char c :: nat) \<and> of_char c \<le> (57 :: nat)"
proof (induction n rule: nat_to_dec.induct)
  case (1 n)
  then show ?case
    by (subst (asm) nat_to_dec.simps) (auto split: if_splits simp: of_char_of)
qed

lemma int_to_dec_inj [simp]: "int_to_dec i = int_to_dec j \<longleftrightarrow> i = j"
proof
  have minus: "CHR ''-'' # s \<noteq> nat_to_dec n" for s n
  proof
    assume "CHR ''-'' # s = nat_to_dec n"
    then have "CHR ''-'' \<in> set (nat_to_dec n)" by (metis list.set_intros(1))
    from nat_to_dec_digits [OF this] show False by simp
  qed
  assume "int_to_dec i = int_to_dec j"
  then show "i = j"
    using minus minus [symmetric]
    by (auto simp: int_to_dec_def nat_to_dec_inj split: if_splits)
qed simp

section \<open>SQL statements\<close>

text \<open>
  A table is the list of its rows in insertion order. \<open>SELECT ... LIMIT 1\<close> through
  \<open>fetch_optional\<close> reads the first match, \<open>UPDATE\<close> and \<open>DELETE\<close> act on every match and
  \<open>rows_affected\<close> counts them. A primary key is a function of the row: a plain \<open>INSERT\<close> of a
  taken key fails with a constraint error, \<open>INSERT OR IGNORE\<close> leaves the table alone, and
  \<open>ON CONFLICT DO UPDATE\<close> rewrites the conflicting row.

  Any statement may fail (connection, disk, lock timeout). Handlers take a fault oracle that
  says which of their statements fail; a failed statement or transaction changes nothing.
\<close>

datatype sql_error = Sql_Error

type_synonym fault = "string \<Rightarrow> bool"

type_synonym 'r table = "'r list"

definition sql_fetch_optional :: "('r \<Rightarrow> bool) \<Rightarrow> 'r table \<Rightarrow> 'r option" where
  [sql_simps]: "sql_fetch_optional P t = find P t"

definition sql_delete :: "('r \<Rightarrow> bool) \<Rightarrow> 'r table \<Rightarrow> 'r table" where
  [sql_simps]: "sql_delete P t = filter (\<lambda>r. \<not> P r) t"

definition sql_update :: "('r \<Rightarrow> bool) \<Rightarrow> ('r \<Rightarrow> 'r) \<Rightarrow> 'r table \<Rightarrow> 'r table" where
  [sql_simps]: "sql_update P f t = map (\<lambda>r. if P r then f r else r) t"

definition rows_affected :: "('r \<Rightarrow> bool) \<Rightarrow> 'r table \<Rightarrow> nat" where
  [sql_simps]: "rows_affected P t = length (filter P t)"

definition sql_insert :: "('r \<Rightarrow> 'k) \<Rightarrow> 'r \<Rightarrow> 'r table \<Rightarrow> (sql_error, 'r table) result" where
  "sql_insert key r t = (if key r \<in> key ` set t then Inl Sql_Error else Inr (t @ [r]))"

definition sql_insert_or_ignore :: "('r \<Rightarrow> 'k) \<Rightarrow> 'r \<Rightarrow> 'r table \<Rightarrow> 'r table" where
  "sql_insert_or_ignore key r t = (if key r \<in> key ` set t then t else t @ [r])"

definition sql_upsert :: "('r \<Rightarrow> 'k) \<Rightarrow> 'r \<Rightarrow> ('r \<Rightarrow> 'r) \<Rightarrow> 'r table \<Rightarrow> 'r table" where
  "sql_upsert key r on_conflict t =
     (if key r \<in> key ` set t
      then map (\<lambda>x. if key x = key r then on_conflict x else x) t
      else t @ [r])"

text \<open>A table is well keyed when no two rows share the key.\<close>

definition keyed :: "('r \<Rightarrow> 'k) \<Rightarrow> 'r table \<Rightarrow> bool" where
  "keyed key t \<longleftrightarrow> distinct (map key t)"

lemma keyed_Nil [simp]: "keyed key []"
  by (simp add: keyed_def)

lemma keyed_delete [simp]: "keyed key t \<Longrightarrow> keyed key (sql_delete P t)"
  by (simp add: keyed_def sql_simps distinct_map_filter)

lemma keyed_update:
  "keyed key t \<Longrightarrow> (\<And>r. P r \<Longrightarrow> key (f r) = key r) \<Longrightarrow> keyed key (sql_update P f t)"
  unfolding keyed_def sql_update_def
  by (subst map_map, subst map_cong [OF refl, of t "key \<circ> (\<lambda>r. if P r then f r else r)" key]) auto

lemma keyed_insert: "keyed key t \<Longrightarrow> sql_insert key r t = Inr t' \<Longrightarrow> keyed key t'"
  by (auto simp: keyed_def sql_insert_def split: if_splits)

lemma keyed_insert_or_ignore: "keyed key t \<Longrightarrow> keyed key (sql_insert_or_ignore key r t)"
  by (auto simp: keyed_def sql_insert_or_ignore_def)

lemma keyed_upsert:
  assumes "keyed key t" and "\<And>x. key x = key r \<Longrightarrow> key (f x) = key r"
  shows "keyed key (sql_upsert key r f t)"
proof -
  have "map key (map (\<lambda>x. if key x = key r then f x else x) t) = map key t"
    using assms(2) by simp
  with assms(1) show ?thesis
    unfolding keyed_def sql_upsert_def by (simp del: map_map)
qed

lemma keyed_unique:
  "keyed key t \<Longrightarrow> r \<in> set t \<Longrightarrow> r' \<in> set t \<Longrightarrow> key r = key r' \<Longrightarrow> r = r'"
  by (auto simp: keyed_def distinct_map dest: inj_onD)

lemma fetch_None_iff [simp]: "sql_fetch_optional P t = None \<longleftrightarrow> (\<forall>r\<in>set t. \<not> P r)"
  by (auto simp: sql_simps find_None_iff)

lemma fetch_SomeD: "sql_fetch_optional P t = Some r \<Longrightarrow> r \<in> set t \<and> P r"
  by (auto simp: sql_simps find_Some_iff)

lemma fetch_keyed:
  assumes "keyed key t" and "r \<in> set t"
  shows "sql_fetch_optional (\<lambda>x. key x = key r) t = Some r"
proof -
  obtain r' where "sql_fetch_optional (\<lambda>x. key x = key r) t = Some r'"
    using assms(2) by (cases "sql_fetch_optional (\<lambda>x. key x = key r) t") auto
  moreover from fetch_SomeD [OF this] have "r' = r"
    using keyed_unique [OF assms(1)] assms(2) by blast
  ultimately show ?thesis by simp
qed

lemma set_delete [simp]: "set (sql_delete P t) = {r \<in> set t. \<not> P r}"
  by (simp add: sql_simps set_filter)

lemma set_update [simp]: "set (sql_update P f t) = (\<lambda>r. if P r then f r else r) ` set t"
  by (simp add: sql_simps)

lemma length_update [simp]: "length (sql_update P f t) = length t"
  by (simp add: sql_simps)

lemma rows_affected_pos: "0 < rows_affected P t \<longleftrightarrow> (\<exists>r\<in>set t. P r)"
  by (auto simp: sql_simps filter_empty_conv)

section \<open>HTTP responses and gates\<close>

text \<open>
  A handler's answer is its status code and body. A middleware layer either hands the request to
  the next layer or answers itself.
\<close>

type_synonym http_error = "nat \<times> string"

datatype gate = Next | Respond nat string

section \<open>Reachability\<close>

inductive reach :: "('s \<Rightarrow> bool) \<Rightarrow> ('s \<Rightarrow> 'l \<Rightarrow> 's \<Rightarrow> bool) \<Rightarrow> 's \<Rightarrow> bool"
  for init :: "'s \<Rightarrow> bool" and stp :: "'s \<Rightarrow> 'l \<Rightarrow> 's \<Rightarrow> bool"
  where
    reach_init: "init s \<Longrightarrow> reach init stp s"
  | reach_step: "reach init stp s \<Longrightarrow> stp s l t \<Longrightarrow> reach init stp t"

lemma reach_invariant:
  assumes "reach init stp s"
    and "\<And>s. init s \<Longrightarrow> I s"
    and "\<And>s l t. I s \<Longrightarrow> stp s l t \<Longrightarrow> I t"
  shows "I s"
  using assms(1) by (induction rule: reach.induct) (use assms(2,3) in blast)+

end
