(* ===== verification/Wire_Protocol.thy ===== *)
theory Wire_Protocol
  imports SF_Prelude
begin

text \<open>
  The wire format of \<open>shared/src/lib.rs\<close>: the payload structs as records, the payload enums as
  datatypes, and the message enum that travels between server and agent. The Rust enum
  \<open>Message\<close> is flat; here its 128 variants are grouped, in source order, into one datatype per
  run of related variants, and \<open>Message\<close> is their tagged union. Every variant keeps its name and
  its fields in their declared order.
\<close>

definition PROTOCOL_VERSION :: u32 where
  "PROTOCOL_VERSION = 19"

section \<open>Payload types\<close>

datatype SwarmRole = NotInSwarm | Worker | Manager

record DockerContainer =
  dc_id :: string
  dc_names :: string
  dc_image :: string
  dc_state :: string
  dc_status :: string
  dc_ports :: string

record SwarmService =
  ss_id :: string
  ss_name :: string
  ss_mode :: string
  ss_replicas :: string
  ss_image :: string
  ss_ports :: string

record SwarmNode =
  sn_id :: string
  sn_hostname :: string
  sn_status :: string
  sn_availability :: string
  sn_manager_status :: string
  sn_engine_version :: string

record DockerContainerStats =
  dcs_id :: string
  dcs_name :: string
  dcs_cpu_percent :: f32
  dcs_mem_bytes :: u64
  dcs_mem_limit_bytes :: u64
  dcs_net_rx_bytes :: u64
  dcs_net_tx_bytes :: u64
  dcs_blk_read_bytes :: u64
  dcs_blk_write_bytes :: u64
  dcs_pids :: u32

record DockerNetwork =
  dn_id :: string
  dn_name :: string
  dn_driver :: string
  dn_scope :: string
  dn_created :: string
  dn_ipv6 :: bool
  dn_internal :: bool
  dn_attachable :: bool

record DockerVolume =
  dv_name :: string
  dv_driver :: string
  dv_mountpoint :: string
  dv_size_bytes :: u64
  dv_created :: string
  dv_labels :: string

record SwarmStack =
  sst_name :: string
  sst_services :: u32
  sst_orchestrator :: string

record DockerImage =
  di_id :: string
  di_repository :: string
  di_tag :: string
  di_size_bytes :: u64
  di_created :: string

datatype BackupMode = Mode_Tar | Mode_Restic

record BackupArchive =
  ba_name :: string
  ba_uri :: string
  ba_bytes :: u64
  ba_mtime :: i64

datatype HealthProbeKind = Probe_Http | Probe_Tcp | Probe_Exec

record HealthProbeSpec =
  hps_id :: string
  hps_name :: string
  hps_kind :: HealthProbeKind
  hps_target :: string
  hps_interval_secs :: u32
  hps_timeout_secs :: u32
  hps_expect_status :: "u16 option"
  hps_expect_body :: "string option"
  hps_env :: "string list"

datatype HealthProbeState = Green | Red

record HealthProbeResult =
  hpr_id :: string
  hpr_state :: HealthProbeState
  hpr_latency_ms :: u32
  hpr_detail :: string
  hpr_at :: i64

record SwarmTask =
  st_id :: string
  st_name :: string
  st_node :: string
  st_desired_state :: string
  st_current_state :: string
  st_error :: string
  st_image :: string

record SwarmServiceSpecSummary =
  sss_image :: string
  sss_image_digest :: string
  sss_mode :: string
  sss_replicas :: "u32 option"
  sss_created_at :: string
  sss_updated_at :: string
  sss_env :: "string list"
  sss_mounts :: "string list"
  sss_networks :: "string list"
  sss_constraints :: "string list"
  sss_published_ports :: "string list"

datatype DockerContainerAction = Container_Start | Container_Stop | Container_Restart | Container_Remove

record ContainerSpec =
  cs_image :: string
  cs_name :: "string option"
  cs_ports :: "string list"
  cs_env :: "string list"
  cs_volumes :: "string list"
  cs_restart_policy :: "string option"
  cs_command :: "string option"
  cs_network :: "string option"
  cs_detached :: bool
  cs_pull :: bool

record ServiceSpec =
  svs_image :: string
  svs_name :: string
  svs_replicas :: "u32 option"
  svs_mode :: "string option"
  svs_ports :: "string list"
  svs_env :: "string list"
  svs_mounts :: "string list"
  svs_constraints :: "string list"
  svs_command :: "string option"
  svs_networks :: "string list"
  svs_restart_condition :: "string option"

datatype SwarmAction = Swarm_Scale u32 | Swarm_ForceUpdate | Swarm_Remove

record AptUpgradable =
  au_name :: string
  au_current_version :: string
  au_new_version :: string
  au_source :: string

record K8sDeployment =
  kd_namespace :: string
  kd_name :: string
  kd_ready :: string
  kd_up_to_date :: i32
  kd_available :: i32
  kd_age_secs :: i64
  kd_image :: "string option"

record K8sService =
  ks_namespace :: string
  ks_name :: string
  ks_kind :: string
  ks_cluster_ip :: "string option"
  ks_external_ips :: "string list"
  ks_ports :: "string list"
  ks_age_secs :: i64

record K8sIngress =
  ki_namespace :: string
  ki_name :: string
  ki_class :: "string option"
  ki_hosts :: "string list"
  ki_addresses :: "string list"
  ki_age_secs :: i64

record K8sPvc =
  kpvc_namespace :: string
  kpvc_name :: string
  kpvc_status :: string
  kpvc_volume_name :: "string option"
  kpvc_capacity :: "string option"
  kpvc_access_modes :: "string list"
  kpvc_storage_class :: "string option"
  kpvc_age_secs :: i64

record K8sEvent =
  ke_namespace :: string
  ke_kind :: string
  ke_reason :: string
  ke_object :: string
  ke_message :: string
  ke_count :: i32
  ke_age_secs :: i64

record K8sPod =
  kp_namespace :: string
  kp_name :: string
  kp_phase :: string
  kp_ready :: string
  kp_restarts :: u32
  kp_age_secs :: i64
  kp_node :: "string option"
  kp_containers :: "string list"

record ServiceInfo =
  si_name :: string
  si_description :: string
  si_status :: string
  si_active_state :: string

record DriftPackage =
  dp_name :: string
  dp_version :: string
  dp_status :: string

record DriftService =
  ds_name :: string
  ds_active :: string
  ds_enabled :: string

record DriftContainer =
  dco_name :: string
  dco_image :: string
  dco_state :: string

record DriftConfigFile =
  dcf_path :: string
  dcf_hash :: string
  dcf_size :: u64
  dcf_mtime :: i64

section \<open>Message families\<close>

text \<open>Registration, capability refresh and heartbeat.\<close>

datatype SessionMsg =
    Register string u32 "string list" "(string \<rightharpoonup> string)"
  | RegisterAck string
  | CapabilitiesUpdate "string list"
  | Ping
  | Pong

text \<open>Systemd units.\<close>

datatype SystemdMsg =
    ListServicesRequest
  | ListServicesResponse "ServiceInfo list"
  | ControlServiceRequest string string
  | ControlServiceResponse string bool "string option"

text \<open>PTY sessions and trusted-operation relay.\<close>

datatype TerminalMsg =
    StartTerminalRequest string
  | TerminalData string "byte list"
  | StopTerminalRequest string
  | TerminalResize string u16 u16
  | TrustedOperationClient string bool bool "byte list"
  | TrustedOperationHost string bool "byte list"

text \<open>Kubernetes reads, logs and exec.\<close>

datatype K8sReadMsg =
    K8sListPodsRequest
  | K8sListPodsResponse "K8sPod list" "string option"
  | K8sListDeploymentsRequest
  | K8sListDeploymentsResponse "K8sDeployment list" "string option"
  | K8sListServicesRequest
  | K8sListServicesResponse "K8sService list" "string option"
  | K8sListIngressesRequest
  | K8sListIngressesResponse "K8sIngress list" "string option"
  | K8sListPvcsRequest
  | K8sListPvcsResponse "K8sPvc list" "string option"
  | K8sListEventsRequest
  | K8sListEventsResponse "K8sEvent list" "string option"
  | K8sDescribeRequest string "string option" string
  | K8sDescribeResponse string "string option" string string "string option"
  | K8sLogsRequest string string string "string option" i64 bool
  | K8sLogsChunk string "string list"
  | K8sLogsStop string
  | K8sLogsEnd string "string option"
  | K8sExecRequest string string string "string option" "string list"
  | K8sExecResponse string bool "string option"

text \<open>One-shot command execution.\<close>

datatype ExecMsg =
    RunCommandRequest string string u64
  | RunCommandResponse string i32 string string "string option" bool bool u64

text \<open>Kubernetes mutations.\<close>

datatype K8sWriteMsg =
    K8sApplyRequest string bool bool
  | K8sApplyResponse string "string option"
  | K8sScaleRequest string string string i32
  | K8sScaleResponse string string string bool "string option"
  | K8sDeletePodRequest string string "i64 option"
  | K8sDeletePodResponse string string bool "string option"

text \<open>Configuration files.\<close>

datatype ConfigMsg =
    ReadConfigRequest string
  | ReadConfigResponse string string "string option"
  | WriteConfigRequest string string
  | WriteConfigResponse string bool "string option"

text \<open>Host statistics, container and swarm listings, swarm actions.\<close>

datatype HostMsg =
    SystemStatsRequest
  | SystemStatsResponse string string u64 u32 f32 f32 f32 u64 u64 u64 u64 u64 u64
  | DockerListRequest
  | DockerListResponse bool SwarmRole "DockerContainer list" "string option"
  | SwarmListRequest
  | SwarmListResponse bool bool "SwarmService list" "SwarmNode list" "string option"
  | SwarmServiceActionRequest string SwarmAction
  | SwarmServiceActionResponse string bool string "string option"

text \<open>Package updates.\<close>

datatype AptMsg =
    AptStatusRequest
  | AptStatusResponse bool "AptUpgradable list" u64 "string option"
  | AptRefreshRequest
  | AptRefreshResponse bool string "string option"
  | AptUpgradeRequest "string option"
  | AptUpgradeResponse "string option" bool string "string option"

text \<open>Container and service creation, container lifecycle.\<close>

datatype DeployMsg =
    DockerCreateContainerRequest ContainerSpec
  | DockerCreateContainerResponse bool "string option" string "string option"
  | SwarmCreateServiceRequest ServiceSpec
  | SwarmCreateServiceResponse bool "string option" string "string option"
  | DockerContainerActionRequest string DockerContainerAction
  | DockerContainerActionResponse string bool string "string option"

text \<open>Container log and journal streams.\<close>

datatype LogMsg =
    DockerLogsRequest string u32 bool
  | DockerLogsChunk string string
  | DockerLogsStop string
  | DockerLogsEnd string "string option"
  | JournalLogsRequest string u32 bool
  | JournalLogsChunk string string
  | JournalLogsStop string
  | JournalLogsEnd string "string option"
  | JournalStreamRequest string "string list" "string option" "string option" "string option" "string option" u32 bool
  | JournalStreamChunk string "string list"
  | JournalStreamStop string
  | JournalStreamEnd string "string option"

text \<open>Swarm inspection and stack deployment.\<close>

datatype SwarmMsg =
    SwarmServiceInspectRequest string
  | SwarmServiceInspectResponse string bool "SwarmTask list" "SwarmServiceSpecSummary option" string "string option"
  | SwarmStackDeployRequest string string bool
  | SwarmStackDeployResponse string bool string "string option"

text \<open>Health probes.\<close>

datatype ProbeMsg =
    HealthProbeSyncRequest "HealthProbeSpec list"
  | HealthProbeReport "HealthProbeResult list"

text \<open>Backups.\<close>

datatype BackupMsg =
    BackupRunRequest string string "string list" string BackupMode
  | BackupRunResponse string string bool string u64 string "string option"
  | BackupListArchivesRequest string string string
  | BackupListArchivesResponse string bool "BackupArchive list" "string option"
  | BackupRestoreRequest string string string
  | BackupRestoreResponse string string string bool string "string option"

text \<open>Images.\<close>

datatype ImageMsg =
    DockerImageListRequest
  | DockerImageListResponse bool "DockerImage list" "string option"
  | DockerImageRemoveRequest string bool
  | DockerImageRemoveResponse string bool string "string option"
  | DockerImagePullRequest string
  | DockerImagePullResponse string bool string "string option"

text \<open>Networks.\<close>

datatype NetworkMsg =
    DockerNetworkListRequest
  | DockerNetworkListResponse bool "DockerNetwork list" "string option"
  | DockerNetworkInspectRequest string
  | DockerNetworkInspectResponse string bool string "string option"
  | DockerNetworkCreateRequest string string "string option" bool bool
  | DockerNetworkCreateResponse string bool "string option" string "string option"
  | DockerNetworkRemoveRequest string
  | DockerNetworkRemoveResponse string bool string "string option"

text \<open>Volumes.\<close>

datatype VolumeMsg =
    DockerVolumeListRequest
  | DockerVolumeListResponse bool "DockerVolume list" "string option"
  | DockerVolumeInspectRequest string
  | DockerVolumeInspectResponse string bool string "string option"
  | DockerVolumeRemoveRequest string bool
  | DockerVolumeRemoveResponse string bool string "string option"
  | DockerVolumePruneRequest
  | DockerVolumePruneResponse bool "string list" u64 string "string option"

text \<open>Swarm stacks.\<close>

datatype StackMsg =
    SwarmStackListRequest
  | SwarmStackListResponse bool bool "SwarmStack list" "string option"
  | SwarmStackInspectRequest string
  | SwarmStackInspectResponse string bool "SwarmService list" "SwarmTask list" string "string option"
  | SwarmStackRemoveRequest string
  | SwarmStackRemoveResponse string bool string "string option"

text \<open>Prune, statistics, container exec and drift snapshots.\<close>

datatype MiscMsg =
    DockerSystemPruneRequest bool bool
  | DockerSystemPruneResponse bool bool u64 "string list" "string list" "string list" "string list" string "string option"
  | DockerStatsRequest
  | DockerStatsResponse bool "DockerContainerStats list" "string option"
  | DockerExecStartRequest string string
  | DockerExecStartResponse string bool "string option"
  | DockerExecStopRequest
  | DriftSnapshotRequest string "string list" "string list"
  | DriftSnapshotResponse string "DriftPackage list" "DriftService list" "DriftContainer list" "DriftConfigFile list" "string option"

section \<open>The tagged union\<close>

datatype Message =
    Session SessionMsg
  | Systemd SystemdMsg
  | Terminal TerminalMsg
  | K8sRead K8sReadMsg
  | Exec ExecMsg
  | K8sWrite K8sWriteMsg
  | Config ConfigMsg
  | Host HostMsg
  | Apt AptMsg
  | Deploy DeployMsg
  | Log LogMsg
  | Swarm SwarmMsg
  | Probe ProbeMsg
  | Backup BackupMsg
  | Image ImageMsg
  | Network NetworkMsg
  | Volume VolumeMsg
  | Stack StackMsg
  | Misc MiscMsg

datatype UiMessage =
    ListAgentsRequest
  | ListAgentsResponse "string list" "string \<rightharpoonup> string list"
  | SendToAgent string Message
  | AgentMessage string Message
  | PermissionDenied string string string

end
