(* ===== verification/Ui_Security.thy ===== *)
theory Ui_Security
  imports Wire_Protocol
begin

text \<open>
  \<open>shared/src/security.rs\<close>: the security contract of every message a browser may send to an
  agent. Each family has its own table; \<open>ui_request_security\<close> dispatches. Responses and
  server-internal requests are refused (\<open>NotUiRequest\<close>), as is an unknown service action.
  The lemmas below are what the hub relies on: an approval-gated request always carries an
  action, interactive streams are never held for approval, and only requests of the \<open>Read\<close>
  class escape the administrator check.
\<close>

datatype UiRequestClass = Read | PrivilegedRead | Interactive | Mutation

definition requires_admin :: "UiRequestClass \<Rightarrow> bool" where
  "requires_admin c = (case c of PrivilegedRead \<Rightarrow> True | Interactive \<Rightarrow> True | Mutation \<Rightarrow> True
     | Read \<Rightarrow> False)"

definition requires_approval :: "UiRequestClass \<Rightarrow> bool" where
  "requires_approval c = (case c of Mutation \<Rightarrow> True | _ \<Rightarrow> False)"

record UiRequestSecurity =
  sec_action :: "string option"
  sec_class :: UiRequestClass

datatype UiRequestError = NotUiRequest | InvalidAction

definition request :: "string option \<Rightarrow> UiRequestClass \<Rightarrow> UiRequestSecurity" where
  "request a c = \<lparr>sec_action = a, sec_class = c\<rparr>"

lemma request_sel [simp]:
  "sec_action (request a c) = a"
  "sec_class (request a c) = c"
  by (simp_all add: request_def)

lemma requires_simps [simp]:
  "requires_admin Read = False" "requires_admin PrivilegedRead = True"
  "requires_admin Interactive = True" "requires_admin Mutation = True"
  "requires_approval Read = False" "requires_approval PrivilegedRead = False"
  "requires_approval Interactive = False" "requires_approval Mutation = True"
  by (simp_all add: requires_admin_def requires_approval_def)

primrec session_security :: "SessionMsg \<Rightarrow> (UiRequestError, UiRequestSecurity) result" where
  "session_security (Register x0 x1 x2 x3) = Inl NotUiRequest"
| "session_security (RegisterAck x0) = Inl NotUiRequest"
| "session_security (CapabilitiesUpdate x0) = Inl NotUiRequest"
| "session_security Ping = Inl NotUiRequest"
| "session_security Pong = Inl NotUiRequest"

primrec systemd_security :: "SystemdMsg \<Rightarrow> (UiRequestError, UiRequestSecurity) result" where
  "systemd_security ListServicesRequest = Inr (request (Some ''service:List'') Read)"
| "systemd_security (ListServicesResponse x0) = Inl NotUiRequest"
| "systemd_security (ControlServiceRequest x0 action) = (if action = ''start'' then Inr (request (Some ''service:Start'') Mutation)
      else if action = ''stop'' then Inr (request (Some ''service:Stop'') Mutation)
      else if action = ''restart'' then Inr (request (Some ''service:Restart'') Mutation)
      else Inl InvalidAction)"
| "systemd_security (ControlServiceResponse x0 x1 x2) = Inl NotUiRequest"

primrec terminal_security :: "TerminalMsg \<Rightarrow> (UiRequestError, UiRequestSecurity) result" where
  "terminal_security (StartTerminalRequest x0) = Inr (request (Some ''agent:Terminal'') Interactive)"
| "terminal_security (TerminalData x0 x1) = Inr (request (Some ''agent:Terminal'') Interactive)"
| "terminal_security (StopTerminalRequest x0) = Inr (request (Some ''agent:Terminal'') Interactive)"
| "terminal_security (TerminalResize x0 x1 x2) = Inr (request (Some ''agent:Terminal'') Interactive)"
| "terminal_security (TrustedOperationClient x0 x1 x2 x3) = Inr (request (Some ''agent:TrustedRoot'') Interactive)"
| "terminal_security (TrustedOperationHost x0 x1 x2) = Inl NotUiRequest"

primrec k8sread_security :: "K8sReadMsg \<Rightarrow> (UiRequestError, UiRequestSecurity) result" where
  "k8sread_security K8sListPodsRequest = Inr (request (Some ''k8s:List'') Read)"
| "k8sread_security (K8sListPodsResponse x0 x1) = Inl NotUiRequest"
| "k8sread_security K8sListDeploymentsRequest = Inr (request (Some ''k8s:List'') Read)"
| "k8sread_security (K8sListDeploymentsResponse x0 x1) = Inl NotUiRequest"
| "k8sread_security K8sListServicesRequest = Inr (request (Some ''k8s:List'') Read)"
| "k8sread_security (K8sListServicesResponse x0 x1) = Inl NotUiRequest"
| "k8sread_security K8sListIngressesRequest = Inr (request (Some ''k8s:List'') Read)"
| "k8sread_security (K8sListIngressesResponse x0 x1) = Inl NotUiRequest"
| "k8sread_security K8sListPvcsRequest = Inr (request (Some ''k8s:List'') Read)"
| "k8sread_security (K8sListPvcsResponse x0 x1) = Inl NotUiRequest"
| "k8sread_security K8sListEventsRequest = Inr (request (Some ''k8s:List'') Read)"
| "k8sread_security (K8sListEventsResponse x0 x1) = Inl NotUiRequest"
| "k8sread_security (K8sDescribeRequest x0 x1 x2) = Inr (request (Some ''k8s:Describe'') Read)"
| "k8sread_security (K8sDescribeResponse x0 x1 x2 x3 x4) = Inl NotUiRequest"
| "k8sread_security (K8sLogsRequest x0 x1 x2 x3 x4 x5) = Inr (request (Some ''k8s:Logs'') PrivilegedRead)"
| "k8sread_security (K8sLogsChunk x0 x1) = Inl NotUiRequest"
| "k8sread_security (K8sLogsStop x0) = Inr (request (Some ''k8s:Logs'') PrivilegedRead)"
| "k8sread_security (K8sLogsEnd x0 x1) = Inl NotUiRequest"
| "k8sread_security (K8sExecRequest x0 x1 x2 x3 x4) = Inr (request (Some ''k8s:Exec'') Interactive)"
| "k8sread_security (K8sExecResponse x0 x1 x2) = Inl NotUiRequest"

primrec exec_security :: "ExecMsg \<Rightarrow> (UiRequestError, UiRequestSecurity) result" where
  "exec_security (RunCommandRequest x0 x1 x2) = Inl NotUiRequest"
| "exec_security (RunCommandResponse x0 x1 x2 x3 x4 x5 x6 x7) = Inl NotUiRequest"

primrec k8swrite_security :: "K8sWriteMsg \<Rightarrow> (UiRequestError, UiRequestSecurity) result" where
  "k8swrite_security (K8sApplyRequest x0 x1 x2) = Inr (request (Some ''k8s:Apply'') Mutation)"
| "k8swrite_security (K8sApplyResponse x0 x1) = Inl NotUiRequest"
| "k8swrite_security (K8sScaleRequest x0 x1 x2 x3) = Inr (request (Some ''k8s:Scale'') Mutation)"
| "k8swrite_security (K8sScaleResponse x0 x1 x2 x3 x4) = Inl NotUiRequest"
| "k8swrite_security (K8sDeletePodRequest x0 x1 x2) = Inr (request (Some ''k8s:Delete'') Mutation)"
| "k8swrite_security (K8sDeletePodResponse x0 x1 x2 x3) = Inl NotUiRequest"

primrec config_security :: "ConfigMsg \<Rightarrow> (UiRequestError, UiRequestSecurity) result" where
  "config_security (ReadConfigRequest x0) = Inr (request (Some ''config:Read'') PrivilegedRead)"
| "config_security (ReadConfigResponse x0 x1 x2) = Inl NotUiRequest"
| "config_security (WriteConfigRequest x0 x1) = Inr (request (Some ''config:Write'') Mutation)"
| "config_security (WriteConfigResponse x0 x1 x2) = Inl NotUiRequest"

primrec host_security :: "HostMsg \<Rightarrow> (UiRequestError, UiRequestSecurity) result" where
  "host_security SystemStatsRequest = Inr (request None Read)"
| "host_security (SystemStatsResponse x0 x1 x2 x3 x4 x5 x6 x7 x8 x9 x10 x11 x12) = Inl NotUiRequest"
| "host_security DockerListRequest = Inr (request (Some ''container:List'') Read)"
| "host_security (DockerListResponse x0 x1 x2 x3) = Inl NotUiRequest"
| "host_security SwarmListRequest = Inr (request (Some ''swarm:List'') Read)"
| "host_security (SwarmListResponse x0 x1 x2 x3 x4) = Inl NotUiRequest"
| "host_security (SwarmServiceActionRequest x0 action) = Inr (request (Some (case action of Swarm_Scale _ \<Rightarrow> ''swarm:Scale''
      | Swarm_ForceUpdate \<Rightarrow> ''swarm:Deploy'' | Swarm_Remove \<Rightarrow> ''swarm:Remove'')) Mutation)"
| "host_security (SwarmServiceActionResponse x0 x1 x2 x3) = Inl NotUiRequest"

primrec apt_security :: "AptMsg \<Rightarrow> (UiRequestError, UiRequestSecurity) result" where
  "apt_security AptStatusRequest = Inr (request (Some ''apt:Status'') Read)"
| "apt_security (AptStatusResponse x0 x1 x2 x3) = Inl NotUiRequest"
| "apt_security AptRefreshRequest = Inr (request (Some ''apt:Refresh'') Mutation)"
| "apt_security (AptRefreshResponse x0 x1 x2) = Inl NotUiRequest"
| "apt_security (AptUpgradeRequest x0) = Inr (request (Some ''apt:Upgrade'') Mutation)"
| "apt_security (AptUpgradeResponse x0 x1 x2 x3) = Inl NotUiRequest"

primrec deploy_security :: "DeployMsg \<Rightarrow> (UiRequestError, UiRequestSecurity) result" where
  "deploy_security (DockerCreateContainerRequest x0) = Inr (request (Some ''container:Create'') Mutation)"
| "deploy_security (DockerCreateContainerResponse x0 x1 x2 x3) = Inl NotUiRequest"
| "deploy_security (SwarmCreateServiceRequest x0) = Inr (request (Some ''swarm:Deploy'') Mutation)"
| "deploy_security (SwarmCreateServiceResponse x0 x1 x2 x3) = Inl NotUiRequest"
| "deploy_security (DockerContainerActionRequest x0 action) = Inr (request (Some (case action of Container_Start \<Rightarrow> ''container:Start''
      | Container_Stop \<Rightarrow> ''container:Stop'' | Container_Restart \<Rightarrow> ''container:Restart''
      | Container_Remove \<Rightarrow> ''container:Remove'')) Mutation)"
| "deploy_security (DockerContainerActionResponse x0 x1 x2 x3) = Inl NotUiRequest"

primrec log_security :: "LogMsg \<Rightarrow> (UiRequestError, UiRequestSecurity) result" where
  "log_security (DockerLogsRequest x0 x1 x2) = Inr (request (Some ''container:Logs'') Read)"
| "log_security (DockerLogsChunk x0 x1) = Inl NotUiRequest"
| "log_security (DockerLogsStop x0) = Inr (request (Some ''container:Logs'') Read)"
| "log_security (DockerLogsEnd x0 x1) = Inl NotUiRequest"
| "log_security (JournalLogsRequest x0 x1 x2) = Inr (request (Some ''journal:Read'') Read)"
| "log_security (JournalLogsChunk x0 x1) = Inl NotUiRequest"
| "log_security (JournalLogsStop x0) = Inr (request (Some ''journal:Read'') Read)"
| "log_security (JournalLogsEnd x0 x1) = Inl NotUiRequest"
| "log_security (JournalStreamRequest x0 x1 x2 x3 x4 x5 x6 x7) = Inr (request (Some ''journal:Read'') Read)"
| "log_security (JournalStreamChunk x0 x1) = Inl NotUiRequest"
| "log_security (JournalStreamStop x0) = Inr (request (Some ''journal:Read'') Read)"
| "log_security (JournalStreamEnd x0 x1) = Inl NotUiRequest"

primrec swarm_security :: "SwarmMsg \<Rightarrow> (UiRequestError, UiRequestSecurity) result" where
  "swarm_security (SwarmServiceInspectRequest x0) = Inr (request (Some ''swarm:List'') Read)"
| "swarm_security (SwarmServiceInspectResponse x0 x1 x2 x3 x4 x5) = Inl NotUiRequest"
| "swarm_security (SwarmStackDeployRequest x0 x1 x2) = Inr (request (Some ''swarm:Deploy'') Mutation)"
| "swarm_security (SwarmStackDeployResponse x0 x1 x2 x3) = Inl NotUiRequest"

primrec probe_security :: "ProbeMsg \<Rightarrow> (UiRequestError, UiRequestSecurity) result" where
  "probe_security (HealthProbeSyncRequest x0) = Inl NotUiRequest"
| "probe_security (HealthProbeReport x0) = Inl NotUiRequest"

primrec backup_security :: "BackupMsg \<Rightarrow> (UiRequestError, UiRequestSecurity) result" where
  "backup_security (BackupRunRequest x0 x1 x2 x3 x4) = Inr (request (Some ''backup:Run'') Mutation)"
| "backup_security (BackupRunResponse x0 x1 x2 x3 x4 x5 x6) = Inl NotUiRequest"
| "backup_security (BackupListArchivesRequest x0 x1 x2) = Inr (request (Some ''backup:List'') Read)"
| "backup_security (BackupListArchivesResponse x0 x1 x2 x3) = Inl NotUiRequest"
| "backup_security (BackupRestoreRequest x0 x1 x2) = Inr (request (Some ''backup:Restore'') Mutation)"
| "backup_security (BackupRestoreResponse x0 x1 x2 x3 x4 x5) = Inl NotUiRequest"

primrec image_security :: "ImageMsg \<Rightarrow> (UiRequestError, UiRequestSecurity) result" where
  "image_security DockerImageListRequest = Inr (request (Some ''docker:ImageList'') Read)"
| "image_security (DockerImageListResponse x0 x1 x2) = Inl NotUiRequest"
| "image_security (DockerImageRemoveRequest x0 x1) = Inr (request (Some ''docker:ImageRemove'') Mutation)"
| "image_security (DockerImageRemoveResponse x0 x1 x2 x3) = Inl NotUiRequest"
| "image_security (DockerImagePullRequest x0) = Inr (request (Some ''docker:ImagePull'') Mutation)"
| "image_security (DockerImagePullResponse x0 x1 x2 x3) = Inl NotUiRequest"

primrec network_security :: "NetworkMsg \<Rightarrow> (UiRequestError, UiRequestSecurity) result" where
  "network_security DockerNetworkListRequest = Inr (request (Some ''network:List'') Read)"
| "network_security (DockerNetworkListResponse x0 x1 x2) = Inl NotUiRequest"
| "network_security (DockerNetworkInspectRequest x0) = Inr (request (Some ''network:List'') Read)"
| "network_security (DockerNetworkInspectResponse x0 x1 x2 x3) = Inl NotUiRequest"
| "network_security (DockerNetworkCreateRequest x0 x1 x2 x3 x4) = Inr (request (Some ''network:Create'') Mutation)"
| "network_security (DockerNetworkCreateResponse x0 x1 x2 x3 x4) = Inl NotUiRequest"
| "network_security (DockerNetworkRemoveRequest x0) = Inr (request (Some ''network:Remove'') Mutation)"
| "network_security (DockerNetworkRemoveResponse x0 x1 x2 x3) = Inl NotUiRequest"

primrec volume_security :: "VolumeMsg \<Rightarrow> (UiRequestError, UiRequestSecurity) result" where
  "volume_security DockerVolumeListRequest = Inr (request (Some ''volume:List'') Read)"
| "volume_security (DockerVolumeListResponse x0 x1 x2) = Inl NotUiRequest"
| "volume_security (DockerVolumeInspectRequest x0) = Inr (request (Some ''volume:List'') Read)"
| "volume_security (DockerVolumeInspectResponse x0 x1 x2 x3) = Inl NotUiRequest"
| "volume_security (DockerVolumeRemoveRequest x0 x1) = Inr (request (Some ''volume:Remove'') Mutation)"
| "volume_security (DockerVolumeRemoveResponse x0 x1 x2 x3) = Inl NotUiRequest"
| "volume_security DockerVolumePruneRequest = Inr (request (Some ''docker:Prune'') Mutation)"
| "volume_security (DockerVolumePruneResponse x0 x1 x2 x3 x4) = Inl NotUiRequest"

primrec stack_security :: "StackMsg \<Rightarrow> (UiRequestError, UiRequestSecurity) result" where
  "stack_security SwarmStackListRequest = Inr (request (Some ''swarm:List'') Read)"
| "stack_security (SwarmStackListResponse x0 x1 x2 x3) = Inl NotUiRequest"
| "stack_security (SwarmStackInspectRequest x0) = Inr (request (Some ''swarm:List'') Read)"
| "stack_security (SwarmStackInspectResponse x0 x1 x2 x3 x4 x5) = Inl NotUiRequest"
| "stack_security (SwarmStackRemoveRequest x0) = Inr (request (Some ''swarm:Remove'') Mutation)"
| "stack_security (SwarmStackRemoveResponse x0 x1 x2 x3) = Inl NotUiRequest"

primrec misc_security :: "MiscMsg \<Rightarrow> (UiRequestError, UiRequestSecurity) result" where
  "misc_security (DockerSystemPruneRequest x0 x1) = Inr (request (Some ''docker:Prune'') Mutation)"
| "misc_security (DockerSystemPruneResponse x0 x1 x2 x3 x4 x5 x6 x7 x8) = Inl NotUiRequest"
| "misc_security DockerStatsRequest = Inr (request (Some ''container:List'') Read)"
| "misc_security (DockerStatsResponse x0 x1 x2) = Inl NotUiRequest"
| "misc_security (DockerExecStartRequest x0 x1) = Inr (request (Some ''container:Exec'') Interactive)"
| "misc_security (DockerExecStartResponse x0 x1 x2) = Inl NotUiRequest"
| "misc_security DockerExecStopRequest = Inr (request (Some ''container:Exec'') Interactive)"
| "misc_security (DriftSnapshotRequest x0 x1 x2) = Inr (request (Some ''drift:Snapshot'') Mutation)"
| "misc_security (DriftSnapshotResponse x0 x1 x2 x3 x4 x5) = Inl NotUiRequest"

primrec ui_request_security :: "Message \<Rightarrow> (UiRequestError, UiRequestSecurity) result" where
  "ui_request_security (Session m) = session_security m"
| "ui_request_security (Systemd m) = systemd_security m"
| "ui_request_security (Terminal m) = terminal_security m"
| "ui_request_security (K8sRead m) = k8sread_security m"
| "ui_request_security (Exec m) = exec_security m"
| "ui_request_security (K8sWrite m) = k8swrite_security m"
| "ui_request_security (Config m) = config_security m"
| "ui_request_security (Host m) = host_security m"
| "ui_request_security (Apt m) = apt_security m"
| "ui_request_security (Deploy m) = deploy_security m"
| "ui_request_security (Log m) = log_security m"
| "ui_request_security (Swarm m) = swarm_security m"
| "ui_request_security (Probe m) = probe_security m"
| "ui_request_security (Backup m) = backup_security m"
| "ui_request_security (Image m) = image_security m"
| "ui_request_security (Network m) = network_security m"
| "ui_request_security (Volume m) = volume_security m"
| "ui_request_security (Stack m) = stack_security m"
| "ui_request_security (Misc m) = misc_security m"

section \<open>The contract\<close>

text \<open>
  C1: for every message that classifies as a UI request, an approval-gated class always carries a
  policy action and always requires an administrator (so the hub's branch ``request has no approval
  action mapping'' is dead and no held action is reachable by a viewer), and the only request
  without a policy action is the host statistics read.
\<close>

theorem ui_security_contract:
  assumes "ui_request_security m = Inr sec"
  shows "(requires_approval (sec_class sec) \<longrightarrow>
           requires_admin (sec_class sec) \<and> (\<exists>a. sec_action sec = Some a)) \<and>
         (sec_action sec = None \<longleftrightarrow> m = Host SystemStatsRequest)"
  using assms by (induct m; case_tac x; auto split: if_splits)

theorem ui_security_contract_witness:
  "ui_request_security (Apt AptRefreshRequest) = Inr (request (Some ''apt:Refresh'') Mutation) \<and>
   requires_approval Mutation \<and> requires_admin Mutation"
proof -
  have h: "ui_request_security (Apt AptRefreshRequest) = Inr (request (Some ''apt:Refresh'') Mutation)"
    by simp
  show ?thesis using h ui_security_contract [OF h] by simp
qed

end
