(* ===== verification/Operation_Routing.thy ===== *)
theory Operation_Routing
  imports Ui_Security
begin

text \<open>
  \<open>server/src/operation_routing.rs\<close>: streaming operations (terminals, container exec, log and
  journal streams, trusted operations) have one owning UI client per agent. \<open>ui_operation\<close> and
  \<open>agent_operation\<close> classify the messages that start, use, stop, feed and end an operation;
  \<open>OperationOwners\<close> is the registry. The interface the hub uses is the locale
  \<open>owner_registry\<close>, interpreted on the registry's operations.
\<close>

datatype OperationKey =
    KTerminal string
  | KDockerExec
  | KK8sLogs string
  | KDockerLogs string
  | KJournalLogs string
  | KJournalStream string
  | KTrusted string

datatype UiOperation = OpStart OperationKey | OpUse OperationKey | OpStop OperationKey

record AgentOperation =
  op_key :: OperationKey
  op_ends :: bool

type_synonym client_id = u64

record OperationOwners =
  owners :: "string \<times> OperationKey \<rightharpoonup> client_id"

definition no_owners :: OperationOwners where
  "no_owners = \<lparr>owners = Map.empty\<rparr>"

section \<open>The registry\<close>

definition claim :: "string \<Rightarrow> OperationKey \<Rightarrow> client_id \<Rightarrow> OperationOwners \<Rightarrow> OperationOwners \<times> bool" where
  "claim agent_id key client_id os =
     (case owners os (agent_id, key) of
        Some ow \<Rightarrow> (os, ow = client_id)
      | None \<Rightarrow> (os\<lparr>owners := (owners os)((agent_id, key) \<mapsto> client_id)\<rparr>, True))"

definition owner :: "string \<Rightarrow> OperationKey \<Rightarrow> OperationOwners \<Rightarrow> client_id option" where
  "owner agent_id key os = owners os (agent_id, key)"

definition release :: "string \<Rightarrow> OperationKey \<Rightarrow> client_id \<Rightarrow> OperationOwners \<Rightarrow> OperationOwners \<times> bool" where
  "release agent_id key client_id os =
     (if owners os (agent_id, key) \<noteq> Some client_id then (os, False)
      else (os\<lparr>owners := (owners os)((agent_id, key) := None)\<rparr>, True))"

definition release_agent_operation :: "string \<Rightarrow> OperationKey \<Rightarrow> OperationOwners \<Rightarrow> OperationOwners" where
  "release_agent_operation agent_id key os =
     os\<lparr>owners := (owners os)((agent_id, key) := None)\<rparr>"

definition release_client :: "client_id \<Rightarrow> OperationOwners \<Rightarrow> OperationOwners" where
  "release_client client_id os =
     os\<lparr>owners := (\<lambda>k. case owners os k of Some ow \<Rightarrow> if ow \<noteq> client_id then Some ow else None
                       | None \<Rightarrow> None)\<rparr>"

definition release_agent :: "string \<Rightarrow> OperationOwners \<Rightarrow> OperationOwners" where
  "release_agent agent_id os =
     os\<lparr>owners := (\<lambda>(a, k). if a \<noteq> agent_id then owners os (a, k) else None)\<rparr>"

section \<open>Message classification\<close>

definition terminal_key :: "string \<Rightarrow> OperationKey" where
  "terminal_key session_id = (if session_id = [] then KDockerExec else KTerminal session_id)"

fun ui_operation :: "Message \<Rightarrow> UiOperation option" where
  "ui_operation (Terminal (StartTerminalRequest sid)) = Some (OpStart (KTerminal sid))"
| "ui_operation (K8sRead (K8sExecRequest sid _ _ _ _)) = Some (OpStart (KTerminal sid))"
| "ui_operation (Misc (DockerExecStartRequest _ _)) = Some (OpStart KDockerExec)"
| "ui_operation (K8sRead (K8sLogsRequest stream _ _ _ _ _)) = Some (OpStart (KK8sLogs stream))"
| "ui_operation (Log (DockerLogsRequest cid _ _)) = Some (OpStart (KDockerLogs cid))"
| "ui_operation (Log (JournalLogsRequest unit _ _)) = Some (OpStart (KJournalLogs unit))"
| "ui_operation (Log (JournalStreamRequest stream _ _ _ _ _ _ _)) = Some (OpStart (KJournalStream stream))"
| "ui_operation (Terminal (TerminalData sid _)) = Some (OpUse (terminal_key sid))"
| "ui_operation (Terminal (TerminalResize sid _ _)) = Some (OpUse (terminal_key sid))"
| "ui_operation (Terminal (StopTerminalRequest sid)) = Some (OpStop (terminal_key sid))"
| "ui_operation (Misc DockerExecStopRequest) = Some (OpStop KDockerExec)"
| "ui_operation (K8sRead (K8sLogsStop stream)) = Some (OpStop (KK8sLogs stream))"
| "ui_operation (Log (DockerLogsStop cid)) = Some (OpStop (KDockerLogs cid))"
| "ui_operation (Log (JournalLogsStop unit)) = Some (OpStop (KJournalLogs unit))"
| "ui_operation (Log (JournalStreamStop stream)) = Some (OpStop (KJournalStream stream))"
| "ui_operation (Terminal (TrustedOperationClient rid start close _)) =
     Some (if start then OpStart (KTrusted rid)
           else if close then OpStop (KTrusted rid)
           else OpUse (KTrusted rid))"
| "ui_operation _ = None"

fun agent_operation :: "Message \<Rightarrow> AgentOperation option" where
  "agent_operation (Terminal (TerminalData sid _)) =
     Some \<lparr>op_key = terminal_key sid, op_ends = False\<rparr>"
| "agent_operation (K8sRead (K8sExecResponse sid success _)) =
     Some \<lparr>op_key = KTerminal sid, op_ends = (\<not> success)\<rparr>"
| "agent_operation (Misc (DockerExecStartResponse _ success _)) =
     Some \<lparr>op_key = KDockerExec, op_ends = (\<not> success)\<rparr>"
| "agent_operation (K8sRead (K8sLogsChunk stream _)) = Some \<lparr>op_key = KK8sLogs stream, op_ends = False\<rparr>"
| "agent_operation (K8sRead (K8sLogsEnd stream _)) = Some \<lparr>op_key = KK8sLogs stream, op_ends = True\<rparr>"
| "agent_operation (Log (DockerLogsChunk cid _)) = Some \<lparr>op_key = KDockerLogs cid, op_ends = False\<rparr>"
| "agent_operation (Log (DockerLogsEnd cid _)) = Some \<lparr>op_key = KDockerLogs cid, op_ends = True\<rparr>"
| "agent_operation (Log (JournalLogsChunk unit _)) = Some \<lparr>op_key = KJournalLogs unit, op_ends = False\<rparr>"
| "agent_operation (Log (JournalLogsEnd unit _)) = Some \<lparr>op_key = KJournalLogs unit, op_ends = True\<rparr>"
| "agent_operation (Log (JournalStreamChunk stream _)) = Some \<lparr>op_key = KJournalStream stream, op_ends = False\<rparr>"
| "agent_operation (Log (JournalStreamEnd stream _)) = Some \<lparr>op_key = KJournalStream stream, op_ends = True\<rparr>"
| "agent_operation (Terminal (TrustedOperationHost rid complete _)) =
     Some \<lparr>op_key = KTrusted rid, op_ends = complete\<rparr>"
| "agent_operation _ = None"

section \<open>The registry interface\<close>

text \<open>
  What the hub relies on. A key has at most one owner by construction of \<open>owner_of\<close>; the laws say
  who can change it: a claim takes only a free key, a release frees only a key the caller owns, and
  the bulk releases free exactly the keys of one client or one agent.
\<close>

locale owner_registry =
  fixes owner_of :: "'a \<Rightarrow> 'k \<Rightarrow> 's \<Rightarrow> 'c option"
    and claim_op :: "'a \<Rightarrow> 'k \<Rightarrow> 'c \<Rightarrow> 's \<Rightarrow> 's \<times> bool"
    and release_op :: "'a \<Rightarrow> 'k \<Rightarrow> 'c \<Rightarrow> 's \<Rightarrow> 's \<times> bool"
    and drop_op :: "'a \<Rightarrow> 'k \<Rightarrow> 's \<Rightarrow> 's"
    and drop_client :: "'c \<Rightarrow> 's \<Rightarrow> 's"
    and drop_agent :: "'a \<Rightarrow> 's \<Rightarrow> 's"
  assumes claim_ok: "snd (claim_op a k c s) \<longleftrightarrow> owner_of a k s \<in> {None, Some c}"
    and claim_owner:
      "owner_of a' k' (fst (claim_op a k c s)) =
         (if a' = a \<and> k' = k \<and> owner_of a k s = None then Some c else owner_of a' k' s)"
    and release_ok: "snd (release_op a k c s) \<longleftrightarrow> owner_of a k s = Some c"
    and release_owner:
      "owner_of a' k' (fst (release_op a k c s)) =
         (if a' = a \<and> k' = k \<and> owner_of a k s = Some c then None else owner_of a' k' s)"
    and drop_op_owner:
      "owner_of a' k' (drop_op a k s) = (if a' = a \<and> k' = k then None else owner_of a' k' s)"
    and drop_client_owner:
      "owner_of a' k' (drop_client c s) =
         (if owner_of a' k' s = Some c then None else owner_of a' k' s)"
    and drop_agent_owner:
      "owner_of a' k' (drop_agent a s) = (if a' = a then None else owner_of a' k' s)"
begin

lemma claim_never_steals:
  assumes "owner_of a' k' s = Some c'"
  shows "owner_of a' k' (fst (claim_op a k c s)) = Some c'"
  using assms by (auto simp: claim_owner)

lemma claim_granted_owns:
  assumes "snd (claim_op a k c s)"
  shows "owner_of a k (fst (claim_op a k c s)) = Some c"
  using assms by (auto simp: claim_ok claim_owner)

lemma release_by_other_is_noop:
  assumes "owner_of a k s = Some c'" and "c' \<noteq> c"
  shows "\<not> snd (release_op a k c s) \<and> owner_of a' k' (fst (release_op a k c s)) = owner_of a' k' s"
  using assms by (simp add: release_ok release_owner)

lemmas registry_laws =
  claim_ok claim_owner release_ok release_owner drop_op_owner drop_client_owner drop_agent_owner

end

interpretation reg: owner_registry owner claim release release_agent_operation release_client release_agent
  by unfold_locales
    (auto simp: owner_def claim_def release_def release_agent_operation_def release_client_def
      release_agent_def split: option.splits)

section \<open>Properties\<close>

text \<open>
  C2: an operation has exactly one owner and only its owner can give it up: while client \<open>c'\<close> owns
  an operation, a claim or release by any other client is refused and leaves every owner as it was.
\<close>

theorem operation_owner_exclusive:
  assumes "owner agent key os = Some c'" and "c \<noteq> c'"
  shows "\<not> snd (claim agent key c os) \<and> \<not> snd (release agent key c os) \<and>
         owner a k (fst (claim agent key c os)) = owner a k os \<and>
         owner a k (fst (release agent key c os)) = owner a k os"
  using assms reg.release_by_other_is_noop [OF assms(1), of c]
  by (auto simp: reg.claim_ok reg.claim_owner)

theorem operation_owner_exclusive_witness:
  "owner ''a'' KDockerExec (fst (claim ''a'' KDockerExec 10 no_owners)) = Some 10 \<and>
   \<not> snd (claim ''a'' KDockerExec 11 (fst (claim ''a'' KDockerExec 10 no_owners)))"
proof -
  have h: "owner ''a'' KDockerExec (fst (claim ''a'' KDockerExec 10 no_owners)) = Some 10"
    by (simp add: owner_def claim_def no_owners_def)
  show ?thesis
    using h operation_owner_exclusive [OF h, of 11] by simp
qed

text \<open>
  Routing agrees with the security table. Every message that starts, uses or stops an operation
  is a classified UI request with a policy action and is never held for approval; no message an
  agent sends to feed or end an operation is accepted as a UI request, except the terminal data that
  flows both ways.
\<close>

theorem operations_are_classified:
  "(ui_operation m = Some op \<longrightarrow>
      (\<exists>sec. ui_request_security m = Inr sec \<and> sec_action sec \<noteq> None \<and>
             \<not> requires_approval (sec_class sec))) \<and>
   (agent_operation m = Some aop \<longrightarrow>
      ui_request_security m = Inl NotUiRequest \<or> (\<exists>sid d. m = Terminal (TerminalData sid d)))"
  by (induct m; case_tac x; simp)

theorem operations_are_classified_witness:
  "ui_operation (Log (DockerLogsStop ''c'')) = Some (OpStop (KDockerLogs ''c'')) \<and>
   (\<exists>sec. ui_request_security (Log (DockerLogsStop ''c'')) = Inr sec \<and> sec_action sec \<noteq> None)"
proof -
  have h: "ui_operation (Log (DockerLogsStop ''c'')) = Some (OpStop (KDockerLogs ''c''))"
    by simp
  show ?thesis
    using h operations_are_classified [of "Log (DockerLogsStop ''c'')" "OpStop (KDockerLogs ''c'')"]
    by blast
qed

end
