(* ===== verification/Byte_Codec.thy ===== *)
theory Byte_Codec
  imports SF_Prelude
begin

text \<open>
  Length-prefixed byte encodings. Two components write a big-endian \<open>u32\<close> length and then the
  bytes: the canonical form that internal requests are signed over
  (\<open>shared/src/internal_auth.rs\<close>) and the frames of the root broker's Unix socket
  (\<open>agent/src/privileged/framing.rs\<close>). The locale \<open>prefix_code\<close> states what both need,
  self-delimitation, and proves from it that a concatenation determines its parts and can be read
  back part by part.
\<close>

section \<open>Big-endian lengths\<close>

text \<open>\<open>u32::to_be_bytes\<close> and \<open>u32::from_be_bytes\<close>.\<close>

definition be32 :: "nat \<Rightarrow> byte list" where
  "be32 n = [word_of_nat (n div 16777216), word_of_nat (n div 65536), word_of_nat (n div 256),
             word_of_nat n]"

fun of_be32 :: "byte list \<Rightarrow> nat" where
  "of_be32 [a, b, c, d] = 16777216 * unat a + 65536 * unat b + 256 * unat c + unat d"
| "of_be32 _ = 0"

definition U32_LIMIT :: nat where
  "U32_LIMIT = 4294967296"

lemma length_be32 [simp]: "length (be32 n) = 4"
  by (simp add: be32_def)

lemma be32_not_Nil [simp]: "be32 n \<noteq> []"
  by (simp add: be32_def)

lemma base256_digits:
  assumes "n < (4294967296 :: nat)"
  shows "16777216 * (n div 16777216 mod 256) + 65536 * (n div 65536 mod 256) +
         256 * (n div 256 mod 256) + n mod 256 = n"
proof -
  have "n div 16777216 mod 256 = n div 16777216"
    using assms by simp
  moreover have "n div 256 = 256 * (n div 65536) + n div 256 mod 256"
    using div_mult2_eq [of n 256 256] by simp
  moreover have "n div 65536 = 256 * (n div 16777216) + n div 65536 mod 256"
    using div_mult2_eq [of n 65536 256] by simp
  moreover have "n = 256 * (n div 256) + n mod 256" by simp
  ultimately show ?thesis by linarith
qed

lemma of_be32_be32: "n < U32_LIMIT \<Longrightarrow> of_be32 (be32 n) = n"
  using base256_digits [of n] unfolding U32_LIMIT_def
  by (simp add: be32_def unat_byte_of_nat)

section \<open>Self-delimiting encodings\<close>

locale prefix_code =
  fixes enc :: "'a \<Rightarrow> byte list"
    and valid :: "'a \<Rightarrow> bool"
    and dec :: "byte list \<Rightarrow> ('a \<times> byte list) option"
  assumes dec_enc: "valid x \<Longrightarrow> dec (enc x @ rest) = Some (x, rest)"
    and enc_nonempty: "valid x \<Longrightarrow> enc x \<noteq> []"
begin

definition enc_all :: "'a list \<Rightarrow> byte list" where
  "enc_all xs = concat (map enc xs)"

fun dec_n :: "nat \<Rightarrow> byte list \<Rightarrow> ('a list \<times> byte list) option" where
  "dec_n 0 bs = Some ([], bs)"
| "dec_n (Suc n) bs =
     (case dec bs of None \<Rightarrow> None
      | Some (x, r) \<Rightarrow> map_option (\<lambda>(xs, r'). (x # xs, r')) (dec_n n r))"

lemma dec_n_enc_all:
  "\<forall>x\<in>set xs. valid x \<Longrightarrow> dec_n (length xs) (enc_all xs @ rest) = Some (xs, rest)"
proof (induction xs)
  case Nil
  show ?case by (simp add: enc_all_def)
next
  case (Cons x xs)
  have "dec (enc_all (x # xs) @ rest) = Some (x, enc_all xs @ rest)"
    using Cons.prems dec_enc [of x "enc_all xs @ rest"] by (simp add: enc_all_def)
  with Cons show ?case by simp
qed

lemma enc_unique:
  assumes "valid x" "valid y" "enc x @ r = enc y @ s"
  shows "x = y \<and> r = s"
proof -
  have "Some (x, r) = Some (y, s)"
    using dec_enc [OF assms(1), of r] dec_enc [OF assms(2), of s] unfolding assms(3) by (rule trans [OF sym])
  then show ?thesis by simp
qed

lemma enc_all_inj:
  assumes "\<forall>x\<in>set xs. valid x" "\<forall>y\<in>set ys. valid y" "enc_all xs = enc_all ys"
  shows "xs = ys"
  using assms
proof (induction xs arbitrary: ys)
  case Nil
  then show ?case
    using enc_nonempty by (cases ys) (simp_all add: enc_all_def)
next
  case (Cons x xs)
  have "enc_all ys \<noteq> []"
    using Cons.prems enc_nonempty [of x] unfolding Cons.prems(3) [symmetric] by (simp add: enc_all_def)
  then obtain y ys' where ys: "ys = y # ys'"
    by (cases ys) (simp_all add: enc_all_def)
  have "enc x @ enc_all xs = enc y @ enc_all ys'"
    using Cons.prems(3) unfolding ys enc_all_def by simp
  moreover have "valid x" and "valid y" and xs: "\<forall>x\<in>set xs. valid x" and ys': "\<forall>y\<in>set ys'. valid y"
    using Cons.prems(1,2) ys by simp_all
  ultimately have eq: "x = y" "enc_all xs = enc_all ys'"
    using enc_unique by blast+
  then show ?case
    using Cons.IH [OF xs ys'] ys by blast
qed

end

section \<open>Fields of the canonical form\<close>

definition field_bytes :: "byte list \<Rightarrow> byte list" where
  "field_bytes f = be32 (length f) @ f"

definition field_fits :: "byte list \<Rightarrow> bool" where
  "field_fits f \<longleftrightarrow> length f < U32_LIMIT"

definition parse_field :: "byte list \<Rightarrow> (byte list \<times> byte list) option" where
  "parse_field bs =
     (let n = of_be32 (take 4 bs); r = drop 4 bs
      in if length bs < 4 \<or> length r < n then None else Some (take n r, drop n r))"

interpretation fields: prefix_code field_bytes field_fits parse_field
  by unfold_locales
    (auto simp: field_bytes_def field_fits_def parse_field_def Let_def of_be32_be32)

section \<open>Frames of the broker socket\<close>

definition MAX_TRUSTED_FRAME_BYTES :: nat where
  "MAX_TRUSTED_FRAME_BYTES = 1024 * 1024"

datatype frame_error = InvalidFrameLength | ReadFrameLength | ReadTrustedFrame

text \<open>
  \<open>write_frame\<close> yields the bytes it puts on the socket. \<open>read_frame\<close> consumes them from the bytes
  that will ever arrive; a stream that ends early is the I/O error of \<open>read_u32\<close> or
  \<open>read_exact\<close>.
\<close>

definition write_frame :: "byte list \<Rightarrow> (frame_error, byte list) result" where
  "write_frame body =
     (if body = [] \<or> length body > MAX_TRUSTED_FRAME_BYTES then Inl InvalidFrameLength
      else Inr (be32 (length body) @ body))"

definition read_frame :: "byte list \<Rightarrow> (frame_error, byte list \<times> byte list) result" where
  "read_frame reader =
     (if length reader < 4 then Inl ReadFrameLength
      else let len = of_be32 (take 4 reader); rest = drop 4 reader
           in if len = 0 \<or> len > MAX_TRUSTED_FRAME_BYTES then Inl InvalidFrameLength
              else if length rest < len then Inl ReadTrustedFrame
              else Inr (take len rest, drop len rest))"

definition frame_ok :: "byte list \<Rightarrow> bool" where
  "frame_ok body \<longleftrightarrow> is_ok (write_frame body)"

definition frame_bytes :: "byte list \<Rightarrow> byte list" where
  "frame_bytes body = (case write_frame body of Inl _ \<Rightarrow> [] | Inr bs \<Rightarrow> bs)"

definition next_frame :: "byte list \<Rightarrow> (byte list \<times> byte list) option" where
  "next_frame bs = (case read_frame bs of Inl _ \<Rightarrow> None | Inr p \<Rightarrow> Some p)"

lemma frame_ok_iff: "frame_ok body \<longleftrightarrow> 0 < length body \<and> length body \<le> MAX_TRUSTED_FRAME_BYTES"
  by (auto simp: frame_ok_def write_frame_def is_ok_iff)

lemma read_write_frame:
  assumes "write_frame body = Inr bs"
  shows "read_frame (bs @ rest) = Inr (body, rest)"
proof -
  from assms have bs: "bs = be32 (length body) @ body" and len: "body \<noteq> []"
    "length body \<le> MAX_TRUSTED_FRAME_BYTES"
    by (auto simp: write_frame_def split: if_splits)
  then have "of_be32 (be32 (length body)) = length body"
    by (intro of_be32_be32) (simp add: U32_LIMIT_def MAX_TRUSTED_FRAME_BYTES_def)
  with bs len show ?thesis by (simp add: read_frame_def Let_def)
qed

interpretation frames: prefix_code frame_bytes frame_ok next_frame
proof unfold_locales
  fix x rest
  assume "frame_ok x"
  then obtain bs where w: "write_frame x = Inr bs" by (auto simp: frame_ok_def is_ok_iff)
  then show "next_frame (frame_bytes x @ rest) = Some (x, rest)"
    by (simp add: frame_bytes_def next_frame_def read_write_frame)
  from w show "frame_bytes x \<noteq> []"
    by (auto simp: frame_bytes_def write_frame_def split: if_splits)
qed

text \<open>A session writes and reads frames one after another, stopping at the first error.\<close>

fun write_frames :: "byte list list \<Rightarrow> (frame_error, byte list) result" where
  "write_frames [] = Inr []"
| "write_frames (b # bs) =
     try_bind (write_frame b) (\<lambda>x. try_bind (write_frames bs) (\<lambda>y. Inr (x @ y)))"

fun read_frames :: "nat \<Rightarrow> byte list \<Rightarrow> (frame_error, byte list list \<times> byte list) result" where
  "read_frames 0 bs = Inr ([], bs)"
| "read_frames (Suc n) bs =
     try_bind (read_frame bs) (\<lambda>(x, r). try_bind (read_frames n r) (\<lambda>(xs, r'). Inr (x # xs, r')))"

lemma write_frames_enc:
  "write_frames bodies = Inr bs \<Longrightarrow> (\<forall>b\<in>set bodies. frame_ok b) \<and> bs = frames.enc_all bodies"
  by (induction bodies arbitrary: bs)
    (auto simp: frames.enc_all_def frame_ok_def frame_bytes_def result_simps)

lemma read_frames_dec:
  "frames.dec_n n bs = Some (xs, r) \<Longrightarrow> read_frames n bs = Inr (xs, r)"
  by (induction n arbitrary: bs xs r)
    (auto simp: next_frame_def split: option.splits sum.splits prod.splits)

text \<open>
  C28: the broker socket delivers every sequence of frames exactly as written. If every body passes
  \<open>write_frame\<close>, reading as many frames back returns the bodies in order and leaves precisely the
  bytes that follow; and no other sequence of bodies produces the same bytes.
\<close>

theorem frame_stream_roundtrip:
  assumes "write_frames bodies = Inr bs"
  shows "read_frames (length bodies) (bs @ rest) = Inr (bodies, rest) \<and>
         (write_frames others = Inr bs \<longrightarrow> others = bodies)"
  using write_frames_enc [OF assms] write_frames_enc [of others bs] frames.enc_all_inj
    read_frames_dec [OF frames.dec_n_enc_all] by blast

theorem frame_stream_roundtrip_witness:
  "write_frames [[1, 2], [3]] = Inr [0, 0, 0, 2, 1, 2, 0, 0, 0, 1, 3] \<and>
   read_frames 2 [0, 0, 0, 2, 1, 2, 0, 0, 0, 1, 3, 9] = Inr ([[1, 2], [3]], [9])"
proof -
  have h: "write_frames [[1, 2], [3]] = Inr [0, 0, 0, 2, 1, 2, 0, 0, 0, 1, 3]"
    by (simp add: write_frame_def MAX_TRUSTED_FRAME_BYTES_def be32_def)
  show ?thesis
    using h frame_stream_roundtrip [OF h, of "[9]" "[]"] by (simp add: numeral_2_eq_2)
qed

text \<open>
  \<open>read_frame\<close> never returns a body that \<open>write_frame\<close> would refuse, and what it returned is
  exactly what the writer put in front of the remaining bytes: an empty or oversized length prefix
  is rejected before any body byte is read.
\<close>

theorem read_frame_sound:
  assumes "read_frame bs = Inr (body, rest)"
  shows "0 < length body \<and> length body \<le> MAX_TRUSTED_FRAME_BYTES \<and>
         length bs = 4 + length body + length rest \<and> of_be32 (take 4 bs) = length body \<and>
         drop 4 bs = body @ rest"
proof -
  let ?n = "of_be32 (take 4 bs)"
  from assms have "body = take ?n (drop 4 bs)" and "rest = drop ?n (drop 4 bs)"
    and "\<not> length bs < 4" and "\<not> length (drop 4 bs) < ?n" and "0 < ?n"
    and "?n \<le> MAX_TRUSTED_FRAME_BYTES"
    by (simp_all add: read_frame_def Let_def split: if_splits)
  moreover have "drop 4 bs = take ?n (drop 4 bs) @ drop ?n (drop 4 bs)"
    by (rule append_take_drop_id [symmetric])
  ultimately have "drop 4 bs = body @ rest" and "length body = ?n"
    and "length rest = length bs - 4 - ?n" and "\<not> length bs < 4" and "?n \<le> length bs - 4"
    and "0 < ?n" and "?n \<le> MAX_TRUSTED_FRAME_BYTES"
    by (simp_all only: length_take length_drop min.absorb2 not_less)
  then show ?thesis by linarith
qed

theorem read_frame_sound_witness:
  "read_frame [0, 0, 0, 1, 7, 8] = Inr ([7], [8]) \<and> of_be32 (take 4 [0, 0, 0, 1, 7, 8]) = 1"
proof -
  have h: "read_frame [0, 0, 0, 1, 7, 8] = Inr ([7], [8])"
    by (simp add: read_frame_def MAX_TRUSTED_FRAME_BYTES_def Let_def)
  show ?thesis using h read_frame_sound [OF h] by simp
qed

end
