(* ===== verification/Internal_Auth.thy ===== *)
theory Internal_Auth
  imports Byte_Codec
begin

text \<open>
  \<open>shared/src/internal_auth.rs\<close>: mutually authenticated requests between the community server and
  the enterprise sidecar. HMAC-SHA-256, base64 and JSON come from other crates: they are the fields
  of the record \<open>primitives\<close>, an argument of every definition that uses them. What the theorems
  need of them (decoding inverts encoding, the MAC has no collisions) are hypotheses.

  Shown: the canonical form is injective and separates requests from responses, signing and
  verifying round-trip, and an accepted request is, field for field, the one that was signed.
\<close>

record primitives =
  b64url_encode :: "byte list \<Rightarrow> string"
  b64url_decode :: "string \<Rightarrow> byte list option"
  b64std_decode :: "string \<Rightarrow> byte list option"
  hmac_sha256 :: "byte list \<Rightarrow> byte list \<Rightarrow> byte list option"
  json_string_map :: "string \<Rightarrow> (string \<times> string) list option"

section \<open>Types\<close>

definition MAX_TIMESTAMP_SKEW_SECS :: int where
  "MAX_TIMESTAMP_SKEW_SECS = 120"

datatype Direction = CeToEe | EeToCe

definition label :: "Direction \<Rightarrow> string" where
  "label d = (case d of CeToEe \<Rightarrow> ''ce-to-ee'' | EeToCe \<Rightarrow> ''ee-to-ce'')"

record InternalKey =
  ik_id :: string
  ik_secret :: "byte list"

record SignedRequest =
  sr_key_id :: string
  sr_timestamp :: int
  sr_nonce :: string
  sr_signature :: string
  sr_direction :: Direction

record SignedResponse =
  sp_key_id :: string
  sp_request_nonce :: string
  sp_signature :: string
  sp_direction :: Direction

datatype AuthError =
    InvalidKeyId | ShortKey | InvalidKeyring | UnknownKey | InvalidNonce | StaleTimestamp
  | WrongDirection | InvalidSignature | InvalidField

definition InternalKey_new :: "string \<Rightarrow> byte list \<Rightarrow> (AuthError, InternalKey) result" where
  "InternalKey_new kid secret =
     (if kid = [] \<or> length kid > 64 \<or>
         \<not> list_all (\<lambda>c. is_ascii_alphanumeric c \<or> c \<in> set ''._-'') kid
      then Inl InvalidKeyId
      else if length secret < 32 then Inl ShortKey
      else Inr \<lparr>ik_id = kid, ik_secret = secret\<rparr>)"

section \<open>Canonical form\<close>

definition append_field :: "byte list \<Rightarrow> byte list \<Rightarrow> (AuthError, byte list) result" where
  "append_field output field =
     (if length field < U32_LIMIT then Inr (output @ be32 (length field) @ field)
      else Inl InvalidField)"

fun append_fields :: "byte list \<Rightarrow> byte list list \<Rightarrow> (AuthError, byte list) result" where
  "append_fields output [] = Inr output"
| "append_fields output (f # fs) = try_bind (append_field output f) (\<lambda>o'. append_fields o' fs)"

text \<open>The signed parts of a request other than direction, key, timestamp and nonce.\<close>

record request_parts =
  rp_method :: string
  rp_path :: string
  rp_body :: "byte list"
  rp_content_type :: string
  rp_login :: string
  rp_role :: string

definition request_fields ::
    "Direction \<Rightarrow> string \<Rightarrow> int \<Rightarrow> string \<Rightarrow> request_parts \<Rightarrow> byte list list" where
  "request_fields direction key_id timestamp nonce p =
     [str_bytes ''shellfleet-internal-request-v1'', str_bytes (label direction),
      str_bytes key_id, str_bytes (int_to_dec timestamp), str_bytes nonce,
      str_bytes (rp_method p), str_bytes (rp_path p), rp_body p,
      str_bytes (rp_content_type p), str_bytes (rp_login p), str_bytes (rp_role p)]"

definition canonical_request ::
    "Direction \<Rightarrow> string \<Rightarrow> int \<Rightarrow> string \<Rightarrow> request_parts \<Rightarrow> (AuthError, byte list) result" where
  "canonical_request direction key_id timestamp nonce p =
     append_fields [] (request_fields direction key_id timestamp nonce p)"

definition response_fields ::
    "Direction \<Rightarrow> string \<Rightarrow> string \<Rightarrow> u16 \<Rightarrow> byte list \<Rightarrow> byte list list" where
  "response_fields direction key_id request_nonce status body =
     [str_bytes ''shellfleet-internal-response-v1'', str_bytes (label direction),
      str_bytes key_id, str_bytes request_nonce, str_bytes (nat_to_dec (unat status)), body]"

definition canonical_response ::
    "Direction \<Rightarrow> string \<Rightarrow> string \<Rightarrow> u16 \<Rightarrow> byte list \<Rightarrow> (AuthError, byte list) result" where
  "canonical_response direction key_id request_nonce status body =
     append_fields [] (response_fields direction key_id request_nonce status body)"

section \<open>Signatures and keys\<close>

definition signature :: "primitives \<Rightarrow> InternalKey \<Rightarrow> byte list \<Rightarrow> (AuthError, string) result" where
  "signature P key canonical =
     try_bind (ok_or (hmac_sha256 P (ik_secret key) canonical) InvalidSignature)
       (\<lambda>tag. Inr (b64url_encode P tag))"

definition verify_signature ::
    "primitives \<Rightarrow> InternalKey \<Rightarrow> byte list \<Rightarrow> string \<Rightarrow> (AuthError, unit) result" where
  "verify_signature P key canonical encoded =
     try_bind (ok_or (b64url_decode P encoded) InvalidSignature) (\<lambda>sig.
     try_bind (ok_or (hmac_sha256 P (ik_secret key) canonical) InvalidSignature) (\<lambda>tag.
     ensure (tag = sig) InvalidSignature))"

definition find_key :: "InternalKey list \<Rightarrow> string \<Rightarrow> (AuthError, InternalKey) result" where
  "find_key keys kid = ok_or (find (\<lambda>k. ik_id k = kid) keys) UnknownKey"

definition validate_nonce :: "primitives \<Rightarrow> string \<Rightarrow> (AuthError, unit) result" where
  "validate_nonce P encoded =
     try_bind (ok_or (b64url_decode P encoded) InvalidNonce)
       (\<lambda>nonce. ensure (length nonce = 32) InvalidNonce)"

definition decode_secret :: "primitives \<Rightarrow> string \<Rightarrow> (AuthError, byte list) result" where
  "decode_secret P secret =
     (case b64std_decode P secret of Some d \<Rightarrow> Inr d
      | None \<Rightarrow> ok_or (b64url_decode P secret) InvalidKeyring)"

fun parse_entries :: "primitives \<Rightarrow> (string \<times> string) list \<Rightarrow> (AuthError, InternalKey list) result" where
  "parse_entries P [] = Inr []"
| "parse_entries P ((kid, secret) # es) =
     try_bind (decode_secret P secret) (\<lambda>d.
     try_bind (InternalKey_new kid d) (\<lambda>k.
     try_bind (parse_entries P es) (\<lambda>ks. Inr (k # ks))))"

definition parse_keyring :: "primitives \<Rightarrow> string \<Rightarrow> (AuthError, InternalKey list) result" where
  "parse_keyring P json =
     try_bind (ok_or (json_string_map P json) InvalidKeyring) (\<lambda>encoded.
       if encoded = [] then Inl InvalidKeyring else parse_entries P encoded)"

definition active_key :: "InternalKey list \<Rightarrow> string \<Rightarrow> (AuthError, InternalKey) result" where
  "active_key keys kid = find_key keys kid"

section \<open>Requests and responses\<close>

definition sign_request ::
    "primitives \<Rightarrow> InternalKey \<Rightarrow> Direction \<Rightarrow> int \<Rightarrow> byte list \<Rightarrow> request_parts
      \<Rightarrow> (AuthError, SignedRequest) result" where
  "sign_request P key direction timestamp nonce p =
     (let n = b64url_encode P nonce in
      try_bind (canonical_request direction (ik_id key) timestamp n p) (\<lambda>canonical.
      try_bind (signature P key canonical) (\<lambda>sig.
      Inr \<lparr>sr_key_id = ik_id key, sr_timestamp = timestamp, sr_nonce = n, sr_signature = sig,
           sr_direction = direction\<rparr>)))"

definition verify_request ::
    "primitives \<Rightarrow> InternalKey list \<Rightarrow> Direction \<Rightarrow> SignedRequest \<Rightarrow> int \<Rightarrow> request_parts
      \<Rightarrow> (AuthError, unit) result" where
  "verify_request P keys direction sreq now p =
     (if sr_direction sreq \<noteq> direction then Inl WrongDirection
      else if \<bar>now - sr_timestamp sreq\<bar> > MAX_TIMESTAMP_SKEW_SECS then Inl StaleTimestamp
      else try_bind (validate_nonce P (sr_nonce sreq)) (\<lambda>_.
           try_bind (find_key keys (sr_key_id sreq)) (\<lambda>key.
           try_bind (canonical_request direction (sr_key_id sreq) (sr_timestamp sreq)
                       (sr_nonce sreq) p) (\<lambda>canonical.
           verify_signature P key canonical (sr_signature sreq)))))"

definition sign_response ::
    "primitives \<Rightarrow> InternalKey \<Rightarrow> Direction \<Rightarrow> string \<Rightarrow> u16 \<Rightarrow> byte list
      \<Rightarrow> (AuthError, SignedResponse) result" where
  "sign_response P key direction request_nonce status body =
     try_bind (validate_nonce P request_nonce) (\<lambda>_.
     try_bind (canonical_response direction (ik_id key) request_nonce status body) (\<lambda>canonical.
     try_bind (signature P key canonical) (\<lambda>sig.
     Inr \<lparr>sp_key_id = ik_id key, sp_request_nonce = request_nonce, sp_signature = sig,
          sp_direction = direction\<rparr>)))"

definition verify_response ::
    "primitives \<Rightarrow> InternalKey list \<Rightarrow> Direction \<Rightarrow> SignedResponse \<Rightarrow> u16 \<Rightarrow> byte list
      \<Rightarrow> (AuthError, unit) result" where
  "verify_response P keys direction sres status body =
     (if sp_direction sres \<noteq> direction then Inl WrongDirection
      else try_bind (validate_nonce P (sp_request_nonce sres)) (\<lambda>_.
           try_bind (find_key keys (sp_key_id sres)) (\<lambda>key.
           try_bind (canonical_response direction (sp_key_id sres) (sp_request_nonce sres)
                       status body) (\<lambda>canonical.
           verify_signature P key canonical (sp_signature sres)))))"

section \<open>Lemmas\<close>

lemma label_inj [simp]: "label d = label d' \<longleftrightarrow> d = d'"
  by (cases d; cases d') (simp_all add: label_def)

lemma append_fields_iff:
  "append_fields out fs = Inr bs \<longleftrightarrow>
     (\<forall>f\<in>set fs. field_fits f) \<and> bs = out @ fields.enc_all fs"
  by (induction fs arbitrary: out)
    (auto simp: append_field_def field_fits_def fields.enc_all_def field_bytes_def)

lemma append_fields_inj:
  assumes "append_fields [] fs = Inr bs" and "append_fields [] gs = Inr bs"
  shows "fs = gs"
  using assms fields.enc_all_inj [of fs gs] by (auto simp: append_fields_iff)

lemma request_fields_inj:
  "request_fields d k t n p = request_fields d' k' t' n' p' \<longleftrightarrow>
     d = d' \<and> k = k' \<and> t = t' \<and> n = n' \<and> p = (p' :: request_parts)"
  by (auto simp: request_fields_def)

lemma response_fields_inj:
  "response_fields d k n st b = response_fields d' k' n' st' b' \<longleftrightarrow>
     d = d' \<and> k = k' \<and> n = n' \<and> st = st' \<and> b = b'"
  by (auto simp: response_fields_def nat_to_dec_inj word_unat_eq_iff)

lemma canonical_request_inj:
  assumes "canonical_request d k t n p = Inr bs" and "canonical_request d' k' t' n' p' = Inr bs"
  shows "d = d' \<and> k = k' \<and> t = t' \<and> n = n' \<and> p = (p' :: request_parts)"
  using assms append_fields_inj unfolding canonical_request_def request_fields_inj [symmetric] by blast

lemma canonical_response_inj:
  assumes "canonical_response d k n st b = Inr bs" and "canonical_response d' k' n' st' b' = Inr bs"
  shows "d = d' \<and> k = k' \<and> n = n' \<and> st = st' \<and> b = b'"
  using assms append_fields_inj unfolding canonical_response_def response_fields_inj [symmetric] by blast

lemma verify_request_Inr:
  "verify_request P keys d s now p = Inr () \<longleftrightarrow>
     sr_direction s = d \<and> \<bar>now - sr_timestamp s\<bar> \<le> MAX_TIMESTAMP_SKEW_SECS \<and>
     validate_nonce P (sr_nonce s) = Inr () \<and>
     (\<exists>key canonical tag. find_key keys (sr_key_id s) = Inr key \<and>
        canonical_request d (sr_key_id s) (sr_timestamp s) (sr_nonce s) p = Inr canonical \<and>
        hmac_sha256 P (ik_secret key) canonical = Some tag \<and>
        b64url_decode P (sr_signature s) = Some tag)"
  by (auto simp: verify_request_def verify_signature_def result_simps not_less)

lemma verify_response_Inr:
  "verify_response P keys d s st b = Inr () \<longleftrightarrow>
     sp_direction s = d \<and> validate_nonce P (sp_request_nonce s) = Inr () \<and>
     (\<exists>key canonical tag. find_key keys (sp_key_id s) = Inr key \<and>
        canonical_response d (sp_key_id s) (sp_request_nonce s) st b = Inr canonical \<and>
        hmac_sha256 P (ik_secret key) canonical = Some tag \<and>
        b64url_decode P (sp_signature s) = Some tag)"
  by (auto simp: verify_response_def verify_signature_def result_simps)

lemma sign_response_Inr:
  "sign_response P key d n st b = Inr s \<longleftrightarrow>
     (\<exists>canonical tag. validate_nonce P n = Inr () \<and>
        canonical_response d (ik_id key) n st b = Inr canonical \<and>
        hmac_sha256 P (ik_secret key) canonical = Some tag \<and>
        s = \<lparr>sp_key_id = ik_id key, sp_request_nonce = n, sp_signature = b64url_encode P tag,
             sp_direction = d\<rparr>)"
  by (auto simp: sign_response_def signature_def result_simps)

lemma sign_request_Inr:
  "sign_request P key d t nonce p = Inr s \<longleftrightarrow>
     (\<exists>canonical tag.
        canonical_request d (ik_id key) t (b64url_encode P nonce) p = Inr canonical \<and>
        hmac_sha256 P (ik_secret key) canonical = Some tag \<and>
        s = \<lparr>sr_key_id = ik_id key, sr_timestamp = t, sr_nonce = b64url_encode P nonce,
             sr_signature = b64url_encode P tag, sr_direction = d\<rparr>)"
  by (auto simp: sign_request_def signature_def Let_def result_simps)

lemma sign_verify_ok:
  assumes b64: "\<And>b. b64url_decode P (b64url_encode P b) = Some b"
    and honest: "sign_request P key d t nonce p = Inr s"
    and nonce: "length nonce = 32"
    and ring: "find_key keys (ik_id key) = Inr key"
    and skew: "\<bar>now - t\<bar> \<le> MAX_TIMESTAMP_SKEW_SECS"
  shows "verify_request P keys d s now p = Inr ()"
  using honest nonce ring skew
  by (auto simp: verify_request_Inr sign_request_Inr validate_nonce_def b64)

lemma find_key_id: "find_key keys kid = Inr k \<Longrightarrow> ik_id k = kid \<and> k \<in> set keys"
  by (auto simp: find_key_def result_simps find_Some_iff)

lemma InternalKey_new_Inr:
  "InternalKey_new kid secret = Inr k \<Longrightarrow> ik_id k = kid \<and> ik_id k \<noteq> [] \<and> length (ik_id k) \<le> 64 \<and>
     32 \<le> length (ik_secret k)"
  by (auto simp: InternalKey_new_def split: if_splits)

lemma parse_entries_keys:
  "parse_entries P es = Inr ks \<Longrightarrow>
     map ik_id ks = map fst es \<and> (\<forall>k\<in>set ks. ik_id k \<noteq> [] \<and> 32 \<le> length (ik_secret k))"
  by (induction P es arbitrary: ks rule: parse_entries.induct)
    (auto simp: result_simps dest!: InternalKey_new_Inr)

section \<open>Properties\<close>

text \<open>A toy instance of the external primitives, used only to evaluate the witnesses below.\<close>

definition demo_primitives :: primitives where
  "demo_primitives =
     \<lparr>b64url_encode = map (\<lambda>b. char_of (unat b)), b64url_decode = (\<lambda>s. Some (str_bytes s)),
      b64std_decode = (\<lambda>s. Some (str_bytes s)), hmac_sha256 = (\<lambda>k m. Some (k @ m)),
      json_string_map = (\<lambda>s. Some [(''k1'', s)])\<rparr>"

definition demo_key :: InternalKey where
  "demo_key = \<lparr>ik_id = ''k1'', ik_secret = replicate 32 97\<rparr>"

definition demo_parts :: request_parts where
  "demo_parts = \<lparr>rp_method = ''GET'', rp_path = ''/'', rp_body = [], rp_content_type = [],
                 rp_login = [], rp_role = []\<rparr>"

lemma demo_b64: "b64url_decode demo_primitives (b64url_encode demo_primitives b) = Some b"
proof -
  have "word_of_nat (of_char (char_of (unat w) :: char)) = w" for w :: byte
    using unsigned_less [of w, where 'a = nat] by (simp add: of_char_of take_bit_eq_mod)
  then show ?thesis by (simp add: demo_primitives_def str_bytes_def o_def)
qed

lemma demo_hmac: "hmac_sha256 demo_primitives k m = hmac_sha256 demo_primitives k m' \<longleftrightarrow> m = m'"
  by (simp add: demo_primitives_def)

lemma demo_mac:
  "hmac_sha256 demo_primitives k m = Some tag \<Longrightarrow> hmac_sha256 demo_primitives k m' = Some tag \<Longrightarrow> m = m'"
  using demo_hmac by metis

lemma demo_signs: "\<exists>s. sign_request demo_primitives demo_key EeToCe 100 (replicate 32 65) demo_parts = Inr s"
proof -
  have "nat_to_dec 100 = ''100''" by code_simp
  then have "is_ok (canonical_request EeToCe ''k1'' 100
      (b64url_encode demo_primitives (replicate 32 65)) demo_parts)"
    by (simp add: canonical_request_def request_fields_def append_field_def label_def int_to_dec_def
        demo_parts_def demo_primitives_def U32_LIMIT_def)
  then show ?thesis
    by (auto simp: sign_request_Inr demo_key_def is_ok_iff demo_primitives_def)
qed

text \<open>
  The canonical form that is signed is unambiguous. Two requests with the same canonical bytes
  agree on direction, key id, timestamp, nonce, method, path, body, content type, login and role;
  two responses agree on every field; and no request shares its bytes with a response.
\<close>

theorem canonical_injective:
  "(canonical_request d k t n p = Inr bs \<and> canonical_request d' k' t' n' p' = Inr bs \<longrightarrow>
      d = d' \<and> k = k' \<and> t = t' \<and> n = n' \<and> p = (p' :: request_parts)) \<and>
   (canonical_response d k n st b = Inr bs \<and> canonical_response d' k' n' st' b' = Inr bs \<longrightarrow>
      d = d' \<and> k = k' \<and> n = n' \<and> st = st' \<and> b = b') \<and>
   \<not> (canonical_request d k t n p = Inr bs \<and> canonical_response d' k' n' st b = Inr bs)"
proof (intro conjI)
  have "request_fields d k t n p \<noteq> response_fields d' k' n' st b"
    by (simp add: request_fields_def response_fields_def)
  then show "\<not> (canonical_request d k t n p = Inr bs \<and> canonical_response d' k' n' st b = Inr bs)"
    using append_fields_inj unfolding canonical_request_def canonical_response_def by blast
qed (use canonical_request_inj [of d k t n p bs d' k' t' n' p']
      canonical_response_inj [of d k n st b bs d' k' n' st' b'] in auto)

theorem canonical_injective_witness:
  "\<exists>bs bs'. canonical_request CeToEe ''k'' 1 ''n'' demo_parts = Inr bs \<and>
      canonical_request EeToCe ''k'' 1 ''n'' demo_parts = Inr bs' \<and> bs \<noteq> bs'"
proof -
  have dec: "nat_to_dec (Suc 0) = ''1''" by code_simp
  obtain bs bs' where r: "canonical_request CeToEe ''k'' 1 ''n'' demo_parts = Inr bs"
      "canonical_request EeToCe ''k'' 1 ''n'' demo_parts = Inr bs'"
    by (simp add: canonical_request_def request_fields_def append_field_def label_def int_to_dec_def
        demo_parts_def U32_LIMIT_def dec)
  moreover have "bs \<noteq> bs'"
    using canonical_injective [of CeToEe "''k''" 1 "''n''" demo_parts bs EeToCe "''k''" 1 "''n''" demo_parts] r
    by auto
  ultimately show ?thesis by blast
qed

text \<open>
  Signing and verifying round-trip. A request signed with a 32-byte nonce under a key of the
  receiver's ring is accepted by the receiver for the same direction and fields at every time
  within the allowed clock skew, provided base64 decoding inverts encoding.
\<close>

theorem sign_verify_roundtrip:
  assumes b64: "\<And>b. b64url_decode P (b64url_encode P b) = Some b"
    and honest: "sign_request P key d t nonce p = Inr s"
    and nonce: "length nonce = 32"
    and ring: "find_key keys (ik_id key) = Inr key"
    and skew: "\<bar>now - t\<bar> \<le> MAX_TIMESTAMP_SKEW_SECS"
  shows "verify_request P keys d s now p = Inr ()"
  using assms by (rule sign_verify_ok)

theorem sign_verify_roundtrip_witness:
  "\<exists>s. sign_request demo_primitives demo_key EeToCe 100 (replicate 32 65) demo_parts = Inr s \<and>
       verify_request demo_primitives [demo_key] EeToCe s 220 demo_parts = Inr ()"
proof -
  obtain s where s: "sign_request demo_primitives demo_key EeToCe 100 (replicate 32 65) demo_parts = Inr s"
    using demo_signs by blast
  moreover have "verify_request demo_primitives [demo_key] EeToCe s 220 demo_parts = Inr ()"
    by (rule sign_verify_roundtrip [OF demo_b64 s])
      (simp_all add: find_key_def MAX_TIMESTAMP_SKEW_SECS_def)
  ultimately show ?thesis by blast
qed

text \<open>
  The signature binds the whole request. If the MAC has no collisions under the key and base64
  decoding inverts encoding, then a request that carries the signature of an honestly signed request
  under the same key id is accepted only if it has the same direction, timestamp, nonce, method,
  path, body, content type, login and role: no field can be altered in transit.
\<close>

theorem signature_binds_request:
  assumes b64: "\<And>b. b64url_decode P (b64url_encode P b) = Some b"
    and mac: "\<And>m m' tag. hmac_sha256 P (ik_secret key) m = Some tag \<Longrightarrow>
                hmac_sha256 P (ik_secret key) m' = Some tag \<Longrightarrow> m = m'"
    and honest: "sign_request P key d t nonce p = Inr s"
    and ring: "find_key keys (ik_id key) = Inr key"
    and accepted: "verify_request P keys d' s' now p' = Inr ()"
    and same: "sr_signature s' = sr_signature s" "sr_key_id s' = ik_id key"
  shows "d' = d \<and> sr_timestamp s' = t \<and> sr_nonce s' = sr_nonce s \<and> p' = (p :: request_parts) \<and>
         \<bar>now - t\<bar> \<le> MAX_TIMESTAMP_SKEW_SECS"
proof -
  obtain c tag where c: "canonical_request d (ik_id key) t (b64url_encode P nonce) p = Inr c"
    and tag: "hmac_sha256 P (ik_secret key) c = Some tag"
    and s: "s = \<lparr>sr_key_id = ik_id key, sr_timestamp = t, sr_nonce = b64url_encode P nonce,
             sr_signature = b64url_encode P tag, sr_direction = d\<rparr>"
    using honest by (auto simp: sign_request_Inr)
  obtain c' where c': "canonical_request d' (ik_id key) (sr_timestamp s') (sr_nonce s') p' = Inr c'"
    and tag': "hmac_sha256 P (ik_secret key) c' = Some tag"
    using accepted same ring s b64 by (auto simp: verify_request_Inr)
  have "c' = c" using tag tag' mac by blast
  then have "d' = d \<and> sr_timestamp s' = t \<and> sr_nonce s' = b64url_encode P nonce \<and> p' = p"
    using canonical_request_inj [OF c'] c by blast
  then show ?thesis using accepted s by (auto simp: verify_request_Inr)
qed

theorem signature_binds_request_witness:
  "\<exists>s. sign_request demo_primitives demo_key EeToCe 100 (replicate 32 65) demo_parts = Inr s \<and>
       \<not> is_ok (verify_request demo_primitives [demo_key] EeToCe s 220
                 (demo_parts\<lparr>rp_role := ''admin''\<rparr>))"
proof -
  obtain s where s: "sign_request demo_primitives demo_key EeToCe 100 (replicate 32 65) demo_parts = Inr s"
    using demo_signs by blast
  have "verify_request demo_primitives [demo_key] EeToCe s 220 (demo_parts\<lparr>rp_role := ''admin''\<rparr>) \<noteq> Inr ()"
  proof
    assume acc: "verify_request demo_primitives [demo_key] EeToCe s 220
                   (demo_parts\<lparr>rp_role := ''admin''\<rparr>) = Inr ()"
    have "demo_parts\<lparr>rp_role := ''admin''\<rparr> = demo_parts"
      using signature_binds_request [OF demo_b64 demo_mac s _ acc] s
      by (simp add: find_key_def) (auto simp: sign_request_Inr)
    then show False by (simp add: demo_parts_def)
  qed
  with s show ?thesis by (auto simp: is_ok_iff)
qed

end
