(* ===== verification/Internal_Gate.thy ===== *)
theory Internal_Gate
  imports Internal_Auth
begin

text \<open>
  \<open>server/src/internal_auth.rs\<close>: the server's side of the authenticated channel to the enterprise
  sidecar. \<open>require_ee_signature\<close> is the middleware in front of every internal route: it checks
  the signature headers, consumes the nonce in SQLite, strips the signature headers, runs the route
  and signs its answer. \<open>send\<close> is the outbound direction.

  The environment, the clock, the SQLite fault and the routed handler are arguments. The header type
  of the \<open>http\<close> crate is an association list whose conversions to and from \<open>str\<close> are the record
  \<open>header_codec\<close>. Shown: what is forwarded and with which status everything else is refused, that
  no signed request is forwarded twice over any run, and that answers verify at the peer.
\<close>

section \<open>Headers, requests, responses\<close>

definition HEADER_KEY_ID :: string where "HEADER_KEY_ID = ''x-shellfleet-key-id''"
definition HEADER_TIMESTAMP :: string where "HEADER_TIMESTAMP = ''x-shellfleet-timestamp''"
definition HEADER_NONCE :: string where "HEADER_NONCE = ''x-shellfleet-nonce''"
definition HEADER_SIGNATURE :: string where "HEADER_SIGNATURE = ''x-shellfleet-signature''"
definition HEADER_RESPONSE_SIGNATURE :: string where
  "HEADER_RESPONSE_SIGNATURE = ''x-shellfleet-response-signature''"

lemmas header_name_defs = HEADER_KEY_ID_def HEADER_TIMESTAMP_def HEADER_NONCE_def HEADER_SIGNATURE_def
  HEADER_RESPONSE_SIGNATURE_def

type_synonym header_map = "(string \<times> string) list"

record header_codec =
  hv_to_str :: "string \<Rightarrow> string option"
  hv_from_str :: "string \<Rightarrow> string option"

record http_request =
  rq_method :: string
  rq_path :: string
  rq_headers :: header_map
  rq_body :: "byte list"

record http_response =
  rs_status :: u16
  rs_headers :: header_map
  rs_body :: "byte list"

definition header_insert :: "string \<Rightarrow> string \<Rightarrow> header_map \<Rightarrow> header_map" where
  "header_insert n v hs = (n, v) # filter (\<lambda>h. fst h \<noteq> n) hs"

definition header_remove :: "string \<Rightarrow> header_map \<Rightarrow> header_map" where
  "header_remove n hs = filter (\<lambda>h. fst h \<noteq> n) hs"

text \<open>\<open>str::parse::<i64>\<close>: an optional sign, then at least one digit, in the range of \<open>i64\<close>.\<close>

definition is_digit :: "char \<Rightarrow> bool" where
  "is_digit c \<longleftrightarrow> 48 \<le> (of_char c :: nat) \<and> of_char c \<le> (57 :: nat)"

definition parse_digits :: "string \<Rightarrow> nat option" where
  "parse_digits s = (if s \<noteq> [] \<and> list_all is_digit s then Some (dec_value s) else None)"

definition parse_i64 :: "string \<Rightarrow> int option" where
  "parse_i64 s =
     (let r = (case s of
                 [] \<Rightarrow> None
               | c # cs \<Rightarrow> if c = CHR ''-'' then map_option (\<lambda>n. - int n) (parse_digits cs)
                          else if c = CHR ''+'' then map_option int (parse_digits cs)
                          else map_option int (parse_digits s))
      in case r of None \<Rightarrow> None
         | Some i \<Rightarrow> if - (2 ^ 63) \<le> i \<and> i < 2 ^ 63 then Some i else None)"

section \<open>Configuration and errors\<close>

definition MAX_INTERNAL_BODY :: nat where "MAX_INTERNAL_BODY = 8 * 1024 * 1024"
definition NONCE_TTL_SECS :: int where "NONCE_TTL_SECS = 300"

datatype Error =
    MissingConfig string | Auth AuthError | Database | Replay | BadHeader | BodyTooLarge | InvalidUrl
  | Transport

record Config =
  cf_ce_to_ee :: "InternalKey list"
  cf_ce_to_ee_active :: string
  cf_ee_to_ce :: "InternalKey list"

definition auth_result :: "(AuthError, 'a) result \<Rightarrow> (Error, 'a) result" where
  "auth_result r = (case r of Inl e \<Rightarrow> Inl (Auth e) | Inr x \<Rightarrow> Inr x)"

definition from_values ::
    "primitives \<Rightarrow> string \<Rightarrow> string \<Rightarrow> string \<Rightarrow> string \<Rightarrow> (Error, Config) result" where
  "from_values P ce_to_ee_json ce_to_ee_active ee_to_ce_json ee_to_ce_active =
     try_bind (auth_result (parse_keyring P ce_to_ee_json)) (\<lambda>ce_to_ee.
     try_bind (auth_result (parse_keyring P ee_to_ce_json)) (\<lambda>ee_to_ce.
     try_bind (auth_result (active_key ce_to_ee ce_to_ee_active)) (\<lambda>_.
     try_bind (auth_result (active_key ee_to_ce ee_to_ce_active)) (\<lambda>_.
     Inr \<lparr>cf_ce_to_ee = ce_to_ee, cf_ce_to_ee_active = ce_to_ee_active, cf_ee_to_ce = ee_to_ce\<rparr>))))"

definition required_env :: "(string \<Rightarrow> string option) \<Rightarrow> string \<Rightarrow> (Error, string) result" where
  "required_env env name =
     (case env name of
        Some v \<Rightarrow> if trim v \<noteq> [] then Inr v else Inl (MissingConfig name)
      | None \<Rightarrow> Inl (MissingConfig name))"

definition from_env :: "primitives \<Rightarrow> (string \<Rightarrow> string option) \<Rightarrow> (Error, Config) result" where
  "from_env P env =
     try_bind (required_env env ''CE_TO_EE_HMAC_KEYS_JSON'') (\<lambda>a.
     try_bind (required_env env ''CE_TO_EE_HMAC_ACTIVE_KEY_ID'') (\<lambda>b.
     try_bind (required_env env ''EE_TO_CE_HMAC_KEYS_JSON'') (\<lambda>c.
     try_bind (required_env env ''EE_TO_CE_HMAC_ACTIVE_KEY_ID'') (\<lambda>d.
     from_values P a b c d))))"

definition ce_active :: "Config \<Rightarrow> (Error, InternalKey) result" where
  "ce_active cfg = auth_result (active_key (cf_ce_to_ee cfg) (cf_ce_to_ee_active cfg))"

section \<open>The nonce table\<close>

record nonce_row =
  nr_direction :: string
  nr_key_id :: string
  nr_nonce :: string
  nr_expires_at :: int

definition nonce_key :: "nonce_row \<Rightarrow> string \<times> string \<times> string" where
  "nonce_key r = (nr_direction r, nr_key_id r, nr_nonce r)"

definition direction_label :: "Direction \<Rightarrow> string" where
  "direction_label d = (case d of CeToEe \<Rightarrow> ''ce-to-ee'' | EeToCe \<Rightarrow> ''ee-to-ce'')"

definition consume_nonce ::
    "bool \<Rightarrow> nonce_row table \<Rightarrow> Direction \<Rightarrow> string \<Rightarrow> string \<Rightarrow> int
      \<Rightarrow> nonce_row table \<times> (Error, unit) result" where
  "consume_nonce fault t direction key_id nonce now =
     (if fault then (t, Inl Database)
      else let t1 = sql_delete (\<lambda>r. nr_expires_at r < now) t;
               row = \<lparr>nr_direction = direction_label direction, nr_key_id = key_id, nr_nonce = nonce,
                      nr_expires_at = now + NONCE_TTL_SECS\<rparr>;
               t2 = sql_insert_or_ignore nonce_key row t1
           in (t2, if length t2 - length t1 = 1 then Inr () else Inl Replay))"

section \<open>The middleware\<close>

definition header :: "header_codec \<Rightarrow> header_map \<Rightarrow> string \<Rightarrow> (Error, string) result" where
  "header H hs name =
     (case map_of hs name of None \<Rightarrow> Inl BadHeader
      | Some v \<Rightarrow> (case hv_to_str H v of None \<Rightarrow> Inl BadHeader
                  | Some s \<Rightarrow> if s \<noteq> [] then Inr s else Inl BadHeader))"

definition optional_header :: "header_codec \<Rightarrow> header_map \<Rightarrow> string \<Rightarrow> string" where
  "optional_header H hs name =
     (case map_of hs name of None \<Rightarrow> []
      | Some v \<Rightarrow> (case hv_to_str H v of None \<Rightarrow> [] | Some s \<Rightarrow> s))"

definition signed_error :: "u16 \<Rightarrow> string \<Rightarrow> http_response" where
  "signed_error status message = \<lparr>rs_status = status, rs_headers = [], rs_body = str_bytes message\<rparr>"

definition sign_axum_response ::
    "primitives \<Rightarrow> header_codec \<Rightarrow> Config \<Rightarrow> string \<Rightarrow> http_response \<Rightarrow> (Error, http_response) result" where
  "sign_axum_response P H cfg nonce response =
     (if length (rs_body response) > MAX_INTERNAL_BODY then Inl BodyTooLarge
      else try_bind (ce_active cfg) (\<lambda>key.
           try_bind (auth_result (sign_response P key CeToEe nonce (rs_status response)
                                    (rs_body response))) (\<lambda>sres.
           try_bind (ok_or (hv_from_str H (sp_key_id sres)) BadHeader) (\<lambda>k.
           try_bind (ok_or (hv_from_str H (sp_signature sres)) BadHeader) (\<lambda>sg.
           Inr (response\<lparr>rs_headers := header_insert HEADER_RESPONSE_SIGNATURE sg
                          (header_insert HEADER_KEY_ID k (rs_headers response))\<rparr>))))))"

text \<open>The fields the middleware reads off a request before it verifies anything.\<close>

definition read_signed ::
    "header_codec \<Rightarrow> header_map \<Rightarrow> (Error, SignedRequest) result" where
  "read_signed H hs =
     try_bind (header H hs HEADER_KEY_ID) (\<lambda>key_id.
     try_bind (try_bind (header H hs HEADER_TIMESTAMP) (\<lambda>v. ok_or (parse_i64 v) BadHeader)) (\<lambda>timestamp.
     try_bind (header H hs HEADER_NONCE) (\<lambda>nonce.
     try_bind (header H hs HEADER_SIGNATURE) (\<lambda>sig.
     Inr \<lparr>sr_key_id = key_id, sr_timestamp = timestamp, sr_nonce = nonce, sr_signature = sig,
          sr_direction = EeToCe\<rparr>))))"

definition read_parts :: "header_codec \<Rightarrow> http_request \<Rightarrow> request_parts" where
  "read_parts H rq =
     \<lparr>rp_method = rq_method rq, rp_path = rq_path rq, rp_body = rq_body rq,
      rp_content_type = optional_header H (rq_headers rq) ''content-type'',
      rp_login = optional_header H (rq_headers rq) ''x-shellfleet-login'',
      rp_role = optional_header H (rq_headers rq) ''x-shellfleet-role''\<rparr>"

definition strip_auth_headers :: "header_map \<Rightarrow> header_map" where
  "strip_auth_headers hs =
     foldl (\<lambda>h n. header_remove n h) hs
       [HEADER_KEY_ID, HEADER_TIMESTAMP, HEADER_NONCE, HEADER_SIGNATURE]"

text \<open>
  One pass through the middleware: the new nonce table, the request handed to the route if any, and
  the answer. \<open>verify_at\<close> and \<open>consume_at\<close> are the two readings of the clock.
\<close>

record gate_run =
  gr_nonces :: "nonce_row table"
  gr_forwarded :: "http_request option"
  gr_response :: http_response

definition or_auth_failure :: "(Error, http_response) result \<Rightarrow> http_response" where
  "or_auth_failure r = (case r of Inr x \<Rightarrow> x | Inl e \<Rightarrow> signed_error 500 ''auth failure'')"

definition require_ee_signature ::
    "primitives \<Rightarrow> header_codec \<Rightarrow> (string \<Rightarrow> string option) \<Rightarrow> (http_request \<Rightarrow> http_response)
      \<Rightarrow> int \<Rightarrow> int \<Rightarrow> bool \<Rightarrow> nonce_row table \<Rightarrow> http_request \<Rightarrow> gate_run" where
  "require_ee_signature P H env next_run verify_at consume_at fault t rq =
     (let refuse = (\<lambda>status msg. \<lparr>gr_nonces = t, gr_forwarded = None,
                                    gr_response = signed_error status msg\<rparr>)
      in case from_env P env of Inl _ \<Rightarrow> refuse 503 ''internal auth unavailable''
      | Inr cfg \<Rightarrow>
        (case read_signed H (rq_headers rq) of Inl _ \<Rightarrow> refuse 401 ''unauthorized''
         | Inr sreq \<Rightarrow>
           if length (rq_body rq) > MAX_INTERNAL_BODY then refuse 413 ''body too large''
           else
             (case verify_request P (cf_ee_to_ce cfg) EeToCe sreq verify_at (read_parts H rq) of
                Inl _ \<Rightarrow> refuse 401 ''unauthorized''
              | Inr _ \<Rightarrow>
                (case consume_nonce fault t EeToCe (sr_key_id sreq) (sr_nonce sreq) consume_at of
                   (t', Inl _) \<Rightarrow>
                     \<lparr>gr_nonces = t', gr_forwarded = None,
                      gr_response = or_auth_failure (sign_axum_response P H cfg (sr_nonce sreq)
                                      (signed_error 409 ''replayed request''))\<rparr>
                 | (t', Inr _) \<Rightarrow>
                     (let fwd = rq\<lparr>rq_headers := strip_auth_headers (rq_headers rq)\<rparr>
                      in \<lparr>gr_nonces = t', gr_forwarded = Some fwd,
                          gr_response = or_auth_failure (sign_axum_response P H cfg (sr_nonce sreq)
                                          (next_run fwd))\<rparr>)))))"

section \<open>The outbound call\<close>

text \<open>
  \<open>send\<close>: the peer is a function from the request to its answer, as the list of body chunks, with
  \<open>None\<close> for a transport failure. \<open>Url::parse\<close> is the argument \<open>url_path\<close>, giving path and query.
\<close>

fun collect_body :: "byte list \<Rightarrow> byte list option list \<Rightarrow> (Error, byte list) result" where
  "collect_body acc [] = Inr acc"
| "collect_body acc (None # cs) = Inl Transport"
| "collect_body acc (Some c # cs) =
     (if length acc + length c > MAX_INTERNAL_BODY then Inl BodyTooLarge
      else collect_body (acc @ c) cs)"

definition opt_header :: "string \<Rightarrow> string \<Rightarrow> header_map" where
  "opt_header n v = (if v \<noteq> [] then [(n, v)] else [])"

definition send ::
    "primitives \<Rightarrow> header_codec \<Rightarrow> (string \<Rightarrow> string option)
      \<Rightarrow> (string \<Rightarrow> (string \<times> string option) option)
      \<Rightarrow> (http_request \<Rightarrow> (u16 \<times> header_map \<times> byte list option list) option)
      \<Rightarrow> int \<Rightarrow> byte list \<Rightarrow> string \<Rightarrow> string \<Rightarrow> byte list \<Rightarrow> string \<Rightarrow> string \<Rightarrow> string
      \<Rightarrow> (Error, u16 \<times> byte list) result" where
  "send P H env url_path peer now nonce meth url body content_type login role =
     try_bind (from_env P env) (\<lambda>cfg.
     try_bind (ok_or (url_path url) InvalidUrl) (\<lambda>(path, query).
     let full = path @ (case query of None \<Rightarrow> [] | Some q \<Rightarrow> ''?'' @ q) in
     try_bind (ce_active cfg) (\<lambda>key.
     try_bind (auth_result (sign_request P key CeToEe now nonce
        \<lparr>rp_method = meth, rp_path = full, rp_body = body, rp_content_type = content_type,
         rp_login = login, rp_role = role\<rparr>)) (\<lambda>sreq.
     let rq = \<lparr>rq_method = meth, rq_path = full,
               rq_headers = [(HEADER_KEY_ID, sr_key_id sreq),
                  (HEADER_TIMESTAMP, int_to_dec (sr_timestamp sreq)),
                  (HEADER_NONCE, sr_nonce sreq), (HEADER_SIGNATURE, sr_signature sreq)]
                  @ opt_header ''content-type'' content_type
                  @ opt_header ''x-shellfleet-login'' login
                  @ opt_header ''x-shellfleet-role'' role,
               rq_body = body\<rparr> in
     try_bind (ok_or (peer rq) Transport) (\<lambda>(status, hs, chunks).
     try_bind (header H hs HEADER_KEY_ID) (\<lambda>response_key.
     try_bind (header H hs HEADER_RESPONSE_SIGNATURE) (\<lambda>response_signature.
     try_bind (collect_body [] chunks) (\<lambda>response_body.
     try_bind (auth_result (verify_response P (cf_ee_to_ce cfg) EeToCe
        \<lparr>sp_key_id = response_key, sp_request_nonce = sr_nonce sreq,
         sp_signature = response_signature, sp_direction = EeToCe\<rparr> status response_body)) (\<lambda>_.
     Inr (status, response_body))))))))))"

section \<open>Runs of the middleware\<close>

record gate_event =
  ge_request :: http_request
  ge_verify_at :: int
  ge_consume_at :: int
  ge_fault :: bool

abbreviation gate_step where
  "gate_step P H env nx t e \<equiv>
     require_ee_signature P H env nx (ge_verify_at e) (ge_consume_at e) (ge_fault e) t (ge_request e)"

text \<open>The events of a run whose request reached its route, in the order of their nonce transactions.\<close>

fun serve ::
    "primitives \<Rightarrow> header_codec \<Rightarrow> (string \<Rightarrow> string option) \<Rightarrow> (http_request \<Rightarrow> http_response)
      \<Rightarrow> gate_event list \<Rightarrow> nonce_row table \<Rightarrow> gate_event list" where
  "serve P H env nx [] t = []"
| "serve P H env nx (e # es) t =
     (let r = gate_step P H env nx t e
      in (if gr_forwarded r = None then [] else [e]) @ serve P H env nx es (gr_nonces r))"

text \<open>What identifies a signed request: its key id, timestamp and nonce.\<close>

definition request_id :: "header_codec \<Rightarrow> http_request \<Rightarrow> (string \<times> int \<times> string) option" where
  "request_id H rq =
     (case read_signed H (rq_headers rq) of Inl _ \<Rightarrow> None
      | Inr s \<Rightarrow> Some (sr_key_id s, sr_timestamp s, sr_nonce s))"

section \<open>Lemmas\<close>

lemma auth_result_simps [simp]:
  "auth_result (Inl e) = Inl (Auth e)" "auth_result (Inr x) = Inr x"
  by (simp_all add: auth_result_def)

lemma auth_result_Inr_iff [result_simps]: "auth_result r = Inr x \<longleftrightarrow> r = Inr x"
  by (cases r) auto

lemma header_Inr_iff [result_simps]:
  "header H hs n = Inr s \<longleftrightarrow> s \<noteq> [] \<and> (\<exists>v. map_of hs n = Some v \<and> hv_to_str H v = Some s)"
  by (auto simp: header_def split: option.splits)

lemma map_of_header_insert [simp]:
  "map_of (header_insert n v hs) m = (if m = n then Some v else map_of hs m)"
  by (induction hs) (auto simp: header_insert_def)

lemma consume_nonce_Inr:
  assumes "consume_nonce fault t d k n now = (t', Inr u)"
  shows "\<not> fault \<and> (\<forall>r\<in>set t. nonce_key r = (direction_label d, k, n) \<longrightarrow> nr_expires_at r < now) \<and>
    (\<exists>r\<in>set t'. nonce_key r = (direction_label d, k, n) \<and> nr_expires_at r = now + NONCE_TTL_SECS)"
  using assms
  by (auto simp: consume_nonce_def Let_def sql_insert_or_ignore_def nonce_key_def image_iff
      split: if_splits)

lemma consume_nonce_keeps:
  assumes "r \<in> set t" and "now \<le> nr_expires_at r"
  shows "r \<in> set (fst (consume_nonce fault t d k n now))"
  using assms by (auto simp: consume_nonce_def Let_def sql_insert_or_ignore_def)

lemma consume_nonce_keyed:
  "keyed nonce_key t \<Longrightarrow> keyed nonce_key (fst (consume_nonce fault t d k n now))"
  by (auto simp: consume_nonce_def Let_def intro: keyed_insert_or_ignore)

lemma gate_forwarded:
  "gr_forwarded (require_ee_signature P H env nx v c f t rq) = Some fwd \<longleftrightarrow>
     (\<exists>cfg s. from_env P env = Inr cfg \<and> read_signed H (rq_headers rq) = Inr s \<and>
        length (rq_body rq) \<le> MAX_INTERNAL_BODY \<and>
        verify_request P (cf_ee_to_ce cfg) EeToCe s v (read_parts H rq) = Inr () \<and>
        snd (consume_nonce f t EeToCe (sr_key_id s) (sr_nonce s) c) = Inr () \<and>
        fwd = rq\<lparr>rq_headers := strip_auth_headers (rq_headers rq)\<rparr>)"
  by (auto simp: require_ee_signature_def Let_def not_less split: sum.splits prod.splits if_splits)

lemma gate_nonces:
  "gr_nonces (require_ee_signature P H env nx v c f t rq) = t \<or>
   (\<exists>s. read_signed H (rq_headers rq) = Inr s \<and>
      gr_nonces (require_ee_signature P H env nx v c f t rq) =
        fst (consume_nonce f t EeToCe (sr_key_id s) (sr_nonce s) c))"
  by (auto simp: require_ee_signature_def Let_def split: sum.splits prod.splits)

lemma gate_forwarded_nonces:
  assumes "gr_forwarded (require_ee_signature P H env nx v c f t rq) \<noteq> None"
    and "read_signed H (rq_headers rq) = Inr s"
  shows "gr_nonces (require_ee_signature P H env nx v c f t rq) =
           fst (consume_nonce f t EeToCe (sr_key_id s) (sr_nonce s) c)"
  using assms by (auto simp: require_ee_signature_def Let_def split: sum.splits prod.splits if_splits)

subsection \<open>A spent request stays spent\<close>

text \<open>
  A signed request counts as spent at clock \<open>clk\<close> when its row outlives the last moment at which its
  timestamp can still be accepted, or that moment has passed.
\<close>

definition last_acceptable :: "int \<Rightarrow> int" where
  "last_acceptable ts = ts + NONCE_TTL_SECS - MAX_TIMESTAMP_SKEW_SECS"

definition spent :: "string \<times> int \<times> string \<Rightarrow> nonce_row table \<Rightarrow> int \<Rightarrow> bool" where
  "spent i t clk \<longleftrightarrow>
     (case i of (k, ts, n) \<Rightarrow>
        last_acceptable ts < clk \<or>
        (\<exists>r\<in>set t. nonce_key r = (''ee-to-ce'', k, n) \<and> last_acceptable ts \<le> nr_expires_at r))"

definition timely :: "gate_event \<Rightarrow> bool" where
  "timely e \<longleftrightarrow> ge_verify_at e \<le> ge_consume_at e \<and>
     ge_consume_at e - ge_verify_at e \<le> NONCE_TTL_SECS - 2 * MAX_TIMESTAMP_SKEW_SECS"

lemmas spent_defs = spent_def last_acceptable_def timely_def NONCE_TTL_SECS_def
  MAX_TIMESTAMP_SKEW_SECS_def direction_label_def

lemma spent_step:
  assumes "spent i t clk" and "clk \<le> ge_consume_at e"
  shows "spent i (gr_nonces (gate_step P H env nx t e)) (ge_consume_at e)"
proof -
  obtain k ts n where i: "i = (k, ts, n)" by (cases i)
  have "r \<in> set (gr_nonces (gate_step P H env nx t e))"
    if "r \<in> set t" "ge_consume_at e \<le> nr_expires_at r" for r
    using gate_nonces [of P H env nx "ge_verify_at e" "ge_consume_at e" "ge_fault e" t "ge_request e"]
      consume_nonce_keeps [OF that] that by auto
  with assms i show ?thesis by (force simp: spent_def)
qed

lemma forwarded_timely:
  assumes "gr_forwarded (gate_step P H env nx t e) \<noteq> None" and "request_id H (ge_request e) = Some i"
    and "timely e"
  shows "fst (snd i) \<le> ge_consume_at e + MAX_TIMESTAMP_SKEW_SECS \<and>
         ge_consume_at e \<le> last_acceptable (fst (snd i))"
proof -
  obtain fwd where "gr_forwarded (gate_step P H env nx t e) = Some fwd" using assms(1) by blast
  then show ?thesis
    using assms(2,3)
    by (auto simp: gate_forwarded request_id_def verify_request_Inr spent_defs split: sum.splits)
qed

lemma forwarded_consumes:
  assumes fwd: "gr_forwarded (gate_step P H env nx t e) \<noteq> None"
    and i: "request_id H (ge_request e) = Some i"
  shows "\<exists>(s :: SignedRequest) t'. i = (sr_key_id s, sr_timestamp s, sr_nonce s) \<and>
    consume_nonce (ge_fault e) t EeToCe (sr_key_id s) (sr_nonce s) (ge_consume_at e) = (t', Inr ()) \<and>
    gr_nonces (gate_step P H env nx t e) = t'"
proof -
  obtain s where s: "read_signed H (rq_headers (ge_request e)) = Inr s"
    and "i = (sr_key_id s, sr_timestamp s, sr_nonce s)"
    using i by (auto simp: request_id_def split: sum.splits)
  moreover have "snd (consume_nonce (ge_fault e) t EeToCe (sr_key_id s) (sr_nonce s) (ge_consume_at e)) = Inr ()"
    using fwd s by (auto simp: gate_forwarded)
  ultimately show ?thesis
    using gate_forwarded_nonces [OF fwd s] by (metis prod.collapse)
qed

lemma forwarded_not_spent:
  assumes fwd: "gr_forwarded (gate_step P H env nx t e) \<noteq> None"
    and i: "request_id H (ge_request e) = Some i"
    and "timely e" and "clk \<le> ge_consume_at e"
  shows "\<not> spent i t clk"
proof
  assume "spent i t clk"
  obtain s :: SignedRequest and t' where i': "i = (sr_key_id s, sr_timestamp s, sr_nonce s)"
    and c: "consume_nonce (ge_fault e) t EeToCe (sr_key_id s) (sr_nonce s) (ge_consume_at e) = (t', Inr ())"
    using forwarded_consumes [OF fwd i] by blast
  have "ge_consume_at e \<le> last_acceptable (sr_timestamp s)"
    using forwarded_timely [OF fwd i assms(3)] i' by simp
  with \<open>spent i t clk\<close> assms(4) i' obtain r where "r \<in> set t"
    and "nonce_key r = (''ee-to-ce'', sr_key_id s, sr_nonce s)" and "ge_consume_at e \<le> nr_expires_at r"
    by (auto simp: spent_def)
  with consume_nonce_Inr [OF c] show False by (auto simp: direction_label_def)
qed

lemma forwarded_spent:
  assumes fwd: "gr_forwarded (gate_step P H env nx t e) \<noteq> None"
    and i: "request_id H (ge_request e) = Some i" and "timely e"
  shows "spent i (gr_nonces (gate_step P H env nx t e)) (ge_consume_at e)"
proof -
  obtain s :: SignedRequest and t' where i': "i = (sr_key_id s, sr_timestamp s, sr_nonce s)"
    and c: "consume_nonce (ge_fault e) t EeToCe (sr_key_id s) (sr_nonce s) (ge_consume_at e) = (t', Inr ())"
    and t': "gr_nonces (gate_step P H env nx t e) = t'"
    using forwarded_consumes [OF fwd i] by blast
  obtain r where "r \<in> set t'" and "nonce_key r = (''ee-to-ce'', sr_key_id s, sr_nonce s)"
    and "nr_expires_at r = ge_consume_at e + NONCE_TTL_SECS"
    using consume_nonce_Inr [OF c] by (auto simp: direction_label_def)
  moreover have "last_acceptable (sr_timestamp s) \<le> ge_consume_at e + NONCE_TTL_SECS"
    using forwarded_timely [OF fwd i assms(3)] i' by (simp add: last_acceptable_def)
  ultimately show ?thesis using i' t' unfolding spent_def by auto
qed

lemma forwarded_has_id:
  "gr_forwarded (gate_step P H env nx t e) \<noteq> None \<Longrightarrow> \<exists>i. request_id H (ge_request e) = Some i"
  by (auto simp: gate_forwarded request_id_def split: sum.splits)

lemma serve_not_spent:
  assumes "sorted (clk # map ge_consume_at es)" and "\<forall>e\<in>set es. timely e" and "spent i t clk"
  shows "Some i \<notin> (\<lambda>e. request_id H (ge_request e)) ` set (serve P H env nx es t)"
  using assms
proof (induction es arbitrary: t clk)
  case (Cons e es)
  let ?r = "gate_step P H env nx t e"
  have "gr_forwarded ?r \<noteq> None \<longrightarrow> request_id H (ge_request e) \<noteq> Some i"
    using Cons.prems forwarded_not_spent [of P H env nx e t i clk] by auto
  moreover have "Some i \<notin> (\<lambda>e. request_id H (ge_request e)) ` set (serve P H env nx es (gr_nonces ?r))"
    using Cons.prems spent_step [of i t clk e P H env nx]
    by (intro Cons.IH [of "ge_consume_at e"]) auto
  ultimately show ?case by (auto simp: Let_def)
qed simp

lemma sign_axum_response_Inr:
  "sign_axum_response P H cfg nonce r = Inr r' \<longleftrightarrow>
     length (rs_body r) \<le> MAX_INTERNAL_BODY \<and>
     (\<exists>key s kv sv. find_key (cf_ce_to_ee cfg) (cf_ce_to_ee_active cfg) = Inr key \<and>
        sign_response P key CeToEe nonce (rs_status r) (rs_body r) = Inr s \<and>
        hv_from_str H (sp_key_id s) = Some kv \<and> hv_from_str H (sp_signature s) = Some sv \<and>
        r' = r\<lparr>rs_headers := header_insert HEADER_RESPONSE_SIGNATURE sv
                              (header_insert HEADER_KEY_ID kv (rs_headers r))\<rparr>)"
  by (auto simp: sign_axum_response_def ce_active_def active_key_def result_simps not_less)

lemma signed_error_status [simp]: "rs_status (signed_error st m) = st"
  by (simp add: signed_error_def)

lemma or_auth_failure_status:
  "rs_status (or_auth_failure (sign_axum_response P H cfg n r)) \<in> {rs_status r, 500}"
proof (cases "sign_axum_response P H cfg n r")
  case (Inr r')
  then have "rs_status r' = rs_status r" by (auto simp: sign_axum_response_Inr)
  with Inr show ?thesis by (simp add: or_auth_failure_def)
qed (simp add: or_auth_failure_def)

section \<open>Properties\<close>

text \<open>
  C5: no signed request of the sidecar is served twice. Over any run of the middleware whose nonce
  transactions happen in clock order, each at most one minute after its request was verified, and
  from any initial nonce table, the requests that reach a route have pairwise distinct
  (key id, timestamp, nonce), however often a captured request is sent again. The bound is exact in
  the constants: the nonce lives 300 s and a timestamp is acceptable for at most 240 s.
\<close>

theorem internal_requests_never_replayed:
  assumes "sorted (map ge_consume_at es)" and "\<forall>e\<in>set es. timely e"
  shows "distinct (map (\<lambda>e. request_id H (ge_request e)) (serve P H env nx es t))"
  using assms
proof (induction es arbitrary: t)
  case (Cons e es)
  let ?r = "gate_step P H env nx t e"
  have rest: "distinct (map (\<lambda>e. request_id H (ge_request e)) (serve P H env nx es (gr_nonces ?r)))"
    using Cons.prems by (intro Cons.IH) auto
  show ?case
  proof (cases "gr_forwarded ?r = None")
    case False
    then obtain i where i: "request_id H (ge_request e) = Some i" using forwarded_has_id by blast
    have "Some i \<notin> (\<lambda>e. request_id H (ge_request e)) ` set (serve P H env nx es (gr_nonces ?r))"
      using Cons.prems forwarded_spent [OF False i]
      by (intro serve_not_spent [of "ge_consume_at e"]) auto
    with rest False i show ?thesis by (simp add: Let_def)
  qed (use rest in \<open>simp add: Let_def\<close>)
qed simp

text \<open>A concrete environment and a signed request, used only to evaluate the witnesses.\<close>

definition demo_codec :: header_codec where
  "demo_codec = \<lparr>hv_to_str = Some, hv_from_str = Some\<rparr>"

definition demo_env :: "string \<Rightarrow> string option" where
  "demo_env n = (if ends_with n ''JSON'' then Some (replicate 32 (CHR ''a'')) else Some ''k1'')"

definition demo_signed_headers :: "SignedRequest \<Rightarrow> header_map" where
  "demo_signed_headers s =
     [(HEADER_KEY_ID, sr_key_id s), (HEADER_TIMESTAMP, int_to_dec (sr_timestamp s)),
      (HEADER_NONCE, sr_nonce s), (HEADER_SIGNATURE, sr_signature s)]"

definition demo_signed :: SignedRequest where
  "demo_signed =
     (case sign_request demo_primitives demo_key EeToCe 100 (replicate 32 65) demo_parts of Inr s \<Rightarrow> s)"

definition demo_event :: "int \<Rightarrow> gate_event" where
  "demo_event at =
     \<lparr>ge_request = \<lparr>rq_method = ''GET'', rq_path = ''/'', rq_headers = demo_signed_headers demo_signed,
                    rq_body = []\<rparr>,
      ge_verify_at = at, ge_consume_at = at + 1, ge_fault = False\<rparr>"

definition demo_next :: "http_request \<Rightarrow> http_response" where
  "demo_next rq = \<lparr>rs_status = 200, rs_headers = [], rs_body = []\<rparr>"

lemma demo_signed_ok:
  "sign_request demo_primitives demo_key EeToCe 100 (replicate 32 65) demo_parts = Inr demo_signed"
  using demo_signs by (auto simp: demo_signed_def)

lemma demo_config:
  "\<exists>cfg. from_env demo_primitives demo_env = Inr cfg \<and> cf_ee_to_ce cfg = [demo_key] \<and>
     cf_ce_to_ee cfg = [demo_key] \<and> cf_ce_to_ee_active cfg = ''k1''"
proof -
  have "trim (replicate 32 (CHR ''a'')) \<noteq> []" "trim ''k1'' \<noteq> []" by code_simp+
  moreover have "str_bytes (replicate 32 (CHR ''a'')) = replicate 32 97" by (simp add: str_bytes_def)
  ultimately show ?thesis
    by (simp add: from_env_def required_env_def demo_env_def ends_with_def starts_with_def
        from_values_def parse_keyring_def decode_secret_def InternalKey_new_def active_key_def
        find_key_def demo_primitives_def demo_key_def is_ascii_alphanumeric_def)
qed

lemma demo_signed_fields:
  "sr_key_id demo_signed = ''k1''" "sr_timestamp demo_signed = 100"
  "sr_nonce demo_signed \<noteq> []" "sr_signature demo_signed \<noteq> []" "sr_direction demo_signed = EeToCe"
  using demo_signed_ok
  by (auto simp: sign_request_Inr demo_key_def demo_primitives_def
      dest: arg_cong [of _ _ sr_key_id] arg_cong [of _ _ sr_timestamp] arg_cong [of _ _ sr_nonce]
        arg_cong [of _ _ sr_signature] arg_cong [of _ _ sr_direction])

lemma demo_read: "read_signed demo_codec (demo_signed_headers demo_signed) = Inr demo_signed"
proof -
  have "parse_i64 (int_to_dec 100) = Some 100" "int_to_dec 100 \<noteq> []" by code_simp+
  then show ?thesis
    by (simp add: read_signed_def demo_signed_headers_def header_def demo_codec_def header_name_defs
        demo_signed_fields SignedRequest.equality)
qed

lemma demo_forwarded:
  assumes "\<bar>at - 100\<bar> \<le> MAX_TIMESTAMP_SKEW_SECS"
  shows "gr_forwarded (gate_step demo_primitives demo_codec demo_env demo_next [] (demo_event at)) \<noteq> None"
proof -
  obtain cfg where cfg: "from_env demo_primitives demo_env = Inr cfg" "cf_ee_to_ce cfg = [demo_key]"
    using demo_config by blast
  have "read_parts demo_codec (ge_request (demo_event at)) = demo_parts"
    by (simp add: read_parts_def optional_header_def demo_event_def demo_parts_def demo_signed_headers_def
        header_name_defs)
  moreover have "verify_request demo_primitives [demo_key] EeToCe demo_signed at demo_parts = Inr ()"
    using assms by (intro sign_verify_ok [OF demo_b64 demo_signed_ok]) (simp_all add: find_key_def)
  ultimately show ?thesis
    using cfg demo_read
    by (auto simp: gate_forwarded demo_event_def consume_nonce_def Let_def sql_insert_or_ignore_def
        sql_delete_def)
qed

theorem internal_requests_never_replayed_witness:
  "serve demo_primitives demo_codec demo_env demo_next [demo_event 100, demo_event 220] [] =
     [demo_event 100]"
proof -
  let ?run = "serve demo_primitives demo_codec demo_env demo_next [demo_event 100, demo_event 220] []"
  have "distinct (map (\<lambda>e. request_id demo_codec (ge_request e)) ?run)"
    by (rule internal_requests_never_replayed) (simp_all add: demo_event_def spent_defs)
  moreover have "request_id demo_codec (ge_request (demo_event 100)) =
      request_id demo_codec (ge_request (demo_event 220))"
    by (simp add: demo_event_def)
  moreover have "gr_forwarded (gate_step demo_primitives demo_codec demo_env demo_next [] (demo_event 100)) \<noteq> None"
    by (rule demo_forwarded) (simp add: MAX_TIMESTAMP_SKEW_SECS_def)
  ultimately show ?thesis by (auto simp: Let_def split: if_splits)
qed

text \<open>
  The internal routes fail closed. A request whose headers do not parse, whose signature, clock or
  key does not verify, or that meets a missing configuration is not forwarded, is answered 401, 413 or
  503 and leaves the nonce table as it was; one whose nonce cannot be consumed (replay or database
  failure) is not forwarded and is answered 409, or 500 when the answer cannot be signed; and a
  forwarded request keeps its method, path and body and carries none of the four signature headers.
\<close>

theorem internal_gate_fails_closed:
  assumes r: "r = require_ee_signature P H env nx v c fault t rq"
  shows
  "((\<forall>cfg s. from_env P env = Inr cfg \<longrightarrow> read_signed H (rq_headers rq) = Inr s \<longrightarrow>
        verify_request P (cf_ee_to_ce cfg) EeToCe s v (read_parts H rq) \<noteq> Inr ()) \<longrightarrow>
      gr_forwarded r = None \<and> gr_nonces r = t \<and> rs_status (gr_response r) \<in> {401, 413, 503}) \<and>
   (\<forall>s. read_signed H (rq_headers rq) = Inr s \<longrightarrow>
        snd (consume_nonce fault t EeToCe (sr_key_id s) (sr_nonce s) c) \<noteq> Inr () \<longrightarrow>
        gr_forwarded r = None \<and> rs_status (gr_response r) \<in> {401, 409, 413, 500, 503}) \<and>
   (\<forall>fwd. gr_forwarded r = Some fwd \<longrightarrow>
        rq_method fwd = rq_method rq \<and> rq_path fwd = rq_path rq \<and> rq_body fwd = rq_body rq \<and>
        (\<forall>n\<in>{HEADER_KEY_ID, HEADER_TIMESTAMP, HEADER_NONCE, HEADER_SIGNATURE}.
           map_of (rq_headers fwd) n = None))"
proof (intro conjI)
  show "(\<forall>cfg s. from_env P env = Inr cfg \<longrightarrow> read_signed H (rq_headers rq) = Inr s \<longrightarrow>
        verify_request P (cf_ee_to_ce cfg) EeToCe s v (read_parts H rq) \<noteq> Inr ()) \<longrightarrow>
      gr_forwarded r = None \<and> gr_nonces r = t \<and> rs_status (gr_response r) \<in> {401, 413, 503}"
    by (auto simp: r require_ee_signature_def Let_def signed_error_def split: sum.splits)
  show "\<forall>s. read_signed H (rq_headers rq) = Inr s \<longrightarrow>
        snd (consume_nonce fault t EeToCe (sr_key_id s) (sr_nonce s) c) \<noteq> Inr () \<longrightarrow>
        gr_forwarded r = None \<and> rs_status (gr_response r) \<in> {401, 409, 413, 500, 503}"
    using or_auth_failure_status [of P H _ _ "signed_error 409 ''replayed request''"]
    by (auto simp: r require_ee_signature_def Let_def signed_error_def [of 401] signed_error_def [of 413]
        signed_error_def [of 503] signed_error_status split: sum.splits prod.splits)
  show "\<forall>fwd. gr_forwarded r = Some fwd \<longrightarrow>
        rq_method fwd = rq_method rq \<and> rq_path fwd = rq_path rq \<and> rq_body fwd = rq_body rq \<and>
        (\<forall>n\<in>{HEADER_KEY_ID, HEADER_TIMESTAMP, HEADER_NONCE, HEADER_SIGNATURE}.
           map_of (rq_headers fwd) n = None)"
    by (auto simp: r gate_forwarded strip_auth_headers_def header_remove_def map_of_eq_None_iff)
qed

theorem internal_gate_fails_closed_witness:
  "gr_forwarded (require_ee_signature demo_primitives demo_codec demo_env demo_next 100 101 False []
      \<lparr>rq_method = ''GET'', rq_path = ''/'', rq_headers = [], rq_body = []\<rparr>) = None"
proof -
  have "read_signed demo_codec [] \<noteq> Inr s" for s
    by (simp add: read_signed_def header_def)
  then show ?thesis
    using internal_gate_fails_closed [of _ demo_primitives demo_codec demo_env demo_next 100 101 False
        "[]" "\<lparr>rq_method = ''GET'', rq_path = ''/'', rq_headers = [], rq_body = []\<rparr>", OF refl] by simp
qed

text \<open>
  Answers of the middleware authenticate to the peer. Whatever status and body a route returned, if
  the response could be signed then it carries the same status and body, and the peer that reads its two
  headers and knows the server's key ring accepts them for the nonce of its own request, and the same
  headers do not verify for another nonce, status or body when the MAC has no collisions.
\<close>

theorem internal_answers_verify:
  assumes b64: "\<And>b. b64url_decode P (b64url_encode P b) = Some b"
    and codec: "\<And>s v. hv_from_str H s = Some v \<Longrightarrow> hv_to_str H v = Some s"
    and answer: "sign_axum_response P H cfg nonce resp = Inr resp'"
    and mac: "\<And>k m m' tag. hmac_sha256 P k m = Some tag \<Longrightarrow> hmac_sha256 P k m' = Some tag \<Longrightarrow> m = m'"
  shows "rs_status resp' = rs_status resp \<and> rs_body resp' = rs_body resp \<and>
    (\<exists>kid sg. map_of (rs_headers resp') HEADER_KEY_ID = hv_from_str H kid \<and>
       map_of (rs_headers resp') HEADER_RESPONSE_SIGNATURE = hv_from_str H sg \<and>
       (\<forall>n st b. verify_response P (cf_ce_to_ee cfg) CeToEe
            \<lparr>sp_key_id = kid, sp_request_nonce = n, sp_signature = sg, sp_direction = CeToEe\<rparr> st b = Inr ()
          \<longleftrightarrow> n = nonce \<and> st = rs_status resp \<and> b = rs_body resp))"
proof -
  obtain key sr kv sv where key: "find_key (cf_ce_to_ee cfg) (cf_ce_to_ee_active cfg) = Inr key"
    and sr: "sign_response P key CeToEe nonce (rs_status resp) (rs_body resp) = Inr sr"
    and kv: "hv_from_str H (sp_key_id sr) = Some kv" and sv: "hv_from_str H (sp_signature sr) = Some sv"
    and resp': "resp' = resp\<lparr>rs_headers := header_insert HEADER_RESPONSE_SIGNATURE sv
                          (header_insert HEADER_KEY_ID kv (rs_headers resp))\<rparr>"
    using answer by (auto simp: sign_axum_response_Inr)
  obtain c tag where n: "validate_nonce P nonce = Inr ()"
    and c: "canonical_response CeToEe (ik_id key) nonce (rs_status resp) (rs_body resp) = Inr c"
    and tag: "hmac_sha256 P (ik_secret key) c = Some tag"
    and sr_eq: "sr = \<lparr>sp_key_id = ik_id key, sp_request_nonce = nonce,
                     sp_signature = b64url_encode P tag, sp_direction = CeToEe\<rparr>"
    using sr by (auto simp: sign_response_Inr)
  have ring: "find_key (cf_ce_to_ee cfg) (ik_id key) = Inr key" using key find_key_id [OF key] by simp
  have "verify_response P (cf_ce_to_ee cfg) CeToEe
      \<lparr>sp_key_id = ik_id key, sp_request_nonce = n', sp_signature = b64url_encode P tag,
       sp_direction = CeToEe\<rparr> st b = Inr () \<longleftrightarrow>
      n' = nonce \<and> st = rs_status resp \<and> b = rs_body resp" (is "?L \<longleftrightarrow> ?R") for n' st b
  proof
    assume ?L
    then obtain c' where "canonical_response CeToEe (ik_id key) n' st b = Inr c'"
        and "hmac_sha256 P (ik_secret key) c' = Some tag"
      using ring b64 by (auto simp: verify_response_Inr)
    then show ?R using mac [OF tag] canonical_response_inj [OF c] by blast
  next
    assume ?R
    then show ?L using ring n c tag b64 by (simp add: verify_response_Inr)
  qed
  then show ?thesis
    using resp' kv sv unfolding sr_eq
    by (intro conjI exI [of _ "ik_id key"] exI [of _ "b64url_encode P tag"])
      (simp_all add: header_name_defs)
qed

theorem internal_answers_verify_witness:
  "\<exists>cfg resp'. from_env demo_primitives demo_env = Inr cfg \<and>
     sign_axum_response demo_primitives demo_codec cfg (replicate 32 (CHR ''n'')) (signed_error 409 []) = Inr resp' \<and>
     rs_status resp' = 409"
proof -
  obtain cfg where cfg: "from_env demo_primitives demo_env = Inr cfg"
      "ce_active cfg = Inr demo_key"
    using demo_config by (auto simp: ce_active_def active_key_def find_key_def demo_key_def)
  have dec: "nat_to_dec 409 = ''409''" by code_simp
  obtain resp' where resp': "sign_axum_response demo_primitives demo_codec cfg (replicate 32 (CHR ''n''))
      (signed_error 409 []) = Inr resp'"
    using cfg(2) dec
    by (simp add: sign_axum_response_def sign_response_def signature_def validate_nonce_def
        canonical_response_def response_fields_def append_field_def label_def U32_LIMIT_def demo_key_def
        demo_primitives_def demo_codec_def signed_error_def)
  have "rs_status resp' = 409"
    using internal_answers_verify [OF demo_b64 _ resp' demo_mac]
    by (simp add: demo_codec_def signed_error_def)
  with cfg resp' show ?thesis by blast
qed

end
