(* ===== verification/Throttle.thy ===== *)
theory Throttle
  imports SF_Prelude Complex_Main
begin

text \<open>
  \<open>server/src/throttle.rs\<close>, \<open>anon_limiter.rs\<close> and \<open>ip_allowlist.rs\<close>: the lock-out of repeated
  failures per key, the token bucket per client address, the address a request is attributed to, and
  the two middleware layers built on it.

  Both limiters are leaky buckets. The locale \<open>leaky_bucket\<close> states the contract once, in terms
  of a debt that drains one unit per second and that every admitted attempt raises by a fixed cost;
  its client lemma bounds the admitted attempts in any stretch of time. It is interpreted on the
  failure throttle and on the address limiter. \<open>f64\<close> seconds and tokens are real numbers here; the
  hash maps are maps; the mutexes make each operation atomic. Address parsing, printing and CIDR
  matching are arguments.
\<close>

section \<open>Leaky buckets\<close>

locale leaky_bucket =
  fixes check :: "'k \<Rightarrow> 't :: linordered_idom \<Rightarrow> 's \<Rightarrow> 's \<times> bool"
    and charge :: "'a \<Rightarrow> 't \<Rightarrow> 's \<Rightarrow> 's"
    and key :: "'a \<Rightarrow> 'k"
    and clears :: "'a \<Rightarrow> bool"
    and debt :: "'k \<Rightarrow> 's \<Rightarrow> 't \<Rightarrow> 't"
    and wf :: "'t \<Rightarrow> 's \<Rightarrow> bool"
    and cap cost :: 't
  assumes debt_cap: "wf t s \<Longrightarrow> 0 \<le> debt k s t \<and> debt k s t \<le> cap"
    and debt_drains: "wf t s \<Longrightarrow> t \<le> t' \<Longrightarrow> debt k s t - (t' - t) \<le> debt k s t' \<and> wf t' s"
    and check_keeps: "wf t s \<Longrightarrow> debt j s t \<le> debt j (fst (check k t s)) t \<and> wf t (fst (check k t s))"
    and charge_wf: "wf t s \<Longrightarrow> check (key a) t s = (s', True) \<Longrightarrow> wf t (charge a t s')"
    and admitted_charged: "wf t s \<Longrightarrow> check (key a) t s = (s', True) \<Longrightarrow> \<not> clears a \<Longrightarrow>
      debt (key a) s t + cost \<le> debt (key a) (charge a t s') t"
    and charge_keeps: "wf t s \<Longrightarrow> check (key a) t s = (s', True) \<Longrightarrow> j \<noteq> key a \<Longrightarrow>
      debt j s t \<le> debt j (charge a t s') t"
begin

text \<open>A run of attempts with their times; an admitted attempt is charged, unless it clears its key.\<close>

definition attempt :: "'a \<times> 't \<Rightarrow> 's \<Rightarrow> 's \<times> bool" where
  "attempt a s =
     (case check (key (fst a)) (snd a) s of
        (s', True) \<Rightarrow> (charge (fst a) (snd a) s', True) | (s', False) \<Rightarrow> (s', False))"

fun admitted :: "'k \<Rightarrow> ('a \<times> 't) list \<Rightarrow> 's \<Rightarrow> nat" where
  "admitted k [] s = 0"
| "admitted k (a # as) s =
     (if key (fst a) = k \<and> snd (attempt a s) then 1 else 0) + admitted k as (fst (attempt a s))"

lemma attempt_debt:
  assumes "wf (snd a) s" and "key (fst a) = k \<Longrightarrow> \<not> clears (fst a)"
  shows "wf (snd a) (fst (attempt a s)) \<and>
    debt k s (snd a) + (if key (fst a) = k \<and> snd (attempt a s) then cost else 0)
      \<le> debt k (fst (attempt a s)) (snd a)"
proof -
  obtain s' ok where c: "check (key (fst a)) (snd a) s = (s', ok)" by fastforce
  show ?thesis
  proof (cases ok)
    case True
    with c show ?thesis
      using admitted_charged [OF assms(1)] charge_wf [OF assms(1)] assms(2)
        charge_keeps [OF assms(1), of "fst a" s' k]
      by (cases "key (fst a) = k") (auto simp: attempt_def)
  next
    case False
    with c show ?thesis
      using check_keeps [OF assms(1), of k "key (fst a)"] by (simp add: attempt_def)
  qed
qed

lemma debt_at_end:
  assumes "wf t s" and "sorted (t # map snd as)" and "last (t # map snd as) \<le> t'"
    and "\<forall>a\<in>set as. key (fst a) = k \<longrightarrow> \<not> clears (fst a)"
  shows "cost * of_nat (admitted k as s) + debt k s t \<le> cap + (t' - t)"
  using assms
proof (induction as arbitrary: s t)
  case Nil
  then show ?case using debt_cap [of t s k] by auto
next
  case (Cons a as)
  have le: "t \<le> snd a" using Cons.prems by simp
  have wf: "wf (snd a) s" and drain: "debt k s t - (snd a - t) \<le> debt k s (snd a)"
    using debt_drains [OF Cons.prems(1) le] by auto
  have step: "wf (snd a) (fst (attempt a s)) \<and>
    debt k s (snd a) + (if key (fst a) = k \<and> snd (attempt a s) then cost else 0)
      \<le> debt k (fst (attempt a s)) (snd a)"
    using attempt_debt [OF wf, of k] Cons.prems(4) by simp
  have "cost * of_nat (admitted k as (fst (attempt a s))) + debt k (fst (attempt a s)) (snd a)
      \<le> cap + (t' - snd a)"
    using Cons.prems step by (intro Cons.IH) auto
  then show ?case
    using step drain by (auto simp: algebra_simps split: if_splits)
qed

lemma admitted_bound:
  assumes "wf t s" and "sorted (t # map snd as)" and "last (t # map snd as) \<le> t'"
    and "\<forall>a\<in>set as. key (fst a) = k \<longrightarrow> \<not> clears (fst a)"
  shows "cost * of_nat (admitted k as s) \<le> cap + (t' - t)"
  using debt_at_end [OF assms] debt_cap [OF assms(1), of k] by linarith

end

section \<open>The failure throttle\<close>

definition MAX_FAILS :: nat where "MAX_FAILS = 10"
definition LOCK_SECS :: int where "LOCK_SECS = 15 * 60"
definition RECORD_TTL_SECS :: int where "RECORD_TTL_SECS = 24 * 3600"
definition U32_MAX :: nat where "U32_MAX = 2 ^ 32 - 1"

record Record =
  fails :: nat
  locked_until :: int
  last_touched :: int

definition Record_default :: Record where
  "Record_default = \<lparr>fails = 0, locked_until = 0, last_touched = 0\<rparr>"

type_synonym throttle = "string \<rightharpoonup> Record"

datatype CheckResult = Locked int | Ok

definition retain :: "('v \<Rightarrow> bool) \<Rightarrow> ('k \<rightharpoonup> 'v) \<Rightarrow> ('k \<rightharpoonup> 'v)" where
  "retain P m = (\<lambda>k. case m k of None \<Rightarrow> None | Some v \<Rightarrow> if P v then Some v else None)"

definition check :: "string \<Rightarrow> int \<Rightarrow> throttle \<Rightarrow> throttle \<times> CheckResult" where
  "check key now m =
     (let m' = retain (\<lambda>r. now - last_touched r < RECORD_TTL_SECS) m
      in (m', case m' key of
                Some r \<Rightarrow> if locked_until r > now then Locked (locked_until r - now) else Ok
              | None \<Rightarrow> Ok))"

definition record_failure :: "string \<Rightarrow> int \<Rightarrow> throttle \<Rightarrow> throttle" where
  "record_failure key now m =
     (let r = (case m key of Some r \<Rightarrow> r | None \<Rightarrow> Record_default);
          f = min (fails r + 1) U32_MAX
      in m(key \<mapsto> \<lparr>fails = f,
                     locked_until = (if f \<ge> MAX_FAILS then now + LOCK_SECS else locked_until r),
                     last_touched = now\<rparr>))"

definition record_success :: "string \<Rightarrow> throttle \<Rightarrow> throttle" where
  "record_success key m = m(key := None)"

lemmas throttle_consts = MAX_FAILS_def LOCK_SECS_def RECORD_TTL_SECS_def U32_MAX_def

lemma retain_Some [simp]: "retain P m k = Some v \<longleftrightarrow> m k = Some v \<and> P v"
  by (auto simp: retain_def split: option.splits if_splits)

lemma retain_None [simp]: "retain P m k = None \<longleftrightarrow> (\<forall>v. m k = Some v \<longrightarrow> \<not> P v)"
  by (auto simp: retain_def split: option.splits if_splits)

text \<open>
  The debt of a key: every recorded failure, up to the limit, costs the length of a lock, and the debt
  drains with the time since the last failure.
\<close>

definition debt_of :: "string \<Rightarrow> throttle \<Rightarrow> int \<Rightarrow> int" where
  "debt_of key m now =
     (case m key of None \<Rightarrow> 0
      | Some r \<Rightarrow> max 0 (LOCK_SECS * int (min (fails r) MAX_FAILS) - (now - last_touched r)))"

definition throttle_wf :: "int \<Rightarrow> throttle \<Rightarrow> bool" where
  "throttle_wf now m \<longleftrightarrow>
     (\<forall>k r. m k = Some r \<longrightarrow>
        last_touched r \<le> now \<and> 0 < fails r \<and> fails r \<le> U32_MAX \<and>
        (fails r \<ge> MAX_FAILS \<longrightarrow> locked_until r = last_touched r + LOCK_SECS))"

definition permitted :: "string \<Rightarrow> int \<Rightarrow> throttle \<Rightarrow> throttle \<times> bool" where
  "permitted key now m = (case check key now m of (m', r) \<Rightarrow> (m', r = Ok))"

lemma permitted_True:
  "permitted key now m = (m', True) \<longleftrightarrow>
     m' = retain (\<lambda>r. now - last_touched r < RECORD_TTL_SECS) m \<and>
     (\<forall>r. m key = Some r \<longrightarrow> now - last_touched r < RECORD_TTL_SECS \<longrightarrow> locked_until r \<le> now)"
  by (auto simp: permitted_def check_def Let_def not_less split: option.splits if_splits)

lemma fst_permitted [simp]:
  "fst (permitted key now m) = retain (\<lambda>r. now - last_touched r < RECORD_TTL_SECS) m"
  by (auto simp: permitted_def check_def Let_def split: prod.splits)

lemma throttle_wf_retain: "throttle_wf now m \<Longrightarrow> throttle_wf now (retain P m)"
  by (auto simp: throttle_wf_def)

lemma throttle_wf_failure: "throttle_wf now m \<Longrightarrow> throttle_wf now (record_failure key now m)"
  by (auto simp: throttle_wf_def record_failure_def Let_def throttle_consts Record_default_def
      split: if_splits option.splits)

lemma throttle_wf_success: "throttle_wf now m \<Longrightarrow> throttle_wf now (record_success key m)"
  by (auto simp: throttle_wf_def record_success_def split: if_splits)

lemma debt_retain:
  assumes "throttle_wf now m"
  shows "debt_of k (retain (\<lambda>r. now - last_touched r < RECORD_TTL_SECS) m) now = debt_of k m now"
  using assms by (auto simp: debt_of_def retain_def throttle_consts split: option.splits)

lemma debt_failure:
  assumes "throttle_wf now m" and "permitted key now m = (m', True)"
  shows "debt_of key m now + LOCK_SECS \<le> debt_of key (record_failure key now m') now"
proof (cases "m' key")
  case None
  then have "debt_of key m' now = 0" by (simp add: debt_of_def)
  then have "debt_of key m now = 0"
    using assms(2) debt_retain [OF assms(1), of key] by (simp add: permitted_True)
  with None show ?thesis
    by (simp add: record_failure_def debt_of_def Let_def Record_default_def throttle_consts)
next
  case (Some r)
  with assms have r: "m key = Some r" "locked_until r \<le> now" by (auto simp: permitted_True)
  with assms(1) have "last_touched r \<le> now" "0 < fails r"
      "fails r \<ge> MAX_FAILS \<Longrightarrow> last_touched r + LOCK_SECS \<le> now"
    by (fastforce simp: throttle_wf_def)+
  with Some r show ?thesis
    by (cases "fails r \<ge> 10") (auto simp: record_failure_def debt_of_def Let_def throttle_consts min_def)
qed

text \<open>
  The guarded handlers check the key, run the action, and record its outcome: \<open>settle\<close> is that record,
  for an attempt given by its key and whether it succeeded.
\<close>

definition settle :: "string \<times> bool \<Rightarrow> int \<Rightarrow> throttle \<Rightarrow> throttle" where
  "settle a now m = (if snd a then record_success (fst a) m else record_failure (fst a) now m)"

lemma settle_simps [simp]:
  "settle (key, True) now m = record_success key m"
  "settle (key, False) now m = record_failure key now m"
  by (simp_all add: settle_def)

interpretation guesses: leaky_bucket permitted settle fst snd debt_of throttle_wf
    "LOCK_SECS * int MAX_FAILS" LOCK_SECS
proof unfold_locales
  fix t t' :: int and s s' :: throttle and j k :: string and a :: "string \<times> bool"
  assume wf: "throttle_wf t s"
  show "0 \<le> debt_of k s t \<and> debt_of k s t \<le> LOCK_SECS * int MAX_FAILS"
    using wf by (fastforce simp: debt_of_def throttle_wf_def throttle_consts min_def split: option.splits)
  show "debt_of k s t - (t' - t) \<le> debt_of k s t' \<and> throttle_wf t' s" if "t \<le> t'"
    using wf that by (fastforce simp: debt_of_def throttle_wf_def split: option.splits)
  show "debt_of j s t \<le> debt_of j (fst (permitted k t s)) t \<and> throttle_wf t (fst (permitted k t s))"
    using wf by (simp add: debt_retain throttle_wf_retain)
  assume c: "permitted (fst a) t s = (s', True)"
  then have s': "s' = fst (permitted (fst a) t s)" by simp
  then show "throttle_wf t (settle a t s')"
    using wf by (simp add: settle_def throttle_wf_failure throttle_wf_success throttle_wf_retain)
  show "debt_of (fst a) s t + LOCK_SECS \<le> debt_of (fst a) (settle a t s') t" if "\<not> snd a"
    using debt_failure [OF wf c] that by (simp add: settle_def)
  show "debt_of j s t \<le> debt_of j (settle a t s') t" if "j \<noteq> fst a"
    using that debt_retain [OF wf, of j] s'
    by (simp add: settle_def debt_of_def record_failure_def record_success_def Let_def)
qed

text \<open>
  A run of guarded attempts, each a key, whether the guarded action succeeds, and the time; the number of
  attempts of \<open>k\<close> that were let through.
\<close>

fun let_through :: "string \<Rightarrow> ((string \<times> bool) \<times> int) list \<Rightarrow> throttle \<Rightarrow> nat" where
  "let_through k [] m = 0"
| "let_through k (((key, ok), now) # as) m =
     (case check key now m of
        (m', Ok) \<Rightarrow> (if key = k then 1 else 0) +
           let_through k as (if ok then record_success key m' else record_failure key now m')
      | (m', Locked _) \<Rightarrow> let_through k as m')"

lemma let_through_admitted: "let_through k as m = guesses.admitted k as m"
proof (induction k as m rule: let_through.induct)
  case (2 k key ok now as m)
  obtain m' r where c: "check key now m = (m', r)" by fastforce
  then have p: "permitted key now m = (m', r = Ok)" by (simp add: permitted_def)
  show ?case
    using 2 [OF c [symmetric]] by (cases r; cases ok) (simp_all add: c p guesses.attempt_def)
qed simp



section \<open>The address limiter\<close>

definition ANON_BUCKET_CAPACITY :: real where "ANON_BUCKET_CAPACITY = 30"
definition ANON_BUCKET_REFILL_PER_SEC :: real where "ANON_BUCKET_REFILL_PER_SEC = 1 / 2"

record Bucket =
  b_tokens :: real
  b_last_touched :: real

type_synonym ip_buckets = "string \<rightharpoonup> Bucket"

definition allow :: "string \<Rightarrow> real \<Rightarrow> ip_buckets \<Rightarrow> ip_buckets \<times> bool" where
  "allow ip now m =
     (let m' = retain (\<lambda>b. now - b_last_touched b < of_int RECORD_TTL_SECS) m;
          b = (case m' ip of Some b \<Rightarrow> b
               | None \<Rightarrow> \<lparr>b_tokens = ANON_BUCKET_CAPACITY, b_last_touched = now\<rparr>);
          elapsed = max (now - b_last_touched b) 0;
          tokens = min (b_tokens b + elapsed * ANON_BUCKET_REFILL_PER_SEC) ANON_BUCKET_CAPACITY
      in if tokens \<ge> 1
         then (m'(ip \<mapsto> \<lparr>b_tokens = tokens - 1, b_last_touched = now\<rparr>), True)
         else (m'(ip \<mapsto> \<lparr>b_tokens = tokens, b_last_touched = now\<rparr>), False))"

text \<open>The missing tokens of an address, in seconds of refill.\<close>

definition bucket_debt :: "string \<Rightarrow> ip_buckets \<Rightarrow> real \<Rightarrow> real" where
  "bucket_debt ip m now =
     (case m ip of None \<Rightarrow> 0
      | Some b \<Rightarrow> max 0 (2 * (30 - b_tokens b) - (now - b_last_touched b)))"

definition buckets_wf :: "real \<Rightarrow> ip_buckets \<Rightarrow> bool" where
  "buckets_wf now m \<longleftrightarrow>
     (\<forall>k b. m k = Some b \<longrightarrow> b_last_touched b \<le> now \<and> 0 \<le> b_tokens b \<and> b_tokens b \<le> 30)"

lemmas bucket_consts = ANON_BUCKET_CAPACITY_def ANON_BUCKET_REFILL_PER_SEC_def RECORD_TTL_SECS_def

lemma buckets_wf_Some:
  "buckets_wf now m \<Longrightarrow> m k = Some b \<Longrightarrow> b_last_touched b \<le> now \<and> 0 \<le> b_tokens b \<and> b_tokens b \<le> 30"
  by (simp add: buckets_wf_def)

lemma bucket_debt_retain:
  assumes "buckets_wf now m"
  shows "bucket_debt k (retain (\<lambda>b. now - b_last_touched b < of_int RECORD_TTL_SECS) m) now =
         bucket_debt k m now"
  using buckets_wf_Some [OF assms, of k]
  by (auto simp: bucket_debt_def retain_def bucket_consts split: option.splits)

lemma allow_cases:
  fixes ip :: string
  assumes "buckets_wf now m"
  defines "m' \<equiv> retain (\<lambda>b. now - b_last_touched b < of_int RECORD_TTL_SECS) m"
  defines "tokens \<equiv> 30 - bucket_debt ip m now / 2"
  shows "allow ip now m =
    (if tokens \<ge> 1 then (m'(ip \<mapsto> \<lparr>b_tokens = tokens - 1, b_last_touched = now\<rparr>), True)
     else (m'(ip \<mapsto> \<lparr>b_tokens = tokens, b_last_touched = now\<rparr>), False))"
proof -
  have "tokens = 30 - bucket_debt ip m' now / 2"
    unfolding tokens_def m'_def using bucket_debt_retain [OF assms(1)] by simp
  moreover have "\<And>b. m' ip = Some b \<Longrightarrow> b_last_touched b \<le> now"
    using buckets_wf_Some [OF assms(1), of ip] by (auto simp: m'_def)
  ultimately show ?thesis
    unfolding allow_def m'_def [symmetric] Let_def
    by (cases "m' ip") (auto simp: bucket_debt_def bucket_consts min_def max_def field_simps)
qed

lemma bucket_debt_range:
  "buckets_wf now m \<Longrightarrow> 0 \<le> bucket_debt ip m now \<and> bucket_debt ip m now \<le> 60"
  using buckets_wf_Some [of now m ip] by (force simp: bucket_debt_def split: option.splits)

lemma allow_keeps:
  assumes "buckets_wf now m"
  shows "buckets_wf now (fst (allow ip now m)) \<and>
    bucket_debt j (fst (allow ip now m)) now =
      bucket_debt j m now + (if j = ip \<and> snd (allow ip now m) then 2 else 0)"
proof -
  have "buckets_wf now (fst (allow ip now m))"
    using assms bucket_debt_range [OF assms, of ip]
    by (auto simp: allow_cases [OF assms] buckets_wf_def split: if_splits)
  moreover have "bucket_debt j (fst (allow ip now m)) now =
      bucket_debt j m now + (if j = ip \<and> snd (allow ip now m) then 2 else 0)"
    using bucket_debt_range [OF assms, of ip] bucket_debt_retain [OF assms, of j]
    by (cases "j = ip") (auto simp: allow_cases [OF assms] bucket_debt_def)
  ultimately show ?thesis by blast
qed

interpretation addresses: leaky_bucket allow "\<lambda>ip now m. m" "\<lambda>ip. ip" "\<lambda>ip. False" bucket_debt buckets_wf 60 2
proof unfold_locales
  fix t t' :: real and s s' :: ip_buckets and j k a :: string
  assume wf: "buckets_wf t s"
  show "0 \<le> bucket_debt k s t \<and> bucket_debt k s t \<le> 60"
    by (rule bucket_debt_range [OF wf])
  show "bucket_debt k s t - (t' - t) \<le> bucket_debt k s t' \<and> buckets_wf t' s" if "t \<le> t'"
    using wf that by (fastforce simp: bucket_debt_def buckets_wf_def split: option.splits)
  show "bucket_debt j s t \<le> bucket_debt j (fst (allow k t s)) t \<and> buckets_wf t (fst (allow k t s))"
    using allow_keeps [OF wf, of k j] by simp
  assume c: "allow a t s = (s', True)"
  then show "buckets_wf t s'" using allow_keeps [OF wf, of a] by simp
  show "bucket_debt a s t + 2 \<le> bucket_debt a s' t" using allow_keeps [OF wf, of a a] c by simp
  show "bucket_debt j s t \<le> bucket_debt j s' t" if "j \<noteq> a" using allow_keeps [OF wf, of a j] c that by simp
qed

section \<open>The address a request is attributed to\<close>

text \<open>
  The operations on addresses: parsing, printing, CIDR parsing and membership. \<open>trusted\<close> is the
  configured set of proxy networks.
\<close>

record ('ip, 'net) ip_lib =
  ip_parse :: "string \<Rightarrow> 'ip option"
  ip_show :: "'ip \<Rightarrow> string"
  net_parse :: "string \<Rightarrow> 'net option"
  net_contains :: "'net \<Rightarrow> 'ip \<Rightarrow> bool"

definition CLOUDFLARE_CIDRS :: "string list" where
  "CLOUDFLARE_CIDRS =
     [''173.245.48.0/20'', ''103.21.244.0/22'', ''103.22.200.0/22'', ''103.31.4.0/22'',
      ''141.101.64.0/18'', ''108.162.192.0/18'', ''190.93.240.0/20'', ''188.114.96.0/20'',
      ''197.234.240.0/22'', ''198.41.128.0/17'', ''162.158.0.0/15'', ''104.16.0.0/13'',
      ''104.24.0.0/14'', ''172.64.0.0/13'', ''131.0.72.0/22'',
      ''2400:cb00::/32'', ''2606:4700::/32'', ''2803:f800::/32'', ''2405:b500::/32'',
      ''2405:8100::/32'', ''2a06:98c0::/29'', ''2c0f:f248::/32'']"

definition trusted_proxy_set :: "('ip, 'net) ip_lib \<Rightarrow> string option \<Rightarrow> 'net list" where
  "trusted_proxy_set L raw =
     (let source = (case raw of
                      Some v \<Rightarrow> if v = [] then []
                               else filter (\<lambda>s. s \<noteq> []) (map trim (split_on (CHR '','') v))
                    | None \<Rightarrow> CLOUDFLARE_CIDRS)
      in List.map_filter (net_parse L) source)"

definition peer_is_trusted_proxy :: "('ip, 'net) ip_lib \<Rightarrow> string option \<Rightarrow> 'ip \<Rightarrow> bool" where
  "peer_is_trusted_proxy L raw peer = list_ex (\<lambda>n. net_contains L n peer) (trusted_proxy_set L raw)"

text \<open>\<open>hs n\<close> is the value of header \<open>n\<close>, when it is present and readable as text.\<close>

definition valid_ip :: "('ip, 'net) ip_lib \<Rightarrow> string \<Rightarrow> bool" where
  "valid_ip L v \<longleftrightarrow> ip_parse L v \<noteq> None"

definition first_forwarded :: "('ip, 'net) ip_lib \<Rightarrow> string \<Rightarrow> string option" where
  "first_forwarded L v = find (valid_ip L) (map trim (split_on (CHR '','') v))"

definition forwarded_ip :: "('ip, 'net) ip_lib \<Rightarrow> (string \<rightharpoonup> string) \<Rightarrow> string option" where
  "forwarded_ip L hs =
     (case filter (valid_ip L) (List.map_filter hs [''cf-connecting-ip'', ''x-real-ip'']) of
        v # _ \<Rightarrow> Some v
      | [] \<Rightarrow> (case hs ''x-forwarded-for'' of Some v \<Rightarrow> first_forwarded L v | None \<Rightarrow> None))"

definition real_client_ip ::
    "('ip, 'net) ip_lib \<Rightarrow> string option \<Rightarrow> (string \<rightharpoonup> string) \<Rightarrow> 'ip option \<Rightarrow> string" where
  "real_client_ip L raw hs peer =
     (let direct = (case peer of Some p \<Rightarrow> ip_show L p | None \<Rightarrow> ''unknown'') in
      case peer of None \<Rightarrow> direct
      | Some p \<Rightarrow> if peer_is_trusted_proxy L raw p
                 then (case forwarded_ip L hs of Some v \<Rightarrow> v | None \<Rightarrow> direct)
                 else direct)"

lemma real_client_ip_direct:
  "\<not> peer_is_trusted_proxy L raw p \<Longrightarrow> real_client_ip L raw hs (Some p) = ip_show L p"
  by (simp add: real_client_ip_def)

section \<open>The anonymous limiter\<close>

record 'ip web_request =
  wr_path :: string
  wr_headers :: "string \<rightharpoonup> string"
  wr_peer :: "'ip option"

definition is_limited_path :: "string \<Rightarrow> bool" where
  "is_limited_path path \<longleftrightarrow>
     starts_with path ''/auth/'' \<or> path = ''/api/me'' \<or> starts_with path ''/api/auth/mfa/'' \<or>
     path = ''/api/device/request'' \<or> path = ''/api/device/approve'' \<or>
     path = ''/api/cli-auth/request'' \<or> starts_with path ''/api/v1/''"

definition anon_limiter ::
    "('ip, 'net) ip_lib \<Rightarrow> string option \<Rightarrow> bool \<Rightarrow> real \<Rightarrow> 'ip web_request \<Rightarrow> ip_buckets
      \<Rightarrow> ip_buckets \<times> gate" where
  "anon_limiter L raw dev_mode now req m =
     (if dev_mode then (m, Next)
      else if \<not> is_limited_path (wr_path req) then (m, Next)
      else case allow (real_client_ip L raw (wr_headers req) (wr_peer req)) now m of
             (m', True) \<Rightarrow> (m', Next)
           | (m', False) \<Rightarrow> (m', Respond 429 ''rate limited''))"

text \<open>
  A run of the layer; \<open>anon_passed\<close> counts the requests on limited paths of address \<open>k\<close> that it
  handed on.
\<close>

fun anon_passed ::
    "('ip, 'net) ip_lib \<Rightarrow> string option \<Rightarrow> string \<Rightarrow> ('ip web_request \<times> real) list \<Rightarrow> ip_buckets \<Rightarrow> nat" where
  "anon_passed L raw k [] m = 0"
| "anon_passed L raw k ((req, now) # rs) m =
     (case anon_limiter L raw False now req m of (m', g) \<Rightarrow>
        (if g = Next \<and> is_limited_path (wr_path req) \<and>
            real_client_ip L raw (wr_headers req) (wr_peer req) = k then 1 else 0) +
        anon_passed L raw k rs m')"

definition limited_ips ::
    "('ip, 'net) ip_lib \<Rightarrow> string option \<Rightarrow> ('ip web_request \<times> real) list \<Rightarrow> (string \<times> real) list" where
  "limited_ips L raw rs =
     map (\<lambda>(r, now). (real_client_ip L raw (wr_headers r) (wr_peer r), now))
       (filter (\<lambda>(r, now). is_limited_path (wr_path r)) rs)"

lemma anon_passed_admitted:
  "anon_passed L raw k rs m = addresses.admitted k (limited_ips L raw rs) m"
  by (induction L raw k rs m rule: anon_passed.induct)
    (auto simp: anon_limiter_def limited_ips_def addresses.attempt_def split: prod.splits bool.splits)

lemma sorted_le_last: "sorted xs \<Longrightarrow> x \<in> set xs \<Longrightarrow> x \<le> last xs"
  by (induction xs) auto

lemma limited_ips_sorted:
  assumes "sorted (t # map snd rs)" and "last (t # map snd rs) \<le> t'"
  shows "sorted (t # map snd (limited_ips L raw rs)) \<and> last (t # map snd (limited_ips L raw rs)) \<le> t'"
proof -
  have times: "map snd (limited_ips L raw rs) =
      map snd (filter (\<lambda>(r, now). is_limited_path (wr_path r)) rs)"
    by (auto simp: limited_ips_def)
  have le: "x \<le> t'" if "x \<in> set (t # map snd rs)" for x
    using sorted_le_last [OF assms(1) that] assms(2) by (rule order_trans)
  let ?ts = "map snd (filter (\<lambda>(r, now). is_limited_path (wr_path r)) rs)"
  have "set (t # ?ts) \<subseteq> set (t # map snd rs)" by auto
  moreover have "last (t # ?ts) \<in> set (t # ?ts)" by (rule last_in_set) simp
  ultimately have "last (t # ?ts) \<le> t'" using le by blast
  with assms(1) show ?thesis unfolding times by (auto simp: sorted_filter)
qed

text \<open>
  A client that connects directly cannot dodge the limiter. Over any run of the layer outside dev
  mode, at non-decreasing times from \<open>t\<close> to \<open>t'\<close>, take a peer that is not a trusted proxy. However it
  sets \<open>CF-Connecting-IP\<close>, \<open>X-Real-IP\<close> and \<open>X-Forwarded-For\<close>, every request of it is attributed to its own
  address, and at most \<open>30 + (t' - t) / 2\<close> of the requests on the limited paths attributed to that
  address are handed on.
\<close>

theorem direct_client_is_rate_limited:
  assumes "sorted (t # map snd rs)" and "last (t # map snd rs) \<le> t'"
    and "\<not> peer_is_trusted_proxy L raw p"
  shows "(\<forall>r\<in>set rs. wr_peer (fst r) = Some p \<longrightarrow>
            real_client_ip L raw (wr_headers (fst r)) (wr_peer (fst r)) = ip_show L p) \<and>
         2 * real (anon_passed L raw (ip_show L p) rs Map.empty) \<le> 60 + (t' - t)"
proof
  show "\<forall>r\<in>set rs. wr_peer (fst r) = Some p \<longrightarrow>
            real_client_ip L raw (wr_headers (fst r)) (wr_peer (fst r)) = ip_show L p"
    using assms(3) by (simp add: real_client_ip_direct)
  have "buckets_wf t Map.empty" by (simp add: buckets_wf_def)
  then show "2 * real (anon_passed L raw (ip_show L p) rs Map.empty) \<le> 60 + (t' - t)"
    using addresses.admitted_bound limited_ips_sorted [OF assms(1,2)]
    unfolding anon_passed_admitted by blast
qed

text \<open>A toy address type for the witnesses: addresses and networks are their texts.\<close>

definition demo_ips :: "(string, string) ip_lib" where
  "demo_ips = \<lparr>ip_parse = Some, ip_show = (\<lambda>s. s), net_parse = Some, net_contains = (\<lambda>n i. n = i)\<rparr>"

definition demo_spoof :: "string \<Rightarrow> string web_request" where
  "demo_spoof h = \<lparr>wr_path = ''/auth/login'', wr_headers = [''cf-connecting-ip'' \<mapsto> h], wr_peer = Some ''peer''\<rparr>"

theorem direct_client_is_rate_limited_witness:
  "anon_passed demo_ips (Some []) ''peer'' (replicate 50 (demo_spoof ''1'', 7)) Map.empty \<le> 30"
  using direct_client_is_rate_limited
    [of 7 "replicate 50 (demo_spoof ''1'', 7)" 7 demo_ips "Some []" "''peer''"]
  by (simp add: peer_is_trusted_proxy_def trusted_proxy_set_def List.map_filter_def demo_ips_def)

section \<open>The allowlist layer\<close>

definition cidr_contains :: "('ip, 'net) ip_lib \<Rightarrow> string \<Rightarrow> 'ip \<Rightarrow> bool" where
  "cidr_contains L cidr ip =
     (case net_parse L cidr of Some net \<Rightarrow> net_contains L net ip
      | None \<Rightarrow> (case ip_parse L cidr of Some single \<Rightarrow> single = ip | None \<Rightarrow> False))"

definition ip_allowed :: "('ip, 'net) ip_lib \<Rightarrow> (string \<times> bool) list \<Rightarrow> string \<Rightarrow> bool" where
  "ip_allowed L entries ip_str =
     (let enabled = map fst (filter snd entries) in
      if enabled = [] then True
      else case ip_parse L ip_str of None \<Rightarrow> False
           | Some ip \<Rightarrow> list_ex (\<lambda>cidr. cidr_contains L cidr ip) enabled)"

definition is_exempt :: "string \<Rightarrow> bool" where
  "is_exempt path \<longleftrightarrow>
     path = ''/healthz'' \<or> path = ''/agent/ws'' \<or> starts_with path ''/internal'' \<or>
     starts_with path ''/api/device'' \<or> starts_with path ''/api/v1''"

definition ip_allowlist ::
    "('ip, 'net) ip_lib \<Rightarrow> string option \<Rightarrow> bool \<Rightarrow> (string \<times> bool) list \<Rightarrow> 'ip web_request \<Rightarrow> gate" where
  "ip_allowlist L raw ee_active entries req =
     (if \<not> ee_active \<or> is_exempt (wr_path req) then Next
      else if list_all (\<lambda>e. \<not> snd e) entries then Next
      else if ip_allowed L entries (real_client_ip L raw (wr_headers req) (wr_peer req)) then Next
      else Respond 403 ''ip not allowed'')"

text \<open>
  The allowlist cannot be talked around. With the enterprise edition active and at least one enabled
  entry, a request outside the exempt paths that comes straight from an address \<open>p\<close>, not a trusted
  proxy, is handed on exactly when an enabled entry covers \<open>p\<close>, whatever forwarding headers it carries,
  and is answered 403 otherwise. \<open>p\<close>'s text parses back to \<open>p\<close>.
\<close>

theorem allowlist_judges_direct_peer:
  assumes "\<not> peer_is_trusted_proxy L raw p" and "wr_peer req = Some p" and "\<not> is_exempt (wr_path req)"
    and "\<exists>e\<in>set entries. snd e" and "ip_parse L (ip_show L p) = Some p"
  shows "ip_allowlist L raw True entries req =
    (if \<exists>(cidr, enabled)\<in>set entries. enabled \<and> cidr_contains L cidr p then Next
     else Respond 403 ''ip not allowed'')"
proof -
  have "\<not> list_all (\<lambda>e. \<not> snd e) entries" and "map fst (filter snd entries) \<noteq> []"
    using assms(4) by (auto simp: list_all_iff filter_empty_conv)
  then show ?thesis
    using assms by (auto simp: ip_allowlist_def ip_allowed_def real_client_ip_direct list_ex_iff Let_def)
qed

theorem allowlist_judges_direct_peer_witness:
  "ip_allowlist demo_ips (Some []) True [(''office'', True)] (demo_spoof ''office'') =
     Respond 403 ''ip not allowed''"
  using allowlist_judges_direct_peer
    [of demo_ips "Some []" "''peer''" "demo_spoof ''office''" "[(''office'', True)]"]
  by (simp add: peer_is_trusted_proxy_def trusted_proxy_set_def List.map_filter_def demo_ips_def
      demo_spoof_def is_exempt_def starts_with_def cidr_contains_def)

end
