(* ===== verification/Single_Use.thy ===== *)
theory Single_Use
  imports SF_Prelude
begin

text \<open>
  The contract of a store of single-use tickets, which several components implement: approved
  pairing requests, refresh tokens, trusted-operation approvals and invites. An operation may try to
  spend a ticket; it succeeds only while the ticket is live, and a success kills the ticket. An
  operation may also issue tickets; \<open>reissues a k\<close> says that it issues \<open>k\<close> itself. What a client
  relies on is proved once here: over any sequence of operations that does not issue a ticket anew, the
  ticket is spent at most once, and a dead ticket is never spent again.
\<close>

locale ticket_store =
  fixes spend :: "'a \<Rightarrow> 's \<Rightarrow> 's \<times> bool"
    and ticket :: "'a \<Rightarrow> 'k option"
    and live :: "'k \<Rightarrow> 's \<Rightarrow> bool"
    and reissues :: "'a \<Rightarrow> 'k \<Rightarrow> bool"
    and wf :: "'k \<Rightarrow> 's \<Rightarrow> bool"
  assumes spend_needs_live: "wf k s \<Longrightarrow> snd (spend a s) \<Longrightarrow> ticket a = Some k \<Longrightarrow> live k s"
    and spend_kills: "wf k s \<Longrightarrow> snd (spend a s) \<Longrightarrow> ticket a = Some k \<Longrightarrow> \<not> reissues a k \<Longrightarrow>
      \<not> live k (fst (spend a s))"
    and stays_dead: "wf k s \<Longrightarrow> \<not> live k s \<Longrightarrow> \<not> reissues a k \<Longrightarrow> \<not> live k (fst (spend a s))"
    and spend_wf: "wf k s \<Longrightarrow> \<not> reissues a k \<Longrightarrow> wf k (fst (spend a s))"
begin

fun successes :: "'k \<Rightarrow> 'a list \<Rightarrow> 's \<Rightarrow> nat" where
  "successes k [] s = 0"
| "successes k (a # as) s =
     (if snd (spend a s) \<and> ticket a = Some k then 1 else 0) + successes k as (fst (spend a s))"

lemma dead_never_spent:
  assumes "wf k s" and "\<not> live k s" and "\<forall>a\<in>set as. \<not> reissues a k"
  shows "successes k as s = 0"
  using assms
proof (induction as arbitrary: s)
  case (Cons a as)
  have "\<not> (snd (spend a s) \<and> ticket a = Some k)"
    using Cons.prems spend_needs_live by blast
  moreover have "successes k as (fst (spend a s)) = 0"
    using Cons.prems stays_dead [of k s a] spend_wf [of k s a] by (intro Cons.IH) auto
  ultimately show ?case by simp
qed simp

lemma spent_at_most_once:
  assumes "wf k s" and "\<forall>a\<in>set as. \<not> reissues a k"
  shows "successes k as s \<le> 1"
  using assms
proof (induction as arbitrary: s)
  case (Cons a as)
  show ?case
  proof (cases "snd (spend a s) \<and> ticket a = Some k")
    case True
    then have "\<not> live k (fst (spend a s))"
      using Cons.prems spend_kills by auto
    then have "successes k as (fst (spend a s)) = 0"
      using Cons.prems spend_wf [of k s a] by (intro dead_never_spent) auto
    with True show ?thesis by simp
  next
    case False
    with Cons.prems Cons.IH [of "fst (spend a s)"] spend_wf [of k s a] show ?thesis by auto
  qed
qed simp

end

end
