(* ===== verification/Users_Db.thy ===== *)
theory Users_Db
  imports Single_Use
begin

text \<open>
  The account tables of \<open>server/src/db.rs\<close> and their statements: users with their role, second factor
  and session epoch, the seat limit of the licence, single-use invites, and the audit log.

  A fault oracle \<open>flt\<close> names the statements that fail. Shown: the tables stay well keyed, the seat cap
  holds over any run of sign-ins, and an invite is redeemed at most once (an interpretation of
  \<open>ticket_store\<close>).
\<close>

section \<open>Tables\<close>

record UserRow =
  u_login :: string
  u_role :: string
  u_totp_enabled :: int
  u_totp_secret :: "string option"
  u_totp_recovery_hashes :: string
  u_created_at :: int
  u_last_login_at :: int
  u_session_epoch :: int

record InviteRow =
  i_code :: string
  i_role :: string
  i_created_by :: string
  i_created_at :: int
  i_expires_at :: int
  i_used_by :: "string option"
  i_used_at :: "int option"

record AuditRow =
  au_ts :: int
  au_actor :: "string option"
  au_agent_id :: "string option"
  au_kind :: string
  au_ok :: int
  au_detail :: "string option"

record auth_db =
  db_users :: "UserRow table"
  db_invites :: "InviteRow table"
  db_seats :: "int option"
  db_audit :: "AuditRow table"

definition valid_role :: "string \<Rightarrow> bool" where
  "valid_role r \<longleftrightarrow> r = ''admin'' \<or> r = ''viewer''"

text \<open>The primary keys and the \<open>CHECK\<close> on \<open>users.role\<close>.\<close>

definition db_wf :: "auth_db \<Rightarrow> bool" where
  "db_wf d \<longleftrightarrow> keyed u_login (db_users d) \<and> keyed i_code (db_invites d) \<and>
     list_all (\<lambda>u. valid_role (u_role u)) (db_users d)"

definition CE_USER_LIMIT :: int where "CE_USER_LIMIT = 3"

section \<open>Statements\<close>

definition record_audit ::
    "fault \<Rightarrow> int \<Rightarrow> string option \<Rightarrow> string option \<Rightarrow> string \<Rightarrow> bool \<Rightarrow> string option \<Rightarrow> auth_db \<Rightarrow> auth_db" where
  "record_audit flt ts actor agent_id kind ok detail d =
     (if flt ''record_audit'' then d
      else d\<lparr>db_audit := db_audit d @ [\<lparr>au_ts = ts, au_actor = actor, au_agent_id = agent_id,
               au_kind = kind, au_ok = (if ok then 1 else 0), au_detail = detail\<rparr>]\<rparr>)"

definition get_user :: "fault \<Rightarrow> auth_db \<Rightarrow> string \<Rightarrow> (sql_error, UserRow option) result" where
  "get_user flt d login =
     (if flt ''get_user'' then Inl Sql_Error
      else Inr (sql_fetch_optional (\<lambda>u. u_login u = login) (db_users d)))"

definition bump_session_epoch :: "fault \<Rightarrow> string \<Rightarrow> int \<Rightarrow> auth_db \<Rightarrow> auth_db \<times> bool" where
  "bump_session_epoch flt login now d =
     (if flt ''bump_session_epoch'' then (d, False)
      else (d\<lparr>db_users := sql_update (\<lambda>u. u_login u = login) (\<lambda>u. u\<lparr>u_session_epoch := now\<rparr>)
                 (db_users d)\<rparr>, True))"

definition count_users :: "fault \<Rightarrow> auth_db \<Rightarrow> (sql_error, int) result" where
  "count_users flt d = (if flt ''count_users'' then Inl Sql_Error else Inr (int (length (db_users d))))"

definition set_user_role :: "fault \<Rightarrow> string \<Rightarrow> string \<Rightarrow> auth_db \<Rightarrow> auth_db \<times> (sql_error, bool) result" where
  "set_user_role flt login role d =
     (let P = (\<lambda>u. u_login u = login); n = rows_affected P (db_users d) in
      if flt ''set_user_role'' \<or> (n > 0 \<and> \<not> valid_role role) then (d, Inl Sql_Error)
      else (d\<lparr>db_users := sql_update P (\<lambda>u. u\<lparr>u_role := role\<rparr>) (db_users d)\<rparr>, Inr (n > 0)))"

definition set_user_totp :: "string \<Rightarrow> string \<Rightarrow> string \<Rightarrow> auth_db \<Rightarrow> auth_db" where
  "set_user_totp login secret recovery_hashes_json d =
     d\<lparr>db_users := sql_update (\<lambda>u. u_login u = login)
         (\<lambda>u. u\<lparr>u_totp_enabled := 1, u_totp_secret := Some secret,
                 u_totp_recovery_hashes := recovery_hashes_json\<rparr>) (db_users d)\<rparr>"

definition clear_user_totp :: "string \<Rightarrow> auth_db \<Rightarrow> auth_db" where
  "clear_user_totp login d =
     d\<lparr>db_users := sql_update (\<lambda>u. u_login u = login)
         (\<lambda>u. u\<lparr>u_totp_enabled := 0, u_totp_secret := None, u_totp_recovery_hashes := ''[]''\<rparr>)
         (db_users d)\<rparr>"

definition update_user_recovery_hashes :: "string \<Rightarrow> string \<Rightarrow> auth_db \<Rightarrow> auth_db" where
  "update_user_recovery_hashes login recovery_hashes_json d =
     d\<lparr>db_users := sql_update (\<lambda>u. u_login u = login)
         (\<lambda>u. u\<lparr>u_totp_recovery_hashes := recovery_hashes_json\<rparr>) (db_users d)\<rparr>"

datatype SeatedUpsert = Existing UserRow | Created UserRow | SeatCapReached

definition upsert_login_with_seat_check ::
    "fault \<Rightarrow> string \<Rightarrow> string \<Rightarrow> int \<Rightarrow> int \<Rightarrow> auth_db \<Rightarrow> auth_db \<times> (sql_error, SeatedUpsert) result" where
  "upsert_login_with_seat_check flt login default_role_if_new now seat_limit d =
     (if flt ''upsert_login'' then (d, Inl Sql_Error)
      else case sql_fetch_optional (\<lambda>u. u_login u = login) (db_users d) of
        Some _ \<Rightarrow>
          (let us = sql_update (\<lambda>u. u_login u = login) (\<lambda>u. u\<lparr>u_last_login_at := now\<rparr>) (db_users d)
           in case sql_fetch_optional (\<lambda>u. u_login u = login) us of
                Some row \<Rightarrow> (d\<lparr>db_users := us\<rparr>, Inr (Existing row))
              | None \<Rightarrow> (d, Inl Sql_Error))
      | None \<Rightarrow>
          if int (length (db_users d)) \<ge> seat_limit then (d, Inr SeatCapReached)
          else if \<not> valid_role default_role_if_new then (d, Inl Sql_Error)
          else (let row = \<lparr>u_login = login, u_role = default_role_if_new, u_totp_enabled = 0,
                           u_totp_secret = None, u_totp_recovery_hashes = ''[]'', u_created_at = now,
                           u_last_login_at = now, u_session_epoch = 0\<rparr>
                in case sql_insert u_login row (db_users d) of
                     Inl e \<Rightarrow> (d, Inl e)
                   | Inr us \<Rightarrow> (d\<lparr>db_users := us\<rparr>, Inr (Created row))))"

definition seat_limit :: "fault \<Rightarrow> auth_db \<Rightarrow> int" where
  "seat_limit flt d =
     (if flt ''seat_limit'' then CE_USER_LIMIT
      else case db_seats d of Some n \<Rightarrow> n | None \<Rightarrow> CE_USER_LIMIT)"

definition set_ee_seat_limit :: "int \<Rightarrow> auth_db \<Rightarrow> auth_db" where
  "set_ee_seat_limit seats d = d\<lparr>db_seats := Some seats\<rparr>"

definition create_invite ::
    "fault \<Rightarrow> string \<Rightarrow> string \<Rightarrow> string \<Rightarrow> int \<Rightarrow> int \<Rightarrow> auth_db \<Rightarrow> auth_db \<times> (sql_error, unit) result" where
  "create_invite flt code role created_by now expires_at d =
     (if flt ''create_invite'' then (d, Inl Sql_Error)
      else case sql_insert i_code
             \<lparr>i_code = code, i_role = role, i_created_by = created_by, i_created_at = now,
              i_expires_at = expires_at, i_used_by = None, i_used_at = None\<rparr> (db_invites d) of
             Inl e \<Rightarrow> (d, Inl e) | Inr is \<Rightarrow> (d\<lparr>db_invites := is\<rparr>, Inr ()))"

definition get_invite :: "fault \<Rightarrow> auth_db \<Rightarrow> string \<Rightarrow> (sql_error, InviteRow option) result" where
  "get_invite flt d code =
     (if flt ''get_invite'' then Inl Sql_Error
      else Inr (sql_fetch_optional (\<lambda>i. i_code i = code) (db_invites d)))"

definition redeemable :: "string \<Rightarrow> InviteRow \<Rightarrow> bool" where
  "redeemable code i \<longleftrightarrow> i_code i = code \<and> i_used_by i = None"

definition redeem_invite ::
    "fault \<Rightarrow> string \<Rightarrow> string \<Rightarrow> int \<Rightarrow> auth_db \<Rightarrow> auth_db \<times> (sql_error, bool) result" where
  "redeem_invite flt code login now d =
     (if flt ''redeem_invite'' then (d, Inl Sql_Error)
      else (d\<lparr>db_invites := sql_update (redeemable code)
                (\<lambda>i. i\<lparr>i_used_by := Some login, i_used_at := Some now\<rparr>) (db_invites d)\<rparr>,
            Inr (rows_affected (redeemable code) (db_invites d) > 0)))"

definition delete_invite :: "fault \<Rightarrow> string \<Rightarrow> auth_db \<Rightarrow> auth_db \<times> (sql_error, bool) result" where
  "delete_invite flt code d =
     (if flt ''delete_invite'' then (d, Inl Sql_Error)
      else (d\<lparr>db_invites := sql_delete (\<lambda>i. i_code i = code) (db_invites d)\<rparr>,
            Inr (rows_affected (\<lambda>i. i_code i = code) (db_invites d) > 0)))"

section \<open>Lemmas\<close>

lemmas user_stmts = record_audit_def bump_session_epoch_def set_user_role_def set_user_totp_def
  clear_user_totp_def update_user_recovery_hashes_def create_invite_def redeem_invite_def delete_invite_def

lemma record_audit_simps [simp]:
  "db_users (record_audit flt ts a g k ok dt d) = db_users d"
  "db_invites (record_audit flt ts a g k ok dt d) = db_invites d"
  "db_seats (record_audit flt ts a g k ok dt d) = db_seats d"
  by (simp_all add: record_audit_def)

lemma fetch_login_update:
  assumes "\<And>u. u_login (f u) = u_login u"
  shows "sql_fetch_optional (\<lambda>u. u_login u = l) (sql_update (\<lambda>u. u_login u = l') f us) =
         map_option (\<lambda>u. if l = l' then f u else u) (sql_fetch_optional (\<lambda>u. u_login u = l) us)"
  using assms by (induction us) (auto simp: sql_simps)

lemma db_wf_update_users:
  assumes "db_wf d" and "\<And>u. u_login (f u) = u_login u" and "\<And>u. valid_role (u_role u) \<Longrightarrow> valid_role (u_role (f u))"
  shows "db_wf (d\<lparr>db_users := sql_update P f (db_users d)\<rparr>)"
  using assms by (auto simp: db_wf_def keyed_update list_all_iff)

lemma db_wf_audit [simp]: "db_wf (record_audit flt ts a g k ok dt d) = db_wf d"
  by (simp add: db_wf_def)

lemma db_wf_bump: "db_wf d \<Longrightarrow> db_wf (fst (bump_session_epoch flt l now d))"
  by (simp add: bump_session_epoch_def db_wf_update_users)

lemma db_wf_set_role: "db_wf d \<Longrightarrow> db_wf (fst (set_user_role flt l r d))"
proof (cases "flt ''set_user_role'' \<or> (rows_affected (\<lambda>u. u_login u = l) (db_users d) > 0 \<and> \<not> valid_role r)")
  case False
  assume d: "db_wf d"
  have "\<forall>u\<in>set (db_users d). u_login u = l \<longrightarrow> valid_role r"
    using False by (auto simp: rows_affected_pos)
  with False d show ?thesis
    by (auto simp: set_user_role_def Let_def db_wf_def keyed_update list_all_iff)
qed (simp add: set_user_role_def Let_def)

lemma upsert_cases:
  obtains (fault) e where "upsert_login_with_seat_check flt l r now cap d = (d, Inl e)"
  | (existing) u where "sql_fetch_optional (\<lambda>u. u_login u = l) (db_users d) = Some u"
      and "upsert_login_with_seat_check flt l r now cap d =
        (d\<lparr>db_users := sql_update (\<lambda>u. u_login u = l) (\<lambda>u. u\<lparr>u_last_login_at := now\<rparr>) (db_users d)\<rparr>,
         Inr (Existing (u\<lparr>u_last_login_at := now\<rparr>)))"
  | (full) "sql_fetch_optional (\<lambda>u. u_login u = l) (db_users d) = None"
      and "cap \<le> int (length (db_users d))"
      and "upsert_login_with_seat_check flt l r now cap d = (d, Inr SeatCapReached)"
  | (created) row where "sql_fetch_optional (\<lambda>u. u_login u = l) (db_users d) = None"
      and "int (length (db_users d)) < cap" and "valid_role r"
      and "u_login row = l" and "u_role row = r" and "u_totp_enabled row = 0" and "u_session_epoch row = 0"
      and "upsert_login_with_seat_check flt l r now cap d =
        (d\<lparr>db_users := db_users d @ [row]\<rparr>, Inr (Created row))"
proof (cases "flt ''upsert_login''")
  case True
  show ?thesis by (rule fault) (simp add: upsert_login_with_seat_check_def True)
next
  case False
  show ?thesis
  proof (cases "sql_fetch_optional (\<lambda>u. u_login u = l) (db_users d)")
    case None
    then have fresh: "l \<notin> u_login ` set (db_users d)" by auto
    show ?thesis
    proof (cases "int (length (db_users d)) < cap \<and> valid_role r")
      case True
      show ?thesis
        using True False fresh
        by (intro created [OF None, of "\<lparr>u_login = l, u_role = r, u_totp_enabled = 0, u_totp_secret = None,
            u_totp_recovery_hashes = ''[]'', u_created_at = now, u_last_login_at = now,
            u_session_epoch = 0\<rparr>"])
          (simp_all add: upsert_login_with_seat_check_def None sql_insert_def Let_def del: fetch_None_iff)
    next
      case no: False
      show ?thesis
        using full [OF None] fault False no
        by (cases "cap \<le> int (length (db_users d))")
          (auto simp: upsert_login_with_seat_check_def None simp del: fetch_None_iff)
    qed
  next
    case (Some u)
    moreover from Some have "u_login u = l" using fetch_SomeD by fastforce
    ultimately show ?thesis
      using existing [OF Some] False
      by (simp add: upsert_login_with_seat_check_def fetch_login_update)
  qed
qed

lemma db_wf_upsert:
  assumes "db_wf d" shows "db_wf (fst (upsert_login_with_seat_check flt l r now cap d))"
proof (cases rule: upsert_cases [of flt l r now cap d])
  case (created row)
  then show ?thesis using assms by (auto simp: db_wf_def keyed_def)
qed (use assms in \<open>auto simp: db_wf_update_users\<close>)

lemma upsert_count:
  "int (length (db_users (fst (upsert_login_with_seat_check flt l r now cap d)))) \<le>
     max (int (length (db_users d))) cap"
  by (cases rule: upsert_cases [of flt l r now cap d]) auto

lemma keyed_redeem: "keyed i_code (db_invites d) \<Longrightarrow> keyed i_code (db_invites (fst (redeem_invite flt c l now d)))"
  by (simp add: redeem_invite_def keyed_update)

text \<open>
  Invites as tickets: an attempt is a code, a login and a time with its fault; the ticket is live while a
  row of that code is unused.
\<close>

definition invite_live :: "string \<Rightarrow> auth_db \<Rightarrow> bool" where
  "invite_live code d \<longleftrightarrow> (\<exists>i\<in>set (db_invites d). redeemable code i)"

definition redeem_attempt :: "fault \<times> string \<times> string \<times> int \<Rightarrow> auth_db \<Rightarrow> auth_db \<times> bool" where
  "redeem_attempt a d =
     (case a of (flt, code, login, now) \<Rightarrow>
        (case redeem_invite flt code login now d of (d', r) \<Rightarrow> (d', r = Inr True)))"

lemma redeem_attempt_simp:
  "redeem_attempt (flt, code, login, now) d =
     (case redeem_invite flt code login now d of (d', r) \<Rightarrow> (d', r = Inr True))"
  by (simp add: redeem_attempt_def)

lemma invite_live_redeem:
  "invite_live k (fst (redeem_attempt a d)) \<Longrightarrow>
     invite_live k d \<and> (snd (redeem_attempt a d) \<longrightarrow> k \<noteq> fst (snd a))"
  by (cases a) (auto simp: invite_live_def redeem_attempt_def redeem_invite_def redeemable_def split: if_splits)

interpretation invites: ticket_store redeem_attempt "\<lambda>a. Some (fst (snd a))" invite_live "\<lambda>a k. False" "\<lambda>k d. True"
proof unfold_locales
  fix d :: auth_db and a :: "fault \<times> string \<times> string \<times> int" and k
  show "snd (redeem_attempt a d) \<Longrightarrow> Some (fst (snd a)) = Some k \<Longrightarrow> invite_live k d"
    by (cases a) (auto simp: invite_live_def redeem_attempt_def redeem_invite_def rows_affected_pos
        split: if_splits)
  show "snd (redeem_attempt a d) \<Longrightarrow> Some (fst (snd a)) = Some k \<Longrightarrow> \<not> invite_live k (fst (redeem_attempt a d))"
    using invite_live_redeem by blast
  show "\<not> invite_live k d \<Longrightarrow> \<not> invite_live k (fst (redeem_attempt a d))"
    using invite_live_redeem by blast
qed auto

section \<open>Properties\<close>

text \<open>A run of sign-ins: fault, login, default role, time, and the cap read for it.\<close>

fun sign_ins :: "(fault \<times> string \<times> string \<times> int \<times> int) list \<Rightarrow> auth_db \<Rightarrow> auth_db" where
  "sign_ins [] d = d"
| "sign_ins ((flt, login, role, now, cap) # xs) d =
     sign_ins xs (fst (upsert_login_with_seat_check flt login role now cap d))"

lemma sign_ins_count:
  assumes "\<forall>x\<in>set xs. snd (snd (snd (snd x))) \<le> cap"
  shows "int (length (db_users (sign_ins xs d))) \<le> max (int (length (db_users d))) cap"
  using assms
proof (induction xs d rule: sign_ins.induct)
  case (2 flt login role now c xs d)
  then show ?case using upsert_count [of flt login role now c d] by auto
qed simp

lemma upsert_role_kept:
  assumes "sql_fetch_optional (\<lambda>u. u_login u = k) (db_users d) = Some u"
  shows "\<exists>u'. sql_fetch_optional (\<lambda>u. u_login u = k)
      (db_users (fst (upsert_login_with_seat_check flt l r now cap d))) = Some u' \<and>
      u_role u' = u_role u \<and> u_session_epoch u' = u_session_epoch u \<and> u_totp_enabled u' = u_totp_enabled u"
proof (cases rule: upsert_cases [of flt l r now cap d])
  case (created row)
  have "sql_fetch_optional P (xs @ ys) = Some x" if "sql_fetch_optional P xs = Some x" for P :: "UserRow \<Rightarrow> bool" and xs ys x
    using that by (induction xs) (auto simp: sql_simps split: if_splits)
  with created assms show ?thesis by simp
qed (use assms in \<open>auto simp: fetch_login_update\<close>)

lemma sign_ins_role_kept:
  assumes "sql_fetch_optional (\<lambda>u. u_login u = k) (db_users d) = Some u"
  shows "\<exists>u'. sql_fetch_optional (\<lambda>u. u_login u = k) (db_users (sign_ins xs d)) = Some u' \<and> u_role u' = u_role u"
  using assms
proof (induction xs d arbitrary: u rule: sign_ins.induct)
  case (2 flt login role now c xs d)
  from upsert_role_kept [OF 2(2), of flt login role now c] 2(1) show ?case by fastforce
qed simp

text \<open>
  C13: the seat cap holds. However sign-ins interleave (each \<open>upsert_login_with_seat_check\<close> is one
  transaction), whatever statements fail and whatever role is asked for, the number of accounts never
  exceeds the larger of what it was and the highest cap in force; logins stay unique and roles valid; and
  signing in never changes the role of an account that already exists.
\<close>

theorem seat_cap_holds:
  assumes "db_wf d" and "\<forall>x\<in>set xs. snd (snd (snd (snd x))) \<le> cap"
  shows "int (length (db_users (sign_ins xs d))) \<le> max (int (length (db_users d))) cap \<and>
    db_wf (sign_ins xs d) \<and>
    (\<forall>k u. sql_fetch_optional (\<lambda>u. u_login u = k) (db_users d) = Some u \<longrightarrow>
       (\<exists>u'. sql_fetch_optional (\<lambda>u. u_login u = k) (db_users (sign_ins xs d)) = Some u' \<and>
          u_role u' = u_role u))"
proof (intro conjI allI impI)
  show "int (length (db_users (sign_ins xs d))) \<le> max (int (length (db_users d))) cap"
    using assms(2) by (rule sign_ins_count)
  show "db_wf (sign_ins xs d)"
    using assms(1) by (induction xs d rule: sign_ins.induct) (auto simp: db_wf_upsert)
qed (rule sign_ins_role_kept)

definition demo_db :: auth_db where
  "demo_db = \<lparr>db_users = [], db_invites = [], db_seats = None, db_audit = []\<rparr>"

theorem seat_cap_holds_witness:
  "int (length (db_users (sign_ins (map (\<lambda>l. (\<lambda>_. False, l, ''viewer'', 5, 3)) [''a'', ''b'', ''c'', ''d''])
     demo_db))) \<le> 3"
  using seat_cap_holds [of demo_db "map (\<lambda>l. (\<lambda>_. False, l, ''viewer'', 5, 3)) [''a'', ''b'', ''c'', ''d'']" 3]
  by (simp add: demo_db_def db_wf_def)

text \<open>A run of redemptions of invites; \<open>redemptions\<close> counts the successful ones of \<open>code\<close>.\<close>

fun redemptions :: "string \<Rightarrow> (fault \<times> string \<times> string \<times> int) list \<Rightarrow> auth_db \<Rightarrow> nat" where
  "redemptions code [] d = 0"
| "redemptions code ((flt, c, login, now) # as) d =
     (case redeem_invite flt c login now d of (d', r) \<Rightarrow>
        (if c = code \<and> r = Inr True then 1 else 0) + redemptions code as d')"

lemma redemptions_successes: "redemptions code as d = invites.successes code as d"
  by (induction code as d rule: redemptions.induct)
    (auto simp: redeem_attempt_simp split: prod.splits)

text \<open>
  An invite is single use. Over any sequence of redemptions by any logins at any times, with any
  statements failing, \<open>redeem_invite\<close> reports success for one code at most once, and never for a code
  that was already used or does not exist.
\<close>

theorem invite_redeemed_at_most_once:
  "redemptions code as d \<le> 1 \<and> (\<not> invite_live code d \<longrightarrow> redemptions code as d = 0)"
  using invites.spent_at_most_once invites.dead_never_spent by (simp add: redemptions_successes)

theorem invite_redeemed_at_most_once_witness:
  "redemptions ''x'' [(\<lambda>_. False, ''x'', ''eve'', 5)] demo_db = 0"
  using invite_redeemed_at_most_once [of "''x''" "[(\<lambda>_. False, ''x'', ''eve'', 5)]" demo_db]
  by (simp add: invite_live_def demo_db_def)

end
