(* ===== verification/Session_Auth.thy ===== *)
theory Session_Auth
  imports Users_Db
begin

text \<open>
  \<open>server/src/auth.rs\<close>, \<open>csrf.rs\<close>, \<open>rbac.rs\<close> and \<open>users.rs\<close>: sessions as signed claims, their
  resolution against the users table, sign-in and logout, the two layers in front of every API handler,
  and the account handlers.

  The JWT library is the record \<open>jwt_lib\<close>, the cookie jar of the web framework and the readable
  headers are maps, the environment is a map, GitHub's answer to the OAuth exchange and the random
  tokens are arguments. Shown: what a resolved session proves, that a write reaches its handler only for
  an administrator with a matching CSRF token, that logout and role changes take effect, that the
  last administrator stays, and the two races and fail-open branches the code leaves.
\<close>

section \<open>Roles, claims, environment\<close>

datatype Role = Admin | Viewer

definition as_str :: "Role \<Rightarrow> string" where
  "as_str r = (case r of Admin \<Rightarrow> ''admin'' | Viewer \<Rightarrow> ''viewer'')"

definition Role_parse :: "string \<Rightarrow> Role" where
  "Role_parse s = (if s = ''admin'' then Admin else Viewer)"

record Claims =
  c_sub :: string
  c_exp :: int
  c_iat :: int
  c_role :: string
  c_mfa :: bool
  c_cli :: bool

type_synonym env = "string \<rightharpoonup> string"

text \<open>\<open>encode secret claims\<close> and \<open>decode secret now token\<close>, the latter with \<open>exp\<close> validated.\<close>

record jwt_lib =
  jwt_encode :: "string \<Rightarrow> Claims \<Rightarrow> string option"
  jwt_decode :: "string \<Rightarrow> int \<Rightarrow> string \<Rightarrow> Claims option"

definition env_or :: "env \<Rightarrow> string \<Rightarrow> string \<Rightarrow> string" where
  "env_or env name dflt = (case env name of Some v \<Rightarrow> v | None \<Rightarrow> dflt)"

definition allowed_users :: "env \<Rightarrow> string list" where
  "allowed_users env =
     filter (\<lambda>s. s \<noteq> []) (map trim (split_on (CHR '','') (env_or env ''ALLOWED_GITHUB_USERS'' ''sppidy'')))"

definition is_user_allowed :: "env \<Rightarrow> string \<Rightarrow> bool" where
  "is_user_allowed env login \<longleftrightarrow> login \<in> set (allowed_users env)"

definition cookie_secure :: "env \<Rightarrow> bool" where
  "cookie_secure env \<longleftrightarrow>
     to_ascii_lowercase (trim (env_or env ''COOKIE_SECURE'' []))
       \<notin> {''0'', ''false'', ''no'', ''off''}"

definition session_cookie_name :: "env \<Rightarrow> string" where
  "session_cookie_name env = (if cookie_secure env then ''__Host-auth_token'' else ''auth_token'')"

definition oauth_state_cookie_name :: "env \<Rightarrow> string" where
  "oauth_state_cookie_name env = (if cookie_secure env then ''__Host-oauth_state'' else ''oauth_state'')"

definition invite_cookie_name :: "env \<Rightarrow> string" where
  "invite_cookie_name env = (if cookie_secure env then ''__Host-pending_invite'' else ''pending_invite'')"

definition dev_flag_set :: "env \<Rightarrow> bool" where
  "dev_flag_set env \<longleftrightarrow>
     to_ascii_lowercase (trim (env_or env ''SHELLFLEET_DEV'' []))
       \<in> {''1'', ''true'', ''yes'', ''on''}"

definition dev_mode :: "env \<Rightarrow> bool" where
  "dev_mode env \<longleftrightarrow> env_or env ''JWT_SECRET'' [] = ''dev'' \<and> dev_flag_set env"

text \<open>The start-up check: \<open>False\<close> is \<open>exit(2)\<close>.\<close>

definition assert_jwt_secret_present :: "env \<Rightarrow> bool" where
  "assert_jwt_secret_present env =
     (let val = env_or env ''JWT_SECRET'' [] in
      if val = [] then False
      else if val = ''dev'' then dev_flag_set env
      else if length val < 32 then False
      else val \<noteq> ''supersecretkey'')"

section \<open>Tokens\<close>

definition MFA_PENDING_TTL_SECS :: int where "MFA_PENDING_TTL_SECS = 600"
definition FULL_SESSION_TTL_SECS :: int where "FULL_SESSION_TTL_SECS = 24 * 3600"

definition issue_jwt_with_kind ::
    "jwt_lib \<Rightarrow> env \<Rightarrow> int \<Rightarrow> string \<Rightarrow> Role \<Rightarrow> bool \<Rightarrow> int \<Rightarrow> bool \<Rightarrow> string option" where
  "issue_jwt_with_kind J env now sub role mfa ttl_secs cli =
     (case env ''JWT_SECRET'' of None \<Rightarrow> None
      | Some secret \<Rightarrow>
          jwt_encode J secret \<lparr>c_sub = sub, c_exp = now + ttl_secs, c_iat = now, c_role = as_str role,
                               c_mfa = mfa, c_cli = cli\<rparr>)"

definition issue_jwt :: "jwt_lib \<Rightarrow> env \<Rightarrow> int \<Rightarrow> string \<Rightarrow> Role \<Rightarrow> bool \<Rightarrow> int \<Rightarrow> string option" where
  "issue_jwt J env now sub role mfa ttl_secs = issue_jwt_with_kind J env now sub role mfa ttl_secs False"

definition issue_cli_jwt :: "jwt_lib \<Rightarrow> env \<Rightarrow> int \<Rightarrow> string \<Rightarrow> Role \<Rightarrow> int \<Rightarrow> string option" where
  "issue_cli_jwt J env now sub role ttl_secs = issue_jwt_with_kind J env now sub role True ttl_secs True"

definition decode_claims :: "jwt_lib \<Rightarrow> env \<Rightarrow> int \<Rightarrow> string \<Rightarrow> Claims option" where
  "decode_claims J env now token =
     (case env ''JWT_SECRET'' of None \<Rightarrow> None | Some secret \<Rightarrow> jwt_decode J secret now token)"

definition claims_from_token :: "jwt_lib \<Rightarrow> env \<Rightarrow> int \<Rightarrow> string \<Rightarrow> Claims option" where
  "claims_from_token J env now token =
     (case decode_claims J env now token of None \<Rightarrow> None
      | Some c \<Rightarrow> if is_user_allowed env (c_sub c) then Some c else None)"

definition dev_claims :: "int \<Rightarrow> Claims" where
  "dev_claims now = \<lparr>c_sub = ''dev'', c_exp = now + 24 * 3600, c_iat = now, c_role = ''admin'',
                     c_mfa = True, c_cli = False\<rparr>"

section \<open>Resolving a session\<close>

text \<open>The lookup the three resolvers share: the row decides, by its epoch and its role.\<close>

definition resolve_row :: "fault \<Rightarrow> auth_db \<Rightarrow> Claims \<Rightarrow> (http_error, Claims) result" where
  "resolve_row flt d claims =
     (case get_user flt d (c_sub claims) of
        Inr (Some row) \<Rightarrow>
          if c_iat claims \<ge> u_session_epoch row then Inr (claims\<lparr>c_role := u_role row\<rparr>)
          else Inl (401, ''session revoked'')
      | Inr None \<Rightarrow> Inl (401, ''Unauthorized'')
      | Inl _ \<Rightarrow> Inl (503, ''session verification unavailable''))"

definition current_user ::
    "jwt_lib \<Rightarrow> env \<Rightarrow> int \<Rightarrow> fault \<Rightarrow> auth_db \<Rightarrow> (string \<rightharpoonup> string) \<Rightarrow> (http_error, Claims) result" where
  "current_user J env now flt d jar =
     (if dev_mode env then Inr (dev_claims now)
      else try_bind (ok_or (jar (session_cookie_name env)) (401, ''Unauthorized'')) (\<lambda>cookie.
           try_bind (ok_or (claims_from_token J env now cookie) (401, ''Unauthorized'')) (\<lambda>claims.
           if \<not> c_mfa claims then Inl (403, ''MFA required'')
           else if c_cli claims then Inl (403, ''CLI session is only valid for fleet reads'')
           else resolve_row flt d claims)))"

definition current_cli_user ::
    "jwt_lib \<Rightarrow> env \<Rightarrow> int \<Rightarrow> fault \<Rightarrow> auth_db \<Rightarrow> string \<Rightarrow> (http_error, Claims) result" where
  "current_cli_user J env now flt d token =
     try_bind (ok_or (claims_from_token J env now token) (401, ''Unauthorized'')) (\<lambda>claims.
     if \<not> c_mfa claims then Inl (403, ''MFA required'')
     else if \<not> c_cli claims then Inl (403, ''not a CLI session'')
     else resolve_row flt d claims)"

definition require_admin ::
    "jwt_lib \<Rightarrow> env \<Rightarrow> int \<Rightarrow> fault \<Rightarrow> auth_db \<Rightarrow> (string \<rightharpoonup> string) \<Rightarrow> (http_error, Claims) result" where
  "require_admin J env now flt d jar =
     try_bind (current_user J env now flt d jar) (\<lambda>claims.
     if Role_parse (c_role claims) = Admin then Inr claims
     else Inl (403, ''viewer role: read-only''))"

definition pending_mfa_user ::
    "jwt_lib \<Rightarrow> env \<Rightarrow> int \<Rightarrow> fault \<Rightarrow> auth_db \<Rightarrow> (string \<rightharpoonup> string) \<Rightarrow> (http_error, Claims) result" where
  "pending_mfa_user J env now flt d jar =
     try_bind (ok_or (jar (session_cookie_name env)) (401, ''no pending mfa'')) (\<lambda>cookie.
     try_bind (ok_or (claims_from_token J env now cookie) (401, ''no pending mfa'')) (\<lambda>claims.
     if c_mfa claims then Inl (401, ''no pending mfa'') else resolve_row flt d claims))"

definition logout_handler ::
    "jwt_lib \<Rightarrow> env \<Rightarrow> int \<Rightarrow> fault \<Rightarrow> (string \<rightharpoonup> string) \<Rightarrow> auth_db \<Rightarrow> auth_db \<times> (string \<rightharpoonup> string)" where
  "logout_handler J env now flt jar d =
     ((case jar (session_cookie_name env) of None \<Rightarrow> d
       | Some cookie \<Rightarrow>
           (case claims_from_token J env now cookie of None \<Rightarrow> d
            | Some claims \<Rightarrow> fst (bump_session_epoch flt (c_sub claims) now d))),
      jar(session_cookie_name env := None))"

section \<open>CSRF\<close>

record api_request =
  ar_method :: string
  ar_path :: string
  ar_headers :: "string \<rightharpoonup> string"
  ar_jar :: "string \<rightharpoonup> string"

definition csrf_cookie_name :: "env \<Rightarrow> string" where
  "csrf_cookie_name env = (if cookie_secure env then ''__Host-csrf'' else ''csrf'')"

definition find_cookie :: "string \<Rightarrow> string list \<Rightarrow> string option" where
  "find_cookie name parts =
     (case List.map_filter (\<lambda>part. case split_once_on (CHR ''='') (trim part) of
              Some (k, v) \<Rightarrow> if k = name then Some v else None | None \<Rightarrow> None) parts of
        [] \<Rightarrow> None | v # _ \<Rightarrow> Some v)"

definition cookie_value :: "api_request \<Rightarrow> string \<Rightarrow> string option" where
  "cookie_value req name =
     (case ar_headers req ''cookie'' of None \<Rightarrow> None
      | Some header \<Rightarrow> find_cookie name (split_on (CHR '';'') header))"

definition is_mutating :: "string \<Rightarrow> bool" where
  "is_mutating m \<longleftrightarrow> m \<in> {''POST'', ''PUT'', ''DELETE'', ''PATCH''}"

definition tokens_match :: "string \<Rightarrow> string \<Rightarrow> bool" where
  "tokens_match header cookie \<longleftrightarrow> header \<noteq> [] \<and> header = cookie"

text \<open>The layer's verdict, and the fresh token it sets as cookie on the answer, if any.\<close>

definition csrf_middleware :: "env \<Rightarrow> string \<Rightarrow> api_request \<Rightarrow> gate \<times> string option" where
  "csrf_middleware env new_token req =
     (let auth_present = cookie_value req (session_cookie_name env) \<noteq> None;
          csrf_cookie = cookie_value req (csrf_cookie_name env);
          ok = (case (ar_headers req ''x-csrf'', csrf_cookie) of
                  (Some h, Some c) \<Rightarrow> tokens_match h c | _ \<Rightarrow> False)
      in if auth_present \<and> is_mutating (ar_method req) \<and> \<not> ok
         then (Respond 403 ''csrf'', Some new_token)
         else (Next, if csrf_cookie = None then Some new_token else None))"

section \<open>RBAC\<close>

definition is_api_keys_path :: "string \<Rightarrow> bool" where
  "is_api_keys_path path \<longleftrightarrow> path = ''/ee/keys'' \<or> starts_with path ''/ee/keys/''"

definition is_ui_transport_path :: "string \<Rightarrow> bool" where
  "is_ui_transport_path path \<longleftrightarrow> path \<in> {''/ui/connect'', ''/ui/disconnect'', ''/ui/poll'', ''/ui/send''}"

definition is_cli_read :: "string \<Rightarrow> string \<Rightarrow> bool" where
  "is_cli_read m path \<longleftrightarrow> m = ''GET'' \<and> path \<in> {''/core/v1/fleet'', ''/core/v1/events''}"

definition bearer_token :: "api_request \<Rightarrow> string option" where
  "bearer_token req =
     (case ar_headers req ''authorization'' of None \<Rightarrow> None
      | Some value \<Rightarrow> (case strip_prefix_str ''Bearer '' value of None \<Rightarrow> None
          | Some rest \<Rightarrow> (let t = trim rest in
                          if t \<noteq> [] \<and> \<not> starts_with t ''sf_live_'' then Some t else None)))"

definition rbac_open_path :: "string \<Rightarrow> bool" where
  "rbac_open_path path \<longleftrightarrow>
     path = ''/me'' \<or> starts_with path ''/auth/mfa/'' \<or> starts_with path ''/auth/passkey/'' \<or>
     path \<in> {''/device/request'', ''/device/token'', ''/device/refresh'', ''/cli-auth/request'',
             ''/cli-auth/token''}"

definition rbac_middleware ::
    "jwt_lib \<Rightarrow> env \<Rightarrow> int \<Rightarrow> fault \<Rightarrow> auth_db \<Rightarrow> api_request \<Rightarrow> gate" where
  "rbac_middleware J env now flt d req =
     (let path = ar_path req; meth = ar_method req;
          cli = (case bearer_token req of None \<Rightarrow> None
                 | Some t \<Rightarrow> (case claims_from_token J env now t of
                      Some c \<Rightarrow> if c_cli c then Some t else None | None \<Rightarrow> None))
      in if dev_mode env then Next
      else case cli of
        Some token \<Rightarrow>
          if \<not> is_cli_read meth path then Respond 403 ''CLI session is not valid for this API route''
          else (case current_cli_user J env now flt d token of
                  Inr _ \<Rightarrow> Next | Inl (status, reason) \<Rightarrow> Respond status reason)
      | None \<Rightarrow>
          if (case ar_jar req (session_cookie_name env) of None \<Rightarrow> False
              | Some cookie \<Rightarrow> (case claims_from_token J env now cookie of
                   Some c \<Rightarrow> c_cli c | None \<Rightarrow> False))
          then Respond 403 ''CLI session is only valid for fleet reads''
          else if rbac_open_path path then Next
          else (case current_user J env now flt d (ar_jar req) of
                  Inl (status, reason) \<Rightarrow> if status = 403 then Respond 403 reason else Respond 401 reason
                | Inr claims \<Rightarrow>
                    if is_mutating meth \<and> \<not> is_api_keys_path path \<and> \<not> is_ui_transport_path path \<and>
                       Role_parse (c_role claims) \<noteq> Admin
                    then Respond 403 ''viewer role: read-only''
                    else Next))"

text \<open>The two layers as \<open>main\<close> stacks them: CSRF outermost, then RBAC, then the handler.\<close>

definition api_stack ::
    "jwt_lib \<Rightarrow> env \<Rightarrow> int \<Rightarrow> fault \<Rightarrow> string \<Rightarrow> auth_db \<Rightarrow> api_request \<Rightarrow> gate" where
  "api_stack J env now flt new_token d req =
     (case csrf_middleware env new_token req of
        (Respond s b, _) \<Rightarrow> Respond s b | (Next, _) \<Rightarrow> rbac_middleware J env now flt d req)"

section \<open>Sign-in\<close>

text \<open>
  The OAuth callback. Several sign-ins run at once, and each reads before it writes: \<open>callback_prepare\<close> is
  the reads (user count, invite, seat limit), \<open>callback_commit\<close> the writes. \<open>callback_handler\<close> runs one
  after the other; an interleaving runs other sign-ins in between.
\<close>

definition callback_prepare ::
    "env \<Rightarrow> int \<Rightarrow> fault \<Rightarrow> (string \<rightharpoonup> string) \<Rightarrow> string \<Rightarrow> auth_db \<Rightarrow> string \<times> int \<times> string option" where
  "callback_prepare env now flt jar login d =
     (let user_count = (case count_users flt d of Inr n \<Rightarrow> n | Inl _ \<Rightarrow> 0);
          invite_code = jar (invite_cookie_name env);
          invite_role = (case invite_code of None \<Rightarrow> None
                         | Some code \<Rightarrow> (case get_invite flt d code of
                             Inr (Some ivt) \<Rightarrow>
                               if i_used_by ivt = None \<and> now \<le> i_expires_at ivt then Some (i_role ivt) else None
                           | _ \<Rightarrow> None));
          default_role = (if user_count = 0 \<or> env ''BOOTSTRAP_ADMIN'' = Some login then ''admin''
                          else case invite_role of Some r \<Rightarrow> r | None \<Rightarrow> ''viewer'')
      in (default_role, seat_limit flt d, invite_code))"

definition callback_redeem :: "fault \<Rightarrow> int \<Rightarrow> string \<Rightarrow> string option \<Rightarrow> auth_db \<Rightarrow> auth_db" where
  "callback_redeem flt now login invite_code d =
     (case invite_code of None \<Rightarrow> d
      | Some code \<Rightarrow> (case redeem_invite flt code login now d of
          (d', Inr True) \<Rightarrow> record_audit flt now (Some login) None ''invite.redeemed'' True None d'
        | (d', _) \<Rightarrow> d'))"

definition callback_session ::
    "jwt_lib \<Rightarrow> env \<Rightarrow> int \<Rightarrow> fault \<Rightarrow> string \<Rightarrow> string option \<Rightarrow> UserRow \<Rightarrow> auth_db
      \<Rightarrow> auth_db \<times> (http_error, string \<times> string) result" where
  "callback_session J env now flt login invite_code row d =
     (let role = Role_parse (u_role row);
          mfa_required = u_totp_enabled row \<noteq> 0;
          ttl = (if mfa_required then MFA_PENDING_TTL_SECS else FULL_SESSION_TTL_SECS);
          redirect_path = (if mfa_required then ''mfa'' else [])
      in case issue_jwt J env now login role (\<not> mfa_required) ttl of
           None \<Rightarrow> (d, Inl (500, ''Failed to issue session token''))
         | Some token \<Rightarrow>
             (record_audit flt now (Some login) None
                (if mfa_required then ''auth.login.pending_mfa'' else ''auth.login'') True
                (Some (''role='' @ as_str role)) (callback_redeem flt now login invite_code d),
              Inr (token, redirect_path)))"

definition callback_commit ::
    "jwt_lib \<Rightarrow> env \<Rightarrow> int \<Rightarrow> fault \<Rightarrow> string \<Rightarrow> string \<times> int \<times> string option \<Rightarrow> auth_db
      \<Rightarrow> auth_db \<times> (http_error, string \<times> string) result" where
  "callback_commit J env now flt login prep d =
     (case prep of (default_role, seat_cap, invite_code) \<Rightarrow>
        (case upsert_login_with_seat_check flt login default_role now seat_cap d of
           (d1, Inl _) \<Rightarrow> (d1, Inl (500, ''user lookup failed''))
         | (d1, Inr SeatCapReached) \<Rightarrow>
             (record_audit flt now (Some login) None ''auth.login.seat_cap_reached'' False
                (Some (''limit='' @ int_to_dec seat_cap)) d1,
              Inl (403, ''seat cap reached''))
         | (d1, Inr (Existing row)) \<Rightarrow> callback_session J env now flt login invite_code row d1
         | (d1, Inr (Created row)) \<Rightarrow> callback_session J env now flt login invite_code row d1))"

text \<open>\<open>github\<close> is the outcome of the code exchange and profile fetch: an error answer or the login.\<close>

definition callback_handler ::
    "jwt_lib \<Rightarrow> env \<Rightarrow> int \<Rightarrow> fault \<Rightarrow> (string \<rightharpoonup> string) \<Rightarrow> string \<Rightarrow> (http_error, string) result \<Rightarrow> auth_db
      \<Rightarrow> auth_db \<times> (http_error, string \<times> string) result" where
  "callback_handler J env now flt jar query_state github d =
     (if jar (oauth_state_cookie_name env) \<noteq> Some query_state
      then (d, Inl (403, ''OAuth state mismatch''))
      else case github of Inl e \<Rightarrow> (d, Inl e)
      | Inr login \<Rightarrow>
          if \<not> is_user_allowed env login
          then (d, Inl (401, ''Unauthorized user. Your GitHub account is not on the allowlist.''))
          else callback_commit J env now flt login (callback_prepare env now flt jar login d) d)"

section \<open>Account handlers\<close>

definition site :: "string \<Rightarrow> fault \<Rightarrow> fault" where
  "site s flt = (\<lambda>stmt. flt (s @ ''/'' @ stmt))"

definition admin_count :: "auth_db \<Rightarrow> nat" where
  "admin_count d = rows_affected (\<lambda>u. u_role u = ''admin'') (db_users d)"

definition list_admins :: "fault \<Rightarrow> auth_db \<Rightarrow> (sql_error, nat) result" where
  "list_admins flt d = (if flt ''list_users'' then Inl Sql_Error else Inr (admin_count d))"

definition target_is_admin :: "fault \<Rightarrow> auth_db \<Rightarrow> string \<Rightarrow> bool" where
  "target_is_admin flt d login =
     (case get_user (site ''target'' flt) d login of Inr (Some r) \<Rightarrow> u_role r = ''admin'' | _ \<Rightarrow> False)"

definition set_role_handler ::
    "jwt_lib \<Rightarrow> env \<Rightarrow> int \<Rightarrow> fault \<Rightarrow> (string \<rightharpoonup> string) \<Rightarrow> string \<Rightarrow> string \<Rightarrow> auth_db
      \<Rightarrow> auth_db \<times> (http_error, unit) result" where
  "set_role_handler J env now flt jar login role d =
     (case require_admin J env now flt d jar of Inl e \<Rightarrow> (d, Inl e)
      | Inr actor \<Rightarrow>
        if \<not> valid_role role then (d, Inl (400, ''role must be admin or viewer''))
        else
          (let update =
             (case set_user_role flt login role d of
                (d1, Inr True) \<Rightarrow>
                  (record_audit flt now (Some (c_sub actor)) None ''users.set_role'' True
                     (Some (''login='' @ login @ '' role='' @ role))
                     (fst (bump_session_epoch flt login now d1)), Inr ())
              | (d1, Inr False) \<Rightarrow> (d1, Inl (404, ''no such user''))
              | (d1, Inl _) \<Rightarrow> (d1, Inl (500, ''db error'')))
           in if role = ''viewer'' then
                (case list_admins flt d of Inl _ \<Rightarrow> (d, Inl (500, ''db error''))
                 | Inr admins \<Rightarrow>
                     if target_is_admin flt d login \<and> admins \<le> 1
                     then (d, Inl (409, ''cannot demote the last admin''))
                     else update)
              else update))"

definition delete_handler ::
    "jwt_lib \<Rightarrow> env \<Rightarrow> int \<Rightarrow> fault \<Rightarrow> (string \<rightharpoonup> string) \<Rightarrow> string \<Rightarrow> auth_db
      \<Rightarrow> auth_db \<times> (http_error, unit) result" where
  "delete_handler J env now flt jar login d =
     (case require_admin J env now flt d jar of Inl e \<Rightarrow> (d, Inl e)
      | Inr actor \<Rightarrow>
        if c_sub actor = login then (d, Inl (409, ''cannot remove your own seat''))
        else
          (let P = (\<lambda>u. u_login u = login);
               remove =
                 (if flt ''delete_user'' then (d, Inl (500, ''db error''))
                  else if rows_affected P (db_users d) > 0
                  then (record_audit flt now (Some (c_sub actor)) None ''users.delete'' True
                          (Some (''login='' @ login)) (d\<lparr>db_users := sql_delete P (db_users d)\<rparr>), Inr ())
                  else (d, Inl (404, ''no such user'')))
           in if target_is_admin flt d login
              then (case list_admins flt d of Inl _ \<Rightarrow> (d, Inl (500, ''db error''))
                    | Inr admins \<Rightarrow> if admins \<le> 1 then (d, Inl (409, ''cannot remove the last admin''))
                                   else remove)
              else remove))"

section \<open>Lemmas\<close>

lemma Role_parse_admin [simp]: "Role_parse r = Admin \<longleftrightarrow> r = ''admin''"
  by (simp add: Role_parse_def)

lemma Role_roundtrip: "Role_parse (as_str r) = r"
  by (cases r) (simp_all add: Role_parse_def as_str_def)

lemma resolve_row_Inr:
  "resolve_row flt d c = Inr c' \<longleftrightarrow>
     (\<exists>row. \<not> flt ''get_user'' \<and> sql_fetch_optional (\<lambda>u. u_login u = c_sub c) (db_users d) = Some row \<and>
        u_session_epoch row \<le> c_iat c \<and> c' = c\<lparr>c_role := u_role row\<rparr>)"
  by (auto simp: resolve_row_def get_user_def simp del: fetch_None_iff split: option.splits)

lemma current_user_Inr:
  assumes "\<not> dev_mode env"
  shows "current_user J env now flt d jar = Inr c \<longleftrightarrow>
     (\<exists>token c0 row. jar (session_cookie_name env) = Some token \<and>
        claims_from_token J env now token = Some c0 \<and> c_mfa c0 \<and> \<not> c_cli c0 \<and> \<not> flt ''get_user'' \<and>
        sql_fetch_optional (\<lambda>u. u_login u = c_sub c0) (db_users d) = Some row \<and>
        u_session_epoch row \<le> c_iat c0 \<and> c = c0\<lparr>c_role := u_role row\<rparr>)"
  using assms by (auto simp: current_user_def result_simps resolve_row_Inr)

lemma require_admin_Inr:
  "require_admin J env now flt d jar = Inr c \<longleftrightarrow>
     current_user J env now flt d jar = Inr c \<and> c_role c = ''admin''"
  by (auto simp: require_admin_def result_simps split: if_splits)

lemma gate_case_Next [simp]:
  "(case r of Inl x \<Rightarrow> Respond (f x) (g x) | Inr y \<Rightarrow> Next) = Next \<longleftrightarrow> is_ok r"
  by (cases r) auto

lemma rbac_write:
  assumes "\<not> dev_mode env" and "rbac_middleware J env now flt d req = Next"
    and "is_mutating (ar_method req)" and "\<not> rbac_open_path (ar_path req)"
    and "\<not> is_api_keys_path (ar_path req)" and "\<not> is_ui_transport_path (ar_path req)"
  shows "\<exists>c. require_admin J env now flt d (ar_jar req) = Inr c"
proof -
  have "\<not> is_cli_read (ar_method req) (ar_path req)"
    using assms(3) by (auto simp: is_mutating_def is_cli_read_def)
  then show ?thesis
    using assms
    by (auto simp: rbac_middleware_def require_admin_Inr Let_def split: option.splits sum.splits if_splits)
qed

lemma api_stack_Next:
  "api_stack J env now flt tk d req = Next \<longleftrightarrow>
     fst (csrf_middleware env tk req) = Next \<and> rbac_middleware J env now flt d req = Next"
  by (auto simp: api_stack_def split: prod.splits gate.splits)

lemma csrf_write:
  assumes "fst (csrf_middleware env tk req) = Next" and "is_mutating (ar_method req)"
    and "cookie_value req (session_cookie_name env) \<noteq> None"
  shows "\<exists>t. t \<noteq> [] \<and> ar_headers req ''x-csrf'' = Some t \<and> cookie_value req (csrf_cookie_name env) = Some t"
  using assms by (auto simp: csrf_middleware_def Let_def tokens_match_def split: if_splits option.splits)

text \<open>A token resolves after an epoch bump only if it is not older than the bump.\<close>

definition epoch_of :: "string \<Rightarrow> auth_db \<Rightarrow> int option" where
  "epoch_of login d = map_option u_session_epoch (sql_fetch_optional (\<lambda>u. u_login u = login) (db_users d))"

lemma epoch_of_bump:
  "\<not> flt ''bump_session_epoch'' \<Longrightarrow> epoch_of l d \<noteq> None \<Longrightarrow>
     epoch_of l (fst (bump_session_epoch flt l now d)) = Some now"
  by (cases "sql_fetch_optional (\<lambda>u. u_login u = l) (db_users d)")
    (auto simp: epoch_of_def bump_session_epoch_def fetch_login_update simp del: fetch_None_iff)

lemma epoch_of_upsert:
  "epoch_of l d = Some e \<Longrightarrow> epoch_of l (fst (upsert_login_with_seat_check flt k r now cap d)) = Some e"
  using upsert_role_kept by (fastforce simp: epoch_of_def)

lemma epoch_of_sign_ins: "epoch_of l d = Some e \<Longrightarrow> epoch_of l (sign_ins xs d) = Some e"
  by (induction xs d rule: sign_ins.induct) (auto simp: epoch_of_upsert)

lemma resolve_row_epoch:
  "epoch_of (c_sub c) d = Some e \<Longrightarrow> is_ok (resolve_row flt d c) \<longleftrightarrow> \<not> flt ''get_user'' \<and> e \<le> c_iat c"
  by (auto simp: epoch_of_def is_ok_iff resolve_row_Inr)

lemma current_user_resolves:
  assumes "\<not> dev_mode env" and "jar (session_cookie_name env) = Some token"
    and "claims_from_token J env now token = Some c"
  shows "is_ok (current_user J env now flt d jar) \<longleftrightarrow> c_mfa c \<and> \<not> c_cli c \<and> is_ok (resolve_row flt d c)"
  using assms by (auto simp: current_user_def)

lemma current_cli_user_resolves:
  assumes "claims_from_token J env now token = Some c"
  shows "is_ok (current_cli_user J env now flt d token) \<longleftrightarrow> c_mfa c \<and> c_cli c \<and> is_ok (resolve_row flt d c)"
  using assms by (auto simp: current_cli_user_def)

section \<open>Properties\<close>

text \<open>
  C4: a write reaches an API handler only for an administrator. Outside dev mode, if the layers hand on a
  POST, PUT, DELETE or PATCH whose path is not one of the open pairing and MFA routes, the self-service
  API keys or the UI tunnel, then its cookie holds a token whose claims are those of an allowlisted user,
  MFA verified and not a CLI token, the users table has a row of that login with role admin whose epoch is
  not past the token's issue time, and the request carries in \<open>X-CSRF\<close> the non-empty value of its
  CSRF cookie. The cookie jar and the CSRF layer read the same cookie header (first hypothesis).
\<close>

theorem api_write_needs_admin_and_csrf:
  assumes same: "\<And>v. ar_jar req (session_cookie_name env) = Some v \<Longrightarrow>
      cookie_value req (session_cookie_name env) \<noteq> None"
    and "\<not> dev_mode env" and "api_stack J env now flt tk d req = Next"
    and "is_mutating (ar_method req)" and "\<not> rbac_open_path (ar_path req)"
    and "\<not> is_api_keys_path (ar_path req)" and "\<not> is_ui_transport_path (ar_path req)"
  shows "\<exists>token c row t. ar_jar req (session_cookie_name env) = Some token \<and>
     decode_claims J env now token = Some c \<and> is_user_allowed env (c_sub c) \<and> c_mfa c \<and> \<not> c_cli c \<and>
     row \<in> set (db_users d) \<and> u_login row = c_sub c \<and> u_role row = ''admin'' \<and>
     u_session_epoch row \<le> c_iat c \<and>
     t \<noteq> [] \<and> ar_headers req ''x-csrf'' = Some t \<and> cookie_value req (csrf_cookie_name env) = Some t"
proof -
  have csrf: "fst (csrf_middleware env tk req) = Next"
    and rbac: "rbac_middleware J env now flt d req = Next" using assms(3) by (simp_all add: api_stack_Next)
  obtain token c row where c: "ar_jar req (session_cookie_name env) = Some token"
      "claims_from_token J env now token = Some c" "c_mfa c" "\<not> c_cli c"
      "sql_fetch_optional (\<lambda>u. u_login u = c_sub c) (db_users d) = Some row"
      "u_session_epoch row \<le> c_iat c" "u_role row = ''admin''"
    using rbac_write [OF assms(2) rbac assms(4-7)]
    by (auto simp: require_admin_Inr current_user_Inr [OF assms(2)])
  have "decode_claims J env now token = Some c" "is_user_allowed env (c_sub c)"
    using c(2) by (auto simp: claims_from_token_def split: option.splits if_splits)
  moreover have "row \<in> set (db_users d)" "u_login row = c_sub c" using fetch_SomeD [OF c(5)] by auto
  moreover obtain t where "t \<noteq> []" "ar_headers req ''x-csrf'' = Some t"
      "cookie_value req (csrf_cookie_name env) = Some t"
    using csrf_write [OF csrf assms(4) same [OF c(1)]] by blast
  ultimately show ?thesis using c by blast
qed

text \<open>A toy token library and request for the witnesses: the token is the login.\<close>

definition demo_jwt :: jwt_lib where
  "demo_jwt = \<lparr>jwt_encode = (\<lambda>s c. Some (c_sub c)),
     jwt_decode = (\<lambda>s now t. Some \<lparr>c_sub = t, c_exp = now, c_iat = 50, c_role = ''viewer'', c_mfa = True, c_cli = False\<rparr>)\<rparr>"

definition demo_auth_env :: env where
  "demo_auth_env = [''JWT_SECRET'' \<mapsto> ''s'', ''ALLOWED_GITHUB_USERS'' \<mapsto> ''root'', ''COOKIE_SECURE'' \<mapsto> ''0'']"

definition demo_user :: "string \<Rightarrow> string \<Rightarrow> UserRow" where
  "demo_user l r = \<lparr>u_login = l, u_role = r, u_totp_enabled = 0, u_totp_secret = None,
     u_totp_recovery_hashes = ''[]'', u_created_at = 0, u_last_login_at = 0, u_session_epoch = 0\<rparr>"

definition demo_api_request :: api_request where
  "demo_api_request = \<lparr>ar_method = ''POST'', ar_path = ''/users'',
     ar_headers = [''cookie'' \<mapsto> ''auth_token=root; csrf=t'', ''x-csrf'' \<mapsto> ''t''],
     ar_jar = [''auth_token'' \<mapsto> ''root'', ''csrf'' \<mapsto> ''t'']\<rparr>"

lemma demo_auth_facts:
  "session_cookie_name demo_auth_env = ''auth_token''" "\<not> dev_mode demo_auth_env"
  "csrf_cookie_name demo_auth_env = ''csrf''" "is_user_allowed demo_auth_env ''root''"
  "claims_from_token demo_jwt demo_auth_env now ''root'' = Some \<lparr>c_sub = ''root'', c_exp = now, c_iat = 50,
     c_role = ''viewer'', c_mfa = True, c_cli = False\<rparr>"
proof -
  show n: "session_cookie_name demo_auth_env = ''auth_token''" "\<not> dev_mode demo_auth_env"
    "csrf_cookie_name demo_auth_env = ''csrf''" "is_user_allowed demo_auth_env ''root''"
    by code_simp+
  show "claims_from_token demo_jwt demo_auth_env now ''root'' = Some \<lparr>c_sub = ''root'', c_exp = now, c_iat = 50,
     c_role = ''viewer'', c_mfa = True, c_cli = False\<rparr>"
    using n(4) by (simp add: claims_from_token_def decode_claims_def demo_jwt_def)
      (simp add: demo_auth_env_def)
qed

lemma demo_cookies:
  "cookie_value demo_api_request ''auth_token'' = Some ''root''"
  "cookie_value demo_api_request ''csrf'' = Some ''t''"
  by code_simp+

theorem api_write_needs_admin_and_csrf_witness:
  "api_stack demo_jwt demo_auth_env 60 (\<lambda>_. False) ''new'' (demo_db\<lparr>db_users := [demo_user ''root'' ''admin'']\<rparr>)
     demo_api_request = Next \<and>
   ''root'' \<in> u_login ` set (db_users (demo_db\<lparr>db_users := [demo_user ''root'' ''admin'']\<rparr>))"
proof
  let ?d = "demo_db\<lparr>db_users := [demo_user ''root'' ''admin'']\<rparr>"
  show next_: "api_stack demo_jwt demo_auth_env 60 (\<lambda>_. False) ''new'' ?d demo_api_request = Next"
    by (simp add: api_stack_Next csrf_middleware_def rbac_middleware_def demo_auth_facts demo_cookies
        tokens_match_def bearer_token_def current_user_def resolve_row_def get_user_def sql_simps
        demo_user_def rbac_open_path_def starts_with_def Let_def)
      (simp add: demo_api_request_def demo_auth_facts rbac_open_path_def starts_with_def sql_simps
        current_user_def resolve_row_def get_user_def demo_user_def tokens_match_def)
  have "is_mutating (ar_method demo_api_request)" "\<not> rbac_open_path (ar_path demo_api_request)"
    "\<not> is_api_keys_path (ar_path demo_api_request)" "\<not> is_ui_transport_path (ar_path demo_api_request)"
    by code_simp+
  then have "\<exists>row. row \<in> set (db_users ?d) \<and> u_role row = ''admin''"
    using api_write_needs_admin_and_csrf [OF _ demo_auth_facts(2) next_] demo_cookies demo_auth_facts(1)
    by fastforce
  then show "''root'' \<in> u_login ` set (db_users ?d)" by (auto simp: demo_user_def)
qed

text \<open>
  Logout revokes, to the second. After a user with an account logged out at \<open>t\<close> (and the statement did
  not fail), and after any further sign-ins, a browser token, a CLI token or a pending-MFA token of that
  user is accepted at any later time only if it was issued at \<open>t\<close> or later. The bound is not strict: a
  token issued in the very second of the logout, the one just dropped included, is still accepted, where
  \<open>bump_session_epoch\<close> is documented to keep a leaked cookie from authenticating.
\<close>

theorem logout_revokes_older_tokens:
  assumes "\<not> dev_mode env" and "jar (session_cookie_name env) = Some cookie"
    and "claims_from_token J env t cookie = Some who" and "epoch_of (c_sub who) d \<noteq> None"
    and "\<not> flt ''bump_session_epoch''" and "\<not> flt' ''get_user''"
    and d': "d' = sign_ins xs (fst (logout_handler J env t flt jar d))"
    and "claims_from_token J env t' token = Some c" and "c_sub c = c_sub who"
    and "jar' (session_cookie_name env) = Some token"
  shows "(is_ok (current_user J env t' flt' d' jar') \<longleftrightarrow> c_mfa c \<and> \<not> c_cli c \<and> t \<le> c_iat c) \<and>
         (is_ok (current_cli_user J env t' flt' d' token) \<longleftrightarrow> c_mfa c \<and> c_cli c \<and> t \<le> c_iat c) \<and>
         (is_ok (pending_mfa_user J env t' flt' d' jar') \<longleftrightarrow> \<not> c_mfa c \<and> t \<le> c_iat c)"
proof -
  have "epoch_of (c_sub who) (fst (logout_handler J env t flt jar d)) = Some t"
    using assms(2-5) epoch_of_bump by (simp add: logout_handler_def)
  then have "epoch_of (c_sub c) d' = Some t"
    using assms(9) by (simp add: d' epoch_of_sign_ins)
  then have r: "is_ok (resolve_row flt' d' c) \<longleftrightarrow> t \<le> c_iat c"
    using assms(6) by (simp add: resolve_row_epoch)
  have "is_ok (pending_mfa_user J env t' flt' d' jar') \<longleftrightarrow> \<not> c_mfa c \<and> is_ok (resolve_row flt' d' c)"
    using assms(8,10) by (simp add: pending_mfa_user_def)
  then show ?thesis
    using current_user_resolves [of env jar', OF assms(1,10,8)] current_cli_user_resolves [OF assms(8)] r
    by simp
qed

theorem logout_revokes_older_tokens_witness:
  "\<not> is_ok (current_user demo_jwt demo_auth_env 70 (\<lambda>_. False)
     (fst (logout_handler demo_jwt demo_auth_env 60 (\<lambda>_. False) [''auth_token'' \<mapsto> ''root'']
        (demo_db\<lparr>db_users := [demo_user ''root'' ''admin'']\<rparr>))) [''auth_token'' \<mapsto> ''root''])"
  using logout_revokes_older_tokens
    [of demo_auth_env "[''auth_token'' \<mapsto> ''root'']" "''root''" demo_jwt 60 _
      "demo_db\<lparr>db_users := [demo_user ''root'' ''admin'']\<rparr>" "\<lambda>_. False" "\<lambda>_. False" _ "[]" 70 "''root''" _
      "[''auth_token'' \<mapsto> ''root'']", OF _ _ _ _ _ _ refl]
  by (simp add: demo_auth_facts epoch_of_def demo_user_def demo_db_def sql_simps)

lemma require_admin_row:
  assumes "\<not> dev_mode env" and "require_admin J env now flt d jar = Inr c"
  shows "\<exists>row\<in>set (db_users d). u_login row = c_sub c \<and> u_role row = ''admin''"
  using assms(2) fetch_SomeD by (fastforce simp: require_admin_Inr current_user_Inr [OF assms(1)])

lemma admin_count_pos: "0 < admin_count d \<longleftrightarrow> (\<exists>u\<in>set (db_users d). u_role u = ''admin'')"
  by (simp add: admin_count_def rows_affected_pos)

lemma two_admins:
  assumes "keyed u_login us" and "rows_affected (\<lambda>u. u_role u = ''admin'') us > 1"
  shows "\<exists>u\<in>set us. u_role u = ''admin'' \<and> u_login u \<noteq> l"
proof (rule ccontr)
  let ?as = "filter (\<lambda>u. u_role u = ''admin'') us"
  assume "\<not> ?thesis"
  then have "set (map u_login ?as) \<subseteq> {l}" by auto
  moreover have "distinct (map u_login ?as)"
    using assms(1) by (simp add: keyed_def distinct_map_filter)
  ultimately have "length (map u_login ?as) \<le> 1"
    using card_mono [of "{l}" "set (map u_login ?as)"] distinct_card [of "map u_login ?as"]
    by (simp del: length_map)
  with assms(2) show False by (simp add: rows_affected_def)
qed

lemma admin_survives_role_change:
  assumes "u \<in> set (db_users d)" and "u_role u = ''admin''" and "u_login u \<noteq> l \<or> r = ''admin''"
  shows "0 < admin_count (fst (set_user_role flt l r d))"
proof -
  let ?f = "\<lambda>u. if u_login u = l then u\<lparr>u_role := r\<rparr> else u"
  have "u_role (?f u) = ''admin''" using assms by auto
  moreover have "?f u \<in> ?f ` set (db_users d)" using assms(1) by (rule imageI)
  ultimately have "\<exists>u'\<in>set (db_users (fst (set_user_role flt l r d))). u_role u' = ''admin''"
    using assms(1,2) by (auto simp: set_user_role_def Let_def)
  then show ?thesis by (simp add: admin_count_pos)
qed

lemma admin_count_bump [simp]: "admin_count (fst (bump_session_epoch flt l now d)) = admin_count d"
  by (auto simp: admin_count_def bump_session_epoch_def rows_affected_def sql_update_def filter_map o_def
      intro!: arg_cong [where f = length] filter_cong)

lemma admin_count_audit [simp]: "admin_count (record_audit flt ts a g k ok dt d) = admin_count d"
  by (simp add: admin_count_def)

lemma admin_count_upsert: "admin_count d \<le> admin_count (fst (upsert_login_with_seat_check flt l r now cap d))"
proof (cases rule: upsert_cases [of flt l r now cap d])
  case (existing u)
  have "filter (\<lambda>u. u_role u = ''admin'') (sql_update (\<lambda>u. u_login u = l) (\<lambda>u. u\<lparr>u_last_login_at := now\<rparr>) us) =
      sql_update (\<lambda>u. u_login u = l) (\<lambda>u. u\<lparr>u_last_login_at := now\<rparr>) (filter (\<lambda>u. u_role u = ''admin'') us)"
    for us :: "UserRow table" by (induction us) (auto simp: sql_update_def)
  with existing show ?thesis by (simp add: admin_count_def rows_affected_def)
qed (auto simp: admin_count_def rows_affected_def)

lemma callback_redeem_users [simp]: "db_users (callback_redeem flt now login code d) = db_users d"
  by (auto simp: callback_redeem_def redeem_invite_def split: option.splits prod.splits bool.splits)

lemma callback_session_users [simp]:
  "db_users (fst (callback_session J env now flt login code row d)) = db_users d"
  by (auto simp: callback_session_def Let_def split: option.splits)

lemma callback_commit_users:
  "db_users (fst (callback_commit J env now flt login (role, cap, code) d)) =
     db_users (fst (upsert_login_with_seat_check flt login role now cap d))"
  by (auto simp: callback_commit_def split: prod.splits sum.splits SeatedUpsert.splits)

text \<open>The operations on accounts, each with its own fault, jar and time.\<close>

datatype account_op =
    SetRole fault "string \<rightharpoonup> string" int string string
  | Remove fault "string \<rightharpoonup> string" int string
  | SignIn fault "string \<rightharpoonup> string" int string "(http_error, string) result"

fun run_account :: "jwt_lib \<Rightarrow> env \<Rightarrow> account_op \<Rightarrow> auth_db \<Rightarrow> auth_db" where
  "run_account J env (SetRole flt jar now login role) d = fst (set_role_handler J env now flt jar login role d)"
| "run_account J env (Remove flt jar now login) d = fst (delete_handler J env now flt jar login d)"
| "run_account J env (SignIn flt jar now st gh) d = fst (callback_handler J env now flt jar st gh d)"

fun op_fault :: "account_op \<Rightarrow> fault" where
  "op_fault (SetRole flt jar now login role) = flt"
| "op_fault (Remove flt jar now login) = flt"
| "op_fault (SignIn flt jar now st gh) = flt"

abbreviation accounts_ok :: "auth_db \<Rightarrow> bool" where
  "accounts_ok d \<equiv> keyed u_login (db_users d) \<and> 0 < admin_count d"

lemma target_is_admin_iff:
  assumes "keyed u_login (db_users d)" and "\<not> flt ''target/get_user''" and "u \<in> set (db_users d)" and "u_login u = l"
  shows "target_is_admin flt d l \<longleftrightarrow> u_role u = ''admin''"
  using fetch_keyed [OF assms(1,3)] assms(2,4) by (simp add: target_is_admin_def get_user_def site_def)

lemma other_admin:
  assumes "accounts_ok d" and "\<not> flt ''target/get_user''" and "target_is_admin flt d l \<Longrightarrow> admin_count d > 1"
  shows "\<exists>u\<in>set (db_users d). u_role u = ''admin'' \<and> u_login u \<noteq> l"
proof (cases "admin_count d > 1")
  case True
  then show ?thesis using two_admins assms(1) by (simp add: admin_count_def)
next
  case False
  obtain u where u: "u \<in> set (db_users d)" "u_role u = ''admin''" using assms(1) by (auto simp: admin_count_pos)
  moreover have "u_login u \<noteq> l"
    using target_is_admin_iff [of d flt u l] assms u False by blast
  ultimately show ?thesis by blast
qed

lemma keyed_set_user_role: "keyed u_login (db_users d) \<Longrightarrow> keyed u_login (db_users (fst (set_user_role flt l r d)))"
  by (simp add: set_user_role_def Let_def keyed_update)

lemma keyed_bump: "keyed u_login (db_users d) \<Longrightarrow> keyed u_login (db_users (fst (bump_session_epoch flt l now d)))"
  by (simp add: bump_session_epoch_def keyed_update)

lemma set_role_result:
  "fst (set_role_handler J env now flt jar l r d) = d \<or>
   ((r = ''viewer'' \<longrightarrow> target_is_admin flt d l \<longrightarrow> admin_count d > 1) \<and> valid_role r \<and>
    (fst (set_role_handler J env now flt jar l r d) = fst (set_user_role flt l r d) \<or>
     (\<exists>a dt. fst (set_role_handler J env now flt jar l r d) =
        record_audit flt now a None ''users.set_role'' True dt
          (fst (bump_session_epoch flt l now (fst (set_user_role flt l r d)))))))"
  by (auto simp: set_role_handler_def Let_def list_admins_def
      split: sum.splits prod.splits bool.splits if_splits)

lemma set_role_keeps_admin:
  assumes "accounts_ok d" and "\<not> flt ''target/get_user''"
  shows "accounts_ok (fst (set_role_handler J env now flt jar l r d))"
proof -
  let ?d = "fst (set_user_role flt l r d)"
  have "accounts_ok ?d"
    if guard: "r = ''viewer'' \<longrightarrow> target_is_admin flt d l \<longrightarrow> admin_count d > 1" and "valid_role r"
  proof (cases "r = ''admin''")
    case True
    then show ?thesis
      using assms(1) admin_survives_role_change keyed_set_user_role by (auto simp: admin_count_pos)
  next
    case False
    then have "r = ''viewer''" using that(2) by (simp add: valid_role_def)
    then obtain u where "u \<in> set (db_users d)" "u_role u = ''admin''" "u_login u \<noteq> l"
      using other_admin [of d flt l, OF assms] guard by blast
    then show ?thesis using assms(1) admin_survives_role_change keyed_set_user_role by blast
  qed
  then show ?thesis using set_role_result [of J env now flt jar l r d] assms(1) keyed_bump by auto
qed

lemma delete_result:
  "fst (delete_handler J env now flt jar l d) = d \<or>
   ((target_is_admin flt d l \<longrightarrow> admin_count d > 1) \<and>
    (\<exists>a dt. fst (delete_handler J env now flt jar l d) =
       record_audit flt now a None ''users.delete'' True dt
         (d\<lparr>db_users := sql_delete (\<lambda>u. u_login u = l) (db_users d)\<rparr>)))"
  by (auto simp: delete_handler_def Let_def list_admins_def split: sum.splits if_splits)

lemma delete_keeps_admin:
  assumes "accounts_ok d" and "\<not> flt ''target/get_user''"
  shows "accounts_ok (fst (delete_handler J env now flt jar l d))"
proof -
  have "accounts_ok (d\<lparr>db_users := sql_delete (\<lambda>u. u_login u = l) (db_users d)\<rparr>)"
    if "target_is_admin flt d l \<longrightarrow> admin_count d > 1"
    using other_admin [of d flt l, OF assms] that assms(1) by (auto simp: admin_count_pos)
  then show ?thesis using delete_result [of J env now flt jar l d] assms(1) by auto
qed

lemma keyed_upsert_login:
  "keyed u_login (db_users d) \<Longrightarrow> keyed u_login (db_users (fst (upsert_login_with_seat_check flt l r now cap d)))"
proof (cases rule: upsert_cases [of flt l r now cap d])
  case (created row)
  then show "keyed u_login (db_users d) \<Longrightarrow> ?thesis" by (auto simp: keyed_def)
qed (auto simp: keyed_update)

lemma callback_keeps_admin:
  assumes "accounts_ok d" shows "accounts_ok (fst (callback_handler J env now flt jar st gh d))"
proof -
  have "accounts_ok (fst (callback_commit J env now flt l p d))" for l p
    using callback_commit_users [of J env now flt l "fst p" "fst (snd p)" "snd (snd p)" d]
      admin_count_upsert [of d flt l "fst p" now "fst (snd p)"] assms keyed_upsert_login [of d flt l]
    by (simp add: admin_count_def)
  then show ?thesis using assms by (auto simp: callback_handler_def split: sum.splits)
qed

text \<open>
  The last administrator stays. Over any sequence of role changes, removals and sign-ins by anyone, at
  least one administrator remains, whatever statements fail, provided the read that looks up the target
  of a change does not fail. (When it does fail the guard takes the target for a viewer; see below.)
\<close>

theorem last_admin_stays:
  assumes "keyed u_login (db_users d)" and "0 < admin_count d"
    and "\<forall>x\<in>set ops. \<not> op_fault x ''target/get_user''"
  shows "0 < admin_count (fold (run_account J env) ops d)"
proof -
  have "accounts_ok (fold (run_account J env) ops d)"
    using assms
  proof (induction ops arbitrary: d)
    case (Cons x ops)
    then have "accounts_ok (run_account J env x d)"
      by (cases x) (use set_role_keeps_admin delete_keeps_admin callback_keeps_admin in auto)
    with Cons show ?case by simp
  qed simp
  then show ?thesis by blast
qed

theorem last_admin_stays_witness:
  "0 < admin_count (fold (run_account demo_jwt demo_auth_env)
     [SetRole (\<lambda>_. False) [''auth_token'' \<mapsto> ''root''] 60 ''root'' ''viewer'',
      Remove (\<lambda>_. False) [''auth_token'' \<mapsto> ''root''] 61 ''root'']
     (demo_db\<lparr>db_users := [demo_user ''root'' ''admin'']\<rparr>))"
  by (rule last_admin_stays)
    (simp_all add: demo_db_def demo_user_def keyed_def admin_count_def rows_affected_def)

text \<open>
  The guard on the last administrator fails open. If the lookup of the target fails while the other
  statements of \<open>set_role_handler\<close> succeed, the only administrator is demoted and no administrator is
  left: a failed read is treated like an ordinary user.
\<close>

theorem last_admin_guard_fails_open:
  assumes "flt = (\<lambda>s. s = ''target/get_user'')" and "db_users d = [u]" and "u_role u = ''admin''"
    and "require_admin J env now flt d jar = Inr c"
  shows "snd (set_role_handler J env now flt jar (u_login u) ''viewer'' d) = Inr () \<and>
         admin_count (fst (set_role_handler J env now flt jar (u_login u) ''viewer'' d)) = 0"
proof -
  have "\<not> target_is_admin flt d (u_login u)"
    by (simp add: assms(1) target_is_admin_def get_user_def site_def)
  then show ?thesis
    using assms
    by (simp add: set_role_handler_def list_admins_def Let_def valid_role_def set_user_role_def
        rows_affected_def)
      (simp add: admin_count_def rows_affected_def sql_update_def)
qed

lemma demo_admin:
  "\<not> flt ''get_user'' \<Longrightarrow>
   require_admin demo_jwt demo_auth_env 60 flt (demo_db\<lparr>db_users := [demo_user ''root'' ''admin'']\<rparr>)
     [''auth_token'' \<mapsto> ''root''] =
   Inr \<lparr>c_sub = ''root'', c_exp = 60, c_iat = 50, c_role = ''admin'', c_mfa = True, c_cli = False\<rparr>"
  by (simp add: require_admin_Inr current_user_Inr demo_auth_facts demo_user_def sql_simps)

theorem last_admin_guard_fails_open_witness:
  "admin_count (fst (set_role_handler demo_jwt demo_auth_env 60 (\<lambda>s. s = ''target/get_user'')
     [''auth_token'' \<mapsto> ''root''] ''root'' ''viewer''
     (demo_db\<lparr>db_users := [demo_user ''root'' ''admin'']\<rparr>))) = 0"
  using last_admin_guard_fails_open [OF refl _ _ demo_admin, of "demo_user ''root'' ''admin''"]
  by (simp add: demo_user_def)

text \<open>
  Who is made administrator at sign-in. If a sign-in (its reads and writes taken together) creates an
  account with role admin then there was no account before, or counting the accounts failed, or the login
  is the configured bootstrap administrator, or the sign-in carried an unused, unexpired invite for role
  admin. The second case is a fail-open branch: a failed count is read as an empty table.
\<close>

theorem admin_grant_has_a_reason:
  assumes "sql_fetch_optional (\<lambda>u. u_login u = login) (db_users d) = None"
    and "row \<in> set (db_users (fst (callback_handler J env now flt jar st (Inr login) d)))"
    and "u_login row = login" and "u_role row = ''admin''"
  shows "db_users d = [] \<or> flt ''count_users'' \<or> env ''BOOTSTRAP_ADMIN'' = Some login \<or>
    (\<exists>code ivt. jar (invite_cookie_name env) = Some code \<and> ivt \<in> set (db_invites d) \<and> i_code ivt = code \<and>
       i_used_by ivt = None \<and> now \<le> i_expires_at ivt \<and> i_role ivt = ''admin'')"
proof -
  have fresh: "row \<notin> set (db_users d)" using assms(1,3) by auto
  obtain role cap code where p: "callback_prepare env now flt jar login d = (role, cap, code)"
    by (metis prod_cases3)
  have "row \<in> set (db_users (fst (upsert_login_with_seat_check flt login role now cap d)))"
    using assms(2) fresh p
    by (auto simp: callback_handler_def callback_commit_users split: if_splits)
  then have "role = ''admin''"
    by (cases rule: upsert_cases [of flt login role now cap d]) (use assms(1,4) fresh in auto)
  then show ?thesis
    using p fetch_SomeD
    by (fastforce simp: callback_prepare_def count_users_def get_invite_def Let_def
        split: if_splits option.splits)
qed

theorem admin_grant_has_a_reason_witness:
  "db_users (fst (callback_handler demo_jwt demo_auth_env 60 (\<lambda>_. False) [''oauth_state'' \<mapsto> ''s''] ''s'' (Inr ''root'')
     demo_db)) \<noteq> []"
proof -
  have "demo_user ''root'' ''admin''\<lparr>u_created_at := 60, u_last_login_at := 60\<rparr>
      \<in> set (db_users (fst (callback_handler demo_jwt demo_auth_env 60 (\<lambda>_. False)
           [''oauth_state'' \<mapsto> ''s''] ''s'' (Inr ''root'') demo_db)))"
    by code_simp
  then show ?thesis
    using admin_grant_has_a_reason [of "''root''" demo_db] by (auto simp: demo_db_def)
qed

lemma commit_creates:
  assumes "sql_fetch_optional (\<lambda>u. u_login u = l) (db_users d) = None" and "valid_role r"
    and "int (length (db_users d)) < cap" and "\<not> flt ''upsert_login''"
  shows "\<exists>row. db_users (fst (callback_commit J env now flt l (r, cap, code) d)) = db_users d @ [row] \<and>
           u_login row = l \<and> u_role row = r"
proof (cases rule: upsert_cases [of flt l r now cap d])
  case (fault e)
  have "l \<notin> u_login ` set (db_users d)" using assms(1) by auto
  with fault show ?thesis
    using assms(2-4)
    by (simp add: upsert_login_with_seat_check_def assms(1) Let_def sql_insert_def del: fetch_None_iff)
qed (use assms in \<open>auto simp: callback_commit_users\<close>)

text \<open>
  One single-use invite can make two administrators. If two people sign in at the same time with one
  unused invite for role admin, and both callbacks read the invite before either writes, both get new
  accounts with role admin, although the invite is redeemed only once: the role is granted from the read,
  and the outcome of \<open>redeem_invite\<close> is not consulted.
\<close>

theorem invite_race_grants_twice:
  assumes "flt = (\<lambda>_. False)" and "a \<noteq> b"
    and "sql_fetch_optional (\<lambda>u. u_login u = a) (db_users d) = None"
    and "sql_fetch_optional (\<lambda>u. u_login u = b) (db_users d) = None"
    and "db_users d \<noteq> []" and "int (length (db_users d)) + 2 \<le> seat_limit flt d"
    and "jar (invite_cookie_name env) = Some code"
    and "sql_fetch_optional (\<lambda>i. i_code i = code) (db_invites d) = Some ivt"
    and "i_used_by ivt = None" and "now \<le> i_expires_at ivt" and "i_role ivt = ''admin''"
  shows "\<exists>ra rb. db_users
      (fst (callback_commit J env now flt b (callback_prepare env now flt jar b d)
        (fst (callback_commit J env now flt a (callback_prepare env now flt jar a d) d)))) =
      db_users d @ [ra, rb] \<and>
    u_login ra = a \<and> u_role ra = ''admin'' \<and> u_login rb = b \<and> u_role rb = ''admin''"
proof -
  have p: "callback_prepare env now flt jar x d = (''admin'', seat_limit flt d, Some code)" for x
    using assms(1,5,7-11)
    by (simp add: callback_prepare_def count_users_def get_invite_def Let_def)
  let ?c = "\<lambda>x d'. fst (callback_commit J env now flt x (''admin'', seat_limit flt d, Some code) d')"
  obtain ra where ra: "db_users (?c a d) = db_users d @ [ra]" "u_login ra = a" "u_role ra = ''admin''"
    using commit_creates [OF assms(3), of "''admin''" "seat_limit flt d" flt J env now "Some code"] assms(1,6)
    by (auto simp: valid_role_def)
  moreover have "sql_fetch_optional (\<lambda>u. u_login u = b) (db_users (?c a d)) = None"
    using assms(2,4) ra by auto
  then obtain rb where "db_users (?c b (?c a d)) = db_users (?c a d) @ [rb]" "u_login rb = b" "u_role rb = ''admin''"
    using commit_creates [of b "?c a d" "''admin''" "seat_limit flt d" flt J env now "Some code"] assms(1,6) ra
    by (auto simp: valid_role_def)
  ultimately show ?thesis using p by simp
qed

definition demo_invite :: InviteRow where
  "demo_invite = \<lparr>i_code = ''k'', i_role = ''admin'', i_created_by = ''root'', i_created_at = 0, i_expires_at = 100,
     i_used_by = None, i_used_at = None\<rparr>"

theorem invite_race_grants_twice_witness:
  "admin_count (fst (callback_commit demo_jwt demo_auth_env 60 (\<lambda>_. False) ''b''
      (callback_prepare demo_auth_env 60 (\<lambda>_. False) [''pending_invite'' \<mapsto> ''k''] ''b''
         (demo_db\<lparr>db_users := [demo_user ''root'' ''admin''], db_invites := [demo_invite]\<rparr>))
      (fst (callback_commit demo_jwt demo_auth_env 60 (\<lambda>_. False) ''a''
         (callback_prepare demo_auth_env 60 (\<lambda>_. False) [''pending_invite'' \<mapsto> ''k''] ''a''
            (demo_db\<lparr>db_users := [demo_user ''root'' ''admin''], db_invites := [demo_invite]\<rparr>))
         (demo_db\<lparr>db_users := [demo_user ''root'' ''admin''], db_invites := [demo_invite]\<rparr>))))) = 3"
proof -
  let ?d = "demo_db\<lparr>db_users := [demo_user ''root'' ''admin''], db_invites := [demo_invite]\<rparr>"
  have "invite_cookie_name demo_auth_env = ''pending_invite''" by code_simp
  then have "\<exists>ra rb. db_users
      (fst (callback_commit demo_jwt demo_auth_env 60 (\<lambda>_. False) ''b''
         (callback_prepare demo_auth_env 60 (\<lambda>_. False) [''pending_invite'' \<mapsto> ''k''] ''b'' ?d)
        (fst (callback_commit demo_jwt demo_auth_env 60 (\<lambda>_. False) ''a''
           (callback_prepare demo_auth_env 60 (\<lambda>_. False) [''pending_invite'' \<mapsto> ''k''] ''a'' ?d) ?d)))) =
      db_users ?d @ [ra, rb] \<and>
    u_login ra = ''a'' \<and> u_role ra = ''admin'' \<and> u_login rb = ''b'' \<and> u_role rb = ''admin''"
    by (intro invite_race_grants_twice [OF refl, of _ _ _ _ _ "''k''" demo_invite])
      (simp_all add: demo_user_def demo_db_def demo_invite_def sql_simps seat_limit_def CE_USER_LIMIT_def)
  then show ?thesis by (auto simp: admin_count_def rows_affected_def demo_user_def)
qed

end
