(* ===== verification/Device_Pairing.thy ===== *)
theory Device_Pairing
  imports Session_Auth Throttle
begin

text \<open>
  \<open>server/src/device_auth.rs\<close>, \<open>cli_auth.rs\<close> and the token and pending-device statements of
  \<open>db.rs\<close>: how an agent, or an operator's terminal, is paired. A request creates a pending row with a
  device code and a user code; a signed-in administrator approves the user code; the poller exchanges the
  approved device code for tokens. Agents rotate their access token with a single-use refresh token.

  Random codes and tokens are arguments of the handlers, as is Unicode upper-casing of the typed code.
  Shown: over any interleaving of all these operations a device code and a refresh token are each
  exchanged at most once (an interpretation of \<open>ticket_store\<close>), nothing is issued without an
  approval in time, rotation keeps the host binding, and guessing codes is throttled.
\<close>

section \<open>State\<close>

record TokenRow =
  t_token :: string
  t_hostname :: "string option"
  t_created_at :: int
  t_last_seen :: int
  t_expires_at :: int
  t_refresh_token :: "string option"
  t_refresh_expires_at :: int
  t_revoked :: int

record PendingDeviceRow =
  pd_device_code :: string
  pd_user_code :: string
  pd_expires_at :: int
  pd_approved :: int
  pd_purpose :: string
  pd_approved_by :: "string option"

record pairing =
  p_auth :: auth_db
  p_tokens :: "TokenRow table"
  p_pending :: "PendingDeviceRow table"
  p_throttle :: throttle

definition ACCESS_TOKEN_TTL_SECS :: int where "ACCESS_TOKEN_TTL_SECS = 3600"
definition REFRESH_TOKEN_TTL_SECS :: int where "REFRESH_TOKEN_TTL_SECS = 30 * 86400"
definition REQUEST_TTL_SECS :: int where "REQUEST_TTL_SECS = 5 * 60"
definition CLI_TOKEN_TTL_SECS :: int where "CLI_TOKEN_TTL_SECS = 8 * 60 * 60"

section \<open>Statements\<close>

definition token_exists :: "fault \<Rightarrow> int \<Rightarrow> TokenRow table \<Rightarrow> string \<Rightarrow> bool" where
  "token_exists flt now ts token =
     (\<not> flt ''token_exists'' \<and>
      sql_fetch_optional (\<lambda>t. t_token t = token \<and> t_revoked t = 0 \<and> t_expires_at t > now) ts \<noteq> None)"

definition token_hostname :: "fault \<Rightarrow> TokenRow table \<Rightarrow> string \<Rightarrow> (sql_error, string option) result" where
  "token_hostname flt ts token =
     (if flt ''token_hostname'' then Inl Sql_Error
      else Inr (case sql_fetch_optional (\<lambda>t. t_token t = token) ts of
                  Some r \<Rightarrow> t_hostname r | None \<Rightarrow> None))"

definition upsert_token_seen :: "string \<Rightarrow> string \<Rightarrow> int \<Rightarrow> TokenRow table \<Rightarrow> TokenRow table" where
  "upsert_token_seen token hostname now ts =
     sql_upsert t_token
       \<lparr>t_token = token, t_hostname = Some hostname, t_created_at = now, t_last_seen = now,
        t_expires_at = 0, t_refresh_token = None, t_refresh_expires_at = 0, t_revoked = 0\<rparr>
       (\<lambda>t. t\<lparr>t_hostname := Some hostname, t_last_seen := now,
                t_created_at := (if t_created_at t = 0 then now else t_created_at t)\<rparr>) ts"

definition refreshable :: "string \<Rightarrow> int \<Rightarrow> TokenRow \<Rightarrow> bool" where
  "refreshable presented now t \<longleftrightarrow>
     t_refresh_token t = Some presented \<and> t_revoked t = 0 \<and> t_refresh_expires_at t > now"

definition token_pair ::
    "string \<Rightarrow> string option \<Rightarrow> int \<Rightarrow> int \<Rightarrow> string \<Rightarrow> int \<Rightarrow> TokenRow" where
  "token_pair access hostname now access_expires_at refresh refresh_expires_at =
     \<lparr>t_token = access, t_hostname = hostname, t_created_at = now, t_last_seen = 0,
      t_expires_at = access_expires_at, t_refresh_token = Some refresh,
      t_refresh_expires_at = refresh_expires_at, t_revoked = 0\<rparr>"

definition replace_token_on_refresh ::
    "fault \<Rightarrow> string \<Rightarrow> string \<Rightarrow> string \<Rightarrow> int \<Rightarrow> int \<Rightarrow> int \<Rightarrow> TokenRow table
      \<Rightarrow> TokenRow table \<times> (sql_error, string option) result" where
  "replace_token_on_refresh flt presented new_access new_refresh access_expires_at refresh_expires_at now ts =
     (if flt ''replace_token'' then (ts, Inl Sql_Error)
      else case sql_fetch_optional (refreshable presented now) ts of
        None \<Rightarrow> (ts, Inr None)
      | Some row \<Rightarrow>
          (case sql_insert t_token
                  (token_pair new_access (t_hostname row) now access_expires_at new_refresh refresh_expires_at)
                  (sql_delete (refreshable presented now) ts) of
             Inl e \<Rightarrow> (ts, Inl e)
           | Inr ts' \<Rightarrow> (ts', Inr (Some (case t_hostname row of Some h \<Rightarrow> h | None \<Rightarrow> [])))))"

definition consumable :: "string \<Rightarrow> int \<Rightarrow> PendingDeviceRow \<Rightarrow> bool" where
  "consumable device_code now p \<longleftrightarrow>
     pd_device_code p = device_code \<and> pd_purpose p = ''agent'' \<and> pd_approved p = 1 \<and> pd_expires_at p \<ge> now"

definition consume_pending_agent_and_insert_token ::
    "fault \<Rightarrow> string \<Rightarrow> string \<Rightarrow> int \<Rightarrow> string \<Rightarrow> int \<Rightarrow> int \<Rightarrow> pairing
      \<Rightarrow> pairing \<times> (sql_error, PendingDeviceRow option) result" where
  "consume_pending_agent_and_insert_token flt device_code token expires_at refresh refresh_expires_at now s =
     (if flt ''consume_pending_agent'' then (s, Inl Sql_Error)
      else case sql_fetch_optional (consumable device_code now) (p_pending s) of
        None \<Rightarrow> (s, Inr None)
      | Some row \<Rightarrow>
          (case sql_insert t_token (token_pair token None now expires_at refresh refresh_expires_at)
                  (p_tokens s) of
             Inl e \<Rightarrow> (s, Inl e)
           | Inr ts \<Rightarrow> (s\<lparr>p_pending := sql_delete (consumable device_code now) (p_pending s), p_tokens := ts\<rparr>,
                        Inr (Some row))))"

definition revoke_token :: "string \<Rightarrow> TokenRow table \<Rightarrow> TokenRow table" where
  "revoke_token token ts = sql_delete (\<lambda>t. t_token t = token) ts"

definition revoke_by_hostname :: "string \<Rightarrow> TokenRow table \<Rightarrow> TokenRow table" where
  "revoke_by_hostname hostname ts = sql_delete (\<lambda>t. t_hostname t = Some hostname) ts"

definition insert_pending_device_for_purpose ::
    "fault \<Rightarrow> string \<Rightarrow> string \<Rightarrow> int \<Rightarrow> string \<Rightarrow> PendingDeviceRow table
      \<Rightarrow> (sql_error, PendingDeviceRow table) result" where
  "insert_pending_device_for_purpose flt device_code user_code expires_at purpose ps =
     (let row = \<lparr>pd_device_code = device_code, pd_user_code = user_code, pd_expires_at = expires_at,
                  pd_approved = 0, pd_purpose = purpose, pd_approved_by = None\<rparr>
      in if flt ''insert_pending'' \<or> user_code \<in> pd_user_code ` set ps then Inl Sql_Error
         else sql_insert pd_device_code row ps)"

definition pending_device ::
    "fault \<Rightarrow> PendingDeviceRow table \<Rightarrow> string \<Rightarrow> (sql_error, PendingDeviceRow option) result" where
  "pending_device flt ps device_code =
     (if flt ''pending_device'' then Inl Sql_Error
      else Inr (sql_fetch_optional (\<lambda>p. pd_device_code p = device_code) ps))"

definition approvable :: "string \<Rightarrow> int \<Rightarrow> PendingDeviceRow \<Rightarrow> bool" where
  "approvable user_code now p \<longleftrightarrow> pd_user_code p = user_code \<and> pd_expires_at p \<ge> now \<and> pd_approved p = 0"

definition approve_user_code ::
    "fault \<Rightarrow> string \<Rightarrow> string \<Rightarrow> int \<Rightarrow> PendingDeviceRow table
      \<Rightarrow> PendingDeviceRow table \<times> (sql_error, bool) result" where
  "approve_user_code flt user_code actor now ps =
     (if flt ''approve_user_code'' then (ps, Inl Sql_Error)
      else (sql_update (approvable user_code now)
              (\<lambda>p. p\<lparr>pd_approved := 1, pd_approved_by := Some actor\<rparr>) ps,
            Inr (rows_affected (approvable user_code now) ps > 0)))"

definition delete_pending_device :: "fault \<Rightarrow> string \<Rightarrow> PendingDeviceRow table \<Rightarrow> PendingDeviceRow table" where
  "delete_pending_device flt device_code ps =
     (if flt ''delete_pending'' then ps else sql_delete (\<lambda>p. pd_device_code p = device_code) ps)"

definition cli_consumable :: "string \<Rightarrow> string \<Rightarrow> int \<Rightarrow> PendingDeviceRow \<Rightarrow> bool" where
  "cli_consumable device_code approved_by now p \<longleftrightarrow>
     pd_device_code p = device_code \<and> pd_purpose p = ''cli'' \<and> pd_approved p = 1 \<and>
     pd_approved_by p = Some approved_by \<and> pd_expires_at p \<ge> now"

definition consume_pending_cli_device ::
    "fault \<Rightarrow> string \<Rightarrow> string \<Rightarrow> int \<Rightarrow> PendingDeviceRow table
      \<Rightarrow> PendingDeviceRow table \<times> (sql_error, bool) result" where
  "consume_pending_cli_device flt device_code approved_by now ps =
     (if flt ''consume_pending_cli'' then (ps, Inl Sql_Error)
      else (sql_delete (cli_consumable device_code approved_by now) ps,
            Inr (rows_affected (cli_consumable device_code approved_by now) ps = 1)))"

definition purge_expired_devices :: "fault \<Rightarrow> int \<Rightarrow> PendingDeviceRow table \<Rightarrow> PendingDeviceRow table" where
  "purge_expired_devices flt now ps =
     (if flt ''purge_expired'' then ps else sql_delete (\<lambda>p. pd_expires_at p < now) ps)"

section \<open>Handlers\<close>

definition format_user_code :: "string \<Rightarrow> string" where
  "format_user_code raw = to_ascii_uppercase (take 4 raw @ ''-'' @ take 4 (drop 4 raw))"

text \<open>Answers: a token pair for an agent, a session token for a terminal, or an error code.\<close>

datatype token_response = AgentToken string string | CliToken string | TokenError string

definition request_device_auth ::
    "fault \<Rightarrow> string \<Rightarrow> string \<Rightarrow> int \<Rightarrow> pairing \<Rightarrow> pairing \<times> (http_error, string \<times> string) result" where
  "request_device_auth flt device_code raw_user_code now s =
     (let user_code = format_user_code raw_user_code
      in case insert_pending_device_for_purpose flt device_code user_code (now + 300) ''agent'' (p_pending s) of
           Inl _ \<Rightarrow> (s, Inl (500, ''db error''))
         | Inr ps \<Rightarrow> (s\<lparr>p_pending := ps\<rparr>, Inr (device_code, user_code)))"

definition audit :: "fault \<Rightarrow> int \<Rightarrow> string option \<Rightarrow> string \<Rightarrow> bool \<Rightarrow> string option \<Rightarrow> pairing \<Rightarrow> pairing" where
  "audit flt now actor kind ok detail s =
     s\<lparr>p_auth := record_audit flt now actor None kind ok detail (p_auth s)\<rparr>"

definition poll_device_token ::
    "fault \<Rightarrow> string \<Rightarrow> string \<Rightarrow> string \<Rightarrow> int \<Rightarrow> pairing \<Rightarrow> pairing \<times> token_response" where
  "poll_device_token flt device_code access_token refresh_token now s =
     (case pending_device flt (p_pending s) device_code of
        Inl _ \<Rightarrow> (s, TokenError ''server_error'')
      | Inr None \<Rightarrow> (s, TokenError ''invalid_grant'')
      | Inr (Some row) \<Rightarrow>
          if pd_purpose row \<noteq> ''agent'' then (s, TokenError ''invalid_grant'')
          else if now > pd_expires_at row
          then (s\<lparr>p_pending := delete_pending_device flt (pd_device_code row) (p_pending s)\<rparr>,
                TokenError ''expired_token'')
          else if pd_approved row = 0 then (s, TokenError ''authorization_pending'')
          else (case consume_pending_agent_and_insert_token flt (pd_device_code row) access_token
                       (now + ACCESS_TOKEN_TTL_SECS) refresh_token (now + REFRESH_TOKEN_TTL_SECS) now s of
                  (s', Inr (Some consumed)) \<Rightarrow>
                    (audit flt now None ''device.token.issued'' True
                       (Some (''user_code='' @ pd_user_code consumed)) s',
                     AgentToken access_token refresh_token)
                | (s', Inr None) \<Rightarrow> (s', TokenError ''invalid_grant'')
                | (s', Inl _) \<Rightarrow> (s', TokenError ''server_error'')))"

definition refresh_device_token ::
    "fault \<Rightarrow> string \<Rightarrow> string \<Rightarrow> string \<Rightarrow> int \<Rightarrow> pairing \<Rightarrow> pairing \<times> token_response" where
  "refresh_device_token flt presented new_access new_refresh now s =
     (case replace_token_on_refresh flt presented new_access new_refresh (now + ACCESS_TOKEN_TTL_SECS)
             (now + REFRESH_TOKEN_TTL_SECS) now (p_tokens s) of
        (ts, Inr (Some _)) \<Rightarrow>
          (audit flt now None ''device.token.refreshed'' True None (s\<lparr>p_tokens := ts\<rparr>),
           AgentToken new_access new_refresh)
      | (ts, Inr None) \<Rightarrow> (s\<lparr>p_tokens := ts\<rparr>, TokenError ''invalid_grant'')
      | (ts, Inl _) \<Rightarrow> (s\<lparr>p_tokens := ts\<rparr>, TokenError ''server_error''))"

definition approve_device ::
    "jwt_lib \<Rightarrow> env \<Rightarrow> (string \<Rightarrow> string) \<Rightarrow> fault \<Rightarrow> (string \<rightharpoonup> string) \<Rightarrow> string \<Rightarrow> int \<Rightarrow> pairing
      \<Rightarrow> pairing \<times> (http_error, unit) result" where
  "approve_device J env upper flt jar typed now s =
     (case current_user J env now flt (p_auth s) jar of Inl e \<Rightarrow> (s, Inl e)
      | Inr claims \<Rightarrow>
          (let actor = c_sub claims in
           case check actor now (p_throttle s) of
             (th, Locked _) \<Rightarrow>
               (s\<lparr>p_throttle := th\<rparr>, Inl (429, ''too many failed attempts; try again later''))
           | (th, Ok) \<Rightarrow>
               (let s1 = s\<lparr>p_throttle := th\<rparr>; user_code = upper typed in
                case approve_user_code flt user_code actor now (p_pending s1) of
                  (ps, Inl _) \<Rightarrow> (s1\<lparr>p_pending := ps\<rparr>, Inl (500, ''db error''))
                | (ps, Inr approved) \<Rightarrow>
                    if approved
                    then (audit flt now (Some actor) ''device.approve'' True
                            (Some (''user_code='' @ user_code))
                            (s1\<lparr>p_pending := ps, p_throttle := record_success actor th\<rparr>), Inr ())
                    else (audit flt now (Some actor) ''device.approve.fail'' False None
                            (s1\<lparr>p_pending := ps, p_throttle := record_failure actor now th\<rparr>),
                          Inl (400, ''Invalid or expired code'')))))"

text \<open>\<open>ws_ok\<close>: whether the configured \<open>UI_URL\<close> yields a WebSocket address (\<open>cli_ws_url\<close>).\<close>

definition request_cli_auth ::
    "fault \<Rightarrow> bool \<Rightarrow> string \<Rightarrow> string \<Rightarrow> int \<Rightarrow> pairing \<Rightarrow> pairing \<times> (http_error, string \<times> string) result" where
  "request_cli_auth flt ws_ok device_code raw_user_code now s =
     (let user_code = format_user_code raw_user_code
      in case insert_pending_device_for_purpose flt device_code user_code (now + REQUEST_TTL_SECS) ''cli''
                (p_pending s) of
           Inl _ \<Rightarrow> (s, Inl (500, ''db error''))
         | Inr ps \<Rightarrow>
             if ws_ok then (s\<lparr>p_pending := ps\<rparr>, Inr (device_code, user_code))
             else (s\<lparr>p_pending := delete_pending_device flt device_code ps\<rparr>, Inl (500, ''invalid UI_URL'')))"

definition poll_cli_token ::
    "jwt_lib \<Rightarrow> env \<Rightarrow> fault \<Rightarrow> string \<Rightarrow> int \<Rightarrow> pairing \<Rightarrow> pairing \<times> token_response" where
  "poll_cli_token J env flt device_code now s =
     (case pending_device flt (p_pending s) device_code of
        Inl _ \<Rightarrow> (s, TokenError ''server_error'')
      | Inr None \<Rightarrow> (s, TokenError ''invalid_grant'')
      | Inr (Some row) \<Rightarrow>
          if pd_purpose row \<noteq> ''cli'' then (s, TokenError ''invalid_grant'')
          else if now > pd_expires_at row
          then (s\<lparr>p_pending := delete_pending_device flt (pd_device_code row) (p_pending s)\<rparr>,
                TokenError ''expired_token'')
          else if pd_approved row = 0 then (s, TokenError ''authorization_pending'')
          else (case pd_approved_by row of None \<Rightarrow> (s, TokenError ''server_error'')
            | Some actor \<Rightarrow>
                (case get_user flt (p_auth s) actor of
                   Inl _ \<Rightarrow> (s, TokenError ''server_error'')
                 | Inr None \<Rightarrow> (s, TokenError ''invalid_grant'')
                 | Inr (Some user) \<Rightarrow>
                     (case consume_pending_cli_device flt (pd_device_code row) actor now (p_pending s) of
                        (ps, Inl _) \<Rightarrow> (s\<lparr>p_pending := ps\<rparr>, TokenError ''server_error'')
                      | (ps, Inr consumed) \<Rightarrow>
                          if \<not> consumed then (s\<lparr>p_pending := ps\<rparr>, TokenError ''invalid_grant'')
                          else (case issue_cli_jwt J env now actor (Role_parse (u_role user)) CLI_TOKEN_TTL_SECS of
                                  None \<Rightarrow> (s\<lparr>p_pending := ps\<rparr>, TokenError ''server_error'')
                                | Some token \<Rightarrow>
                                    (audit flt now (Some actor) ''cli.device.token.issued'' True None
                                       (s\<lparr>p_pending := ps\<rparr>), CliToken token))))))"

section \<open>Runs\<close>

datatype pair_op =
    Request fault string string int
  | CliRequest fault bool string string int
  | Approve fault "string \<rightharpoonup> string" string int
  | Poll fault string string string int
  | CliPoll fault string int
  | Refresh fault string string string int
  | Purge fault int
  | Seen string string int
  | Revoke string
  | RevokeHost string

definition issued :: "pairing \<times> token_response \<Rightarrow> pairing \<times> bool" where
  "issued r = (fst r, case snd r of TokenError _ \<Rightarrow> False | _ \<Rightarrow> True)"

text \<open>One operation: the new state and whether a token was issued.\<close>

fun run_pair :: "jwt_lib \<Rightarrow> env \<Rightarrow> (string \<Rightarrow> string) \<Rightarrow> pair_op \<Rightarrow> pairing \<Rightarrow> pairing \<times> bool" where
  "run_pair J env upper (Request flt dc uc now) s = (fst (request_device_auth flt dc uc now s), False)"
| "run_pair J env upper (CliRequest flt ok dc uc now) s = (fst (request_cli_auth flt ok dc uc now s), False)"
| "run_pair J env upper (Approve flt jar uc now) s = (fst (approve_device J env upper flt jar uc now s), False)"
| "run_pair J env upper (Poll flt dc a r now) s = issued (poll_device_token flt dc a r now s)"
| "run_pair J env upper (CliPoll flt dc now) s = issued (poll_cli_token J env flt dc now s)"
| "run_pair J env upper (Refresh flt p a r now) s = issued (refresh_device_token flt p a r now s)"
| "run_pair J env upper (Purge flt now) s = (s\<lparr>p_pending := purge_expired_devices flt now (p_pending s)\<rparr>, False)"
| "run_pair J env upper (Seen tk h now) s = (s\<lparr>p_tokens := upsert_token_seen tk h now (p_tokens s)\<rparr>, False)"
| "run_pair J env upper (Revoke tk) s = (s\<lparr>p_tokens := revoke_token tk (p_tokens s)\<rparr>, False)"
| "run_pair J env upper (RevokeHost h) s = (s\<lparr>p_tokens := revoke_by_hostname h (p_tokens s)\<rparr>, False)"

text \<open>The tickets of the component: device codes and refresh tokens.\<close>

datatype ticket_id = Device string | RefreshTk string

fun pair_ticket :: "pair_op \<Rightarrow> ticket_id option" where
  "pair_ticket (Poll flt dc a r now) = Some (Device dc)"
| "pair_ticket (CliPoll flt dc now) = Some (Device dc)"
| "pair_ticket (Refresh flt p a r now) = Some (RefreshTk p)"
| "pair_ticket _ = None"

fun pair_issues :: "pair_op \<Rightarrow> ticket_id \<Rightarrow> bool" where
  "pair_issues (Request flt dc uc now) k = (k = Device dc)"
| "pair_issues (CliRequest flt ok dc uc now) k = (k = Device dc)"
| "pair_issues (Poll flt dc a r now) k = (k = RefreshTk r)"
| "pair_issues (Refresh flt p a r now) k = (k = RefreshTk r)"
| "pair_issues _ k = False"

definition codes :: "pairing \<Rightarrow> string set" where
  "codes s = pd_device_code ` set (p_pending s)"

definition holders :: "string \<Rightarrow> pairing \<Rightarrow> nat" where
  "holders r s = rows_affected (\<lambda>t. t_refresh_token t = Some r) (p_tokens s)"

fun pair_live :: "ticket_id \<Rightarrow> pairing \<Rightarrow> bool" where
  "pair_live (Device c) s = (c \<in> codes s)"
| "pair_live (RefreshTk r) s = (0 < holders r s)"

fun pair_wf :: "ticket_id \<Rightarrow> pairing \<Rightarrow> bool" where
  "pair_wf (Device c) s = keyed pd_device_code (p_pending s)"
| "pair_wf (RefreshTk r) s = (holders r s \<le> 1)"

section \<open>Lemmas\<close>

lemma audit_simps [simp]:
  "p_pending (audit flt now a k ok dt s) = p_pending s"
  "p_tokens (audit flt now a k ok dt s) = p_tokens s"
  "p_throttle (audit flt now a k ok dt s) = p_throttle s"
  by (simp_all add: audit_def)

subsection \<open>Pending rows\<close>

lemma poll_pending:
  "p_pending (fst (poll_device_token flt dc a r now s)) = p_pending s \<or>
   p_pending (fst (poll_device_token flt dc a r now s)) = delete_pending_device flt dc (p_pending s) \<or>
   p_pending (fst (poll_device_token flt dc a r now s)) = sql_delete (consumable dc now) (p_pending s)"
  by (auto simp: poll_device_token_def pending_device_def consume_pending_agent_and_insert_token_def
      dest!: fetch_SomeD split: sum.splits option.splits prod.splits simp del: fetch_None_iff)

lemma cli_poll_pending:
  "p_pending (fst (poll_cli_token J env flt dc now s)) = p_pending s \<or>
   p_pending (fst (poll_cli_token J env flt dc now s)) = delete_pending_device flt dc (p_pending s) \<or>
   (\<exists>who. p_pending (fst (poll_cli_token J env flt dc now s)) = sql_delete (cli_consumable dc who now) (p_pending s))"
  by (auto simp: poll_cli_token_def pending_device_def consume_pending_cli_device_def
      dest!: fetch_SomeD split: sum.splits option.splits prod.splits simp del: fetch_None_iff)

lemma approve_pending:
  "p_pending (fst (approve_device J env upper flt jar uc now s)) = p_pending s \<or>
   (\<exists>actor. p_pending (fst (approve_device J env upper flt jar uc now s)) =
      sql_update (approvable (upper uc) now) (\<lambda>p. p\<lparr>pd_approved := 1, pd_approved_by := Some actor\<rparr>) (p_pending s))"
  by (auto simp: approve_device_def approve_user_code_def Let_def
      split: sum.splits prod.splits CheckResult.splits if_splits)

lemma insert_pending_Inr:
  "insert_pending_device_for_purpose flt dc uc e pu ps = Inr ps' \<Longrightarrow>
     dc \<notin> pd_device_code ` set ps \<and> uc \<notin> pd_user_code ` set ps \<and>
     ps' = ps @ [\<lparr>pd_device_code = dc, pd_user_code = uc, pd_expires_at = e, pd_approved = 0,
                  pd_purpose = pu, pd_approved_by = None\<rparr>]"
  by (auto simp: insert_pending_device_for_purpose_def Let_def sql_insert_def split: if_splits)

lemma keyed_insert_pending:
  "insert_pending_device_for_purpose flt dc uc e pu ps = Inr ps' \<Longrightarrow> keyed pd_device_code ps \<Longrightarrow> keyed pd_device_code ps'"
  by (drule insert_pending_Inr) (auto simp: keyed_def)

lemma refresh_pending [simp]: "p_pending (fst (refresh_device_token flt p a r now s)) = p_pending s"
  by (auto simp: refresh_device_token_def split: prod.splits sum.splits option.splits)

lemma keyed_delete_pending: "keyed pd_device_code ps \<Longrightarrow> keyed pd_device_code (delete_pending_device flt dc ps)"
  by (simp add: delete_pending_device_def)

lemma run_pair_keyed:
  assumes "keyed pd_device_code (p_pending s)"
  shows "keyed pd_device_code (p_pending (fst (run_pair J env upper a s)))"
proof (cases a)
  case (Request flt dc uc now)
  then show ?thesis
    using assms by (auto simp: request_device_auth_def Let_def keyed_insert_pending split: sum.splits)
next
  case (CliRequest flt ok dc uc now)
  then show ?thesis
    using assms by (auto simp: request_cli_auth_def Let_def keyed_delete_pending keyed_insert_pending split: sum.splits)
next
  case (Approve flt jar uc now)
  then show ?thesis
    using assms approve_pending [of J env upper flt jar uc now s] by (auto simp: keyed_update)
next
  case (Poll flt dc a r now)
  then show ?thesis
    using assms poll_pending [of flt dc a r now s] by (auto simp: issued_def keyed_delete_pending)
next
  case (CliPoll flt dc now)
  then show ?thesis
    using assms cli_poll_pending [of J env flt dc now s] by (auto simp: issued_def keyed_delete_pending)
qed (use assms in \<open>auto simp: issued_def purge_expired_devices_def\<close>)

lemma codes_delete_pending: "pd_device_code ` set (delete_pending_device flt dc ps) \<subseteq> pd_device_code ` set ps"
  by (auto simp: delete_pending_device_def)

lemma run_pair_codes:
  assumes "c \<in> codes (fst (run_pair J env upper a s))" and "\<not> pair_issues a (Device c)"
  shows "c \<in> codes s"
proof (cases a)
  case (Request flt dc uc now)
  then show ?thesis
    using assms by (auto simp: codes_def request_device_auth_def Let_def dest!: insert_pending_Inr split: sum.splits)
next
  case (CliRequest flt ok dc uc now)
  then show ?thesis
    using assms by (auto simp: codes_def request_cli_auth_def Let_def delete_pending_device_def
        dest!: insert_pending_Inr split: sum.splits if_splits)
next
  case (Approve flt jar uc now)
  then show ?thesis
    using assms approve_pending [of J env upper flt jar uc now s] by (auto simp: codes_def split: if_splits)
next
  case (Poll flt dc a r now)
  then show ?thesis
    using assms poll_pending [of flt dc a r now s] codes_delete_pending by (fastforce simp: issued_def codes_def)
next
  case (CliPoll flt dc now)
  then show ?thesis
    using assms cli_poll_pending [of J env flt dc now s] codes_delete_pending
    by (fastforce simp: issued_def codes_def)
qed (use assms in \<open>auto simp: issued_def purge_expired_devices_def codes_def split: if_splits\<close>)

subsection \<open>Issuing\<close>

lemma poll_issues:
  assumes "poll_device_token flt dc a r now s = (s', AgentToken a' r')"
  shows "a' = a \<and> r' = r \<and>
    (\<exists>p\<in>set (p_pending s). pd_device_code p = dc \<and> pd_purpose p = ''agent'' \<and> pd_approved p = 1 \<and> now \<le> pd_expires_at p) \<and>
    p_pending s' = sql_delete (consumable dc now) (p_pending s) \<and>
    p_tokens s' = p_tokens s @ [token_pair a None now (now + ACCESS_TOKEN_TTL_SECS) r (now + REFRESH_TOKEN_TTL_SECS)]"
  using assms
  by (auto simp: poll_device_token_def pending_device_def consume_pending_agent_and_insert_token_def
      sql_insert_def consumable_def dest!: fetch_SomeD split: sum.splits option.splits prod.splits if_splits
      simp del: fetch_None_iff)

lemma poll_response: "snd (poll_device_token flt dc a r now s) \<noteq> CliToken t"
  by (auto simp: poll_device_token_def split: sum.splits option.splits prod.splits)

lemma consumed_code_gone:
  assumes "keyed pd_device_code ps" and "p \<in> set ps" and "P p" and "pd_device_code p = dc"
  shows "dc \<notin> pd_device_code ` set (sql_delete P ps)"
proof
  assume "dc \<in> pd_device_code ` set (sql_delete P ps)"
  then obtain q where "q \<in> set ps" "\<not> P q" "pd_device_code q = dc" by auto
  then have "q = p" using keyed_unique [OF assms(1) _ assms(2)] assms(4) by simp
  with \<open>\<not> P q\<close> assms(3) show False by simp
qed

lemma poll_kills:
  assumes "keyed pd_device_code (p_pending s)" and "snd (issued (poll_device_token flt dc a r now s))"
  shows "dc \<in> codes s \<and> dc \<notin> codes (fst (poll_device_token flt dc a r now s))"
proof -
  obtain s' a' r' where p: "poll_device_token flt dc a r now s = (s', AgentToken a' r')"
    using assms(2) poll_response [of flt dc a r now s]
    by (cases "poll_device_token flt dc a r now s"; cases "snd (poll_device_token flt dc a r now s)")
      (auto simp: issued_def)
  then obtain q where "q \<in> set (p_pending s)" "consumable dc now q"
    using poll_issues [OF p] by (auto simp: consumable_def)
  then show ?thesis
    using poll_issues [OF p] p consumed_code_gone [OF assms(1), of q "consumable dc now" dc]
    by (auto simp: codes_def consumable_def)
qed

lemma cli_poll_issues:
  assumes "snd (poll_cli_token J env flt dc now s) = CliToken t"
  shows "\<exists>p actor user. p \<in> set (p_pending s) \<and> cli_consumable dc actor now p \<and>
    p_pending (fst (poll_cli_token J env flt dc now s)) = sql_delete (cli_consumable dc actor now) (p_pending s) \<and>
    user \<in> set (db_users (p_auth s)) \<and> u_login user = actor \<and>
    issue_cli_jwt J env now actor (Role_parse (u_role user)) CLI_TOKEN_TTL_SECS = Some t"
proof -
  obtain row where row: "sql_fetch_optional (\<lambda>p. pd_device_code p = dc) (p_pending s) = Some row"
    using assms by (auto simp: poll_cli_token_def pending_device_def simp del: fetch_None_iff split: if_splits option.splits)
  obtain actor where actor: "pd_approved_by row = Some actor"
    using assms row by (auto simp: poll_cli_token_def pending_device_def split: if_splits option.splits)
  obtain user where user: "sql_fetch_optional (\<lambda>u. u_login u = actor) (db_users (p_auth s)) = Some user"
    using assms row actor
    by (auto simp: poll_cli_token_def pending_device_def get_user_def simp del: fetch_None_iff
        split: if_splits option.splits)
  have "rows_affected (cli_consumable dc actor now) (p_pending s) = 1"
    and "p_pending (fst (poll_cli_token J env flt dc now s)) = sql_delete (cli_consumable dc actor now) (p_pending s)"
    and "issue_cli_jwt J env now actor (Role_parse (u_role user)) CLI_TOKEN_TTL_SECS = Some t"
    using assms row actor user fetch_SomeD [OF row]
    by (auto simp: poll_cli_token_def pending_device_def get_user_def consume_pending_cli_device_def
        split: if_splits option.splits)
  then show ?thesis
    using rows_affected_pos [of "cli_consumable dc actor now" "p_pending s"] fetch_SomeD [OF user] by auto
qed

lemma cli_poll_kills:
  assumes "keyed pd_device_code (p_pending s)" and "snd (issued (poll_cli_token J env flt dc now s))"
  shows "dc \<in> codes s \<and> dc \<notin> codes (fst (poll_cli_token J env flt dc now s))"
proof -
  have "snd (poll_cli_token J env flt dc now s) \<noteq> AgentToken a r" for a r
    by (auto simp: poll_cli_token_def split: sum.splits option.splits prod.splits)
  then obtain t where "snd (poll_cli_token J env flt dc now s) = CliToken t"
    using assms(2) by (cases "snd (poll_cli_token J env flt dc now s)") (auto simp: issued_def)
  from cli_poll_issues [OF this] obtain p actor where p: "p \<in> set (p_pending s)" "cli_consumable dc actor now p"
    and d: "p_pending (fst (poll_cli_token J env flt dc now s)) = sql_delete (cli_consumable dc actor now) (p_pending s)"
    by blast
  then have "pd_device_code p = dc" by (simp add: cli_consumable_def)
  with p d consumed_code_gone [OF assms(1) p(1), of "cli_consumable dc actor now"] show ?thesis
    by (auto simp: codes_def)
qed

subsection \<open>Refresh tokens\<close>

abbreviation holds :: "string \<Rightarrow> TokenRow \<Rightarrow> bool" where
  "holds r t \<equiv> t_refresh_token t = Some r"

lemma rows_affected_delete: "rows_affected P (sql_delete Q ts) \<le> rows_affected P ts"
  by (induction ts) (auto simp: sql_simps)

lemma rows_affected_snoc [simp]: "rows_affected P (ts @ [t]) = rows_affected P ts + (if P t then 1 else 0)"
  by (simp add: rows_affected_def)

lemma refresh_Inr:
  assumes "replace_token_on_refresh flt p a r ae re now ts = (ts', Inr (Some h))"
  shows "\<exists>row\<in>set ts. refreshable p now row \<and> h = (case t_hostname row of Some h \<Rightarrow> h | None \<Rightarrow> []) \<and>
           ts' = sql_delete (refreshable p now) ts @ [token_pair a (t_hostname row) now ae r re]"
  using assms fetch_SomeD
  by (fastforce simp: replace_token_on_refresh_def sql_insert_def simp del: fetch_None_iff
      split: if_splits option.splits sum.splits)

lemma refresh_other:
  assumes "\<not> (\<exists>h. snd (replace_token_on_refresh flt p a r ae re now ts) = Inr (Some h))"
  shows "fst (replace_token_on_refresh flt p a r ae re now ts) = ts"
proof (cases "sql_fetch_optional (refreshable p now) ts")
  case (Some row)
  then show ?thesis
    using assms
    by (cases "sql_insert t_token (token_pair a (t_hostname row) now ae r re) (sql_delete (refreshable p now) ts)")
      (auto simp: replace_token_on_refresh_def)
qed (simp add: replace_token_on_refresh_def del: fetch_None_iff)

lemma refresh_token_cases:
  obtains (issued) h ts where "replace_token_on_refresh flt p a r (now + ACCESS_TOKEN_TTL_SECS)
        (now + REFRESH_TOKEN_TTL_SECS) now (p_tokens s) = (ts, Inr (Some h))"
      and "snd (refresh_device_token flt p a r now s) = AgentToken a r"
      and "p_tokens (fst (refresh_device_token flt p a r now s)) = ts"
  | (refused) "\<exists>e. snd (refresh_device_token flt p a r now s) = TokenError e"
      and "p_tokens (fst (refresh_device_token flt p a r now s)) = p_tokens s"
proof (cases "replace_token_on_refresh flt p a r (now + ACCESS_TOKEN_TTL_SECS)
        (now + REFRESH_TOKEN_TTL_SECS) now (p_tokens s)")
  case (Pair ts res)
  show ?thesis
  proof (cases "\<exists>h. res = Inr (Some h)")
    case True
    with Pair issued show ?thesis by (auto simp: refresh_device_token_def)
  next
    case False
    then have "ts = p_tokens s" using Pair refresh_other by (metis fst_conv snd_conv)
    with Pair False refused show ?thesis
      by (auto simp: refresh_device_token_def split: sum.splits option.splits)
  qed
qed

lemma refresh_holders:
  assumes "x \<noteq> r" shows "holders x (fst (refresh_device_token flt p a r now s)) \<le> holders x s"
proof (cases rule: refresh_token_cases [of flt p a r now s])
  case (issued h ts)
  with refresh_Inr [OF issued(1)] assms rows_affected_delete [of "holds x" "refreshable p now" "p_tokens s"]
  show ?thesis by (auto simp: holders_def token_pair_def)
next
  case refused
  then show ?thesis by (simp add: holders_def)
qed

lemma refresh_kills:
  assumes "snd (issued (refresh_device_token flt p a r now s))" and "holders p s \<le> 1"
  shows "0 < holders p s \<and> (p \<noteq> r \<longrightarrow> holders p (fst (refresh_device_token flt p a r now s)) = 0)"
proof (cases rule: refresh_token_cases [of flt p a r now s])
  case (issued h ts)
  then obtain row where row: "row \<in> set (p_tokens s)" "refreshable p now row"
    and ts: "ts = sql_delete (refreshable p now) (p_tokens s) @
      [token_pair a (t_hostname row) now (now + ACCESS_TOKEN_TTL_SECS) r (now + REFRESH_TOKEN_TTL_SECS)]"
    using refresh_Inr [OF issued(1)] by auto
  have pos: "0 < holders p s" using row by (auto simp: holders_def rows_affected_pos refreshable_def)
  have "rows_affected (holds p) (sql_delete (refreshable p now) xs) < rows_affected (holds p) xs"
    if "row \<in> set xs" for xs
    using that row(2) rows_affected_delete [of "holds p" "refreshable p now"]
    by (induction xs) (fastforce simp: sql_simps refreshable_def less_Suc_eq_le)+
  from this [OF row(1)] pos assms(2) ts issued show ?thesis
    by (auto simp: holders_def token_pair_def)
qed (use assms in \<open>auto simp: issued_def\<close>)

lemma upsert_seen_holders: "rows_affected (holds x) (upsert_token_seen tk h now ts) = rows_affected (holds x) ts"
proof -
  have "rows_affected (holds x) (map (\<lambda>y. if t_token y = tk then y\<lparr>t_hostname := Some h, t_last_seen := now,
      t_created_at := c y\<rparr> else y) us) = rows_affected (holds x) us" for c us
    by (induction us) (auto simp: rows_affected_def)
  then show ?thesis by (simp add: upsert_token_seen_def sql_upsert_def)
qed

lemma poll_tokens:
  "p_tokens (fst (poll_device_token flt dc a r now s)) = p_tokens s \<or>
   p_tokens (fst (poll_device_token flt dc a r now s)) =
     p_tokens s @ [token_pair a None now (now + ACCESS_TOKEN_TTL_SECS) r (now + REFRESH_TOKEN_TTL_SECS)]"
  by (auto simp: poll_device_token_def consume_pending_agent_and_insert_token_def sql_insert_def
      split: sum.splits option.splits prod.splits if_splits)

lemma other_tokens [simp]:
  "p_tokens (fst (request_device_auth flt dc uc now s)) = p_tokens s"
  "p_tokens (fst (request_cli_auth flt ok dc uc now s)) = p_tokens s"
  "p_tokens (fst (approve_device J env upper flt jar uc now s)) = p_tokens s"
  "p_tokens (fst (poll_cli_token J env flt dc now s)) = p_tokens s"
  by (auto simp: request_device_auth_def request_cli_auth_def approve_device_def poll_cli_token_def Let_def
      split: sum.splits option.splits prod.splits CheckResult.splits)

lemma run_pair_holders:
  assumes "\<not> pair_issues a (RefreshTk x)"
  shows "holders x (fst (run_pair J env upper a s)) \<le> holders x s"
proof (cases a)
  case (Poll flt dc a' r now)
  with assms poll_tokens [of flt dc a' r now s] show ?thesis
    by (auto simp: issued_def holders_def token_pair_def)
next
  case (Refresh flt p a' r now)
  with assms show ?thesis using refresh_holders [of x r] by (simp add: issued_def)
qed (auto simp: issued_def holders_def revoke_token_def revoke_by_hostname_def rows_affected_delete upsert_seen_holders)

subsection \<open>Interpretation\<close>

lemma run_pair_spends:
  assumes "pair_wf k s" and "snd (run_pair J env upper a s)" and "pair_ticket a = Some k"
  shows "pair_live k s \<and> (\<not> pair_issues a k \<longrightarrow> \<not> pair_live k (fst (run_pair J env upper a s)))"
proof (cases a)
  case (Poll flt dc a' r now)
  with assms poll_kills [of s flt dc a' r now] show ?thesis by (auto simp: issued_def)
next
  case (CliPoll flt dc now)
  with assms cli_poll_kills [of s J env flt dc now] show ?thesis by (auto simp: issued_def)
next
  case (Refresh flt p a' r now)
  with assms refresh_kills [of flt p a' r now s] show ?thesis by (auto simp: issued_def)
qed (use assms in auto)

interpretation pair_tickets: ticket_store "run_pair J env upper" pair_ticket pair_live pair_issues pair_wf
  for J env upper
proof unfold_locales
  fix k s a
  assume wf: "pair_wf k s"
  show "snd (run_pair J env upper a s) \<Longrightarrow> pair_ticket a = Some k \<Longrightarrow> pair_live k s"
    using run_pair_spends [OF wf] by blast
  show "snd (run_pair J env upper a s) \<Longrightarrow> pair_ticket a = Some k \<Longrightarrow> \<not> pair_issues a k \<Longrightarrow>
      \<not> pair_live k (fst (run_pair J env upper a s))"
    using run_pair_spends [OF wf] by blast
  show "\<not> pair_live k s \<Longrightarrow> \<not> pair_issues a k \<Longrightarrow> \<not> pair_live k (fst (run_pair J env upper a s))"
  proof (cases k)
    case (RefreshTk x)
    then show "\<not> pair_live k s \<Longrightarrow> \<not> pair_issues a k \<Longrightarrow> \<not> pair_live k (fst (run_pair J env upper a s))"
      using run_pair_holders [of a x J env upper s] by simp
  qed (use run_pair_codes in auto)
  show "\<not> pair_issues a k \<Longrightarrow> pair_wf k (fst (run_pair J env upper a s))"
  proof (cases k)
    case (RefreshTk x)
    then show "\<not> pair_issues a k \<Longrightarrow> pair_wf k (fst (run_pair J env upper a s))"
      using run_pair_holders [of a x J env upper s] wf by simp
  qed (use run_pair_keyed wf in auto)
qed

section \<open>Properties\<close>

text \<open>The tokens issued for ticket \<open>k\<close> in a run.\<close>

fun exchanges :: "jwt_lib \<Rightarrow> env \<Rightarrow> (string \<Rightarrow> string) \<Rightarrow> ticket_id \<Rightarrow> pair_op list \<Rightarrow> pairing \<Rightarrow> nat" where
  "exchanges J env upper k [] s = 0"
| "exchanges J env upper k (a # as) s =
     (case run_pair J env upper a s of (s', ok) \<Rightarrow>
        (if ok \<and> pair_ticket a = Some k then 1 else 0) + exchanges J env upper k as s')"

lemma exchanges_successes: "exchanges J env upper k as s = pair_tickets.successes J env upper k as s"
  by (induction as arbitrary: s) (auto split: prod.splits)

text \<open>
  C6: pairing credentials are single use. Over any interleaving of requests, approvals, polls, refreshes,
  registrations, revocations and purges by anyone, with any statements failing, a device code that is
  not requested anew is exchanged for tokens at most once, be it by an agent or by a terminal, and a
  refresh token that is not issued anew is rotated at most once; and neither ever happens once the code or
  token is gone (spent, expired and purged, or revoked).
\<close>

theorem pairing_credentials_single_use:
  assumes "keyed pd_device_code (p_pending s)" and "\<forall>a\<in>set as. \<not> pair_issues a k"
    and "\<forall>r. k = RefreshTk r \<longrightarrow> rows_affected (\<lambda>t. t_refresh_token t = Some r) (p_tokens s) \<le> 1"
  shows "exchanges J env upper k as s \<le> 1 \<and> (\<not> pair_live k s \<longrightarrow> exchanges J env upper k as s = 0)"
proof -
  have "pair_wf k s" using assms(1,3) by (cases k) (simp_all add: holders_def)
  then show ?thesis
    using pair_tickets.spent_at_most_once pair_tickets.dead_never_spent assms(2)
    by (simp add: exchanges_successes)
qed

definition demo_pairing :: pairing where
  "demo_pairing =
     \<lparr>p_auth = demo_db\<lparr>db_users := [demo_user ''root'' ''admin'']\<rparr>,
      p_tokens = [token_pair ''acc'' (Some ''host'') 10 3610 ''ref'' 9999],
      p_pending = [\<lparr>pd_device_code = ''dev'', pd_user_code = ''AAAA-BBBB'', pd_expires_at = 300, pd_approved = 1,
                    pd_purpose = ''agent'', pd_approved_by = Some ''root''\<rparr>],
      p_throttle = Map.empty\<rparr>"

theorem pairing_credentials_single_use_witness:
  "exchanges demo_jwt demo_auth_env (\<lambda>s. s) (Device ''dev'')
     [Poll (\<lambda>_. False) ''dev'' ''a1'' ''r1'' 100, Poll (\<lambda>_. False) ''dev'' ''a2'' ''r2'' 101] demo_pairing = 1"
proof -
  have "exchanges demo_jwt demo_auth_env (\<lambda>s. s) (Device ''dev'')
     [Poll (\<lambda>_. False) ''dev'' ''a1'' ''r1'' 100, Poll (\<lambda>_. False) ''dev'' ''a2'' ''r2'' 101] demo_pairing \<le> 1"
    using pairing_credentials_single_use [of demo_pairing
        "[Poll (\<lambda>_. False) ''dev'' ''a1'' ''r1'' 100, Poll (\<lambda>_. False) ''dev'' ''a2'' ''r2'' 101]" "Device ''dev''"]
    by (simp add: demo_pairing_def keyed_def)
  moreover have "snd (run_pair demo_jwt demo_auth_env (\<lambda>s. s) (Poll (\<lambda>_. False) ''dev'' ''a1'' ''r1'' 100) demo_pairing)"
    by (simp add: issued_def poll_device_token_def pending_device_def demo_pairing_def sql_simps consumable_def
        consume_pending_agent_and_insert_token_def sql_insert_def token_pair_def)
  ultimately show ?thesis by (auto split: prod.splits)
qed

text \<open>The state after a run.\<close>

definition after :: "jwt_lib \<Rightarrow> env \<Rightarrow> (string \<Rightarrow> string) \<Rightarrow> pair_op list \<Rightarrow> pairing \<Rightarrow> pairing" where
  "after J env upper ops s = fold (\<lambda>a s. fst (run_pair J env upper a s)) ops s"

text \<open>That row \<open>p\<close> was approved in state \<open>s\<close> by a signed-in user, through its user code, before it expired.\<close>

definition approved_in ::
    "jwt_lib \<Rightarrow> env \<Rightarrow> (string \<Rightarrow> string) \<Rightarrow> pair_op \<Rightarrow> pairing \<Rightarrow> PendingDeviceRow \<Rightarrow> bool" where
  "approved_in J env upper a s p \<longleftrightarrow>
     (\<exists>flt jar uc t claims. a = Approve flt jar uc t \<and> current_user J env t flt (p_auth s) jar = Inr claims \<and>
        pd_user_code p = upper uc \<and> t \<le> pd_expires_at p \<and> pd_approved_by p = Some (c_sub claims))"

lemma approve_row:
  assumes "p \<in> set (p_pending (fst (approve_device J env upper flt jar uc t s)))" and "p \<notin> set (p_pending s)"
  shows "approved_in J env upper (Approve flt jar uc t) s p"
proof (cases "current_user J env t flt (p_auth s) jar")
  case (Inr claims)
  then show ?thesis
    using assms
    by (auto simp: approved_in_def approve_device_def approve_user_code_def approvable_def Let_def
        split: prod.splits CheckResult.splits if_splits)
qed (use assms in \<open>simp add: approve_device_def\<close>)

lemma run_pair_row:
  assumes "p \<in> set (p_pending (fst (run_pair J env upper a s)))" and "pd_approved p = 1"
  shows "p \<in> set (p_pending s) \<or> approved_in J env upper a s p"
proof (cases a)
  case (Request flt dc uc now)
  then show ?thesis
    using assms by (auto simp: request_device_auth_def Let_def dest!: insert_pending_Inr split: sum.splits)
next
  case (CliRequest flt ok dc uc now)
  then show ?thesis
    using assms by (auto simp: request_cli_auth_def Let_def delete_pending_device_def
        dest!: insert_pending_Inr split: sum.splits if_splits)
next
  case (Approve flt jar uc now)
  then show ?thesis using assms approve_row [of p J env upper flt jar uc now s] by fastforce
next
  case (Poll flt dc a r now)
  then show ?thesis
    using assms poll_pending [of flt dc a r now s] by (auto simp: issued_def delete_pending_device_def split: if_splits)
next
  case (CliPoll flt dc now)
  then show ?thesis
    using assms cli_poll_pending [of J env flt dc now s]
    by (auto simp: issued_def delete_pending_device_def split: if_splits)
qed (use assms in \<open>auto simp: issued_def purge_expired_devices_def split: if_splits\<close>)

lemma approved_row_history:
  assumes "\<forall>p\<in>set (p_pending s). pd_approved p \<noteq> 1" and "p \<in> set (p_pending (after J env upper ops s))"
    and "pd_approved p = 1"
  shows "\<exists>pre a post. ops = pre @ a # post \<and> approved_in J env upper a (after J env upper pre s) p"
  using assms(2,3)
proof (induction ops rule: rev_induct)
  case Nil
  then show ?case using assms(1) by (simp add: after_def)
next
  case (snoc a ops)
  then have "p \<in> set (p_pending (fst (run_pair J env upper a (after J env upper ops s))))"
    by (simp add: after_def)
  from run_pair_row [OF this snoc.prems(2)] show ?case
  proof
    assume "p \<in> set (p_pending (after J env upper ops s))"
    then obtain pre b post where "ops = pre @ b # post" "approved_in J env upper b (after J env upper pre s) p"
      using snoc by blast
    then show ?thesis by (intro exI [of _ pre] exI [of _ b] exI [of _ "post @ [a]"]) simp
  next
    assume "approved_in J env upper a (after J env upper ops s) p"
    then show ?thesis by (intro exI [of _ ops] exI [of _ a] exI [of _ "[]"]) simp
  qed
qed

text \<open>
  C25: no credential without an approval. Start with no approved request and run any operations. If a poll
  then issues a token pair to an agent, or a session to a terminal, the request was made for that purpose,
  has not expired, and an earlier operation of the run approved it: a user whose session was verified at
  that moment entered its user code before it expired. A terminal's session is issued in that user's
  name, with the role the users table has for them now.
\<close>

theorem credentials_need_approval:
  assumes start: "\<forall>p\<in>set (p_pending s0). pd_approved p \<noteq> 1" and s: "s = after J env upper ops s0"
  shows "(\<forall>a r a' r'. snd (poll_device_token flt dc a r now s) = AgentToken a' r' \<longrightarrow>
     (\<exists>p pre b post. pd_device_code p = dc \<and> pd_purpose p = ''agent'' \<and> now \<le> pd_expires_at p \<and>
        ops = pre @ b # post \<and> approved_in J env upper b (after J env upper pre s0) p)) \<and>
   (\<forall>t. snd (poll_cli_token J env flt dc now s) = CliToken t \<longrightarrow>
     (\<exists>p pre b post user. pd_device_code p = dc \<and> pd_purpose p = ''cli'' \<and> now \<le> pd_expires_at p \<and>
        ops = pre @ b # post \<and> approved_in J env upper b (after J env upper pre s0) p \<and>
        user \<in> set (db_users (p_auth s)) \<and> pd_approved_by p = Some (u_login user) \<and>
        issue_cli_jwt J env now (u_login user) (Role_parse (u_role user)) CLI_TOKEN_TTL_SECS = Some t))"
proof (intro conjI allI impI)
  fix a r a' r'
  assume "snd (poll_device_token flt dc a r now s) = AgentToken a' r'"
  then obtain p where "p \<in> set (p_pending s)" "pd_device_code p = dc" "pd_purpose p = ''agent''"
      "pd_approved p = 1" "now \<le> pd_expires_at p"
    using poll_issues [of flt dc a r now s] by (metis prod.collapse)
  then show "\<exists>p pre b post. pd_device_code p = dc \<and> pd_purpose p = ''agent'' \<and> now \<le> pd_expires_at p \<and>
        ops = pre @ b # post \<and> approved_in J env upper b (after J env upper pre s0) p"
    using approved_row_history [OF start] s by blast
next
  fix t
  assume "snd (poll_cli_token J env flt dc now s) = CliToken t"
  from cli_poll_issues [OF this] obtain p actor user where p: "p \<in> set (p_pending s)" "cli_consumable dc actor now p"
      and u: "user \<in> set (db_users (p_auth s))" "u_login user = actor"
        "issue_cli_jwt J env now actor (Role_parse (u_role user)) CLI_TOKEN_TTL_SECS = Some t" by blast
  obtain pre b post where "ops = pre @ b # post" "approved_in J env upper b (after J env upper pre s0) p"
    using approved_row_history [OF start, of p J env upper ops] s p by (auto simp: cli_consumable_def)
  with p u show "\<exists>p pre b post user. pd_device_code p = dc \<and> pd_purpose p = ''cli'' \<and> now \<le> pd_expires_at p \<and>
        ops = pre @ b # post \<and> approved_in J env upper b (after J env upper pre s0) p \<and>
        user \<in> set (db_users (p_auth s)) \<and> pd_approved_by p = Some (u_login user) \<and>
        issue_cli_jwt J env now (u_login user) (Role_parse (u_role user)) CLI_TOKEN_TTL_SECS = Some t"
    unfolding cli_consumable_def by blast
qed

theorem credentials_need_approval_witness:
  "\<exists>pre b post. [Request (\<lambda>_. False) ''d'' ''aaaabbbb'' 10, Approve (\<lambda>_. False) [''auth_token'' \<mapsto> ''root''] ''AAAA-BBBB'' 60] =
     pre @ b # post \<and> (\<exists>flt jar uc t. b = Approve flt jar uc t)"
proof -
  let ?s0 = "demo_pairing\<lparr>p_pending := []\<rparr>"
  let ?ops = "[Request (\<lambda>_. False) ''d'' ''aaaabbbb'' 10, Approve (\<lambda>_. False) [''auth_token'' \<mapsto> ''root''] ''AAAA-BBBB'' 60]"
  have uc: "format_user_code ''aaaabbbb'' = ''AAAA-BBBB''" by code_simp
  have "\<exists>c. current_user demo_jwt demo_auth_env 60 (\<lambda>_. False) (demo_db\<lparr>db_users := [demo_user ''root'' ''admin'']\<rparr>)
      [''auth_token'' \<mapsto> ''root''] = Inr c \<and> c_sub c = ''root''"
    using demo_admin [of "\<lambda>_. False"] by (auto simp: require_admin_Inr)
  then obtain a r where "snd (poll_device_token (\<lambda>_. False) ''d'' ''a'' ''r'' 70
      (after demo_jwt demo_auth_env (\<lambda>s. s) ?ops ?s0)) = AgentToken a r"
    using uc
    by (auto simp: after_def request_device_auth_def insert_pending_device_for_purpose_def sql_insert_def
        approve_device_def demo_pairing_def check_def retain_def approve_user_code_def approvable_def sql_simps
        poll_device_token_def pending_device_def consume_pending_agent_and_insert_token_def consumable_def
        token_pair_def Let_def)
  then show ?thesis
    using credentials_need_approval [of ?s0 _ demo_jwt demo_auth_env "\<lambda>s. s" ?ops, OF _ refl]
    unfolding approved_in_def by (fastforce simp: demo_pairing_def)
qed

text \<open>
  Rotation. When a refresh succeeds the presented refresh token belonged to an unrevoked, unexpired row;
  no usable row of it remains; the new pair keeps the host the old one was bound to; and the new access
  token is accepted for exactly the next hour, if no later operation touches it.
\<close>

theorem refresh_rotates_and_keeps_host:
  assumes "snd (refresh_device_token flt p a r now s) = AgentToken a' r'"
  shows "\<exists>row\<in>set (p_tokens s). t_refresh_token row = Some p \<and> t_revoked row = 0 \<and> now < t_refresh_expires_at row \<and>
    (\<forall>t\<in>set (p_tokens (fst (refresh_device_token flt p a r now s))). t_refresh_token t = Some p \<longrightarrow>
        t_revoked t \<noteq> 0 \<or> t_refresh_expires_at t \<le> now \<or> p = r) \<and>
    (\<exists>t\<in>set (p_tokens (fst (refresh_device_token flt p a r now s))).
        t_token t = a' \<and> t_refresh_token t = Some r' \<and> t_hostname t = t_hostname row) \<and>
    (\<forall>later. token_exists (\<lambda>_. False) later (p_tokens (fst (refresh_device_token flt p a r now s))) a' \<longleftrightarrow>
        later < now + ACCESS_TOKEN_TTL_SECS)"
proof (cases rule: refresh_token_cases [of flt p a r now s])
  case (issued h ts)
  then have ar: "a' = a" "r' = r" using assms by auto
  obtain row where row: "row \<in> set (p_tokens s)" "refreshable p now row"
    and ts: "ts = sql_delete (refreshable p now) (p_tokens s) @
      [token_pair a (t_hostname row) now (now + ACCESS_TOKEN_TTL_SECS) r (now + REFRESH_TOKEN_TTL_SECS)]"
    using refresh_Inr [OF issued(1)] by auto
  have fresh: "a \<notin> t_token ` set (sql_delete (refreshable p now) (p_tokens s))"
    using issued(1)
    by (auto simp: replace_token_on_refresh_def sql_insert_def token_pair_def simp del: set_delete fetch_None_iff
        split: if_splits option.splits)
  have "token_exists (\<lambda>_. False) later ts a \<longleftrightarrow> later < now + ACCESS_TOKEN_TTL_SECS" for later
    using fresh unfolding ts by (auto simp: token_exists_def token_pair_def image_iff)
  moreover have "\<forall>t\<in>set ts. t_refresh_token t = Some p \<longrightarrow> t_revoked t \<noteq> 0 \<or> t_refresh_expires_at t \<le> now \<or> p = r"
    unfolding ts by (auto simp: refreshable_def token_pair_def)
  moreover have "\<exists>t\<in>set ts. t_token t = a \<and> t_refresh_token t = Some r \<and> t_hostname t = t_hostname row"
    unfolding ts by (auto simp: token_pair_def)
  ultimately show ?thesis
    using row unfolding issued(3) ar refreshable_def by blast
qed (use assms in auto)

theorem refresh_rotates_and_keeps_host_witness:
  "\<exists>t\<in>set (p_tokens (fst (refresh_device_token (\<lambda>_. False) ''ref'' ''a2'' ''r2'' 50 demo_pairing))).
     t_token t = ''a2'' \<and> t_hostname t = Some ''host''"
  using refresh_rotates_and_keeps_host [of "\<lambda>_. False" "''ref''" "''a2''" "''r2''" 50 demo_pairing "''a2''" "''r2''"]
  by (auto simp: refresh_device_token_def replace_token_on_refresh_def demo_pairing_def sql_simps refreshable_def
      sql_insert_def token_pair_def)

end
