(* ===== verification/Trusted_Gate.thy ===== *)
theory Trusted_Gate
  imports Byte_Codec Single_Use
begin

text \<open>
  The root broker of the agent: \<open>shared/src/trusted.rs\<close>, \<open>agent/src/privileged/policy.rs\<close>,
  \<open>approval.rs\<close>, \<open>crypto.rs\<close>, \<open>peer.rs\<close> and the connection handler of
  \<open>agent/src/bin/shellfleet-approval-gate.rs\<close>. A client asks for a root operation, the gate signs a
  challenge manifest and stores it, an enrolled approver signs the same manifest, the gate consumes the
  stored request and runs the operation over an encrypted channel.

  Ed25519, X25519, HKDF, the AEAD and JSON are the fields of \<open>gate_crypto\<close>; the clock, the random nonce
  and the keyring file are arguments. Shown: an operation runs only for an authorised local peer, with an
  enrolled approver's signature over exactly the challenged manifest, within its life time, and once; and
  the channel delivers in order, never repeats a nonce and rejects replays.
\<close>

section \<open>Protocol types\<close>

definition TRUSTED_PROTOCOL_VERSION :: u32 where "TRUSTED_PROTOCOL_VERSION = 1"

datatype TrustedOperation =
    RootCommand string "string list" u32
  | RootPty string u32 u16 u16

record TrustedManifest =
  tm_version :: u32
  tm_request_id :: string
  tm_host_id :: string
  tm_operation :: TrustedOperation
  tm_client_ephemeral_public :: "byte list"
  tm_broker_transport_public :: "byte list"
  tm_nonce :: "byte list"
  tm_created_at :: int
  tm_expires_at :: int
  tm_policy_version :: string

record SignedTrustedManifest =
  sm_manifest :: TrustedManifest
  sm_host_identity_public :: "byte list"
  sm_signature :: "byte list"

datatype TrustedClientFrame =
    StartFrame string TrustedOperation "byte list"
  | ApproveFrame SignedTrustedManifest "byte list" "byte list"
  | CiphertextFrame u64 "byte list"
  | ResizeFrame u16 u16
  | CloseFrame

datatype RootTerminalClientFrame =
    RtStart string u16 u16 | RtInput "byte list" | RtResize u16 u16 | RtClose

record gate_crypto =
  gc_canonical :: "TrustedManifest \<Rightarrow> byte list option"
  gc_public :: "byte list \<Rightarrow> byte list"
  gc_sign :: "byte list \<Rightarrow> byte list \<Rightarrow> byte list"
  gc_verify :: "byte list \<Rightarrow> byte list \<Rightarrow> byte list \<Rightarrow> bool"
  gc_dh :: "byte list \<Rightarrow> byte list \<Rightarrow> byte list"
  gc_dh_public :: "byte list \<Rightarrow> byte list"
  gc_hkdf :: "byte list \<Rightarrow> byte list \<Rightarrow> string \<Rightarrow> byte list option"
  gc_seal :: "byte list \<Rightarrow> byte list \<Rightarrow> byte list \<Rightarrow> byte list \<Rightarrow> byte list option"
  gc_open :: "byte list \<Rightarrow> byte list \<Rightarrow> byte list \<Rightarrow> byte list \<Rightarrow> byte list option"
  gc_decode_client :: "byte list \<Rightarrow> TrustedClientFrame option"
  gc_decode_root_terminal :: "byte list \<Rightarrow> RootTerminalClientFrame option"

section \<open>Policy\<close>

datatype Tier = Two

definition classify :: "TrustedOperation \<Rightarrow> (string, Tier) result" where
  "classify operation =
     (case operation of
        RootCommand program args timeout_secs \<Rightarrow>
          if \<not> starts_with program ''/'' \<or> contains_char program (char_of (0 :: nat)) \<or> length program > 4096
          then Inl ''root command program must be a bounded absolute path''
          else if length args > 256 \<or>
                  list_ex (\<lambda>arg. contains_char arg (char_of (0 :: nat)) \<or> length arg > 16 * 1024) args
          then Inl ''root command arguments exceed policy limits''
          else if \<not> (1 \<le> timeout_secs \<and> timeout_secs \<le> 3600)
          then Inl ''root command timeout is outside policy limits''
          else Inr Two
      | RootPty shell ttl_secs cols rows \<Rightarrow>
          if shell \<notin> {''/bin/bash'', ''/bin/sh'', ''/usr/bin/bash''}
          then Inl ''root PTY shell is not locally allowed''
          else if \<not> (60 \<le> ttl_secs \<and> ttl_secs \<le> 3600) \<or> cols = 0 \<or> rows = 0
          then Inl ''root PTY limits are invalid''
          else Inr Two)"

section \<open>The gate\<close>

record trusted_row =
  tr_request_id :: string
  tr_manifest :: "byte list"
  tr_status :: string
  tr_expires_at :: int
  tr_consumed_at :: "int option"

record GateState =
  gs_host_signing :: "byte list"
  gs_transport_secret :: "byte list"
  gs_host_id :: string
  gs_requests :: "trusted_row table"

definition validate_request_id :: "string \<Rightarrow> (string, unit) result" where
  "validate_request_id rid =
     (if 8 \<le> length rid \<and> length rid \<le> 128 \<and>
         list_all (\<lambda>c. is_ascii_alphanumeric c \<or> c \<in> set ''._-'') rid
      then Inr () else Inl ''invalid trusted request id'')"

definition requested_ttl :: "TrustedOperation \<Rightarrow> int" where
  "requested_ttl operation =
     (case operation of RootCommand _ _ timeout_secs \<Rightarrow> uint timeout_secs + 60
      | RootPty _ ttl_secs _ _ \<Rightarrow> uint ttl_secs)"

definition clamp :: "int \<Rightarrow> int \<Rightarrow> int \<Rightarrow> int" where
  "clamp lo hi x = (if x < lo then lo else if x > hi then hi else x)"

text \<open>\<open>fault\<close>: the approval database cannot be opened or written.\<close>

definition challenge ::
    "gate_crypto \<Rightarrow> string \<Rightarrow> bool \<Rightarrow> byte list \<Rightarrow> int \<Rightarrow> TrustedClientFrame \<Rightarrow> GateState
      \<Rightarrow> GateState \<times> (string, SignedTrustedManifest) result" where
  "challenge C policy_version fault nonce now start st =
     (case start of
        StartFrame request_id operation client_public \<Rightarrow>
          (case validate_request_id request_id of Inl e \<Rightarrow> (st, Inl e)
           | Inr _ \<Rightarrow> (case classify operation of Inl e \<Rightarrow> (st, Inl e)
             | Inr _ \<Rightarrow>
               (let manifest =
                      \<lparr>tm_version = TRUSTED_PROTOCOL_VERSION, tm_request_id = request_id,
                       tm_host_id = gs_host_id st, tm_operation = operation,
                       tm_client_ephemeral_public = client_public,
                       tm_broker_transport_public = gc_dh_public C (gs_transport_secret st),
                       tm_nonce = nonce, tm_created_at = now,
                       tm_expires_at = now + clamp 60 3600 (requested_ttl operation),
                       tm_policy_version = policy_version\<rparr>
                in case gc_canonical C manifest of None \<Rightarrow> (st, Inl ''serialize manifest'')
                   | Some canonical \<Rightarrow>
                     if fault then (st, Inl ''open approval database'')
                     else (case sql_insert tr_request_id
                              \<lparr>tr_request_id = request_id, tr_manifest = canonical, tr_status = ''pending'',
                               tr_expires_at = tm_expires_at manifest, tr_consumed_at = None\<rparr>
                              (gs_requests st) of
                             Inl _ \<Rightarrow> (st, Inl ''request id already exists or approval database failed'')
                           | Inr rows \<Rightarrow>
                               (st\<lparr>gs_requests := rows\<rparr>,
                                Inr \<lparr>sm_manifest = manifest,
                                     sm_host_identity_public = gc_public C (gs_host_signing st),
                                     sm_signature = gc_sign C (gs_host_signing st) canonical\<rparr>)))))
      | _ \<Rightarrow> (st, Inl ''first trusted frame must be Start''))"

text \<open>\<open>load_approvers\<close>: the keyring file as read, \<open>None\<close> when it cannot be read or parsed.\<close>

definition load_approvers ::
    "(string \<Rightarrow> byte list option) \<Rightarrow> (string \<times> string) list option \<Rightarrow> (string, (string \<times> byte list) list) result" where
  "load_approvers b64 keyring =
     (case keyring of None \<Rightarrow> Inl ''invalid approver keyring''
      | Some encoded \<Rightarrow>
          if encoded = [] then Inl ''approver keyring is empty''
          else if list_all (\<lambda>(i, v). case b64 v of Some k \<Rightarrow> length k = 32 | None \<Rightarrow> False) encoded
          then Inr (map (\<lambda>(i, v). (i, the (b64 v))) encoded)
          else Inl ''invalid approver key encoding'')"

definition approve ::
    "gate_crypto \<Rightarrow> string \<Rightarrow> bool \<Rightarrow> (string, (string \<times> byte list) list) result \<Rightarrow> SignedTrustedManifest
      \<Rightarrow> byte list \<Rightarrow> byte list \<Rightarrow> int \<Rightarrow> GateState \<Rightarrow> GateState \<times> (string, TrustedManifest) result" where
  "approve C policy_version fault approvers sm approver_public approver_signature now st =
     (let m = sm_manifest sm; refuse = (\<lambda>e. (st, Inl e)) in
      if tm_version m \<noteq> TRUSTED_PROTOCOL_VERSION \<or> tm_host_id m \<noteq> gs_host_id st \<or>
         sm_host_identity_public sm \<noteq> gc_public C (gs_host_signing st) \<or>
         tm_expires_at m < now \<or> tm_policy_version m \<noteq> policy_version
      then refuse ''trusted manifest is stale or belongs to another host/policy''
      else case classify (tm_operation m) of Inl e \<Rightarrow> refuse e
      | Inr _ \<Rightarrow> (case gc_canonical C m of None \<Rightarrow> refuse ''serialize manifest''
      | Some canonical \<Rightarrow>
          if \<not> gc_verify C (gc_public C (gs_host_signing st)) canonical (sm_signature sm)
          then refuse ''invalid host manifest signature''
          else (case approvers of Inl e \<Rightarrow> refuse e
          | Inr keys \<Rightarrow>
              if approver_public \<notin> snd ` set keys then refuse ''approver key is not enrolled on this host''
              else if \<not> gc_verify C approver_public canonical approver_signature
              then refuse ''invalid approver signature''
              else if fault then refuse ''approval database''
              else (case sql_fetch_optional (\<lambda>r. tr_request_id r = tm_request_id m) (gs_requests st) of
                 None \<Rightarrow> refuse ''trusted request is unknown''
               | Some row \<Rightarrow>
                   if tr_manifest row \<noteq> canonical \<or> tr_status row \<noteq> ''pending'' \<or> tr_expires_at row < now
                   then refuse ''trusted approval was altered, expired, or already consumed''
                   else
                     (let P = (\<lambda>r. tr_request_id r = tm_request_id m \<and> tr_status r = ''pending'') in
                      if rows_affected P (gs_requests st) \<noteq> 1
                      then refuse ''trusted approval was already consumed''
                      else (st\<lparr>gs_requests := sql_update P
                                 (\<lambda>r. r\<lparr>tr_status := ''consumed'', tr_consumed_at := Some now\<rparr>)
                                 (gs_requests st)\<rparr>, Inr m))))))"

section \<open>The encrypted channel\<close>

record Transport =
  tp_send :: "byte list"
  tp_receive :: "byte list"
  tp_send_counter :: u64
  tp_receive_counter :: u64
  tp_request_id :: string

definition derive ::
    "gate_crypto \<Rightarrow> byte list \<Rightarrow> byte list \<Rightarrow> string \<Rightarrow> bool \<Rightarrow> (string, Transport) result" where
  "derive C shared_secret manifest request_id client =
     try_bind (ok_or (gc_hkdf C manifest shared_secret ''shellfleet-root-client-to-host-v1'')
                ''transport key derivation failed'') (\<lambda>client_to_host.
     try_bind (ok_or (gc_hkdf C manifest shared_secret ''shellfleet-root-host-to-client-v1'')
                ''transport key derivation failed'') (\<lambda>host_to_client.
     Inr \<lparr>tp_send = (if client then client_to_host else host_to_client),
          tp_receive = (if client then host_to_client else client_to_host),
          tp_send_counter = 0, tp_receive_counter = 0, tp_request_id = request_id\<rparr>))"

definition broker ::
    "gate_crypto \<Rightarrow> byte list \<Rightarrow> byte list \<Rightarrow> byte list \<Rightarrow> string \<Rightarrow> (string, Transport) result" where
  "broker C secret client_public manifest request_id =
     derive C (gc_dh C secret client_public) manifest request_id False"

definition client ::
    "gate_crypto \<Rightarrow> byte list \<Rightarrow> byte list \<Rightarrow> byte list \<Rightarrow> string \<Rightarrow> (string, Transport) result" where
  "client C secret broker_public manifest request_id =
     derive C (gc_dh C secret broker_public) manifest request_id True"

text \<open>\<open>nonce\<close>: four zero bytes and the counter, most significant byte first.\<close>

definition be64 :: "u64 \<Rightarrow> byte list" where
  "be64 w = map (\<lambda>i. ucast (drop_bit (8 * i) w)) [7, 6, 5, 4, 3, 2, 1, 0]"

definition tp_nonce :: "u64 \<Rightarrow> byte list" where
  "tp_nonce counter = [0, 0, 0, 0] @ be64 counter"

definition checked_add1 :: "u64 \<Rightarrow> u64 option" where
  "checked_add1 w = (if w = - 1 then None else Some (w + 1))"

definition encrypt ::
    "gate_crypto \<Rightarrow> byte list \<Rightarrow> Transport \<Rightarrow> Transport \<times> (string, u64 \<times> byte list) result" where
  "encrypt C plaintext t =
     (let counter = tp_send_counter t in
      case gc_seal C (tp_send t) (tp_nonce counter) (str_bytes (tp_request_id t)) plaintext of
        None \<Rightarrow> (t, Inl ''root transport encryption failed'')
      | Some data \<Rightarrow> (case checked_add1 counter of
          None \<Rightarrow> (t, Inl ''root transport counter exhausted'')
        | Some c \<Rightarrow> (t\<lparr>tp_send_counter := c\<rparr>, Inr (counter, data))))"

definition decrypt ::
    "gate_crypto \<Rightarrow> u64 \<Rightarrow> byte list \<Rightarrow> Transport \<Rightarrow> Transport \<times> (string, byte list) result" where
  "decrypt C counter ciphertext t =
     (if counter \<noteq> tp_receive_counter t then (t, Inl ''root transport frame replay or reordering detected'')
      else case gc_open C (tp_receive t) (tp_nonce counter) (str_bytes (tp_request_id t)) ciphertext of
        None \<Rightarrow> (t, Inl ''root transport authentication failed'')
      | Some plaintext \<Rightarrow> (case checked_add1 (tp_receive_counter t) of
          None \<Rightarrow> (t, Inl ''root transport counter exhausted'')
        | Some c \<Rightarrow> (t\<lparr>tp_receive_counter := c\<rparr>, Inr plaintext)))"

section \<open>A connection\<close>

definition authorized_agent_uid :: "u32 \<Rightarrow> u32 \<Rightarrow> bool" where
  "authorized_agent_uid peer_uid restricted_agent_uid \<longleftrightarrow> peer_uid = 0 \<or> peer_uid = restricted_agent_uid"

definition decode_bounded :: "(byte list \<Rightarrow> 'f option) \<Rightarrow> byte list \<Rightarrow> (string, 'f) result" where
  "decode_bounded dec bytes =
     (if length bytes > MAX_TRUSTED_FRAME_BYTES then Inl ''trusted frame too large''
      else ok_or (dec bytes) ''malformed frame'')"

definition valid_session_id :: "string \<Rightarrow> bool" where
  "valid_session_id sid \<longleftrightarrow> sid \<noteq> [] \<and> length sid \<le> 128 \<and>
     list_all (\<lambda>c. is_ascii_alphanumeric c \<or> c \<in> set ''._-'') sid"

definition clamp16 :: "u16 \<Rightarrow> u16 \<Rightarrow> u16 \<Rightarrow> u16" where
  "clamp16 lo hi x = (if x < lo then lo else if x > hi then hi else x)"

text \<open>What a connection comes to: refused, the browser's root terminal, or an approved operation.\<close>

datatype gate_outcome =
    Refused string
  | BrowserTerminal u16 u16
  | Execute TrustedOperation Transport

text \<open>
  \<open>uid\<close> and \<open>expected\<close> are the answers of \<open>peer_uid\<close> and \<open>configured_agent_uid\<close>, \<open>input\<close> the
  bytes the peer will ever send up to the start of the operation. Writing the answers is not modelled:
  a failed write ends the connection before anything runs.
\<close>

definition gate_handle ::
    "gate_crypto \<Rightarrow> string \<Rightarrow> bool \<Rightarrow> (string, (string \<times> byte list) list) result \<Rightarrow> byte list \<Rightarrow> int \<Rightarrow> int
      \<Rightarrow> (string, u32) result \<Rightarrow> (string, u32) result \<Rightarrow> byte list \<Rightarrow> GateState \<Rightarrow> GateState \<times> gate_outcome" where
  "gate_handle C policy_version fault approvers nonce now1 now2 uid expected input st =
     (case (uid, expected) of
        (Inr u, Inr e) \<Rightarrow>
          if \<not> authorized_agent_uid u e then (st, Refused ''peer uid'')
          else (case read_frame input of Inl _ \<Rightarrow> (st, Refused ''read frame'')
          | Inr (first, rest) \<Rightarrow>
            (case decode_bounded (gc_decode_root_terminal C) first of
               Inr (RtStart sid cols rows) \<Rightarrow>
                 if \<not> valid_session_id sid then (st, Refused ''invalid root terminal session id'')
                 else (st, BrowserTerminal (clamp16 20 500 cols) (clamp16 5 200 rows))
             | _ \<Rightarrow>
               (case decode_bounded (gc_decode_client C) first of Inl m \<Rightarrow> (st, Refused m)
                | Inr start \<Rightarrow>
                  (case challenge C policy_version fault nonce now1 start st of
                     (st1, Inl m) \<Rightarrow> (st1, Refused m)
                   | (st1, Inr ch) \<Rightarrow>
                     (case read_frame rest of Inl _ \<Rightarrow> (st1, Refused ''read frame'')
                      | Inr (second, _) \<Rightarrow>
                        (case decode_bounded (gc_decode_client C) second of Inl m \<Rightarrow> (st1, Refused m)
                         | Inr (ApproveFrame sm pub sig) \<Rightarrow>
                             if sm \<noteq> ch then (st1, Refused ''approved manifest differs from broker challenge'')
                             else (case approve C policy_version fault approvers sm pub sig now2 st1 of
                               (st2, Inl m) \<Rightarrow> (st2, Refused m)
                             | (st2, Inr manifest) \<Rightarrow>
                                 (case gc_canonical C manifest of None \<Rightarrow> (st2, Refused ''serialize manifest'')
                                  | Some canonical \<Rightarrow>
                                      (case broker C (gs_transport_secret st2)
                                              (tm_client_ephemeral_public manifest) canonical
                                              (tm_request_id manifest) of
                                         Inl m \<Rightarrow> (st2, Refused m)
                                       | Inr tp \<Rightarrow> (st2, Execute (tm_operation manifest) tp))))
                         | Inr _ \<Rightarrow> (st1, Refused ''expected signed approval'')))))))
      | _ \<Rightarrow> (st, Refused ''peer credentials''))"

section \<open>Lemmas\<close>

lemma sql_update_none: "\<not> (\<exists>r\<in>set t. P r) \<Longrightarrow> sql_update P f t = t"
  by (induction t) (auto simp: sql_simps)

lemma challenge_rows:
  assumes "challenge C pv fault nonce now start st = (st', res)"
  shows "gs_requests st' = gs_requests st \<or>
    (\<exists>row. tr_request_id row \<notin> tr_request_id ` set (gs_requests st) \<and> tr_status row = ''pending'' \<and>
       gs_requests st' = gs_requests st @ [row])"
  using assms
  by (auto simp: challenge_def Let_def sql_insert_def
      split: TrustedClientFrame.splits sum.splits option.splits if_splits)

lemma challenge_Inr:
  assumes "challenge C pv fault nonce now start st = (st', Inr sm)"
  shows "\<exists>canonical. gc_canonical C (sm_manifest sm) = Some canonical \<and>
    start = StartFrame (tm_request_id (sm_manifest sm)) (tm_operation (sm_manifest sm))
              (tm_client_ephemeral_public (sm_manifest sm)) \<and>
    tm_nonce (sm_manifest sm) = nonce \<and> tm_created_at (sm_manifest sm) = now \<and>
    tm_expires_at (sm_manifest sm) = now + clamp 60 3600 (requested_ttl (tm_operation (sm_manifest sm))) \<and>
    sm_signature sm = gc_sign C (gs_host_signing st) canonical \<and>
    tm_host_id (sm_manifest sm) = gs_host_id st \<and>
    tm_broker_transport_public (sm_manifest sm) = gc_dh_public C (gs_transport_secret st) \<and>
    tm_request_id (sm_manifest sm) \<notin> tr_request_id ` set (gs_requests st) \<and>
    gs_transport_secret st' = gs_transport_secret st"
  using assms
  by (auto simp: challenge_def Let_def sql_insert_def split: TrustedClientFrame.splits sum.splits option.splits if_splits)

definition approved_row :: "gate_crypto \<Rightarrow> GateState \<Rightarrow> TrustedManifest \<Rightarrow> int \<Rightarrow> trusted_row \<Rightarrow> bool" where
  "approved_row C st m now row \<longleftrightarrow> row \<in> set (gs_requests st) \<and> tr_request_id row = tm_request_id m \<and>
     gc_canonical C m = Some (tr_manifest row) \<and> tr_status row = ''pending'' \<and> now \<le> tr_expires_at row"

lemma approve_Inr:
  assumes "approve C pv fault approvers sm pub sig now st = (st', Inr m)"
  shows "m = sm_manifest sm \<and> now \<le> tm_expires_at m \<and> tm_policy_version m = pv \<and> tm_host_id m = gs_host_id st \<and>
    classify (tm_operation m) = Inr Two \<and>
    (\<exists>keys canonical. approvers = Inr keys \<and> pub \<in> snd ` set keys \<and> gc_canonical C m = Some canonical \<and>
       gc_verify C pub canonical sig \<and> gc_verify C (gc_public C (gs_host_signing st)) canonical (sm_signature sm)) \<and>
    (\<exists>row. approved_row C st m now row) \<and>
    st' = st\<lparr>gs_requests := sql_update (\<lambda>r. tr_request_id r = tm_request_id m \<and> tr_status r = ''pending'')
               (\<lambda>r. r\<lparr>tr_status := ''consumed'', tr_consumed_at := Some now\<rparr>) (gs_requests st)\<rparr>"
proof -
  have two: "x = Two" for x :: Tier by (cases x)
  obtain x where x: "classify (tm_operation (sm_manifest sm)) = Inr x"
    using assms by (auto simp: approve_def Let_def split: if_splits sum.splits)
  obtain canonical where c: "gc_canonical C (sm_manifest sm) = Some canonical"
    using assms x by (auto simp: approve_def Let_def split: if_splits option.splits)
  obtain keys where k: "approvers = Inr keys"
    using assms x c by (auto simp: approve_def Let_def split: if_splits sum.splits)
  obtain row where r: "sql_fetch_optional (\<lambda>r. tr_request_id r = tm_request_id (sm_manifest sm)) (gs_requests st) = Some row"
    using assms x c k by (auto simp: approve_def Let_def simp del: fetch_None_iff split: if_splits option.splits)
  show ?thesis
    using assms x c k r fetch_SomeD [OF r] two [of x]
    by (auto simp: approve_def Let_def not_less approved_row_def split: if_splits)
qed

lemma approve_other:
  "(\<exists>m. snd (approve C pv fault approvers sm pub sig now st) = Inr m) \<or>
   fst (approve C pv fault approvers sm pub sig now st) = st"
  by (auto simp: approve_def Let_def split: if_splits sum.splits option.splits)

section \<open>Requests are single use\<close>

datatype gate_op =
    ChallengeOp bool "byte list" int TrustedClientFrame
  | ApproveOp bool "(string, (string \<times> byte list) list) result" SignedTrustedManifest "byte list" "byte list" int

fun run_gate :: "gate_crypto \<Rightarrow> string \<Rightarrow> gate_op \<Rightarrow> GateState \<Rightarrow> GateState \<times> bool" where
  "run_gate C pv (ChallengeOp fault nonce now start) st = (fst (challenge C pv fault nonce now start st), False)"
| "run_gate C pv (ApproveOp fault approvers sm pub sig now) st =
     (let r = approve C pv fault approvers sm pub sig now st in (fst r, is_ok (snd r)))"

fun gate_ticket :: "gate_op \<Rightarrow> string option" where
  "gate_ticket (ChallengeOp fault nonce now start) = None"
| "gate_ticket (ApproveOp fault approvers sm pub sig now) = Some (tm_request_id (sm_manifest sm))"

text \<open>A request id is live until a row of it has left the pending state.\<close>

definition gate_live :: "string \<Rightarrow> GateState \<Rightarrow> bool" where
  "gate_live rid st \<longleftrightarrow> (\<forall>row\<in>set (gs_requests st). tr_request_id row = rid \<longrightarrow> tr_status row = ''pending'')"

definition gate_wf :: "string \<Rightarrow> GateState \<Rightarrow> bool" where
  "gate_wf rid st \<longleftrightarrow> keyed tr_request_id (gs_requests st)"

lemma run_gate_keeps_dead:
  assumes "\<not> gate_live rid st" shows "\<not> gate_live rid (fst (run_gate C pv a st))"
proof (cases a)
  case (ChallengeOp fault nonce now start)
  then show ?thesis
    using assms challenge_rows [of C pv fault nonce now start st]
    by (cases "challenge C pv fault nonce now start st") (auto simp: gate_live_def)
next
  case (ApproveOp fault approvers sm pub sig now)
  obtain row where row: "row \<in> set (gs_requests st)" "tr_request_id row = rid" "tr_status row \<noteq> ''pending''"
    using assms by (auto simp: gate_live_def)
  show ?thesis
  proof (cases "snd (approve C pv fault approvers sm pub sig now st)")
    case (Inl e)
    then show ?thesis
      using approve_other [of C pv fault approvers sm pub sig now st] assms ApproveOp by (auto simp: Let_def)
  next
    case (Inr m)
    then have "row \<in> set (gs_requests (fst (approve C pv fault approvers sm pub sig now st)))"
      using approve_Inr [of C pv fault approvers sm pub sig now st _ m] row
      by (cases "approve C pv fault approvers sm pub sig now st") (auto intro!: image_eqI [of _ _ row])
    with row ApproveOp show ?thesis by (auto simp: gate_live_def Let_def)
  qed
qed

lemma run_gate_spends:
  assumes "gate_wf rid st" and "snd (run_gate C pv a st)" and "gate_ticket a = Some rid"
  shows "gate_live rid st \<and> \<not> gate_live rid (fst (run_gate C pv a st))"
proof (cases a)
  case (ApproveOp fault approvers sm pub sig now)
  then obtain st' m where r: "approve C pv fault approvers sm pub sig now st = (st', Inr m)"
    using assms(2) by (cases "approve C pv fault approvers sm pub sig now st") (auto simp: Let_def is_ok_iff)
  then have rid: "tm_request_id m = rid" using approve_Inr [OF r] assms(3) ApproveOp by simp
  obtain row where row: "row \<in> set (gs_requests st)" "tr_request_id row = rid" "tr_status row = ''pending''"
    using approve_Inr [OF r] rid by (auto simp: approved_row_def)
  then have "gate_live rid st"
    using assms(1) keyed_unique [of tr_request_id "gs_requests st"] by (auto simp: gate_live_def gate_wf_def)
  moreover have "row\<lparr>tr_status := ''consumed'', tr_consumed_at := Some now\<rparr> \<in> set (gs_requests st')"
    using approve_Inr [OF r] row rid by (auto intro!: image_eqI [of _ _ row])
  then have "\<not> gate_live rid st'" using row by (force simp: gate_live_def)
  ultimately show ?thesis using ApproveOp r by (simp add: Let_def)
qed (use assms in simp)

lemma run_gate_wf:
  assumes "gate_wf rid st" shows "gate_wf rid (fst (run_gate C pv a st))"
proof (cases a)
  case (ChallengeOp fault nonce now start)
  then show ?thesis
    using assms challenge_rows [of C pv fault nonce now start st]
    by (cases "challenge C pv fault nonce now start st") (auto simp: gate_wf_def keyed_def)
next
  case (ApproveOp fault approvers sm pub sig now)
  obtain st' r where r: "approve C pv fault approvers sm pub sig now st = (st', r)" by fastforce
  have "keyed tr_request_id (gs_requests st')"
  proof (cases r)
    case (Inl e)
    then show ?thesis
      using approve_other [of C pv fault approvers sm pub sig now st] assms r by (simp add: gate_wf_def)
  next
    case (Inr m)
    then have "st' = st\<lparr>gs_requests := sql_update (\<lambda>r. tr_request_id r = tm_request_id m \<and> tr_status r = ''pending'')
        (\<lambda>r. r\<lparr>tr_status := ''consumed'', tr_consumed_at := Some now\<rparr>) (gs_requests st)\<rparr>"
      using approve_Inr r by blast
    then show ?thesis using assms by (simp add: gate_wf_def keyed_update)
  qed
  with ApproveOp r show ?thesis by (simp add: gate_wf_def Let_def)
qed

interpretation gate_requests: ticket_store "run_gate C pv" gate_ticket gate_live "\<lambda>a k. False" gate_wf
  for C pv
proof unfold_locales
  fix rid st a
  assume wf: "gate_wf rid st"
  show "snd (run_gate C pv a st) \<Longrightarrow> gate_ticket a = Some rid \<Longrightarrow> gate_live rid st"
    using run_gate_spends [OF wf] by blast
  show "snd (run_gate C pv a st) \<Longrightarrow> gate_ticket a = Some rid \<Longrightarrow> \<not> gate_live rid (fst (run_gate C pv a st))"
    using run_gate_spends [OF wf] by blast
  show "\<not> gate_live rid st \<Longrightarrow> \<not> gate_live rid (fst (run_gate C pv a st))"
    by (rule run_gate_keeps_dead)
  show "gate_wf rid (fst (run_gate C pv a st))" by (rule run_gate_wf [OF wf])
qed

fun approvals :: "gate_crypto \<Rightarrow> string \<Rightarrow> string \<Rightarrow> gate_op list \<Rightarrow> GateState \<Rightarrow> nat" where
  "approvals C pv rid [] st = 0"
| "approvals C pv rid (a # as) st =
     (case run_gate C pv a st of (st', ok) \<Rightarrow>
        (if ok \<and> gate_ticket a = Some rid then 1 else 0) + approvals C pv rid as st')"

lemma approvals_successes: "approvals C pv rid as st = gate_requests.successes C pv rid as st"
  by (induction as arbitrary: st) (auto split: prod.splits)

section \<open>The channel\<close>

lemma be64_inj:
  assumes "be64 v = be64 w" shows "v = w"
proof (rule bit_word_eqI)
  fix n assume n: "n < LENGTH(64)"
  have "\<forall>i\<in>{0, 1, 2, 3, 4, 5, 6, 7}. (ucast (drop_bit (8 * i) v) :: byte) = ucast (drop_bit (8 * i) w)"
    using assms by (simp add: be64_def)
  moreover have "n div 8 \<in> {0, 1, 2, 3, 4, 5, 6, 7 :: nat}" using n by auto
  ultimately have "(ucast (drop_bit (8 * (n div 8)) v) :: byte) = ucast (drop_bit (8 * (n div 8)) w)" by blast
  then have "bit (ucast (drop_bit (8 * (n div 8)) v) :: byte) (n mod 8) =
      bit (ucast (drop_bit (8 * (n div 8)) w) :: byte) (n mod 8)" by simp
  then show "bit v n = bit w n" using n by (simp add: bit_simps)
qed

lemma tp_nonce_inj [simp]: "tp_nonce v = tp_nonce w \<longleftrightarrow> v = w"
  using be64_inj by (auto simp: tp_nonce_def)

lemma checked_add1_Some:
  "checked_add1 w = Some c \<longleftrightarrow> unat w < 2 ^ 64 - 1 \<and> c = w + 1"
proof -
  have "unat (- 1 :: u64) = 2 ^ 64 - 1" by (simp add: unsigned_minus_1_eq_mask mask_eq_exp_minus_1)
  then have "w = - 1 \<longleftrightarrow> unat w = 2 ^ 64 - 1" by (simp add: word_unat_eq_iff)
  moreover have "unat w < 2 ^ 64" using unsigned_less [of w, where 'a = nat] by simp
  ultimately show ?thesis by (auto simp: checked_add1_def)
qed

text \<open>Sending and receiving many frames; a refused frame changes nothing and is skipped.\<close>

fun send_all :: "gate_crypto \<Rightarrow> byte list list \<Rightarrow> Transport \<Rightarrow> (u64 \<times> byte list) list" where
  "send_all C [] t = []"
| "send_all C (p # ps) t =
     (case encrypt C p t of (t', Inl _) \<Rightarrow> send_all C ps t' | (t', Inr f) \<Rightarrow> f # send_all C ps t')"

fun receive_all :: "gate_crypto \<Rightarrow> (u64 \<times> byte list) list \<Rightarrow> Transport \<Rightarrow> (u64 \<times> byte list) list" where
  "receive_all C [] t = []"
| "receive_all C ((c, d) # fs) t =
     (case decrypt C c d t of (t', Inl _) \<Rightarrow> receive_all C fs t' | (t', Inr p) \<Rightarrow> (c, p) # receive_all C fs t')"

lemma encrypt_cases:
  obtains (sealed) d where "gc_seal C (tp_send t) (tp_nonce (tp_send_counter t)) (str_bytes (tp_request_id t)) p = Some d"
      and "unat (tp_send_counter t) < 2 ^ 64 - 1"
      and "encrypt C p t = (t\<lparr>tp_send_counter := tp_send_counter t + 1\<rparr>, Inr (tp_send_counter t, d))"
  | (refused) e where "encrypt C p t = (t, Inl e)"
  by (cases "gc_seal C (tp_send t) (tp_nonce (tp_send_counter t)) (str_bytes (tp_request_id t)) p";
      cases "checked_add1 (tp_send_counter t)")
    (auto simp: encrypt_def checked_add1_Some)

lemma decrypt_cases:
  obtains (opened) p where "c = tp_receive_counter t"
      and "gc_open C (tp_receive t) (tp_nonce c) (str_bytes (tp_request_id t)) d = Some p"
      and "unat (tp_receive_counter t) < 2 ^ 64 - 1"
      and "decrypt C c d t = (t\<lparr>tp_receive_counter := tp_receive_counter t + 1\<rparr>, Inr p)"
  | (refused) e where "decrypt C c d t = (t, Inl e)"
  by (cases "gc_open C (tp_receive t) (tp_nonce c) (str_bytes (tp_request_id t)) d";
      cases "checked_add1 (tp_receive_counter t)"; cases "c = tp_receive_counter t")
    (auto simp: decrypt_def checked_add1_Some)

lemma unat_Suc64: "unat (w :: u64) < 2 ^ 64 - 1 \<Longrightarrow> unat (w + 1) = Suc (unat w)"
  by (simp add: unat_word_ariths)

lemma upt_Cons: "n = Suc m \<Longrightarrow> m # [n ..< n + k] = [m ..< m + Suc k]"
  by (simp add: upt_conv_Cons del: upt_Suc)

lemma send_counters:
  "map (\<lambda>f. unat (fst f)) (send_all C ps t) =
     [unat (tp_send_counter t) ..< unat (tp_send_counter t) + length (send_all C ps t)]"
proof (induction ps arbitrary: t)
  case (Cons p ps)
  show ?case
  proof (cases rule: encrypt_cases [of C t p])
    case (sealed d)
    let ?t = "t\<lparr>tp_send_counter := tp_send_counter t + 1\<rparr>"
    have "unat (tp_send_counter ?t) = Suc (unat (tp_send_counter t))" using sealed(2) by (simp add: unat_Suc64)
    from upt_Cons [OF this] Cons.IH [of ?t] sealed(3) show ?thesis by (simp del: upt_Suc)
  next
    case (refused e)
    with Cons.IH [of t] show ?thesis by simp
  qed
qed simp

lemma receive_counters:
  "map (\<lambda>f. unat (fst f)) (receive_all C fs t) =
     [unat (tp_receive_counter t) ..< unat (tp_receive_counter t) + length (receive_all C fs t)]"
proof (induction fs arbitrary: t)
  case (Cons f fs)
  obtain c d where f: "f = (c, d)" by fastforce
  show ?case
  proof (cases rule: decrypt_cases [of c t C d])
    case (opened p)
    let ?t = "t\<lparr>tp_receive_counter := tp_receive_counter t + 1\<rparr>"
    have "unat (tp_receive_counter ?t) = Suc (unat (tp_receive_counter t))" using opened(3) by (simp add: unat_Suc64)
    from upt_Cons [OF this] Cons.IH [of ?t] opened f show ?thesis by (simp del: upt_Suc)
  next
    case (refused e)
    with Cons.IH [of t] f show ?thesis by simp
  qed
qed simp

lemma gate_handle_Execute:
  assumes "gate_handle C pv fault approvers nonce now1 now2 uid expected input st = (st', Execute operation tp)"
  shows "\<exists>u e start st1 ch pub sig m canonical. uid = Inr u \<and> expected = Inr e \<and> authorized_agent_uid u e \<and>
    challenge C pv fault nonce now1 start st = (st1, Inr ch) \<and>
    approve C pv fault approvers ch pub sig now2 st1 = (st', Inr m) \<and> operation = tm_operation m \<and>
    gc_canonical C m = Some canonical \<and>
    broker C (gs_transport_secret st') (tm_client_ephemeral_public m) canonical (tm_request_id m) = Inr tp"
  using assms
  by (auto simp: gate_handle_def
      split: sum.splits prod.splits option.splits if_splits TrustedClientFrame.splits RootTerminalClientFrame.splits)
    blast+

section \<open>Properties\<close>

text \<open>
  C26: an approval is consumed once. Over any sequence of challenges and approvals, by anyone and with any
  database failures, one request id is approved at most once, and an id that was ever consumed is never
  approved again, nor can a new challenge revive it.
\<close>

theorem trusted_request_approved_once:
  assumes "keyed tr_request_id (gs_requests st)"
  shows "approvals C pv rid as st \<le> 1 \<and>
    ((\<exists>row\<in>set (gs_requests st). tr_request_id row = rid \<and> tr_status row \<noteq> ''pending'') \<longrightarrow>
       approvals C pv rid as st = 0)"
  using gate_requests.spent_at_most_once [of rid st as C pv] gate_requests.dead_never_spent [of rid st as C pv] assms
  by (auto simp: approvals_successes gate_wf_def gate_live_def)

definition demo_gate :: GateState where
  "demo_gate = \<lparr>gs_host_signing = [1], gs_transport_secret = [2], gs_host_id = ''h'',
     gs_requests = [\<lparr>tr_request_id = ''request1'', tr_manifest = [], tr_status = ''consumed'', tr_expires_at = 9,
       tr_consumed_at = Some 5\<rparr>]\<rparr>"

definition demo_manifest :: TrustedManifest where
  "demo_manifest = \<lparr>tm_version = 1, tm_request_id = ''request1'', tm_host_id = ''h'',
     tm_operation = RootCommand ''/bin/ls'' [] 5, tm_client_ephemeral_public = [3], tm_broker_transport_public = [2],
     tm_nonce = [], tm_created_at = 5, tm_expires_at = 70, tm_policy_version = ''p''\<rparr>"

text \<open>A toy instance of the primitives for the witnesses: every signature is \<open>key @ message\<close>.\<close>

definition demo_crypto :: gate_crypto where
  "demo_crypto =
     \<lparr>gc_canonical = (\<lambda>m. Some (str_bytes (tm_request_id m))), gc_public = (\<lambda>k. k), gc_sign = (\<lambda>k m. k @ m),
      gc_verify = (\<lambda>k m s. s = k @ m), gc_dh = (\<lambda>a b. []), gc_dh_public = (\<lambda>k. k),
      gc_hkdf = (\<lambda>m s i. Some (str_bytes i)), gc_seal = (\<lambda>k n a m. Some m), gc_open = (\<lambda>k n a c. Some c),
      gc_decode_client = (\<lambda>bs. if length bs = 1 then Some (StartFrame ''request2'' (RootCommand ''/bin/ls'' [] 5) [3])
         else Some (ApproveFrame
           \<lparr>sm_manifest = demo_manifest\<lparr>tm_request_id := ''request2''\<rparr>, sm_host_identity_public = [1],
            sm_signature = [1] @ str_bytes ''request2''\<rparr> [9] ([9] @ str_bytes ''request2''))),
      gc_decode_root_terminal = (\<lambda>bs. None)\<rparr>"

theorem trusted_request_approved_once_witness:
  "approvals demo_crypto ''p'' ''request1''
     [ApproveOp False (Inr [(''k'', [9])])
        \<lparr>sm_manifest = demo_manifest, sm_host_identity_public = [1], sm_signature = [1] @ str_bytes ''request1''\<rparr>
        [9] ([9] @ str_bytes ''request1'') 6] demo_gate = 0"
proof -
  have "keyed tr_request_id (gs_requests demo_gate)"
    "\<exists>row\<in>set (gs_requests demo_gate). tr_request_id row = ''request1'' \<and> tr_status row \<noteq> ''pending''"
    by (simp_all add: demo_gate_def keyed_def)
  then show ?thesis using trusted_request_approved_once by blast
qed



lemma demo_run:
  "\<exists>st' tp. gate_handle demo_crypto ''p'' False (Inr [(''k'', [9])]) [] 5 6 (Inr 1000) (Inr 1000)
     (be32 1 @ [7] @ be32 2 @ [7, 7]) demo_gate = (st', Execute (RootCommand ''/bin/ls'' [] 5) tp)"
proof -
  have w: "write_frame [7] = Inr (be32 1 @ [7])" "write_frame [7, 7] = Inr (be32 2 @ [7, 7])"
    by (simp_all add: write_frame_def MAX_TRUSTED_FRAME_BYTES_def numeral_2_eq_2)
  have f1: "read_frame (be32 1 @ [7] @ be32 2 @ [7, 7]) = Inr ([7], be32 2 @ [7, 7])"
    and f2: "read_frame (be32 2 @ [7, 7]) = Inr ([7, 7], [])"
    using read_write_frame [OF w(1), of "be32 2 @ [7, 7]"] read_write_frame [OF w(2), of "[]"] by simp_all
  have ids: "validate_request_id ''request2'' = Inr ()" "classify (RootCommand ''/bin/ls'' [] 5) = Inr Two"
    by code_simp+
  let ?op = "RootCommand ''/bin/ls'' [] 5"
  let ?ch = "\<lparr>sm_manifest = demo_manifest\<lparr>tm_request_id := ''request2''\<rparr>, sm_host_identity_public = [1],
      sm_signature = [1] @ str_bytes ''request2''\<rparr>"
  let ?st = "demo_gate\<lparr>gs_requests := gs_requests demo_gate @
      [\<lparr>tr_request_id = ''request2'', tr_manifest = str_bytes ''request2'', tr_status = ''pending'', tr_expires_at = 70,
        tr_consumed_at = None\<rparr>]\<rparr>"
  have ch: "challenge demo_crypto ''p'' False [] 5 (StartFrame ''request2'' ?op [3]) demo_gate = (?st, Inr ?ch)"
    by (simp add: challenge_def ids demo_gate_def demo_crypto_def sql_insert_def demo_manifest_def requested_ttl_def
        clamp_def TRUSTED_PROTOCOL_VERSION_def)
  have "\<exists>st2. approve demo_crypto ''p'' False (Inr [(''k'', [9])]) ?ch [9] ([9] @ str_bytes ''request2'') 6 ?st =
      (st2, Inr (demo_manifest\<lparr>tm_request_id := ''request2''\<rparr>))"
    by (simp add: approve_def demo_gate_def demo_crypto_def demo_manifest_def ids TRUSTED_PROTOCOL_VERSION_def
        sql_simps Let_def)
  then obtain st2 where ap: "approve demo_crypto ''p'' False (Inr [(''k'', [9])]) ?ch [9] ([9] @ str_bytes ''request2'')
      6 ?st = (st2, Inr (demo_manifest\<lparr>tm_request_id := ''request2''\<rparr>))" by blast
  have dec: "decode_bounded (gc_decode_client demo_crypto) [7] = Inr (StartFrame ''request2'' ?op [3])"
    "decode_bounded (gc_decode_client demo_crypto) [7, 7] = Inr (ApproveFrame ?ch [9] ([9] @ str_bytes ''request2''))"
    "decode_bounded (gc_decode_root_terminal demo_crypto) [7] = Inl ''malformed frame''"
    by (simp_all add: decode_bounded_def MAX_TRUSTED_FRAME_BYTES_def demo_crypto_def)
  have canon: "gc_canonical demo_crypto (demo_manifest\<lparr>tm_request_id := ''request2''\<rparr>) = Some (str_bytes ''request2'')"
    by (simp add: demo_crypto_def)
  have "\<exists>tp. broker demo_crypto sec pub can rid = Inr tp" for sec pub can rid
    by (simp add: broker_def derive_def demo_crypto_def)
  then obtain tp where "broker demo_crypto (gs_transport_secret st2) [3] (str_bytes ''request2'') ''request2'' = Inr tp"
    by blast
  then show ?thesis
    using f1 f2 dec ch ap canon
    by (simp add: gate_handle_def authorized_agent_uid_def) (simp add: demo_manifest_def)
qed


text \<open>
  The channel never repeats a nonce and rejects replays. Whatever a side encrypts, the frames it emits
  carry consecutive counters and pairwise distinct AEAD nonces; and whatever frames arrive, in whatever
  order and however often, those accepted have consecutive counters from the expected one on, so each
  counter is accepted at most once and in order. When the 64-bit counter is exhausted nothing more is
  sent or accepted.
\<close>

theorem channel_counters:
  "map (\<lambda>f. unat (fst f)) (send_all C ps t) =
     [unat (tp_send_counter t) ..< unat (tp_send_counter t) + length (send_all C ps t)] \<and>
   distinct (map (\<lambda>f. tp_nonce (fst f)) (send_all C ps t)) \<and>
   map (\<lambda>f. unat (fst f)) (receive_all C fs t') =
     [unat (tp_receive_counter t') ..< unat (tp_receive_counter t') + length (receive_all C fs t')]"
proof (intro conjI)
  have "distinct (map (\<lambda>f. unat (fst f)) (send_all C ps t))" by (simp add: send_counters)
  then show "distinct (map (\<lambda>f. tp_nonce (fst f)) (send_all C ps t))"
    by (auto simp: distinct_map inj_on_def word_unat_eq_iff)
qed (rule send_counters receive_counters)+

lemma channel_delivers_aux:
  assumes open_seal: "\<And>k n a p d. gc_seal C k n a p = Some d \<Longrightarrow> gc_open C k n a d = Some p"
    and seals: "\<And>k n a p. gc_seal C k n a p \<noteq> None"
    and "tp_receive b = tp_send t" and "tp_receive_counter b = tp_send_counter t"
    and "tp_request_id b = tp_request_id t" and "unat (tp_send_counter t) + length ps < 2 ^ 64"
  shows "map snd (receive_all C (send_all C ps t) b) = ps"
  using assms(3-)
proof (induction ps arbitrary: t b)
  case (Cons p ps)
  have lt: "unat (tp_send_counter t) < 2 ^ 64 - 1" using Cons.prems(4) by simp
  obtain d where d: "gc_seal C (tp_send t) (tp_nonce (tp_send_counter t)) (str_bytes (tp_request_id t)) p = Some d"
    using seals by blast
  have "encrypt C p t = (t\<lparr>tp_send_counter := tp_send_counter t + 1\<rparr>, Inr (tp_send_counter t, d))"
    using d lt by (simp add: encrypt_def Let_def checked_add1_Some [THEN iffD2])
  moreover have "decrypt C (tp_send_counter t) d b = (b\<lparr>tp_receive_counter := tp_receive_counter b + 1\<rparr>, Inr p)"
    using open_seal [OF d] lt Cons.prems by (simp add: decrypt_def checked_add1_Some [THEN iffD2])
  moreover have "map snd (receive_all C (send_all C ps (t\<lparr>tp_send_counter := tp_send_counter t + 1\<rparr>))
      (b\<lparr>tp_receive_counter := tp_receive_counter b + 1\<rparr>)) = ps"
    using Cons.prems lt by (intro Cons.IH) (simp_all add: unat_Suc64)
  ultimately show ?case by simp
qed simp

text \<open>
  What one end sends, the other receives. If both ends derive their channel from the same manifest, the
  key exchange agrees, and the AEAD opens what it sealed, then fewer than \<open>2^64\<close> messages sent by the
  client arrive at the broker unchanged, complete and in order; the keys of the two directions are swapped
  between the ends.
\<close>

theorem channel_delivers:
  assumes "\<And>k n a p d. gc_seal C k n a p = Some d \<Longrightarrow> gc_open C k n a d = Some p"
    and "\<And>k n a p. gc_seal C k n a p \<noteq> None"
    and agree: "gc_dh C a (gc_dh_public C b) = gc_dh C b (gc_dh_public C a)"
    and cl: "client C a (gc_dh_public C b) manifest rid = Inr tc"
    and br: "broker C b (gc_dh_public C a) manifest rid = Inr tb"
    and "length ps < 2 ^ 64"
  shows "map snd (receive_all C (send_all C ps tc) tb) = ps \<and> map snd (receive_all C (send_all C ps tb) tc) = ps"
proof -
  have "tp_receive tb = tp_send tc \<and> tp_receive tc = tp_send tb \<and> tp_send_counter tc = 0 \<and> tp_send_counter tb = 0 \<and>
    tp_receive_counter tc = 0 \<and> tp_receive_counter tb = 0 \<and> tp_request_id tb = tp_request_id tc"
    using cl br agree by (auto simp: client_def broker_def derive_def result_simps)
  then show ?thesis
    using channel_delivers_aux [of C tb tc ps, OF assms(1,2)] channel_delivers_aux [of C tc tb ps, OF assms(1,2)] assms(6)
    by simp
qed

theorem channel_delivers_witness:
  "\<exists>tc tb. client demo_crypto [1] [2] [] ''r'' = Inr tc \<and> broker demo_crypto [2] [1] [] ''r'' = Inr tb \<and>
     map snd (receive_all demo_crypto (send_all demo_crypto [[5], [6]] tc) tb) = [[5], [6]]"
proof -
  obtain tc tb where t: "client demo_crypto [1] [2] [] ''r'' = Inr tc" "broker demo_crypto [2] [1] [] ''r'' = Inr tb"
    by (simp add: client_def broker_def derive_def demo_crypto_def)
  moreover have "map snd (receive_all demo_crypto (send_all demo_crypto [[5], [6]] tc) tb) = [[5], [6]] \<and>
      map snd (receive_all demo_crypto (send_all demo_crypto [[5], [6]] tb) tc) = [[5], [6]]"
    by (rule channel_delivers [of _ "[1]" "[2]" "[]" "''r''"]) (use t in \<open>simp_all add: demo_crypto_def\<close>)
  ultimately show ?thesis by (intro exI [of _ tc] exI [of _ tb]) simp
qed

end
