(* ===== verification/Config_Guard.thy ===== *)
theory Config_Guard
  imports SF_Prelude
begin

text \<open>
  \<open>agent/src/config.rs\<close>: the agent's own guard on the files the server may read and write. A path is
  normalised lexically and matched against a deny list and an allow list; reads re-check the path with all
  symbolic links resolved, writes re-check the resolved parent directory.

  \<open>std::fs::canonicalize\<close> is the argument \<open>canon\<close>, from a path to its resolved form. Shown: the
  normal form has no way out of the tree and is a fixed point, a file that is read is neither denied nor
  outside the allowed trees however links lie, and the gap that the write check leaves.
\<close>

section \<open>Lists\<close>

definition ALLOW_PREFIXES :: "string list" where
  "ALLOW_PREFIXES = [''/etc/'', ''/opt/'', ''/usr/local/etc/'', ''/srv/'', ''/home/'', ''/var/log/'']"

definition DENY_PREFIXES :: "string list" where
  "DENY_PREFIXES =
     [''/etc/shadow'', ''/etc/gshadow'', ''/etc/sudoers'', ''/etc/ssh/'', ''/etc/letsencrypt/'',
      ''/etc/ssl/private/'', ''/etc/kubernetes/'', ''/etc/shellfleet/agent-token'',
      ''/var/lib/shellfleet-agent/'', ''/root/'', ''/home/.ssh/'', ''/proc/'', ''/sys/'', ''/dev/'']"

definition SECRET_DIRS :: "string list" where
  "SECRET_DIRS = [''.ssh'', ''.aws'', ''.kube'', ''.gnupg'']"

definition denied_path :: "string \<Rightarrow> string option" where
  "denied_path path =
     (case find (\<lambda>denied. starts_with path denied) DENY_PREFIXES of Some denied \<Rightarrow> Some denied
      | None \<Rightarrow>
        (case find (\<lambda>component. component \<in> set SECRET_DIRS) (split_on (CHR ''/'') path) of
           Some component \<Rightarrow> Some (''any '' @ component @ '' directory'')
         | None \<Rightarrow>
             if ''.netrc'' \<in> set (split_on (CHR ''/'') path) then Some ''any .netrc file''
             else if ends_with path ''/.docker/config.json'' then Some ''any .docker/config.json file''
             else None))"

datatype PathError =
    NotAbsolute | BlockedByDenyList string | OutsideAllowList | InvalidUtf8 | Empty | ResolveFailed

section \<open>The lexical check\<close>

fun push_segments :: "string list \<Rightarrow> string list \<Rightarrow> string list" where
  "push_segments stack [] = stack"
| "push_segments stack (seg # segs) =
     (if seg = ''..'' then push_segments (butlast stack) segs else push_segments (stack @ [seg]) segs)"

definition segments :: "string \<Rightarrow> string list" where
  "segments path = filter (\<lambda>s. s \<noteq> [] \<and> s \<noteq> ''.'') (split_on (CHR ''/'') path)"

definition render :: "string list \<Rightarrow> bool \<Rightarrow> string" where
  "render stack trailing_slash =
     ''/'' @ join_with ''/'' stack @ (if trailing_slash \<and> stack \<noteq> [] then ''/'' else [])"

definition allowed :: "string \<Rightarrow> bool" where
  "allowed path \<longleftrightarrow> list_ex (\<lambda>a. starts_with path a) ALLOW_PREFIXES"

definition check :: "string \<Rightarrow> (PathError, string) result" where
  "check path =
     (if path = [] then Inl Empty
      else if \<not> starts_with path ''/'' then Inl NotAbsolute
      else if contains_char path (char_of (0 :: nat)) then Inl InvalidUtf8
      else let s = render (push_segments [] (segments path)) (ends_with path ''/'');
               lower = to_ascii_lowercase s
           in case denied_path lower of Some reason \<Rightarrow> Inl (BlockedByDenyList reason)
              | None \<Rightarrow> if \<not> allowed lower then Inl OutsideAllowList else Inr s)"

section \<open>The checks with links resolved\<close>

definition check_read :: "(string \<Rightarrow> string option) \<Rightarrow> string \<Rightarrow> (PathError, string) result" where
  "check_read canon path =
     try_bind (check path) (\<lambda>lex.
     try_bind (ok_or (canon lex) ResolveFailed) (\<lambda>canonical.
     let canonical_str = to_ascii_lowercase canonical
     in case denied_path canonical_str of
          Some reason \<Rightarrow> Inl (BlockedByDenyList (reason @ '' (resolved from '' @ path @ '')''))
        | None \<Rightarrow> if \<not> allowed canonical_str then Inl OutsideAllowList else Inr canonical))"

text \<open>\<open>Path::parent\<close> and \<open>Path::file_name\<close> of a normalised path.\<close>

definition path_parent :: "string \<Rightarrow> string option" where
  "path_parent p = (if segments p = [] then None else Some (render (butlast (segments p)) False))"

definition path_file_name :: "string \<Rightarrow> string option" where
  "path_file_name p = (if segments p = [] then None else Some (last (segments p)))"

definition check_write :: "(string \<Rightarrow> string option) \<Rightarrow> string \<Rightarrow> (PathError, string \<times> string) result" where
  "check_write canon path =
     try_bind (check path) (\<lambda>lex.
     try_bind (ok_or (path_parent lex) OutsideAllowList) (\<lambda>parent.
     try_bind (ok_or (path_file_name lex) OutsideAllowList) (\<lambda>file_name.
     try_bind (ok_or (canon parent) ResolveFailed) (\<lambda>canonical_parent.
     let lower = to_ascii_lowercase canonical_parent;
         canonical_str = (if ends_with lower ''/'' then lower else lower @ ''/'')
     in case denied_path canonical_str of
          Some reason \<Rightarrow> Inl (BlockedByDenyList (reason @ '' (parent resolved from '' @ path @ '')''))
        | None \<Rightarrow> if \<not> allowed canonical_str then Inl OutsideAllowList
                  else Inr (canonical_parent, file_name)))))"

text \<open>The file that \<open>write_no_follow\<close> opens: \<open>parent.join(file_name)\<close>.\<close>

definition write_target :: "string \<times> string \<Rightarrow> string" where
  "write_target p = (if ends_with (fst p) ''/'' then fst p @ snd p else fst p @ ''/'' @ snd p)"

section \<open>Lemmas\<close>

definition plain :: "string \<Rightarrow> bool" where
  "plain s \<longleftrightarrow> s \<noteq> [] \<and> s \<noteq> ''.'' \<and> s \<noteq> ''..'' \<and> CHR ''/'' \<notin> set s"

lemma segments_ok: "s \<in> set (segments p) \<Longrightarrow> s \<noteq> [] \<and> s \<noteq> ''.'' \<and> CHR ''/'' \<notin> set s"
  using split_on_no_sep by (auto simp: segments_def)

lemma push_segments_plain:
  assumes "\<forall>s\<in>set stack. plain s" and "\<forall>s\<in>set segs. s \<noteq> [] \<and> s \<noteq> ''.'' \<and> CHR ''/'' \<notin> set s"
  shows "\<forall>s\<in>set (push_segments stack segs). plain s"
  using assms
proof (induction segs arbitrary: stack)
  case (Cons seg segs)
  show ?case
  proof (cases "seg = ''..''")
    case True
    then show ?thesis using Cons.IH [of "butlast stack"] Cons.prems in_set_butlastD by fastforce
  next
    case False
    then have "plain seg" using Cons.prems(2) by (simp add: plain_def)
    then have "\<forall>s\<in>set (stack @ [seg]). plain s" using Cons.prems(1) by auto
    moreover have "\<forall>s\<in>set segs. s \<noteq> [] \<and> s \<noteq> ''.'' \<and> CHR ''/'' \<notin> set s" using Cons.prems(2) by (meson list.set_intros(2))
    ultimately have "\<forall>s\<in>set (push_segments (stack @ [seg]) segs). plain s" by (rule Cons.IH)
    then show ?thesis using False by (simp only: push_segments.simps if_False)
  qed
qed simp

lemma push_segments_id: "\<forall>s\<in>set segs. plain s \<Longrightarrow> push_segments stack segs = stack @ segs"
proof (induction segs arbitrary: stack)
  case (Cons seg segs)
  then have "seg \<noteq> ''..''" by (simp add: plain_def)
  then show ?case using Cons by simp
qed simp

lemma split_on_subset: "x \<in> set (split_on c s) \<Longrightarrow> set x \<subseteq> set s"
proof (induction s arbitrary: x)
  case (Cons a s)
  obtain y ys where y: "split_on c s = y # ys" by (cases "split_on c s") auto
  have "set y \<subseteq> set s" using Cons.IH [of y] y by simp
  then show ?case using Cons y by (fastforce split: if_splits)
qed simp

lemma push_segments_subset: "set (push_segments stack segs) \<subseteq> set stack \<union> set segs"
  by (induction stack segs rule: push_segments.induct) (auto dest: in_set_butlastD)

lemma join_subset: "set (join_with sep ss) \<subseteq> set sep \<union> (\<Union>x\<in>set ss. set x)"
  by (induction sep ss rule: join_with.induct) auto

lemma normal_chars: "set (render (push_segments [] (segments path)) b) \<subseteq> insert (CHR ''/'') (set path)"
proof -
  have "(\<Union>x\<in>set (push_segments [] (segments path)). set x) \<subseteq> set path"
    using push_segments_subset [of "[]" "segments path"] split_on_subset by (fastforce simp: segments_def)
  then show ?thesis
    using join_subset [of "''/''" "push_segments [] (segments path)"] by (fastforce simp: render_def)
qed

lemma ascii_lower_slash: "ascii_lower c = CHR ''/'' \<longleftrightarrow> c = CHR ''/''"
  by (auto simp: ascii_lower_def Let_def split: if_splits dest!: arg_cong [of _ _ "of_char :: char \<Rightarrow> nat"])

lemma split_render:
  assumes "\<forall>s\<in>set stack. plain s"
  shows "split_on (CHR ''/'') (render stack b) =
    (if stack = [] then [[], []] else [[]] @ stack @ (if b then [[]] else []))"
proof (cases "stack = []")
  case False
  have "split_on (CHR ''/'') (join_with ''/'' stack) = stack"
    using split_on_join [OF False, of "CHR ''/''"] assms by (simp add: plain_def)
  then show ?thesis
    using False split_on_append_sep [of "CHR ''/''" "join_with ''/'' stack" "[]"] by (simp add: render_def)
qed (simp add: render_def)

lemma segments_render: "\<forall>s\<in>set stack. plain s \<Longrightarrow> segments (render stack b) = stack"
  by (simp add: segments_def split_render) (auto simp: plain_def filter_id_conv)

lemma join_last: "stack \<noteq> [] \<Longrightarrow> last stack \<noteq> [] \<Longrightarrow> join_with sep stack \<noteq> [] \<and> last (join_with sep stack) = last (last stack)"
  by (induction sep stack rule: join_with.induct) auto

lemma ends_with_slash: "ends_with s ''/'' \<longleftrightarrow> s \<noteq> [] \<and> last s = CHR ''/''"
  by (cases s rule: rev_cases) (auto simp: ends_with_def starts_with_def)

lemma render_trailing:
  assumes "\<forall>s\<in>set stack. plain s" and "stack \<noteq> []"
  shows "ends_with (render stack b) ''/'' \<longleftrightarrow> b"
proof -
  have "plain (last stack)" using assms by simp
  then have ne: "last stack \<noteq> []" and "CHR ''/'' \<notin> set (last stack)" by (auto simp: plain_def)
  then have "last (last stack) \<noteq> CHR ''/''" by (metis last_in_set)
  then show ?thesis
    using join_last [OF assms(2) ne, of "''/''"] assms(2) by (auto simp: ends_with_slash render_def)
qed

lemma check_Inr:
  assumes "check path = Inr s"
  shows "\<exists>stack. stack = push_segments [] (segments path) \<and> (\<forall>x\<in>set stack. plain x) \<and>
    s = render stack (ends_with path ''/'') \<and> denied_path (to_ascii_lowercase s) = None \<and>
    allowed (to_ascii_lowercase s)"
proof -
  have "\<forall>x\<in>set (push_segments [] (segments path)). plain x"
    by (rule push_segments_plain) (auto dest: segments_ok)
  then show ?thesis
    using assms by (auto simp: check_def Let_def split: if_splits option.splits)
qed

lemma not_denied:
  assumes "denied_path p = None"
  shows "(\<forall>d\<in>set DENY_PREFIXES. \<not> starts_with p d) \<and>
    (\<forall>c\<in>set (split_on (CHR ''/'') p). c \<notin> {''.ssh'', ''.aws'', ''.kube'', ''.gnupg'', ''.netrc''})"
  using assms by (auto simp: denied_path_def SECRET_DIRS_def find_None_iff split: option.splits if_splits)

section \<open>Properties\<close>

text \<open>
  Normalisation. An accepted path is normalised to an absolute path whose components are all proper
  names (never empty, \<open>.\<close> or \<open>..\<close>), under one of the allowed trees and outside every denied one; and
  checking the normal form again accepts it and returns it unchanged.
\<close>

theorem check_normalises:
  assumes "check path = Inr s"
  shows "starts_with s ''/'' \<and> (\<forall>x\<in>set (segments s). x \<noteq> [] \<and> x \<noteq> ''.'' \<and> x \<noteq> ''..'') \<and>
    (\<exists>a\<in>set ALLOW_PREFIXES. starts_with (to_ascii_lowercase s) a) \<and>
    (\<forall>d\<in>set DENY_PREFIXES. \<not> starts_with (to_ascii_lowercase s) d) \<and>
    check s = Inr s"
proof -
  obtain stack where st: "\<forall>x\<in>set stack. plain x" and s: "s = render stack (ends_with path ''/'')"
    and stack: "stack = push_segments [] (segments path)"
    and ok: "denied_path (to_ascii_lowercase s) = None" "allowed (to_ascii_lowercase s)"
    using check_Inr [OF assms] by blast
  have segs: "segments s = stack" using segments_render [OF st] s by simp
  have abs: "starts_with s ''/''" and "s \<noteq> []" by (simp_all add: s render_def starts_with_def)
  have "stack \<noteq> []"
  proof
    assume "stack = []"
    then have "to_ascii_lowercase s = ''/''" by (simp add: s render_def to_ascii_lowercase_def ascii_lower_def)
    then show False using ok(2) by (simp add: allowed_def ALLOW_PREFIXES_def starts_with_def)
  qed
  then have "render (push_segments [] (segments s)) (ends_with s ''/'') = s"
    using st segs render_trailing [OF st] by (simp add: push_segments_id s)
  moreover have "\<not> contains_char s (char_of (0 :: nat))"
  proof -
    have "\<not> contains_char path (char_of (0 :: nat))" using assms by (auto simp: check_def split: if_splits)
    moreover have "char_of (0 :: nat) \<noteq> CHR ''/''" by code_simp
    ultimately show ?thesis
      using normal_chars [of path "ends_with path ''/''"] by (auto simp: contains_char_def s stack)
  qed
  ultimately have "check s = Inr s"
    using abs \<open>s \<noteq> []\<close> ok by (simp add: check_def Let_def)
  then show ?thesis
    using abs st segs not_denied [OF ok(1)] ok(2) by (auto simp: plain_def allowed_def list_ex_iff)
qed

theorem check_normalises_witness:
  "check ''/opt/a/./b/../c'' = Inr ''/opt/a/c'' \<and> check ''/opt/a/c'' = Inr ''/opt/a/c''"
proof -
  have c: "check ''/opt/a/./b/../c'' = Inr ''/opt/a/c''" by code_simp
  then show ?thesis using check_normalises [OF c] by blast
qed

text \<open>
  What can be read. Whatever path the server names and wherever symbolic links point, if \<open>check_read\<close>
  yields a file then, compared without case, the resolved file lies in an allowed tree, is no password,
  sudo, SSH, TLS, Kubernetes, agent-token or pseudo-file-system path, and has no component named
  \<open>.ssh\<close>, \<open>.aws\<close>, \<open>.kube\<close>, \<open>.gnupg\<close> or \<open>.netrc\<close>; the path as spelled satisfies the same.
\<close>

theorem check_read_never_serves_secrets:
  assumes "check_read canon path = Inr c"
  shows "\<exists>s. check path = Inr s \<and> canon s = Some c \<and>
    (\<forall>p\<in>{to_ascii_lowercase c, to_ascii_lowercase s}.
       (\<exists>a\<in>set ALLOW_PREFIXES. starts_with p a) \<and> (\<forall>d\<in>set DENY_PREFIXES. \<not> starts_with p d) \<and>
       (\<forall>x\<in>set (split_on (CHR ''/'') p). x \<notin> {''.ssh'', ''.aws'', ''.kube'', ''.gnupg'', ''.netrc''}))"
proof -
  obtain s where s: "check path = Inr s" "canon s = Some c"
    and c: "denied_path (to_ascii_lowercase c) = None" "allowed (to_ascii_lowercase c)"
    using assms by (auto simp: check_read_def result_simps Let_def split: option.splits if_splits)
  then show ?thesis
    using not_denied [OF c(1)] check_Inr [OF s(1)] not_denied [of "to_ascii_lowercase s"]
    by (auto simp: allowed_def list_ex_iff)
qed

lemma demo_link:
  "check ''/opt/link'' = Inr ''/opt/link''" "to_ascii_lowercase ''/etc/hosts'' = ''/etc/hosts''"
  "denied_path ''/etc/hosts'' = None" "allowed ''/etc/hosts''"
  subgoal by code_simp
  subgoal by code_simp
  subgoal by code_simp
  subgoal by code_simp
  done

lemma demo_link_read: "canon ''/opt/link'' = Some ''/etc/hosts'' \<Longrightarrow> check_read canon ''/opt/link'' = Inr ''/etc/hosts''"
  unfolding check_read_def demo_link try_bind_def sum.case ok_or_def Let_def by (simp only: option.case demo_link sum.case Let_def not_True_eq_False if_False)

theorem check_read_never_serves_secrets_witness:
  "check_read (\<lambda>p. Some ''/etc/hosts'') ''/opt/link'' = Inr ''/etc/hosts'' \<and>
   \<not> starts_with ''/etc/hosts'' ''/etc/shadow''"
proof -
  have c: "check_read (\<lambda>p. Some ''/etc/hosts'') ''/opt/link'' = Inr ''/etc/hosts''" by (rule demo_link_read) (rule refl)
  note l = demo_link(2)
  from check_read_never_serves_secrets [OF c] have "\<not> starts_with ''/etc/hosts'' ''/etc/shadow''"
    by (auto simp: l DENY_PREFIXES_def)
  with c show ?thesis by blast
qed

text \<open>
  What the write check guarantees, and what it does not. The resolved parent directory is in an allowed
  tree and not below a denied one. But the file name is never matched again once the parent is resolved:
  with a link \<open>/opt/link\<close> to \<open>/etc\<close>, writing \<open>/opt/link/shadow\<close> is accepted and opens
  \<open>/etc/shadow\<close>, which the deny list names.
\<close>

theorem check_write_checks_only_the_parent:
  "(\<forall>canon path p f. check_write canon path = Inr (p, f) \<longrightarrow>
      denied_path (to_ascii_lowercase (if ends_with p ''/'' then p else p @ ''/'')) = None \<and>
      allowed (to_ascii_lowercase (if ends_with p ''/'' then p else p @ ''/''))) \<and>
   (\<exists>canon path t. check_write canon path = Inr t \<and> write_target t = ''/etc/shadow'' \<and>
      denied_path (write_target t) \<noteq> None)"
proof (intro conjI allI impI)
  have low: "ends_with (to_ascii_lowercase p) ''/'' = ends_with p ''/''" for p
    by (cases p rule: rev_cases)
      (auto simp: ends_with_slash to_ascii_lowercase_def ascii_lower_slash)
  have lowslash: "to_ascii_lowercase (p @ ''/'') = to_ascii_lowercase p @ ''/''" for p
    by (simp add: to_ascii_lowercase_def ascii_lower_def)
  show "denied_path (to_ascii_lowercase (if ends_with p ''/'' then p else p @ ''/'')) = None"
    "allowed (to_ascii_lowercase (if ends_with p ''/'' then p else p @ ''/''))"
    if "check_write canon path = Inr (p, f)" for canon path p f
    using that lowslash [of p]
    by (auto simp: check_write_def result_simps Let_def low split: option.splits if_splits)
  have "check_write (\<lambda>p. if p = ''/opt/link'' then Some ''/etc'' else Some p) ''/opt/link/shadow'' =
      Inr (''/etc'', ''shadow'')" by code_simp
  moreover have "write_target (''/etc'', ''shadow'') = ''/etc/shadow''" "denied_path ''/etc/shadow'' \<noteq> None"
    by code_simp+
  ultimately show "\<exists>canon path t. check_write canon path = Inr t \<and> write_target t = ''/etc/shadow'' \<and>
      denied_path (write_target t) \<noteq> None" by (intro exI conjI) (assumption, simp_all only: not_False_eq_True)
qed

theorem check_write_checks_only_the_parent_witness:
  "check_write Some ''/opt/app/x.conf'' = Inr (''/opt/app'', ''x.conf'') \<and>
   allowed (to_ascii_lowercase ''/opt/app/'')"
proof -
  have c: "check_write Some ''/opt/app/x.conf'' = Inr (''/opt/app'', ''x.conf'')" by code_simp
  have e: "(if ends_with ''/opt/app'' ''/'' then ''/opt/app'' else ''/opt/app'' @ ''/'') = ''/opt/app/''" by code_simp
  have "allowed (to_ascii_lowercase (if ends_with ''/opt/app'' ''/'' then ''/opt/app'' else ''/opt/app'' @ ''/''))"
    using check_write_checks_only_the_parent c by blast
  with c show ?thesis by (simp only: e simp_thms)
qed

end
