(* ===== verification/Utf8_Text.thy ===== *)
theory Utf8_Text
  imports SF_Prelude
begin

text \<open>
  UTF-8 text as the agent handles it. A \<open>string\<close> of the model is the byte string of a Rust \<open>String\<close>; here are
  \<open>String::from_utf8_lossy\<close>, \<open>chars\<close>, \<open>char::is_whitespace\<close>, \<open>str::trim\<close> and \<open>is_char_boundary\<close>, and the three
  functions of the agent that keep only the tail of a command's output: \<open>truncate_log\<close> (\<open>apt.rs\<close>),
  \<open>combine_stdout_stderr\<close> (\<open>docker.rs\<close>) and \<open>truncate\<close> (\<open>backup.rs\<close>). Slicing a string inside a character
  panics: that is the result \<open>None\<close>.
\<close>

section \<open>Decoding\<close>

definition is_cont :: "char \<Rightarrow> bool" where
  "is_cont c \<longleftrightarrow> 128 \<le> (of_char c :: nat) \<and> (of_char c :: nat) \<le> 191"

text \<open>The bytes allowed after a lead byte \<open>b\<close> (no overlong forms, surrogates or values beyond the last plane).\<close>

definition second_ok :: "nat \<Rightarrow> char \<Rightarrow> bool" where
  "second_ok b c \<longleftrightarrow>
     (let n = (of_char c :: nat)
      in if b = 224 then 160 \<le> n \<and> n \<le> 191 else if b = 237 then 128 \<le> n \<and> n \<le> 159
         else if b = 240 then 144 \<le> n \<and> n \<le> 191 else if b = 244 then 128 \<le> n \<and> n \<le> 143
         else 128 \<le> n \<and> n \<le> 191)"

text \<open>How many of the bytes \<open>cs\<close> continue the lead byte \<open>b\<close>, of the \<open>k\<close> it wants.\<close>

fun follow :: "nat \<Rightarrow> string \<Rightarrow> nat" where
  "follow k [] = 0"
| "follow 0 cs = 0"
| "follow (Suc k) (c # cs) = (if is_cont c then Suc (follow k cs) else 0)"

definition wanted :: "nat \<Rightarrow> nat option" where
  "wanted b =
     (if b < 128 then Some 0 else if 194 \<le> b \<and> b \<le> 223 then Some 1 else if 224 \<le> b \<and> b \<le> 239 then Some 2
      else if 240 \<le> b \<and> b \<le> 244 then Some 3 else None)"

text \<open>The first character, or the first maximal invalid sequence: its length and whether it is valid.\<close>

definition utf8_step :: "char \<Rightarrow> string \<Rightarrow> nat \<times> bool" where
  "utf8_step c cs =
     (case wanted (of_char c) of
        None \<Rightarrow> (1, False)
      | Some k \<Rightarrow>
          if k = 0 then (1, True)
          else if cs = [] \<or> \<not> second_ok (of_char c) (hd cs) then (1, False)
          else (let n = follow (k - 1) (tl cs) in (n + 2, n = k - 1)))"

definition REPLACEMENT :: string where
  "REPLACEMENT = [char_of (239 :: nat), char_of (191 :: nat), char_of (189 :: nat)]"

lemma utf8_step_pos: "utf8_step c cs = (n, ok) \<Longrightarrow> 0 < n"
  by (auto simp: utf8_step_def Let_def split: option.splits if_splits)

function from_utf8_lossy :: "string \<Rightarrow> string" where
  "from_utf8_lossy [] = []"
| "from_utf8_lossy (c # cs) =
     (case utf8_step c cs of (n, ok) \<Rightarrow>
        (if ok then take n (c # cs) else REPLACEMENT) @ from_utf8_lossy (drop n (c # cs)))"
  by pat_completeness auto
termination
  by (relation "measure length") (auto dest: utf8_step_pos [OF sym])

text \<open>\<open>chars\<close>: each character as the bytes that encode it.\<close>

function chars :: "string \<Rightarrow> string list" where
  "chars [] = []"
| "chars (c # cs) = (case utf8_step c cs of (n, _) \<Rightarrow> take n (c # cs) # chars (drop n (c # cs)))"
  by pat_completeness auto
termination
  by (relation "measure length") (auto dest: utf8_step_pos [OF sym])

function valid_utf8 :: "string \<Rightarrow> bool" where
  "valid_utf8 [] = True"
| "valid_utf8 (c # cs) = (case utf8_step c cs of (n, ok) \<Rightarrow> ok \<and> valid_utf8 (drop n (c # cs)))"
  by pat_completeness auto
termination
  by (relation "measure length") (auto dest: utf8_step_pos [OF sym])

section \<open>White space\<close>

definition WHITE_SPACE :: "nat list list" where
  "WHITE_SPACE =
     [[9], [10], [11], [12], [13], [32], [194, 133], [194, 160], [225, 154, 128]] @
     map (\<lambda>n. [226, 128, n]) ([128 ..< 139] @ [168, 169, 175]) @ [[226, 129, 159], [227, 128, 128]]"

definition is_whitespace :: "string \<Rightarrow> bool" where
  "is_whitespace ch \<longleftrightarrow> map of_char ch \<in> set WHITE_SPACE"

definition trim_ws :: "string \<Rightarrow> string" where
  "trim_ws s = concat (rev (dropWhile is_whitespace (rev (dropWhile is_whitespace (chars s)))))"

section \<open>Keeping the tail\<close>

definition is_char_boundary :: "string \<Rightarrow> nat \<Rightarrow> bool" where
  "is_char_boundary s i \<longleftrightarrow> i = 0 \<or> i = length s \<or> (i < length s \<and> \<not> is_cont (s ! i))"

definition ELLIPSIS :: string where
  "ELLIPSIS = [char_of (226 :: nat), char_of (128 :: nat), char_of (166 :: nat)]"

definition truncated_head :: "nat \<Rightarrow> string" where
  "truncated_head k = ELLIPSIS @ ''['' @ nat_to_dec k @ '' bytes truncated]'' @ ELLIPSIS @ [char_of (10 :: nat)]"

definition keep_tail :: "nat \<Rightarrow> string \<Rightarrow> string option" where
  "keep_tail limit s =
     (if length s \<le> limit then Some s
      else (let k = length s - limit
            in if is_char_boundary s k then Some (truncated_head k @ drop k s) else None))"

text \<open>\<open>backup::truncate\<close>, \<open>apt::truncate_log\<close> and \<open>docker::combine_stdout_stderr\<close>.\<close>

definition LOG_CAP :: nat where "LOG_CAP = 8000"
definition APT_LOG_CAP :: nat where "APT_LOG_CAP = 16000"

definition truncate :: "string \<Rightarrow> nat \<Rightarrow> string option" where
  "truncate s cap = keep_tail cap s"

definition truncate_log :: "string \<Rightarrow> nat \<Rightarrow> string option" where
  "truncate_log buf limit = keep_tail limit (from_utf8_lossy buf)"

definition combine_stdout_stderr :: "string \<Rightarrow> string \<Rightarrow> string option" where
  "combine_stdout_stderr stdout stderr =
     (let s = (if stdout = [] then [] else from_utf8_lossy stdout);
          s1 = (if stderr = [] then s
                else (if s = [] then [] else s @ [char_of (10 :: nat)] @ ''--- stderr ---'' @ [char_of (10 :: nat)]) @ from_utf8_lossy stderr)
      in keep_tail 8000 s1)"

section \<open>Lemmas\<close>

lemma follow_0 [simp]: "follow 0 cs = 0"
  by (cases cs) simp_all

lemma follow_append: "follow k cs = k \<Longrightarrow> follow k (cs @ t) = k"
  by (induction k cs rule: follow.induct) (auto split: if_splits)

lemma follow_le: "follow k cs \<le> k" "follow k cs \<le> length cs"
  by (induction k cs rule: follow.induct) auto

lemma follow_take: "follow k cs = k \<Longrightarrow> follow k (take k cs @ t) = k"
  by (induction k cs rule: follow.induct) (auto split: if_splits)

lemma utf8_step_le: "utf8_step c cs = (n, ok) \<Longrightarrow> n \<le> Suc (length cs)"
  using follow_le(2) [of "the (wanted (of_char c)) - 1" "tl cs"]
  by (cases cs) (auto simp: utf8_step_def Let_def split: option.splits if_splits)

text \<open>A valid character stays one, whatever follows it.\<close>

lemma utf8_step_take:
  assumes "utf8_step c cs = (n, True)"
  shows "utf8_step c (take (n - 1) cs @ t) = (n, True)"
proof -
  obtain k where k: "wanted (of_char c) = Some k" using assms by (auto simp: utf8_step_def split: option.splits)
  show ?thesis
  proof (cases "k = 0")
    case False
    then have cs: "cs \<noteq> []" "second_ok (of_char c) (hd cs)" "follow (k - 1) (tl cs) = k - 1" "n = k + 1"
      using assms k by (auto simp: utf8_step_def Let_def split: if_splits)
    then have "take (n - 1) cs @ t = hd cs # take (k - 1) (tl cs) @ t" using False by (cases cs; cases k) auto
    then show ?thesis using False cs k follow_take [OF cs(3)] by (simp add: utf8_step_def Let_def)
  qed (use assms k in \<open>simp add: utf8_step_def\<close>)
qed

lemma take_step: "utf8_step c cs = (n, ok) \<Longrightarrow> take n (c # cs) = c # take (n - 1) cs"
  by (cases n) (auto dest: utf8_step_pos)

lemma valid_take: "utf8_step c cs = (n, True) \<Longrightarrow> valid_utf8 t \<Longrightarrow> valid_utf8 (take n (c # cs) @ t)"
  using utf8_step_le [of c cs n True] utf8_step_pos [of c cs n True] utf8_step_take [of c cs n t]
  by (simp add: take_step min_absorb2 drop_Cons')

lemma valid_replacement: "valid_utf8 t \<Longrightarrow> valid_utf8 (REPLACEMENT @ t)"
  by (simp add: REPLACEMENT_def utf8_step_def wanted_def second_ok_def is_cont_def)

lemma lossy_valid: "valid_utf8 (from_utf8_lossy s)"
proof (induction s rule: from_utf8_lossy.induct)
  case (2 c cs)
  obtain n ok where st: "utf8_step c cs = (n, ok)" by fastforce
  then show ?case using 2 [OF st [symmetric]] valid_take [of c cs n] valid_replacement by (cases ok) simp_all
qed simp

lemma lossy_id: "valid_utf8 s \<Longrightarrow> from_utf8_lossy s = s"
proof (induction s rule: from_utf8_lossy.induct)
  case (2 c cs)
  obtain n ok where st: "utf8_step c cs = (n, ok)" by fastforce
  show ?case using 2 st append_take_drop_id [of n "c # cs"] by simp
qed simp

lemma chars_concat: "concat (chars s) = s"
proof (induction s rule: chars.induct)
  case (2 c cs)
  obtain n ok where st: "utf8_step c cs = (n, ok)" by fastforce
  show ?case using 2 [OF st [symmetric]] append_take_drop_id [of n "c # cs"] by (simp add: st)
qed simp

lemma valid_append: "valid_utf8 s \<Longrightarrow> valid_utf8 t \<Longrightarrow> valid_utf8 (s @ t)"
proof (induction s rule: valid_utf8.induct)
  case (2 c cs)
  obtain n ok where st: "utf8_step c cs = (n, ok)" by fastforce
  with 2 have ok: "ok" "valid_utf8 (drop n (c # cs) @ t)" by auto
  have "(c # cs) @ t = take n (c # cs) @ drop n (c # cs) @ t" by simp
  then show ?case using valid_take [of c cs n, OF _ ok(2)] st ok(1) by (metis append.assoc append_take_drop_id)
qed simp

lemma keep_tail_None:
  "keep_tail limit s = None \<longleftrightarrow> 0 < limit \<and> limit < length s \<and> is_cont (s ! (length s - limit))"
  by (auto simp: keep_tail_def Let_def is_char_boundary_def)

definition E_ACUTE :: string where "E_ACUTE = [char_of (195 :: nat), char_of (169 :: nat)]"

definition accents :: "nat \<Rightarrow> string" where "accents n = concat (replicate n E_ACUTE)"

lemma accents_nth: "i < n \<Longrightarrow> accents n ! (2 * i + 1) = char_of (169 :: nat)"
proof (induction n arbitrary: i)
  case (Suc n)
  show ?case
  proof (cases i)
    case 0
    then show ?thesis by (simp add: accents_def E_ACUTE_def)
  next
    case (Suc j)
    then have "accents (Suc n) ! (2 * i + 1) = accents n ! (2 * j + 1)" by (simp add: accents_def E_ACUTE_def)
    then show ?thesis using Suc.IH [of j] Suc Suc.prems by simp
  qed
qed simp

lemma accents_facts: "length (accents n) = 2 * n" "valid_utf8 (accents n)"
proof -
  show "length (accents n) = 2 * n" by (induction n) (simp_all add: accents_def E_ACUTE_def)
  have "valid_utf8 E_ACUTE" by (simp add: E_ACUTE_def utf8_step_def wanted_def second_ok_def)
  then show "valid_utf8 (accents n)" by (induction n) (simp_all add: accents_def valid_append)
qed

text \<open>
  Keeping the tail of an output can panic. An output of plain ASCII is cut without trouble, to the limit and a
  header. But the cut is at a byte: for every even limit there is a valid text (accented letters and one plain
  one) on which the log truncation of the package and backup operations, and at its limit the one of the docker
  operations, slices inside a character, which aborts the task that should have answered.
\<close>
theorem log_truncation_panics_inside_a_character:
  assumes "even limit" and "0 < limit"
  shows "(\<forall>s. list_all (\<lambda>c. (of_char c :: nat) < 128) s \<longrightarrow> truncate s limit \<noteq> None) \<and>
    valid_utf8 (accents limit @ ''a'') \<and> truncate (accents limit @ ''a'') limit = None \<and>
    truncate_log (accents limit @ ''a'') limit = None \<and>
    (limit = 8000 \<longrightarrow> combine_stdout_stderr (accents limit @ ''a'') [] = None)"
proof -
  let ?s = "accents limit @ ''a''"
  obtain i where i: "limit = 2 * i" "0 < i" using assms by (auto elim!: evenE)
  have v: "valid_utf8 ?s" by (rule valid_append) (simp_all add: accents_facts utf8_step_def wanted_def)
  have "?s ! (length ?s - limit) = accents limit ! (2 * i + 1)" using i by (simp add: accents_facts nth_append)
  then have none: "keep_tail limit ?s = None" using accents_nth [of i limit] i by (simp add: keep_tail_None accents_facts is_cont_def)
  have "keep_tail limit s \<noteq> None" if "list_all (\<lambda>c. (of_char c :: nat) < 128) s" for s
  proof
    assume n: "keep_tail limit s = None"
    then have "s ! (length s - limit) \<in> set s" by (intro nth_mem) (auto simp: keep_tail_None)
    with that n show False by (auto simp: keep_tail_None list_all_iff is_cont_def)
  qed
  then show ?thesis using v none lossy_id [OF v]
    by (auto simp: truncate_def truncate_log_def combine_stdout_stderr_def Let_def)
qed

theorem log_truncation_panics_inside_a_character_witness:
  "even (8000 :: nat) \<and> combine_stdout_stderr (accents 8000 @ ''a'') [] = None \<and> truncate_log (accents 4000 @ ''a'') 4000 = None"
  using log_truncation_panics_inside_a_character [of 8000] log_truncation_panics_inside_a_character [of 4000] by simp

end
