(* ===== verification/Ui_Hub.thy ===== *)
theory Ui_Hub
  imports Operation_Routing Session_Auth Throttle
begin

text \<open>
  The operator side of \<open>server/src/main.rs\<close>: registration of UI clients over WebSocket and over HTTP
  long polling, the agent-access cache fed by the EE sidecar, and \<open>process_ui_messages\<close>, the sequence of
  gates every operator command passes before it reaches an agent's channel. The recording tap of
  \<open>ee_recording.rs\<close> is included.

  The shared state is the record \<open>hub\<close>: live agents, UI clients, operation owners, the account tables,
  the recorder, and what was sent on the channels. A processing step is atomic. What the step reads of the
  outside (environment, clock, database faults, the sidecar's answers, serialisation, the iteration order of
  hash maps) is the record \<open>world\<close>.
\<close>

section \<open>State\<close>

datatype AgentAccess = Unrestricted | Restricted "string set"

record AgentEntry =
  ae_tx :: nat
  ae_capabilities :: "string list"

record UiClient =
  uc_login :: string
  uc_client_ip :: string
  uc_agent_access :: AgentAccess
  uc_http_receiver :: bool
  uc_http_token :: "string option"
  uc_last_seen :: nat

text \<open>
  The task that runs \<open>process_ui_messages\<close> for a client: its arguments, the terminal sessions it opened,
  and the commands waiting in its channel.
\<close>

record ui_task =
  ut_login :: string
  ut_token_iat :: int
  ut_client_ip :: string
  ut_rec_sessions :: "string set"
  ut_commands :: "UiMessage list"

text \<open>
  A client's channels are known by its id. \<open>h_receiving\<close> holds the ids whose outbound receiver still exists,
  \<open>h_sockets\<close> those with an open WebSocket. An agent's channel is the number in its entry.
\<close>

record hub =
  h_agents :: "string \<rightharpoonup> AgentEntry"
  h_clients :: "client_id \<rightharpoonup> UiClient"
  h_tasks :: "client_id \<rightharpoonup> ui_task"
  h_sockets :: "client_id set"
  h_owners :: OperationOwners
  h_next_client :: u64
  h_users :: auth_db
  h_recording :: "string set"
  h_frames :: "(string \<times> string \<times> byte list) list"
  h_receiving :: "client_id set"
  h_ui_out :: "(client_id \<times> UiMessage) list"
  h_agent_out :: "(nat \<times> Message) list"

text \<open>An answer of the sidecar: no answer, a status other than success, or a body that may not parse.\<close>

datatype 'a reply = Unreachable | Refused | Answered "'a option"

record ee_sidecar =
  ee_user_agents :: "string \<Rightarrow> string \<Rightarrow> string list \<Rightarrow> AgentAccess reply"
  ee_approvals :: "string \<Rightarrow> string \<Rightarrow> string \<Rightarrow> string \<Rightarrow> (bool option \<times> int option) reply"
  ee_evaluate :: "string \<Rightarrow> string \<Rightarrow> string \<Rightarrow> string option \<Rightarrow> bool option reply"

record world =
  w_env :: env
  w_now :: int
  w_flt :: fault
  w_ee :: ee_sidecar
  w_tag :: "Message \<Rightarrow> string"
  w_json :: "Message \<Rightarrow> string"
  w_agents_iter :: "string set \<Rightarrow> string list"
  w_clients_iter :: "client_id set \<Rightarrow> client_id list"

definition w_secs :: "world \<Rightarrow> nat" where
  "w_secs W = nat (max (w_now W) 0)"

section \<open>Channels\<close>

definition send_ui :: "client_id \<Rightarrow> UiMessage \<Rightarrow> hub \<Rightarrow> hub \<times> bool" where
  "send_ui c m s = (if c \<in> h_receiving s then (s\<lparr>h_ui_out := h_ui_out s @ [(c, m)]\<rparr>, True) else (s, False))"

definition send_agent :: "nat \<Rightarrow> Message \<Rightarrow> hub \<Rightarrow> hub" where
  "send_agent tx m s = s\<lparr>h_agent_out := h_agent_out s @ [(tx, m)]\<rparr>"

definition audit_hub ::
    "world \<Rightarrow> string option \<Rightarrow> string option \<Rightarrow> string \<Rightarrow> bool \<Rightarrow> string option \<Rightarrow> hub \<Rightarrow> hub" where
  "audit_hub W actor agent_id kind ok detail s =
     s\<lparr>h_users := record_audit (w_flt W) (w_now W) actor agent_id kind ok detail (h_users s)\<rparr>"

section \<open>The EE sidecar\<close>

definition ee_sidecar_url :: "env \<Rightarrow> string option" where
  "ee_sidecar_url env = (case env ''EE_SIDECAR_URL'' of Some s \<Rightarrow> if s = [] then None else Some s | None \<Rightarrow> None)"

definition ee_active :: "env \<Rightarrow> bool" where
  "ee_active env \<longleftrightarrow> ee_sidecar_url env \<noteq> None"

definition ee_fetch_agent_access :: "world \<Rightarrow> string \<Rightarrow> string \<Rightarrow> string list \<Rightarrow> AgentAccess" where
  "ee_fetch_agent_access W login client_ip agents =
     (if ee_sidecar_url (w_env W) = None then Unrestricted
      else case ee_user_agents (w_ee W) login client_ip agents of
             Answered (Some access) \<Rightarrow> access
           | _ \<Rightarrow> Restricted {})"

text \<open>\<open>matches!(get_user(..), Ok(Some(row)) if row.role == "admin")\<close>, at a named statement.\<close>

definition row_is_admin :: "world \<Rightarrow> string \<Rightarrow> auth_db \<Rightarrow> string \<Rightarrow> bool" where
  "row_is_admin W st d login =
     (case get_user (site st (w_flt W)) d login of Inr (Some row) \<Rightarrow> u_role row = ''admin'' | _ \<Rightarrow> False)"

definition ui_agent_access :: "world \<Rightarrow> hub \<Rightarrow> string \<Rightarrow> string \<Rightarrow> string list \<Rightarrow> AgentAccess" where
  "ui_agent_access W s login client_ip agents =
     (if row_is_admin W ''access'' (h_users s) login then Unrestricted
      else ee_fetch_agent_access W login client_ip agents)"

definition agent_allowed_by_access :: "string \<Rightarrow> AgentAccess \<Rightarrow> bool" where
  "agent_allowed_by_access agent access =
     (case access of Unrestricted \<Rightarrow> True | Restricted allowed \<Rightarrow> agent \<in> allowed)"

definition merge_exact_agent_access :: "AgentAccess \<Rightarrow> string \<Rightarrow> AgentAccess \<Rightarrow> AgentAccess" where
  "merge_exact_agent_access cached agent exact =
     (case exact of Unrestricted \<Rightarrow> Unrestricted
      | Restricted allowed_agents \<Rightarrow>
          (case cached of
             Unrestricted \<Rightarrow> Restricted (if agent \<in> allowed_agents then {agent} else {})
           | Restricted old \<Rightarrow> Restricted (if agent \<in> allowed_agents then insert agent old else old - {agent})))"

definition ee_check_approval :: "world \<Rightarrow> string \<Rightarrow> string \<Rightarrow> string \<Rightarrow> string \<Rightarrow> (unit, int option) result" where
  "ee_check_approval W login action agent_id payload =
     (if ee_sidecar_url (w_env W) = None then Inr None
      else case ee_approvals (w_ee W) login action agent_id payload of
             Answered data \<Rightarrow>
               (let (requires, request_id) = (case data of Some d \<Rightarrow> d | None \<Rightarrow> (None, None))
                in if requires = Some True
                   then Inr (Some (case request_id of Some i \<Rightarrow> i | None \<Rightarrow> 0))
                   else Inr None)
           | _ \<Rightarrow> Inl ())"

definition ee_check_permission :: "world \<Rightarrow> string \<Rightarrow> string \<Rightarrow> string \<Rightarrow> string option \<Rightarrow> bool" where
  "ee_check_permission W login action resource client_ip =
     (if ee_sidecar_url (w_env W) = None then True
      else case ee_evaluate (w_ee W) login action resource client_ip of
             Answered (Some allowed) \<Rightarrow> allowed = Some True
           | _ \<Rightarrow> False)"

definition ee_filter_agent_list ::
    "string list \<Rightarrow> (string \<rightharpoonup> string list) \<Rightarrow> AgentAccess \<Rightarrow> string list \<times> (string \<rightharpoonup> string list)" where
  "ee_filter_agent_list agents capabilities access =
     (if access = Unrestricted then (agents, capabilities)
      else (filter (\<lambda>a. agent_allowed_by_access a access) agents,
            (\<lambda>a. if agent_allowed_by_access a access then capabilities a else None)))"

section \<open>Agent lists\<close>

definition agent_snapshot :: "world \<Rightarrow> hub \<Rightarrow> string list \<times> (string \<rightharpoonup> string list)" where
  "agent_snapshot W s =
     (w_agents_iter W (dom (h_agents s)), (\<lambda>a. map_option ae_capabilities (h_agents s a)))"

definition list_response :: "string list \<times> (string \<rightharpoonup> string list) \<Rightarrow> AgentAccess \<Rightarrow> UiMessage" where
  "list_response snap access =
     (case ee_filter_agent_list (fst snap) (snd snap) access of (agents, caps) \<Rightarrow> ListAgentsResponse agents caps)"

definition set_access :: "client_id \<Rightarrow> (AgentAccess \<Rightarrow> AgentAccess) \<Rightarrow> hub \<Rightarrow> hub" where
  "set_access c f s =
     s\<lparr>h_clients := (h_clients s)(c := map_option (\<lambda>cl. cl\<lparr>uc_agent_access := f (uc_agent_access cl)\<rparr>) (h_clients s c))\<rparr>"

text \<open>Removing the entry drops the receiver of an HTTP client; a WebSocket's lives in its send task.\<close>

definition drop_ui_client :: "client_id \<Rightarrow> hub \<Rightarrow> hub" where
  "drop_ui_client c s =
     s\<lparr>h_clients := (h_clients s)(c := None),
       h_receiving := (if c \<in> h_sockets s then h_receiving s else h_receiving s - {c})\<rparr>"

text \<open>One client's share of \<open>broadcast_agent_list\<close>; identities are read before the loop.\<close>

definition broadcast_one ::
    "world \<Rightarrow> string list \<times> (string \<rightharpoonup> string list) \<Rightarrow> client_id \<times> string \<times> string \<Rightarrow> hub \<Rightarrow> hub" where
  "broadcast_one W snap ident s =
     (case ident of (c, login, client_ip) \<Rightarrow>
        let access = ui_agent_access W s login client_ip (fst snap)
        in if h_clients s c = None then s
           else (case send_ui c (list_response snap access) (set_access c (\<lambda>_. access) s) of
                   (s1, True) \<Rightarrow> s1
                 | (s1, False) \<Rightarrow> drop_ui_client c s1))"

definition broadcast_agent_list :: "world \<Rightarrow> hub \<Rightarrow> hub" where
  "broadcast_agent_list W s =
     (let snap = agent_snapshot W s;
          idents = map (\<lambda>c. case h_clients s c of Some cl \<Rightarrow> (c, uc_login cl, uc_client_ip cl) | None \<Rightarrow> (c, [], []))
                     (w_clients_iter W (dom (h_clients s)))
      in fold (broadcast_one W snap) idents s)"

section \<open>The recording tap\<close>

definition recording_enabled :: "env \<Rightarrow> bool" where
  "recording_enabled env \<longleftrightarrow> ee_active env \<and>
     to_ascii_lowercase (trim (env_or env ''EE_RECORD_TERMINALS'' [])) \<in> {''1'', ''true'', ''yes'', ''on''}"

definition recorder_start :: "env \<Rightarrow> string \<Rightarrow> hub \<Rightarrow> hub" where
  "recorder_start env session_id s =
     (if \<not> recording_enabled env \<or> session_id = [] then s
      else s\<lparr>h_recording := insert session_id (h_recording s)\<rparr>)"

definition recorder_frame :: "string \<Rightarrow> string \<Rightarrow> byte list \<Rightarrow> hub \<Rightarrow> hub" where
  "recorder_frame session_id dir data s =
     (if session_id \<noteq> [] \<and> session_id \<in> h_recording s
      then s\<lparr>h_frames := h_frames s @ [(session_id, dir, data)]\<rparr> else s)"

definition recorder_stop :: "string \<Rightarrow> hub \<Rightarrow> hub" where
  "recorder_stop session_id s = s\<lparr>h_recording := h_recording s - {session_id}\<rparr>"

section \<open>Registration and the HTTP transport\<close>

definition UI_HTTP_IDLE_TTL_SECS :: nat where "UI_HTTP_IDLE_TTL_SECS = 90"
definition UI_HTTP_MAX_BATCH :: nat where "UI_HTTP_MAX_BATCH = 128"
definition UI_HTTP_MAX_SESSIONS_PER_USER :: nat where "UI_HTTP_MAX_SESSIONS_PER_USER = 8"

definition http_sessions :: "string \<Rightarrow> hub \<Rightarrow> client_id set" where
  "http_sessions login s =
     {c. \<exists>cl. h_clients s c = Some cl \<and> uc_login cl = login \<and> uc_http_token cl \<noteq> None}"

definition register_ui_client ::
    "world \<Rightarrow> string \<Rightarrow> Role \<Rightarrow> int \<Rightarrow> string \<Rightarrow> string option \<Rightarrow> hub \<Rightarrow> hub \<times> client_id option" where
  "register_ui_client W login initial_role token_iat client_ip http_token s =
     (let snap = agent_snapshot W s;
          access = (if initial_role = Admin then Unrestricted
                    else ee_fetch_agent_access W login client_ip (fst snap));
          c = h_next_client s;
          s1 = s\<lparr>h_next_client := c + 1\<rparr>
      in if http_token \<noteq> None \<and> card (http_sessions login s1) \<ge> UI_HTTP_MAX_SESSIONS_PER_USER
         then (s1, None)
         else
           (let s2 = s1\<lparr>h_clients := (h_clients s1)(c \<mapsto>
                        \<lparr>uc_login = login, uc_client_ip = client_ip, uc_agent_access = access,
                         uc_http_receiver = (http_token \<noteq> None), uc_http_token = http_token,
                         uc_last_seen = w_secs W\<rparr>),
                      h_tasks := (h_tasks s1)(c \<mapsto>
                        \<lparr>ut_login = login, ut_token_iat = token_iat, ut_client_ip = client_ip,
                         ut_rec_sessions = {}, ut_commands = []\<rparr>),
                      h_sockets := (if http_token = None then insert c (h_sockets s1) else h_sockets s1 - {c}),
                      h_receiving := insert c (h_receiving s1)\<rparr>
            in (fst (send_ui c (list_response snap access) s2), Some c)))"

text \<open>One tick of the idle reaper of an HTTP client.\<close>

definition reap_idle :: "world \<Rightarrow> client_id \<Rightarrow> hub \<Rightarrow> hub" where
  "reap_idle W c s =
     (case h_clients s c of None \<Rightarrow> s
      | Some cl \<Rightarrow> if w_secs W - uc_last_seen cl \<le> UI_HTTP_IDLE_TTL_SECS then s else drop_ui_client c s)"

definition http_control_token_matches :: "string \<Rightarrow> string \<Rightarrow> bool" where
  "http_control_token_matches expected actual \<longleftrightarrow> expected = actual"

definition is_http_client_message :: "UiMessage \<Rightarrow> bool" where
  "is_http_client_message m = (case m of ListAgentsRequest \<Rightarrow> True | SendToAgent _ _ \<Rightarrow> True | _ \<Rightarrow> False)"

text \<open>Take at most \<open>n\<close> messages of client \<open>c\<close> from the outbound channels.\<close>

fun take_for :: "client_id \<Rightarrow> nat \<Rightarrow> (client_id \<times> UiMessage) list \<Rightarrow> UiMessage list \<times> (client_id \<times> UiMessage) list" where
  "take_for c n [] = ([], [])"
| "take_for c n ((d, m) # q) =
     (if d = c \<and> n > 0 then (case take_for c (n - 1) q of (ms, r) \<Rightarrow> (m # ms, r))
      else (case take_for c n q of (ms, r) \<Rightarrow> (ms, (d, m) # r)))"

definition receive_http_messages :: "client_id \<Rightarrow> hub \<Rightarrow> hub \<times> UiMessage list" where
  "receive_http_messages c s =
     (case take_for c UI_HTTP_MAX_BATCH (h_ui_out s) of (ms, rest) \<Rightarrow> (s\<lparr>h_ui_out := rest\<rparr>, ms))"

definition authenticate_http_ui_client ::
    "jwt_lib \<Rightarrow> world \<Rightarrow> (string \<rightharpoonup> string) \<Rightarrow> client_id \<Rightarrow> string \<Rightarrow> hub \<Rightarrow> hub \<times> (http_error, unit) result" where
  "authenticate_http_ui_client J W jar c client_token s =
     (case current_user J (w_env W) (w_now W) (w_flt W) (h_users s) jar of Inl e \<Rightarrow> (s, Inl e)
      | Inr claims \<Rightarrow>
        (case h_clients s c of None \<Rightarrow> (s, Inl (410, ''control session expired''))
         | Some client \<Rightarrow>
           (case uc_http_token client of None \<Rightarrow> (s, Inl (410, ''not an HTTP control session''))
            | Some expected \<Rightarrow>
                if uc_login client \<noteq> c_sub claims \<or> \<not> http_control_token_matches expected client_token
                then (s, Inl (403, ''control session mismatch''))
                else if \<not> uc_http_receiver client then (s, Inl (410, ''control session unavailable''))
                else (s\<lparr>h_clients := (h_clients s)(c \<mapsto> client\<lparr>uc_last_seen := w_secs W\<rparr>)\<rparr>, Inr ()))))"

definition ui_http_connect_handler ::
    "jwt_lib \<Rightarrow> world \<Rightarrow> (string \<rightharpoonup> string) \<Rightarrow> string \<Rightarrow> string \<Rightarrow> hub
      \<Rightarrow> hub \<times> (http_error, client_id \<times> string \<times> UiMessage list) result" where
  "ui_http_connect_handler J W jar client_ip client_token s =
     (case current_user J (w_env W) (w_now W) (w_flt W) (h_users s) jar of Inl e \<Rightarrow> (s, Inl e)
      | Inr claims \<Rightarrow>
        (case register_ui_client W (c_sub claims) (Role_parse (c_role claims)) (c_iat claims) client_ip
                (Some client_token) s of
           (s1, None) \<Rightarrow> (s1, Inl (429, ''too many HTTP control sessions''))
         | (s1, Some c) \<Rightarrow>
             (case receive_http_messages c s1 of (s2, ms) \<Rightarrow> (s2, Inr (c, client_token, ms)))))"

text \<open>\<open>busy\<close>: another poll holds the receiver.\<close>

definition ui_http_poll_handler ::
    "jwt_lib \<Rightarrow> world \<Rightarrow> (string \<rightharpoonup> string) \<Rightarrow> client_id \<Rightarrow> string \<Rightarrow> bool \<Rightarrow> hub
      \<Rightarrow> hub \<times> (http_error, UiMessage list) result" where
  "ui_http_poll_handler J W jar c client_token busy s =
     (case authenticate_http_ui_client J W jar c client_token s of (s1, Inl e) \<Rightarrow> (s1, Inl e)
      | (s1, Inr _) \<Rightarrow>
          if busy then (s1, Inl (409, ''control poll already active''))
          else (case receive_http_messages c s1 of (s2, ms) \<Rightarrow> (s2, Inr ms)))"

definition ui_http_disconnect_handler ::
    "jwt_lib \<Rightarrow> world \<Rightarrow> (string \<rightharpoonup> string) \<Rightarrow> client_id \<Rightarrow> string \<Rightarrow> hub \<Rightarrow> hub \<times> (http_error, unit) result" where
  "ui_http_disconnect_handler J W jar c client_token s =
     (case authenticate_http_ui_client J W jar c client_token s of (s1, Inl e) \<Rightarrow> (s1, Inl e)
      | (s1, Inr _) \<Rightarrow> (drop_ui_client c s1, Inr ()))"

text \<open>A command is accepted while the client's task still runs.\<close>

definition enqueue :: "client_id \<Rightarrow> UiMessage list \<Rightarrow> hub \<Rightarrow> hub \<times> bool" where
  "enqueue c ms s =
     (case h_tasks s c of None \<Rightarrow> (s, False)
      | Some t \<Rightarrow> (s\<lparr>h_tasks := (h_tasks s)(c \<mapsto> t\<lparr>ut_commands := ut_commands t @ ms\<rparr>)\<rparr>, True))"

definition ui_http_send_handler ::
    "jwt_lib \<Rightarrow> world \<Rightarrow> (string \<rightharpoonup> string) \<Rightarrow> client_id \<Rightarrow> string \<Rightarrow> UiMessage list \<Rightarrow> hub
      \<Rightarrow> hub \<times> (http_error, unit) result" where
  "ui_http_send_handler J W jar c client_token messages s =
     (if messages = [] \<or> length messages > UI_HTTP_MAX_BATCH then (s, Inl (400, ''invalid control message batch''))
      else if \<not> list_all is_http_client_message messages then (s, Inl (400, ''invalid client UI message''))
      else (case authenticate_http_ui_client J W jar c client_token s of (s1, Inl e) \<Rightarrow> (s1, Inl e)
            | (s1, Inr _) \<Rightarrow>
                (case enqueue c messages s1 of (s2, True) \<Rightarrow> (s2, Inr ())
                 | (s2, False) \<Rightarrow> (s2, Inl (410, ''control session closed'')))))"

section \<open>The WebSocket transport\<close>

definition ui_websocket_session_allowed :: "bool \<Rightarrow> bool \<Rightarrow> bool" where
  "ui_websocket_session_allowed cli_session origin_allowed \<longleftrightarrow> \<not> cli_session \<and> origin_allowed"

text \<open>The origin of \<open>UI_URL\<close>, as the URL library renders it, and the configured extra origins.\<close>

definition ws_allowed_origins :: "env \<Rightarrow> (string \<Rightarrow> string option) \<Rightarrow> string list" where
  "ws_allowed_origins env url_origin =
     (case env ''UI_URL'' of Some u \<Rightarrow> (case url_origin u of Some x \<Rightarrow> [x] | None \<Rightarrow> []) | None \<Rightarrow> [])
     @ (case env ''WS_ALLOWED_ORIGINS'' of
          Some extra \<Rightarrow> filter (\<lambda>t. t \<noteq> []) (map trim (split_on (CHR '','') extra)) | None \<Rightarrow> [])"

definition eq_ignore_ascii_case :: "string \<Rightarrow> string \<Rightarrow> bool" where
  "eq_ignore_ascii_case a b \<longleftrightarrow> to_ascii_lowercase a = to_ascii_lowercase b"

definition ui_ws_handler ::
    "jwt_lib \<Rightarrow> world \<Rightarrow> (string \<Rightarrow> string option) \<Rightarrow> (string \<rightharpoonup> string) \<Rightarrow> string option \<Rightarrow> string \<Rightarrow> hub
      \<Rightarrow> hub \<times> (http_error, client_id option) result" where
  "ui_ws_handler J W url_origin jar origin client_ip s =
     (let env = w_env W;
          origin_allowed = (dev_mode env \<or> (case origin of None \<Rightarrow> False
             | Some v \<Rightarrow> list_ex (\<lambda>a. eq_ignore_ascii_case a v) (ws_allowed_origins env url_origin)))
      in if \<not> origin_allowed then (s, Inl (403, ''origin''))
         else if dev_mode env
         then map_prod id Inr (register_ui_client W ''dev'' Admin 0 client_ip None s)
         else case jar (session_cookie_name env) of None \<Rightarrow> (s, Inl (401, ''Unauthorized''))
         | Some token \<Rightarrow>
           (case claims_from_token J env (w_now W) token of None \<Rightarrow> (s, Inl (401, ''Unauthorized''))
            | Some claims \<Rightarrow>
              if \<not> c_mfa claims then (s, Inl (403, ''MFA required''))
              else if \<not> ui_websocket_session_allowed (c_cli claims) origin_allowed
              then (s, Inl (403, ''browser session required''))
              else (case get_user (w_flt W) (h_users s) (c_sub claims) of
                      Inl _ \<Rightarrow> (s, Inl (503, ''session verification unavailable''))
                    | Inr None \<Rightarrow> (s, Inl (401, ''Unauthorized''))
                    | Inr (Some row) \<Rightarrow>
                        if c_iat claims \<ge> u_session_epoch row
                        then map_prod id Inr (register_ui_client W (c_sub claims) (Role_parse (c_role claims))
                               (c_iat claims) client_ip None s)
                        else (s, Inl (401, ''session revoked'')))))"

text \<open>The read loop of \<open>handle_ui_socket\<close>: a parsed frame is queued, and the end of the loop.\<close>

definition ui_socket_closed :: "client_id \<Rightarrow> hub \<Rightarrow> hub" where
  "ui_socket_closed c s =
     drop_ui_client c (s\<lparr>h_sockets := h_sockets s - {c}, h_receiving := h_receiving s - {c}\<rparr>)"

definition ui_socket_text :: "client_id \<Rightarrow> UiMessage option \<Rightarrow> hub \<Rightarrow> hub" where
  "ui_socket_text c parsed s =
     (if c \<notin> h_sockets s then s
      else case parsed of None \<Rightarrow> s
      | Some m \<Rightarrow> (case enqueue c [m] s of (s1, True) \<Rightarrow> s1 | (s1, False) \<Rightarrow> ui_socket_closed c s1))"

section \<open>The gates in front of an agent\<close>

text \<open>A refused command: whether the loop ends, and the two texts of \<open>PermissionDenied\<close>.\<close>

type_synonym refusal = "bool \<times> string \<times> string"

definition then_gate ::
    "hub \<times> (refusal, 'a) result \<Rightarrow> ('a \<Rightarrow> hub \<Rightarrow> hub \<times> (refusal, 'b) result) \<Rightarrow> hub \<times> (refusal, 'b) result" where
  "then_gate r f = (case r of (s, Inl e) \<Rightarrow> (s, Inl e) | (s, Inr x) \<Rightarrow> f x s)"

definition gate_access :: "world \<Rightarrow> client_id \<Rightarrow> ui_task \<Rightarrow> string \<Rightarrow> hub \<Rightarrow> hub \<times> (refusal, unit) result" where
  "gate_access W c t agent_id s =
     (let target = ui_agent_access W s (ut_login t) (ut_client_ip t) [agent_id];
          s1 = set_access c (\<lambda>cached. merge_exact_agent_access cached agent_id target) s
      in (s1, ensure (agent_allowed_by_access agent_id target)
                (False, ''agent_access'', ''not in your allowed agents'')))"

definition session_reason :: "world \<Rightarrow> ui_task \<Rightarrow> auth_db \<Rightarrow> string option" where
  "session_reason W t d =
     (case get_user (site ''session'' (w_flt W)) d (ut_login t) of
        Inr (Some row) \<Rightarrow>
          if ut_token_iat t \<ge> u_session_epoch row then None else Some ''session revoked - please sign in again''
      | Inr None \<Rightarrow> Some ''session no longer exists''
      | Inl _ \<Rightarrow> Some ''session verification unavailable'')"

definition gate_session :: "world \<Rightarrow> ui_task \<Rightarrow> hub \<Rightarrow> hub \<times> (refusal, unit) result" where
  "gate_session W t s =
     (s, if dev_mode (w_env W) then Inr ()
         else case session_reason W t (h_users s) of None \<Rightarrow> Inr ()
              | Some reason \<Rightarrow> Inl (True, ''session_revoked'', reason))"

definition gate_request :: "world \<Rightarrow> Message \<Rightarrow> hub \<Rightarrow> hub \<times> (refusal, UiRequestSecurity) result" where
  "gate_request W message s =
     (s, case ui_request_security message of Inr security \<Rightarrow> Inr security
         | Inl _ \<Rightarrow> Inl (False, w_tag W message, ''message is not an allowed UI request''))"

definition gate_acl ::
    "world \<Rightarrow> ui_task \<Rightarrow> string \<Rightarrow> UiRequestSecurity \<Rightarrow> hub \<Rightarrow> hub \<times> (refusal, unit) result" where
  "gate_acl W t agent_id security s =
     (s, if ee_active (w_env W) \<and> \<not> dev_mode (w_env W) \<and> \<not> row_is_admin W ''acl'' (h_users s) (ut_login t)
         then (case sec_action security of None \<Rightarrow> Inr ()
               | Some action \<Rightarrow>
                   ensure (ee_check_permission W (ut_login t) action agent_id (Some (ut_client_ip t)))
                     (False, action, ''denied: '' @ action))
         else Inr ())"

definition gate_rbac ::
    "world \<Rightarrow> ui_task \<Rightarrow> string \<Rightarrow> Message \<Rightarrow> UiRequestSecurity \<Rightarrow> hub \<Rightarrow> hub \<times> (refusal, unit) result" where
  "gate_rbac W t agent_id message security s =
     (if \<not> dev_mode (w_env W) \<and> requires_admin (sec_class security)
      then (let role_str = (case get_user (site ''rbac'' (w_flt W)) (h_users s) (ut_login t) of
                              Inr (Some row) \<Rightarrow> u_role row | _ \<Rightarrow> ''viewer'')
            in if Role_parse role_str \<noteq> Admin
               then (audit_hub W (Some (ut_login t)) (Some agent_id) ''ws.send_to_agent.denied'' False
                       (Some (''role='' @ role_str @ '' variant='' @ w_tag W message)) s,
                     Inl (False, w_tag W message, ''admin only''))
               else (s, Inr ()))
      else (s, Inr ()))"

definition gate_approval ::
    "world \<Rightarrow> ui_task \<Rightarrow> string \<Rightarrow> Message \<Rightarrow> UiRequestSecurity \<Rightarrow> hub \<Rightarrow> hub \<times> (refusal, unit) result" where
  "gate_approval W t agent_id message security s =
     (if ee_active (w_env W) \<and> \<not> dev_mode (w_env W) \<and> requires_approval (sec_class security)
      then (case sec_action security of
              None \<Rightarrow> (s, Inl (False, w_tag W message, ''request has no approval action mapping''))
            | Some action \<Rightarrow>
                (case ee_check_approval W (ut_login t) action agent_id (w_json W message) of
                   Inr None \<Rightarrow> (s, Inr ())
                 | Inr (Some req_id) \<Rightarrow>
                     (audit_hub W (Some (ut_login t)) (Some agent_id) ''ws.approval.held'' True
                        (Some (''action='' @ action @ '' request='' @ int_to_dec req_id)) s,
                      Inl (False, ''approval_pending'', ''held for approval - request #'' @ int_to_dec req_id))
                 | Inl _ \<Rightarrow> (s, Inl (False, ''approval_unavailable'', ''approval system unavailable - action blocked (fail-closed)''))))
      else (s, Inr ()))"

definition gate_owner :: "world \<Rightarrow> client_id \<Rightarrow> string \<Rightarrow> Message \<Rightarrow> hub \<Rightarrow> hub \<times> (refusal, unit) result" where
  "gate_owner W c agent_id message s =
     (case ui_operation message of None \<Rightarrow> (s, Inr ())
      | Some op \<Rightarrow>
          (let (os, allowed) =
             (case op of OpStart key \<Rightarrow> claim agent_id key c (h_owners s)
              | OpUse key \<Rightarrow> (h_owners s, owner agent_id key (h_owners s) = Some c)
              | OpStop key \<Rightarrow> release agent_id key c (h_owners s))
           in (s\<lparr>h_owners := os\<rparr>, ensure allowed (False, w_tag W message, ''operation is owned by another client''))))"

definition ui_gates :: "world \<Rightarrow> client_id \<Rightarrow> ui_task \<Rightarrow> string \<Rightarrow> Message \<Rightarrow> hub \<Rightarrow> hub \<times> (refusal, unit) result" where
  "ui_gates W c t agent_id message s =
     then_gate (gate_access W c t agent_id s) (\<lambda>_ s.
     then_gate (gate_session W t s) (\<lambda>_ s.
     then_gate (gate_request W message s) (\<lambda>security s.
     then_gate (gate_acl W t agent_id security s) (\<lambda>_ s.
     then_gate (gate_rbac W t agent_id message security s) (\<lambda>_ s.
     then_gate (gate_approval W t agent_id message security s) (\<lambda>_ s.
     gate_owner W c agent_id message s))))))"

section \<open>Processing\<close>

fun recording_tap :: "env \<Rightarrow> Message \<Rightarrow> ui_task \<times> hub \<Rightarrow> ui_task \<times> hub" where
  "recording_tap env (Terminal (StartTerminalRequest sid)) (t, s) =
     (t\<lparr>ut_rec_sessions := insert sid (ut_rec_sessions t)\<rparr>, recorder_start env sid s)"
| "recording_tap env (Terminal (TerminalData sid data)) (t, s) = (t, recorder_frame sid ''i'' data s)"
| "recording_tap env (Terminal (StopTerminalRequest sid)) (t, s) =
     (t\<lparr>ut_rec_sessions := ut_rec_sessions t - {sid}\<rparr>, recorder_stop sid s)"
| "recording_tap env _ (t, s) = (t, s)"

definition deliver :: "string \<Rightarrow> Message \<Rightarrow> hub \<Rightarrow> hub" where
  "deliver agent_id message s =
     (case h_agents s agent_id of Some entry \<Rightarrow> send_agent (ae_tx entry) message s | None \<Rightarrow> s)"

text \<open>One command: the task, the state, and whether the loop goes on.\<close>

definition process_ui_message ::
    "world \<Rightarrow> client_id \<Rightarrow> ui_task \<Rightarrow> UiMessage \<Rightarrow> hub \<Rightarrow> ui_task \<times> hub \<times> bool" where
  "process_ui_message W c t msg s =
     (case msg of
        ListAgentsRequest \<Rightarrow>
          (let snap = agent_snapshot W s;
               access = ui_agent_access W s (ut_login t) (ut_client_ip t) (fst snap)
           in (t, fst (send_ui c (list_response snap access) (set_access c (\<lambda>_. access) s)), True))
      | SendToAgent agent_id message \<Rightarrow>
          (case ui_gates W c t agent_id message s of
             (s1, Inl (stop, variant, reason)) \<Rightarrow>
               (t, fst (send_ui c (PermissionDenied agent_id variant reason) s1), \<not> stop)
           | (s1, Inr _) \<Rightarrow>
               (case recording_tap (w_env W) message (t, s1) of (t1, s2) \<Rightarrow> (t1, deliver agent_id message s2, True)))
      | _ \<Rightarrow> (t, s, True))"

text \<open>The end of the task: entry, operations and recordings of the client go.\<close>

definition ui_cleanup :: "client_id \<Rightarrow> ui_task \<Rightarrow> hub \<Rightarrow> hub" where
  "ui_cleanup c t s =
     (let s1 = drop_ui_client c s
      in s1\<lparr>h_owners := release_client c (h_owners s1),
            h_recording := h_recording s1 - ut_rec_sessions t,
            h_tasks := (h_tasks s1)(c := None)\<rparr>)"

text \<open>
  One turn of \<open>process_ui_messages\<close>: the next command, or the end once every sender of the channel is gone.
\<close>

definition process_ui_messages :: "world \<Rightarrow> client_id \<Rightarrow> hub \<Rightarrow> hub" where
  "process_ui_messages W c s =
     (case h_tasks s c of None \<Rightarrow> s
      | Some t \<Rightarrow>
        (case ut_commands t of
           [] \<Rightarrow> if h_clients s c = None \<and> c \<notin> h_sockets s then ui_cleanup c t s else s
         | m # ms \<Rightarrow>
             (case process_ui_message W c (t\<lparr>ut_commands := ms\<rparr>) m s of
                (t1, s1, True) \<Rightarrow> s1\<lparr>h_tasks := (h_tasks s1)(c \<mapsto> t1)\<rparr>
              | (t1, s1, False) \<Rightarrow> ui_cleanup c t1 s1)))"

section \<open>Lemmas\<close>

named_theorems hub_defs \<open>definitions of the hub's state changes\<close>

lemmas [hub_defs] = send_ui_def send_agent_def audit_hub_def set_access_def drop_ui_client_def
  recorder_start_def recorder_frame_def recorder_stop_def deliver_def ui_cleanup_def

lemma then_gate_Inr [result_simps]:
  "then_gate r f = (s', Inr y) \<longleftrightarrow> (\<exists>s1 x. r = (s1, Inr x) \<and> f x s1 = (s', Inr y))"
  by (auto simp: then_gate_def split: prod.splits sum.splits)

lemma gate_access_Inr [result_simps]:
  "gate_access W c t a s = (s1, Inr u) \<longleftrightarrow>
     s1 = set_access c (\<lambda>cached. merge_exact_agent_access cached a
       (ui_agent_access W s (ut_login t) (ut_client_ip t) [a])) s \<and>
     agent_allowed_by_access a (ui_agent_access W s (ut_login t) (ut_client_ip t) [a])"
  by (auto simp: gate_access_def Let_def result_simps)

lemma session_reason_None:
  "session_reason W t d = None \<longleftrightarrow>
     (\<exists>row. get_user (site ''session'' (w_flt W)) d (ut_login t) = Inr (Some row) \<and> u_session_epoch row \<le> ut_token_iat t)"
  by (auto simp: session_reason_def split: sum.splits option.splits)

lemma gate_session_Inr [result_simps]:
  "gate_session W t s = (s1, Inr u) \<longleftrightarrow> s1 = s \<and> (dev_mode (w_env W) \<or> session_reason W t (h_users s) = None)"
  by (auto simp: gate_session_def split: option.splits)

lemma gate_request_Inr [result_simps]:
  "gate_request W m s = (s1, Inr sec) \<longleftrightarrow> s1 = s \<and> ui_request_security m = Inr sec"
  by (auto simp: gate_request_def split: sum.splits)

lemma gate_acl_Inr [result_simps]:
  "gate_acl W t a sec s = (s1, Inr u) \<longleftrightarrow> s1 = s \<and>
     (ee_active (w_env W) \<and> \<not> dev_mode (w_env W) \<and> \<not> row_is_admin W ''acl'' (h_users s) (ut_login t) \<longrightarrow>
        (\<forall>action. sec_action sec = Some action \<longrightarrow>
           ee_check_permission W (ut_login t) action a (Some (ut_client_ip t))))"
  by (auto simp: gate_acl_def result_simps split: option.splits)

lemma gate_rbac_Inr [result_simps]:
  "gate_rbac W t a m sec s = (s1, Inr u) \<longleftrightarrow> s1 = s \<and>
     (\<not> dev_mode (w_env W) \<and> requires_admin (sec_class sec) \<longrightarrow>
        (\<exists>row. get_user (site ''rbac'' (w_flt W)) (h_users s) (ut_login t) = Inr (Some row) \<and> u_role row = ''admin''))"
  by (auto simp: gate_rbac_def Let_def split: sum.splits option.splits)

lemma gate_approval_Inr [result_simps]:
  "gate_approval W t a m sec s = (s1, Inr u) \<longleftrightarrow> s1 = s \<and>
     (ee_active (w_env W) \<and> \<not> dev_mode (w_env W) \<and> requires_approval (sec_class sec) \<longrightarrow>
        (\<exists>action. sec_action sec = Some action \<and> ee_check_approval W (ut_login t) action a (w_json W m) = Inr None))"
  by (auto simp: gate_approval_def split: sum.splits option.splits)

lemma gate_owner_Inr:
  assumes "gate_owner W c a m s = (s1, Inr u)"
  shows "\<exists>os. s1 = s\<lparr>h_owners := os\<rparr> \<and>
     (\<forall>k. ui_operation m = Some (OpStart k) \<or> ui_operation m = Some (OpUse k) \<longrightarrow> owner a k os = Some c) \<and>
     (\<forall>k. ui_operation m = Some (OpStop k) \<longrightarrow> owner a k (h_owners s) = Some c)"
proof (cases "ui_operation m")
  case None
  then show ?thesis using assms by (intro exI [of _ "h_owners s"]) (auto simp: gate_owner_def)
next
  case (Some op)
  show ?thesis
  proof (cases op)
    case (OpStart k)
    then show ?thesis
      using assms Some reg.claim_granted_owns [of a k c "h_owners s"]
      by (intro exI [of _ "fst (claim a k c (h_owners s))"])
        (auto simp: gate_owner_def result_simps split: prod.splits)
  next
    case (OpUse k)
    then show ?thesis
      using assms Some by (intro exI [of _ "h_owners s"]) (auto simp: gate_owner_def result_simps)
  next
    case (OpStop k)
    then show ?thesis
      using assms Some reg.release_ok [of a k c "h_owners s"]
      by (intro exI [of _ "fst (release a k c (h_owners s))"])
        (auto simp: gate_owner_def result_simps split: prod.splits)
  qed
qed

lemma ui_gates_Inr:
  assumes "ui_gates W c t a m s = (s', Inr u)"
  obtains sec os acc where
    "s' = (set_access c acc s)\<lparr>h_owners := os\<rparr>"
    "agent_allowed_by_access a (ui_agent_access W s (ut_login t) (ut_client_ip t) [a])"
    "dev_mode (w_env W) \<or> session_reason W t (h_users s) = None"
    "ui_request_security m = Inr sec"
    "ee_active (w_env W) \<and> \<not> dev_mode (w_env W) \<and> \<not> row_is_admin W ''acl'' (h_users s) (ut_login t) \<longrightarrow>
       (\<forall>action. sec_action sec = Some action \<longrightarrow> ee_check_permission W (ut_login t) action a (Some (ut_client_ip t)))"
    "\<not> dev_mode (w_env W) \<and> requires_admin (sec_class sec) \<longrightarrow>
       (\<exists>row. get_user (site ''rbac'' (w_flt W)) (h_users s) (ut_login t) = Inr (Some row) \<and> u_role row = ''admin'')"
    "ee_active (w_env W) \<and> \<not> dev_mode (w_env W) \<and> requires_approval (sec_class sec) \<longrightarrow>
       (\<exists>action. sec_action sec = Some action \<and> ee_check_approval W (ut_login t) action a (w_json W m) = Inr None)"
    "\<forall>k. ui_operation m = Some (OpStart k) \<or> ui_operation m = Some (OpUse k) \<longrightarrow> owner a k os = Some c"
    "\<forall>k. ui_operation m = Some (OpStop k) \<longrightarrow> owner a k (h_owners s) = Some c"
proof -
  define s0 where "s0 = set_access c (\<lambda>cached. merge_exact_agent_access cached a
    (ui_agent_access W s (ut_login t) (ut_client_ip t) [a])) s"
  have u: "h_users s0 = h_users s" "h_owners s0 = h_owners s" by (simp_all add: s0_def set_access_def)
  have o: "gate_owner W c a m s0 = (s', Inr ())"
    using assms by (auto simp: ui_gates_def result_simps s0_def)
  obtain os where os: "s' = s0\<lparr>h_owners := os\<rparr>"
    "\<forall>k. ui_operation m = Some (OpStart k) \<or> ui_operation m = Some (OpUse k) \<longrightarrow> owner a k os = Some c"
    "\<forall>k. ui_operation m = Some (OpStop k) \<longrightarrow> owner a k (h_owners s) = Some c"
    using gate_owner_Inr [OF o] u by auto
  have s': "s' = (set_access c (\<lambda>cached. merge_exact_agent_access cached a
    (ui_agent_access W s (ut_login t) (ut_client_ip t) [a])) s)\<lparr>h_owners := os\<rparr>" using os(1) by (simp add: s0_def)
  obtain sec where sec: "ui_request_security m = Inr sec"
    "gate_acl W t a sec s0 = (s0, Inr ())" "gate_rbac W t a m sec s0 = (s0, Inr ())"
    "gate_approval W t a m sec s0 = (s0, Inr ())"
    and acc: "agent_allowed_by_access a (ui_agent_access W s (ut_login t) (ut_client_ip t) [a])"
      "dev_mode (w_env W) \<or> session_reason W t (h_users s) = None"
    using assms u by (auto simp: ui_gates_def then_gate_Inr gate_access_Inr gate_session_Inr gate_request_Inr
        s0_def [symmetric] simp: gate_acl_Inr gate_rbac_Inr gate_approval_Inr)
  show thesis
    by (rule that [OF s' acc sec(1) _ _ _ os(2,3)])
      (use sec(2-4) u in \<open>simp_all add: gate_acl_Inr gate_rbac_Inr gate_approval_Inr\<close>)
qed

lemma ee_check_permission_iff:
  "ee_active (w_env W) \<Longrightarrow>
     ee_check_permission W login action r ip \<longleftrightarrow> ee_evaluate (w_ee W) login action r ip = Answered (Some (Some True))"
  by (auto simp: ee_check_permission_def ee_active_def split: reply.splits option.splits)

lemma ee_fetch_allowed:
  assumes "ee_active (w_env W)" and "agent_allowed_by_access a (ee_fetch_agent_access W login ip as)"
  shows "\<exists>access. ee_user_agents (w_ee W) login ip as = Answered (Some access) \<and> agent_allowed_by_access a access"
  using assms
  by (auto simp: ee_fetch_agent_access_def ee_active_def agent_allowed_by_access_def split: reply.splits option.splits)

lemma ee_check_approval_None:
  assumes "ee_active (w_env W)" and "ee_check_approval W login action a payload = Inr None"
  shows "\<exists>answer. ee_approvals (w_ee W) login action a payload = Answered answer \<and>
    (\<forall>d. answer = Some d \<longrightarrow> fst d \<noteq> Some True)"
  using assms
  by (auto simp: ee_check_approval_def ee_active_def Let_def split: if_splits reply.splits option.splits prod.splits)

text \<open>
  What a gate may change, whatever it decides: the client's cached access, the account tables (by an audit
  row), and the owner of an operation, to nobody or to this client.
\<close>

definition gate_frame :: "client_id \<Rightarrow> hub \<Rightarrow> hub \<Rightarrow> bool" where
  "gate_frame c s s' \<longleftrightarrow>
     (\<exists>f d os. s' = (set_access c f s)\<lparr>h_users := d, h_owners := os\<rparr> \<and>
        (\<forall>a k c'. owner a k os = Some c' \<longrightarrow> owner a k (h_owners s) = Some c' \<or> c' = c))"

lemma gate_frame_trans:
  assumes "gate_frame c s1 s2" and "gate_frame c s2 s3" shows "gate_frame c s1 s3"
proof -
  obtain f d os where 1: "s2 = (set_access c f s1)\<lparr>h_users := d, h_owners := os\<rparr>"
    "\<forall>a k c'. owner a k os = Some c' \<longrightarrow> owner a k (h_owners s1) = Some c' \<or> c' = c"
    using assms(1) by (auto simp: gate_frame_def)
  obtain g d' os' where 2: "s3 = (set_access c g s2)\<lparr>h_users := d', h_owners := os'\<rparr>"
    "\<forall>a k c'. owner a k os' = Some c' \<longrightarrow> owner a k (h_owners s2) = Some c' \<or> c' = c"
    using assms(2) by (auto simp: gate_frame_def)
  have "s3 = (set_access c (g \<circ> f) s1)\<lparr>h_users := d', h_owners := os'\<rparr>"
    using 1(1) 2(1) by (simp add: set_access_def option.map_comp comp_def)
  moreover have "\<forall>a k c'. owner a k os' = Some c' \<longrightarrow> owner a k (h_owners s1) = Some c' \<or> c' = c"
    using 1 2(2) by fastforce
  ultimately show ?thesis unfolding gate_frame_def by blast
qed

lemma set_access_id [simp]: "set_access c (\<lambda>x. x) s = s"
  by (simp add: set_access_def option.map_ident map_option.id [unfolded id_def])

lemma gate_frame_owners:
  "(\<And>a k c'. owner a k os = Some c' \<Longrightarrow> owner a k (h_owners s) = Some c' \<or> c' = c) \<Longrightarrow> gate_frame c s (s\<lparr>h_owners := os\<rparr>)"
  unfolding gate_frame_def
  by (intro exI [of _ "\<lambda>x. x"] exI [of _ "h_users s"] exI [of _ os]) auto

lemma gate_frame_users: "gate_frame c s (s\<lparr>h_users := d\<rparr>)"
  unfolding gate_frame_def
  by (intro exI [of _ "\<lambda>x. x"] exI [of _ d] exI [of _ "h_owners s"]) auto

lemma gate_frame_access: "gate_frame c s (set_access c f s)"
  unfolding gate_frame_def
  by (intro exI [of _ f] exI [of _ "h_users s"] exI [of _ "h_owners s"]) (auto simp: set_access_def)

lemma gate_frame_refl: "gate_frame c s s"
  using gate_frame_users [of c s "h_users s"] by simp

lemma then_gate_frame:
  assumes "gate_frame c s (fst r)" and "\<And>x s1. r = (s1, Inr x) \<Longrightarrow> gate_frame c s1 (fst (f x s1))"
  shows "gate_frame c s (fst (then_gate r f))"
  using assms gate_frame_trans by (cases r) (fastforce simp: then_gate_def split: sum.splits)

lemma gate_frames:
  "gate_frame c s (fst (gate_access W c t a s))"
  "gate_frame c s (fst (gate_session W t s))"
  "gate_frame c s (fst (gate_request W m s))"
  "gate_frame c s (fst (gate_acl W t a sec s))"
  "gate_frame c s (fst (gate_rbac W t a m sec s))"
  "gate_frame c s (fst (gate_approval W t a m sec s))"
  by (auto simp: gate_access_def gate_session_def gate_request_def gate_acl_def gate_rbac_def gate_approval_def
      audit_hub_def Let_def gate_frame_refl gate_frame_users gate_frame_access split: sum.splits option.splits)

lemma gate_frame_owner: "gate_frame c s (fst (gate_owner W c a m s))"
proof -
  have "gate_frame c s (s\<lparr>h_owners := fst (claim a k c (h_owners s))\<rparr>)"
    "gate_frame c s (s\<lparr>h_owners := fst (release a k c (h_owners s))\<rparr>)" for k
    by (rule gate_frame_owners; auto simp: reg.claim_owner reg.release_owner split: if_splits)+
  moreover have "gate_frame c s (s\<lparr>h_owners := h_owners s\<rparr>)" by (simp add: gate_frame_refl)
  ultimately show ?thesis
    by (simp add: gate_owner_def gate_frame_refl Let_def case_prod_unfold split: option.split UiOperation.split)
qed

lemma ui_gates_frame: "gate_frame c s (fst (ui_gates W c t a m s))"
  unfolding ui_gates_def by (intro then_gate_frame gate_frames gate_frame_owner)

lemma gate_frame_sel:
  assumes "gate_frame c s s'"
  shows "h_agents s' = h_agents s" "h_tasks s' = h_tasks s" "h_sockets s' = h_sockets s"
    "h_agent_out s' = h_agent_out s" "h_receiving s' = h_receiving s" "h_recording s' = h_recording s"
    "h_next_client s' = h_next_client s" "h_ui_out s' = h_ui_out s" "h_frames s' = h_frames s"
  using assms by (auto simp: gate_frame_def set_access_def)

lemma gate_frame_ownerD:
  assumes "gate_frame c s s'" and "owner a k (h_owners s') = Some c'"
  shows "owner a k (h_owners s) = Some c' \<or> c' = c"
proof -
  obtain f d os where "s' = (set_access c f s)\<lparr>h_users := d, h_owners := os\<rparr>"
    and os: "\<forall>a k c'. owner a k os = Some c' \<longrightarrow> owner a k (h_owners s) = Some c' \<or> c' = c"
    using assms(1) unfolding gate_frame_def by blast
  then have "owner a k os = Some c'" using assms(2) by simp
  then show ?thesis using os by blast
qed

lemma recording_tap_sel:
  assumes "recording_tap env m (t, s) = (t', s')"
  shows "h_agents s' = h_agents s" "h_tasks s' = h_tasks s" "h_sockets s' = h_sockets s"
    "h_agent_out s' = h_agent_out s" "h_receiving s' = h_receiving s" "h_owners s' = h_owners s"
    "h_users s' = h_users s" "h_clients s' = h_clients s" "h_next_client s' = h_next_client s" "h_ui_out s' = h_ui_out s"
  using assms
  by (induction env m "(t, s)" rule: recording_tap.induct)
    (auto simp: recorder_start_def recorder_frame_def recorder_stop_def split: if_splits)

text \<open>A command that reaches an agent passed the gates, and nothing else of the step writes to an agent.\<close>

lemma send_ui_sel [simp]:
  "h_agents (fst (send_ui c m s)) = h_agents s" "h_tasks (fst (send_ui c m s)) = h_tasks s"
  "h_sockets (fst (send_ui c m s)) = h_sockets s" "h_agent_out (fst (send_ui c m s)) = h_agent_out s"
  "h_receiving (fst (send_ui c m s)) = h_receiving s" "h_owners (fst (send_ui c m s)) = h_owners s"
  "h_users (fst (send_ui c m s)) = h_users s" "h_clients (fst (send_ui c m s)) = h_clients s"
  "h_recording (fst (send_ui c m s)) = h_recording s" "h_next_client (fst (send_ui c m s)) = h_next_client s"
  by (simp_all add: send_ui_def)

lemma set_access_sel [simp]:
  "h_agents (set_access c f s) = h_agents s" "h_tasks (set_access c f s) = h_tasks s"
  "h_sockets (set_access c f s) = h_sockets s" "h_agent_out (set_access c f s) = h_agent_out s"
  "h_receiving (set_access c f s) = h_receiving s" "h_owners (set_access c f s) = h_owners s"
  "h_users (set_access c f s) = h_users s" "h_recording (set_access c f s) = h_recording s"
  "h_next_client (set_access c f s) = h_next_client s" "h_ui_out (set_access c f s) = h_ui_out s"
  by (simp_all add: set_access_def)

lemma drop_ui_client_sel [simp]:
  "h_agents (drop_ui_client c s) = h_agents s" "h_tasks (drop_ui_client c s) = h_tasks s"
  "h_sockets (drop_ui_client c s) = h_sockets s" "h_agent_out (drop_ui_client c s) = h_agent_out s"
  "h_owners (drop_ui_client c s) = h_owners s" "h_users (drop_ui_client c s) = h_users s"
  "h_recording (drop_ui_client c s) = h_recording s" "h_next_client (drop_ui_client c s) = h_next_client s"
  "h_clients (drop_ui_client c s) = (h_clients s)(c := None)"
  by (simp_all add: drop_ui_client_def)

lemma process_message_delivers:
  assumes "process_ui_message W c t msg s = (t', s', go)" and "h_agent_out s' \<noteq> h_agent_out s"
  shows "\<exists>a m e s1. msg = SendToAgent a m \<and> h_agents s a = Some e \<and> go \<and>
    ui_gates W c t a m s = (s1, Inr ()) \<and> h_owners s' = h_owners s1 \<and> h_agent_out s' = h_agent_out s @ [(ae_tx e, m)]"
proof (cases msg)
  case (SendToAgent a m)
  obtain s1 r where g: "ui_gates W c t a m s = (s1, r)" by fastforce
  note frame = gate_frame_sel [OF ui_gates_frame [of c s W t a m], unfolded g fst_conv]
  show ?thesis
  proof (cases r)
    case (Inl e)
    then show ?thesis using assms g frame by (auto simp: process_ui_message_def SendToAgent split: prod.splits)
  next
    case (Inr u)
    obtain t1 s2 where tap: "recording_tap (w_env W) m (t, s1) = (t1, s2)" by fastforce
    have s': "s' = deliver a m s2" "go" using assms(1) g Inr tap by (auto simp: process_ui_message_def SendToAgent)
    then obtain e where "h_agents s2 a = Some e"
      using assms(2) frame recording_tap_sel [OF tap] by (cases "h_agents s2 a") (auto simp: deliver_def)
    then show ?thesis
      using s' frame recording_tap_sel [OF tap] g Inr SendToAgent by (auto simp: deliver_def send_agent_def)
  qed
qed (use assms in \<open>auto simp: process_ui_message_def Let_def\<close>)

lemma process_messages_delivers:
  assumes "h_agent_out (process_ui_messages W c s) \<noteq> h_agent_out s"
  obtains t a m ms e s1 where "h_tasks s c = Some t" "ut_commands t = SendToAgent a m # ms" "h_agents s a = Some e"
    "ui_gates W c (t\<lparr>ut_commands := ms\<rparr>) a m s = (s1, Inr ())"
    "h_owners (process_ui_messages W c s) = h_owners s1"
    "h_agent_out (process_ui_messages W c s) = h_agent_out s @ [(ae_tx e, m)]"
proof -
  obtain t where t: "h_tasks s c = Some t" using assms by (auto simp: process_ui_messages_def split: option.splits)
  obtain m ms where ms: "ut_commands t = m # ms"
    using assms t by (cases "ut_commands t") (auto simp: process_ui_messages_def ui_cleanup_def Let_def split: if_splits)
  obtain t1 s1 go where p: "process_ui_message W c (t\<lparr>ut_commands := ms\<rparr>) m s = (t1, s1, go)" by (metis prod_cases3)
  have out: "h_agent_out (process_ui_messages W c s) = h_agent_out s1"
    using t ms p by (cases go) (auto simp: process_ui_messages_def ui_cleanup_def Let_def)
  then obtain a m' e s2 where d: "m = SendToAgent a m'" "h_agents s a = Some e" "go"
    "ui_gates W c (t\<lparr>ut_commands := ms\<rparr>) a m' s = (s2, Inr ())" "h_owners s1 = h_owners s2"
    "h_agent_out s1 = h_agent_out s @ [(ae_tx e, m')]"
    using process_message_delivers [OF p] assms by auto
  moreover have "h_owners (process_ui_messages W c s) = h_owners s1"
    using t ms p d(3) by (simp add: process_ui_messages_def)
  ultimately show thesis using that [OF t] ms out by auto
qed

section \<open>Properties\<close>

text \<open>
  C7: a command reaches an agent only through every gate. If a turn of a client's task sends something on an
  agent's channel, it is the message the operator sent, on the channel registered for the agent named, and it
  is a classified UI request. Outside dev mode the users table holds the operator's row with an epoch not
  past the session's token, with role admin if the request's class needs it; with EE active a non-administrator
  is allowed the agent and the action by the sidecar, and an approval-gated action was answered without a
  hold. If the message starts or uses an operation this client owns it afterwards; if it stops one this
  client owned it.
\<close>

theorem delivered_command_passed_every_gate:
  assumes "h_agent_out (process_ui_messages W c s) \<noteq> h_agent_out s"
  shows "\<exists>t a m ms e sec. h_tasks s c = Some t \<and> ut_commands t = SendToAgent a m # ms \<and> h_agents s a = Some e \<and>
    h_agent_out (process_ui_messages W c s) = h_agent_out s @ [(ae_tx e, m)] \<and>
    ui_request_security m = Inr sec \<and>
    (\<not> dev_mode (w_env W) \<longrightarrow>
      (\<exists>row\<in>set (db_users (h_users s)). u_login row = ut_login t \<and> u_session_epoch row \<le> ut_token_iat t \<and>
        (requires_admin (sec_class sec) \<longrightarrow> u_role row = ''admin'') \<and>
        (ee_active (w_env W) \<and> u_role row \<noteq> ''admin'' \<longrightarrow>
           (\<exists>access. ee_user_agents (w_ee W) (ut_login t) (ut_client_ip t) [a] = Answered (Some access) \<and>
              agent_allowed_by_access a access) \<and>
           (\<forall>action. sec_action sec = Some action \<longrightarrow>
              ee_evaluate (w_ee W) (ut_login t) action a (Some (ut_client_ip t)) = Answered (Some (Some True)))) \<and>
        (ee_active (w_env W) \<and> requires_approval (sec_class sec) \<longrightarrow>
           (\<exists>action answer. sec_action sec = Some action \<and>
              ee_approvals (w_ee W) (ut_login t) action a (w_json W m) = Answered answer \<and>
              (\<forall>d. answer = Some d \<longrightarrow> fst d \<noteq> Some True))))) \<and>
    (\<forall>k. ui_operation m = Some (OpStart k) \<or> ui_operation m = Some (OpUse k) \<longrightarrow>
       owner a k (h_owners (process_ui_messages W c s)) = Some c) \<and>
    (\<forall>k. ui_operation m = Some (OpStop k) \<longrightarrow> owner a k (h_owners s) = Some c)"
proof -
  obtain t a m ms e s1 where d: "h_tasks s c = Some t" "ut_commands t = SendToAgent a m # ms" "h_agents s a = Some e"
    "ui_gates W c (t\<lparr>ut_commands := ms\<rparr>) a m s = (s1, Inr ())"
    "h_owners (process_ui_messages W c s) = h_owners s1"
    "h_agent_out (process_ui_messages W c s) = h_agent_out s @ [(ae_tx e, m)]"
    using process_messages_delivers [OF assms] by blast
  define t' where "t' = t\<lparr>ut_commands := ms\<rparr>"
  have t': "ut_login t' = ut_login t" "ut_client_ip t' = ut_client_ip t" "ut_token_iat t' = ut_token_iat t"
    by (simp_all add: t'_def)
  obtain sec os acc where s1: "s1 = (set_access c acc s)\<lparr>h_owners := os\<rparr>"
    and access: "agent_allowed_by_access a (ui_agent_access W s (ut_login t') (ut_client_ip t') [a])"
    and session: "dev_mode (w_env W) \<or> session_reason W t' (h_users s) = None"
    and sec: "ui_request_security m = Inr sec"
    and acl: "ee_active (w_env W) \<and> \<not> dev_mode (w_env W) \<and> \<not> row_is_admin W ''acl'' (h_users s) (ut_login t') \<longrightarrow>
       (\<forall>action. sec_action sec = Some action \<longrightarrow> ee_check_permission W (ut_login t') action a (Some (ut_client_ip t')))"
    and rbac: "\<not> dev_mode (w_env W) \<and> requires_admin (sec_class sec) \<longrightarrow>
       (\<exists>row. get_user (site ''rbac'' (w_flt W)) (h_users s) (ut_login t') = Inr (Some row) \<and> u_role row = ''admin'')"
    and apr: "ee_active (w_env W) \<and> \<not> dev_mode (w_env W) \<and> requires_approval (sec_class sec) \<longrightarrow>
       (\<exists>action. sec_action sec = Some action \<and> ee_check_approval W (ut_login t') action a (w_json W m) = Inr None)"
    and own: "\<forall>k. ui_operation m = Some (OpStart k) \<or> ui_operation m = Some (OpUse k) \<longrightarrow> owner a k os = Some c"
      "\<forall>k. ui_operation m = Some (OpStop k) \<longrightarrow> owner a k (h_owners s) = Some c"
    by (rule ui_gates_Inr [OF d(4) [folded t'_def]])
  have row: "\<exists>row\<in>set (db_users (h_users s)). u_login row = ut_login t \<and> u_session_epoch row \<le> ut_token_iat t \<and>
        (requires_admin (sec_class sec) \<longrightarrow> u_role row = ''admin'') \<and>
        (ee_active (w_env W) \<and> u_role row \<noteq> ''admin'' \<longrightarrow>
           (\<exists>access. ee_user_agents (w_ee W) (ut_login t) (ut_client_ip t) [a] = Answered (Some access) \<and>
              agent_allowed_by_access a access) \<and>
           (\<forall>action. sec_action sec = Some action \<longrightarrow>
              ee_evaluate (w_ee W) (ut_login t) action a (Some (ut_client_ip t)) = Answered (Some (Some True)))) \<and>
        (ee_active (w_env W) \<and> requires_approval (sec_class sec) \<longrightarrow>
           (\<exists>action answer. sec_action sec = Some action \<and>
              ee_approvals (w_ee W) (ut_login t) action a (w_json W m) = Answered answer \<and>
              (\<forall>d. answer = Some d \<longrightarrow> fst d \<noteq> Some True)))" if dev: "\<not> dev_mode (w_env W)"
  proof -
    obtain row where r: "sql_fetch_optional (\<lambda>u. u_login u = ut_login t) (db_users (h_users s)) = Some row"
      "u_session_epoch row \<le> ut_token_iat t"
      using session dev by (auto simp: session_reason_None get_user_def t' simp del: fetch_None_iff split: if_splits)
    then have row: "row \<in> set (db_users (h_users s))" "u_login row = ut_login t" using fetch_SomeD by force+
    have "u_role row = ''admin''" if "requires_admin (sec_class sec)"
      using rbac dev that r(1) by (auto simp: get_user_def t' simp del: fetch_None_iff split: if_splits)
    moreover have nadm: "u_role row \<noteq> ''admin'' \<Longrightarrow> \<not> row_is_admin W st (h_users s) (ut_login t)" for st
      using r(1) by (auto simp: row_is_admin_def get_user_def simp del: fetch_None_iff split: if_splits)
    have "(\<exists>access. ee_user_agents (w_ee W) (ut_login t) (ut_client_ip t) [a] = Answered (Some access) \<and>
          agent_allowed_by_access a access) \<and>
        (\<forall>action. sec_action sec = Some action \<longrightarrow>
          ee_evaluate (w_ee W) (ut_login t) action a (Some (ut_client_ip t)) = Answered (Some (Some True)))"
      if "ee_active (w_env W)" "u_role row \<noteq> ''admin''"
      using that dev nadm access acl ee_fetch_allowed
      by (auto simp: t' ui_agent_access_def ee_check_permission_iff)
    moreover have "\<exists>action answer. sec_action sec = Some action \<and>
          ee_approvals (w_ee W) (ut_login t) action a (w_json W m) = Answered answer \<and>
          (\<forall>d. answer = Some d \<longrightarrow> fst d \<noteq> Some True)"
      if "ee_active (w_env W)" "requires_approval (sec_class sec)"
      using that dev apr ee_check_approval_None by (fastforce simp: t')
    ultimately show ?thesis using row r(2) by blast
  qed
  have "h_owners (process_ui_messages W c s) = os" using d(5) s1 by simp
  then show ?thesis using d(1,2,3,6) sec row own by blast
qed

definition demo_world :: world where
  "demo_world = \<lparr>w_env = demo_auth_env, w_now = 60, w_flt = (\<lambda>_. False),
     w_ee = \<lparr>ee_user_agents = (\<lambda>_ _ _. Unreachable), ee_approvals = (\<lambda>_ _ _ _. Unreachable), ee_evaluate = (\<lambda>_ _ _ _. Unreachable)\<rparr>,
     w_tag = (\<lambda>_. ''tag''), w_json = (\<lambda>_. ''{}''), w_agents_iter = (\<lambda>_. []), w_clients_iter = (\<lambda>_. [])\<rparr>"

definition demo_task :: "Message \<Rightarrow> ui_task" where
  "demo_task m = \<lparr>ut_login = ''root'', ut_token_iat = 50, ut_client_ip = ''10.0.0.1'', ut_rec_sessions = {},
     ut_commands = [SendToAgent ''a-id'' m]\<rparr>"

definition demo_hub :: "UserRow \<Rightarrow> Message \<Rightarrow> hub" where
  "demo_hub u m = \<lparr>h_agents = [''a-id'' \<mapsto> \<lparr>ae_tx = 7, ae_capabilities = []\<rparr>], h_clients = Map.empty,
     h_tasks = [1 \<mapsto> demo_task m], h_sockets = {1}, h_owners = no_owners, h_next_client = 2,
     h_users = \<lparr>db_users = [u], db_invites = [], db_seats = None, db_audit = []\<rparr>,
     h_recording = {}, h_frames = [], h_receiving = {}, h_ui_out = [], h_agent_out = []\<rparr>"

lemma demo_world_facts [simp]:
  "w_env demo_world = demo_auth_env" "\<not> dev_mode demo_auth_env" "ee_sidecar_url demo_auth_env = None"
  "\<not> ee_active demo_auth_env" "site st (w_flt demo_world) stmt = False"
  by (auto simp: demo_world_def demo_auth_facts site_def) (code_simp+)

lemmas demo_turn = process_ui_messages_def process_ui_message_def ui_gates_def then_gate_def gate_access_def
  gate_session_def gate_request_def gate_acl_def gate_rbac_def gate_approval_def gate_owner_def
  session_reason_def get_user_def ui_agent_access_def row_is_admin_def ee_fetch_agent_access_def
  agent_allowed_by_access_def demo_hub_def demo_task_def demo_user_def set_access_def deliver_def send_agent_def
  sql_fetch_optional_def no_owners_def

theorem delivered_command_passed_every_gate_witness:
  "h_agent_out (process_ui_messages demo_world 1 (demo_hub (demo_user ''root'' ''admin'') (Apt AptRefreshRequest))) =
     [(7, Apt AptRefreshRequest)] \<and>
   (\<exists>row\<in>set (db_users (h_users (demo_hub (demo_user ''root'' ''admin'') (Apt AptRefreshRequest)))).
      u_login row = ''root'' \<and> u_role row = ''admin'')"
proof -
  let ?s = "demo_hub (demo_user ''root'' ''admin'') (Apt AptRefreshRequest)"
  have out: "h_agent_out (process_ui_messages demo_world 1 ?s) = [(7, Apt AptRefreshRequest)]"
    by (simp add: demo_turn)
  have "h_agent_out (process_ui_messages demo_world 1 ?s) \<noteq> h_agent_out ?s" by (simp only: out) (simp add: demo_hub_def)
  from delivered_command_passed_every_gate [OF this]
  obtain t sec where "h_tasks ?s 1 = Some t" "ui_request_security (Apt AptRefreshRequest) = Inr sec"
    "\<exists>row\<in>set (db_users (h_users ?s)). u_login row = ut_login t \<and> (requires_admin (sec_class sec) \<longrightarrow> u_role row = ''admin'')"
    by (auto simp: out)
  then have "\<exists>row\<in>set (db_users (h_users ?s)). u_login row = ''root'' \<and> u_role row = ''admin''"
    by (auto simp: demo_hub_def demo_task_def)
  with out show ?thesis by blast
qed

text \<open>
  C12: a revoked session loses its control channel. Outside dev mode, when the operator's row is gone or its
  epoch is past the session's token, the next command for an agent is not delivered; and unless the agent was
  refused to the operator beforehand, the task ends: the client's entry is removed, it owns no operation on
  any agent, and none of the terminal sessions it opened is still recorded.
\<close>

theorem revoked_session_is_cut_off:
  assumes "\<not> dev_mode (w_env W)" and "h_tasks s c = Some t" and "ut_commands t = SendToAgent a m # ms"
    and revoked: "\<not> (\<exists>row\<in>set (db_users (h_users s)). u_login row = ut_login t \<and> u_session_epoch row \<le> ut_token_iat t)"
  shows "h_agent_out (process_ui_messages W c s) = h_agent_out s \<and>
    (agent_allowed_by_access a (ui_agent_access W s (ut_login t) (ut_client_ip t) [a]) \<longrightarrow>
       h_tasks (process_ui_messages W c s) c = None \<and> h_clients (process_ui_messages W c s) c = None \<and>
       (\<forall>b k. owner b k (h_owners (process_ui_messages W c s)) \<noteq> Some c) \<and>
       h_recording (process_ui_messages W c s) \<inter> ut_rec_sessions t = {})"
proof -
  have bad: "session_reason W (t\<lparr>ut_commands := ms\<rparr>) d \<noteq> None" if d: "d = h_users s" for d
  proof
    assume "session_reason W (t\<lparr>ut_commands := ms\<rparr>) d = None"
    then obtain row where "sql_fetch_optional (\<lambda>u. u_login u = ut_login t) (db_users (h_users s)) = Some row"
      "u_session_epoch row \<le> ut_token_iat t"
      using d by (auto simp: session_reason_None get_user_def simp del: fetch_None_iff split: if_splits)
    then show False using fetch_SomeD revoked by fast
  qed
  have "h_agent_out (process_ui_messages W c s) = h_agent_out s"
  proof (rule ccontr)
    assume "h_agent_out (process_ui_messages W c s) \<noteq> h_agent_out s"
    then show False
    proof (rule process_messages_delivers)
      fix t' a' m' ms' e s1
      assume "h_tasks s c = Some t'" "ut_commands t' = SendToAgent a' m' # ms'"
        and g: "ui_gates W c (t'\<lparr>ut_commands := ms'\<rparr>) a' m' s = (s1, Inr ())"
      then have "t' = t" "ms' = ms" using assms(2,3) by auto
      show False by (rule ui_gates_Inr [OF g]) (use bad assms(1) \<open>t' = t\<close> \<open>ms' = ms\<close> in auto)
    qed
  qed
  moreover have "h_tasks (process_ui_messages W c s) c = None \<and> h_clients (process_ui_messages W c s) c = None \<and>
       (\<forall>b k. owner b k (h_owners (process_ui_messages W c s)) \<noteq> Some c) \<and>
       h_recording (process_ui_messages W c s) \<inter> ut_rec_sessions t = {}"
    if acc: "agent_allowed_by_access a (ui_agent_access W s (ut_login t) (ut_client_ip t) [a])"
  proof -
    obtain s1 reason where g: "ui_gates W c (t\<lparr>ut_commands := ms\<rparr>) a m s = (s1, Inl (True, ''session_revoked'', reason))"
      using acc bad assms(1)
      by (auto simp: ui_gates_def then_gate_def gate_access_def gate_session_def Let_def split: option.splits)
    then have "process_ui_messages W c s = ui_cleanup c (t\<lparr>ut_commands := ms\<rparr>)
        (fst (send_ui c (PermissionDenied a ''session_revoked'' reason) s1))"
      using assms(2,3) by (simp add: process_ui_messages_def process_ui_message_def)
    then show ?thesis by (auto simp: ui_cleanup_def Let_def reg.drop_client_owner)
  qed
  ultimately show ?thesis by blast
qed

theorem revoked_session_is_cut_off_witness:
  "h_agent_out (process_ui_messages demo_world 1
     (demo_hub ((demo_user ''root'' ''admin'')\<lparr>u_session_epoch := 55\<rparr>) (Apt AptRefreshRequest))) = [] \<and>
   h_tasks (process_ui_messages demo_world 1
     (demo_hub ((demo_user ''root'' ''admin'')\<lparr>u_session_epoch := 55\<rparr>) (Apt AptRefreshRequest))) 1 = None"
proof -
  let ?s = "demo_hub ((demo_user ''root'' ''admin'')\<lparr>u_session_epoch := 55\<rparr>) (Apt AptRefreshRequest)"
  have "\<not> dev_mode (w_env demo_world)" and "h_tasks ?s 1 = Some (demo_task (Apt AptRefreshRequest))"
    and "ut_commands (demo_task (Apt AptRefreshRequest)) = SendToAgent ''a-id'' (Apt AptRefreshRequest) # []"
    and "\<not> (\<exists>row\<in>set (db_users (h_users ?s)). u_login row = ut_login (demo_task (Apt AptRefreshRequest)) \<and>
      u_session_epoch row \<le> ut_token_iat (demo_task (Apt AptRefreshRequest)))"
    by (simp_all add: demo_hub_def demo_task_def demo_user_def)
  from revoked_session_is_cut_off [OF this]
  show ?thesis
    by (simp add: ui_agent_access_def ee_fetch_agent_access_def agent_allowed_by_access_def) (simp add: demo_hub_def)
qed

section \<open>The invariant of the operator side\<close>

definition hub_ok :: "hub \<Rightarrow> bool" where
  "hub_ok s \<longleftrightarrow>
     (\<forall>login. card (http_sessions login s) \<le> UI_HTTP_MAX_SESSIONS_PER_USER) \<and>
     (\<forall>c. h_clients s c \<noteq> None \<longrightarrow> h_tasks s c \<noteq> None) \<and>
     (\<forall>a k c. owner a k (h_owners s) = Some c \<longrightarrow> h_tasks s c \<noteq> None) \<and>
     (\<forall>c cl. h_clients s c = Some cl \<longrightarrow> (uc_http_receiver cl \<longleftrightarrow> uc_http_token cl \<noteq> None))"

text \<open>\<open>s'\<close> has no client that \<open>s\<close> did not have with the same login and token.\<close>

definition clients_kept :: "hub \<Rightarrow> hub \<Rightarrow> bool" where
  "clients_kept s s' \<longleftrightarrow>
     (\<forall>c cl'. h_clients s' c = Some cl' \<longrightarrow>
        (\<exists>cl. h_clients s c = Some cl \<and> uc_login cl = uc_login cl' \<and> uc_http_token cl = uc_http_token cl' \<and>
           uc_http_receiver cl = uc_http_receiver cl'))"

lemma http_sessions_kept: "clients_kept s s' \<Longrightarrow> http_sessions l s' \<subseteq> http_sessions l s"
  by (fastforce simp: clients_kept_def http_sessions_def)

lemma hub_ok_kept:
  assumes "hub_ok s" and "clients_kept s s'"
    and "\<And>c. h_clients s' c \<noteq> None \<Longrightarrow> h_tasks s c \<noteq> None \<Longrightarrow> h_tasks s' c \<noteq> None"
    and "\<And>a k c. owner a k (h_owners s') = Some c \<Longrightarrow> h_tasks s' c \<noteq> None"
  shows "hub_ok s'"
proof -
  have "card (http_sessions l s') \<le> UI_HTTP_MAX_SESSIONS_PER_USER" for l
  proof -
    have "card (http_sessions l s') \<le> card (http_sessions l s)"
      by (rule card_mono [OF finite http_sessions_kept [OF assms(2)]])
    also have "\<dots> \<le> UI_HTTP_MAX_SESSIONS_PER_USER" using assms(1) by (simp add: hub_ok_def)
    finally show ?thesis .
  qed
  moreover have "h_tasks s' c \<noteq> None" if "h_clients s' c \<noteq> None" for c
  proof -
    have "h_clients s c \<noteq> None" using assms(2) that by (auto simp: clients_kept_def)
    then have "h_tasks s c \<noteq> None" using assms(1) unfolding hub_ok_def by blast
    then show ?thesis using assms(3) that by blast
  qed
  moreover have "h_clients s' c = Some cl \<Longrightarrow> uc_http_receiver cl \<longleftrightarrow> uc_http_token cl \<noteq> None" for c cl
    using assms(1,2) unfolding hub_ok_def clients_kept_def by metis
  ultimately show ?thesis using assms(4) unfolding hub_ok_def by blast
qed

text \<open>The operator-side events.\<close>

datatype ui_event =
    Ev_Ws "string \<Rightarrow> string option" "string \<rightharpoonup> string" "string option" string
  | Ev_Connect "string \<rightharpoonup> string" string string
  | Ev_Poll "string \<rightharpoonup> string" client_id string bool
  | Ev_Disconnect "string \<rightharpoonup> string" client_id string
  | Ev_Send "string \<rightharpoonup> string" client_id string "UiMessage list"
  | Ev_Text client_id "UiMessage option"
  | Ev_Closed client_id
  | Ev_Reap client_id
  | Ev_Turn client_id
  | Ev_Broadcast

fun ui_step :: "jwt_lib \<Rightarrow> world \<Rightarrow> ui_event \<Rightarrow> hub \<Rightarrow> hub" where
  "ui_step J W (Ev_Ws url_origin jar origin ip) s = fst (ui_ws_handler J W url_origin jar origin ip s)"
| "ui_step J W (Ev_Connect jar ip token) s = fst (ui_http_connect_handler J W jar ip token s)"
| "ui_step J W (Ev_Poll jar c token busy) s = fst (ui_http_poll_handler J W jar c token busy s)"
| "ui_step J W (Ev_Disconnect jar c token) s = fst (ui_http_disconnect_handler J W jar c token s)"
| "ui_step J W (Ev_Send jar c token ms) s = fst (ui_http_send_handler J W jar c token ms s)"
| "ui_step J W (Ev_Text c parsed) s = ui_socket_text c parsed s"
| "ui_step J W (Ev_Closed c) s = ui_socket_closed c s"
| "ui_step J W (Ev_Reap c) s = reap_idle W c s"
| "ui_step J W (Ev_Turn c) s = process_ui_messages W c s"
| "ui_step J W Ev_Broadcast s = broadcast_agent_list W s"

lemma clients_kept_refl [simp]: "h_clients s' = h_clients s \<Longrightarrow> clients_kept s s'"
  by (auto simp: clients_kept_def)

lemma clients_kept_trans: "clients_kept s s1 \<Longrightarrow> clients_kept s1 s2 \<Longrightarrow> clients_kept s s2"
  unfolding clients_kept_def by metis

lemma clients_kept_drop: "h_clients s' = (h_clients s)(c := None) \<Longrightarrow> clients_kept s s'"
  by (auto simp: clients_kept_def split: if_splits)

lemma clients_kept_access: "clients_kept s (set_access c f s)"
  by (auto simp: clients_kept_def set_access_def split: if_splits)

lemma ok_owner_task: "hub_ok s \<Longrightarrow> owner a k (h_owners s) = Some c \<Longrightarrow> h_tasks s c \<noteq> None"
  unfolding hub_ok_def by blast

text \<open>A change that keeps the tasks and the owners and loses at most clients keeps the invariant.\<close>

lemma hub_ok_clients:
  assumes "hub_ok s" and "clients_kept s s'" and "h_tasks s' = h_tasks s" and "h_owners s' = h_owners s"
  shows "hub_ok s'"
  by (rule hub_ok_kept [OF assms(1,2)]) (use assms ok_owner_task in auto)

lemma hub_ok_gate:
  assumes "hub_ok s" and "gate_frame c s s'" and "h_tasks s c \<noteq> None"
  shows "hub_ok s'"
proof (rule hub_ok_kept [OF assms(1)])
  show "clients_kept s s'"
  proof -
    obtain f d os where "s' = (set_access c f s)\<lparr>h_users := d, h_owners := os\<rparr>" using assms(2) by (auto simp: gate_frame_def)
    then show ?thesis using clients_kept_access [of s c f] by (simp add: clients_kept_def)
  qed
  show "h_tasks s' c' \<noteq> None" if "owner a k (h_owners s') = Some c'" for a k c'
  proof -
    show ?thesis using gate_frame_ownerD [OF assms(2) that] ok_owner_task [OF assms(1)] assms(3) gate_frame_sel(2) [OF assms(2)] by auto
  qed
qed (simp add: gate_frame_sel [OF assms(2)])

lemma process_message_ok:
  assumes "hub_ok s" and "h_tasks s c \<noteq> None" and p: "process_ui_message W c t msg s = (t', s', go)"
  shows "hub_ok s' \<and> h_tasks s' = h_tasks s"
proof (cases msg)
  case ListAgentsRequest
  then obtain x f where s': "s' = fst (send_ui c x (set_access c f s))"
    using p by (auto simp: process_ui_message_def Let_def)
  have "hub_ok (set_access c f s)" by (rule hub_ok_clients [OF assms(1) clients_kept_access]) simp_all
  then show ?thesis using hub_ok_clients [of "set_access c f s" s'] by (simp add: s')
next
  case (SendToAgent a m)
  obtain s1 r where g: "ui_gates W c t a m s = (s1, r)" by fastforce
  note frame = ui_gates_frame [of c s W t a m, unfolded g fst_conv]
  have ok: "hub_ok s1" and ts: "h_tasks s1 = h_tasks s"
    using hub_ok_gate [OF assms(1) frame assms(2)] gate_frame_sel(2) [OF frame] by simp_all
  show ?thesis
  proof (cases r)
    case (Inl e)
    then have "s' = fst (send_ui c (PermissionDenied a (fst (snd e)) (snd (snd e))) s1)"
      using p g by (auto simp: process_ui_message_def SendToAgent split: prod.splits)
    then show ?thesis using hub_ok_clients [OF ok, of s'] ts by simp
  next
    case (Inr u)
    obtain t1 s2 where tap: "recording_tap (w_env W) m (t, s1) = (t1, s2)" by fastforce
    have s': "s' = deliver a m s2" using p g Inr tap by (simp add: process_ui_message_def SendToAgent)
    have "h_clients s' = h_clients s1" "h_tasks s' = h_tasks s1" "h_owners s' = h_owners s1"
      using recording_tap_sel [OF tap] by (auto simp: s' deliver_def send_agent_def split: option.splits)
    then show ?thesis using hub_ok_clients [OF ok, of s'] ts by simp
  qed
qed (use assms in \<open>auto simp: process_ui_message_def\<close>)

lemma cleanup_ok:
  assumes "hub_ok s" shows "hub_ok (ui_cleanup c t s)"
proof (rule hub_ok_kept [OF assms])
  show "clients_kept s (ui_cleanup c t s)" by (rule clients_kept_drop [of _ _ c]) (simp add: ui_cleanup_def Let_def)
  show "h_tasks (ui_cleanup c t s) c' \<noteq> None" if "owner a k (h_owners (ui_cleanup c t s)) = Some c'" for a k c'
    using that ok_owner_task [OF assms, of a k c']
    by (auto simp: ui_cleanup_def Let_def reg.drop_client_owner split: if_splits)
qed (auto simp: ui_cleanup_def Let_def split: if_splits)

lemma turn_ok:
  assumes "hub_ok s" shows "hub_ok (process_ui_messages W c s)"
proof (cases "h_tasks s c")
  case (Some t)
  show ?thesis
  proof (cases "ut_commands t")
    case Nil
    then show ?thesis using Some assms cleanup_ok by (auto simp: process_ui_messages_def)
  next
    case (Cons m ms)
    obtain t1 s1 go where p: "process_ui_message W c (t\<lparr>ut_commands := ms\<rparr>) m s = (t1, s1, go)" by (metis prod_cases3)
    have ok: "hub_ok s1" "h_tasks s1 = h_tasks s" using process_message_ok [OF assms _ p] Some by auto
    have "hub_ok (s1\<lparr>h_tasks := (h_tasks s1)(c \<mapsto> t1)\<rparr>)"
      by (rule hub_ok_kept [OF ok(1)]) (use ok_owner_task [OF ok(1)] in auto)
    then show ?thesis using Some Cons p ok cleanup_ok by (cases go) (auto simp: process_ui_messages_def)
  qed
qed (simp add: process_ui_messages_def assms)

lemma register_ok:
  assumes "hub_ok s" shows "hub_ok (fst (register_ui_client W login role iat ip tok s))"
proof (cases "tok \<noteq> None \<and> card (http_sessions login s) \<ge> UI_HTTP_MAX_SESSIONS_PER_USER")
  case True
  then show ?thesis
    using hub_ok_clients [OF assms, of "s\<lparr>h_next_client := h_next_client s + 1\<rparr>"]
    by (auto simp: register_ui_client_def Let_def http_sessions_def)
next
  case False
  let ?c = "h_next_client s" and ?s' = "fst (register_ui_client W login role iat ip tok s)"
  obtain cl t where cl: "h_clients ?s' = (h_clients s)(?c \<mapsto> cl)" and t: "h_tasks ?s' = (h_tasks s)(?c \<mapsto> t)"
    and os: "h_owners ?s' = h_owners s" and login: "uc_login cl = login" and tok: "uc_http_token cl = tok"
      "uc_http_receiver cl \<longleftrightarrow> tok \<noteq> None"
    using False by (auto simp: register_ui_client_def Let_def http_sessions_def)
  have sub: "http_sessions l ?s' \<subseteq> (if l = login \<and> tok \<noteq> None then insert ?c (http_sessions l s) else http_sessions l s)" for l
    using login tok by (auto simp: http_sessions_def cl split: if_splits)
  have "card (http_sessions l ?s') \<le> UI_HTTP_MAX_SESSIONS_PER_USER" for l
  proof (cases "l = login \<and> tok \<noteq> None")
    case True
    then have "card (http_sessions l ?s') \<le> card (insert ?c (http_sessions l s))"
      using sub [of l] by (intro card_mono [OF finite]) simp
    also have "\<dots> \<le> Suc (card (http_sessions l s))" by (rule card_insert_le_m1) simp_all
    finally show ?thesis using True False by simp
  next
    case False
    then have "card (http_sessions l ?s') \<le> card (http_sessions l s)"
      using sub [of l] by (intro card_mono [OF finite]) (auto split: if_splits)
    then show ?thesis using assms unfolding hub_ok_def by (meson le_trans)
  qed
  moreover have "h_tasks ?s' c \<noteq> None" if "h_clients ?s' c \<noteq> None" for c
    using that assms unfolding hub_ok_def by (auto simp: cl t split: if_splits)
  moreover have "h_tasks ?s' c \<noteq> None" if "owner a k (h_owners ?s') = Some c" for a k c
    using ok_owner_task [OF assms] that by (auto simp: os t)
  moreover have "uc_http_receiver x \<longleftrightarrow> uc_http_token x \<noteq> None" if "h_clients ?s' c = Some x" for c x
    using that assms tok unfolding hub_ok_def by (auto simp: cl split: if_splits)
  ultimately show ?thesis unfolding hub_ok_def by blast
qed

lemma authenticate_ok:
  assumes "hub_ok s" and "authenticate_http_ui_client J W jar c tok s = (s', r)"
  shows "hub_ok s'"
proof (rule hub_ok_clients [OF assms(1)])
  show "clients_kept s s'" "h_tasks s' = h_tasks s" "h_owners s' = h_owners s"
    using assms(2)
    by (auto simp: authenticate_http_ui_client_def clients_kept_def split: sum.splits option.splits if_splits)
qed

lemma receive_ok: "hub_ok s \<Longrightarrow> hub_ok (fst (receive_http_messages c s))"
  by (rule hub_ok_clients [of s]) (auto simp: receive_http_messages_def split: prod.splits)

lemma drop_ok: "hub_ok s \<Longrightarrow> hub_ok (drop_ui_client c s)"
  by (rule hub_ok_clients [OF _ clients_kept_drop [of _ _ c]]) simp_all

lemma enqueue_ok:
  assumes "hub_ok s" shows "hub_ok (fst (enqueue c ms s))"
proof (cases "h_tasks s c")
  case (Some t)
  have "hub_ok (s\<lparr>h_tasks := (h_tasks s)(c \<mapsto> t\<lparr>ut_commands := ut_commands t @ ms\<rparr>)\<rparr>)"
    by (rule hub_ok_kept [OF assms]) (use ok_owner_task [OF assms] in auto)
  then show ?thesis by (simp add: enqueue_def Some)
qed (simp add: enqueue_def assms)

lemma closed_ok: "hub_ok s \<Longrightarrow> hub_ok (ui_socket_closed c s)"
  unfolding ui_socket_closed_def by (rule drop_ok, rule hub_ok_clients [of s]) simp_all

lemma broadcast_one_ok: "hub_ok s \<Longrightarrow> hub_ok (broadcast_one W snap ident s)"
proof -
  assume ok: "hub_ok s"
  obtain c l ip where ident: "ident = (c, l, ip)" by (metis prod_cases3)
  define s0 where "s0 = set_access c (\<lambda>_. ui_agent_access W s l ip (fst snap)) s"
  have ok0: "hub_ok s0" unfolding s0_def by (rule hub_ok_clients [OF ok clients_kept_access]) simp_all
  have ok1: "hub_ok (fst (send_ui c x s0))" for x by (rule hub_ok_clients [OF ok0]) simp_all
  show ?thesis
    using ok ok1 drop_ok [OF ok1]
    by (auto simp: broadcast_one_def ident Let_def s0_def [symmetric] split: prod.splits bool.splits) (metis fst_conv)+
qed

lemma broadcast_ok: "hub_ok s \<Longrightarrow> hub_ok (broadcast_agent_list W s)"
proof -
  have "hub_ok s \<Longrightarrow> hub_ok (fold (broadcast_one W snap) xs s)" for snap xs
    by (induction xs arbitrary: s) (simp_all add: broadcast_one_ok)
  then show "hub_ok s \<Longrightarrow> hub_ok (broadcast_agent_list W s)" by (simp add: broadcast_agent_list_def Let_def)
qed

lemma ui_step_ok: "hub_ok s \<Longrightarrow> hub_ok (ui_step J W ev s)"
proof (cases ev)
  case (Ev_Ws url_origin jar origin ip)
  then show "hub_ok s \<Longrightarrow> hub_ok (ui_step J W ev s)"
    using register_ok by (auto simp: ui_ws_handler_def Let_def split: option.splits sum.splits if_splits)
next
  case (Ev_Connect jar ip token)
  show "hub_ok s \<Longrightarrow> hub_ok (ui_step J W ev s)"
    using register_ok receive_ok
    by (auto simp: Ev_Connect ui_http_connect_handler_def split: sum.splits prod.splits option.splits) (metis fst_conv)+
next
  case (Ev_Poll jar c token busy)
  show "hub_ok s \<Longrightarrow> hub_ok (ui_step J W ev s)"
    using authenticate_ok receive_ok
    by (auto simp: Ev_Poll ui_http_poll_handler_def split: sum.splits prod.splits) (metis fst_conv)+
next
  case (Ev_Disconnect jar c token)
  show "hub_ok s \<Longrightarrow> hub_ok (ui_step J W ev s)"
    using authenticate_ok drop_ok
    by (auto simp: Ev_Disconnect ui_http_disconnect_handler_def split: sum.splits prod.splits)
next
  case (Ev_Send jar c token ms)
  show "hub_ok s \<Longrightarrow> hub_ok (ui_step J W ev s)"
    using authenticate_ok enqueue_ok
    by (auto simp: Ev_Send ui_http_send_handler_def split: sum.splits prod.splits bool.splits) (metis fst_conv)+
next
  case (Ev_Text c parsed)
  show "hub_ok s \<Longrightarrow> hub_ok (ui_step J W ev s)"
    using enqueue_ok closed_ok
    by (auto simp: Ev_Text ui_socket_text_def split: option.splits prod.splits bool.splits) (metis fst_conv)+
next
  case (Ev_Reap c)
  then show "hub_ok s \<Longrightarrow> hub_ok (ui_step J W ev s)" using drop_ok by (auto simp: reap_idle_def split: option.splits)
qed (simp_all add: closed_ok turn_ok broadcast_ok)

end
