(* ===== verification/Jobs_Db.thy ===== *)
theory Jobs_Db
  imports SF_Prelude "HOL-Library.List_Lexorder" "HOL-Library.Char_ord" "HOL-Library.Product_Lexorder"
begin

text \<open>
  The operational tables of \<open>server/src/db.rs\<close> and their statements: update windows, health probes, fan-out
  runs with their per-agent results, notifications, agent labels and backup jobs. A key declared
  \<open>AUTOINCREMENT\<close> is drawn from a counter that never goes back. A fault oracle names the statements that
  fail.
\<close>

section \<open>Rows\<close>

record UpdateWindowRow =
  uw_agent_id :: string
  uw_cron_expr :: string
  uw_enabled :: int
  uw_last_run_at :: int
  uw_last_status :: "string option"
  uw_last_log :: "string option"
  uw_updated_at :: int

record HealthProbeRow =
  hp_id :: int
  hp_agent_id :: string
  hp_name :: string
  hp_kind :: string
  hp_target :: string
  hp_interval_secs :: int
  hp_timeout_secs :: int
  hp_expect_status :: "int option"
  hp_expect_body :: "string option"
  hp_enabled :: int
  hp_last_run_at :: int
  hp_last_state :: "string option"
  hp_last_latency_ms :: "int option"
  hp_last_detail :: "string option"
  hp_updated_at :: int
  hp_env_json :: string

record FanOutRunRow =
  fo_id :: int
  fo_kind :: string
  fo_payload :: "string option"
  fo_started_at :: int
  fo_actor :: "string option"

record FanOutResultRow =
  fx_run_id :: int
  fx_agent_id :: string
  fx_status :: string
  fx_detail :: "string option"
  fx_finished_at :: "int option"

record NotificationRow =
  nt_id :: int
  nt_kind :: string
  nt_agent_id :: "string option"
  nt_level :: string
  nt_title :: string
  nt_body :: "string option"
  nt_created_at :: int
  nt_read_at :: "int option"

record BackupJobRow =
  bj_id :: int
  bj_agent_id :: string
  bj_name :: string
  bj_paths_json :: string
  bj_dest :: string
  bj_cron_expr :: "string option"
  bj_enabled :: int
  bj_last_run_at :: int
  bj_last_status :: "string option"
  bj_last_archive_path :: "string option"
  bj_last_bytes :: "int option"
  bj_last_log :: "string option"
  bj_updated_at :: int
  bj_mode :: string

record ops_db =
  od_windows :: "UpdateWindowRow table"
  od_probes :: "HealthProbeRow table"
  od_probe_seq :: int
  od_runs :: "FanOutRunRow table"
  od_run_seq :: int
  od_results :: "FanOutResultRow table"
  od_notes :: "NotificationRow table"
  od_note_seq :: int
  od_labels :: "(string \<times> string) table"
  od_jobs :: "BackupJobRow table"
  od_job_seq :: int

definition fx_key :: "FanOutResultRow \<Rightarrow> int \<times> string" where
  "fx_key r = (fx_run_id r, fx_agent_id r)"

definition sql_bool :: "bool \<Rightarrow> int" where
  "sql_bool b = (if b then 1 else 0)"

text \<open>A statement that fails leaves the database as it was.\<close>

definition stmt :: "fault \<Rightarrow> string \<Rightarrow> 'a \<Rightarrow> ops_db \<Rightarrow> ops_db \<Rightarrow> ops_db \<times> (sql_error, 'a) result" where
  "stmt flt name x new old = (if flt name then (old, Inl Sql_Error) else (new, Inr x))"

definition query :: "fault \<Rightarrow> string \<Rightarrow> 'a \<Rightarrow> (sql_error, 'a) result" where
  "query flt name x = (if flt name then Inl Sql_Error else Inr x)"

section \<open>Update windows\<close>

definition list_update_windows :: "fault \<Rightarrow> ops_db \<Rightarrow> (sql_error, UpdateWindowRow list) result" where
  "list_update_windows flt d = query flt ''list_update_windows'' (sort_key uw_agent_id (od_windows d))"

definition get_update_window :: "fault \<Rightarrow> ops_db \<Rightarrow> string \<Rightarrow> (sql_error, UpdateWindowRow option) result" where
  "get_update_window flt d agent_id =
     query flt ''get_update_window'' (sql_fetch_optional (\<lambda>r. uw_agent_id r = agent_id) (od_windows d))"

definition upsert_update_window ::
    "fault \<Rightarrow> string \<Rightarrow> string \<Rightarrow> bool \<Rightarrow> int \<Rightarrow> ops_db \<Rightarrow> ops_db \<times> (sql_error, unit) result" where
  "upsert_update_window flt agent_id cron_expr enabled now d =
     stmt flt ''upsert_update_window'' ()
       (d\<lparr>od_windows := sql_upsert uw_agent_id
          \<lparr>uw_agent_id = agent_id, uw_cron_expr = cron_expr, uw_enabled = sql_bool enabled, uw_last_run_at = 0,
           uw_last_status = None, uw_last_log = None, uw_updated_at = now\<rparr>
          (\<lambda>r. r\<lparr>uw_cron_expr := cron_expr, uw_enabled := sql_bool enabled, uw_updated_at := now\<rparr>)
          (od_windows d)\<rparr>) d"

definition delete_update_window :: "fault \<Rightarrow> string \<Rightarrow> ops_db \<Rightarrow> ops_db \<times> (sql_error, bool) result" where
  "delete_update_window flt agent_id d =
     (let P = (\<lambda>r. uw_agent_id r = agent_id)
      in stmt flt ''delete_update_window'' (rows_affected P (od_windows d) > 0)
           (d\<lparr>od_windows := sql_delete P (od_windows d)\<rparr>) d)"

definition record_update_window_result ::
    "fault \<Rightarrow> string \<Rightarrow> int \<Rightarrow> string \<Rightarrow> string \<Rightarrow> ops_db \<Rightarrow> ops_db \<times> (sql_error, unit) result" where
  "record_update_window_result flt agent_id last_run_at last_status last_log d =
     stmt flt ''record_update_window_result'' ()
       (d\<lparr>od_windows := sql_update (\<lambda>r. uw_agent_id r = agent_id)
          (\<lambda>r. r\<lparr>uw_last_run_at := last_run_at, uw_last_status := Some last_status, uw_last_log := Some last_log\<rparr>)
          (od_windows d)\<rparr>) d"

section \<open>Health probes\<close>

definition list_health_probes :: "fault \<Rightarrow> ops_db \<Rightarrow> (sql_error, HealthProbeRow list) result" where
  "list_health_probes flt d =
     query flt ''list_health_probes'' (sort_key (\<lambda>r. (hp_agent_id r, hp_name r)) (od_probes d))"

definition list_health_probes_for :: "fault \<Rightarrow> ops_db \<Rightarrow> string \<Rightarrow> (sql_error, HealthProbeRow list) result" where
  "list_health_probes_for flt d agent_id =
     query flt ''list_health_probes_for'' (sort_key hp_name (filter (\<lambda>r. hp_agent_id r = agent_id) (od_probes d)))"

definition upsert_health_probe ::
    "fault \<Rightarrow> string \<Rightarrow> string \<Rightarrow> string \<Rightarrow> string \<Rightarrow> int \<Rightarrow> int \<Rightarrow> int option \<Rightarrow> string option \<Rightarrow> bool \<Rightarrow> string \<Rightarrow> int
      \<Rightarrow> ops_db \<Rightarrow> ops_db \<times> (sql_error, int) result" where
  "upsert_health_probe flt agent_id name kind target interval_secs timeout_secs expect_status expect_body enabled
       env_json now d =
     (if flt ''upsert_health_probe'' then (d, Inl Sql_Error)
      else
        (let key = (\<lambda>r. (hp_agent_id r, hp_name r));
             new = \<lparr>hp_id = od_probe_seq d + 1, hp_agent_id = agent_id, hp_name = name, hp_kind = kind,
                    hp_target = target, hp_interval_secs = interval_secs, hp_timeout_secs = timeout_secs,
                    hp_expect_status = expect_status, hp_expect_body = expect_body,
                    hp_enabled = sql_bool enabled, hp_last_run_at = 0, hp_last_state = None,
                    hp_last_latency_ms = None, hp_last_detail = None, hp_updated_at = now, hp_env_json = env_json\<rparr>;
             d1 = d\<lparr>od_probes := sql_upsert key new
                      (\<lambda>r. r\<lparr>hp_kind := kind, hp_target := target, hp_interval_secs := interval_secs,
                             hp_timeout_secs := timeout_secs, hp_expect_status := expect_status,
                             hp_expect_body := expect_body, hp_enabled := sql_bool enabled,
                             hp_env_json := env_json, hp_updated_at := now\<rparr>) (od_probes d),
                    od_probe_seq := (if key new \<in> key ` set (od_probes d) then od_probe_seq d else od_probe_seq d + 1)\<rparr>
         in case sql_fetch_optional (\<lambda>r. key r = (agent_id, name)) (od_probes d1) of
              Some r \<Rightarrow> if flt ''upsert_health_probe.id'' then (d1, Inl Sql_Error) else (d1, Inr (hp_id r))
            | None \<Rightarrow> (d1, Inl Sql_Error)))"

text \<open>The select and the delete are two statements.\<close>

definition delete_health_probe :: "fault \<Rightarrow> int \<Rightarrow> ops_db \<Rightarrow> ops_db \<times> (sql_error, (string \<times> string) option) result" where
  "delete_health_probe flt i d =
     (if flt ''delete_health_probe.get'' then (d, Inl Sql_Error)
      else case sql_fetch_optional (\<lambda>r. hp_id r = i) (od_probes d) of
             None \<Rightarrow> (d, Inr None)
           | Some r \<Rightarrow> stmt flt ''delete_health_probe'' (Some (hp_agent_id r, hp_name r))
                        (d\<lparr>od_probes := sql_delete (\<lambda>r. hp_id r = i) (od_probes d)\<rparr>) d)"

definition record_health_probe_result ::
    "fault \<Rightarrow> int \<Rightarrow> int \<Rightarrow> string \<Rightarrow> int \<Rightarrow> string \<Rightarrow> ops_db \<Rightarrow> ops_db \<times> (sql_error, unit) result" where
  "record_health_probe_result flt i last_run_at last_state last_latency_ms last_detail d =
     stmt flt ''record_health_probe_result'' ()
       (d\<lparr>od_probes := sql_update (\<lambda>r. hp_id r = i)
          (\<lambda>r. r\<lparr>hp_last_run_at := last_run_at, hp_last_state := Some last_state,
                 hp_last_latency_ms := Some last_latency_ms, hp_last_detail := Some last_detail\<rparr>)
          (od_probes d)\<rparr>) d"

text \<open>\<open>SELECT last_state FROM health_probes WHERE id = ?\<close>, an error and a null both read as none.\<close>

definition probe_last_state :: "fault \<Rightarrow> int \<Rightarrow> ops_db \<Rightarrow> string option" where
  "probe_last_state flt i d =
     (if flt ''probe_last_state'' then None
      else Option.bind (sql_fetch_optional (\<lambda>r. hp_id r = i) (od_probes d)) hp_last_state)"

section \<open>Fan-out\<close>

definition create_fan_out_run ::
    "fault \<Rightarrow> string \<Rightarrow> string option \<Rightarrow> int \<Rightarrow> string option \<Rightarrow> ops_db \<Rightarrow> ops_db \<times> (sql_error, int) result" where
  "create_fan_out_run flt kind payload started_at actor d =
     (let i = od_run_seq d + 1
      in stmt flt ''create_fan_out_run'' i
           (d\<lparr>od_runs := od_runs d @ [\<lparr>fo_id = i, fo_kind = kind, fo_payload = payload, fo_started_at = started_at,
                fo_actor = actor\<rparr>], od_run_seq := i\<rparr>) d)"

definition upsert_fan_out_result ::
    "fault \<Rightarrow> int \<Rightarrow> string \<Rightarrow> string \<Rightarrow> string option \<Rightarrow> int option \<Rightarrow> ops_db \<Rightarrow> ops_db \<times> (sql_error, unit) result" where
  "upsert_fan_out_result flt run_id agent_id status detail finished_at d =
     stmt flt ''upsert_fan_out_result'' ()
       (d\<lparr>od_results := sql_upsert fx_key
          \<lparr>fx_run_id = run_id, fx_agent_id = agent_id, fx_status = status, fx_detail = detail, fx_finished_at = finished_at\<rparr>
          (\<lambda>r. r\<lparr>fx_status := status, fx_detail := detail, fx_finished_at := finished_at\<rparr>)
          (od_results d)\<rparr>) d"

definition get_fan_out_run :: "fault \<Rightarrow> ops_db \<Rightarrow> int \<Rightarrow> (sql_error, FanOutRunRow option) result" where
  "get_fan_out_run flt d run_id = query flt ''get_fan_out_run'' (sql_fetch_optional (\<lambda>r. fo_id r = run_id) (od_runs d))"

definition get_fan_out_results :: "fault \<Rightarrow> ops_db \<Rightarrow> int \<Rightarrow> (sql_error, FanOutResultRow list) result" where
  "get_fan_out_results flt d run_id =
     query flt ''get_fan_out_results'' (sort_key fx_agent_id (filter (\<lambda>r. fx_run_id r = run_id) (od_results d)))"

text \<open>The join, ordered by the start of the run; the first row.\<close>

definition pending_pairs :: "ops_db \<Rightarrow> string \<Rightarrow> string \<Rightarrow> (int \<times> int) list" where
  "pending_pairs d agent_id kind =
     [(fo_started_at f, fx_run_id r). r \<leftarrow> od_results d, f \<leftarrow> od_runs d,
        fo_id f = fx_run_id r, fx_agent_id r = agent_id, fo_kind f = kind, fx_status r = ''pending'']"

definition pending_fan_out_for_agent :: "fault \<Rightarrow> ops_db \<Rightarrow> string \<Rightarrow> string \<Rightarrow> (sql_error, int option) result" where
  "pending_fan_out_for_agent flt d agent_id kind =
     query flt ''pending_fan_out_for_agent''
       (case sort_key fst (pending_pairs d agent_id kind) of [] \<Rightarrow> None | p # _ \<Rightarrow> Some (snd p))"

section \<open>Notifications\<close>

definition insert_notification ::
    "fault \<Rightarrow> string \<Rightarrow> string option \<Rightarrow> string \<Rightarrow> string \<Rightarrow> string option \<Rightarrow> int \<Rightarrow> ops_db
      \<Rightarrow> ops_db \<times> (sql_error, int) result" where
  "insert_notification flt kind agent_id level title body created_at d =
     (let i = od_note_seq d + 1
      in stmt flt ''insert_notification'' i
           (d\<lparr>od_notes := od_notes d @ [\<lparr>nt_id = i, nt_kind = kind, nt_agent_id = agent_id, nt_level = level,
                nt_title = title, nt_body = body, nt_created_at = created_at, nt_read_at = None\<rparr>],
              od_note_seq := i\<rparr>) d)"

definition list_notifications :: "fault \<Rightarrow> nat \<Rightarrow> bool \<Rightarrow> ops_db \<Rightarrow> (sql_error, NotificationRow list) result" where
  "list_notifications flt limit only_unread d =
     query flt ''list_notifications''
       (take limit (rev (sort_key (\<lambda>r. (nt_created_at r, nt_id r))
          (filter (\<lambda>r. only_unread \<longrightarrow> nt_read_at r = None) (od_notes d)))))"

definition unread_notification_count :: "fault \<Rightarrow> ops_db \<Rightarrow> (sql_error, nat) result" where
  "unread_notification_count flt d =
     query flt ''unread_notification_count'' (rows_affected (\<lambda>r. nt_read_at r = None) (od_notes d))"

definition mark_notification_read :: "fault \<Rightarrow> int \<Rightarrow> int \<Rightarrow> ops_db \<Rightarrow> ops_db \<times> (sql_error, bool) result" where
  "mark_notification_read flt i now d =
     (let P = (\<lambda>r. nt_id r = i \<and> nt_read_at r = None)
      in stmt flt ''mark_notification_read'' (rows_affected P (od_notes d) > 0)
           (d\<lparr>od_notes := sql_update P (\<lambda>r. r\<lparr>nt_read_at := Some now\<rparr>) (od_notes d)\<rparr>) d)"

definition mark_all_notifications_read :: "fault \<Rightarrow> int \<Rightarrow> ops_db \<Rightarrow> ops_db \<times> (sql_error, nat) result" where
  "mark_all_notifications_read flt now d =
     (let P = (\<lambda>r. nt_read_at r = None)
      in stmt flt ''mark_all_notifications_read'' (rows_affected P (od_notes d))
           (d\<lparr>od_notes := sql_update P (\<lambda>r. r\<lparr>nt_read_at := Some now\<rparr>) (od_notes d)\<rparr>) d)"

definition delete_notification :: "fault \<Rightarrow> int \<Rightarrow> ops_db \<Rightarrow> ops_db \<times> (sql_error, bool) result" where
  "delete_notification flt i d =
     (let P = (\<lambda>r. nt_id r = i)
      in stmt flt ''delete_notification'' (rows_affected P (od_notes d) > 0)
           (d\<lparr>od_notes := sql_delete P (od_notes d)\<rparr>) d)"

text \<open>\<open>notifications::notify\<close>: a failure is only logged.\<close>

definition notify ::
    "fault \<Rightarrow> int \<Rightarrow> string \<Rightarrow> string option \<Rightarrow> string \<Rightarrow> string \<Rightarrow> string option \<Rightarrow> ops_db \<Rightarrow> ops_db" where
  "notify flt now kind agent_id level title body d = fst (insert_notification flt kind agent_id level title body now d)"

section \<open>Labels\<close>

definition list_all_labels :: "fault \<Rightarrow> ops_db \<Rightarrow> (sql_error, (string \<times> string) list) result" where
  "list_all_labels flt d = query flt ''list_all_labels'' (sort_key id (od_labels d))"

definition agents_for_label :: "fault \<Rightarrow> ops_db \<Rightarrow> string \<Rightarrow> (sql_error, string list) result" where
  "agents_for_label flt d label =
     query flt ''agents_for_label'' (sort_key id (map fst (filter (\<lambda>r. snd r = label) (od_labels d))))"

definition add_label :: "fault \<Rightarrow> string \<Rightarrow> string \<Rightarrow> ops_db \<Rightarrow> ops_db \<times> (sql_error, unit) result" where
  "add_label flt agent_id label d =
     stmt flt ''add_label'' () (d\<lparr>od_labels := sql_insert_or_ignore id (agent_id, label) (od_labels d)\<rparr>) d"

definition remove_label :: "fault \<Rightarrow> string \<Rightarrow> string \<Rightarrow> ops_db \<Rightarrow> ops_db \<times> (sql_error, bool) result" where
  "remove_label flt agent_id label d =
     (let P = (\<lambda>r. r = (agent_id, label))
      in stmt flt ''remove_label'' (rows_affected P (od_labels d) > 0)
           (d\<lparr>od_labels := sql_delete P (od_labels d)\<rparr>) d)"

section \<open>Backup jobs\<close>

definition list_backup_jobs :: "fault \<Rightarrow> ops_db \<Rightarrow> (sql_error, BackupJobRow list) result" where
  "list_backup_jobs flt d = query flt ''list_backup_jobs'' (sort_key (\<lambda>r. (bj_agent_id r, bj_name r)) (od_jobs d))"

definition get_backup_job :: "fault \<Rightarrow> ops_db \<Rightarrow> int \<Rightarrow> (sql_error, BackupJobRow option) result" where
  "get_backup_job flt d i = query flt ''get_backup_job'' (sql_fetch_optional (\<lambda>r. bj_id r = i) (od_jobs d))"

definition upsert_backup_job ::
    "fault \<Rightarrow> string \<Rightarrow> string \<Rightarrow> string \<Rightarrow> string \<Rightarrow> string option \<Rightarrow> bool \<Rightarrow> string \<Rightarrow> int \<Rightarrow> ops_db
      \<Rightarrow> ops_db \<times> (sql_error, int) result" where
  "upsert_backup_job flt agent_id name paths_json dest cron_expr enabled mode now d =
     (if flt ''upsert_backup_job'' then (d, Inl Sql_Error)
      else
        (let key = (\<lambda>r. (bj_agent_id r, bj_name r));
             new = \<lparr>bj_id = od_job_seq d + 1, bj_agent_id = agent_id, bj_name = name, bj_paths_json = paths_json,
                    bj_dest = dest, bj_cron_expr = cron_expr, bj_enabled = sql_bool enabled, bj_last_run_at = 0,
                    bj_last_status = None, bj_last_archive_path = None, bj_last_bytes = None, bj_last_log = None,
                    bj_updated_at = now, bj_mode = mode\<rparr>;
             d1 = d\<lparr>od_jobs := sql_upsert key new
                      (\<lambda>r. r\<lparr>bj_paths_json := paths_json, bj_dest := dest, bj_cron_expr := cron_expr,
                             bj_enabled := sql_bool enabled, bj_mode := mode, bj_updated_at := now\<rparr>) (od_jobs d),
                    od_job_seq := (if key new \<in> key ` set (od_jobs d) then od_job_seq d else od_job_seq d + 1)\<rparr>
         in case sql_fetch_optional (\<lambda>r. key r = (agent_id, name)) (od_jobs d1) of
              Some r \<Rightarrow> if flt ''upsert_backup_job.id'' then (d1, Inl Sql_Error) else (d1, Inr (bj_id r))
            | None \<Rightarrow> (d1, Inl Sql_Error)))"

definition delete_backup_job :: "fault \<Rightarrow> int \<Rightarrow> ops_db \<Rightarrow> ops_db \<times> (sql_error, bool) result" where
  "delete_backup_job flt i d =
     (let P = (\<lambda>r. bj_id r = i)
      in stmt flt ''delete_backup_job'' (rows_affected P (od_jobs d) > 0) (d\<lparr>od_jobs := sql_delete P (od_jobs d)\<rparr>) d)"

definition record_backup_job_result ::
    "fault \<Rightarrow> int \<Rightarrow> int \<Rightarrow> string \<Rightarrow> string \<Rightarrow> int \<Rightarrow> string \<Rightarrow> ops_db \<Rightarrow> ops_db \<times> (sql_error, unit) result" where
  "record_backup_job_result flt i last_run_at last_status last_archive_path last_bytes last_log d =
     stmt flt ''record_backup_job_result'' ()
       (d\<lparr>od_jobs := sql_update (\<lambda>r. bj_id r = i)
          (\<lambda>r. r\<lparr>bj_last_run_at := last_run_at, bj_last_status := Some last_status,
                 bj_last_archive_path := Some last_archive_path, bj_last_bytes := Some last_bytes,
                 bj_last_log := Some last_log\<rparr>)
          (od_jobs d)\<rparr>) d"

end
