(* ===== verification/Fleet_Core.thy ===== *)
theory Fleet_Core
  imports Wire_Protocol "HOL-Library.List_Lexorder" "HOL-Library.Char_ord"
begin

text \<open>
  \<open>server/src/core\<close>: the durable picture of the fleet. \<open>repository.rs\<close> keeps one row per host and
  one snapshot per host and kind; \<open>ingest.rs\<close> feeds it from agent connections and messages and
  publishes an event per change (\<open>events.rs\<close>); \<open>collector.rs\<close> says what the server polls for; the
  answer types are those of \<open>shared/src/fleet.rs\<close>.

  JSON is the record \<open>fleet_json\<close>; a fault oracle names the statements that fail. Shown: the tables
  refine a map from agents to what is known of them, and the fleet answer is that map, one entry per
  host in name order, with the status the timestamps give.
\<close>

section \<open>Answer types\<close>

datatype ConnectionStatus = Online | Offline

record 'j SnapshotValue =
  sv_observed_at :: int
  sv_value :: 'j

record 'j FleetHost =
  fh_agent_id :: string
  fh_hostname :: string
  fh_status :: ConnectionStatus
  fh_protocol_version :: u32
  fh_capabilities :: "string list"
  fh_metadata :: "string \<rightharpoonup> string"
  fh_first_seen_at :: int
  fh_last_seen_at :: int
  fh_disconnected_at :: "int option"
  fh_system :: "'j SnapshotValue option"
  fh_services :: "'j SnapshotValue option"
  fh_docker :: "'j SnapshotValue option"
  fh_swarm :: "'j SnapshotValue option"

record 'j FleetResponse =
  fr_generated_at :: int
  fr_offline_after_seconds :: int
  fr_hosts :: "'j FleetHost list"

datatype CoreEventKind = HostConnected | HostDisconnected | HostUpdated | ResyncRequired

record CoreEvent =
  ev_id :: u64
  ev_kind :: CoreEventKind
  ev_agent_id :: "string option"
  ev_observed_at :: int

datatype SnapshotKind = Kind_System | Kind_Services | Kind_Docker | Kind_Swarm

definition kind_as_str :: "SnapshotKind \<Rightarrow> string" where
  "kind_as_str k = (case k of Kind_System \<Rightarrow> ''system'' | Kind_Services \<Rightarrow> ''services''
     | Kind_Docker \<Rightarrow> ''docker'' | Kind_Swarm \<Rightarrow> ''swarm'')"

section \<open>Tables\<close>

definition OFFLINE_AFTER_SECONDS :: int where "OFFLINE_AFTER_SECONDS = 45"

record HostRow =
  hr_agent_id :: string
  hr_hostname :: string
  hr_protocol_version :: int
  hr_capabilities_json :: string
  hr_metadata_json :: string
  hr_first_seen_at :: int
  hr_last_seen_at :: int
  hr_disconnected_at :: "int option"

record SnapshotRow =
  sr_agent_id :: string
  sr_kind :: string
  sr_observed_at :: int
  sr_payload_json :: string

record fleet_db =
  core_hosts :: "HostRow table"
  core_snapshots :: "SnapshotRow table"

text \<open>\<open>serde_json\<close> on the three stored types, and \<open>to_value\<close> on messages.\<close>

record 'j fleet_json =
  enc_caps :: "string list \<Rightarrow> string option"
  dec_caps :: "string \<Rightarrow> string list option"
  enc_meta :: "(string \<rightharpoonup> string) \<Rightarrow> string option"
  dec_meta :: "string \<Rightarrow> (string \<rightharpoonup> string) option"
  enc_value :: "'j \<Rightarrow> string option"
  dec_value :: "string \<Rightarrow> 'j option"
  to_value :: "Message \<Rightarrow> 'j option"

text \<open>\<open>u32::try_from\<close>.\<close>

definition decode_protocol_version :: "int \<Rightarrow> (sql_error, u32) result" where
  "decode_protocol_version v = (if 0 \<le> v \<and> v < 2 ^ 32 then Inr (word_of_int v) else Inl Sql_Error)"

definition by_agent :: "string \<Rightarrow> HostRow \<Rightarrow> bool" where
  "by_agent agent_id r \<longleftrightarrow> hr_agent_id r = agent_id"

definition fails :: "fault \<Rightarrow> string \<Rightarrow> (sql_error, unit) result" where
  "fails flt stmt = ensure (\<not> flt stmt) Sql_Error"

section \<open>Statements\<close>

definition upsert_connected ::
    "'j fleet_json \<Rightarrow> fault \<Rightarrow> string \<Rightarrow> string \<Rightarrow> u32 \<Rightarrow> string list \<Rightarrow> (string \<rightharpoonup> string) \<Rightarrow> int
      \<Rightarrow> fleet_db \<Rightarrow> (sql_error, fleet_db) result" where
  "upsert_connected J flt agent_id hostname protocol_version capabilities metadata now db =
     try_bind (ok_or (enc_caps J capabilities) Sql_Error) (\<lambda>capabilities_json.
     try_bind (ok_or (enc_meta J metadata) Sql_Error) (\<lambda>metadata_json.
     try_bind (fails flt ''upsert_connected'') (\<lambda>_.
     Inr (db\<lparr>core_hosts :=
       sql_upsert hr_agent_id
         \<lparr>hr_agent_id = agent_id, hr_hostname = hostname, hr_protocol_version = uint protocol_version,
          hr_capabilities_json = capabilities_json, hr_metadata_json = metadata_json,
          hr_first_seen_at = now, hr_last_seen_at = now, hr_disconnected_at = None\<rparr>
         (\<lambda>r. r\<lparr>hr_hostname := hostname, hr_protocol_version := uint protocol_version,
                hr_capabilities_json := capabilities_json, hr_metadata_json := metadata_json,
                hr_last_seen_at := now, hr_disconnected_at := None\<rparr>)
         (core_hosts db)\<rparr>))))"

definition touch :: "fault \<Rightarrow> string \<Rightarrow> int \<Rightarrow> fleet_db \<Rightarrow> (sql_error, fleet_db) result" where
  "touch flt agent_id now db =
     try_bind (fails flt ''touch'') (\<lambda>_.
     Inr (db\<lparr>core_hosts := sql_update (by_agent agent_id)
       (\<lambda>r. r\<lparr>hr_last_seen_at := now, hr_disconnected_at := None\<rparr>) (core_hosts db)\<rparr>))"

definition update_capabilities ::
    "'j fleet_json \<Rightarrow> fault \<Rightarrow> string \<Rightarrow> string list \<Rightarrow> int \<Rightarrow> fleet_db \<Rightarrow> (sql_error, fleet_db) result" where
  "update_capabilities J flt agent_id capabilities now db =
     try_bind (ok_or (enc_caps J capabilities) Sql_Error) (\<lambda>capabilities_json.
     try_bind (fails flt ''update_capabilities'') (\<lambda>_.
     Inr (db\<lparr>core_hosts := sql_update (by_agent agent_id)
       (\<lambda>r. r\<lparr>hr_capabilities_json := capabilities_json, hr_last_seen_at := now\<rparr>) (core_hosts db)\<rparr>)))"

definition mark_disconnected :: "fault \<Rightarrow> string \<Rightarrow> int \<Rightarrow> fleet_db \<Rightarrow> (sql_error, fleet_db) result" where
  "mark_disconnected flt agent_id now db =
     try_bind (fails flt ''mark_disconnected'') (\<lambda>_.
     Inr (db\<lparr>core_hosts := sql_update (by_agent agent_id)
       (\<lambda>r. r\<lparr>hr_disconnected_at := Some now\<rparr>) (core_hosts db)\<rparr>))"

definition mark_all_disconnected :: "fault \<Rightarrow> int \<Rightarrow> fleet_db \<Rightarrow> (sql_error, fleet_db) result" where
  "mark_all_disconnected flt now db =
     try_bind (fails flt ''mark_all_disconnected'') (\<lambda>_.
     Inr (db\<lparr>core_hosts := sql_update (\<lambda>r. hr_disconnected_at r = None)
       (\<lambda>r. r\<lparr>hr_disconnected_at := Some now\<rparr>) (core_hosts db)\<rparr>))"

text \<open>The foreign key: a snapshot needs its host's row.\<close>

definition put_snapshot ::
    "'j fleet_json \<Rightarrow> fault \<Rightarrow> string \<Rightarrow> SnapshotKind \<Rightarrow> 'j \<Rightarrow> int \<Rightarrow> fleet_db \<Rightarrow> (sql_error, fleet_db) result" where
  "put_snapshot J flt agent_id kind payload observed_at db =
     try_bind (ok_or (enc_value J payload) Sql_Error) (\<lambda>payload_json.
     try_bind (fails flt ''put_snapshot'') (\<lambda>_.
     try_bind (ensure (\<exists>r\<in>set (core_hosts db). by_agent agent_id r) Sql_Error) (\<lambda>_.
     Inr (db\<lparr>core_snapshots :=
       sql_upsert (\<lambda>s. (sr_agent_id s, sr_kind s))
         \<lparr>sr_agent_id = agent_id, sr_kind = kind_as_str kind, sr_observed_at = observed_at,
          sr_payload_json = payload_json\<rparr>
         (\<lambda>s. if observed_at \<ge> sr_observed_at s
              then s\<lparr>sr_observed_at := observed_at, sr_payload_json := payload_json\<rparr> else s)
         (core_snapshots db)\<rparr>))))"

section \<open>The fleet answer\<close>

text \<open>The snapshots of a host by kind; a payload that does not decode fails the whole query.\<close>

fun collect_snapshots ::
    "'j fleet_json \<Rightarrow> SnapshotRow list \<Rightarrow> (string \<times> string \<rightharpoonup> 'j SnapshotValue)
      \<Rightarrow> (sql_error, string \<times> string \<rightharpoonup> 'j SnapshotValue) result" where
  "collect_snapshots J [] m = Inr m"
| "collect_snapshots J (row # rows) m =
     try_bind (ok_or (dec_value J (sr_payload_json row)) Sql_Error) (\<lambda>v.
     collect_snapshots J rows
       (m((sr_agent_id row, sr_kind row) \<mapsto> \<lparr>sv_observed_at = sr_observed_at row, sv_value = v\<rparr>)))"

text \<open>\<open>saturating_sub\<close> on \<open>i64\<close>.\<close>

definition i64_sat_sub :: "int \<Rightarrow> int \<Rightarrow> int" where
  "i64_sat_sub a b = min (2 ^ 63 - 1) (max (- (2 ^ 63)) (a - b))"

definition status_of :: "int \<Rightarrow> HostRow \<Rightarrow> ConnectionStatus" where
  "status_of now row =
     (if hr_disconnected_at row = None \<and> i64_sat_sub now (hr_last_seen_at row) \<le> OFFLINE_AFTER_SECONDS
      then Online else Offline)"

definition to_host ::
    "'j fleet_json \<Rightarrow> int \<Rightarrow> (string \<times> string \<rightharpoonup> 'j SnapshotValue) \<Rightarrow> HostRow \<Rightarrow> (sql_error, 'j FleetHost) result" where
  "to_host J now snaps row =
     try_bind (decode_protocol_version (hr_protocol_version row)) (\<lambda>v.
     try_bind (ok_or (dec_caps J (hr_capabilities_json row)) Sql_Error) (\<lambda>caps.
     try_bind (ok_or (dec_meta J (hr_metadata_json row)) Sql_Error) (\<lambda>meta.
     Inr \<lparr>fh_agent_id = hr_agent_id row, fh_hostname = hr_hostname row, fh_status = status_of now row,
          fh_protocol_version = v, fh_capabilities = caps, fh_metadata = meta,
          fh_first_seen_at = hr_first_seen_at row, fh_last_seen_at = hr_last_seen_at row,
          fh_disconnected_at = hr_disconnected_at row,
          fh_system = snaps (hr_agent_id row, ''system''), fh_services = snaps (hr_agent_id row, ''services''),
          fh_docker = snaps (hr_agent_id row, ''docker''), fh_swarm = snaps (hr_agent_id row, ''swarm'')\<rparr>)))"

fun map_result :: "('a \<Rightarrow> ('e, 'b) result) \<Rightarrow> 'a list \<Rightarrow> ('e, 'b list) result" where
  "map_result f [] = Inr []"
| "map_result f (x # xs) = try_bind (f x) (\<lambda>y. try_bind (map_result f xs) (\<lambda>ys. Inr (y # ys)))"

definition list_fleet ::
    "'j fleet_json \<Rightarrow> fault \<Rightarrow> int \<Rightarrow> fleet_db \<Rightarrow> (sql_error, 'j FleetResponse) result" where
  "list_fleet J flt now db =
     try_bind (fails flt ''list_hosts'') (\<lambda>_.
     try_bind (fails flt ''list_snapshots'') (\<lambda>_.
     try_bind (collect_snapshots J (core_snapshots db) Map.empty) (\<lambda>snaps.
     try_bind (map_result (to_host J now snaps)
       (sort_key (\<lambda>r. to_ascii_lowercase (hr_hostname r)) (core_hosts db))) (\<lambda>hosts.
     Inr \<lparr>fr_generated_at = now, fr_offline_after_seconds = OFFLINE_AFTER_SECONDS, fr_hosts = hosts\<rparr>))))"

definition fleet_handler :: "'j fleet_json \<Rightarrow> fault \<Rightarrow> int \<Rightarrow> fleet_db \<Rightarrow> (http_error, 'j FleetResponse) result" where
  "fleet_handler J flt now db =
     (case list_fleet J flt now db of Inr fleet \<Rightarrow> Inr fleet
      | Inl _ \<Rightarrow> Inl (500, ''fleet repository unavailable''))"

section \<open>Events and ingestion\<close>

record CoreEventBus =
  next_id :: u64
  published :: "CoreEvent list"

definition publish :: "CoreEventKind \<Rightarrow> string option \<Rightarrow> int \<Rightarrow> CoreEventBus \<Rightarrow> CoreEventBus" where
  "publish kind agent_id observed_at bus =
     \<lparr>next_id = next_id bus + 1,
      published = published bus @
        [\<lparr>ev_id = next_id bus + 1, ev_kind = kind, ev_agent_id = agent_id, ev_observed_at = observed_at\<rparr>]\<rparr>"

record fleet =
  fl_db :: fleet_db
  fl_events :: CoreEventBus

text \<open>Run a statement; on success publish the event, on failure keep everything and report it.\<close>

definition committed ::
    "(sql_error, fleet_db) result \<Rightarrow> (CoreEventBus \<Rightarrow> CoreEventBus) \<Rightarrow> fleet \<Rightarrow> fleet \<times> bool" where
  "committed r announce s =
     (case r of Inl _ \<Rightarrow> (s, False) | Inr db \<Rightarrow> (\<lparr>fl_db = db, fl_events = announce (fl_events s)\<rparr>, True))"

definition connected ::
    "'j fleet_json \<Rightarrow> fault \<Rightarrow> string \<Rightarrow> string \<Rightarrow> u32 \<Rightarrow> string list \<Rightarrow> (string \<rightharpoonup> string) \<Rightarrow> int
      \<Rightarrow> fleet \<Rightarrow> fleet \<times> bool" where
  "connected J flt agent_id hostname protocol_version capabilities metadata now s =
     committed (upsert_connected J flt agent_id hostname protocol_version capabilities metadata now (fl_db s))
       (publish HostConnected (Some agent_id) now) s"

definition capabilities_updated ::
    "'j fleet_json \<Rightarrow> fault \<Rightarrow> string \<Rightarrow> string list \<Rightarrow> int \<Rightarrow> fleet \<Rightarrow> fleet \<times> bool" where
  "capabilities_updated J flt agent_id capabilities now s =
     committed (update_capabilities J flt agent_id capabilities now (fl_db s))
       (publish HostUpdated (Some agent_id) now) s"

definition ingest_touch :: "fault \<Rightarrow> string \<Rightarrow> int \<Rightarrow> fleet \<Rightarrow> fleet \<times> bool" where
  "ingest_touch flt agent_id now s =
     committed (touch flt agent_id now (fl_db s)) (publish HostUpdated (Some agent_id) now) s"

fun snapshot_kind :: "Message \<Rightarrow> SnapshotKind option" where
  "snapshot_kind (Host (SystemStatsResponse _ _ _ _ _ _ _ _ _ _ _ _ _)) = Some Kind_System"
| "snapshot_kind (Systemd (ListServicesResponse _)) = Some Kind_Services"
| "snapshot_kind (Host (DockerListResponse _ _ _ _)) = Some Kind_Docker"
| "snapshot_kind (Host (SwarmListResponse _ _ _ _ _)) = Some Kind_Swarm"
| "snapshot_kind _ = None"

text \<open>The touch is committed before the snapshot, and stays when the snapshot fails.\<close>

definition ingest_message :: "'j fleet_json \<Rightarrow> fault \<Rightarrow> string \<Rightarrow> Message \<Rightarrow> int \<Rightarrow> fleet \<Rightarrow> fleet \<times> bool" where
  "ingest_message J flt agent_id msg now s =
     (case committed (touch flt agent_id now (fl_db s)) id s of
        (s1, False) \<Rightarrow> (s1, False)
      | (s1, True) \<Rightarrow>
          (case snapshot_kind msg of None \<Rightarrow> (s1, True)
           | Some kind \<Rightarrow>
               (case to_value J msg of None \<Rightarrow> (s1, False)
                | Some payload \<Rightarrow>
                    committed (put_snapshot J flt agent_id kind payload now (fl_db s1))
                      (publish HostUpdated (Some agent_id) now) s1)))"

definition disconnected :: "fault \<Rightarrow> string \<Rightarrow> int \<Rightarrow> fleet \<Rightarrow> fleet \<times> bool" where
  "disconnected flt agent_id now s =
     committed (mark_disconnected flt agent_id now (fl_db s)) (publish HostDisconnected (Some agent_id) now) s"

section \<open>The collector\<close>

definition collection_requests :: "string list \<Rightarrow> Message list" where
  "collection_requests capabilities =
     (let legacy = (capabilities = []); has = (\<lambda>v. v \<in> set capabilities)
      in [Host SystemStatsRequest]
         @ (if legacy \<or> has ''systemd'' then [Systemd ListServicesRequest] else [])
         @ (if legacy \<or> has ''docker'' then [Host DockerListRequest] else [])
         @ (if legacy \<or> has ''swarm'' then [Host SwarmListRequest] else []))"

text \<open>One tick: what is sent on each live agent's channel.\<close>

definition collector_tick :: "('chan \<times> string list) list \<Rightarrow> ('chan \<times> Message) list" where
  "collector_tick agents =
     concat (map (\<lambda>(tx, capabilities). map (Pair tx) (collection_requests capabilities)) agents)"

section \<open>The abstract fleet\<close>

text \<open>What is known of a host, and the fleet as a map from agent ids to it.\<close>

record 'j host_view =
  hv_hostname :: string
  hv_version :: u32
  hv_caps :: "string list"
  hv_meta :: "string \<rightharpoonup> string"
  hv_first :: int
  hv_last :: int
  hv_gone :: "int option"
  hv_snaps :: "SnapshotKind \<rightharpoonup> 'j SnapshotValue"

type_synonym 'j fleet_view = "string \<rightharpoonup> 'j host_view"

datatype 'j repo_op =
    Upsert string string u32 "string list" "string \<rightharpoonup> string" int
  | Touch string int
  | UpdateCaps string "string list" int
  | MarkGone string int
  | MarkAllGone int
  | PutSnap string SnapshotKind 'j int

definition known :: "string \<Rightarrow> ('j host_view \<Rightarrow> 'j host_view) \<Rightarrow> 'j fleet_view \<Rightarrow> 'j fleet_view" where
  "known a f v = v(a := map_option f (v a))"

definition keep_newest ::
    "SnapshotKind \<Rightarrow> 'j \<Rightarrow> int \<Rightarrow> (SnapshotKind \<rightharpoonup> 'j SnapshotValue) \<Rightarrow> (SnapshotKind \<rightharpoonup> 'j SnapshotValue)" where
  "keep_newest k x t m =
     (if \<exists>old. m k = Some old \<and> t < sv_observed_at old then m
      else m(k \<mapsto> \<lparr>sv_observed_at = t, sv_value = x\<rparr>))"

fun spec_op :: "'j repo_op \<Rightarrow> 'j fleet_view \<Rightarrow> 'j fleet_view" where
  "spec_op (Upsert a h ver caps meta now) v =
     v(a \<mapsto> (case v a of
       None \<Rightarrow> \<lparr>hv_hostname = h, hv_version = ver, hv_caps = caps, hv_meta = meta, hv_first = now,
               hv_last = now, hv_gone = None, hv_snaps = Map.empty\<rparr>
     | Some x \<Rightarrow> x\<lparr>hv_hostname := h, hv_version := ver, hv_caps := caps, hv_meta := meta,
               hv_last := now, hv_gone := None\<rparr>))"
| "spec_op (Touch a now) v = known a (\<lambda>x. x\<lparr>hv_last := now, hv_gone := None\<rparr>) v"
| "spec_op (UpdateCaps a caps now) v = known a (\<lambda>x. x\<lparr>hv_caps := caps, hv_last := now\<rparr>) v"
| "spec_op (MarkGone a now) v = known a (\<lambda>x. x\<lparr>hv_gone := Some now\<rparr>) v"
| "spec_op (MarkAllGone now) v = (\<lambda>a. map_option (\<lambda>x. if hv_gone x = None then x\<lparr>hv_gone := Some now\<rparr> else x) (v a))"
| "spec_op (PutSnap a k x t) v = known a (\<lambda>h. h\<lparr>hv_snaps := keep_newest k x t (hv_snaps h)\<rparr>) v"

fun repo_exec :: "'j fleet_json \<Rightarrow> fault \<Rightarrow> 'j repo_op \<Rightarrow> fleet_db \<Rightarrow> (sql_error, fleet_db) result" where
  "repo_exec J flt (Upsert a h ver caps meta now) db = upsert_connected J flt a h ver caps meta now db"
| "repo_exec J flt (Touch a now) db = touch flt a now db"
| "repo_exec J flt (UpdateCaps a caps now) db = update_capabilities J flt a caps now db"
| "repo_exec J flt (MarkGone a now) db = mark_disconnected flt a now db"
| "repo_exec J flt (MarkAllGone now) db = mark_all_disconnected flt now db"
| "repo_exec J flt (PutSnap a k x t) db = put_snapshot J flt a k x t db"

text \<open>A run, and the statements of it that were committed.\<close>

fun run_repo :: "'j fleet_json \<Rightarrow> (fault \<times> 'j repo_op) list \<Rightarrow> fleet_db \<Rightarrow> fleet_db" where
  "run_repo J [] db = db"
| "run_repo J ((flt, op) # ops) db =
     (case repo_exec J flt op db of Inl _ \<Rightarrow> run_repo J ops db | Inr db' \<Rightarrow> run_repo J ops db')"

fun landed :: "'j fleet_json \<Rightarrow> (fault \<times> 'j repo_op) list \<Rightarrow> fleet_db \<Rightarrow> 'j repo_op list" where
  "landed J [] db = []"
| "landed J ((flt, op) # ops) db =
     (case repo_exec J flt op db of Inl _ \<Rightarrow> landed J ops db | Inr db' \<Rightarrow> op # landed J ops db')"

section \<open>Abstraction and invariant\<close>

definition snap_key :: "SnapshotRow \<Rightarrow> string \<times> string" where
  "snap_key s = (sr_agent_id s, sr_kind s)"

definition snap_value :: "'j fleet_json \<Rightarrow> SnapshotRow \<Rightarrow> 'j SnapshotValue" where
  "snap_value J s = \<lparr>sv_observed_at = sr_observed_at s, sv_value = the (dec_value J (sr_payload_json s))\<rparr>"

definition snap_at :: "'j fleet_json \<Rightarrow> fleet_db \<Rightarrow> string \<times> string \<rightharpoonup> 'j SnapshotValue" where
  "snap_at J db k = map_option (snap_value J) (find (\<lambda>s. snap_key s = k) (core_snapshots db))"

definition view_of :: "'j fleet_json \<Rightarrow> fleet_db \<Rightarrow> HostRow \<Rightarrow> 'j host_view" where
  "view_of J db r =
     \<lparr>hv_hostname = hr_hostname r, hv_version = word_of_int (hr_protocol_version r),
      hv_caps = the (dec_caps J (hr_capabilities_json r)), hv_meta = the (dec_meta J (hr_metadata_json r)),
      hv_first = hr_first_seen_at r, hv_last = hr_last_seen_at r, hv_gone = hr_disconnected_at r,
      hv_snaps = (\<lambda>k. snap_at J db (hr_agent_id r, kind_as_str k))\<rparr>"

definition abs_fleet :: "'j fleet_json \<Rightarrow> fleet_db \<Rightarrow> 'j fleet_view" where
  "abs_fleet J db a = map_option (view_of J db) (find (by_agent a) (core_hosts db))"

definition host_row_ok :: "'j fleet_json \<Rightarrow> HostRow \<Rightarrow> bool" where
  "host_row_ok J r \<longleftrightarrow> 0 \<le> hr_protocol_version r \<and> hr_protocol_version r < 2 ^ 32 \<and>
     dec_caps J (hr_capabilities_json r) \<noteq> None \<and> dec_meta J (hr_metadata_json r) \<noteq> None"

definition fleet_wf :: "'j fleet_json \<Rightarrow> fleet_db \<Rightarrow> bool" where
  "fleet_wf J db \<longleftrightarrow>
     keyed hr_agent_id (core_hosts db) \<and> keyed snap_key (core_snapshots db) \<and>
     (\<forall>r\<in>set (core_hosts db). host_row_ok J r) \<and>
     (\<forall>s\<in>set (core_snapshots db). dec_value J (sr_payload_json s) \<noteq> None \<and>
        (\<exists>r\<in>set (core_hosts db). hr_agent_id r = sr_agent_id s))"

definition json_roundtrip :: "'j fleet_json \<Rightarrow> bool" where
  "json_roundtrip J \<longleftrightarrow>
     (\<forall>x s. enc_caps J x = Some s \<longrightarrow> dec_caps J s = Some x) \<and>
     (\<forall>x s. enc_meta J x = Some s \<longrightarrow> dec_meta J s = Some x) \<and>
     (\<forall>x s. enc_value J x = Some s \<longrightarrow> dec_value J s = Some x)"

definition empty_fleet :: fleet_db where
  "empty_fleet = \<lparr>core_hosts = [], core_snapshots = []\<rparr>"

section \<open>Lemmas on keyed tables\<close>

lemma find_update:
  assumes "\<And>r. key (f r) = key r"
  shows "find (\<lambda>r. key r = a) (map (\<lambda>r. if P r then f r else r) t) =
    map_option (\<lambda>r. if P r then f r else r) (find (\<lambda>r. key r = a) t)"
  by (induction t) (auto simp: assms)

lemma find_upsert:
  assumes "\<And>r. key (f r) = key r"
  shows "find (\<lambda>r. key r = a) (sql_upsert key x f t) =
    (if key x = a then Some (case find (\<lambda>r. key r = a) t of None \<Rightarrow> x | Some r \<Rightarrow> f r)
     else find (\<lambda>r. key r = a) t)"
proof -
  have app: "find P (t @ [x]) = (case find P t of None \<Rightarrow> if P x then Some x else None | Some r \<Rightarrow> Some r)"
    for P :: "'a \<Rightarrow> bool" by (induction t) auto
  show ?thesis
  proof (cases "key x \<in> key ` set t")
    case True
    have "find (\<lambda>r. key r = a) (sql_upsert key x f t) =
        map_option (\<lambda>r. if key r = key x then f r else r) (find (\<lambda>r. key r = a) t)"
      using True find_update [of key f a "\<lambda>r. key r = key x"] assms by (simp add: sql_upsert_def)
    moreover have "key x = a \<Longrightarrow> find (\<lambda>r. key r = a) t \<noteq> None" using True by (auto simp: find_None_iff)
    moreover have "find (\<lambda>r. key r = a) t = Some r \<Longrightarrow> key r = a" for r
      by (auto simp: find_Some_iff)
    ultimately show ?thesis by (cases "find (\<lambda>r. key r = a) t") auto
  next
    case False
    then have "find (\<lambda>r. key r = key x) t = None" by (metis (mono_tags, lifting) find_None_iff imageI)
    then show ?thesis using False by (auto simp: sql_upsert_def app split: option.split)
  qed
qed

lemma upsert_keys:
  assumes "\<And>r. key (f r) = key r"
  shows "key ` set (sql_upsert key x f t) = insert (key x) (key ` set t)"
proof (cases "key x \<in> key ` set t")
  case True
  have "map key (map (\<lambda>r. if key r = key x then f r else r) t) = map key t" using assms by simp
  then have "key ` set (map (\<lambda>r. if key r = key x then f r else r) t) = key ` set t" by (metis list.set_map)
  then show ?thesis using True by (simp add: sql_upsert_def insert_absorb)
qed (simp add: sql_upsert_def)

lemma update_keys:
  assumes "\<And>r. key (f r) = key r"
  shows "key ` set (sql_update P f t) = key ` set t"
proof -
  have "map key (sql_update P f t) = map key t" using assms by (simp add: sql_update_def)
  then show ?thesis by (metis list.set_map)
qed

lemma set_upsert: "set (sql_upsert key x f t) \<subseteq> insert x (set t \<union> f ` set t)"
  by (auto simp: sql_upsert_def)

lemma ex_key: "(\<exists>r\<in>set t. key r = i) \<longleftrightarrow> i \<in> key ` set t"
  by auto

lemma view_of_hosts [simp]: "view_of J (db\<lparr>core_hosts := h\<rparr>) = view_of J db"
  by (simp add: fun_eq_iff view_of_def snap_at_def)

lemma abs_host_update:
  assumes "\<And>r. hr_agent_id (f r) = hr_agent_id r"
  shows "abs_fleet J (db\<lparr>core_hosts := sql_update P f (core_hosts db)\<rparr>) a =
    map_option (\<lambda>r. view_of J db (if P r then f r else r)) (find (by_agent a) (core_hosts db))"
  using find_update [of hr_agent_id f a P "core_hosts db"] assms
  by (simp add: abs_fleet_def by_agent_def [abs_def] sql_update_def option.map_comp comp_def)

lemma find_agent: "find (by_agent a) t = Some r \<Longrightarrow> hr_agent_id r = a"
  by (auto simp: find_Some_iff by_agent_def)

lemma abs_known_update:
  assumes "\<And>r. hr_agent_id (f r) = hr_agent_id r" and "\<And>r. view_of J db (f r) = g (view_of J db r)"
  shows "abs_fleet J (db\<lparr>core_hosts := sql_update (by_agent a) f (core_hosts db)\<rparr>) = known a g (abs_fleet J db)"
proof
  fix b
  show "abs_fleet J (db\<lparr>core_hosts := sql_update (by_agent a) f (core_hosts db)\<rparr>) b = known a g (abs_fleet J db) b"
    unfolding abs_host_update [of f, OF assms(1)]
    using assms(2) find_agent [of b "core_hosts db"]
    by (cases "find (by_agent b) (core_hosts db)") (auto simp: known_def abs_fleet_def by_agent_def)
qed

lemma wf_host_update:
  assumes "fleet_wf J db" and id: "\<And>r. hr_agent_id (f r) = hr_agent_id r"
    and ok: "\<And>r. host_row_ok J r \<Longrightarrow> host_row_ok J (f r)"
  shows "fleet_wf J (db\<lparr>core_hosts := sql_update P f (core_hosts db)\<rparr>)"
proof -
  have "keyed hr_agent_id (sql_update P f (core_hosts db))"
    using assms(1) keyed_update [of hr_agent_id "core_hosts db" P f] id by (simp add: fleet_wf_def)
  moreover note update_keys [of hr_agent_id f P "core_hosts db", OF id]
  then have "(\<exists>r\<in>set (sql_update P f (core_hosts db)). hr_agent_id r = i) \<longleftrightarrow>
      (\<exists>r\<in>set (core_hosts db). hr_agent_id r = i)" for i by (simp only: ex_key)
  moreover have "\<forall>r\<in>set (sql_update P f (core_hosts db)). host_row_ok J r"
    using assms(1) ok by (auto simp: fleet_wf_def)
  ultimately show ?thesis using assms(1) by (simp add: fleet_wf_def)
qed

lemma kind_as_str_inj [simp]: "kind_as_str k = kind_as_str k' \<longleftrightarrow> k = k'"
  by (cases k; cases k') (simp_all add: kind_as_str_def)

section \<open>Each statement implements its abstract step\<close>

lemma upsert_refines:
  assumes "json_roundtrip J" and "fleet_wf J db" and "upsert_connected J flt a h ver caps meta now db = Inr db'"
  shows "fleet_wf J db' \<and> abs_fleet J db' = spec_op (Upsert a h ver caps meta now) (abs_fleet J db)"
proof -
  obtain cj mj where e: "enc_caps J caps = Some cj" "enc_meta J meta = Some mj"
    and db': "db' = db\<lparr>core_hosts := sql_upsert hr_agent_id
         \<lparr>hr_agent_id = a, hr_hostname = h, hr_protocol_version = uint ver, hr_capabilities_json = cj,
          hr_metadata_json = mj, hr_first_seen_at = now, hr_last_seen_at = now, hr_disconnected_at = None\<rparr>
         (\<lambda>r. r\<lparr>hr_hostname := h, hr_protocol_version := uint ver, hr_capabilities_json := cj,
                hr_metadata_json := mj, hr_last_seen_at := now, hr_disconnected_at := None\<rparr>)
         (core_hosts db)\<rparr>" (is "_ = db\<lparr>core_hosts := sql_upsert hr_agent_id ?new ?f (core_hosts db)\<rparr>")
    using assms(3) by (auto simp: upsert_connected_def fails_def result_simps)
  have d: "dec_caps J cj = Some caps" "dec_meta J mj = Some meta" using e assms(1) by (auto simp: json_roundtrip_def)
  have ver: "0 \<le> uint ver" "uint ver < 2 ^ 32" using uint_lt2p [of ver] by simp_all
  have ok: "host_row_ok J ?new" "\<And>r. host_row_ok J (?f r)" using d ver by (auto simp: host_row_ok_def)
  have id: "\<And>r. hr_agent_id (?f r) = hr_agent_id r" by simp
  have ids: "hr_agent_id ` set (core_hosts db') = insert a (hr_agent_id ` set (core_hosts db))"
    using upsert_keys [of hr_agent_id ?f ?new "core_hosts db", OF id] by (simp add: db')
  have "\<exists>r\<in>set (core_hosts db'). hr_agent_id r = sr_agent_id s" if "s \<in> set (core_snapshots db)" for s
  proof -
    obtain r where "r \<in> set (core_hosts db)" "hr_agent_id r = sr_agent_id s"
      using assms(2) \<open>s \<in> _\<close> by (auto simp: fleet_wf_def)
    then have "sr_agent_id s \<in> hr_agent_id ` set (core_hosts db)" by (metis imageI)
    then have "sr_agent_id s \<in> hr_agent_id ` set (core_hosts db')" using ids by blast
    then show ?thesis by (auto simp: image_iff)
  qed
  moreover have "\<forall>r\<in>set (core_hosts db'). host_row_ok J r"
    using set_upsert [of hr_agent_id ?new ?f "core_hosts db"] ok assms(2) by (auto simp: db' fleet_wf_def)
  moreover have "keyed hr_agent_id (core_hosts db')"
    using keyed_upsert [of hr_agent_id "core_hosts db" ?new ?f] assms(2) by (simp add: db' fleet_wf_def)
  ultimately have "fleet_wf J db'" using assms(2) by (simp add: fleet_wf_def db')
  moreover have "abs_fleet J db' b = spec_op (Upsert a h ver caps meta now) (abs_fleet J db) b" for b
  proof (cases "find (by_agent b) (core_hosts db)")
    case None
    moreover have "a = b \<Longrightarrow> snap_at J db (a, k) = None" for k
      using None assms(2) by (auto simp: snap_at_def find_None_iff fleet_wf_def snap_key_def by_agent_def)
    ultimately show ?thesis
      using find_upsert [of hr_agent_id ?f b ?new "core_hosts db", OF id]
      by (auto simp: db' abs_fleet_def by_agent_def [abs_def] view_of_def d fun_eq_iff)
  next
    case (Some r)
    then show ?thesis
      using find_upsert [of hr_agent_id ?f b ?new "core_hosts db", OF id] find_agent [OF Some]
      by (auto simp: db' abs_fleet_def by_agent_def [abs_def] view_of_def d)
  qed
  ultimately show ?thesis by auto
qed

lemma put_snapshot_refines:
  assumes "json_roundtrip J" and "fleet_wf J db" and "put_snapshot J flt a k x t db = Inr db'"
  shows "fleet_wf J db' \<and> abs_fleet J db' = spec_op (PutSnap a k x t) (abs_fleet J db)"
proof -
  obtain pj where e: "enc_value J x = Some pj" and host: "\<exists>r\<in>set (core_hosts db). hr_agent_id r = a"
    and db': "db' = db\<lparr>core_snapshots := sql_upsert snap_key
         \<lparr>sr_agent_id = a, sr_kind = kind_as_str k, sr_observed_at = t, sr_payload_json = pj\<rparr>
         (\<lambda>s. if t \<ge> sr_observed_at s then s\<lparr>sr_observed_at := t, sr_payload_json := pj\<rparr> else s)
         (core_snapshots db)\<rparr>" (is "_ = db\<lparr>core_snapshots := sql_upsert snap_key ?new ?f (core_snapshots db)\<rparr>")
    using assms(3) by (auto simp: put_snapshot_def fails_def result_simps by_agent_def snap_key_def [abs_def])
  have d: "dec_value J pj = Some x" using e assms(1) by (auto simp: json_roundtrip_def)
  have key: "\<And>s. snap_key (?f s) = snap_key s" by (simp add: snap_key_def)
  have "keyed snap_key (core_snapshots db')"
    using keyed_upsert [of snap_key "core_snapshots db" ?new ?f] assms(2) key by (simp add: db' fleet_wf_def)
  moreover have "\<forall>s\<in>set (core_snapshots db'). dec_value J (sr_payload_json s) \<noteq> None \<and>
        (\<exists>r\<in>set (core_hosts db). hr_agent_id r = sr_agent_id s)"
    using set_upsert [of snap_key ?new ?f "core_snapshots db"] assms(2) host d by (fastforce simp: db' fleet_wf_def)
  ultimately have "fleet_wf J db'" using assms(2) by (simp add: fleet_wf_def db')
  moreover have at: "snap_at J db' (b, kind_as_str j) =
      (if b = a then keep_newest k x t (\<lambda>j. snap_at J db (b, kind_as_str j)) j else snap_at J db (b, kind_as_str j))" for b j
    using find_upsert [of snap_key ?f "(b, kind_as_str j)" ?new "core_snapshots db", OF key]
    by (cases "find (\<lambda>s. snap_key s = (b, kind_as_str j)) (core_snapshots db)")
      (auto simp: snap_at_def keep_newest_def db' snap_key_def snap_value_def d)
  have "abs_fleet J db' b = spec_op (PutSnap a k x t) (abs_fleet J db) b" for b
  proof (cases "find (by_agent b) (core_hosts db)")
    case (Some r)
    then show ?thesis
      using find_agent [OF Some] at by (auto simp: abs_fleet_def known_def view_of_def db' fun_eq_iff)
  qed (auto simp: abs_fleet_def known_def db')
  ultimately show ?thesis by auto
qed

lemma mark_all_refines:
  assumes "fleet_wf J db" and "mark_all_disconnected flt now db = Inr db'"
  shows "fleet_wf J db' \<and> abs_fleet J db' = spec_op (MarkAllGone now) (abs_fleet J db)"
proof -
  have db': "db' = db\<lparr>core_hosts := sql_update (\<lambda>r. hr_disconnected_at r = None)
       (\<lambda>r. r\<lparr>hr_disconnected_at := Some now\<rparr>) (core_hosts db)\<rparr>"
    using assms(2) by (auto simp: mark_all_disconnected_def fails_def result_simps)
  have "abs_fleet J db' a = spec_op (MarkAllGone now) (abs_fleet J db) a" for a
  proof -
    have "abs_fleet J db' a = map_option (\<lambda>r. view_of J db (if hr_disconnected_at r = None
        then r\<lparr>hr_disconnected_at := Some now\<rparr> else r)) (find (by_agent a) (core_hosts db))"
      unfolding db' by (rule abs_host_update) simp
    also have "\<dots> = spec_op (MarkAllGone now) (abs_fleet J db) a"
      by (cases "find (by_agent a) (core_hosts db)") (simp_all add: abs_fleet_def view_of_def)
    finally show ?thesis .
  qed
  then show ?thesis
    using wf_host_update [OF assms(1), of "\<lambda>r. r\<lparr>hr_disconnected_at := Some now\<rparr>"]
    by (auto simp: db' host_row_ok_def)
qed

lemma known_update_refines:
  assumes "fleet_wf J db" and "db' = db\<lparr>core_hosts := sql_update (by_agent a) f (core_hosts db)\<rparr>"
    and "\<And>r. hr_agent_id (f r) = hr_agent_id r" and "\<And>r. view_of J db (f r) = g (view_of J db r)"
    and "\<And>r. host_row_ok J r \<Longrightarrow> host_row_ok J (f r)"
  shows "fleet_wf J db' \<and> abs_fleet J db' = known a g (abs_fleet J db)"
  using wf_host_update [OF assms(1), of f] abs_known_update [of f J db g] assms(2-5) by simp

lemma repo_exec_refines:
  assumes J: "json_roundtrip J" and wf: "fleet_wf J db" and "repo_exec J flt op db = Inr db'"
  shows "fleet_wf J db' \<and> abs_fleet J db' = spec_op op (abs_fleet J db)"
proof (cases op)
  case (Upsert a h ver caps meta now)
  then show ?thesis using upsert_refines [OF J wf] assms(3) by simp
next
  case (Touch a now)
  then have db': "db' = db\<lparr>core_hosts := sql_update (by_agent a)
       (\<lambda>r. r\<lparr>hr_last_seen_at := now, hr_disconnected_at := None\<rparr>) (core_hosts db)\<rparr>"
    using assms(3) by (auto simp: touch_def fails_def result_simps)
  show ?thesis
    unfolding Touch spec_op.simps
    by (intro known_update_refines [OF wf db']) (auto simp: view_of_def host_row_ok_def)
next
  case (UpdateCaps a caps now)
  then obtain cj where "enc_caps J caps = Some cj"
    and db': "db' = db\<lparr>core_hosts := sql_update (by_agent a)
       (\<lambda>r. r\<lparr>hr_capabilities_json := cj, hr_last_seen_at := now\<rparr>) (core_hosts db)\<rparr>"
    using assms(3) by (auto simp: update_capabilities_def fails_def result_simps)
  then have "dec_caps J cj = Some caps" using J by (auto simp: json_roundtrip_def)
  then show ?thesis
    unfolding UpdateCaps spec_op.simps
    by (intro known_update_refines [OF wf db']) (auto simp: view_of_def host_row_ok_def)
next
  case (MarkGone a now)
  then have db': "db' = db\<lparr>core_hosts := sql_update (by_agent a)
       (\<lambda>r. r\<lparr>hr_disconnected_at := Some now\<rparr>) (core_hosts db)\<rparr>"
    using assms(3) by (auto simp: mark_disconnected_def fails_def result_simps)
  show ?thesis
    unfolding MarkGone spec_op.simps
    by (intro known_update_refines [OF wf db']) (auto simp: view_of_def host_row_ok_def)
next
  case (MarkAllGone now)
  then show ?thesis using mark_all_refines [OF wf] assms(3) by simp
next
  case (PutSnap a k x t)
  then show ?thesis using put_snapshot_refines [OF J wf] assms(3) by simp
qed

lemma run_repo_refines:
  assumes "json_roundtrip J" and "fleet_wf J db"
  shows "fleet_wf J (run_repo J ops db) \<and>
    abs_fleet J (run_repo J ops db) = fold spec_op (landed J ops db) (abs_fleet J db)"
  using assms
proof (induction J ops db rule: run_repo.induct)
  case (2 J flt op ops db)
  show ?case
  proof (cases "repo_exec J flt op db")
    case (Inl e)
    then show ?thesis using 2 by simp
  next
    case (Inr db')
    then show ?thesis using 2 repo_exec_refines [OF "2.prems" Inr] by simp
  qed
qed simp

section \<open>The answer\<close>

text \<open>The host entry that the abstract view determines.\<close>

definition host_entry :: "int \<Rightarrow> string \<Rightarrow> 'j host_view \<Rightarrow> 'j FleetHost" where
  "host_entry now a v =
     \<lparr>fh_agent_id = a, fh_hostname = hv_hostname v,
      fh_status = (if hv_gone v = None \<and> i64_sat_sub now (hv_last v) \<le> OFFLINE_AFTER_SECONDS then Online else Offline),
      fh_protocol_version = hv_version v, fh_capabilities = hv_caps v, fh_metadata = hv_meta v,
      fh_first_seen_at = hv_first v, fh_last_seen_at = hv_last v, fh_disconnected_at = hv_gone v,
      fh_system = hv_snaps v Kind_System, fh_services = hv_snaps v Kind_Services,
      fh_docker = hv_snaps v Kind_Docker, fh_swarm = hv_snaps v Kind_Swarm\<rparr>"

lemma collect_snapshots_at:
  assumes "distinct (map snap_key rows)" and "\<forall>s\<in>set rows. dec_value J (sr_payload_json s) \<noteq> None"
  shows "\<exists>m'. collect_snapshots J rows m = Inr m' \<and>
    (\<forall>k. m' k = (case find (\<lambda>s. snap_key s = k) rows of None \<Rightarrow> m k | Some s \<Rightarrow> Some (snap_value J s)))"
  using assms
proof (induction J rows m rule: collect_snapshots.induct)
  case (2 J row rows m)
  obtain v where v: "dec_value J (sr_payload_json row) = Some v" using "2.prems"(2) by auto
  have "find (\<lambda>s. snap_key s = snap_key row) rows = None"
    using "2.prems"(1) by (auto simp: find_None_iff) (metis imageI)
  moreover have "\<exists>m'. collect_snapshots J rows (m(snap_key row \<mapsto> snap_value J row)) = Inr m' \<and>
      (\<forall>k. m' k = (case find (\<lambda>s. snap_key s = k) rows of
         None \<Rightarrow> (m(snap_key row \<mapsto> snap_value J row)) k | Some s \<Rightarrow> Some (snap_value J s)))"
  proof -
    have "distinct (map snap_key rows)" "\<forall>s\<in>set rows. dec_value J (sr_payload_json s) \<noteq> None"
      using "2.prems" by simp_all
    from "2.IH" [of v, OF this] show ?thesis by (simp only: snap_key_def [of row] snap_value_def [of J row] v option.sel)
  qed
  ultimately obtain m' where m': "collect_snapshots J rows (m(snap_key row \<mapsto> snap_value J row)) = Inr m'"
    and at: "\<And>k. m' k = (case find (\<lambda>s. snap_key s = k) rows of
         None \<Rightarrow> (m(snap_key row \<mapsto> snap_value J row)) k | Some s \<Rightarrow> Some (snap_value J s))"
    and none: "find (\<lambda>s. snap_key s = snap_key row) rows = None" by blast
  have "m' k = (case find (\<lambda>s. snap_key s = k) (row # rows) of None \<Rightarrow> m k | Some s \<Rightarrow> Some (snap_value J s))" for k
    using at [of k] none by (cases "snap_key row = k") (auto split: option.splits)
  moreover have "collect_snapshots J (row # rows) m = Inr m'"
    using m' by (simp add: v snap_key_def [of row] snap_value_def [of J row])
  ultimately show ?case by blast
qed simp

lemma map_result_Inr: "(\<And>x. x \<in> set xs \<Longrightarrow> f x = Inr (g x)) \<Longrightarrow> map_result f xs = Inr (map g xs)"
  by (induction xs) auto

lemma to_host_entry:
  assumes "host_row_ok J r" and "\<And>k. snaps (hr_agent_id r, kind_as_str k) = snap_at J db (hr_agent_id r, kind_as_str k)"
  shows "to_host J now snaps r = Inr (host_entry now (hr_agent_id r) (view_of J db r))"
proof -
  note k = assms(2) [of Kind_System] assms(2) [of Kind_Services] assms(2) [of Kind_Docker] assms(2) [of Kind_Swarm]
  show ?thesis
    using assms(1) k
    by (auto simp: to_host_def host_row_ok_def host_entry_def view_of_def decode_protocol_version_def
        status_of_def kind_as_str_def)
qed

lemma list_fleet_view:
  assumes wf: "fleet_wf J db" and flt: "\<not> flt ''list_hosts''" "\<not> flt ''list_snapshots''"
  shows "list_fleet J flt now db = Inr \<lparr>fr_generated_at = now, fr_offline_after_seconds = OFFLINE_AFTER_SECONDS,
    fr_hosts = map (\<lambda>r. host_entry now (hr_agent_id r) (view_of J db r))
      (sort_key (\<lambda>r. to_ascii_lowercase (hr_hostname r)) (core_hosts db))\<rparr>"
proof -
  obtain m where m: "collect_snapshots J (core_snapshots db) Map.empty = Inr m"
    and m_at: "\<And>k. m k = (case find (\<lambda>s. snap_key s = k) (core_snapshots db) of
      None \<Rightarrow> None | Some s \<Rightarrow> Some (snap_value J s))"
    using collect_snapshots_at [of "core_snapshots db" J Map.empty] wf by (auto simp: fleet_wf_def keyed_def)
  have at: "m k = snap_at J db k" for k using m_at [of k] by (simp add: snap_at_def split: option.splits)
  have "map_result (to_host J now m) (sort_key (\<lambda>r. to_ascii_lowercase (hr_hostname r)) (core_hosts db)) =
      Inr (map (\<lambda>r. host_entry now (hr_agent_id r) (view_of J db r))
        (sort_key (\<lambda>r. to_ascii_lowercase (hr_hostname r)) (core_hosts db)))"
    by (rule map_result_Inr, rule to_host_entry) (use wf at in \<open>auto simp: fleet_wf_def\<close>)
  then show ?thesis using flt m by (simp add: list_fleet_def fails_def)
qed

lemma abs_of_row: "fleet_wf J db \<Longrightarrow> r \<in> set (core_hosts db) \<Longrightarrow> abs_fleet J db (hr_agent_id r) = Some (view_of J db r)"
  using fetch_keyed [of hr_agent_id "core_hosts db" r]
  by (simp add: fleet_wf_def abs_fleet_def by_agent_def [abs_def] sql_fetch_optional_def)

lemma dom_abs: "dom (abs_fleet J db) = hr_agent_id ` set (core_hosts db)"
proof -
  have "abs_fleet J db a \<noteq> None \<longleftrightarrow> a \<in> hr_agent_id ` set (core_hosts db)" for a
    by (auto simp: abs_fleet_def find_None_iff by_agent_def)
  then show ?thesis by (auto simp: dom_def)
qed

section \<open>Property\<close>

text \<open>
  C11: the repository implements its specification. Take any run of repository statements from an empty
  database, with any of them failing. The tables stay well formed (keys unique, every stored JSON decodable,
  every snapshot owned by a known host), and what they represent is exactly the effect of the committed
  statements on the abstract fleet, in their order; a snapshot is never replaced by an older one. The fleet
  query then answers with one entry per known host, each the entry its abstract state determines, in the
  order of the host names without case; a host is reported online just when it is not marked disconnected
  and was seen within 45 seconds. JSON decoding inverts encoding (hypothesis).
\<close>

theorem fleet_refines_spec:
  assumes "json_roundtrip J" and db: "db = run_repo J ops empty_fleet"
  shows "fleet_wf J db \<and> abs_fleet J db = fold spec_op (landed J ops empty_fleet) Map.empty \<and>
    (\<not> flt ''list_hosts'' \<and> \<not> flt ''list_snapshots'' \<longrightarrow>
      (\<exists>resp. list_fleet J flt now db = Inr resp \<and>
         distinct (map fh_agent_id (fr_hosts resp)) \<and>
         fh_agent_id ` set (fr_hosts resp) = dom (abs_fleet J db) \<and>
         sorted (map (\<lambda>h. to_ascii_lowercase (fh_hostname h)) (fr_hosts resp)) \<and>
         (\<forall>h\<in>set (fr_hosts resp). h = host_entry now (fh_agent_id h) (the (abs_fleet J db (fh_agent_id h))))))"
proof -
  have e: "fleet_wf J empty_fleet" by (simp add: fleet_wf_def empty_fleet_def)
  have "abs_fleet J empty_fleet = Map.empty" by (simp add: fun_eq_iff abs_fleet_def empty_fleet_def)
  then have ref: "fleet_wf J db" "abs_fleet J db = fold spec_op (landed J ops empty_fleet) Map.empty"
    using run_repo_refines [OF assms(1) e, of ops] by (simp_all add: db)
  let ?rows = "sort_key (\<lambda>r. to_ascii_lowercase (hr_hostname r)) (core_hosts db)"
  let ?hosts = "map (\<lambda>r. host_entry now (hr_agent_id r) (view_of J db r)) ?rows"
  have ids: "map fh_agent_id ?hosts = map hr_agent_id ?rows"
    and names: "map (\<lambda>h. to_ascii_lowercase (fh_hostname h)) ?hosts = map (\<lambda>r. to_ascii_lowercase (hr_hostname r)) ?rows"
    by (simp_all add: host_entry_def view_of_def)
  have "distinct (map hr_agent_id ?rows)"
    using ref(1) by (simp add: fleet_wf_def keyed_def distinct_map)
  moreover have "fh_agent_id ` set ?hosts = dom (abs_fleet J db)"
    by (simp add: dom_abs image_image host_entry_def)
  moreover have "h = host_entry now (fh_agent_id h) (the (abs_fleet J db (fh_agent_id h)))" if "h \<in> set ?hosts" for h
    using that abs_of_row [OF ref(1)] by (auto simp: host_entry_def)
  moreover have "sorted (map (\<lambda>h. to_ascii_lowercase (fh_hostname h)) ?hosts)"
    unfolding names by (rule sorted_sort_key)
  ultimately have "\<exists>hosts. ?hosts = hosts \<and> distinct (map fh_agent_id hosts) \<and> fh_agent_id ` set hosts = dom (abs_fleet J db) \<and>
      sorted (map (\<lambda>h. to_ascii_lowercase (fh_hostname h)) hosts) \<and>
      (\<forall>h\<in>set hosts. h = host_entry now (fh_agent_id h) (the (abs_fleet J db (fh_agent_id h))))"
    unfolding ids [symmetric] by blast
  then show ?thesis using ref list_fleet_view [OF ref(1)] by (metis (no_types, lifting) FleetResponse.select_convs(3))
qed

text \<open>A JSON codec for the witness: it encodes empty lists and maps and one payload.\<close>

definition demo_json :: "unit fleet_json" where
  "demo_json = \<lparr>enc_caps = (\<lambda>c. if c = [] then Some ''[]'' else None), dec_caps = (\<lambda>s. Some []),
     enc_meta = (\<lambda>m. if m = Map.empty then Some ''{}'' else None), dec_meta = (\<lambda>s. Some Map.empty),
     enc_value = (\<lambda>_. Some ''null''), dec_value = (\<lambda>_. Some ()), to_value = (\<lambda>_. Some ())\<rparr>"

definition demo_ops :: "(fault \<times> unit repo_op) list" where
  "demo_ops = [(\<lambda>_. False, Upsert ''a-id'' ''a'' 19 [] Map.empty 100), (\<lambda>_. False, PutSnap ''a-id'' Kind_System () 101),
     (\<lambda>_. True, MarkGone ''a-id'' 110)]"

theorem fleet_refines_spec_witness:
  "\<exists>resp. list_fleet demo_json (\<lambda>_. False) 120 (run_repo demo_json demo_ops empty_fleet) = Inr resp \<and>
     fh_agent_id ` set (fr_hosts resp) = {''a-id''} \<and> (\<forall>h\<in>set (fr_hosts resp). fh_status h = Online)"
proof -
  have J: "json_roundtrip demo_json" by (simp add: json_roundtrip_def demo_json_def)
  let ?db = "run_repo demo_json demo_ops empty_fleet"
  have l: "landed demo_json demo_ops empty_fleet =
      [Upsert ''a-id'' ''a'' 19 [] Map.empty 100, PutSnap ''a-id'' Kind_System () 101]"
    by (simp add: demo_ops_def upsert_connected_def put_snapshot_def mark_disconnected_def fails_def demo_json_def
        empty_fleet_def sql_upsert_def by_agent_def)
  have v: "fold spec_op (landed demo_json demo_ops empty_fleet) Map.empty =
      [''a-id'' \<mapsto> \<lparr>hv_hostname = ''a'', hv_version = 19, hv_caps = [], hv_meta = Map.empty, hv_first = 100,
        hv_last = 100, hv_gone = None, hv_snaps = [Kind_System \<mapsto> \<lparr>sv_observed_at = 101, sv_value = ()\<rparr>]\<rparr>]"
    by (simp add: l known_def keep_newest_def)
  from fleet_refines_spec [OF J refl, of demo_ops "\<lambda>_. False" 120]
  obtain resp where "list_fleet demo_json (\<lambda>_. False) 120 ?db = Inr resp"
    "fh_agent_id ` set (fr_hosts resp) = {''a-id''}"
    "\<forall>h\<in>set (fr_hosts resp). h = host_entry 120 (fh_agent_id h) (the (abs_fleet demo_json ?db (fh_agent_id h)))"
    and a: "abs_fleet demo_json ?db = fold spec_op (landed demo_json demo_ops empty_fleet) Map.empty"
    by (auto simp: v)
  moreover have "fh_status (host_entry 120 ''a-id'' (the (abs_fleet demo_json ?db ''a-id''))) = Online"
    by (simp add: a v host_entry_def i64_sat_sub_def OFFLINE_AFTER_SECONDS_def)
  ultimately show ?thesis by (metis imageI singletonD)
qed

end
