(* ===== verification/Agent_Hub.thy ===== *)
theory Agent_Hub
  imports Ui_Hub Jobs_Db Fleet_Core Device_Pairing Internal_Gate
begin

text \<open>
  The agent side of \<open>server/src/main.rs\<close>: \<open>agent_ws_handler\<close> and \<open>handle_agent_socket\<close>. An agent's
  socket registers, updates its capabilities, sends heartbeats and answers; each answer is stored, attributed
  to the job that waits for it, and routed to the operators that may see it. The teardown of a socket, the
  debounced disconnect notification and the recurring alert are modelled as separate events, as they run in
  separate tasks.

  The whole server is the record \<open>server\<close>: the operator side, the operational tables, the durable fleet, the
  device tokens, the disconnect states, the waiters, and the outbound notifications.
\<close>

section \<open>State\<close>

text \<open>The debounce task of a pending disconnect is known by its number.\<close>

datatype DisconnectState = Pending nat | Confirmed int int

datatype hook =
    Hook_Connect string int
  | Hook_Disconnect string int
  | Hook_Still_Offline string int int
  | Hook_Health string string HealthProbeState string int
  | Hook_Backup string string bool string "string option" int
  | Hook_Update string string string "string option" int

text \<open>A live socket: its token, the agent it registered as, and how far its teardown is.\<close>

datatype phase = Reading | Ended | Debouncing

record agent_conn =
  ac_token :: string
  ac_agent :: "string option"
  ac_phase :: phase

record server =
  sv_hub :: hub
  sv_ops :: ops_db
  sv_fleet :: fleet
  sv_tokens :: "TokenRow table"
  sv_conns :: "nat \<rightharpoonup> agent_conn"
  sv_states :: "string \<rightharpoonup> DisconnectState"
  sv_timers :: "nat \<rightharpoonup> string"
  sv_next :: nat
  sv_exec :: "string \<rightharpoonup> string \<times> nat"
  sv_lists :: "string \<Rightarrow> nat list"
  sv_restores :: "string \<Rightarrow> nat list"
  sv_sched :: "string set"
  sv_answers :: "(nat \<times> Message) list"
  sv_hooks :: "hook list"

definition on_hub :: "(hub \<Rightarrow> hub) \<Rightarrow> server \<Rightarrow> server" where
  "on_hub f s = s\<lparr>sv_hub := f (sv_hub s)\<rparr>"

definition on_ops :: "(ops_db \<Rightarrow> ops_db) \<Rightarrow> server \<Rightarrow> server" where
  "on_ops f s = s\<lparr>sv_ops := f (sv_ops s)\<rparr>"

definition fire_hook :: "hook \<Rightarrow> server \<Rightarrow> server" where
  "fire_hook h s = s\<lparr>sv_hooks := sv_hooks s @ [h]\<rparr>"

definition audit_sv ::
    "world \<Rightarrow> string option \<Rightarrow> string option \<Rightarrow> string \<Rightarrow> bool \<Rightarrow> string option \<Rightarrow> server \<Rightarrow> server" where
  "audit_sv W actor agent_id kind ok detail = on_hub (audit_hub W actor agent_id kind ok detail)"

section \<open>Text\<close>

text \<open>\<open>trim_end_matches("-id")\<close>, and the arrow of the notification titles in UTF-8.\<close>

function trim_end_id :: "string \<Rightarrow> string" where
  "trim_end_id s = (if ends_with s ''-id'' then trim_end_id (take (length s - 3) s) else s)"
  by auto
termination
proof (relation "measure length")
  fix s :: string
  assume "ends_with s ''-id''"
  then have "s \<noteq> []" by (auto simp: ends_with_def starts_with_def)
  then show "(take (length s - 3) s, s) \<in> measure length" by (cases s) auto
qed simp

declare trim_end_id.simps [simp del]

definition ARROW :: string where
  "ARROW = [CHR '' '', char_of (226 :: nat), char_of (134 :: nat), char_of (146 :: nat), CHR '' '']"

definition quoted :: "string \<Rightarrow> string" where
  "quoted s = CHR 0x27 # s @ [CHR 0x27]"

definition newline :: string where "newline = [char_of (10 :: nat)]"

text \<open>\<open>match error { Some(e) if !e.is_empty() => "{log}\n[error] {e}", _ => log }\<close>.\<close>

definition with_error :: "string \<Rightarrow> string option \<Rightarrow> string" where
  "with_error lg error =
     (case error of Some e \<Rightarrow> if e = [] then lg else lg @ newline @ ''[error] '' @ e | None \<Rightarrow> lg)"

section \<open>Opening and registering\<close>

definition agent_bearer :: "string option \<Rightarrow> string option" where
  "agent_bearer authorization =
     (case authorization of None \<Rightarrow> None
      | Some s \<Rightarrow>
          (case (case strip_prefix_str ''Bearer '' s of Some r \<Rightarrow> Some r | None \<Rightarrow> strip_prefix_str ''bearer '' s) of
             None \<Rightarrow> None
           | Some r \<Rightarrow> if trim r = [] then None else Some (trim r)))"

definition is_legacy :: "env \<Rightarrow> string \<Rightarrow> bool" where
  "is_legacy env token \<longleftrightarrow> env_or env ''AGENT_SECRET'' [] \<noteq> [] \<and> token = env_or env ''AGENT_SECRET'' []"

definition agent_ws_handler :: "world \<Rightarrow> string option \<Rightarrow> server \<Rightarrow> server \<times> (http_error, nat) result" where
  "agent_ws_handler W authorization s =
     (case agent_bearer authorization of None \<Rightarrow> (s, Inl (401, ''Unauthorized''))
      | Some token \<Rightarrow>
          if \<not> is_legacy (w_env W) token \<and> \<not> token_exists (w_flt W) (w_now W) (sv_tokens s) token
          then (s, Inl (401, ''Unauthorized''))
          else (s\<lparr>sv_conns := (sv_conns s)(sv_next s \<mapsto> \<lparr>ac_token = token, ac_agent = None, ac_phase = Reading\<rparr>),
                  sv_next := sv_next s + 1\<rparr>, Inr (sv_next s)))"

definition identity_conflict :: "world \<Rightarrow> string \<Rightarrow> string \<Rightarrow> server \<Rightarrow> string option" where
  "identity_conflict W token hostname s =
     (if is_legacy (w_env W) token then None
      else case token_hostname (w_flt W) (sv_tokens s) token of
             Inr (Some bound) \<Rightarrow> if bound \<noteq> [] \<and> bound \<noteq> hostname then Some bound else None
           | _ \<Rightarrow> None)"

fun parse_kind :: "string \<Rightarrow> HealthProbeKind option" where
  "parse_kind s = (if s = ''http'' then Some Probe_Http else if s = ''tcp'' then Some Probe_Tcp
                   else if s = ''exec'' then Some Probe_Exec else None)"

text \<open>\<open>as u32\<close> and \<open>as u16\<close> truncate; an environment that does not parse is empty.\<close>

definition row_to_spec :: "(string \<Rightarrow> string list option) \<Rightarrow> HealthProbeRow \<Rightarrow> HealthProbeSpec option" where
  "row_to_spec dec_env row =
     map_option (\<lambda>kind.
       \<lparr>hps_id = int_to_dec (hp_id row), hps_name = hp_name row, hps_kind = kind, hps_target = hp_target row,
        hps_interval_secs = word_of_int (max (hp_interval_secs row) 1),
        hps_timeout_secs = word_of_int (max (hp_timeout_secs row) 1),
        hps_expect_status = map_option word_of_int (hp_expect_status row),
        hps_expect_body = hp_expect_body row,
        hps_env = (case dec_env (hp_env_json row) of Some e \<Rightarrow> e | None \<Rightarrow> [])\<rparr>) (parse_kind (hp_kind row))"

definition push_to_agent :: "(string \<Rightarrow> string list option) \<Rightarrow> world \<Rightarrow> string \<Rightarrow> server \<Rightarrow> server" where
  "push_to_agent dec_env W agent_id s =
     (case list_health_probes_for (w_flt W) (sv_ops s) agent_id of Inl _ \<Rightarrow> s
      | Inr rows \<Rightarrow>
          on_hub (deliver agent_id (Probe (HealthProbeSyncRequest
            (List.map_filter (row_to_spec dec_env) (filter (\<lambda>r. hp_enabled r \<noteq> 0) rows))))) s)"

text \<open>A new connection settles the disconnect state of its agent.\<close>

definition settle_disconnect :: "world \<Rightarrow> string \<Rightarrow> server \<Rightarrow> server" where
  "settle_disconnect W agent_id s =
     (let s1 = s\<lparr>sv_states := (sv_states s)(agent_id := None)\<rparr>
      in case sv_states s agent_id of
           Some (Pending h) \<Rightarrow> s1\<lparr>sv_timers := (sv_timers s)(h := None)\<rparr>
         | Some (Confirmed _ _) \<Rightarrow> fire_hook (Hook_Connect agent_id (w_now W)) s1
         | None \<Rightarrow> s1)"

definition handle_register ::
    "'j fleet_json \<Rightarrow> world \<Rightarrow> nat \<Rightarrow> agent_conn \<Rightarrow> string \<Rightarrow> u32 \<Rightarrow> string list \<Rightarrow> (string \<rightharpoonup> string) \<Rightarrow> server
      \<Rightarrow> agent_conn \<times> server \<times> bool" where
  "handle_register J W tx conn hostname protocol_version capabilities metadata s =
     (case identity_conflict W (ac_token conn) hostname s of
        Some bound \<Rightarrow>
          (conn, audit_sv W None None ''agent.register'' False
             (Some (''token bound to '' @ quoted bound @ '', got '' @ quoted hostname)) s, False)
      | None \<Rightarrow>
        if protocol_version \<noteq> 0 \<and> protocol_version \<noteq> PROTOCOL_VERSION
        then (conn, audit_sv W None None ''agent.register'' False
               (Some (''protocol_version='' @ nat_to_dec (unat protocol_version) @ '', expected='' @
                  nat_to_dec (unat PROTOCOL_VERSION))) s, False)
        else
          (let agent_id = hostname @ ''-id'' in
           case connected J (w_flt W) agent_id hostname protocol_version capabilities metadata (w_now W) (sv_fleet s) of
             (_, False) \<Rightarrow>
               (conn, audit_sv W None (Some agent_id) ''agent.register'' False
                  (Some ''durable fleet repository unavailable'') s, False)
           | (fl, True) \<Rightarrow>
               (let s1 = on_hub (\<lambda>h. h\<lparr>h_agents := (h_agents h)(agent_id \<mapsto> \<lparr>ae_tx = tx, ae_capabilities = capabilities\<rparr>)\<rparr>)
                           (s\<lparr>sv_fleet := fl\<rparr>);
                    s2 = settle_disconnect W agent_id s1;
                    s3 = (if w_flt W ''upsert_token_seen'' then s2
                          else s2\<lparr>sv_tokens := upsert_token_seen (ac_token conn) hostname (w_now W) (sv_tokens s2)\<rparr>);
                    s4 = audit_sv W None (Some agent_id) ''agent.register'' True
                           (Some (''protocol_version='' @ nat_to_dec (unat protocol_version))) s3;
                    s5 = on_hub (send_agent tx (Session (RegisterAck agent_id))) s4;
                    s6 = on_hub (broadcast_agent_list W) s5
                in (conn\<lparr>ac_agent := Some agent_id\<rparr>, push_to_agent (dec_caps J) W agent_id s6, True))))"

section \<open>Capabilities\<close>

definition same_channel :: "string \<Rightarrow> nat \<Rightarrow> hub \<Rightarrow> bool" where
  "same_channel agent_id tx h \<longleftrightarrow> (case h_agents h agent_id of Some e \<Rightarrow> ae_tx e = tx | None \<Rightarrow> False)"

text \<open>
  The second half of \<open>CapabilitiesUpdate\<close>, after the durable write: if the agent was taken over by a newer
  socket meanwhile, that socket's capabilities are written back.
\<close>

definition capabilities_commit :: "'j fleet_json \<Rightarrow> world \<Rightarrow> nat \<Rightarrow> string \<Rightarrow> string list \<Rightarrow> server \<Rightarrow> server" where
  "capabilities_commit J W tx agent_id capabilities s =
     (case h_agents (sv_hub s) agent_id of None \<Rightarrow> s
      | Some e \<Rightarrow>
          if ae_tx e = tx
          then on_hub (broadcast_agent_list W)
                 (on_hub (\<lambda>h. h\<lparr>h_agents := (h_agents h)(agent_id \<mapsto> e\<lparr>ae_capabilities := capabilities\<rparr>)\<rparr>) s)
          else s\<lparr>sv_fleet := fst (capabilities_updated J (w_flt W) agent_id (ae_capabilities e) (w_now W) (sv_fleet s))\<rparr>)"

definition handle_capabilities ::
    "'j fleet_json \<Rightarrow> world \<Rightarrow> nat \<Rightarrow> string \<Rightarrow> string list \<Rightarrow> server \<Rightarrow> server" where
  "handle_capabilities J W tx agent_id capabilities s =
     (case h_agents (sv_hub s) agent_id of None \<Rightarrow> s
      | Some e \<Rightarrow>
          if ae_tx e = tx \<and> ae_capabilities e \<noteq> capabilities
          then (case capabilities_updated J (w_flt W) agent_id capabilities (w_now W) (sv_fleet s) of
                  (_, False) \<Rightarrow> s
                | (fl, True) \<Rightarrow> capabilities_commit J W tx agent_id capabilities (s\<lparr>sv_fleet := fl\<rparr>))
          else s)"

section \<open>Answers of an agent\<close>

text \<open>Health probe reports: one result.\<close>

definition state_str :: "HealthProbeState \<Rightarrow> string" where
  "state_str st = (case st of Green \<Rightarrow> ''green'' | Red \<Rightarrow> ''red'')"

definition probe_result :: "world \<Rightarrow> string \<Rightarrow> HealthProbeResult \<Rightarrow> server \<Rightarrow> server" where
  "probe_result W agent_id r s =
     (case parse_i64 (hpr_id r) of None \<Rightarrow> s
      | Some probe_id \<Rightarrow>
          (let st = state_str (hpr_state r);
               prev = probe_last_state (w_flt W) probe_id (sv_ops s);
               s1 = on_ops (\<lambda>d. fst (record_health_probe_result (w_flt W) probe_id (hpr_at r) st
                      (uint (hpr_latency_ms r)) (hpr_detail r) d)) s
           in if prev = Some st then s1
              else
                (let s2 = audit_sv W (Some ''health'') (Some agent_id) (''health_probe.'' @ st) (hpr_state r = Green)
                            (Some (''id='' @ int_to_dec probe_id @ '' '' @ hpr_detail r)) s1
                 in if prev \<noteq> None \<or> hpr_state r = Red
                    then fire_hook (Hook_Health agent_id (''#'' @ int_to_dec probe_id) (hpr_state r) (hpr_detail r) (w_now W))
                           (on_ops (notify (w_flt W) (w_now W) (''health_probe.'' @ st) (Some agent_id)
                              (if hpr_state r = Red then ''error'' else ''info'')
                              (''health probe #'' @ int_to_dec probe_id @ '' on '' @ trim_end_id agent_id @ ARROW @ st)
                              (Some (hpr_detail r))) s2)
                    else s2)))"

text \<open>The waiters of backup listings and restores: the oldest is answered.\<close>

definition resolve :: "nat \<Rightarrow> Message \<Rightarrow> server \<Rightarrow> server" where
  "resolve w m s = s\<lparr>sv_answers := sv_answers s @ [(w, m)]\<rparr>"

definition resolve_list :: "string \<Rightarrow> Message \<Rightarrow> server \<Rightarrow> server" where
  "resolve_list agent_id m s =
     (case sv_lists s agent_id of [] \<Rightarrow> s
      | w # ws \<Rightarrow> resolve w m (s\<lparr>sv_lists := (sv_lists s)(agent_id := ws)\<rparr>))"

definition resolve_restore :: "string \<Rightarrow> Message \<Rightarrow> server \<Rightarrow> server" where
  "resolve_restore agent_id m s =
     (case sv_restores s agent_id of [] \<Rightarrow> s
      | w # ws \<Rightarrow> resolve w m (s\<lparr>sv_restores := (sv_restores s)(agent_id := ws)\<rparr>))"

text \<open>A command's answer goes to the waiter of its request id, if that waiter expects this agent.\<close>

definition resolve_exec :: "string \<Rightarrow> string \<Rightarrow> Message \<Rightarrow> server \<Rightarrow> server" where
  "resolve_exec agent_id rid m s =
     (case sv_exec s rid of None \<Rightarrow> s
      | Some (expected, w) \<Rightarrow>
          if expected = agent_id then resolve w m (s\<lparr>sv_exec := (sv_exec s)(rid := None)\<rparr>) else s)"

definition backup_result ::
    "world \<Rightarrow> string \<Rightarrow> string \<Rightarrow> string \<Rightarrow> bool \<Rightarrow> string \<Rightarrow> u64 \<Rightarrow> string \<Rightarrow> string option \<Rightarrow> server \<Rightarrow> server" where
  "backup_result W agent_id jid name success archive_path bytes lg error s =
     (case parse_i64 jid of None \<Rightarrow> s
      | Some job_id \<Rightarrow>
          (let status = (if success then ''success'' else ''failed'');
               combined = with_error lg error;
               size = nat_to_dec (unat bytes);
               s1 = on_ops (\<lambda>d. fst (record_backup_job_result (w_flt W) job_id (w_now W) status archive_path (sint bytes)
                      combined d)) s;
               s2 = audit_sv W (Some ''scheduler'') (Some agent_id) ''backup_job.result'' success
                      (Some (''name='' @ name @ '' bytes='' @ size @ '' archive='' @ archive_path)) s1;
               summary = (if success then size @ '' bytes'' @ ARROW @ archive_path
                          else case error of Some e \<Rightarrow> e | None \<Rightarrow> ''failed'');
               s3 = on_ops (notify (w_flt W) (w_now W) ''backup_job.result'' (Some agent_id)
                      (if success then ''info'' else ''error'')
                      (''backup '' @ quoted name @ '' on '' @ trim_end_id agent_id @ ARROW @ status) (Some summary)) s2
           in fire_hook (Hook_Backup agent_id name success (if success then summary else combined) error (w_now W)) s3))"

text \<open>\<open>fan_out::maybe_attribute_response\<close>: kind, status and detail of an answer.\<close>

definition KIND_APT_STATUS :: string where "KIND_APT_STATUS = ''apt-status''"
definition KIND_APT_UPGRADE :: string where "KIND_APT_UPGRADE = ''apt-upgrade''"
definition KIND_DOCKER_LIST :: string where "KIND_DOCKER_LIST = ''docker-list''"

definition role_debug :: "SwarmRole \<Rightarrow> string" where
  "role_debug r = (case r of NotInSwarm \<Rightarrow> ''NotInSwarm'' | Worker \<Rightarrow> ''Worker'' | Manager \<Rightarrow> ''Manager'')"

fun fan_out_answer :: "Message \<Rightarrow> (string \<times> string \<times> string) option" where
  "fan_out_answer (Apt (AptStatusResponse available upgradable _ error)) =
     Some (KIND_APT_STATUS, if error \<noteq> None \<or> \<not> available then ''failed'' else ''success'',
       case error of Some e \<Rightarrow> ''error: '' @ e
       | None \<Rightarrow> if available then nat_to_dec (length upgradable) @ '' upgradable'' else ''apt unavailable'')"
| "fan_out_answer (Apt (AptUpgradeResponse _ success lg error)) =
     Some (KIND_APT_UPGRADE, if success then ''success'' else ''failed'',
       if success
       then (let snippet = join_with '' | '' (take 3 (rev (str_lines lg))) in if snippet = [] then ''ok'' else snippet)
       else case error of Some e \<Rightarrow> e | None \<Rightarrow> ''failed'')"
| "fan_out_answer (Host (DockerListResponse available role containers error)) =
     Some (KIND_DOCKER_LIST, if error \<noteq> None \<or> \<not> available then ''failed'' else ''success'',
       case error of Some e \<Rightarrow> ''error: '' @ e
       | None \<Rightarrow>
           if available
           then nat_to_dec (length (filter (\<lambda>c. dc_state c = ''running'') containers)) @ ''/'' @
                nat_to_dec (length containers) @ '' running ('' @ role_debug role @ '')''
           else ''docker unavailable'')"
| "fan_out_answer _ = None"

definition maybe_attribute_response :: "fault \<Rightarrow> int \<Rightarrow> string \<Rightarrow> Message \<Rightarrow> ops_db \<Rightarrow> ops_db" where
  "maybe_attribute_response flt now agent_id m d =
     (case fan_out_answer m of None \<Rightarrow> d
      | Some (kind, status, detail) \<Rightarrow>
          (case pending_fan_out_for_agent flt d agent_id kind of
             Inr (Some run_id) \<Rightarrow> fst (upsert_fan_out_result flt run_id agent_id status (Some detail) (Some now) d)
           | _ \<Rightarrow> d))"

text \<open>A scheduled upgrade: the answer is taken by the schedule if one is in flight.\<close>

definition upgrade_result :: "world \<Rightarrow> string \<Rightarrow> bool \<Rightarrow> string \<Rightarrow> string option \<Rightarrow> server \<Rightarrow> server" where
  "upgrade_result W agent_id success lg error s =
     (if agent_id \<notin> sv_sched s then s
      else
        (let status = (if success then ''success'' else ''failed'');
             combined = with_error lg error;
             s1 = s\<lparr>sv_sched := sv_sched s - {agent_id}\<rparr>;
             s2 = on_ops (\<lambda>d. fst (record_update_window_result (w_flt W) agent_id (w_now W) status combined d)) s1;
             s3 = audit_sv W (Some ''scheduler'') (Some agent_id) ''update_window.result'' success error s2;
             s4 = fire_hook (Hook_Update agent_id status combined error (w_now W)) s3;
             ls = str_lines combined;
             snippet = join_with newline (drop (length ls - 8) ls)
         in on_ops (notify (w_flt W) (w_now W) ''update_window.result'' (Some agent_id)
              (if success then ''info'' else ''error'')
              (''apt upgrade on '' @ trim_end_id agent_id @ ARROW @ status)
              (if snippet = [] then None else Some snippet)) s4))"

section \<open>Routing to operators\<close>

definition may_see :: "string \<Rightarrow> client_id \<Rightarrow> hub \<Rightarrow> bool" where
  "may_see agent_id c h \<longleftrightarrow>
     (case h_clients h c of Some cl \<Rightarrow> agent_allowed_by_access agent_id (uc_agent_access cl) | None \<Rightarrow> False)"

definition push_ui :: "string \<Rightarrow> UiMessage \<Rightarrow> client_id \<Rightarrow> hub \<Rightarrow> hub" where
  "push_ui agent_id m c h =
     (if may_see agent_id c h
      then (case send_ui c m h of (h1, True) \<Rightarrow> h1 | (h1, False) \<Rightarrow> drop_ui_client c h1)
      else h)"

definition route_to_ui :: "world \<Rightarrow> string \<Rightarrow> Message \<Rightarrow> hub \<Rightarrow> hub" where
  "route_to_ui W agent_id m h =
     (case agent_operation m of
        Some op \<Rightarrow>
          (let ow = owner agent_id (op_key op) (h_owners h);
               h1 = (if op_ends op then h\<lparr>h_owners := release_agent_operation agent_id (op_key op) (h_owners h)\<rparr> else h)
           in case ow of Some c \<Rightarrow> push_ui agent_id (AgentMessage agent_id m) c h1 | None \<Rightarrow> h1)
      | None \<Rightarrow> fold (push_ui agent_id (AgentMessage agent_id m)) (w_clients_iter W (dom (h_clients h))) h)"

section \<open>One message\<close>

fun job_results :: "world \<Rightarrow> string \<Rightarrow> Message \<Rightarrow> server \<Rightarrow> server" where
  "job_results W a (Probe (HealthProbeReport results)) s = fold (probe_result W a) results s"
| "job_results W a (Backup (BackupListArchivesResponse x1 x2 x3 x4)) s =
     resolve_list a (Backup (BackupListArchivesResponse x1 x2 x3 x4)) s"
| "job_results W a (Backup (BackupRestoreResponse x1 x2 x3 x4 x5 x6)) s =
     resolve_restore a (Backup (BackupRestoreResponse x1 x2 x3 x4 x5 x6)) s"
| "job_results W a (Backup (BackupRunResponse i name success path bytes lg error)) s =
     backup_result W a i name success path bytes lg error s"
| "job_results W a _ s = s"

fun upgrade_results :: "world \<Rightarrow> string \<Rightarrow> Message \<Rightarrow> server \<Rightarrow> server" where
  "upgrade_results W a (Apt (AptUpgradeResponse pkg success lg error)) s = upgrade_result W a success lg error s"
| "upgrade_results W a _ s = s"

fun output_tap :: "Message \<Rightarrow> server \<Rightarrow> server" where
  "output_tap (Terminal (TerminalData sid data)) s = on_hub (recorder_frame sid ''o'' data) s"
| "output_tap _ s = s"

fun exec_answer :: "Message \<Rightarrow> string option" where
  "exec_answer (Exec (RunCommandResponse rid x1 x2 x3 x4 x5 x6 x7)) = Some rid"
| "exec_answer _ = None"

definition handle_answer :: "'j fleet_json \<Rightarrow> world \<Rightarrow> string \<Rightarrow> Message \<Rightarrow> server \<Rightarrow> server" where
  "handle_answer J W agent_id m s =
     (let s1 = s\<lparr>sv_fleet := fst (ingest_message J (w_flt W) agent_id m (w_now W) (sv_fleet s))\<rparr>
      in case exec_answer m of
           Some rid \<Rightarrow> resolve_exec agent_id rid m s1
         | None \<Rightarrow>
             (let s2 = job_results W agent_id m s1;
                  s3 = on_ops (maybe_attribute_response (w_flt W) (w_now W) agent_id m) s2;
                  s4 = upgrade_results W agent_id m s3;
                  s5 = output_tap m s4
              in on_hub (route_to_ui W agent_id m) s5))"

definition handle_agent_message ::
    "'j fleet_json \<Rightarrow> world \<Rightarrow> nat \<Rightarrow> agent_conn \<Rightarrow> Message \<Rightarrow> server \<Rightarrow> agent_conn \<times> server \<times> bool" where
  "handle_agent_message J W tx conn m s =
     (case m of
        Session (Register hostname protocol_version capabilities metadata) \<Rightarrow>
          handle_register J W tx conn hostname protocol_version capabilities metadata s
      | Session (CapabilitiesUpdate capabilities) \<Rightarrow>
          (conn, (case ac_agent conn of Some a \<Rightarrow> handle_capabilities J W tx a capabilities s | None \<Rightarrow> s), True)
      | Session Ping \<Rightarrow>
          (conn,
           on_hub (send_agent tx (Session Pong))
             (case ac_agent conn of
                Some a \<Rightarrow> s\<lparr>sv_fleet := fst (ingest_touch (w_flt W) a (w_now W) (sv_fleet s))\<rparr> | None \<Rightarrow> s), True)
      | _ \<Rightarrow> (conn, (case ac_agent conn of Some a \<Rightarrow> handle_answer J W a m s | None \<Rightarrow> s), True))"

section \<open>Teardown and the debounced notification\<close>

definition DISCONNECT_GRACE :: nat where "DISCONNECT_GRACE = 50"

text \<open>First half: if the entry is still this socket's, take it out. \<open>True\<close>: a debounce follows.\<close>

definition teardown_remove :: "world \<Rightarrow> nat \<Rightarrow> string \<Rightarrow> server \<Rightarrow> server \<times> bool" where
  "teardown_remove W tx agent_id s =
     (if \<not> same_channel agent_id tx (sv_hub s) then (s, False)
      else
        (let s1 = on_hub (\<lambda>h. h\<lparr>h_agents := (h_agents h)(agent_id := None),
                                h_owners := release_agent agent_id (h_owners h)\<rparr>) s;
             s2 = s1\<lparr>sv_exec := (\<lambda>r. case sv_exec s1 r of Some (e, w) \<Rightarrow> if e \<noteq> agent_id then Some (e, w) else None | None \<Rightarrow> None),
                      sv_fleet := fst (disconnected (w_flt W) agent_id (w_now W) (sv_fleet s1))\<rparr>
         in (on_hub (broadcast_agent_list W) s2, True)))"

text \<open>Second half: spawn the debounce task and record it.\<close>

definition teardown_debounce :: "string \<Rightarrow> server \<Rightarrow> server" where
  "teardown_debounce agent_id s =
     s\<lparr>sv_timers := (sv_timers s)(sv_next s \<mapsto> agent_id), sv_next := sv_next s + 1,
       sv_states := (sv_states s)(agent_id \<mapsto> Pending (sv_next s))\<rparr>"

text \<open>The debounce task after its \<open>DISCONNECT_GRACE\<close>; an aborted task never runs.\<close>

definition debounce_fire :: "world \<Rightarrow> nat \<Rightarrow> server \<Rightarrow> server" where
  "debounce_fire W h s =
     (case sv_timers s h of None \<Rightarrow> s
      | Some agent_id \<Rightarrow>
          (let s1 = s\<lparr>sv_timers := (sv_timers s)(h := None)\<rparr>
           in case sv_states s agent_id of
                Some (Pending _) \<Rightarrow>
                  fire_hook (Hook_Disconnect agent_id (w_now W))
                    (s1\<lparr>sv_states := (sv_states s)(agent_id \<mapsto> Confirmed (w_now W) (w_now W))\<rparr>)
              | _ \<Rightarrow> s1))"

text \<open>One tick of the stale-agent alerter, over the confirmed agents in the order \<open>ids\<close>.\<close>

definition realert_secs :: "env \<Rightarrow> int" where
  "realert_secs env =
     (case env ''STALE_AGENT_REALERT_SECS'' of
        Some v \<Rightarrow> (case parse_i64 v of Some n \<Rightarrow> n | None \<Rightarrow> 3600) | None \<Rightarrow> 3600)"

definition realert_one :: "world \<Rightarrow> string \<Rightarrow> server \<Rightarrow> server" where
  "realert_one W agent_id s =
     (case sv_states s agent_id of
        Some (Confirmed since last_alert) \<Rightarrow>
          if w_now W - last_alert \<ge> realert_secs (w_env W)
          then fire_hook (Hook_Still_Offline agent_id (w_now W - since) (w_now W))
                 (s\<lparr>sv_states := (sv_states s)(agent_id \<mapsto> Confirmed since (w_now W))\<rparr>)
          else s
      | _ \<Rightarrow> s)"

definition stale_alerter_tick :: "world \<Rightarrow> server \<Rightarrow> server" where
  "stale_alerter_tick W s =
     (if realert_secs (w_env W) \<le> 0 then s
      else fold (realert_one W) (w_agents_iter W (dom (sv_states s))) s)"

section \<open>Events\<close>

datatype agent_event =
    Ag_Open "string option"
  | Ag_Message nat Message
  | Ag_Gone nat
  | Ag_Close nat
  | Ag_Debounce nat
  | Ag_Timer nat
  | Ag_Alert

text \<open>
  \<open>Ag_Message\<close> is a parsed frame of an open socket, \<open>Ag_Gone\<close> the end of its read loop, \<open>Ag_Close\<close> and
  \<open>Ag_Debounce\<close> the two halves of its teardown.
\<close>

definition on_message :: "'j fleet_json \<Rightarrow> world \<Rightarrow> nat \<Rightarrow> Message \<Rightarrow> server \<Rightarrow> server" where
  "on_message J W tx m s =
     (case sv_conns s tx of None \<Rightarrow> s
      | Some conn \<Rightarrow>
          if ac_phase conn \<noteq> Reading then s
          else (case handle_agent_message J W tx conn m s of
                  (conn1, s1, go) \<Rightarrow>
                    s1\<lparr>sv_conns := (sv_conns s1)(tx \<mapsto> conn1\<lparr>ac_phase := (if go then Reading else Ended)\<rparr>)\<rparr>))"

definition on_close :: "world \<Rightarrow> nat \<Rightarrow> server \<Rightarrow> server" where
  "on_close W tx s =
     (case sv_conns s tx of None \<Rightarrow> s
      | Some conn \<Rightarrow>
          if ac_phase conn \<noteq> Ended then s
          else (case ac_agent conn of
                  None \<Rightarrow> s\<lparr>sv_conns := (sv_conns s)(tx := None)\<rparr>
                | Some a \<Rightarrow>
                    (case teardown_remove W tx a s of
                       (s1, True) \<Rightarrow> s1\<lparr>sv_conns := (sv_conns s1)(tx \<mapsto> conn\<lparr>ac_phase := Debouncing\<rparr>)\<rparr>
                     | (s1, False) \<Rightarrow> s1\<lparr>sv_conns := (sv_conns s1)(tx := None)\<rparr>)))"

definition on_debounce :: "nat \<Rightarrow> server \<Rightarrow> server" where
  "on_debounce tx s =
     (case sv_conns s tx of None \<Rightarrow> s
      | Some conn \<Rightarrow>
          if ac_phase conn \<noteq> Debouncing then s
          else (case ac_agent conn of None \<Rightarrow> s
                | Some a \<Rightarrow> (teardown_debounce a s)\<lparr>sv_conns := (sv_conns s)(tx := None)\<rparr>))"

definition on_gone :: "nat \<Rightarrow> server \<Rightarrow> server" where
  "on_gone tx s =
     (case sv_conns s tx of
        Some conn \<Rightarrow> if ac_phase conn = Reading then s\<lparr>sv_conns := (sv_conns s)(tx \<mapsto> conn\<lparr>ac_phase := Ended\<rparr>)\<rparr> else s
      | None \<Rightarrow> s)"

fun agent_step :: "'j fleet_json \<Rightarrow> world \<Rightarrow> agent_event \<Rightarrow> server \<Rightarrow> server" where
  "agent_step J W (Ag_Open auth) s = fst (agent_ws_handler W auth s)"
| "agent_step J W (Ag_Message tx m) s = on_message J W tx m s"
| "agent_step J W (Ag_Gone tx) s = on_gone tx s"
| "agent_step J W (Ag_Close tx) s = on_close W tx s"
| "agent_step J W (Ag_Debounce tx) s = on_debounce tx s"
| "agent_step J W (Ag_Timer h) s = debounce_fire W h s"
| "agent_step J W Ag_Alert s = stale_alerter_tick W s"

section \<open>Lemmas\<close>

named_theorems server_sel \<open>what the server-side helpers leave alone\<close>

lemma on_hub_sel [simp]:
  "sv_hub (on_hub f s) = f (sv_hub s)" "sv_ops (on_hub f s) = sv_ops s" "sv_fleet (on_hub f s) = sv_fleet s"
  "sv_tokens (on_hub f s) = sv_tokens s" "sv_conns (on_hub f s) = sv_conns s" "sv_states (on_hub f s) = sv_states s"
  "sv_timers (on_hub f s) = sv_timers s" "sv_next (on_hub f s) = sv_next s" "sv_hooks (on_hub f s) = sv_hooks s"
  "sv_sched (on_hub f s) = sv_sched s"
  by (simp_all add: on_hub_def)

lemma on_ops_sel [simp]:
  "sv_hub (on_ops g s) = sv_hub s" "sv_ops (on_ops g s) = g (sv_ops s)" "sv_fleet (on_ops g s) = sv_fleet s"
  "sv_tokens (on_ops g s) = sv_tokens s" "sv_conns (on_ops g s) = sv_conns s" "sv_states (on_ops g s) = sv_states s"
  "sv_timers (on_ops g s) = sv_timers s" "sv_next (on_ops g s) = sv_next s" "sv_hooks (on_ops g s) = sv_hooks s"
  "sv_sched (on_ops g s) = sv_sched s"
  by (simp_all add: on_ops_def)

lemma fire_hook_sel [simp]:
  "sv_hub (fire_hook k s) = sv_hub s" "sv_ops (fire_hook k s) = sv_ops s" "sv_fleet (fire_hook k s) = sv_fleet s"
  "sv_tokens (fire_hook k s) = sv_tokens s" "sv_conns (fire_hook k s) = sv_conns s" "sv_states (fire_hook k s) = sv_states s"
  "sv_timers (fire_hook k s) = sv_timers s" "sv_next (fire_hook k s) = sv_next s" "sv_sched (fire_hook k s) = sv_sched s"
  by (simp_all add: fire_hook_def)

text \<open>
  Bookkeeping changes the account tables (audit rows), the recorder and the frames of the hub, nothing else of
  it; and it leaves sockets, tokens, disconnect states and timers alone.
\<close>

fun is_notice :: "hook \<Rightarrow> bool" where
  "is_notice (Hook_Connect _ _) = True"
| "is_notice (Hook_Disconnect _ _) = True"
| "is_notice (Hook_Still_Offline _ _ _) = True"
| "is_notice _ = False"

definition notices :: "server \<Rightarrow> hook list" where
  "notices s = filter is_notice (sv_hooks s)"

definition books :: "server \<Rightarrow> server \<Rightarrow> bool" where
  "books s s' \<longleftrightarrow>
     h_agents (sv_hub s') = h_agents (sv_hub s) \<and>
     h_clients (sv_hub s') = h_clients (sv_hub s) \<and>
     h_tasks (sv_hub s') = h_tasks (sv_hub s) \<and>
     h_sockets (sv_hub s') = h_sockets (sv_hub s) \<and>
     h_owners (sv_hub s') = h_owners (sv_hub s) \<and>
     h_next_client (sv_hub s') = h_next_client (sv_hub s) \<and>
     h_receiving (sv_hub s') = h_receiving (sv_hub s) \<and>
     h_ui_out (sv_hub s') = h_ui_out (sv_hub s) \<and>
     h_agent_out (sv_hub s') = h_agent_out (sv_hub s) \<and>
     sv_tokens s' = sv_tokens s \<and>
     sv_conns s' = sv_conns s \<and>
     sv_states s' = sv_states s \<and>
     sv_timers s' = sv_timers s \<and>
     sv_next s' = sv_next s \<and> notices s' = notices s"

lemma books_trans: "books s s1 \<Longrightarrow> books s1 s2 \<Longrightarrow> books s s2"
  by (simp add: books_def)

lemma books_refl [simp]: "books s s"
  by (simp add: books_def)

lemma books_upd [simp]:
  "books s (on_ops g s1) \<longleftrightarrow> books s s1" "\<not> is_notice k \<Longrightarrow> books s (fire_hook k s1) \<longleftrightarrow> books s s1"
  "books s (s1\<lparr>sv_fleet := fl\<rparr>) \<longleftrightarrow> books s s1" "books s (s1\<lparr>sv_exec := ex\<rparr>) \<longleftrightarrow> books s s1"
  "books s (s1\<lparr>sv_lists := ls\<rparr>) \<longleftrightarrow> books s s1" "books s (s1\<lparr>sv_restores := ls\<rparr>) \<longleftrightarrow> books s s1"
  "books s (s1\<lparr>sv_sched := sc\<rparr>) \<longleftrightarrow> books s s1" "books s (resolve w m s1) \<longleftrightarrow> books s s1"
  by (simp_all add: books_def notices_def resolve_def fire_hook_def)

lemma books_audit: "books s s1 \<Longrightarrow> books s (audit_sv W actor a kind ok detail s1)"
  by (auto simp: books_def notices_def audit_sv_def audit_hub_def)

lemma books_frame: "books s s1 \<Longrightarrow> books s (on_hub (recorder_frame sid dir data) s1)"
  by (auto simp: books_def notices_def recorder_frame_def)

lemma books_probe: "books s (probe_result W a r s)"
  by (auto simp: probe_result_def Let_def intro!: books_audit split: option.splits)

lemma books_fold: "(\<And>x s. books s (f x s)) \<Longrightarrow> books s (fold f xs s)"
  by (induction xs arbitrary: s) (auto intro: books_trans)

lemma books_job_results: "books s (job_results W a m s)"
  by (induction W a m s rule: job_results.induct)
    (auto simp: backup_result_def resolve_list_def resolve_restore_def Let_def
      intro!: books_fold books_probe books_audit split: option.splits list.splits)

lemma books_upgrade: "books s (upgrade_results W a m s)"
  by (induction W a m s rule: upgrade_results.induct)
    (auto simp: upgrade_result_def Let_def intro!: books_audit)

lemma books_tap: "books s (output_tap m s)"
  by (induction m s rule: output_tap.induct) (auto intro: books_frame)

lemma books_exec: "books s (resolve_exec a rid m s)"
  by (auto simp: resolve_exec_def split: option.splits)

lemma handle_answer_books:
  obtains s5 where "books s s5" "handle_answer J W a m s = (if exec_answer m = None then on_hub (route_to_ui W a m) s5 else s5)"
proof (cases "exec_answer m")
  case (Some rid)
  show thesis
    by (rule that [of "handle_answer J W a m s"])
      (use books_trans [OF _ books_exec] Some in \<open>auto simp: handle_answer_def Let_def\<close>)
next
  case None
  let ?s1 = "s\<lparr>sv_fleet := fst (ingest_message J (w_flt W) a m (w_now W) (sv_fleet s))\<rparr>"
  let ?s5 = "output_tap m (upgrade_results W a m (on_ops (maybe_attribute_response (w_flt W) (w_now W) a m) (job_results W a m ?s1)))"
  have "books s ?s1" by simp
  then have "books s (job_results W a m ?s1)" by (rule books_trans [OF _ books_job_results])
  then have "books s (on_ops (maybe_attribute_response (w_flt W) (w_now W) a m) (job_results W a m ?s1))" by simp
  then have "books s ?s5" by (rule books_trans [OF books_trans [OF _ books_upgrade] books_tap])
  then show thesis by (rule that) (simp add: None handle_answer_def Let_def)
qed

section \<open>Routing\<close>

lemma push_ui_out:
  "\<exists>out. h_ui_out (push_ui a x c h) = h_ui_out h @ out \<and> (\<forall>y\<in>set out. y = (c, x) \<and> may_see a c h)"
  by (auto simp: push_ui_def send_ui_def drop_ui_client_def split: prod.splits)

lemma push_ui_sees: "may_see a c' (push_ui a x c h) \<Longrightarrow> may_see a c' h"
  by (auto simp: push_ui_def may_see_def send_ui_def drop_ui_client_def split: prod.splits if_splits option.splits)

lemma fold_push_out:
  "\<exists>out. h_ui_out (fold (push_ui a x) cs h) = h_ui_out h @ out \<and> (\<forall>y\<in>set out. snd y = x \<and> may_see a (fst y) h)"
proof (induction cs arbitrary: h)
  case (Cons c cs)
  obtain o1 where o1: "h_ui_out (push_ui a x c h) = h_ui_out h @ o1" "\<forall>y\<in>set o1. y = (c, x) \<and> may_see a c h"
    using push_ui_out by blast
  obtain o2 where o2: "h_ui_out (fold (push_ui a x) cs (push_ui a x c h)) = h_ui_out (push_ui a x c h) @ o2"
    "\<forall>y\<in>set o2. snd y = x \<and> may_see a (fst y) (push_ui a x c h)"
    using Cons by blast
  show ?case
    by (rule exI [of _ "o1 @ o2"]) (use o1 o2 push_ui_sees in auto)
qed simp

lemma route_out:
  "\<exists>out. h_ui_out (route_to_ui W a m h) = h_ui_out h @ out \<and>
     (\<forall>y\<in>set out. snd y = AgentMessage a m \<and> may_see a (fst y) h \<and>
        (\<forall>op. agent_operation m = Some op \<longrightarrow> owner a (op_key op) (h_owners h) = Some (fst y)))"
proof (cases "agent_operation m")
  case None
  then show ?thesis using fold_push_out [of a "AgentMessage a m"] by (simp add: route_to_ui_def)
next
  case (Some op)
  define h1 where "h1 = (if op_ends op then h\<lparr>h_owners := release_agent_operation a (op_key op) (h_owners h)\<rparr> else h)"
  have h1: "h_ui_out h1 = h_ui_out h" "may_see a c h1 = may_see a c h" for c by (simp_all add: h1_def may_see_def)
  show ?thesis
  proof (cases "owner a (op_key op) (h_owners h)")
    case None
    then show ?thesis using Some h1 by (simp add: route_to_ui_def Let_def h1_def [symmetric])
  next
    case (Some c)
    then have r: "route_to_ui W a m h = push_ui a (AgentMessage a m) c h1"
      using \<open>agent_operation m = Some op\<close> by (simp add: route_to_ui_def Let_def h1_def)
    obtain out where o: "h_ui_out (push_ui a (AgentMessage a m) c h1) = h_ui_out h1 @ out"
      "\<forall>y\<in>set out. y = (c, AgentMessage a m) \<and> may_see a c h1"
      using push_ui_out by blast
    show ?thesis by (rule exI [of _ out]) (use o h1 r Some \<open>agent_operation m = Some op\<close> in auto)
  qed
qed

end
