(* ===== verification/Agent_Safety.thy ===== *)
theory Agent_Safety
  imports Agent_Hub
begin

text \<open>
  What holds of the whole hub, over interleavings of operator events (\<open>Ui_Hub\<close>) and agent events
  (\<open>Agent_Hub\<close>): where an agent's output may go, which notifications are sent, which identity a token may
  claim, and two interleavings of a teardown with a registration that the code does not handle.
\<close>

section \<open>Runs\<close>

datatype server_event = On_Ui ui_event | On_Agent agent_event

fun server_step :: "jwt_lib \<Rightarrow> 'j fleet_json \<Rightarrow> world \<times> server_event \<Rightarrow> server \<Rightarrow> server" where
  "server_step L J (W, On_Ui ev) s = on_hub (ui_step L W ev) s"
| "server_step L J (W, On_Agent ev) s = agent_step J W ev s"

definition server_run :: "jwt_lib \<Rightarrow> 'j fleet_json \<Rightarrow> (world \<times> server_event) list \<Rightarrow> server \<Rightarrow> server" where
  "server_run L J evs = fold (server_step L J) evs"

lemma server_run_simps [simp]:
  "server_run L J [] s = s" "server_run L J (e # evs) s = server_run L J evs (server_step L J e s)"
  by (simp_all add: server_run_def)

text \<open>An invariant of every step holds of every run; a step may rely on a condition \<open>ok\<close> on its event.\<close>

lemma server_run_induct:
  assumes "P s" and "\<And>e s. e \<in> set evs \<Longrightarrow> P s \<Longrightarrow> P (server_step L J e s)"
  shows "P (server_run L J evs s)"
  using assms by (induction evs arbitrary: s) auto

text \<open>The server as \<open>main\<close> builds it: the tables as they are, everything else empty.\<close>

definition boot :: "auth_db \<Rightarrow> ops_db \<Rightarrow> fleet_db \<Rightarrow> TokenRow table \<Rightarrow> server" where
  "boot d ops fl ts =
     \<lparr>sv_hub = \<lparr>h_agents = Map.empty, h_clients = Map.empty, h_tasks = Map.empty, h_sockets = {}, h_owners = no_owners,
        h_next_client = 0, h_users = d, h_recording = {}, h_frames = [], h_receiving = {}, h_ui_out = [], h_agent_out = []\<rparr>,
      sv_ops = ops, sv_fleet = \<lparr>fl_db = fl, fl_events = \<lparr>next_id = 0, published = []\<rparr>\<rparr>, sv_tokens = ts,
      sv_conns = Map.empty, sv_states = Map.empty, sv_timers = Map.empty, sv_next = 0, sv_exec = Map.empty,
      sv_lists = (\<lambda>_. []), sv_restores = (\<lambda>_. []), sv_sched = {}, sv_answers = [], sv_hooks = []\<rparr>"

section \<open>What goes to operators\<close>

text \<open>\<open>h'\<close> extends the output of \<open>h\<close> by lists of agents only.\<close>

definition only_lists :: "hub \<Rightarrow> hub \<Rightarrow> bool" where
  "only_lists h h' \<longleftrightarrow> (\<exists>out. h_ui_out h' = h_ui_out h @ out \<and> (\<forall>y\<in>set out. \<forall>a m. snd y \<noteq> AgentMessage a m))"

lemma only_lists_same: "h_ui_out h' = h_ui_out h \<Longrightarrow> only_lists h h'"
  by (simp add: only_lists_def)

lemma only_lists_trans: "only_lists h h1 \<Longrightarrow> only_lists h1 h2 \<Longrightarrow> only_lists h h2"
  unfolding only_lists_def by (elim exE conjE) (rule exI, rule conjI, simp, auto)

lemma only_lists_one: "only_lists h (broadcast_one W snap ident h)"
  by (cases ident)
    (auto simp: only_lists_def broadcast_one_def Let_def send_ui_def list_response_def drop_ui_client_def split: prod.splits)

lemma only_lists_broadcast: "only_lists h (broadcast_agent_list W h)"
proof -
  have "only_lists h (fold (broadcast_one W snap) xs h)" for snap xs
    by (induction xs arbitrary: h) (auto intro: only_lists_same only_lists_trans only_lists_one)
  then show ?thesis by (simp add: broadcast_agent_list_def Let_def)
qed

lemma broadcast_agents: "h_agents (broadcast_agent_list W h) = h_agents h"
proof -
  have "h_agents (broadcast_one W snap i h) = h_agents h" for snap i h
    by (cases i) (auto simp: broadcast_one_def Let_def send_ui_def)
  then have "h_agents (fold (broadcast_one W snap) is h) = h_agents h" for snap "is"
    by (induction "is" arbitrary: h) simp_all
  then show ?thesis by (simp add: broadcast_agent_list_def Let_def)
qed

lemma push_to_agent_out [simp]:
  "h_ui_out (sv_hub (push_to_agent dec W a s)) = h_ui_out (sv_hub s)"
  "h_agents (sv_hub (push_to_agent dec W a s)) = h_agents (sv_hub s)"
  "h_clients (sv_hub (push_to_agent dec W a s)) = h_clients (sv_hub s)"
  "h_tasks (sv_hub (push_to_agent dec W a s)) = h_tasks (sv_hub s)"
  "h_owners (sv_hub (push_to_agent dec W a s)) = h_owners (sv_hub s)"
  "sv_tokens (push_to_agent dec W a s) = sv_tokens s" "sv_conns (push_to_agent dec W a s) = sv_conns s"
  "sv_states (push_to_agent dec W a s) = sv_states s" "sv_timers (push_to_agent dec W a s) = sv_timers s"
  "sv_next (push_to_agent dec W a s) = sv_next s" "sv_hooks (push_to_agent dec W a s) = sv_hooks s"
  by (auto simp: push_to_agent_def deliver_def send_agent_def split: sum.splits option.splits)

lemma audit_sv_sel [simp]:
  "h_ui_out (sv_hub (audit_sv W x a k b d s)) = h_ui_out (sv_hub s)"
  "h_agents (sv_hub (audit_sv W x a k b d s)) = h_agents (sv_hub s)"
  "h_clients (sv_hub (audit_sv W x a k b d s)) = h_clients (sv_hub s)"
  "h_tasks (sv_hub (audit_sv W x a k b d s)) = h_tasks (sv_hub s)"
  "h_owners (sv_hub (audit_sv W x a k b d s)) = h_owners (sv_hub s)"
  "sv_tokens (audit_sv W x a k b d s) = sv_tokens s" "sv_conns (audit_sv W x a k b d s) = sv_conns s"
  "sv_states (audit_sv W x a k b d s) = sv_states s" "sv_timers (audit_sv W x a k b d s) = sv_timers s"
  "sv_next (audit_sv W x a k b d s) = sv_next s" "sv_hooks (audit_sv W x a k b d s) = sv_hooks s"
  by (simp_all add: audit_sv_def audit_hub_def)

lemma settle_sel [simp]:
  "sv_hub (settle_disconnect W a s) = sv_hub s" "sv_tokens (settle_disconnect W a s) = sv_tokens s"
  "sv_conns (settle_disconnect W a s) = sv_conns s" "sv_next (settle_disconnect W a s) = sv_next s"
  by (auto simp: settle_disconnect_def Let_def split: option.splits DisconnectState.splits)

text \<open>A registration either refuses, with an audit row, or commits.\<close>

lemma handle_register_cases:
  obtains (Refused) k b d where "handle_register J W tx conn hn pv caps meta s = (conn, audit_sv W None k b False d s, False)"
  | (Committed) fl s3 where
      "identity_conflict W (ac_token conn) hn s = None"
      "pv = 0 \<or> pv = PROTOCOL_VERSION"
      "s3 = settle_disconnect W (hn @ ''-id'')
              (on_hub (\<lambda>h. h\<lparr>h_agents := (h_agents h)(hn @ ''-id'' \<mapsto> \<lparr>ae_tx = tx, ae_capabilities = caps\<rparr>)\<rparr>) (s\<lparr>sv_fleet := fl\<rparr>))"
      "handle_register J W tx conn hn pv caps meta s =
         (conn\<lparr>ac_agent := Some (hn @ ''-id'')\<rparr>,
          push_to_agent (dec_caps J) W (hn @ ''-id'')
           (on_hub (broadcast_agent_list W)
             (on_hub (send_agent tx (Session (RegisterAck (hn @ ''-id''))))
               (audit_sv W None (Some (hn @ ''-id'')) ''agent.register'' True
                 (Some (''protocol_version='' @ nat_to_dec (unat pv)))
                 (if w_flt W ''upsert_token_seen'' then s3
                  else s3\<lparr>sv_tokens := upsert_token_seen (ac_token conn) hn (w_now W) (sv_tokens s3)\<rparr>)))), True)"
proof (cases "identity_conflict W (ac_token conn) hn s")
  case (Some x)
  then show thesis by (intro Refused [of None "''agent.register''"]) (auto simp: handle_register_def)
next
  case None
  show thesis
  proof (cases "pv \<noteq> 0 \<and> pv \<noteq> PROTOCOL_VERSION")
    case True
    with None show thesis by (intro Refused [of None "''agent.register''"]) (auto simp: handle_register_def)
  next
    case False
    obtain fl ok where c: "connected J (w_flt W) (hn @ ''-id'') hn pv caps meta (w_now W) (sv_fleet s) = (fl, ok)" by fastforce
    show thesis
    proof (cases ok)
      case True
      show thesis
        by (rule Committed [OF None _ refl, of fl]) (use False None c True in \<open>auto simp: handle_register_def Let_def\<close>)
    next
      case nok: False
      then show thesis using None False c
        by (intro Refused [of "Some (hn @ ''-id'')" "''agent.register''"]) (auto simp: handle_register_def Let_def)
    qed
  qed
qed

lemma register_lists:
  "only_lists (sv_hub s) (sv_hub (fst (snd (handle_register J W tx conn hn pv caps meta s))))"
proof (cases rule: handle_register_cases [of J W tx conn hn pv caps meta s])
  case (Refused k b d)
  then show ?thesis by (auto intro: only_lists_same)
next
  case (Committed fl s3)
  let ?s5 = "on_hub (send_agent tx (Session (RegisterAck (hn @ ''-id''))))
    (audit_sv W None (Some (hn @ ''-id'')) ''agent.register'' True (Some (''protocol_version='' @ nat_to_dec (unat pv)))
      (if w_flt W ''upsert_token_seen'' then s3
       else s3\<lparr>sv_tokens := upsert_token_seen (ac_token conn) hn (w_now W) (sv_tokens s3)\<rparr>))"
  have "only_lists (sv_hub s) (sv_hub ?s5)" by (rule only_lists_same) (simp add: send_agent_def Committed(3))
  from only_lists_trans [OF this only_lists_broadcast]
  have "only_lists (sv_hub s) (broadcast_agent_list W (sv_hub ?s5))" .
  then show ?thesis unfolding Committed(4) by (simp only: only_lists_def push_to_agent_out on_hub_sel fst_conv snd_conv)
qed

lemma answer_out:
  "\<exists>out. h_ui_out (sv_hub (handle_answer J W a m s)) = h_ui_out (sv_hub s) @ out \<and>
     (\<forall>y\<in>set out. snd y = AgentMessage a m \<and> may_see a (fst y) (sv_hub s) \<and>
        (\<forall>op. agent_operation m = Some op \<longrightarrow> owner a (op_key op) (h_owners (sv_hub s)) = Some (fst y)))"
proof -
  obtain s5 where b: "books s s5"
    and s': "handle_answer J W a m s = (if exec_answer m = None then on_hub (route_to_ui W a m) s5 else s5)"
    by (rule handle_answer_books)
  have same: "h_ui_out (sv_hub s5) = h_ui_out (sv_hub s)" "h_owners (sv_hub s5) = h_owners (sv_hub s)"
    "may_see a c (sv_hub s5) = may_see a c (sv_hub s)" for c
    using b by (simp_all add: books_def may_see_def)
  show ?thesis using route_out [of W a m "sv_hub s5"] by (cases "exec_answer m") (simp_all add: s' same)
qed

lemma capabilities_lists: "only_lists (sv_hub s) (sv_hub (handle_capabilities J W tx a caps s))"
proof -
  have "only_lists h (broadcast_agent_list W (h\<lparr>h_agents := x\<rparr>))" for h x
    by (rule only_lists_trans [OF only_lists_same only_lists_broadcast]) simp
  then show ?thesis
    by (auto simp: handle_capabilities_def capabilities_commit_def intro: only_lists_same split: option.splits prod.splits bool.splits)
qed

lemma agent_message_cases:
  obtains (Reg) hn pv caps meta where "m = Session (Register hn pv caps meta)"
  | (Caps) caps where "m = Session (CapabilitiesUpdate caps)" | (Ping) "m = Session Ping"
  | (Other) "handle_agent_message J W tx conn m s =
      (conn, (case ac_agent conn of Some a \<Rightarrow> handle_answer J W a m s | None \<Rightarrow> s), True)"
proof (cases m)
  case (Session x)
  note eq = this
  show thesis using that unfolding eq by (cases x) (auto simp: handle_agent_message_def)
qed (use that in \<open>auto simp: handle_agent_message_def\<close>)

lemma message_out:
  assumes c: "sv_conns s tx = Some conn" and r: "ac_phase conn = Reading"
  shows "only_lists (sv_hub s) (sv_hub (on_message J W tx m s)) \<or>
    (\<exists>a out. ac_agent conn = Some a \<and> h_ui_out (sv_hub (on_message J W tx m s)) = h_ui_out (sv_hub s) @ out \<and>
      (\<forall>y\<in>set out. snd y = AgentMessage a m \<and> may_see a (fst y) (sv_hub s) \<and>
        (\<forall>op. agent_operation m = Some op \<longrightarrow> owner a (op_key op) (h_owners (sv_hub s)) = Some (fst y))))"
proof -
  have hub: "sv_hub (on_message J W tx m s) = sv_hub (fst (snd (handle_agent_message J W tx conn m s)))"
    by (simp add: on_message_def c r split: prod.splits)
  show ?thesis
  proof (cases rule: agent_message_cases [where m = m and J = J and W = W and tx = tx and conn = conn and s = s])
    case (Reg hn pv caps meta)
    then show ?thesis unfolding hub by (simp add: handle_agent_message_def register_lists)
  next
    case (Caps caps)
    then show ?thesis unfolding hub by (simp add: handle_agent_message_def capabilities_lists only_lists_same split: option.splits)
  next
    case Ping
    then show ?thesis by (intro disjI1 only_lists_same) (unfold hub, simp add: handle_agent_message_def send_agent_def split: option.splits)
  next
    case Other
    show ?thesis
    proof (cases "ac_agent conn")
      case None
      then show ?thesis by (intro disjI1 only_lists_same) (simp add: hub Other)
    next
      case (Some a)
      then show ?thesis using answer_out [of J W a m s] by (simp add: hub Other)
    qed
  qed
qed

text \<open>
  C8: an agent's output is confined. Whatever frame arrives on an agent's socket, a message in an agent's
  name that it adds to an operator's queue is that frame, under the identity this socket registered as; the
  receiving client may see that agent; and when the frame belongs to an operation (a terminal, a log stream,
  a docker exec, a trusted operation), the client is the one that owns the operation.
\<close>
theorem agent_output_is_confined:
  assumes new: "(c, AgentMessage a x) \<in> set (drop (length (h_ui_out (sv_hub s))) (h_ui_out (sv_hub (on_message J W tx m s))))"
  shows "x = m \<and> map_option ac_agent (sv_conns s tx) = Some (Some a) \<and> may_see a c (sv_hub s) \<and>
    (\<forall>op. agent_operation m = Some op \<longrightarrow> owner a (op_key op) (h_owners (sv_hub s)) = Some c)"
proof -
  have "\<exists>conn. sv_conns s tx = Some conn \<and> ac_phase conn = Reading"
  proof (rule ccontr)
    assume "\<not> ?thesis"
    then have "on_message J W tx m s = s" by (auto simp: on_message_def split: option.splits)
    with new show False by simp
  qed
  then obtain conn where conn: "sv_conns s tx = Some conn" "ac_phase conn = Reading" by blast
  from message_out [OF this, of J W m] new conn show ?thesis
    by (fastforce simp: only_lists_def)
qed

definition demo_client :: UiClient where
  "demo_client = \<lparr>uc_login = ''root'', uc_client_ip = ''10.0.0.1'', uc_agent_access = Unrestricted,
     uc_http_receiver = False, uc_http_token = None, uc_last_seen = 0\<rparr>"

definition demo_ops_db :: ops_db where
  "demo_ops_db = \<lparr>od_windows = [], od_probes = [], od_probe_seq = 0, od_runs = [], od_run_seq = 0, od_results = [],
     od_notes = [], od_note_seq = 0, od_labels = [], od_jobs = [], od_job_seq = 0\<rparr>"

definition demo_server :: server where
  "demo_server =
     \<lparr>sv_hub = \<lparr>h_agents = Map.empty, h_clients = [1 \<mapsto> demo_client],
        h_tasks = [1 \<mapsto> \<lparr>ut_login = ''root'', ut_token_iat = 50, ut_client_ip = ''10.0.0.1'', ut_rec_sessions = {}, ut_commands = []\<rparr>],
        h_sockets = {1}, h_owners = fst (claim ''a-id'' (KTerminal ''t'') 1 no_owners), h_next_client = 2,
        h_users = \<lparr>db_users = [], db_invites = [], db_seats = None, db_audit = []\<rparr>, h_recording = {}, h_frames = [],
        h_receiving = {1}, h_ui_out = [], h_agent_out = []\<rparr>,
      sv_ops = demo_ops_db, sv_fleet = \<lparr>fl_db = empty_fleet, fl_events = \<lparr>next_id = 0, published = []\<rparr>\<rparr>,
      sv_tokens = [token_pair ''k'' (Some ''a'') 0 3600 ''r'' 86400], sv_conns = Map.empty, sv_states = Map.empty,
      sv_timers = Map.empty, sv_next = 0, sv_exec = Map.empty, sv_lists = (\<lambda>_. []), sv_restores = (\<lambda>_. []), sv_sched = {},
      sv_answers = [], sv_hooks = []\<rparr>"

definition demo_online :: server where
  "demo_online = demo_server\<lparr>sv_conns := [0 \<mapsto> \<lparr>ac_token = ''k'', ac_agent = Some ''a-id'', ac_phase = Reading\<rparr>], sv_next := 1\<rparr>"

theorem agent_output_is_confined_witness:
  "let s' = on_message demo_json demo_world 0 (Terminal (TerminalData ''t'' [])) demo_online
   in h_ui_out (sv_hub s') = [(1, AgentMessage ''a-id'' (Terminal (TerminalData ''t'' [])))] \<and>
      may_see ''a-id'' 1 (sv_hub demo_online) \<and>
      owner ''a-id'' (KTerminal ''t'') (h_owners (sv_hub demo_online)) = Some 1"
proof -
  let ?m = "Terminal (TerminalData ''t'' [])"
  have out: "h_ui_out (sv_hub (on_message demo_json demo_world 0 ?m demo_online)) = [(1, AgentMessage ''a-id'' ?m)]"
    by (simp add: on_message_def demo_online_def demo_server_def handle_agent_message_def handle_answer_def
        maybe_attribute_response_def recorder_frame_def on_hub_def on_ops_def route_to_ui_def terminal_key_def owner_def claim_def
        no_owners_def push_ui_def may_see_def demo_client_def agent_allowed_by_access_def send_ui_def)
  have "(1, AgentMessage ''a-id'' ?m) \<in> set (drop (length (h_ui_out (sv_hub demo_online)))
      (h_ui_out (sv_hub (on_message demo_json demo_world 0 ?m demo_online))))"
    unfolding out by (simp add: demo_online_def demo_server_def)
  from agent_output_is_confined [OF this] show ?thesis by (simp add: Let_def out terminal_key_def)
qed

section \<open>Disconnect notifications\<close>

text \<open>Reading the notifications about one agent: whether they are in order so far, and whether it is announced offline.\<close>

fun watch :: "string \<Rightarrow> hook \<Rightarrow> bool \<times> bool \<Rightarrow> bool \<times> bool" where
  "watch a (Hook_Connect b _) (ok, down) = (if b = a then (ok \<and> down, False) else (ok, down))"
| "watch a (Hook_Disconnect b _) (ok, down) = (if b = a then (ok, True) else (ok, down))"
| "watch a (Hook_Still_Offline b _ _) (ok, down) = (if b = a then (ok \<and> down, down) else (ok, down))"
| "watch a _ (ok, down) = (ok, down)"

definition told :: "string \<Rightarrow> server \<Rightarrow> bool \<times> bool" where
  "told a s = fold (watch a) (notices s) (True, False)"

lemma told_fire: "told a (fire_hook k s) = (if is_notice k then watch a k (told a s) else told a s)"
  by (simp add: told_def notices_def fire_hook_def)

lemma told_upd [simp]:
  "told a (s\<lparr>sv_states := x\<rparr>) = told a s" "told a (s\<lparr>sv_timers := y\<rparr>) = told a s" "told a (s\<lparr>sv_conns := z\<rparr>) = told a s"
  "told a (s\<lparr>sv_next := n\<rparr>) = told a s" "told a (s\<lparr>sv_tokens := t\<rparr>) = told a s" "told a (s\<lparr>sv_fleet := f\<rparr>) = told a s"
  "told a (s\<lparr>sv_exec := e\<rparr>) = told a s" "told a (on_hub g s) = told a s" "told a (audit_sv W c d k b v s) = told a s"
  "told a (push_to_agent dec W i s) = told a s"
  by (simp_all add: told_def notices_def)

text \<open>
  The disconnect states: a pending agent has its debounce task, tasks and sockets are numbered below the next
  number, and a confirmed agent is announced offline.
\<close>

definition states_ok :: "server \<Rightarrow> bool" where
  "states_ok s \<longleftrightarrow>
     (\<forall>a h. sv_states s a = Some (Pending h) \<longrightarrow> sv_timers s h = Some a) \<and>
     (\<forall>h. sv_timers s h \<noteq> None \<longrightarrow> h < sv_next s) \<and>
     (\<forall>a. fst (told a s)) \<and>
     (\<forall>a t l. sv_states s a = Some (Confirmed t l) \<longrightarrow> snd (told a s))"

lemma states_ok_same:
  "states_ok s \<Longrightarrow> sv_states s' = sv_states s \<Longrightarrow> sv_timers s' = sv_timers s \<Longrightarrow> sv_next s' = sv_next s \<Longrightarrow>
   (\<And>a. told a s' = told a s) \<Longrightarrow> states_ok s'"
  by (simp add: states_ok_def)

lemma states_ok_conns [simp]: "states_ok (s\<lparr>sv_conns := x\<rparr>) \<longleftrightarrow> states_ok s"
  by (simp add: states_ok_def)

lemma watch_pair: "watch a k p = watch a k (fst p, snd p)"
  by simp

lemma settle_states_ok: "states_ok s \<Longrightarrow> states_ok (settle_disconnect W a s)"
proof -
  assume ok: "states_ok s"
  show ?thesis
  proof (cases "sv_states s a")
    case None
    then show ?thesis using ok by (auto simp: states_ok_def settle_disconnect_def Let_def)
  next
    case (Some st)
    show ?thesis
    proof (cases st)
      case (Pending h)
      have "h' \<noteq> h" if "sv_states s b = Some (Pending h')" "b \<noteq> a" for b h'
        using ok that Some Pending unfolding states_ok_def by (metis option.inject)
      then show ?thesis using ok Some Pending by (auto simp: states_ok_def settle_disconnect_def Let_def)
    next
      case (Confirmed t l)
      then have "snd (told a s)" "\<And>b. fst (told b s)" using ok Some unfolding states_ok_def by blast+
      then show ?thesis using ok Some Confirmed
        by (auto simp: states_ok_def settle_disconnect_def Let_def told_fire watch_pair [of _ _ "told _ s"])
    qed
  qed
qed

lemma debounce_states_ok: "states_ok s \<Longrightarrow> states_ok (debounce_fire W h s)"
proof (cases "sv_timers s h")
  case (Some a)
  assume ok: "states_ok s"
  have other: "h' \<noteq> h" if "sv_states s b = Some (Pending h')" "b \<noteq> a" for b h'
    using ok that Some unfolding states_ok_def by (metis option.inject)
  show ?thesis
  proof (cases "\<exists>k. sv_states s a = Some (Pending k)")
    case True
    then show ?thesis using ok Some other
      by (auto simp: debounce_fire_def states_ok_def told_fire watch_pair [of _ _ "told _ s"] split: if_splits)
  next
    case False
    then have "debounce_fire W h s = s\<lparr>sv_timers := (sv_timers s)(h := None)\<rparr>"
      using Some by (auto simp: debounce_fire_def Let_def split: option.splits DisconnectState.splits)
    moreover have "h' \<noteq> h" if "sv_states s b = Some (Pending h')" for b h'
      using other [OF that] False that by blast
    ultimately show ?thesis using ok by (auto simp: states_ok_def)
  qed
qed (simp add: debounce_fire_def)

lemma teardown_debounce_ok:
  assumes ok: "states_ok s" shows "states_ok (teardown_debounce a s)"
proof -
  have lt: "sv_timers s (sv_next s) = None" using ok unfolding states_ok_def by (metis less_irrefl)
  have "h \<noteq> sv_next s" if "sv_states s b = Some (Pending h)" for b h using ok lt that unfolding states_ok_def by fastforce
  then show ?thesis using ok
    by (auto simp: teardown_debounce_def states_ok_def told_def notices_def split: if_splits intro: less_SucI)
qed

lemma realert_ok: "states_ok s \<Longrightarrow> states_ok (realert_one W a s)"
  by (auto simp: realert_one_def states_ok_def told_fire watch_pair [of _ _ "told _ s"]
      split: option.splits DisconnectState.splits if_splits)

lemma alerter_ok: "states_ok s \<Longrightarrow> states_ok (stale_alerter_tick W s)"
proof -
  have "states_ok s \<Longrightarrow> states_ok (fold (realert_one W) xs s)" for xs
    by (induction xs arbitrary: s) (auto intro: realert_ok)
  then show "states_ok s \<Longrightarrow> states_ok (stale_alerter_tick W s)" by (simp add: stale_alerter_tick_def)
qed

lemma answer_states:
  "sv_states (handle_answer J W a m s) = sv_states s" "sv_timers (handle_answer J W a m s) = sv_timers s"
  "sv_next (handle_answer J W a m s) = sv_next s" "sv_conns (handle_answer J W a m s) = sv_conns s"
  "sv_tokens (handle_answer J W a m s) = sv_tokens s" "told b (handle_answer J W a m s) = told b s"
  by (rule handle_answer_books [of s J W a m]; simp add: books_def told_def notices_def)+

lemma capabilities_states:
  "sv_states (handle_capabilities J W tx a caps s) = sv_states s" "sv_timers (handle_capabilities J W tx a caps s) = sv_timers s"
  "sv_next (handle_capabilities J W tx a caps s) = sv_next s" "sv_conns (handle_capabilities J W tx a caps s) = sv_conns s"
  "sv_tokens (handle_capabilities J W tx a caps s) = sv_tokens s" "told b (handle_capabilities J W tx a caps s) = told b s"
  by (auto simp: handle_capabilities_def capabilities_commit_def split: option.splits prod.splits bool.splits)

lemma register_states_ok:
  assumes ok: "states_ok s" shows "states_ok (fst (snd (handle_register J W tx conn hn pv caps meta s)))"
proof (cases rule: handle_register_cases [where J = J and W = W and tx = tx and conn = conn and hn = hn and pv = pv
      and caps = caps and meta = meta and s = s])
  case (Refused k b d)
  then show ?thesis by (auto intro: states_ok_same [OF ok])
next
  case (Committed fl s3)
  have "states_ok (on_hub (\<lambda>h. h\<lparr>h_agents := (h_agents h)(hn @ ''-id'' \<mapsto> \<lparr>ae_tx = tx, ae_capabilities = caps\<rparr>)\<rparr>) (s\<lparr>sv_fleet := fl\<rparr>))"
    by (rule states_ok_same [OF ok]) simp_all
  then have "states_ok s3" unfolding Committed(3) by (rule settle_states_ok)
  then show ?thesis unfolding Committed(4) by (rule states_ok_same) simp_all
qed

lemma message_states_ok:
  assumes ok: "states_ok s" shows "states_ok (fst (snd (handle_agent_message J W tx conn m s)))"
proof (cases rule: agent_message_cases [where m = m and J = J and W = W and tx = tx and conn = conn and s = s])
  case (Reg hn pv caps meta)
  then show ?thesis using register_states_ok [OF ok] by (simp add: handle_agent_message_def)
next
  case (Caps caps)
  then show ?thesis using ok
    by (auto simp: handle_agent_message_def capabilities_states intro: states_ok_same split: option.splits)
next
  case Ping
  then show ?thesis using ok by (auto simp: handle_agent_message_def intro: states_ok_same split: option.splits)
next
  case Other
  then show ?thesis using ok by (auto simp: answer_states intro: states_ok_same split: option.splits)
qed

lemma teardown_states:
  "teardown_remove W tx a s = (s', b) \<Longrightarrow> sv_states s' = sv_states s \<and> sv_timers s' = sv_timers s \<and> sv_next s' = sv_next s \<and>
     sv_conns s' = sv_conns s \<and> sv_tokens s' = sv_tokens s \<and> told c s' = told c s"
  by (auto simp: teardown_remove_def Let_def split: if_splits)

lemma on_message_cases:
  obtains (Ignored) "on_message J W tx m s = s"
  | (Handled) conn conn' s' go where "sv_conns s tx = Some conn" "ac_phase conn = Reading"
      "handle_agent_message J W tx conn m s = (conn', s', go)"
      "on_message J W tx m s = s'\<lparr>sv_conns := (sv_conns s')(tx \<mapsto> conn'\<lparr>ac_phase := (if go then Reading else Ended)\<rparr>)\<rparr>"
proof (cases "\<exists>conn. sv_conns s tx = Some conn \<and> ac_phase conn = Reading")
  case True
  then obtain conn where c: "sv_conns s tx = Some conn" "ac_phase conn = Reading" by blast
  obtain conn' s' go where h: "handle_agent_message J W tx conn m s = (conn', s', go)" by (cases "handle_agent_message J W tx conn m s")
  show thesis by (rule Handled [OF c h]) (simp add: on_message_def c h)
next
  case False
  then show thesis by (intro Ignored) (auto simp: on_message_def split: option.splits)
qed

lemma agent_step_states_ok:
  assumes ok: "states_ok s" shows "states_ok (agent_step J W ev s)"
proof (cases ev)
  case (Ag_Open auth)
  then show ?thesis using ok
    by (auto simp: agent_ws_handler_def states_ok_def told_def notices_def split: option.splits intro: less_SucI)
next
  case (Ag_Message tx m)
  show ?thesis
  proof (cases rule: on_message_cases [where J = J and W = W and tx = tx and m = m and s = s])
    case Ignored
    then show ?thesis using ok Ag_Message by simp
  next
    case (Handled conn conn' s' go)
    then have "states_ok s'" using message_states_ok [OF ok, of J W tx conn m] by simp
    then show ?thesis unfolding Ag_Message agent_step.simps Handled(4) by (rule states_ok_same) simp_all
  qed
next
  case (Ag_Close tx)
  then show ?thesis
    by (auto simp: on_close_def split: option.splits prod.splits bool.splits intro!: states_ok_same [OF ok] dest: teardown_states)
next
  case (Ag_Debounce tx)
  then show ?thesis using teardown_debounce_ok [OF ok]
    by (auto simp: on_debounce_def split: option.splits intro: ok states_ok_same)
qed (use ok debounce_states_ok alerter_ok in \<open>auto simp: on_gone_def split: option.splits intro: states_ok_same\<close>)

section \<open>The operator side under agent events\<close>

lemma hub_ok_agents: "hub_ok h \<Longrightarrow> hub_ok (h\<lparr>h_agents := x\<rparr>)"
  by (rule hub_ok_clients) simp_all

lemma books_hub_ok: "books s s' \<Longrightarrow> hub_ok (sv_hub s) \<Longrightarrow> hub_ok (sv_hub s')"
  by (rule hub_ok_clients) (simp_all add: books_def)

lemma release_ok:
  assumes "hub_ok h" and "\<And>b k c. owner b k os = Some c \<Longrightarrow> owner b k (h_owners h) = Some c"
  shows "hub_ok (h\<lparr>h_owners := os\<rparr>)"
proof (rule hub_ok_kept [OF assms(1)])
  show "h_tasks (h\<lparr>h_owners := os\<rparr>) c \<noteq> None" if "owner b k (h_owners (h\<lparr>h_owners := os\<rparr>)) = Some c" for b k c
    using ok_owner_task [OF assms(1) assms(2)] that by simp
qed simp_all

lemma push_ui_ok: "hub_ok h \<Longrightarrow> hub_ok (push_ui a x c h)"
proof -
  assume ok: "hub_ok h"
  have "hub_ok (fst (send_ui c x h))" by (rule hub_ok_clients [OF ok]) simp_all
  with ok drop_ok [OF this] show ?thesis by (cases "send_ui c x h") (auto simp: push_ui_def split: bool.splits)
qed

lemma route_ok: "hub_ok h \<Longrightarrow> hub_ok (route_to_ui W a m h)"
proof -
  assume ok: "hub_ok h"
  have "hub_ok (h\<lparr>h_owners := release_agent_operation a k (h_owners h)\<rparr>)" for k
    by (rule release_ok [OF ok]) (simp add: reg.drop_op_owner split: if_splits)
  moreover have "hub_ok h' \<Longrightarrow> hub_ok (fold (push_ui a x) cs h')" for x cs h'
    by (induction cs arbitrary: h') (auto intro: push_ui_ok)
  ultimately show ?thesis using ok push_ui_ok by (auto simp: route_to_ui_def Let_def split: option.splits)
qed

lemma answer_hub_ok: "hub_ok (sv_hub s) \<Longrightarrow> hub_ok (sv_hub (handle_answer J W a m s))"
  by (rule handle_answer_books [of s J W a m]) (auto intro: route_ok books_hub_ok)

lemma push_to_agent_ok: "hub_ok (sv_hub s) \<Longrightarrow> hub_ok (sv_hub (push_to_agent dec W a s))"
  by (erule hub_ok_clients) simp_all

lemma audit_ok: "hub_ok (sv_hub s) \<Longrightarrow> hub_ok (sv_hub (audit_sv W x a k b d s))"
  by (erule hub_ok_clients) simp_all

lemma send_agent_ok: "hub_ok h \<Longrightarrow> hub_ok (send_agent tx m h)"
  by (erule hub_ok_clients) (simp_all add: send_agent_def)

lemmas hub_ok_intros = hub_ok_agents push_to_agent_ok audit_ok send_agent_ok broadcast_ok

lemma message_hub_ok:
  assumes ok: "hub_ok (sv_hub s)" shows "hub_ok (sv_hub (fst (snd (handle_agent_message J W tx conn m s))))"
proof (cases rule: agent_message_cases [where m = m and J = J and W = W and tx = tx and conn = conn and s = s])
  case (Reg hn pv caps meta)
  have "hub_ok (sv_hub (fst (snd (handle_register J W tx conn hn pv caps meta s))))"
  proof (cases rule: handle_register_cases [where J = J and W = W and tx = tx and conn = conn and hn = hn and pv = pv
        and caps = caps and meta = meta and s = s])
    case (Refused k b d)
    then show ?thesis using ok by (auto intro: hub_ok_intros)
  next
    case (Committed fl s3)
    have "hub_ok (sv_hub s3)" unfolding Committed(3) using ok by (auto intro: hub_ok_intros)
    then show ?thesis unfolding Committed(4) by (auto intro!: hub_ok_intros)
  qed
  then show ?thesis using Reg by (simp add: handle_agent_message_def)
next
  case (Caps caps)
  then show ?thesis using ok
    by (auto simp: handle_agent_message_def handle_capabilities_def capabilities_commit_def intro!: hub_ok_intros
        split: option.splits prod.splits bool.splits)
next
  case Ping
  then show ?thesis using ok by (auto simp: handle_agent_message_def intro: hub_ok_intros split: option.splits)
next
  case Other
  then show ?thesis using ok answer_hub_ok by (auto split: option.splits)
qed

lemma teardown_hub_ok:
  assumes ok: "hub_ok (sv_hub s)" and t: "teardown_remove W tx a s = (s', b)" shows "hub_ok (sv_hub s')"
proof -
  have r: "hub_ok (h\<lparr>h_agents := x, h_owners := release_agent a (h_owners h)\<rparr>)" if "hub_ok h" for h x
    by (rule hub_ok_kept [OF that]) (use ok_owner_task [OF that] in \<open>auto simp: reg.drop_agent_owner split: if_splits\<close>)
  show ?thesis using t ok
    by (auto simp: teardown_remove_def Let_def split: if_splits intro!: broadcast_ok r)
qed

lemma agent_step_hub_ok:
  assumes ok: "hub_ok (sv_hub s)" shows "hub_ok (sv_hub (agent_step J W ev s))"
proof (cases ev)
  case (Ag_Open auth)
  then show ?thesis using ok by (auto simp: agent_ws_handler_def split: option.splits)
next
  case (Ag_Message tx m)
  show ?thesis
  proof (cases rule: on_message_cases [where J = J and W = W and tx = tx and m = m and s = s])
    case Ignored
    then show ?thesis using ok Ag_Message by simp
  next
    case (Handled conn conn' s' go)
    then show ?thesis using message_hub_ok [OF ok, of J W tx conn m] by (simp add: Ag_Message)
  qed
next
  case (Ag_Gone tx)
  then show ?thesis using ok by (simp add: on_gone_def split: option.splits)
next
  case (Ag_Close tx)
  then show ?thesis using ok
    by (auto simp: on_close_def split: option.splits prod.splits bool.splits dest: teardown_hub_ok)
next
  case (Ag_Debounce tx)
  then show ?thesis using ok by (simp add: on_debounce_def teardown_debounce_def split: option.splits)
next
  case (Ag_Timer h)
  then show ?thesis using ok by (simp add: debounce_fire_def Let_def split: option.splits DisconnectState.splits)
next
  case Ag_Alert
  have "sv_hub (fold (realert_one W) xs s) = sv_hub s" for xs
    by (induction xs arbitrary: s) (auto simp: realert_one_def split: option.splits DisconnectState.splits)
  then show ?thesis using ok Ag_Alert by (simp add: stale_alerter_tick_def)
qed

lemma boot_ok: "hub_ok (sv_hub (boot d ops fl ts))" "states_ok (boot d ops fl ts)"
  by (simp_all add: boot_def hub_ok_def http_sessions_def no_owners_def owner_def states_ok_def told_def notices_def)

lemma server_step_ok:
  "hub_ok (sv_hub s) \<and> states_ok s \<Longrightarrow> hub_ok (sv_hub (server_step L J e s)) \<and> states_ok (server_step L J e s)"
  by (cases "(L, J, e, s)" rule: server_step.cases)
    (auto intro: ui_step_ok agent_step_hub_ok agent_step_states_ok states_ok_same)

text \<open>
  C10: the hub's invariant and its disconnect notifications. After any interleaving of operator events and agent
  events from boot, with any faults: no login has more than its share of HTTP sessions, every client and every
  operation owner has a running command task, and an HTTP session has its receiver (\<open>hub_ok\<close>). For every
  agent, a recovery or a "still offline" reminder is sent only while the last announcement says it is offline;
  and an agent whose disconnect is pending is never forgotten: its debounce task exists, and when it fires it
  announces the disconnect and confirms it.
\<close>
theorem hub_invariant_and_notices:
  assumes "s = server_run L J evs (boot d ops fl ts)"
  shows "hub_ok (sv_hub s) \<and> (\<forall>a. fst (told a s)) \<and>
    (\<forall>a h W. sv_states s a = Some (Pending h) \<longrightarrow>
       sv_hooks (debounce_fire W h s) = sv_hooks s @ [Hook_Disconnect a (w_now W)] \<and>
       sv_states (debounce_fire W h s) a = Some (Confirmed (w_now W) (w_now W)))"
proof -
  have ok: "hub_ok (sv_hub s) \<and> states_ok s"
    unfolding assms by (rule server_run_induct) (simp_all add: boot_ok server_step_ok)
  have "sv_timers s h = Some a" if "sv_states s a = Some (Pending h)" for a h
    using ok that unfolding states_ok_def by blast
  with ok show ?thesis by (auto simp: states_ok_def debounce_fire_def fire_hook_def)
qed

section \<open>Identity\<close>

text \<open>Token \<open>tk\<close> is bound to host \<open>hn\<close>, and every socket that presented it stands for no agent or for that host's.\<close>

definition bound_to :: "string \<Rightarrow> string \<Rightarrow> server \<Rightarrow> bool" where
  "bound_to tk hn s \<longleftrightarrow>
     (\<exists>row. sql_fetch_optional (\<lambda>t. t_token t = tk) (sv_tokens s) = Some row \<and> t_hostname row = Some hn) \<and>
     (\<forall>tx conn. sv_conns s tx = Some conn \<and> ac_token conn = tk \<longrightarrow> ac_agent conn \<in> {None, Some (hn @ ''-id'')})"

lemma find_map_key:
  assumes "\<And>x. key (f x) = key x"
  shows "find (\<lambda>x. key x = k) (map f xs) = map_option f (find (\<lambda>x. key x = k) xs)"
  by (induction xs) (auto simp: assms)

lemma fetch_upsert_seen:
  assumes "sql_fetch_optional (\<lambda>t. t_token t = tk) ts = Some row" and "t_hostname row = Some hn"
    and "tk' = tk \<Longrightarrow> hn' = hn"
  shows "\<exists>row. sql_fetch_optional (\<lambda>t. t_token t = tk) (upsert_token_seen tk' hn' now ts) = Some row \<and> t_hostname row = Some hn"
proof -
  define f where "f = (\<lambda>x :: TokenRow. if t_token x = tk' then x\<lparr>t_hostname := Some hn', t_last_seen := now,
      t_created_at := (if t_created_at x = 0 then now else t_created_at x)\<rparr> else x)"
  have key: "t_token (f x) = t_token x" for x by (simp add: f_def)
  have "upsert_token_seen tk' hn' now ts = map f ts \<or> (\<exists>r. upsert_token_seen tk' hn' now ts = ts @ [r])"
    by (simp add: upsert_token_seen_def sql_upsert_def f_def)
  moreover have "find (\<lambda>t. t_token t = tk) (map f ts) = Some (f row)"
    using assms(1) find_map_key [of t_token f tk, OF key] by (simp add: sql_fetch_optional_def)
  moreover have "t_hostname (f row) = Some hn"
    using assms(2,3) fetch_SomeD [OF assms(1)] by (auto simp: f_def)
  moreover have "find P ys = Some r \<Longrightarrow> find P (ys @ zs) = Some r" for P ys zs and r :: TokenRow
    by (induction ys) auto
  ultimately show ?thesis using assms(1,2) by (fastforce simp: sql_fetch_optional_def)
qed

text \<open>What an event may rely on: the lookup of the bound host does not fail, and the token is not the shared secret.\<close>

definition checked :: "string \<Rightarrow> world \<Rightarrow> bool" where
  "checked tk W \<longleftrightarrow> \<not> w_flt W ''token_hostname'' \<and> \<not> is_legacy (w_env W) tk"

lemma bound_conflict:
  assumes "bound_to tk hn s" and "checked tk W" and "hn \<noteq> []" and "identity_conflict W tk hn' s = None"
  shows "hn' = hn"
  using assms by (auto simp: bound_to_def checked_def identity_conflict_def token_hostname_def split: if_splits)

lemma bound_message:
  assumes b: "bound_to tk hn s" and ck: "checked tk W" and ne: "hn \<noteq> []"
    and conn: "sv_conns s tx = Some conn" and h: "handle_agent_message J W tx conn m s = (conn', s', go)"
  shows "bound_to tk hn (s'\<lparr>sv_conns := (sv_conns s')(tx \<mapsto> conn'\<lparr>ac_phase := p\<rparr>)\<rparr>)"
proof -
  have old: "ac_token conn = tk \<Longrightarrow> ac_agent conn \<in> {None, Some (hn @ ''-id'')}" using b conn unfolding bound_to_def by blast
  have keep: ?thesis if "sv_tokens s' = sv_tokens s" "sv_conns s' = sv_conns s" "conn' = conn"
    using b old that by (auto simp: bound_to_def)
  show ?thesis
  proof (cases rule: agent_message_cases [where m = m and J = J and W = W and tx = tx and conn = conn and s = s])
    case (Reg hn' pv caps meta)
    then have r: "handle_register J W tx conn hn' pv caps meta s = (conn', s', go)" using h by (simp add: handle_agent_message_def)
    show ?thesis
    proof (cases rule: handle_register_cases [where J = J and W = W and tx = tx and conn = conn and hn = hn' and pv = pv
          and caps = caps and meta = meta and s = s])
      case (Refused k b d)
      then show ?thesis using r by (intro keep) auto
    next
      case (Committed fl s3)
      have same: "ac_token conn = tk \<Longrightarrow> hn' = hn" using bound_conflict [OF b ck ne] Committed(1) by blast
      have t: "sv_tokens s' = sv_tokens s \<or> sv_tokens s' = upsert_token_seen (ac_token conn) hn' (w_now W) (sv_tokens s)"
        and c: "sv_conns s' = sv_conns s" "conn' = conn\<lparr>ac_agent := Some (hn' @ ''-id'')\<rparr>"
        using r unfolding Committed(4) by (auto simp: Committed(3))
      obtain row where row: "sql_fetch_optional (\<lambda>t. t_token t = tk) (sv_tokens s) = Some row" "t_hostname row = Some hn"
        using b unfolding bound_to_def by blast
      have "\<exists>row. sql_fetch_optional (\<lambda>t. t_token t = tk) (sv_tokens s') = Some row \<and> t_hostname row = Some hn"
        using t row fetch_upsert_seen [OF row, of "ac_token conn" hn' "w_now W"] same by auto
      then show ?thesis using b c same by (auto simp: bound_to_def)
    qed
  next
    case (Caps caps)
    then show ?thesis using h by (intro keep) (auto simp: handle_agent_message_def capabilities_states split: option.splits)
  next
    case Ping
    then show ?thesis using h by (intro keep) (auto simp: handle_agent_message_def split: option.splits)
  next
    case Other
    then show ?thesis using h by (intro keep) (auto simp: answer_states split: option.splits)
  qed
qed

lemma bound_frame:
  "bound_to tk hn s \<Longrightarrow> sv_tokens s' = sv_tokens s \<Longrightarrow>
   (\<And>tx c. sv_conns s' tx = Some c \<Longrightarrow> \<exists>c0. sv_conns s tx = Some c0 \<and> ac_token c0 = ac_token c \<and> ac_agent c0 = ac_agent c) \<Longrightarrow>
   bound_to tk hn s'"
  unfolding bound_to_def by metis

lemma bound_agent_step:
  assumes b: "bound_to tk hn s" and ck: "checked tk W" and ne: "hn \<noteq> []"
  shows "bound_to tk hn (agent_step J W ev s)"
proof (cases ev)
  case (Ag_Open auth)
  then show ?thesis using b by (auto simp: agent_ws_handler_def bound_to_def split: option.splits)
next
  case (Ag_Message tx m)
  show ?thesis
  proof (cases rule: on_message_cases [where J = J and W = W and tx = tx and m = m and s = s])
    case Ignored
    then show ?thesis using b Ag_Message by simp
  next
    case (Handled conn conn' s' go)
    then show ?thesis using bound_message [OF b ck ne Handled(1,3)] by (simp add: Ag_Message)
  qed
next
  case (Ag_Gone tx)
  then show ?thesis by (intro bound_frame [OF b]) (auto simp: on_gone_def split: option.splits if_splits)
next
  case (Ag_Close tx)
  then show ?thesis
    by (intro bound_frame [OF b]) (auto simp: on_close_def split: option.splits prod.splits bool.splits if_splits dest!: teardown_states)
next
  case (Ag_Debounce tx)
  then show ?thesis
    by (intro bound_frame [OF b]) (auto simp: on_debounce_def teardown_debounce_def split: option.splits if_splits)
next
  case (Ag_Timer h)
  then show ?thesis
    by (intro bound_frame [OF b]) (auto simp: debounce_fire_def Let_def split: option.splits DisconnectState.splits)
next
  case Ag_Alert
  have "sv_tokens (fold (realert_one W) xs s) = sv_tokens s \<and> sv_conns (fold (realert_one W) xs s) = sv_conns s" for xs
    by (induction xs arbitrary: s) (auto simp: realert_one_def split: option.splits DisconnectState.splits)
  then show ?thesis using Ag_Alert by (intro bound_frame [OF b]) (auto simp: stale_alerter_tick_def split: if_splits)
qed

lemma bound_server_step:
  "bound_to tk hn s \<Longrightarrow> checked tk (fst e) \<Longrightarrow> hn \<noteq> [] \<Longrightarrow> bound_to tk hn (server_step L J e s)"
  by (cases "(L, J, e, s)" rule: server_step.cases) (auto intro: bound_agent_step bound_frame)

lemma register_refused:
  assumes c: "sv_conns s tx = Some conn" "ac_phase conn = Reading"
    and no: "identity_conflict W (ac_token conn) hn s \<noteq> None"
  shows "h_agents (sv_hub (on_message J W tx (Session (Register hn pv caps meta)) s)) = h_agents (sv_hub s) \<and>
    sv_conns (on_message J W tx (Session (Register hn pv caps meta)) s) tx = Some (conn\<lparr>ac_phase := Ended\<rparr>)"
  using no by (auto simp: on_message_def c handle_agent_message_def handle_register_def)


text \<open>
  C40: rotation lifts the binding. When the row of the token that an open socket presented is replaced by a token
  refresh, the socket stays open and the binding has no row to check against: the same socket may then register
  under any host name, and takes over that agent's entry.
\<close>
theorem rotated_token_takes_any_identity:
  assumes conn: "sv_conns s tx = Some conn" "ac_phase conn = Reading" "t_token row = ac_token conn"
    and row: "row \<in> set (sv_tokens s)" "refreshable refresh now row" and keys: "keyed t_token (sv_tokens s)"
    and rot: "replace_token_on_refresh flt refresh access refresh' e1 e2 now (sv_tokens s) = (ts, Inr (Some bound))"
    and fresh: "access \<noteq> ac_token conn"
    and store: "connected J (w_flt W) (hn @ ''-id'') hn PROTOCOL_VERSION caps meta (w_now W) (sv_fleet s) = (fl, True)"
  shows "h_agents (sv_hub (on_message J W tx (Session (Register hn PROTOCOL_VERSION caps meta)) (s\<lparr>sv_tokens := ts\<rparr>))) (hn @ ''-id'') =
    Some \<lparr>ae_tx = tx, ae_capabilities = caps\<rparr>"
proof -
  have "set ts \<subseteq> set (sql_delete (refreshable refresh now) (sv_tokens s)) \<union> {t. t_token t = access}"
    using rot by (auto simp: replace_token_on_refresh_def sql_insert_def token_pair_def split: if_splits option.splits)
  then have "t_token t \<noteq> ac_token conn" if "t \<in> set ts" for t
    using that keyed_unique [OF keys _ row(1), of t] row(2) conn(3) fresh by (auto simp: sql_delete_def)
  then have gone: "sql_fetch_optional (\<lambda>t. t_token t = ac_token conn) ts = None" by simp
  then have none: "identity_conflict W (ac_token conn) hn (s\<lparr>sv_tokens := ts\<rparr>) = None"
    by (simp add: identity_conflict_def token_hostname_def del: fetch_None_iff)
  show ?thesis
    by (simp add: on_message_def conn handle_agent_message_def handle_register_def none store Let_def broadcast_agents send_agent_def)
qed

section \<open>Concrete runs\<close>

definition demo_boot :: server where
  "demo_boot = boot \<lparr>db_users = [], db_invites = [], db_seats = None, db_audit = []\<rparr> demo_ops_db empty_fleet
     [token_pair ''k'' None 0 3600 ''r'' 86400]"

definition demo_register :: Message where
  "demo_register = Session (Register ''a'' PROTOCOL_VERSION [] Map.empty)"

definition demo_leave :: "(world \<times> server_event) list" where
  "demo_leave = map (\<lambda>e. (demo_world, On_Agent e))
     [Ag_Open (Some ''Bearer k''), Ag_Message 0 demo_register, Ag_Gone 0, Ag_Close 0, Ag_Debounce 0]"

lemma demo_flt [simp]: "w_flt demo_world = (\<lambda>_. False)" "w_now demo_world = 60" "w_clients_iter demo_world = (\<lambda>_. [])"
  by (simp_all add: demo_world_def)

lemma demo_open: "agent_bearer (Some ''Bearer k'') = Some ''k''" "is_legacy demo_auth_env tk = False"
  by code_simp (simp add: is_legacy_def env_or_def demo_auth_env_def)

lemma demo_broadcast: "broadcast_agent_list demo_world h = h"
  by (simp add: broadcast_agent_list_def Let_def)

lemmas demo_turns = agent_ws_handler_def demo_open token_exists_def token_pair_def sql_fetch_optional_def on_message_def
  handle_agent_message_def demo_register_def handle_register_def identity_conflict_def token_hostname_def connected_def
  committed_def upsert_connected_def fails_def demo_json_def demo_broadcast settle_disconnect_def on_gone_def on_close_def
  teardown_remove_def same_channel_def on_debounce_def teardown_debounce_def Let_def on_hub_def send_agent_def
  disconnected_def mark_disconnected_def upsert_token_seen_def sql_upsert_def

lemma demo_leave_run:
  "sv_states (server_run L demo_json demo_leave demo_boot) ''a-id'' = Some (Pending 1)"
  by (simp add: demo_leave_def demo_boot_def boot_def demo_turns)

theorem hub_invariant_and_notices_witness:
  "let s = server_run demo_jwt demo_json demo_leave demo_boot
   in sv_states s ''a-id'' = Some (Pending 1) \<and> hub_ok (sv_hub s) \<and>
      sv_states (debounce_fire demo_world 1 s) ''a-id'' = Some (Confirmed 60 60)"
  using hub_invariant_and_notices [OF refl, of demo_jwt demo_json demo_leave] demo_leave_run [of demo_jwt]
  by (simp add: demo_boot_def Let_def)

definition demo_bound :: server where
  "demo_bound = demo_boot\<lparr>sv_tokens := [token_pair ''k'' (Some ''a'') 0 3600 ''r'' 86400]\<rparr>"

definition demo_steal :: Message where
  "demo_steal = Session (Register ''b'' PROTOCOL_VERSION [] Map.empty)"

definition demo_join :: "(world \<times> server_event) list" where
  "demo_join = map (\<lambda>e. (demo_world, On_Agent e)) [Ag_Open (Some ''Bearer k''), Ag_Message 0 demo_register]"

lemma demo_join_run:
  "sv_conns (server_run L demo_json demo_join demo_bound) =
     [0 \<mapsto> \<lparr>ac_token = ''k'', ac_agent = Some ''a-id'', ac_phase = Reading\<rparr>]"
  "h_agents (sv_hub (server_run L demo_json demo_join demo_bound)) = [''a-id'' \<mapsto> \<lparr>ae_tx = 0, ae_capabilities = []\<rparr>]"
  subgoal by (simp add: demo_join_def demo_bound_def demo_boot_def boot_def demo_turns)
  subgoal by (simp add: demo_join_def demo_bound_def demo_boot_def boot_def demo_turns)
  done


theorem rotated_token_takes_any_identity_witness:
  "let s = server_run demo_jwt demo_json demo_join demo_bound;
       ts = fst (replace_token_on_refresh (\<lambda>_. False) ''r'' ''k2'' ''r2'' 7200 90000 60 (sv_tokens s))
   in h_agents (sv_hub (on_message demo_json demo_world 0 demo_steal (s\<lparr>sv_tokens := ts\<rparr>))) ''b-id'' =
        Some \<lparr>ae_tx = 0, ae_capabilities = []\<rparr>"
proof -
  let ?s = "server_run demo_jwt demo_json demo_join demo_bound"
  let ?row = "(token_pair ''k'' (Some ''a'') 0 3600 ''r'' 86400)\<lparr>t_hostname := Some ''a'', t_last_seen := 60, t_created_at := 60\<rparr>"
  have ts: "sv_tokens ?s = [?row]" by (simp add: demo_join_def demo_bound_def demo_boot_def boot_def demo_turns)
  have rot: "replace_token_on_refresh (\<lambda>_. False) ''r'' ''k2'' ''r2'' 7200 90000 60 (sv_tokens ?s) =
      ([token_pair ''k2'' (Some ''a'') 60 7200 ''r2'' 90000], Inr (Some ''a''))"
    by (simp add: ts replace_token_on_refresh_def refreshable_def token_pair_def sql_fetch_optional_def sql_delete_def sql_insert_def)
  have store: "connected demo_json (w_flt demo_world) (''b'' @ ''-id'') ''b'' PROTOCOL_VERSION [] Map.empty (w_now demo_world) (sv_fleet ?s) =
      (fst (connected demo_json (w_flt demo_world) (''b'' @ ''-id'') ''b'' PROTOCOL_VERSION [] Map.empty (w_now demo_world) (sv_fleet ?s)), True)"
    by (simp add: connected_def committed_def upsert_connected_def fails_def demo_json_def)
  have c: "sv_conns ?s 0 = Some \<lparr>ac_token = ''k'', ac_agent = Some ''a-id'', ac_phase = Reading\<rparr>" by (simp add: demo_join_run)
  have "h_agents (sv_hub (on_message demo_json demo_world 0 demo_steal
      (?s\<lparr>sv_tokens := [token_pair ''k2'' (Some ''a'') 60 7200 ''r2'' 90000]\<rparr>))) (''b'' @ ''-id'') = Some \<lparr>ae_tx = 0, ae_capabilities = []\<rparr>"
    unfolding demo_steal_def
    by (rule rotated_token_takes_any_identity [OF c _ _ _ _ _ rot _ store, of ?row])
      (simp_all add: ts keyed_def refreshable_def token_pair_def)
  then show ?thesis by (simp add: Let_def rot)
qed

text \<open>
  A reconnect that overtakes a teardown. A socket that has taken its agent's entry out, and has not yet recorded
  its debounce task, records it even when the agent registered on another socket meanwhile: the task then announces
  the agent as disconnected, and keeps it confirmed offline, while the agent is connected.
\<close>
theorem live_agent_announced_offline:
  assumes "sv_conns s tx = Some conn" and "ac_phase conn = Debouncing" and "ac_agent conn = Some a"
    and "h_agents (sv_hub s) a = Some e" and "s' = debounce_fire W (sv_next s) (on_debounce tx s)"
  shows "h_agents (sv_hub s') a = Some e \<and> sv_hooks s' = sv_hooks s @ [Hook_Disconnect a (w_now W)] \<and>
    sv_states s' a = Some (Confirmed (w_now W) (w_now W))"
  using assms by (simp add: on_debounce_def teardown_debounce_def debounce_fire_def Let_def fire_hook_def)

definition demo_overtake :: "(world \<times> server_event) list" where
  "demo_overtake = map (\<lambda>e. (demo_world, On_Agent e))
     [Ag_Open (Some ''Bearer k''), Ag_Message 0 demo_register, Ag_Gone 0, Ag_Close 0,
      Ag_Open (Some ''Bearer k''), Ag_Message 1 demo_register]"

theorem live_agent_announced_offline_witness:
  "let s = server_run demo_jwt demo_json demo_overtake demo_boot;
       s' = debounce_fire demo_world 2 (on_debounce 0 s)
   in h_agents (sv_hub s') ''a-id'' = Some \<lparr>ae_tx = 1, ae_capabilities = []\<rparr> \<and> Hook_Disconnect ''a-id'' 60 \<in> set (sv_hooks s')"
proof -
  let ?s = "server_run demo_jwt demo_json demo_overtake demo_boot"
  note run = demo_overtake_def demo_boot_def boot_def demo_turns
  have c: "sv_conns ?s 0 = Some \<lparr>ac_token = ''k'', ac_agent = Some ''a-id'', ac_phase = Debouncing\<rparr>" by (simp add: run)
  have a: "h_agents (sv_hub ?s) ''a-id'' = Some \<lparr>ae_tx = 1, ae_capabilities = []\<rparr>" by (simp add: run)
  have n: "sv_next ?s = 2" by (simp add: run)
  show ?thesis using live_agent_announced_offline [OF c _ _ a refl, of demo_world] by (simp add: Let_def n)
qed

end
