(* ===== verification/Api_Keys.thy ===== *)
theory Api_Keys
  imports Agent_Safety Utf8_Text
begin

text \<open>
  The programmatic API: \<open>server/src/api_auth.rs\<close>, \<open>api_v1.rs\<close> and \<open>agent_dispatch.rs\<close>. A middleware turns a bearer
  key into identity headers, after removing any that the client sent; each handler reads the identity from
  the headers, asks the key's policy for the action, and acts. The hash of the key, the JSON decoder, the request
  ids and the EE sidecar's answer are arguments.

  Shown: the policy's decision is the declarative one; an identity in the headers is always that of a live key;
  and a command or a service action reaches an agent only for a live key of an administrator whose policy allows it.
\<close>

section \<open>Tables and headers\<close>

record KeyRow =
  ak_id :: int
  ak_hash :: string
  ak_login :: string
  ak_policy_id :: "int option"
  ak_expires_at :: "int option"
  ak_revoked :: int
  ak_last_used_at :: "int option"

record IamStatement =
  is_policy_id :: int
  is_effect :: string
  is_actions :: string
  is_resources :: string

record api_state =
  as_server :: server
  as_keys :: "KeyRow table"
  as_statements :: "IamStatement table"

type_synonym headers = "string \<rightharpoonup> string"

text \<open>\<open>HeaderValue::from_str\<close>: visible ASCII, blanks and tabs.\<close>

definition header_value :: "string \<Rightarrow> string option" where
  "header_value s = (if list_all (\<lambda>c. (32 \<le> (of_char c :: nat) \<and> (of_char c :: nat) < 127) \<or> (of_char c :: nat) = 9) s then Some s else None)"

section \<open>Policies\<close>

definition matches_action :: "string \<Rightarrow> string \<Rightarrow> bool" where
  "matches_action pattern action =
     (if pattern = ''*'' then True
      else if ends_with pattern '':*'' then starts_with action (take (length pattern - 1) pattern)
      else pattern = action)"

definition scope_message :: "string \<Rightarrow> string \<Rightarrow> string" where
  "scope_message action rest = ''API key scope '' @ [CHR 0x27] @ action @ [CHR 0x27] @ rest"

text \<open>\<open>dec\<close> is \<open>serde_json::from_str::<Vec<String>>\<close>.\<close>

fun check_resources :: "(string \<Rightarrow> string list option) \<Rightarrow> IamStatement list \<Rightarrow> (http_error, unit) result" where
  "check_resources dec [] = Inr ()"
| "check_resources dec (row # rows) =
     (case dec (is_resources row) of
        None \<Rightarrow> Inl (500, ''malformed policy resources'')
      | Some r \<Rightarrow> if r \<noteq> [''*''] then Inl (500, ''resource-constrained policies cannot bind to API keys'')
                  else check_resources dec rows)"

fun decide :: "(string \<Rightarrow> string list option) \<Rightarrow> string \<Rightarrow> bool \<Rightarrow> IamStatement list \<Rightarrow> (http_error, unit) result" where
  "decide dec action allowed [] =
     (if allowed then Inr () else Inl (403, scope_message action '' is not permitted by its bound policy''))"
| "decide dec action allowed (row # rows) =
     (case dec (is_actions row) of
        None \<Rightarrow> Inl (500, ''malformed policy actions'')
      | Some actions \<Rightarrow>
          if list_ex (\<lambda>a. matches_action a action) actions
          then if is_effect row = ''Deny'' then Inl (403, scope_message action '' is denied by its bound policy'')
               else if is_effect row = ''Allow'' then decide dec action True rows
               else Inl (500, ''unknown policy effect'')
          else decide dec action allowed rows)"

definition require_key_action ::
    "(string \<Rightarrow> string list option) \<Rightarrow> fault \<Rightarrow> headers \<Rightarrow> IamStatement table \<Rightarrow> string \<Rightarrow> (http_error, unit) result" where
  "require_key_action dec flt hs stmts action =
     (case Option.bind (hs ''x-api-key-policy-id'') parse_i64 of
        None \<Rightarrow> Inr ()
      | Some pid \<Rightarrow>
          if flt ''iam_statements'' then Inl (500, ''failed to load policy statements'')
          else (let rows = filter (\<lambda>r. is_policy_id r = pid) stmts
                in try_bind (check_resources dec rows) (\<lambda>_. decide dec action False rows)))"

section \<open>The middleware\<close>

definition strip_identity :: "headers \<Rightarrow> headers" where
  "strip_identity hs = hs(''x-api-key-login'' := None, ''x-api-key-role'' := None, ''x-api-key-policy-id'' := None)"

definition put_header :: "string \<Rightarrow> string \<Rightarrow> headers \<Rightarrow> headers" where
  "put_header name v hs = (case header_value v of Some w \<Rightarrow> hs(name \<mapsto> w) | None \<Rightarrow> hs)"

definition bearer :: "headers \<Rightarrow> string option" where
  "bearer hs = map_option trim (Option.bind (hs ''authorization'') (strip_prefix_str ''Bearer ''))"

definition find_api_key :: "(string \<Rightarrow> string) \<Rightarrow> fault \<Rightarrow> string \<Rightarrow> KeyRow table \<Rightarrow> KeyRow option" where
  "find_api_key sha flt token keys =
     (if flt ''api_key'' then None else sql_fetch_optional (\<lambda>r. ak_hash r = sha token \<and> ak_revoked r = 0) keys)"

text \<open>The headers that the handlers see, or the refusal.\<close>

definition api_middleware ::
    "(string \<Rightarrow> string) \<Rightarrow> fault \<Rightarrow> int \<Rightarrow> headers \<Rightarrow> api_state \<Rightarrow> api_state \<times> (http_error, headers) result" where
  "api_middleware sha flt now hs0 st =
     (let hs = strip_identity hs0 in
      case bearer hs of None \<Rightarrow> (st, Inr hs)
      | Some token \<Rightarrow>
          if \<not> starts_with token ''sf_live_'' then (st, Inr hs)
          else (case find_api_key sha flt token (as_keys st) of
                  None \<Rightarrow> (st, Inl (401, ''invalid API key''))
                | Some row \<Rightarrow>
                    if (case ak_expires_at row of Some e \<Rightarrow> e < now | None \<Rightarrow> False) then (st, Inl (401, ''API key expired''))
                    else (let st1 = (if flt ''api_key_used'' then st
                                     else st\<lparr>as_keys := sql_update (\<lambda>r. ak_id r = ak_id row) (\<lambda>r. r\<lparr>ak_last_used_at := Some now\<rparr>) (as_keys st)\<rparr>);
                              role = (case get_user flt (h_users (sv_hub (as_server st1))) (ak_login row) of
                                        Inr (Some user) \<Rightarrow> u_role user | _ \<Rightarrow> ''viewer'');
                              hs1 = put_header ''x-api-key-role'' role (put_header ''x-api-key-login'' (ak_login row) hs)
                          in (st1, Inr (case ak_policy_id row of
                                          Some pid \<Rightarrow> put_header ''x-api-key-policy-id'' (int_to_dec pid) hs1 | None \<Rightarrow> hs1)))))"

section \<open>Handlers\<close>

definition caller_login :: "headers \<Rightarrow> string option" where
  "caller_login hs = hs ''x-api-key-login''"

definition caller_role :: "headers \<Rightarrow> string" where
  "caller_role hs = (case hs ''x-api-key-role'' of Some r \<Rightarrow> r | None \<Rightarrow> ''viewer'')"

definition require_api_key :: "headers \<Rightarrow> (http_error, string \<times> string) result" where
  "require_api_key hs = try_bind (ok_or (caller_login hs) (401, ''API key required'')) (\<lambda>login. Inr (login, caller_role hs))"

definition on_server :: "(server \<Rightarrow> server) \<Rightarrow> api_state \<Rightarrow> api_state" where
  "on_server f st = st\<lparr>as_server := f (as_server st)\<rparr>"

datatype dispatch_error = AgentNotFound | AgentDisconnected

text \<open>
  \<open>agent_dispatch::dispatch_run_command\<close>: the waiter is registered under the request id before the command is
  sent. A closed channel drops the guard, which removes the waiter again.
\<close>

definition dispatch_run_command ::
    "world \<Rightarrow> string \<Rightarrow> nat \<Rightarrow> string \<Rightarrow> string \<Rightarrow> u64 \<Rightarrow> server \<Rightarrow> server \<times> (dispatch_error, unit) result" where
  "dispatch_run_command W rid waiter agent_id command timeout_secs s =
     (case h_agents (sv_hub s) agent_id of
        None \<Rightarrow> (s, Inl AgentNotFound)
      | Some entry \<Rightarrow>
          if w_flt W ''agent.send'' then (s\<lparr>sv_exec := (sv_exec s)(rid := None)\<rparr>, Inl AgentDisconnected)
          else (on_hub (send_agent (ae_tx entry) (Exec (RunCommandRequest rid command timeout_secs)))
                  (s\<lparr>sv_exec := (sv_exec s)(rid \<mapsto> (agent_id, waiter))\<rparr>), Inr ()))"

datatype api_response =
    Status nat string
  | Agents_Json "(string \<times> string list) list"
  | Users_Json "UserRow list"
  | Audit_Json "AuditRow list"
  | Exec_Json nat string string "i32 option" "string option" bool bool u64

definition unauthorized :: api_response where "unauthorized = Status 401 ''API key required''"
definition admin_only :: api_response where "admin_only = Status 403 ''admin only''"

fun or_status :: "(http_error, 'a) result \<Rightarrow> ('a \<Rightarrow> 's \<times> api_response) \<Rightarrow> 's \<Rightarrow> 's \<times> api_response" where
  "or_status (Inl (code, msg)) k s = (s, Status code msg)"
| "or_status (Inr x) k s = k x"

text \<open>Reading the fleet. \<open>client_ip\<close> is the address that \<open>real_client_ip\<close> gives.\<close>

definition api_access :: "world \<Rightarrow> string \<Rightarrow> string \<Rightarrow> string \<Rightarrow> string list \<Rightarrow> AgentAccess" where
  "api_access W role login client_ip agents =
     (if role = ''admin'' then Unrestricted else ee_fetch_agent_access W login client_ip agents)"

definition list_agents :: "(string \<Rightarrow> string list option) \<Rightarrow> world \<Rightarrow> string \<Rightarrow> headers \<Rightarrow> api_state \<Rightarrow> api_state \<times> api_response" where
  "list_agents dec W client_ip hs st =
     (case require_api_key hs of Inl _ \<Rightarrow> (st, unauthorized)
      | Inr (login, role) \<Rightarrow>
          or_status (require_key_action dec (w_flt W) hs (as_statements st) ''agent:View'') (\<lambda>_.
            let (ids, caps) = agent_snapshot W (sv_hub (as_server st));
                access = api_access W role login client_ip ids
            in (st, Agents_Json (map (\<lambda>a. (a, the (caps a))) (filter (\<lambda>a. agent_allowed_by_access a access) ids)))) st)"

definition get_agent ::
    "(string \<Rightarrow> string list option) \<Rightarrow> world \<Rightarrow> string \<Rightarrow> headers \<Rightarrow> string \<Rightarrow> api_state \<Rightarrow> api_state \<times> api_response" where
  "get_agent dec W client_ip hs name st =
     (case require_api_key hs of Inl _ \<Rightarrow> (st, unauthorized)
      | Inr (login, role) \<Rightarrow>
          or_status (require_key_action dec (w_flt W) hs (as_statements st) ''agent:View'') (\<lambda>_.
            let agent_id = name @ ''-id''; access = api_access W role login client_ip [agent_id]
            in if \<not> agent_allowed_by_access agent_id access then (st, Status 404 ''agent not found'')
               else (case h_agents (sv_hub (as_server st)) agent_id of
                       Some entry \<Rightarrow> (st, Agents_Json [(agent_id, ae_capabilities entry)])
                     | None \<Rightarrow> (st, Status 404 ''agent not found''))) st)"

definition api_list_users :: "(string \<Rightarrow> string list option) \<Rightarrow> world \<Rightarrow> headers \<Rightarrow> api_state \<Rightarrow> api_state \<times> api_response" where
  "api_list_users dec W hs st =
     (case require_api_key hs of Inl _ \<Rightarrow> (st, unauthorized)
      | Inr (login, role) \<Rightarrow>
          if role \<noteq> ''admin'' then (st, admin_only)
          else or_status (require_key_action dec (w_flt W) hs (as_statements st) ''user:List'') (\<lambda>_.
            if w_flt W ''list_users'' then (st, Status 500 ''db error'')
            else (st, Users_Json (sort_key u_login (db_users (h_users (sv_hub (as_server st))))))) st)"

text \<open>The newest first; rows of the same second in reverse order of their ids.\<close>

definition recent_audit :: "int \<Rightarrow> auth_db \<Rightarrow> AuditRow list" where
  "recent_audit limit d = take (nat limit) (rev (sort_key au_ts (db_audit d)))"

definition export_audit ::
    "(string \<Rightarrow> string list option) \<Rightarrow> world \<Rightarrow> headers \<Rightarrow> int option \<Rightarrow> api_state \<Rightarrow> api_state \<times> api_response" where
  "export_audit dec W hs q st =
     (case require_api_key hs of Inl _ \<Rightarrow> (st, unauthorized)
      | Inr (login, role) \<Rightarrow>
          or_status (require_key_action dec (w_flt W) hs (as_statements st) ''audit:Read'') (\<lambda>_.
            let limit = max 1 (min 10000 (case q of Some n \<Rightarrow> n | None \<Rightarrow> 200))
            in if w_flt W ''recent_audit'' then (st, Status 500 ''db error'')
               else (st, Audit_Json (recent_audit limit (h_users (sv_hub (as_server st)))))) st)"

text \<open>
  The three requests that are passed on to the EE sidecar; \<open>sidecar\<close> is \<open>internal_auth::send\<close>, from method,
  path, body, content type, login and role to a status and a body.
\<close>

type_synonym sidecar_call = "string \<Rightarrow> string \<Rightarrow> string \<Rightarrow> string \<Rightarrow> string \<Rightarrow> string \<Rightarrow> (nat \<times> string) option"

definition ask_sidecar ::
    "world \<Rightarrow> sidecar_call \<Rightarrow> string \<Rightarrow> string \<Rightarrow> string \<Rightarrow> string \<Rightarrow> string \<Rightarrow> string \<Rightarrow> api_response" where
  "ask_sidecar W sidecar meth path body ctype login role =
     (if \<not> ee_active (w_env W) then Status 503 ''EE not active''
      else case sidecar meth path body ctype login role of
             Some (status, text) \<Rightarrow> Status status text | None \<Rightarrow> Status 502 ''EE unavailable'')"

definition get_acl ::
    "(string \<Rightarrow> string list option) \<Rightarrow> world \<Rightarrow> sidecar_call \<Rightarrow> headers \<Rightarrow> api_state \<Rightarrow> api_state \<times> api_response" where
  "get_acl dec W sidecar hs st =
     (case require_api_key hs of Inl _ \<Rightarrow> (st, unauthorized)
      | Inr (login, role) \<Rightarrow>
          or_status (require_key_action dec (w_flt W) hs (as_statements st) ''acl:View'')
            (\<lambda>_. (st, ask_sidecar W sidecar ''GET'' ''/api/ee/acl/document'' [] [] login role)) st)"

definition put_acl ::
    "(string \<Rightarrow> string list option) \<Rightarrow> world \<Rightarrow> sidecar_call \<Rightarrow> headers \<Rightarrow> string \<Rightarrow> api_state \<Rightarrow> api_state \<times> api_response" where
  "put_acl dec W sidecar hs body st =
     (case require_api_key hs of Inl _ \<Rightarrow> (st, unauthorized)
      | Inr (login, role) \<Rightarrow>
          if role \<noteq> ''admin'' then (st, admin_only)
          else or_status (require_key_action dec (w_flt W) hs (as_statements st) ''acl:Write'')
            (\<lambda>_. (st, ask_sidecar W sidecar ''PUT'' ''/api/ee/acl/document'' body ''application/json'' login role)) st)"

definition query_metrics ::
    "(string \<Rightarrow> string list option) \<Rightarrow> world \<Rightarrow> sidecar_call \<Rightarrow> headers \<Rightarrow> string \<Rightarrow> api_state \<Rightarrow> api_state \<times> api_response" where
  "query_metrics dec W sidecar hs body st =
     (case require_api_key hs of Inl _ \<Rightarrow> (st, unauthorized)
      | Inr (login, role) \<Rightarrow>
          or_status (require_key_action dec (w_flt W) hs (as_statements st) ''metric:Query'')
            (\<lambda>_. (st, ask_sidecar W sidecar ''POST'' ''/api/ee/metrics/query'' body ''application/json'' login role)) st)"

section \<open>Commands and service actions\<close>

definition show_bool :: "bool \<Rightarrow> string" where
  "show_bool b = (if b then ''true'' else ''false'')"

text \<open>\<open>char::is_control\<close>: the category Cc, in UTF-8.\<close>

definition is_control :: "string \<Rightarrow> bool" where
  "is_control ch \<longleftrightarrow>
     (case map of_char ch of
        [n] \<Rightarrow> n < (32 :: nat) \<or> n = 127 | [a, b] \<Rightarrow> a = 194 \<and> 128 \<le> b \<and> b \<le> 159 | _ \<Rightarrow> False)"

definition safe_cmd :: "string \<Rightarrow> string" where
  "safe_cmd cmd = concat (take 512 (filter (\<lambda>c. \<not> is_control c) (chars cmd)))"

definition api_exec_audit ::
    "world \<Rightarrow> string \<Rightarrow> string \<Rightarrow> string \<Rightarrow> bool \<Rightarrow> i32 option \<Rightarrow> string option \<Rightarrow> bool \<Rightarrow> bool \<Rightarrow> u64 \<Rightarrow> server \<Rightarrow> server" where
  "api_exec_audit W login agent_id cmd ok exit_code err_detail truncated timed_out dur =
     (let ec = (case exit_code of Some c \<Rightarrow> '' exit_code='' @ int_to_dec c | None \<Rightarrow> []);
          err = (case err_detail of Some e \<Rightarrow> '' err='' @ e | None \<Rightarrow> []);
          detail = ''cmd='' @ safe_cmd cmd @ ec @ '' truncated='' @ show_bool truncated @ '' timed_out='' @ show_bool timed_out @
                   '' dur='' @ nat_to_dec (unat dur) @ ''ms'' @ err
      in audit_sv W (Some login) (Some agent_id) ''api.exec'' ok (Some detail))"

definition EXEC_READER_GRACE_SECS :: u64 where "EXEC_READER_GRACE_SECS = 5"
definition EXEC_TRANSPORT_MARGIN_SECS :: u64 where "EXEC_TRANSPORT_MARGIN_SECS = 5"

definition exec_timeout :: "u64 \<Rightarrow> u64" where
  "exec_timeout t = max 1 (min 300 t)"

definition exec_outer :: "u64 \<Rightarrow> u64" where
  "exec_outer timeout_secs = timeout_secs + EXEC_READER_GRACE_SECS + EXEC_TRANSPORT_MARGIN_SECS"

text \<open>
  \<open>exec_command\<close> up to the wait: an answer, or the request that waits. \<open>rid\<close> is the fresh request id, \<open>waiter\<close>
  the receiver of the one-shot channel and \<open>dur\<close> the time spent.
\<close>

record exec_wait =
  ew_login :: string
  ew_agent :: string
  ew_command :: string
  ew_rid :: string
  ew_waiter :: nat
  ew_outer :: u64

definition exec_command ::
    "(string \<Rightarrow> string list option) \<Rightarrow> world \<Rightarrow> string \<Rightarrow> nat \<Rightarrow> u64 \<Rightarrow> headers \<Rightarrow> string \<Rightarrow> string \<Rightarrow> u64 \<Rightarrow> api_state
      \<Rightarrow> api_state \<times> (api_response, exec_wait) result" where
  "exec_command dec W rid waiter dur hs name command timeout st =
     (case require_api_key hs of Inl _ \<Rightarrow> (st, Inl unauthorized)
      | Inr (login, role) \<Rightarrow>
          if role \<noteq> ''admin'' then (st, Inl admin_only)
          else (case require_key_action dec (w_flt W) hs (as_statements st) ''agent:Exec'' of
                  Inl (code, msg) \<Rightarrow> (st, Inl (Status code msg))
                | Inr _ \<Rightarrow>
                    (let agent_id = name @ ''-id''; timeout_secs = exec_timeout timeout in
                     case dispatch_run_command W rid waiter agent_id command timeout_secs (as_server st) of
                       (s, Inr _) \<Rightarrow>
                         (st\<lparr>as_server := s\<rparr>,
                          Inr \<lparr>ew_login = login, ew_agent = agent_id, ew_command = command, ew_rid = rid, ew_waiter = waiter,
                               ew_outer = exec_outer timeout_secs\<rparr>)
                     | (s, Inl AgentNotFound) \<Rightarrow>
                         (st\<lparr>as_server := api_exec_audit W login agent_id command False None (Some ''agent not found'') False False dur s\<rparr>,
                          Inl (Status 404 ''agent not connected''))
                     | (s, Inl AgentDisconnected) \<Rightarrow>
                         (st\<lparr>as_server := api_exec_audit W login agent_id command False None (Some ''agent disconnected'') False False dur s\<rparr>,
                          Inl (Status 502 ''agent disconnected'')))))"

text \<open>The end of the wait: an answer, the sender dropped, or the outer timeout. The guard then removes the waiter.\<close>

datatype wait_end = Replied Message | Sender_Dropped | Elapsed

definition says_timed_out :: "string option \<Rightarrow> bool" where
  "says_timed_out e = (case e of None \<Rightarrow> False | Some t \<Rightarrow> list_ex (\<lambda>i. starts_with (drop i t) ''timed out'') [0 ..< length t])"

definition exec_reply :: "world \<Rightarrow> u64 \<Rightarrow> exec_wait \<Rightarrow> wait_end \<Rightarrow> server \<Rightarrow> server \<times> api_response" where
  "exec_reply W dur w e s =
     (case e of
        Sender_Dropped \<Rightarrow>
          (api_exec_audit W (ew_login w) (ew_agent w) (ew_command w) False None (Some ''agent disconnected mid-exec'') False False dur s,
           Status 502 ''agent disconnected'')
      | Elapsed \<Rightarrow>
          (api_exec_audit W (ew_login w) (ew_agent w) (ew_command w) False None None False True dur s,
           Status 504 ''agent did not respond in time'')
      | Replied (Exec (RunCommandResponse rid exit_code stdout stderr error truncated timed_out duration_ms)) \<Rightarrow>
          (let is_legacy = (exit_code = - 1 \<and> says_timed_out error); eff = (timed_out \<or> is_legacy)
           in (api_exec_audit W (ew_login w) (ew_agent w) (ew_command w) (exit_code = 0 \<and> \<not> eff) (Some exit_code) error truncated eff dur s,
               Exec_Json (if eff then 504 else 200) stdout stderr (if exit_code = - 1 then None else Some exit_code) error truncated eff
                 (if 0 < duration_ms then duration_ms else dur)))
      | Replied _ \<Rightarrow> (s, Status 500 ''unexpected response''))"

definition exec_finish :: "world \<Rightarrow> u64 \<Rightarrow> exec_wait \<Rightarrow> wait_end \<Rightarrow> server \<Rightarrow> server \<times> api_response" where
  "exec_finish W dur w e s =
     (case exec_reply W dur w e s of (s1, r) \<Rightarrow> (s1\<lparr>sv_exec := (sv_exec s1)(ew_rid w := None)\<rparr>, r))"

definition service_action :: "string \<Rightarrow> string option" where
  "service_action action =
     (if action = ''start'' then Some ''service:Start'' else if action = ''stop'' then Some ''service:Stop''
      else if action = ''restart'' then Some ''service:Restart'' else None)"

definition api_control_service ::
    "(string \<Rightarrow> string list option) \<Rightarrow> world \<Rightarrow> headers \<Rightarrow> string \<Rightarrow> string \<Rightarrow> string \<Rightarrow> api_state \<Rightarrow> api_state \<times> api_response" where
  "api_control_service dec W hs name svc action st =
     (case require_api_key hs of Inl _ \<Rightarrow> (st, unauthorized)
      | Inr (login, role) \<Rightarrow>
          if role \<noteq> ''admin'' then (st, admin_only)
          else (case service_action action of
                  None \<Rightarrow> (st, Status 400 ''action must be start, stop, or restart'')
                | Some scope \<Rightarrow>
                    or_status (require_key_action dec (w_flt W) hs (as_statements st) scope) (\<lambda>_.
                      let agent_id = name @ ''-id'' in
                      case h_agents (sv_hub (as_server st)) agent_id of
                        None \<Rightarrow> (st, Status 404 ''agent not connected'')
                      | Some entry \<Rightarrow>
                          (on_server (\<lambda>s. audit_sv W (Some login) (Some agent_id) (''api.service.'' @ action) True (Some (''service='' @ svc))
                             (if w_flt W ''agent.send'' then s
                              else on_hub (send_agent (ae_tx entry) (Systemd (ControlServiceRequest svc action))) s)) st,
                           Status 202 (''service '' @ action @ '' sent''))) st))"

text \<open>The two requests that act on an agent, behind the middleware.\<close>

datatype api_action =
    Api_Exec string string u64
  | Api_Service string string string

definition api_act ::
    "(string \<Rightarrow> string) \<Rightarrow> (string \<Rightarrow> string list option) \<Rightarrow> world \<Rightarrow> string \<Rightarrow> nat \<Rightarrow> u64 \<Rightarrow> headers \<Rightarrow> api_action \<Rightarrow> api_state
      \<Rightarrow> api_state \<times> (api_response, exec_wait) result" where
  "api_act sha dec W rid waiter dur hs act st =
     (case api_middleware sha (w_flt W) (w_now W) hs st of
        (st1, Inl (code, msg)) \<Rightarrow> (st1, Inl (Status code msg))
      | (st1, Inr hs1) \<Rightarrow>
          (case act of
             Api_Exec name command timeout \<Rightarrow> exec_command dec W rid waiter dur hs1 name command timeout st1
           | Api_Service name svc action \<Rightarrow>
               (case api_control_service dec W hs1 name svc action st1 of (st2, r) \<Rightarrow> (st2, Inl r))))"

section \<open>The policy\<close>

text \<open>What a policy grants, without the loops: only well-formed rows for every resource, some matching row, and only \<open>Allow\<close> among the matching ones.\<close>

definition row_matches :: "(string \<Rightarrow> string list option) \<Rightarrow> string \<Rightarrow> IamStatement \<Rightarrow> bool" where
  "row_matches dec action row = (case dec (is_actions row) of Some as \<Rightarrow> list_ex (\<lambda>a. matches_action a action) as | None \<Rightarrow> False)"

definition row_ok :: "(string \<Rightarrow> string list option) \<Rightarrow> string \<Rightarrow> IamStatement \<Rightarrow> bool" where
  "row_ok dec action row \<longleftrightarrow> dec (is_actions row) \<noteq> None \<and> (\<not> row_matches dec action row \<or> is_effect row = ''Allow'')"

definition policy_allows :: "(string \<Rightarrow> string list option) \<Rightarrow> string \<Rightarrow> IamStatement list \<Rightarrow> bool" where
  "policy_allows dec action rows \<longleftrightarrow>
     list_all (\<lambda>row. dec (is_resources row) = Some [''*'']) rows \<and> list_all (row_ok dec action) rows \<and>
     list_ex (row_matches dec action) rows"

lemma check_resources_ok: "check_resources dec rows = Inr u \<longleftrightarrow> list_all (\<lambda>row. dec (is_resources row) = Some [''*'']) rows"
  by (induction rows) (auto split: option.splits)

lemma decide_ok: "decide dec action allowed rows = Inr u \<longleftrightarrow> list_all (row_ok dec action) rows \<and> (allowed \<or> list_ex (row_matches dec action) rows)"
proof (induction rows arbitrary: allowed)
  case (Cons row rows)
  then show ?case
    by (cases "dec (is_actions row)") (auto simp: row_ok_def row_matches_def)
qed simp

definition policy_of :: "headers \<Rightarrow> int option" where
  "policy_of hs = Option.bind (hs ''x-api-key-policy-id'') parse_i64"

definition granted :: "(string \<Rightarrow> string list option) \<Rightarrow> fault \<Rightarrow> int option \<Rightarrow> IamStatement table \<Rightarrow> string \<Rightarrow> bool" where
  "granted dec flt pol stmts action =
     (case pol of None \<Rightarrow> True
      | Some pid \<Rightarrow> \<not> flt ''iam_statements'' \<and> policy_allows dec action (filter (\<lambda>r. is_policy_id r = pid) stmts))"

lemma key_action_ok: "require_key_action dec flt hs stmts action = Inr u \<longleftrightarrow> granted dec flt (policy_of hs) stmts action"
  by (cases "policy_of hs") (auto simp: require_key_action_def granted_def policy_of_def policy_allows_def check_resources_ok decide_ok Let_def result_simps)

text \<open>
  The policy bound to an API key is default-deny, and a denial wins whatever the order of the rows. The two
  loops of \<open>require_key_action\<close> accept an action exactly when the headers carry no policy, or the policy's rows
  could be read, each is well formed and for every resource, some row matches the action, and every row that
  matches it says \<open>Allow\<close>.
\<close>

theorem api_policy_denies_by_default:
  "require_key_action dec flt hs stmts action = Inr () \<longleftrightarrow>
     (case Option.bind (hs ''x-api-key-policy-id'') parse_i64 of
        None \<Rightarrow> True
      | Some pid \<Rightarrow>
          \<not> flt ''iam_statements'' \<and> policy_allows dec action (filter (\<lambda>r. is_policy_id r = pid) stmts))"
  using key_action_ok [of dec flt hs stmts action "()"] by (simp add: granted_def policy_of_def)

section \<open>Who acts on an agent\<close>

lemma digits_is_digit: "list_all is_digit (nat_to_dec n)"
  using nat_to_dec_digits by (auto simp: list_all_iff is_digit_def)

lemma nat_to_dec_not_Nil [simp]: "nat_to_dec n \<noteq> []"
  by (subst nat_to_dec.simps) simp

lemma nat_to_dec_Cons: "nat_to_dec n = c # cs \<Longrightarrow> is_digit c"
  using digits_is_digit [of n] by simp

lemma parse_digits_dec: "parse_digits (nat_to_dec n) = Some n"
  using dec_value_nat_to_dec [of n] digits_is_digit [of n] by (simp add: parse_digits_def)

lemma parse_int_to_dec:
  assumes "- (2 ^ 63) \<le> i" and "i < 2 ^ 63"
  shows "parse_i64 (int_to_dec i) = Some i"
proof (cases "i < 0")
  case True
  then show ?thesis using assms by (simp add: parse_i64_def int_to_dec_def parse_digits_dec)
next
  case False
  obtain c cs where d: "nat_to_dec (nat i) = c # cs" by (cases "nat_to_dec (nat i)") auto
  have "is_digit c" by (rule nat_to_dec_Cons [OF d])
  then have "c \<noteq> CHR ''-''" "c \<noteq> CHR ''+''" by (auto simp: is_digit_def)
  then show ?thesis using False assms d parse_digits_dec [of "nat i"] by (simp add: parse_i64_def int_to_dec_def)
qed

lemma header_value_dec: "header_value (int_to_dec i) = Some (int_to_dec i)"
proof -
  have "(32 \<le> (of_char c :: nat) \<and> (of_char c :: nat) < 127) \<or> (of_char c :: nat) = 9" if "c \<in> set (int_to_dec i)" for c
    using that nat_to_dec_digits by (fastforce simp: int_to_dec_def split: if_splits)
  then show ?thesis by (simp add: header_value_def list_all_iff)
qed

lemma strip_bearer [simp]: "bearer (strip_identity hs) = bearer hs"
  by (simp add: bearer_def strip_identity_def)

text \<open>What the identity headers say after the middleware.\<close>

definition key_live :: "(string \<Rightarrow> string) \<Rightarrow> int \<Rightarrow> string \<Rightarrow> KeyRow \<Rightarrow> bool" where
  "key_live sha now token row \<longleftrightarrow>
     ak_hash row = sha token \<and> ak_revoked row = 0 \<and> (case ak_expires_at row of Some e \<Rightarrow> now \<le> e | None \<Rightarrow> True)"

lemma put_header_other: "n \<noteq> m \<Longrightarrow> put_header m v hs n = hs n"
  by (simp add: put_header_def split: option.splits)

lemma put_header_same: "hs n = None \<Longrightarrow> put_header n v hs n = header_value v"
  by (simp add: put_header_def split: option.splits)

lemma header_value_SomeD: "header_value v = Some w \<Longrightarrow> w = v"
  by (simp add: header_value_def split: if_splits)

definition i64_policies :: "KeyRow table \<Rightarrow> bool" where
  "i64_policies keys \<longleftrightarrow> list_all (\<lambda>r. case ak_policy_id r of Some i \<Rightarrow> - (2 ^ 63) \<le> i \<and> i < 2 ^ 63 | None \<Rightarrow> True) keys"

lemma middleware_keeps:
  assumes "api_middleware sha flt now hs st = (st1, r)"
  shows "as_server st1 = as_server st \<and> as_statements st1 = as_statements st"
  using assms by (auto simp: api_middleware_def Let_def split: option.splits if_splits)

lemma middleware_identity:
  assumes m: "api_middleware sha flt now hs st = (st1, Inr hs1)" and login: "hs1 ''x-api-key-login'' = Some login"
    and pol: "i64_policies (as_keys st)"
  obtains token row where "bearer hs = Some token" "row \<in> set (as_keys st)" "key_live sha now token row" "login = ak_login row"
    "policy_of hs1 = ak_policy_id row"
    "hs1 ''x-api-key-role'' = header_value (case get_user flt (h_users (sv_hub (as_server st))) (ak_login row) of
       Inr (Some user) \<Rightarrow> u_role user | _ \<Rightarrow> ''viewer'')"
proof -
  let ?h = "strip_identity hs"
  have none: "?h ''x-api-key-login'' = None" "?h ''x-api-key-role'' = None" "?h ''x-api-key-policy-id'' = None"
    by (simp_all add: strip_identity_def)
  obtain token where token: "bearer hs = Some token" "starts_with token ''sf_live_''"
    using m login none by (auto simp: api_middleware_def Let_def split: option.splits if_splits)
  obtain row where row: "find_api_key sha flt token (as_keys st) = Some row"
    and live: "\<not> (case ak_expires_at row of Some e \<Rightarrow> e < now | None \<Rightarrow> False)"
    using m token by (auto simp: api_middleware_def Let_def split: option.splits if_splits simp del: fetch_None_iff)
  define role where "role = (case get_user flt (h_users (sv_hub (as_server st))) (ak_login row) of
       Inr (Some user) \<Rightarrow> u_role user | _ \<Rightarrow> ''viewer'')"
  define h2 where "h2 = put_header ''x-api-key-role'' role (put_header ''x-api-key-login'' (ak_login row) ?h)"
  have hs1: "hs1 = (case ak_policy_id row of Some pid \<Rightarrow> put_header ''x-api-key-policy-id'' (int_to_dec pid) h2 | None \<Rightarrow> h2)"
    using m token row live by (auto simp: api_middleware_def Let_def role_def h2_def split: option.splits if_splits)
  have mem: "row \<in> set (as_keys st)" "ak_hash row = sha token" "ak_revoked row = 0"
    using row fetch_SomeD by (fastforce simp: find_api_key_def split: if_splits)+
  have "key_live sha now token row" using mem live by (auto simp: key_live_def split: option.splits)
  moreover have "login = ak_login row"
    using login header_value_SomeD none by (auto simp: hs1 h2_def put_header_other put_header_same split: option.splits)
  moreover have "hs1 ''x-api-key-role'' = header_value role"
    using none by (auto simp: hs1 h2_def put_header_other put_header_same split: option.splits)
  moreover have "policy_of hs1 = ak_policy_id row"
  proof (cases "ak_policy_id row")
    case None
    then show ?thesis using none by (simp add: policy_of_def hs1 h2_def put_header_other)
  next
    case (Some i)
    then have "- (2 ^ 63) \<le> i \<and> i < 2 ^ 63" using pol mem(1) by (fastforce simp: i64_policies_def list_all_iff)
    then show ?thesis using Some none
      by (simp add: policy_of_def hs1 h2_def put_header_other put_header_same header_value_dec parse_int_to_dec)
  qed
  ultimately show ?thesis using that token(1) mem(1) by (simp add: role_def)
qed

fun api_scope :: "api_action \<Rightarrow> string" where
  "api_scope (Api_Exec name command timeout) = ''agent:Exec''"
| "api_scope (Api_Service name svc action) = (case service_action action of Some scope \<Rightarrow> scope | None \<Rightarrow> [])"

fun api_target :: "api_action \<Rightarrow> string" where
  "api_target (Api_Exec name command timeout) = name @ ''-id''"
| "api_target (Api_Service name svc action) = name @ ''-id''"

fun api_message :: "string \<Rightarrow> api_action \<Rightarrow> Message" where
  "api_message rid (Api_Exec name command timeout) = Exec (RunCommandRequest rid command (exec_timeout timeout))"
| "api_message rid (Api_Service name svc action) = Systemd (ControlServiceRequest svc action)"

abbreviation agent_out :: "api_state \<Rightarrow> (nat \<times> Message) list" where
  "agent_out st \<equiv> h_agent_out (sv_hub (as_server st))"

text \<open>An effect of a handler: it was allowed by the headers, and it is one message to the agent that the path names.\<close>

definition acted ::
    "(string \<Rightarrow> string list option) \<Rightarrow> world \<Rightarrow> headers \<Rightarrow> string \<Rightarrow> api_action \<Rightarrow> api_state \<Rightarrow> api_state \<Rightarrow> bool" where
  "acted dec W hs rid act st st' \<longleftrightarrow>
     hs ''x-api-key-login'' \<noteq> None \<and> hs ''x-api-key-role'' = Some ''admin'' \<and>
     granted dec (w_flt W) (policy_of hs) (as_statements st) (api_scope act) \<and>
     (\<exists>entry. h_agents (sv_hub (as_server st)) (api_target act) = Some entry \<and>
        agent_out st' = agent_out st @ [(ae_tx entry, api_message rid act)])"

lemma audit_out [simp]: "h_agent_out (sv_hub (audit_sv W a g k ok d s)) = h_agent_out (sv_hub s)"
  by (simp add: audit_sv_def on_hub_def audit_hub_def)

lemma exec_audit_out [simp]:
  "h_agent_out (sv_hub (api_exec_audit W l g c ok x e t u d s)) = h_agent_out (sv_hub s)"
  by (simp add: api_exec_audit_def Let_def)

lemma or_status_cases:
  obtains (refused) code msg where "r = Inl (code, msg)" "or_status r k s = (s, Status code msg)"
  | (passed) x where "r = Inr x" "or_status r k s = k x"
  by (cases r) auto

lemma api_key_role:
  assumes "require_api_key hs = Inr (login, role)"
  shows "hs ''x-api-key-login'' = Some login" and "role = ''admin'' \<Longrightarrow> hs ''x-api-key-role'' = Some ''admin''"
  using assms by (auto simp: require_api_key_def caller_login_def caller_role_def result_simps split: option.splits)

lemma exec_acted:
  assumes e: "exec_command dec W rid waiter dur hs name command timeout st = (st', r)" and ch: "agent_out st' \<noteq> agent_out st"
  shows "acted dec W hs rid (Api_Exec name command timeout) st st'"
proof -
  obtain login role where k: "require_api_key hs = Inr (login, role)"
    using e ch by (cases "require_api_key hs") (auto simp: exec_command_def)
  have admin: "role = ''admin''" using e ch k by (auto simp: exec_command_def split: if_splits)
  obtain u where a: "require_key_action dec (w_flt W) hs (as_statements st) ''agent:Exec'' = Inr u"
    using e ch k admin by (cases "require_key_action dec (w_flt W) hs (as_statements st) ''agent:Exec''") (auto simp: exec_command_def)
  obtain s d where d: "dispatch_run_command W rid waiter (name @ ''-id'') command (exec_timeout timeout) (as_server st) = (s, d)"
    by fastforce
  have out: "agent_out st' = h_agent_out (sv_hub s)"
    using e k admin a d by (auto simp: exec_command_def Let_def split: sum.splits dispatch_error.splits)
  then obtain entry where entry: "h_agents (sv_hub (as_server st)) (name @ ''-id'') = Some entry" "\<not> w_flt W ''agent.send''"
    using d ch by (auto simp: dispatch_run_command_def split: option.splits if_splits)
  then have "h_agent_out (sv_hub s) = agent_out st @ [(ae_tx entry, Exec (RunCommandRequest rid command (exec_timeout timeout)))]"
    using d by (auto simp: dispatch_run_command_def on_hub_def send_agent_def)
  then show ?thesis
    using entry out api_key_role [OF k] admin key_action_ok a by (simp add: acted_def)
qed

lemma service_acted:
  assumes e: "api_control_service dec W hs name svc action st = (st', r)" and ch: "agent_out st' \<noteq> agent_out st"
  shows "acted dec W hs rid (Api_Service name svc action) st st'"
proof -
  obtain login role where k: "require_api_key hs = Inr (login, role)"
    using e ch by (cases "require_api_key hs") (auto simp: api_control_service_def)
  have admin: "role = ''admin''" using e ch k by (auto simp: api_control_service_def split: if_splits)
  obtain scope where sc: "service_action action = Some scope"
    using e ch k admin by (cases "service_action action") (auto simp: api_control_service_def)
  obtain u where a: "require_key_action dec (w_flt W) hs (as_statements st) scope = Inr u"
    using e ch k admin sc by (cases "require_key_action dec (w_flt W) hs (as_statements st) scope") (auto simp: api_control_service_def)
  then obtain entry where entry: "h_agents (sv_hub (as_server st)) (name @ ''-id'') = Some entry"
    using e ch k admin sc by (auto simp: api_control_service_def Let_def split: option.splits)
  then have "agent_out st' = agent_out st @ [(ae_tx entry, Systemd (ControlServiceRequest svc action))]"
    using e ch k admin sc a by (auto simp: api_control_service_def Let_def on_server_def on_hub_def send_agent_def split: if_splits)
  then show ?thesis
    using entry api_key_role [OF k] admin key_action_ok a sc by (simp add: acted_def)
qed

lemma api_acted:
  assumes e: "api_act sha dec W rid waiter dur hs act st = (st', r)" and ch: "agent_out st' \<noteq> agent_out st"
  obtains st1 hs1 where "api_middleware sha (w_flt W) (w_now W) hs st = (st1, Inr hs1)" "acted dec W hs1 rid act st1 st'"
proof -
  obtain st1 r1 where m: "api_middleware sha (w_flt W) (w_now W) hs st = (st1, r1)" by fastforce
  have keep: "agent_out st1 = agent_out st" using middleware_keeps [OF m] by simp
  then obtain hs1 where hs1: "r1 = Inr hs1" using e ch m by (cases r1) (auto simp: api_act_def)
  show ?thesis
  proof (cases act)
    case (Api_Exec name command timeout)
    then show ?thesis using that e ch m hs1 keep exec_acted by (simp add: api_act_def)
  next
    case (Api_Service name svc action)
    then show ?thesis using that e ch m hs1 keep service_acted by (auto simp: api_act_def split: prod.splits)
  qed
qed

text \<open>
  C36: the programmatic API acts on an agent only for a live key of an administrator whose policy allows the
  action. Whatever identity headers the client sent, when a request to run a command or to control a service
  changes what is sent to agents, its bearer token hashes to a key that is neither revoked nor expired, the user of
  that key is an administrator in the user table now, the policy bound to the key, if any, allows the action, and
  what is sent is one message, the one asked for, to the agent that the path names.
\<close>

theorem api_action_needs_a_live_admin_key:
  assumes "api_act sha dec W rid waiter dur hs act st = (st', r)" and "agent_out st' \<noteq> agent_out st"
    and "i64_policies (as_keys st)"
  shows "\<exists>token row user entry. bearer hs = Some token \<and> row \<in> set (as_keys st) \<and> key_live sha (w_now W) token row \<and>
    user \<in> set (db_users (h_users (sv_hub (as_server st)))) \<and> u_login user = ak_login row \<and> u_role user = ''admin'' \<and>
    granted dec (w_flt W) (ak_policy_id row) (as_statements st) (api_scope act) \<and>
    h_agents (sv_hub (as_server st)) (api_target act) = Some entry \<and>
    agent_out st' = agent_out st @ [(ae_tx entry, api_message rid act)]"
proof -
  obtain st1 hs1 where m: "api_middleware sha (w_flt W) (w_now W) hs st = (st1, Inr hs1)" and act: "acted dec W hs1 rid act st1 st'"
    using api_acted [OF assms(1,2)] .
  obtain login where login: "hs1 ''x-api-key-login'' = Some login" using act by (auto simp: acted_def)
  obtain token row where row: "bearer hs = Some token" "row \<in> set (as_keys st)" "key_live sha (w_now W) token row"
      "login = ak_login row" "policy_of hs1 = ak_policy_id row"
    and role: "hs1 ''x-api-key-role'' = header_value (case get_user (w_flt W) (h_users (sv_hub (as_server st))) (ak_login row) of
       Inr (Some user) \<Rightarrow> u_role user | _ \<Rightarrow> ''viewer'')"
    using middleware_identity [OF m login assms(3)] .
  have "hs1 ''x-api-key-role'' = Some ''admin''" using act by (simp add: acted_def)
  from header_value_SomeD [OF trans [OF role [symmetric] this]]
  have "(case get_user (w_flt W) (h_users (sv_hub (as_server st))) (ak_login row) of
       Inr (Some user) \<Rightarrow> u_role user | _ \<Rightarrow> ''viewer'') = ''admin''" by simp
  then obtain user where "get_user (w_flt W) (h_users (sv_hub (as_server st))) (ak_login row) = Inr (Some user)" "u_role user = ''admin''"
    by (auto split: sum.splits option.splits)
  then have "user \<in> set (db_users (h_users (sv_hub (as_server st))))" "u_login user = ak_login row" "u_role user = ''admin''"
    using fetch_SomeD by (fastforce simp: get_user_def split: if_splits)+
  then show ?thesis using row act middleware_keeps [OF m] unfolding acted_def by auto
qed

definition demo_fleet :: "UserRow table \<Rightarrow> api_state" where
  "demo_fleet us =
     \<lparr>as_server = (boot \<lparr>db_users = us, db_invites = [], db_seats = None, db_audit = []\<rparr> demo_ops_db empty_fleet [])
        \<lparr>sv_hub := (sv_hub (boot \<lparr>db_users = us, db_invites = [], db_seats = None, db_audit = []\<rparr> demo_ops_db empty_fleet []))
           \<lparr>h_agents := [''a-id'' \<mapsto> \<lparr>ae_tx = 7, ae_capabilities = []\<rparr>]\<rparr>\<rparr>,
      as_keys = [\<lparr>ak_id = 1, ak_hash = ''1_evil_fs'', ak_login = ''root'', ak_policy_id = Some 5, ak_expires_at = Some 60,
        ak_revoked = 0, ak_last_used_at = None\<rparr>],
      as_statements = [\<lparr>is_policy_id = 5, is_effect = ''Allow'', is_actions = ''A'', is_resources = ''R''\<rparr>]\<rparr>"

definition demo_dec :: "string \<Rightarrow> string list option" where
  "demo_dec s = (if s = ''A'' then Some [''agent:*''] else if s = ''R'' then Some [''*''] else None)"

definition demo_headers :: headers where
  "demo_headers = [''authorization'' \<mapsto> ''Bearer sf_live_1'', ''x-api-key-role'' \<mapsto> ''viewer'', ''x-api-key-policy-id'' \<mapsto> ''9'']"

lemma demo_bearer: "bearer demo_headers = Some ''sf_live_1''"
proof -
  have "strip_prefix_str ''Bearer '' ''Bearer sf_live_1'' = Some ''sf_live_1''" "trim ''sf_live_1'' = ''sf_live_1''" by code_simp+
  then show ?thesis by (simp add: bearer_def demo_headers_def)
qed

lemma demo_values:
  "starts_with ''sf_live_1'' ''sf_live_''" "header_value ''root'' = Some ''root''" "header_value ''admin'' = Some ''admin''"
  "header_value ''viewer'' = Some ''viewer''" "header_value (int_to_dec 5) = Some ''5''"
  by code_simp+

lemma demo_identity:
  "api_middleware rev (\<lambda>_. False) 60 demo_headers (demo_fleet [demo_user ''root'' ''admin'']) =
     ((demo_fleet [demo_user ''root'' ''admin''])\<lparr>as_keys := map (\<lambda>r. r\<lparr>ak_last_used_at := Some 60\<rparr>) (as_keys (demo_fleet []))\<rparr>,
      Inr (demo_headers(''x-api-key-login'' \<mapsto> ''root'', ''x-api-key-role'' \<mapsto> ''admin'', ''x-api-key-policy-id'' \<mapsto> ''5'')))"
  by (simp add: api_middleware_def Let_def find_api_key_def demo_fleet_def demo_bearer demo_values sql_fetch_optional_def sql_update_def
        get_user_def boot_def demo_user_def put_header_def) (auto simp: demo_headers_def strip_identity_def)

theorem api_action_needs_a_live_admin_key_witness:
  "let st = demo_fleet [demo_user ''root'' ''admin''];
       st' = fst (api_act rev demo_dec demo_world ''q'' 0 0 demo_headers (Api_Exec ''a'' ''uptime'' 900) st)
   in agent_out st' = [(7, Exec (RunCommandRequest ''q'' ''uptime'' 300))] \<and>
      (\<exists>row\<in>set (as_keys st). key_live rev 60 ''sf_live_1'' row \<and> granted demo_dec (\<lambda>_. False) (ak_policy_id row) (as_statements st) ''agent:Exec'')"
proof -
  let ?st = "demo_fleet [demo_user ''root'' ''admin'']"
  let ?r = "api_act rev demo_dec demo_world ''q'' 0 0 demo_headers (Api_Exec ''a'' ''uptime'' 900) ?st"
  have pol: "parse_i64 ''5'' = Some 5" "demo_dec ''A'' = Some [''agent:*'']" "demo_dec ''R'' = Some [''*'']"
    "matches_action ''agent:*'' ''agent:Exec''" "exec_timeout 900 = 300" by code_simp+
  define st1 where "st1 = ?st\<lparr>as_keys := map (\<lambda>r. r\<lparr>ak_last_used_at := Some 60\<rparr>) (as_keys (demo_fleet []))\<rparr>"
  have run: "?r = exec_command demo_dec demo_world ''q'' 0 0
      (demo_headers(''x-api-key-login'' \<mapsto> ''root'', ''x-api-key-role'' \<mapsto> ''admin'', ''x-api-key-policy-id'' \<mapsto> ''5'')) ''a'' ''uptime'' 900 st1"
    by (simp add: api_act_def demo_identity st1_def)
  have out: "agent_out (fst ?r) = [(7, Exec (RunCommandRequest ''q'' ''uptime'' 300))]"
    unfolding run
    by (simp add: st1_def exec_command_def require_api_key_def caller_login_def caller_role_def require_key_action_def pol
        dispatch_run_command_def on_hub_def send_agent_def demo_fleet_def boot_def Let_def)
  have "i64_policies (as_keys ?st)" by (simp add: i64_policies_def demo_fleet_def)
  then show ?thesis
    using api_action_needs_a_live_admin_key [where sha = rev and dec = demo_dec and W = demo_world and rid = "''q''" and waiter = 0
        and dur = 0 and hs = demo_headers and act = "Api_Exec ''a'' ''uptime'' 900" and st = ?st and st' = "fst ?r" and r = "snd ?r"] demo_bearer out
    by (auto simp: demo_fleet_def boot_def Let_def)
qed

section \<open>Answers, and keys without a user\<close>

text \<open>
  The answer to a command: only the agent that was asked can complete the request, only with the id of the request, and
  only once.
\<close>

theorem exec_answer_comes_from_the_agent:
  assumes "exec_command dec W rid waiter dur hs name command timeout st = (st', Inr w)" and "exec_answer m = Some rid"
  shows "sv_answers (handle_answer J W' a m (as_server st')) =
      sv_answers (as_server st') @ (if a = name @ ''-id'' then [(waiter, m)] else []) \<and>
    sv_answers (handle_answer J W' a m (handle_answer J W' a m (as_server st'))) =
      sv_answers (handle_answer J W' a m (as_server st'))"
proof -
  have "sv_exec (as_server st') rid = Some (name @ ''-id'', waiter)"
    using assms(1) by (auto simp: exec_command_def dispatch_run_command_def Let_def on_hub_def
        split: sum.splits if_splits option.splits dispatch_error.splits)
  then show ?thesis by (simp add: handle_answer_def assms(2) resolve_exec_def resolve_def Let_def)
qed

text \<open>A key outlives its user: once the user is deleted, the key is still accepted, as a viewer.\<close>

lemma key_outlives_its_user:
  "\<exists>hs1. snd (api_middleware rev (\<lambda>_. False) 60 demo_headers (demo_fleet [])) = Inr hs1 \<and>
     hs1 ''x-api-key-login'' = Some ''root'' \<and> hs1 ''x-api-key-role'' = Some ''viewer''"
  by (simp add: api_middleware_def Let_def find_api_key_def demo_fleet_def demo_bearer demo_values sql_fetch_optional_def sql_update_def
        get_user_def boot_def put_header_def)

end
