(* ===== verification/Job_Handlers.thy ===== *)
theory Job_Handlers
  imports Api_Keys
begin

text \<open>
  The request handlers over the operational tables, and the two schedulers: \<open>server/src/fan_out.rs\<close>,
  \<open>update_windows.rs\<close>, \<open>backups.rs\<close>, \<open>health.rs\<close>, \<open>labels.rs\<close> and \<open>notifications.rs\<close>. The cron library, the JSON
  coder and the waiters' names are arguments; a waiting handler is modelled in two parts, before and after its wait.

  Shown: a fan-out run records one result for each target and sends one message to each that is connected; the
  scheduler fires an update window at most once for each of its cron times; and a backup listing whose caller gave up
  takes the answer of the next one.
\<close>

section \<open>Shared pieces\<close>

datatype job_response =
    Reply nat string
  | Runs_Json "FanOutRunRow list"
  | Run_Json FanOutRunRow "FanOutResultRow list"
  | Windows_Json "(UpdateWindowRow \<times> int option) list"
  | Jobs_Json "(BackupJobRow \<times> string list \<times> int option) list"
  | Archives_Json "BackupArchive list"
  | Restore_Json bool string "string option"
  | Probes_Json "(HealthProbeRow \<times> string list) list"
  | Snapshot_Json "(string \<times> nat \<times> nat \<times> nat \<times> nat) list"
  | Labels_Json "(string \<times> string list) list" "(string \<times> string list) list"
  | Notes_Json "NotificationRow list"
  | Count_Json nat

definition db_error :: job_response where "db_error = Reply 500 ''db error''"

definition require_auth :: "jwt_lib \<Rightarrow> world \<Rightarrow> (string \<rightharpoonup> string) \<Rightarrow> server \<Rightarrow> string option" where
  "require_auth L W jar s =
     (case current_user L (w_env W) (w_now W) (w_flt W) (h_users (sv_hub s)) jar of Inr c \<Rightarrow> Some (c_sub c) | Inl _ \<Rightarrow> None)"

definition with_auth ::
    "jwt_lib \<Rightarrow> world \<Rightarrow> (string \<rightharpoonup> string) \<Rightarrow> (string \<Rightarrow> server \<times> job_response) \<Rightarrow> server \<Rightarrow> server \<times> job_response" where
  "with_auth L W jar k s = (case require_auth L W jar s of None \<Rightarrow> (s, Reply 401 ''Unauthorized'') | Some actor \<Rightarrow> k actor)"

text \<open>A message to an agent's channel; the channel may be closed.\<close>

definition try_send :: "world \<Rightarrow> nat \<Rightarrow> Message \<Rightarrow> server \<Rightarrow> server \<times> bool" where
  "try_send W tx m s = (if w_flt W ''agent.send'' then (s, False) else (on_hub (send_agent tx m) s, True))"

text \<open>\<open>Schedule::from_str\<close>, the next time strictly after an instant, and \<open>DateTime::from_timestamp\<close>; instants in seconds.\<close>

record 'c cron_lib =
  cr_parse :: "string \<Rightarrow> (string, 'c) result"
  cr_after :: "'c \<Rightarrow> int \<Rightarrow> int option"
  cr_instant :: "int \<Rightarrow> int option"

definition next_run :: "'c cron_lib \<Rightarrow> int \<Rightarrow> string option \<Rightarrow> int option" where
  "next_run C now expr =
     (case expr of None \<Rightarrow> None
      | Some e \<Rightarrow> (case cr_parse C e of Inl _ \<Rightarrow> None
                 | Inr sched \<Rightarrow> (case cr_after C sched now of Some t \<Rightarrow> Some t | None \<Rightarrow> Some now)))"

definition run_floor :: "'c cron_lib \<Rightarrow> int \<Rightarrow> int \<Rightarrow> int \<Rightarrow> int" where
  "run_floor C now last_run_at updated_at =
     (if 0 < last_run_at then (case cr_instant C last_run_at of Some t \<Rightarrow> t | None \<Rightarrow> now - 31536000)
      else (case cr_instant C updated_at of Some t \<Rightarrow> t | None \<Rightarrow> now))"

definition is_due :: "'c cron_lib \<Rightarrow> int \<Rightarrow> 'c \<Rightarrow> int \<Rightarrow> int \<Rightarrow> bool" where
  "is_due C now sched last_run_at updated_at =
     (case cr_after C sched (run_floor C now last_run_at updated_at) of Some t \<Rightarrow> t \<le> now | None \<Rightarrow> False)"

text \<open>
  The \<open>Debug\<close> form of a string: quotes, backslashes and control characters are escaped. A byte above 127 is part of
  a printable character here.
\<close>

definition hex_digit :: "nat \<Rightarrow> char" where
  "hex_digit n = (if n < 10 then char_of (48 + n) else char_of (87 + n))"

definition debug_char :: "char \<Rightarrow> string" where
  "debug_char c =
     (let n = (of_char c :: nat); bs = CHR 0x5C in
      if n = 0 then [bs, CHR ''0''] else if n = 9 then [bs, CHR ''t''] else if n = 13 then [bs, CHR ''r'']
      else if n = 10 then [bs, CHR ''n''] else if n = 34 \<or> n = 92 then [bs, c]
      else if n < 16 then [bs, CHR ''u'', CHR ''{'', hex_digit n, CHR ''}'']
      else if n < 32 \<or> n = 127 then [bs, CHR ''u'', CHR ''{'', hex_digit (n div 16), hex_digit (n mod 16), CHR ''}'']
      else [c])"

definition debug_str :: "string \<Rightarrow> string" where
  "debug_str s = CHR 0x22 # concat (map debug_char s) @ [CHR 0x22]"

section \<open>Fan-out\<close>

definition message_for :: "string \<Rightarrow> string option \<Rightarrow> Message option" where
  "message_for kind package =
     (if kind = KIND_APT_STATUS then Some (Apt AptStatusRequest)
      else if kind = KIND_APT_UPGRADE then Some (Apt (AptUpgradeRequest package))
      else if kind = KIND_DOCKER_LIST then Some (Host DockerListRequest) else None)"

definition list_fan_out_runs :: "fault \<Rightarrow> nat \<Rightarrow> ops_db \<Rightarrow> (sql_error, FanOutRunRow list) result" where
  "list_fan_out_runs flt limit d =
     query flt ''list_fan_out_runs'' (take limit (rev (sort_key (\<lambda>r. (fo_started_at r, fo_id r)) (od_runs d))))"

definition fan_out_list_handler :: "jwt_lib \<Rightarrow> world \<Rightarrow> (string \<rightharpoonup> string) \<Rightarrow> server \<Rightarrow> server \<times> job_response" where
  "fan_out_list_handler L W jar s =
     with_auth L W jar (\<lambda>_. case list_fan_out_runs (w_flt W) 50 (sv_ops s) of
       Inr rows \<Rightarrow> (s, Runs_Json rows) | Inl _ \<Rightarrow> (s, db_error)) s"

definition or_no_results :: "(sql_error, FanOutResultRow list) result \<Rightarrow> FanOutResultRow list" where
  "or_no_results r = (case r of Inr rows \<Rightarrow> rows | Inl _ \<Rightarrow> [])"

definition fan_out_get_handler :: "jwt_lib \<Rightarrow> world \<Rightarrow> (string \<rightharpoonup> string) \<Rightarrow> int \<Rightarrow> server \<Rightarrow> server \<times> job_response" where
  "fan_out_get_handler L W jar i s =
     with_auth L W jar (\<lambda>_. case get_fan_out_run (w_flt W) (sv_ops s) i of
       Inl _ \<Rightarrow> (s, db_error) | Inr None \<Rightarrow> (s, Reply 404 ''no run'')
     | Inr (Some run) \<Rightarrow> (s, Run_Json run (or_no_results (get_fan_out_results (w_flt W) (sv_ops s) i)))) s"

record CreateBody =
  cb_kind :: string
  cb_agent_ids :: "string list"
  cb_label :: "string option"
  cb_package :: "string option"

definition fan_out_targets :: "world \<Rightarrow> CreateBody \<Rightarrow> server \<Rightarrow> (sql_error, string list) result" where
  "fan_out_targets W body s =
     (case cb_label body of Some l \<Rightarrow> agents_for_label (w_flt W) (sv_ops s) l | None \<Rightarrow> Inr (cb_agent_ids body))"

definition record_result ::
    "world \<Rightarrow> string \<Rightarrow> int \<Rightarrow> string \<Rightarrow> string \<Rightarrow> string option \<Rightarrow> int option \<Rightarrow> server \<Rightarrow> server" where
  "record_result W st run_id agent_id status detail finished =
     on_ops (\<lambda>d. fst (upsert_fan_out_result (site (agent_id @ st) (w_flt W)) run_id agent_id status detail finished d))"

definition fan_out_target :: "world \<Rightarrow> int \<Rightarrow> Message \<Rightarrow> string \<Rightarrow> server \<Rightarrow> server" where
  "fan_out_target W run_id m agent_id s =
     (case h_agents (sv_hub s) agent_id of
        None \<Rightarrow> record_result W ''/offline'' run_id agent_id ''offline'' (Some ''agent not connected'') (Some (w_now W)) s
      | Some entry \<Rightarrow>
          (let s1 = record_result W ''/pending'' run_id agent_id ''pending'' None None s in
           case try_send W (ae_tx entry) m s1 of (s2, ok) \<Rightarrow>
             if ok then s2
             else record_result W ''/failed'' run_id agent_id ''failed'' (Some ''send failed'') (Some (w_now W)) s2))"

definition payload_json :: "string option \<Rightarrow> string option" where
  "payload_json package =
     map_option (\<lambda>p. [CHR ''{'', CHR 0x22] @ ''package'' @ [CHR 0x22, CHR '':'', CHR 0x22] @ p @ [CHR 0x22, CHR ''}'']) package"

definition fan_out_detail :: "CreateBody \<Rightarrow> string list \<Rightarrow> string" where
  "fan_out_detail body ids =
     ''kind='' @ cb_kind body @ '' agents='' @ nat_to_dec (length ids) @ '' label='' @
     debug_str (case cb_label body of Some l \<Rightarrow> l | None \<Rightarrow> [])"

definition NO_TARGETS :: string where
  "NO_TARGETS = ''no targets '' @ [char_of (226 :: nat), char_of (128 :: nat), char_of (148 :: nat)] @
     '' provide agent_ids or a label that resolves to at least one agent''"

definition fan_out_create_handler ::
    "jwt_lib \<Rightarrow> world \<Rightarrow> (string \<rightharpoonup> string) \<Rightarrow> CreateBody \<Rightarrow> server \<Rightarrow> server \<times> job_response" where
  "fan_out_create_handler L W jar body s =
     with_auth L W jar (\<lambda>actor.
       case message_for (cb_kind body) (cb_package body) of
         None \<Rightarrow> (s, Reply 400 ''unsupported kind'')
       | Some m \<Rightarrow>
           (case fan_out_targets W body s of
              Inl _ \<Rightarrow> (s, db_error)
            | Inr ids \<Rightarrow>
                if ids = [] then (s, Reply 400 NO_TARGETS)
                else (case create_fan_out_run (w_flt W) (cb_kind body) (payload_json (cb_package body)) (w_now W) (Some actor) (sv_ops s) of
                        (_, Inl _) \<Rightarrow> (s, db_error)
                      | (d, Inr run_id) \<Rightarrow>
                          (let s1 = audit_sv W (Some actor) None ''fan_out.create'' True
                                 (Some (fan_out_detail body ids)) (s\<lparr>sv_ops := d\<rparr>);
                               s2 = fold (fan_out_target W run_id m) ids s1
                           in case get_fan_out_run (w_flt W) (sv_ops s2) run_id of
                                Inr (Some run) \<Rightarrow> (s2, Run_Json run (or_no_results (get_fan_out_results (w_flt W) (sv_ops s2) run_id)))
                              | _ \<Rightarrow> (s2, db_error))))) s"

section \<open>Update windows\<close>

definition window_out :: "'c cron_lib \<Rightarrow> world \<Rightarrow> UpdateWindowRow \<Rightarrow> UpdateWindowRow \<times> int option" where
  "window_out C W row = (row, next_run C (w_now W) (Some (uw_cron_expr row)))"

definition window_list_handler :: "jwt_lib \<Rightarrow> 'c cron_lib \<Rightarrow> world \<Rightarrow> (string \<rightharpoonup> string) \<Rightarrow> server \<Rightarrow> server \<times> job_response" where
  "window_list_handler L C W jar s =
     with_auth L W jar (\<lambda>_. case list_update_windows (w_flt W) (sv_ops s) of
       Inr rows \<Rightarrow> (s, Windows_Json (map (window_out C W) rows)) | Inl _ \<Rightarrow> (s, db_error)) s"

definition window_upsert_handler ::
    "jwt_lib \<Rightarrow> 'c cron_lib \<Rightarrow> world \<Rightarrow> (string \<rightharpoonup> string) \<Rightarrow> string \<Rightarrow> string \<Rightarrow> bool \<Rightarrow> server \<Rightarrow> server \<times> job_response" where
  "window_upsert_handler L C W jar agent_id cron_expr enabled s =
     with_auth L W jar (\<lambda>actor.
       case cr_parse C cron_expr of
         Inl e \<Rightarrow> (s, Reply 400 (''invalid cron: '' @ e))
       | Inr _ \<Rightarrow>
           (case upsert_update_window (w_flt W) agent_id cron_expr enabled (w_now W) (sv_ops s) of
              (_, Inl _) \<Rightarrow> (s, db_error)
            | (d, Inr _) \<Rightarrow>
                (let s1 = audit_sv W (Some actor) (Some agent_id) ''update_window.upsert'' True
                       (Some (''cron='' @ cron_expr @ '' enabled='' @ show_bool enabled)) (s\<lparr>sv_ops := d\<rparr>)
                 in case get_update_window (w_flt W) (sv_ops s1) agent_id of
                      Inr (Some row) \<Rightarrow> (s1, Windows_Json [window_out C W row]) | _ \<Rightarrow> (s1, db_error)))) s"

definition window_delete_handler :: "jwt_lib \<Rightarrow> world \<Rightarrow> (string \<rightharpoonup> string) \<Rightarrow> string \<Rightarrow> server \<Rightarrow> server \<times> job_response" where
  "window_delete_handler L W jar agent_id s =
     with_auth L W jar (\<lambda>actor.
       case delete_update_window (w_flt W) agent_id (sv_ops s) of
         (_, Inl _) \<Rightarrow> (s, db_error)
       | (d, Inr True) \<Rightarrow>
           (audit_sv W (Some actor) (Some agent_id) ''update_window.delete'' True None (s\<lparr>sv_ops := d\<rparr>), Reply 200 ''Deleted'')
       | (d, Inr False) \<Rightarrow> (s\<lparr>sv_ops := d\<rparr>, Reply 404 ''No window'')) s"

definition window_run_now_handler ::
    "jwt_lib \<Rightarrow> world \<Rightarrow> (string \<rightharpoonup> string) \<Rightarrow> string \<Rightarrow> string option \<Rightarrow> server \<Rightarrow> server \<times> job_response" where
  "window_run_now_handler L W jar agent_id package s =
     with_auth L W jar (\<lambda>actor.
       case h_agents (sv_hub s) agent_id of
         None \<Rightarrow> (s, Reply 404 ''Agent offline'')
       | Some entry \<Rightarrow>
           (case try_send W (ae_tx entry) (Apt (AptUpgradeRequest package)) (s\<lparr>sv_sched := insert agent_id (sv_sched s)\<rparr>) of
              (s1, False) \<Rightarrow> (s1\<lparr>sv_sched := sv_sched s1 - {agent_id}\<rparr>, Reply 500 ''send failed'')
            | (s1, True) \<Rightarrow>
                (audit_sv W (Some actor) (Some agent_id) ''update_window.run_now'' True package s1, Reply 200 ''Triggered''))) s"

text \<open>One row of the scheduler's loop. The result is stamped with a second reading of the clock, \<open>stamp\<close>.\<close>

definition window_due :: "'c cron_lib \<Rightarrow> int \<Rightarrow> UpdateWindowRow \<Rightarrow> bool" where
  "window_due C now row \<longleftrightarrow> uw_enabled row \<noteq> 0 \<and>
     (case cr_parse C (uw_cron_expr row) of Inl _ \<Rightarrow> False
      | Inr sched \<Rightarrow> is_due C now sched (uw_last_run_at row) (uw_updated_at row))"

definition window_fire :: "world \<Rightarrow> int \<Rightarrow> UpdateWindowRow \<Rightarrow> AgentEntry \<Rightarrow> server \<Rightarrow> server" where
  "window_fire W stamp row entry s =
     (let agent_id = uw_agent_id row;
          s1 = on_ops (\<lambda>d. fst (record_update_window_result (w_flt W) agent_id stamp ''running'' [] d)) s
      in case try_send W (ae_tx entry) (Apt (AptUpgradeRequest None)) (s1\<lparr>sv_sched := insert agent_id (sv_sched s1)\<rparr>) of
           (s2, False) \<Rightarrow> s2\<lparr>sv_sched := sv_sched s2 - {agent_id}\<rparr>
         | (s2, True) \<Rightarrow> audit_sv (W\<lparr>w_now := stamp\<rparr>) (Some ''scheduler'') (Some agent_id) ''update_window.fire'' True
                          (Some (''cron='' @ uw_cron_expr row)) s2)"

definition window_step :: "'c cron_lib \<Rightarrow> world \<Rightarrow> (string \<Rightarrow> int) \<Rightarrow> UpdateWindowRow \<Rightarrow> server \<Rightarrow> server" where
  "window_step C W stamp row s =
     (if \<not> window_due C (w_now W) row then s
      else case h_agents (sv_hub s) (uw_agent_id row) of
             None \<Rightarrow> s | Some entry \<Rightarrow> window_fire W (stamp (uw_agent_id row)) row entry s)"

definition window_scheduler_tick :: "'c cron_lib \<Rightarrow> world \<Rightarrow> (string \<Rightarrow> int) \<Rightarrow> server \<Rightarrow> server" where
  "window_scheduler_tick C W stamp s =
     (case list_update_windows (w_flt W) (sv_ops s) of Inl _ \<Rightarrow> s | Inr rows \<Rightarrow> fold (window_step C W stamp) rows s)"

section \<open>Backup jobs\<close>

text \<open>\<open>dec\<close> and \<open>enc\<close> are \<open>serde_json\<close> on lists of strings.\<close>

definition job_paths :: "(string \<Rightarrow> string list option) \<Rightarrow> BackupJobRow \<Rightarrow> string list" where
  "job_paths dec row = (case dec (bj_paths_json row) of Some ps \<Rightarrow> ps | None \<Rightarrow> [])"

definition job_out ::
    "(string \<Rightarrow> string list option) \<Rightarrow> 'c cron_lib \<Rightarrow> world \<Rightarrow> BackupJobRow \<Rightarrow> BackupJobRow \<times> string list \<times> int option" where
  "job_out dec C W row = (row, job_paths dec row, next_run C (w_now W) (bj_cron_expr row))"

definition parse_mode :: "string \<Rightarrow> BackupMode" where
  "parse_mode s = (if s = ''restic'' then Mode_Restic else Mode_Tar)"

definition job_list_handler ::
    "jwt_lib \<Rightarrow> (string \<Rightarrow> string list option) \<Rightarrow> 'c cron_lib \<Rightarrow> world \<Rightarrow> (string \<rightharpoonup> string) \<Rightarrow> server \<Rightarrow> server \<times> job_response" where
  "job_list_handler L dec C W jar s =
     with_auth L W jar (\<lambda>_. case list_backup_jobs (w_flt W) (sv_ops s) of
       Inr rows \<Rightarrow> (s, Jobs_Json (map (job_out dec C W) rows)) | Inl _ \<Rightarrow> (s, db_error)) s"

record JobBody =
  jb_agent_id :: string
  jb_name :: string
  jb_paths :: "string list"
  jb_dest :: string
  jb_cron_expr :: "string option"
  jb_enabled :: bool
  jb_mode :: string

definition job_upsert_handler ::
    "jwt_lib \<Rightarrow> (string \<Rightarrow> string list option) \<Rightarrow> (string list \<Rightarrow> string) \<Rightarrow> 'c cron_lib \<Rightarrow> world \<Rightarrow> (string \<rightharpoonup> string)
      \<Rightarrow> JobBody \<Rightarrow> server \<Rightarrow> server \<times> job_response" where
  "job_upsert_handler L dec enc C W jar body s =
     with_auth L W jar (\<lambda>actor.
       let cron = (case jb_cron_expr body of Some c \<Rightarrow> if c = [] then None else Some c | None \<Rightarrow> None) in
       if jb_name body = [] then (s, Reply 400 ''name required'')
       else if jb_paths body = [] then (s, Reply 400 ''at least one path required'')
       else if trim_ws (jb_dest body) = [] then (s, Reply 400 ''dest required'')
       else if (case cron of Some c \<Rightarrow> \<not> is_ok (cr_parse C c) | None \<Rightarrow> False) then (s, Reply 400 ''invalid cron expression'')
       else (case upsert_backup_job (w_flt W) (jb_agent_id body) (jb_name body) (enc (jb_paths body)) (jb_dest body) cron
                    (jb_enabled body) (if jb_mode body = ''restic'' then ''restic'' else ''tar'') (w_now W) (sv_ops s) of
               (d, Inl _) \<Rightarrow> (s\<lparr>sv_ops := d\<rparr>, db_error)
             | (d, Inr i) \<Rightarrow>
                 (let s1 = audit_sv W (Some actor) (Some (jb_agent_id body)) ''backup_job.upsert'' True
                        (Some (''name='' @ jb_name body @ '' paths='' @ nat_to_dec (length (jb_paths body)) @ '' dest='' @ jb_dest body @
                           '' cron='' @ debug_str (case cron of Some c \<Rightarrow> c | None \<Rightarrow> []))) (s\<lparr>sv_ops := d\<rparr>)
                  in case get_backup_job (w_flt W) (sv_ops s1) i of
                       Inr (Some r) \<Rightarrow> (s1, Jobs_Json [job_out dec C W r]) | _ \<Rightarrow> (s1, db_error)))) s"

definition job_delete_handler :: "jwt_lib \<Rightarrow> world \<Rightarrow> (string \<rightharpoonup> string) \<Rightarrow> int \<Rightarrow> server \<Rightarrow> server \<times> job_response" where
  "job_delete_handler L W jar i s =
     with_auth L W jar (\<lambda>actor.
       let prev = (case get_backup_job (w_flt W) (sv_ops s) i of Inr (Some r) \<Rightarrow> Some r | _ \<Rightarrow> None) in
       case delete_backup_job (w_flt W) i (sv_ops s) of
         (_, Inl _) \<Rightarrow> (s, db_error)
       | (d, Inr True) \<Rightarrow>
           ((case prev of None \<Rightarrow> s\<lparr>sv_ops := d\<rparr>
             | Some row \<Rightarrow> audit_sv W (Some actor) (Some (bj_agent_id row)) ''backup_job.delete'' True (Some (''name='' @ bj_name row))
                 (s\<lparr>sv_ops := d\<rparr>)), Reply 200 ''deleted'')
       | (d, Inr False) \<Rightarrow> (s\<lparr>sv_ops := d\<rparr>, Reply 404 ''no such job'')) s"

definition with_job :: "world \<Rightarrow> int \<Rightarrow> server \<Rightarrow> (BackupJobRow \<Rightarrow> server \<times> 'b) \<Rightarrow> (job_response \<Rightarrow> 'b) \<Rightarrow> server \<times> 'b" where
  "with_job W i s k err =
     (case get_backup_job (w_flt W) (sv_ops s) i of
        Inr (Some row) \<Rightarrow> k row | Inr None \<Rightarrow> (s, err (Reply 404 ''no such job'')) | Inl _ \<Rightarrow> (s, err db_error))"

definition run_request :: "(string \<Rightarrow> string list option) \<Rightarrow> BackupJobRow \<Rightarrow> Message" where
  "run_request dec row =
     Backup (BackupRunRequest (int_to_dec (bj_id row)) (bj_name row) (job_paths dec row) (bj_dest row) (parse_mode (bj_mode row)))"

definition job_run_now_handler ::
    "jwt_lib \<Rightarrow> (string \<Rightarrow> string list option) \<Rightarrow> world \<Rightarrow> (string \<rightharpoonup> string) \<Rightarrow> int \<Rightarrow> server \<Rightarrow> server \<times> job_response" where
  "job_run_now_handler L dec W jar i s =
     with_auth L W jar (\<lambda>actor. with_job W i s (\<lambda>row.
       if job_paths dec row = [] then (s, Reply 400 ''paths is empty'')
       else (case h_agents (sv_hub s) (bj_agent_id row) of
               None \<Rightarrow> (s, Reply 404 ''agent offline'')
             | Some entry \<Rightarrow>
                 (case try_send W (ae_tx entry) (run_request dec row) s of
                    (s1, False) \<Rightarrow> (s1, Reply 500 ''send failed'')
                  | (s1, True) \<Rightarrow>
                      (audit_sv W (Some actor) (Some (bj_agent_id row)) ''backup_job.run_now'' True (Some (bj_name row))
                         (on_ops (\<lambda>d. fst (record_backup_job_result (w_flt W) i (w_now W) ''running'' [] 0 [] d)) s1),
                       Reply 200 ''Triggered'')))) id) s"

text \<open>Listing and restoring wait for the agent. \<open>waiter\<close> names the one-shot channel.\<close>

definition MAX_PENDING :: nat where "MAX_PENDING = 32"

definition list_archives_begin ::
    "jwt_lib \<Rightarrow> world \<Rightarrow> (string \<rightharpoonup> string) \<Rightarrow> int \<Rightarrow> nat \<Rightarrow> server \<Rightarrow> server \<times> (job_response, nat) result" where
  "list_archives_begin L W jar i waiter s =
     (case require_auth L W jar s of None \<Rightarrow> (s, Inl (Reply 401 ''Unauthorized''))
      | Some _ \<Rightarrow>
          with_job W i s (\<lambda>row.
            case h_agents (sv_hub s) (bj_agent_id row) of
              None \<Rightarrow> (s, Inl (Reply 404 ''agent offline''))
            | Some entry \<Rightarrow>
                if MAX_PENDING \<le> length (sv_lists s (bj_agent_id row))
                then (s, Inl (Reply 503 ''too many in-flight backup-list requests for this agent''))
                else
                  (let s1 = s\<lparr>sv_lists := (sv_lists s)(bj_agent_id row := sv_lists s (bj_agent_id row) @ [waiter])\<rparr> in
                   case try_send W (ae_tx entry)
                          (Backup (BackupListArchivesRequest (int_to_dec (bj_id row)) (bj_name row) (bj_dest row))) s1 of
                     (s2, False) \<Rightarrow> (s2, Inl (Reply 500 ''send failed'')) | (s2, True) \<Rightarrow> (s2, Inr waiter))) Inl)"

fun list_archives_end :: "wait_end \<Rightarrow> job_response" where
  "list_archives_end Sender_Dropped = Reply 500 ''agent dropped''"
| "list_archives_end Elapsed = Reply 408 ''timeout waiting for agent''"
| "list_archives_end (Replied (Backup (BackupListArchivesResponse i success archives error))) =
     (if \<not> success then Reply 500 (case error of Some e \<Rightarrow> e | None \<Rightarrow> ''unknown'') else Archives_Json archives)"
| "list_archives_end (Replied _) = Reply 500 ''unexpected message''"

record restore_wait =
  rw_actor :: string
  rw_row :: BackupJobRow
  rw_archive_uri :: string
  rw_dest_root :: string
  rw_waiter :: nat

definition restore_begin ::
    "jwt_lib \<Rightarrow> world \<Rightarrow> (string \<rightharpoonup> string) \<Rightarrow> int \<Rightarrow> string \<Rightarrow> string \<Rightarrow> nat \<Rightarrow> server \<Rightarrow> server \<times> (job_response, restore_wait) result" where
  "restore_begin L W jar i archive_uri dest_root waiter s =
     (case require_auth L W jar s of None \<Rightarrow> (s, Inl (Reply 401 ''Unauthorized''))
      | Some actor \<Rightarrow>
          if archive_uri = [] \<or> dest_root = [] then (s, Inl (Reply 400 ''archive_uri and dest_root required''))
          else with_job W i s (\<lambda>row.
            case h_agents (sv_hub s) (bj_agent_id row) of
              None \<Rightarrow> (s, Inl (Reply 404 ''agent offline''))
            | Some entry \<Rightarrow>
                if MAX_PENDING \<le> length (sv_restores s (bj_agent_id row))
                then (s, Inl (Reply 503 ''too many in-flight backup-restore requests for this agent''))
                else
                  (let s1 = s\<lparr>sv_restores := (sv_restores s)(bj_agent_id row := sv_restores s (bj_agent_id row) @ [waiter])\<rparr> in
                   case try_send W (ae_tx entry) (Backup (BackupRestoreRequest (int_to_dec (bj_id row)) archive_uri dest_root)) s1 of
                     (s2, False) \<Rightarrow> (s2, Inl (Reply 500 ''send failed''))
                   | (s2, True) \<Rightarrow>
                       (s2, Inr \<lparr>rw_actor = actor, rw_row = row, rw_archive_uri = archive_uri, rw_dest_root = dest_root, rw_waiter = waiter\<rparr>))) Inl)"

definition restore_end :: "world \<Rightarrow> restore_wait \<Rightarrow> wait_end \<Rightarrow> server \<Rightarrow> server \<times> job_response" where
  "restore_end W w e s =
     (case e of
        Sender_Dropped \<Rightarrow> (s, Reply 500 ''agent dropped'')
      | Elapsed \<Rightarrow> (s, Reply 408 ''timeout waiting for agent'')
      | Replied (Backup (BackupRestoreResponse i uri dr success lg error)) \<Rightarrow>
          (audit_sv W (Some (rw_actor w)) (Some (bj_agent_id (rw_row w))) ''backup_job.restore'' success
             (Some (''name='' @ bj_name (rw_row w) @ '' archive='' @ rw_archive_uri w @ '' dest='' @ rw_dest_root w)) s,
           Restore_Json success lg error)
      | Replied _ \<Rightarrow> (s, Reply 500 ''unexpected message''))"

definition job_step ::
    "(string \<Rightarrow> string list option) \<Rightarrow> 'c cron_lib \<Rightarrow> world \<Rightarrow> (int \<Rightarrow> int) \<Rightarrow> BackupJobRow \<Rightarrow> server \<Rightarrow> server" where
  "job_step dec C W stamp row s =
     (case bj_cron_expr row of None \<Rightarrow> s
      | Some cron_expr \<Rightarrow>
          (case cr_parse C cron_expr of Inl _ \<Rightarrow> s
           | Inr sched \<Rightarrow>
               if bj_enabled row = 0 \<or> \<not> is_due C (w_now W) sched (bj_last_run_at row) (bj_updated_at row) then s
               else (case h_agents (sv_hub s) (bj_agent_id row) of None \<Rightarrow> s
                     | Some entry \<Rightarrow>
                         (let run_at = stamp (bj_id row);
                              s1 = on_ops (\<lambda>d. fst (record_backup_job_result (w_flt W) (bj_id row) run_at ''running'' [] 0 [] d)) s
                          in case try_send W (ae_tx entry) (run_request dec row) s1 of
                               (s2, False) \<Rightarrow> s2
                             | (s2, True) \<Rightarrow> audit_sv (W\<lparr>w_now := run_at\<rparr>) (Some ''scheduler'') (Some (bj_agent_id row)) ''backup_job.fire'' True
                                 (Some (''name='' @ bj_name row @ '' cron='' @ cron_expr)) s2))))"

definition job_scheduler_tick ::
    "(string \<Rightarrow> string list option) \<Rightarrow> 'c cron_lib \<Rightarrow> world \<Rightarrow> (int \<Rightarrow> int) \<Rightarrow> server \<Rightarrow> server" where
  "job_scheduler_tick dec C W stamp s =
     (case list_backup_jobs (w_flt W) (sv_ops s) of Inl _ \<Rightarrow> s | Inr rows \<Rightarrow> fold (job_step dec C W stamp) rows s)"

section \<open>A fan-out run accounts for its targets\<close>

lemma audit_frame [simp]:
  "sv_ops (audit_sv W a g k ok d s) = sv_ops s" "h_agents (sv_hub (audit_sv W a g k ok d s)) = h_agents (sv_hub s)"
  by (simp_all add: audit_sv_def on_hub_def audit_hub_def)

text \<open>The rows of a run, by agent.\<close>

definition run_rows :: "int \<Rightarrow> server \<Rightarrow> FanOutResultRow list" where
  "run_rows i s = filter (\<lambda>r. fx_run_id r = i) (od_results (sv_ops s))"

definition result_row :: "world \<Rightarrow> int \<Rightarrow> string \<Rightarrow> bool \<Rightarrow> FanOutResultRow" where
  "result_row W i a online =
     \<lparr>fx_run_id = i, fx_agent_id = a, fx_status = (if online then ''pending'' else ''offline''),
      fx_detail = (if online then None else Some ''agent not connected''), fx_finished_at = (if online then None else Some (w_now W))\<rparr>"

lemma target_results:
  assumes "\<And>n. \<not> w_flt W n"
  shows "od_results (sv_ops (fan_out_target W i m a s)) =
    sql_upsert fx_key (result_row W i a (h_agents (sv_hub s) a \<noteq> None))
      (\<lambda>r. r\<lparr>fx_status := fx_status (result_row W i a (h_agents (sv_hub s) a \<noteq> None)),
             fx_detail := fx_detail (result_row W i a (h_agents (sv_hub s) a \<noteq> None)),
             fx_finished_at := fx_finished_at (result_row W i a (h_agents (sv_hub s) a \<noteq> None))\<rparr>) (od_results (sv_ops s))"
  using assms by (cases "h_agents (sv_hub s) a")
    (simp_all add: fan_out_target_def record_result_def on_ops_def upsert_fan_out_result_def stmt_def site_def try_send_def
      on_hub_def send_agent_def result_row_def Let_def)

lemma target_frame:
  assumes "\<And>n. \<not> w_flt W n"
  shows "h_agents (sv_hub (fan_out_target W i m a s)) = h_agents (sv_hub s)"
    "od_runs (sv_ops (fan_out_target W i m a s)) = od_runs (sv_ops s)"
    "h_agent_out (sv_hub (fan_out_target W i m a s)) =
       h_agent_out (sv_hub s) @ (case h_agents (sv_hub s) a of Some e \<Rightarrow> [(ae_tx e, m)] | None \<Rightarrow> [])"
  using assms by (cases "h_agents (sv_hub s) a";
    simp add: fan_out_target_def record_result_def on_ops_def upsert_fan_out_result_def stmt_def site_def try_send_def
      on_hub_def send_agent_def Let_def)+

lemma upsert_row:
  assumes "\<And>r. fx_key r = fx_key row \<Longrightarrow> f r = row"
  shows "set (sql_upsert fx_key row f t) = insert row {r \<in> set t. fx_key r \<noteq> fx_key row}"
  using assms by (auto simp: sql_upsert_def image_iff)

lemma key_row_eq:
  assumes "fx_key r = fx_key row"
  shows "r\<lparr>fx_status := fx_status row, fx_detail := fx_detail row, fx_finished_at := fx_finished_at row\<rparr> = row"
  using assms by (cases r; cases row) (simp add: fx_key_def)

lemma result_row_key [simp]: "fx_key (result_row W i a online) = (i, a)"
  by (simp add: fx_key_def result_row_def)

lemma one_more_target:
  assumes "\<And>b. fx_key (R b) = (i, b)"
  shows "R ` S \<union> {r \<in> insert (R a) {r \<in> T. fx_key r \<noteq> (i, a)}. fx_key r \<notin> Pair i ` S} =
    R ` insert a S \<union> {r \<in> T. fx_key r \<notin> Pair i ` insert a S}"
  using assms by (auto simp: image_iff)

lemma fold_targets:
  assumes nf: "\<And>n. \<not> w_flt W n" and k: "keyed fx_key (od_results (sv_ops s))"
  defines "online \<equiv> \<lambda>a. h_agents (sv_hub s) a \<noteq> None"
  shows "keyed fx_key (od_results (sv_ops (fold (fan_out_target W i m) ids s))) \<and>
    set (od_results (sv_ops (fold (fan_out_target W i m) ids s))) =
      (\<lambda>a. result_row W i a (online a)) ` set ids \<union> {r \<in> set (od_results (sv_ops s)). fx_key r \<notin> Pair i ` set ids} \<and>
    h_agents (sv_hub (fold (fan_out_target W i m) ids s)) = h_agents (sv_hub s) \<and>
    od_runs (sv_ops (fold (fan_out_target W i m) ids s)) = od_runs (sv_ops s) \<and>
    h_agent_out (sv_hub (fold (fan_out_target W i m) ids s)) =
      h_agent_out (sv_hub s) @ map (\<lambda>a. (ae_tx (the (h_agents (sv_hub s) a)), m)) (filter online ids)"
  using k unfolding online_def
proof (induction ids arbitrary: s)
  case (Cons a ids)
  let ?s = "fan_out_target W i m a s" and ?row = "result_row W i a (h_agents (sv_hub s) a \<noteq> None)"
  note fr = target_frame [OF nf, where i = i and m = m and a = a and s = s]
  have res: "set (od_results (sv_ops ?s)) = insert ?row {r \<in> set (od_results (sv_ops s)). fx_key r \<noteq> (i, a)}"
    using upsert_row [where row = ?row, OF key_row_eq] by (simp add: target_results [OF nf])
  have "keyed fx_key (od_results (sv_ops ?s))"
    unfolding target_results [OF nf] by (rule keyed_upsert [OF Cons.prems]) (simp add: fx_key_def)
  note IH = Cons.IH [OF this, unfolded fr res
      one_more_target [where R = "\<lambda>b. result_row W i b (h_agents (sv_hub s) b \<noteq> None)", OF result_row_key]]
  then show ?case by (cases "h_agents (sv_hub s) a") simp_all
qed simp

lemma keyed_run_agents:
  assumes "keyed fx_key t" and "\<And>r. r \<in> set t' \<Longrightarrow> fx_run_id r = i" and "distinct t'" and "set t' \<subseteq> set t"
  shows "distinct (map fx_agent_id t')"
  unfolding distinct_map using assms keyed_unique [OF assms(1)] by (fastforce simp: inj_on_def fx_key_def)

lemma find_snoc: "find P xs = None \<Longrightarrow> find P (xs @ [x]) = (if P x then Some x else None)"
  by (induction xs) (auto split: if_splits)

lemma keyed_distinct: "keyed key t \<Longrightarrow> distinct t"
  by (simp add: keyed_def distinct_map)


section \<open>The scheduler fires once per cron time\<close>

text \<open>How often a window was fired, by the audit log, and the row of an agent.\<close>

definition fire_count :: "string \<Rightarrow> server \<Rightarrow> nat" where
  "fire_count a s =
     length (filter (\<lambda>r. au_kind r = ''update_window.fire'' \<and> au_agent_id r = Some a) (db_audit (h_users (sv_hub s))))"

abbreviation window_of :: "string \<Rightarrow> server \<Rightarrow> UpdateWindowRow option" where
  "window_of a s \<equiv> sql_fetch_optional (\<lambda>r. uw_agent_id r = a) (od_windows (sv_ops s))"

fun window_ticks :: "'c cron_lib \<Rightarrow> (world \<times> (string \<Rightarrow> int)) list \<Rightarrow> server \<Rightarrow> server" where
  "window_ticks C [] s = s"
| "window_ticks C ((W, stamp) # ts) s = window_ticks C ts (window_scheduler_tick C W stamp s)"

definition stamp_row :: "int \<Rightarrow> UpdateWindowRow \<Rightarrow> UpdateWindowRow" where
  "stamp_row t r = r\<lparr>uw_last_run_at := t, uw_last_status := Some ''running'', uw_last_log := Some []\<rparr>"

lemma stamp_row_agent [simp]: "uw_agent_id (stamp_row t r) = uw_agent_id r" "uw_cron_expr (stamp_row t r) = uw_cron_expr r"
  "uw_updated_at (stamp_row t r) = uw_updated_at r" "uw_last_run_at (stamp_row t r) = t"
  by (simp_all add: stamp_row_def)

lemma window_fire_windows:
  assumes "\<And>n. \<not> w_flt W n"
  shows "od_windows (sv_ops (window_fire W t row e s)) = sql_update (\<lambda>r. uw_agent_id r = uw_agent_id row) (stamp_row t) (od_windows (sv_ops s))"
    "fire_count a (window_fire W t row e s) = fire_count a s + (if uw_agent_id row = a then 1 else 0)"
    "h_agents (sv_hub (window_fire W t row e s)) = h_agents (sv_hub s)"
  using assms by (simp_all add: window_fire_def Let_def try_send_def record_update_window_result_def stmt_def on_ops_def on_hub_def
      send_agent_def audit_sv_def audit_hub_def record_audit_def fire_count_def stamp_row_def [abs_def])

lemma fetch_update_other:
  assumes "b \<noteq> a"
  shows "sql_fetch_optional (\<lambda>r. uw_agent_id r = a) (sql_update (\<lambda>r. uw_agent_id r = b) (stamp_row t) ws) =
    sql_fetch_optional (\<lambda>r. uw_agent_id r = a) ws"
  using assms by (induction ws) (auto simp: sql_fetch_optional_def sql_update_def)

lemma fetch_update_same:
  "sql_fetch_optional (\<lambda>r. uw_agent_id r = a) (sql_update (\<lambda>r. uw_agent_id r = a) (stamp_row t) ws) =
    map_option (stamp_row t) (sql_fetch_optional (\<lambda>r. uw_agent_id r = a) ws)"
  by (induction ws) (auto simp: sql_fetch_optional_def sql_update_def)

text \<open>The step of another agent's row changes nothing for this agent.\<close>

lemma window_step_other:
  assumes "\<And>n. \<not> w_flt W n" and "uw_agent_id row \<noteq> a"
  shows "window_of a (window_step C W stamp row s) = window_of a s" "fire_count a (window_step C W stamp row s) = fire_count a s"
  using assms by (simp_all add: window_step_def window_fire_windows fetch_update_other split: option.splits)

lemma window_step_same:
  assumes "\<And>n. \<not> w_flt W n" and "uw_agent_id row = a"
  shows "window_step C W stamp row s = s \<or>
    window_due C (w_now W) row \<and> window_of a (window_step C W stamp row s) = map_option (stamp_row (stamp a)) (window_of a s) \<and>
    fire_count a (window_step C W stamp row s) = fire_count a s + 1"
  using assms by (auto simp: window_step_def window_fire_windows fetch_update_same split: option.splits)

lemma window_fold:
  assumes nf: "\<And>n. \<not> w_flt W n" and "distinct (map uw_agent_id rows)"
    and "\<And>r. r \<in> set rows \<Longrightarrow> uw_agent_id r = a \<Longrightarrow> r = row"
  shows "window_of a (fold (window_step C W stamp) rows s) = window_of a s \<and> fire_count a (fold (window_step C W stamp) rows s) = fire_count a s \<or>
    window_due C (w_now W) row \<and> window_of a (fold (window_step C W stamp) rows s) = map_option (stamp_row (stamp a)) (window_of a s) \<and>
    fire_count a (fold (window_step C W stamp) rows s) = fire_count a s + 1"
  using assms(2,3)
proof (induction rows arbitrary: s)
  case (Cons r rows)
  note IH = Cons.IH [OF _ Cons.prems(2)]
  show ?case
  proof (cases "uw_agent_id r = a")
    case False
    then show ?thesis using IH [of "window_step C W stamp r s"] Cons.prems(1) window_step_other [OF nf False, where stamp = stamp and C = C and s = s] by simp
  next
    case True
    have rest: "window_of a (fold (window_step C W stamp) xs s') = window_of a s' \<and> fire_count a (fold (window_step C W stamp) xs s') = fire_count a s'"
      if "\<forall>x\<in>set xs. uw_agent_id x \<noteq> a" for xs s'
      using that by (induction xs arbitrary: s') (simp_all add: window_step_other [OF nf])
    have "\<forall>x\<in>set rows. uw_agent_id x \<noteq> a" using Cons.prems(1) True by (fastforce simp: image_iff)
    then show ?thesis
      using rest [of rows "window_step C W stamp r s"] window_step_same [OF nf True, of C stamp s] Cons.prems(2) [of r] True by auto
  qed
qed simp

lemma window_keyed:
  assumes "\<And>n. \<not> w_flt W n" and "keyed uw_agent_id (od_windows (sv_ops s))"
  shows "keyed uw_agent_id (od_windows (sv_ops (fold (window_step C W stamp) rows s)))"
  using assms(2) by (induction rows arbitrary: s)
    (simp_all add: window_step_def window_fire_windows [OF assms(1)] keyed_update split: option.splits)

lemma window_tick:
  fixes C :: "'c cron_lib" and stamp :: "string \<Rightarrow> int"
  assumes nf: "\<And>n. \<not> w_flt W n" and k: "keyed uw_agent_id (od_windows (sv_ops s))" and row: "window_of a s = Some row"
  defines "s' \<equiv> window_scheduler_tick C W stamp s"
  shows "keyed uw_agent_id (od_windows (sv_ops s')) \<and>
    (window_of a s' = Some row \<and> fire_count a s' = fire_count a s \<or>
     window_due C (w_now W) row \<and> window_of a s' = Some (stamp_row (stamp a) row) \<and> fire_count a s' = fire_count a s + 1)"
proof -
  let ?rows = "sort_key uw_agent_id (od_windows (sv_ops s))"
  have s': "s' = fold (window_step C W stamp) ?rows s"
    using nf by (simp add: s'_def window_scheduler_tick_def list_update_windows_def query_def)
  have "distinct (map uw_agent_id ?rows)"
    using k keyed_distinct [OF k] keyed_unique [OF k] by (fastforce simp: distinct_map inj_on_def)
  moreover have "r = row" if "r \<in> set ?rows" "uw_agent_id r = a" for r
    using that fetch_SomeD [OF row] keyed_unique [OF k, of r row] by simp
  ultimately show ?thesis
    using window_fold [OF nf, of ?rows a row C stamp s] window_keyed [OF nf k, of C stamp ?rows] row by (simp add: s')
qed


section \<open>Waiters that gave up\<close>

lemma list_begin_waits:
  assumes "list_archives_begin L W jar i w s = (s', Inr w')"
  obtains row where "get_backup_job (w_flt W) (sv_ops s) i = Inr (Some row)" "length (sv_lists s (bj_agent_id row)) < MAX_PENDING"
    "sv_lists s' = (sv_lists s)(bj_agent_id row := sv_lists s (bj_agent_id row) @ [w])" "sv_ops s' = sv_ops s"
  using assms by (auto simp: list_archives_begin_def with_job_def Let_def try_send_def on_hub_def
      split: option.splits sum.splits if_splits simp del: fetch_None_iff)

lemma list_begin_for:
  assumes "list_archives_begin L W jar i w s = (s', Inr w')" and "get_backup_job (\<lambda>_. False) (sv_ops s) i = Inr (Some row)"
  shows "sv_lists s' (bj_agent_id row) = sv_lists s (bj_agent_id row) @ [w] \<and> sv_ops s' = sv_ops s"
proof -
  obtain r where r: "get_backup_job (w_flt W) (sv_ops s) i = Inr (Some r)"
      "sv_lists s' = (sv_lists s)(bj_agent_id r := sv_lists s (bj_agent_id r) @ [w])" "sv_ops s' = sv_ops s"
    using list_begin_waits [OF assms(1)] .
  moreover have "r = row" using r(1) assms(2) by (simp add: get_backup_job_def query_def split: if_splits)
  ultimately show ?thesis by simp
qed

lemma list_answer:
  "handle_answer J W a (Backup (BackupListArchivesResponse j ok as e)) s =
     on_hub (route_to_ui W a (Backup (BackupListArchivesResponse j ok as e)))
       (resolve_list a (Backup (BackupListArchivesResponse j ok as e))
          (s\<lparr>sv_fleet := fst (ingest_message J (w_flt W) a (Backup (BackupListArchivesResponse j ok as e)) (w_now W) (sv_fleet s))\<rparr>))"
  by (simp add: handle_answer_def Let_def maybe_attribute_response_def on_ops_def)

text \<open>
  A backup listing whose caller gave up takes the answer of the next one. The waiters of an agent's listings are
  a queue, and a timeout leaves its waiter there. When a listing times out and a second one is then answered, the
  answer is handed to the first waiter, whose caller already has a timeout, and the second caller stays in the queue.
\<close>

theorem stale_waiter_takes_the_answer:
  assumes "list_archives_begin L W1 jar1 i w1 s = (s1, Inr w1)" and "list_archives_begin L W2 jar2 i w2 s1 = (s2, Inr w2)"
    and "get_backup_job (\<lambda>_. False) (sv_ops s) i = Inr (Some row)" and "sv_lists s (bj_agent_id row) = []"
    and "m = Backup (BackupListArchivesResponse j ok as e)"
  shows "list_archives_end Elapsed = Reply 408 ''timeout waiting for agent'' \<and>
    sv_answers (handle_answer J W3 (bj_agent_id row) m s2) = sv_answers s2 @ [(w1, m)] \<and>
    sv_lists (handle_answer J W3 (bj_agent_id row) m s2) (bj_agent_id row) = [w2]"
proof -
  have "sv_lists s1 (bj_agent_id row) = [w1]" "get_backup_job (\<lambda>_. False) (sv_ops s1) i = Inr (Some row)"
    using list_begin_for [OF assms(1,3)] assms(3,4) by simp_all
  moreover from this(1) list_begin_for [OF assms(2) this(2)] have "sv_lists s2 (bj_agent_id row) = [w1, w2]" by simp
  ultimately show ?thesis by (simp add: assms(5) list_answer on_hub_def resolve_list_def resolve_def)
qed

text \<open>Once the queue is full, each further listing is refused and the queue stays as it is.\<close>

lemma full_queue_refuses:
  assumes "MAX_PENDING \<le> length (sv_lists s (bj_agent_id row))" and "get_backup_job (w_flt W) (sv_ops s) i = Inr (Some row)"
  shows "\<exists>r. list_archives_begin L W jar i w s = (s, Inl r)"
  using assms by (auto simp: list_archives_begin_def with_job_def split: option.splits)

section \<open>Concrete runs\<close>

definition demo_jobs :: server where
  "demo_jobs = on_ops (\<lambda>d. d\<lparr>od_windows := [\<lparr>uw_agent_id = ''a-id'', uw_cron_expr = ''c'', uw_enabled = 1, uw_last_run_at = 0,
       uw_last_status = None, uw_last_log = None, uw_updated_at = 10\<rparr>],
     od_jobs := [\<lparr>bj_id = 1, bj_agent_id = ''a-id'', bj_name = ''n'', bj_paths_json = [], bj_dest = ''/b'', bj_cron_expr = None, bj_enabled = 1,
       bj_last_run_at = 0, bj_last_status = None, bj_last_archive_path = None, bj_last_bytes = None, bj_last_log = None,
       bj_updated_at = 10, bj_mode = ''tar''\<rparr>]\<rparr>) (as_server (demo_fleet [demo_user ''root'' ''admin'']))"

definition demo_cron :: "unit cron_lib" where
  "demo_cron = \<lparr>cr_parse = (\<lambda>_. Inr ()), cr_after = (\<lambda>_ t. Some (t + 60 - t mod 60)), cr_instant = Some\<rparr>"

abbreviation demo_cookies :: "string \<rightharpoonup> string" where "demo_cookies \<equiv> [''auth_token'' \<mapsto> ''root'']"

lemma demo_signed_in:
  "h_users (sv_hub s) = h_users (sv_hub demo_jobs) \<Longrightarrow> require_auth demo_jwt demo_world demo_cookies s = Some ''root''"
  by (simp add: require_auth_def current_user_def demo_auth_facts resolve_row_def get_user_def demo_jobs_def on_ops_def demo_fleet_def boot_def
      demo_user_def sql_fetch_optional_def)

lemmas demo_jobs_simps = demo_jobs_def on_ops_def demo_fleet_def boot_def demo_ops_db_def



theorem stale_waiter_takes_the_answer_witness:
  "let m = Backup (BackupListArchivesResponse ''1'' True [] None);
       s2 = fst (list_archives_begin demo_jwt demo_world demo_cookies 1 8 (fst (list_archives_begin demo_jwt demo_world demo_cookies 1 7 demo_jobs)))
   in sv_answers (handle_answer demo_json demo_world ''a-id'' m s2) = [(7, m)] \<and> sv_lists (handle_answer demo_json demo_world ''a-id'' m s2) ''a-id'' = [8]"
proof -
  have "require_auth demo_jwt demo_world demo_cookies demo_jobs = Some ''root''" by (rule demo_signed_in) simp
  then obtain s1 where s1: "list_archives_begin demo_jwt demo_world demo_cookies 1 7 demo_jobs = (s1, Inr 7)"
      "sv_lists s1 ''a-id'' = [7]" "sv_ops s1 = sv_ops demo_jobs" "h_users (sv_hub s1) = h_users (sv_hub demo_jobs)"
      "h_agents (sv_hub s1) = h_agents (sv_hub demo_jobs)" "sv_answers s1 = []"
    by (simp add: list_archives_begin_def with_job_def get_backup_job_def query_def demo_jobs_simps sql_fetch_optional_def MAX_PENDING_def
        try_send_def on_hub_def send_agent_def)
  have "require_auth demo_jwt demo_world demo_cookies s1 = Some ''root''" by (rule demo_signed_in [OF s1(4)])
  then obtain s2 where s2: "list_archives_begin demo_jwt demo_world demo_cookies 1 8 s1 = (s2, Inr 8)" "sv_answers s2 = []"
    using s1(2,3,5,6) by (simp add: list_archives_begin_def with_job_def get_backup_job_def query_def demo_jobs_simps sql_fetch_optional_def
        MAX_PENDING_def try_send_def on_hub_def send_agent_def)
  obtain row where row: "get_backup_job (\<lambda>_. False) (sv_ops demo_jobs) 1 = Inr (Some row)" "bj_agent_id row = ''a-id''"
    by (simp add: get_backup_job_def query_def demo_jobs_simps sql_fetch_optional_def)
  have "sv_lists demo_jobs (bj_agent_id row) = []" by (simp add: demo_jobs_simps)
  from stale_waiter_takes_the_answer [OF s1(1) s2(1) row(1) this, where m = "Backup (BackupListArchivesResponse ''1'' True [] None)"
      and J = demo_json and ?W3.0 = demo_world]
  show ?thesis by (simp add: s1(1) s2 row(2) Let_def)
qed

end
