(* ===== verification/Desk_Handlers.thy ===== *)
theory Desk_Handlers
  imports Job_Handlers
begin

text \<open>
  The remaining handlers over the operational tables (\<open>server/src/health.rs\<close>, \<open>labels.rs\<close>, \<open>notifications.rs\<close>) and
  the requests that the EE sidecar sends to the server (\<open>server/src/ee.rs\<close>), which run behind the signature check of
  \<open>Internal_Gate\<close>.

  Shown: a change to the probes of a connected agent is followed by the full set of its enabled probes; the snapshot
  counts each enabled probe once; labels and their removal; and that the sidecar's requests create users only within
  the seat cap and never change the role of an existing one.
\<close>

section \<open>Health probes\<close>

definition probe_out :: "(string \<Rightarrow> string list option) \<Rightarrow> HealthProbeRow \<Rightarrow> HealthProbeRow \<times> string list" where
  "probe_out dec row = (row, case dec (hp_env_json row) of Some e \<Rightarrow> e | None \<Rightarrow> [])"

definition probe_list_handler ::
    "jwt_lib \<Rightarrow> (string \<Rightarrow> string list option) \<Rightarrow> world \<Rightarrow> (string \<rightharpoonup> string) \<Rightarrow> server \<Rightarrow> server \<times> job_response" where
  "probe_list_handler L dec W jar s =
     with_auth L W jar (\<lambda>_. case list_health_probes (w_flt W) (sv_ops s) of
       Inr rows \<Rightarrow> (s, Probes_Json (map (probe_out dec) rows)) | Inl _ \<Rightarrow> (s, db_error)) s"

record ProbeBody =
  pb_agent_id :: string
  pb_name :: string
  pb_kind :: string
  pb_target :: string
  pb_interval_secs :: int
  pb_timeout_secs :: int
  pb_expect_status :: "int option"
  pb_expect_body :: "string option"
  pb_enabled :: bool
  pb_env :: "string list"

definition probe_upsert_handler ::
    "jwt_lib \<Rightarrow> (string \<Rightarrow> string list option) \<Rightarrow> (string list \<Rightarrow> string) \<Rightarrow> world \<Rightarrow> (string \<rightharpoonup> string) \<Rightarrow> ProbeBody \<Rightarrow> server
      \<Rightarrow> server \<times> job_response" where
  "probe_upsert_handler L dec enc W jar body s =
     with_auth L W jar (\<lambda>actor.
       if parse_kind (pb_kind body) = None then (s, Reply 400 ''kind must be http, tcp, or exec'')
       else if pb_name body = [] then (s, Reply 400 ''name required'')
       else if pb_target body = [] then (s, Reply 400 ''target required'')
       else (case upsert_health_probe (w_flt W) (pb_agent_id body) (pb_name body) (pb_kind body) (pb_target body)
                    (max (pb_interval_secs body) 1) (max (pb_timeout_secs body) 1) (pb_expect_status body) (pb_expect_body body)
                    (pb_enabled body) (enc (pb_env body)) (w_now W) (sv_ops s) of
               (d, Inl _) \<Rightarrow> (s\<lparr>sv_ops := d\<rparr>, db_error)
             | (d, Inr i) \<Rightarrow>
                 (let s1 = audit_sv W (Some actor) (Some (pb_agent_id body)) ''health_probe.upsert'' True
                        (Some (''name='' @ pb_name body @ '' kind='' @ pb_kind body @ '' target='' @ pb_target body)) (s\<lparr>sv_ops := d\<rparr>);
                      s2 = push_to_agent dec W (pb_agent_id body) s1
                  in case list_health_probes_for (w_flt W) (sv_ops s2) (pb_agent_id body) of
                       Inl _ \<Rightarrow> (s2, db_error)
                     | Inr rows \<Rightarrow> (case find (\<lambda>r. hp_id r = i) rows of
                                      Some r \<Rightarrow> (s2, Probes_Json [probe_out dec r]) | None \<Rightarrow> (s2, db_error))))) s"

definition probe_delete_handler ::
    "jwt_lib \<Rightarrow> (string \<Rightarrow> string list option) \<Rightarrow> world \<Rightarrow> (string \<rightharpoonup> string) \<Rightarrow> int \<Rightarrow> server \<Rightarrow> server \<times> job_response" where
  "probe_delete_handler L dec W jar i s =
     with_auth L W jar (\<lambda>actor.
       case delete_health_probe (w_flt W) i (sv_ops s) of
         (d, Inl _) \<Rightarrow> (s\<lparr>sv_ops := d\<rparr>, db_error)
       | (d, Inr None) \<Rightarrow> (s\<lparr>sv_ops := d\<rparr>, Reply 404 ''No probe'')
       | (d, Inr (Some (agent_id, name))) \<Rightarrow>
           (push_to_agent dec W agent_id
              (audit_sv W (Some actor) (Some agent_id) ''health_probe.delete'' True (Some (''name='' @ name)) (s\<lparr>sv_ops := d\<rparr>)),
            Reply 200 ''Deleted'')) s"

text \<open>The snapshot: a \<open>BTreeMap\<close> from the agents to their counts, in the order of the keys.\<close>

definition count_probe :: "string option \<Rightarrow> nat \<times> nat \<times> nat \<times> nat \<Rightarrow> nat \<times> nat \<times> nat \<times> nat" where
  "count_probe st c =
     (case c of (n, green, red, unknown) \<Rightarrow>
        if st = Some ''green'' then (n + 1, green + 1, red, unknown)
        else if st = Some ''red'' then (n + 1, green, red + 1, unknown) else (n + 1, green, red, unknown + 1))"

definition snapshot_step ::
    "HealthProbeRow \<Rightarrow> (string \<rightharpoonup> nat \<times> nat \<times> nat \<times> nat) \<Rightarrow> (string \<rightharpoonup> nat \<times> nat \<times> nat \<times> nat)" where
  "snapshot_step r counts =
     (if hp_enabled r = 0 then counts
      else counts(hp_agent_id r \<mapsto> count_probe (hp_last_state r)
        (case counts (hp_agent_id r) of Some c \<Rightarrow> c | None \<Rightarrow> (0, 0, 0, 0))))"

definition btree_values :: "string list \<Rightarrow> (string \<rightharpoonup> 'v) \<Rightarrow> (string \<times> 'v) list" where
  "btree_values ks m = List.map_filter (\<lambda>k. map_option (Pair k) (m k)) (sort (remdups ks))"

definition snapshot_handler :: "jwt_lib \<Rightarrow> world \<Rightarrow> (string \<rightharpoonup> string) \<Rightarrow> server \<Rightarrow> server \<times> job_response" where
  "snapshot_handler L W jar s =
     with_auth L W jar (\<lambda>_. case list_health_probes (w_flt W) (sv_ops s) of
       Inl _ \<Rightarrow> (s, db_error)
     | Inr rows \<Rightarrow> (s, Snapshot_Json (btree_values (map hp_agent_id rows) (fold snapshot_step rows Map.empty)))) s"

section \<open>Labels\<close>

definition push_at :: "string \<Rightarrow> string \<Rightarrow> (string \<rightharpoonup> string list) \<Rightarrow> (string \<rightharpoonup> string list)" where
  "push_at k v m = m(k \<mapsto> (case m k of Some vs \<Rightarrow> vs | None \<Rightarrow> []) @ [v])"

definition label_list_handler ::
    "jwt_lib \<Rightarrow> world \<Rightarrow> (string \<rightharpoonup> string) \<Rightarrow> string option \<Rightarrow> server \<Rightarrow> server \<times> job_response" where
  "label_list_handler L W jar only s =
     with_auth L W jar (\<lambda>_. case list_all_labels (w_flt W) (sv_ops s) of
       Inl _ \<Rightarrow> (s, db_error)
     | Inr all \<Rightarrow>
         (let rows = filter (\<lambda>(a, l). only = None \<or> only = Some a) all
          in (s, Labels_Json (btree_values (map fst rows) (fold (\<lambda>(a, l). push_at a l) rows Map.empty))
                   (btree_values (map snd rows) (fold (\<lambda>(a, l). push_at l a) rows Map.empty))))) s"

definition label_add_handler :: "jwt_lib \<Rightarrow> world \<Rightarrow> (string \<rightharpoonup> string) \<Rightarrow> string \<Rightarrow> string \<Rightarrow> server \<Rightarrow> server \<times> job_response" where
  "label_add_handler L W jar agent_id body_label s =
     with_auth L W jar (\<lambda>actor.
       let l = trim_ws body_label in
       if l = [] \<or> CHR '','' \<in> set l \<or> CHR '' '' \<in> set l then (s, Reply 400 ''label must be non-empty and contain no commas or spaces'')
       else (case add_label (w_flt W) agent_id l (sv_ops s) of
               (_, Inl _) \<Rightarrow> (s, db_error)
             | (d, Inr _) \<Rightarrow> (audit_sv W (Some actor) (Some agent_id) ''agent_label.add'' True (Some l) (s\<lparr>sv_ops := d\<rparr>), Reply 200 ''ok''))) s"

definition label_delete_handler :: "jwt_lib \<Rightarrow> world \<Rightarrow> (string \<rightharpoonup> string) \<Rightarrow> string \<Rightarrow> string \<Rightarrow> server \<Rightarrow> server \<times> job_response" where
  "label_delete_handler L W jar agent_id l s =
     with_auth L W jar (\<lambda>actor.
       case remove_label (w_flt W) agent_id l (sv_ops s) of
         (_, Inl _) \<Rightarrow> (s, db_error)
       | (d, Inr True) \<Rightarrow>
           (audit_sv W (Some actor) (Some agent_id) ''agent_label.delete'' True (Some l) (s\<lparr>sv_ops := d\<rparr>), Reply 200 ''deleted'')
       | (d, Inr False) \<Rightarrow> (s\<lparr>sv_ops := d\<rparr>, Reply 404 ''no such label'')) s"

section \<open>Notifications\<close>

definition note_list_handler ::
    "jwt_lib \<Rightarrow> world \<Rightarrow> (string \<rightharpoonup> string) \<Rightarrow> int option \<Rightarrow> bool option \<Rightarrow> server \<Rightarrow> server \<times> job_response" where
  "note_list_handler L W jar q_limit q_unread s =
     with_auth L W jar (\<lambda>_.
       let limit = max 1 (min 500 (case q_limit of Some n \<Rightarrow> n | None \<Rightarrow> 100))
       in case list_notifications (w_flt W) (nat limit) (q_unread = Some True) (sv_ops s) of
            Inr rows \<Rightarrow> (s, Notes_Json rows) | Inl _ \<Rightarrow> (s, db_error)) s"

definition note_unread_count_handler :: "jwt_lib \<Rightarrow> world \<Rightarrow> (string \<rightharpoonup> string) \<Rightarrow> server \<Rightarrow> server \<times> job_response" where
  "note_unread_count_handler L W jar s =
     with_auth L W jar (\<lambda>_. case unread_notification_count (w_flt W) (sv_ops s) of
       Inr n \<Rightarrow> (s, Count_Json n) | Inl _ \<Rightarrow> (s, db_error)) s"

definition note_mark_read_handler :: "jwt_lib \<Rightarrow> world \<Rightarrow> (string \<rightharpoonup> string) \<Rightarrow> int \<Rightarrow> server \<Rightarrow> server \<times> job_response" where
  "note_mark_read_handler L W jar i s =
     with_auth L W jar (\<lambda>_. case mark_notification_read (w_flt W) i (w_now W) (sv_ops s) of
       (_, Inl _) \<Rightarrow> (s, db_error)
     | (d, Inr True) \<Rightarrow> (s\<lparr>sv_ops := d\<rparr>, Reply 200 ''ok'')
     | (d, Inr False) \<Rightarrow> (s\<lparr>sv_ops := d\<rparr>, Reply 404 ''not found or already read'')) s"

definition note_mark_all_read_handler :: "jwt_lib \<Rightarrow> world \<Rightarrow> (string \<rightharpoonup> string) \<Rightarrow> server \<Rightarrow> server \<times> job_response" where
  "note_mark_all_read_handler L W jar s =
     with_auth L W jar (\<lambda>_. case mark_all_notifications_read (w_flt W) (w_now W) (sv_ops s) of
       (_, Inl _) \<Rightarrow> (s, db_error) | (d, Inr n) \<Rightarrow> (s\<lparr>sv_ops := d\<rparr>, Count_Json n)) s"

definition note_delete_handler :: "jwt_lib \<Rightarrow> world \<Rightarrow> (string \<rightharpoonup> string) \<Rightarrow> int \<Rightarrow> server \<Rightarrow> server \<times> job_response" where
  "note_delete_handler L W jar i s =
     with_auth L W jar (\<lambda>_. case delete_notification (w_flt W) i (sv_ops s) of
       (_, Inl _) \<Rightarrow> (s, db_error)
     | (d, Inr True) \<Rightarrow> (s\<lparr>sv_ops := d\<rparr>, Reply 200 ''deleted'')
     | (d, Inr False) \<Rightarrow> (s\<lparr>sv_ops := d\<rparr>, Reply 404 ''not found'')) s"

section \<open>Requests of the EE sidecar\<close>

datatype ee_response = Ee_Reply nat string | Ee_Token string | Ee_Agents "(string \<times> string list) list" | Ee_Exec_Json api_response

definition internal_audit_handler ::
    "world \<Rightarrow> string option \<Rightarrow> string option \<Rightarrow> string \<Rightarrow> bool \<Rightarrow> string option \<Rightarrow> server \<Rightarrow> server \<times> ee_response" where
  "internal_audit_handler W actor agent_id kind ok detail s = (audit_sv W actor agent_id kind ok detail s, Ee_Reply 200 ''ok'')"

text \<open>\<open>exec-command\<close>: the same dispatch as the programmatic API's, with a longer limit; before and after the wait.\<close>

definition ee_exec_timeout :: "u64 \<Rightarrow> u64" where
  "ee_exec_timeout t = max 1 (min 3600 t)"

definition ee_exec_begin ::
    "world \<Rightarrow> string \<Rightarrow> nat \<Rightarrow> string \<Rightarrow> string \<Rightarrow> u64 \<Rightarrow> server \<Rightarrow> server \<times> (ee_response, string) result" where
  "ee_exec_begin W rid waiter agent_id command timeout s =
     (case dispatch_run_command W rid waiter agent_id command (ee_exec_timeout timeout) s of
        (s1, Inr _) \<Rightarrow> (s1, Inr rid)
      | (s1, Inl AgentNotFound) \<Rightarrow> (s1, Inl (Ee_Reply 404 ''agent not connected''))
      | (s1, Inl AgentDisconnected) \<Rightarrow> (s1, Inl (Ee_Reply 502 ''agent disconnected'')))"

definition ee_exec_end :: "string \<Rightarrow> wait_end \<Rightarrow> server \<Rightarrow> server \<times> ee_response" where
  "ee_exec_end rid e s =
     (s\<lparr>sv_exec := (sv_exec s)(rid := None)\<rparr>,
      case e of
        Replied (Exec (RunCommandResponse r exit_code stdout stderr error truncated timed_out duration_ms)) \<Rightarrow>
          Ee_Exec_Json (Exec_Json 200 stdout stderr (Some exit_code) error truncated timed_out duration_ms)
      | Replied _ \<Rightarrow> Ee_Reply 502 ''unexpected exec response''
      | Sender_Dropped \<Rightarrow> Ee_Reply 502 ''agent disconnected''
      | Elapsed \<Rightarrow> Ee_Reply 504 ''agent did not respond in time'')"

definition pass_to_agent :: "world \<Rightarrow> string \<Rightarrow> Message \<Rightarrow> string \<Rightarrow> server \<Rightarrow> server \<times> ee_response" where
  "pass_to_agent W agent_id m good s =
     (case h_agents (sv_hub s) agent_id of
        None \<Rightarrow> (s, Ee_Reply 404 ''agent not connected'')
      | Some entry \<Rightarrow> (case try_send W (ae_tx entry) m s of
                         (s1, True) \<Rightarrow> (s1, Ee_Reply 200 good)
                       | (s1, False) \<Rightarrow> (s1, Ee_Reply 502 ''agent send channel closed'')))"

text \<open>\<open>dec_msg\<close> decodes the held message; it may fail with a text.\<close>

definition execute_approved_handler ::
    "(string \<Rightarrow> (string, Message) result) \<Rightarrow> world \<Rightarrow> string \<Rightarrow> string \<Rightarrow> server \<Rightarrow> server \<times> ee_response" where
  "execute_approved_handler dec_msg W agent_id payload s =
     (case dec_msg payload of
        Inl e \<Rightarrow> (s, Ee_Reply 400 (''bad approved payload: '' @ e)) | Inr m \<Rightarrow> pass_to_agent W agent_id m ''executed'' s)"

definition send_to_agent_handler :: "world \<Rightarrow> string \<Rightarrow> Message \<Rightarrow> server \<Rightarrow> server \<times> ee_response" where
  "send_to_agent_handler W agent_id m s = pass_to_agent W agent_id m ''sent'' s"

definition issue_internal_jwt :: "jwt_lib \<Rightarrow> world \<Rightarrow> string \<Rightarrow> string \<Rightarrow> bool \<Rightarrow> string" where
  "issue_internal_jwt L W login role mfa =
     (case issue_jwt L (w_env W) (w_now W) login (Role_parse role) mfa 86400 of Some t \<Rightarrow> t | None \<Rightarrow> [])"

definition auth_resolve_handler ::
    "jwt_lib \<Rightarrow> world \<Rightarrow> string \<Rightarrow> string \<Rightarrow> bool \<Rightarrow> server \<Rightarrow> server \<times> ee_response" where
  "auth_resolve_handler L W login body_role mfa s =
     (let role = (if body_role = ''admin'' \<or> body_role = ''viewer'' then body_role else ''viewer'');
          d = h_users (sv_hub s);
          put = (\<lambda>d'. on_hub (\<lambda>h. h\<lparr>h_users := d'\<rparr>) s)
      in case upsert_login_with_seat_check (w_flt W) login role (w_now W) (seat_limit (w_flt W) d) d of
           (d', Inl _) \<Rightarrow> (put d', Ee_Reply 500 ''db error'')
         | (d', Inr SeatCapReached) \<Rightarrow> (put d', Ee_Reply 403 ''seat cap reached'')
         | (d', Inr (Existing row)) \<Rightarrow> (put d', Ee_Token (issue_internal_jwt L W (u_login row) (u_role row) mfa))
         | (d', Inr (Created row)) \<Rightarrow> (put d', Ee_Token (issue_internal_jwt L W (u_login row) (u_role row) mfa)))"

definition seat_limit_handler :: "world \<Rightarrow> int \<Rightarrow> server \<Rightarrow> server \<times> ee_response" where
  "seat_limit_handler W seats s =
     (if w_flt W ''set_ee_seat_limit'' then (s, Ee_Reply 500 ''db error'')
      else (on_hub (\<lambda>h. h\<lparr>h_users := set_ee_seat_limit seats (h_users h)\<rparr>) s, Ee_Reply 200 ''ok''))"

definition agents_handler :: "world \<Rightarrow> server \<Rightarrow> server \<times> ee_response" where
  "agents_handler W s =
     (case agent_snapshot W (sv_hub s) of (ids, caps) \<Rightarrow> (s, Ee_Agents (map (\<lambda>a. (a, the (caps a))) ids)))"

text \<open>
  The proxy of \<open>/api/ee\<close>: only a signed-in user's request is passed on, with the identity of the session and the
  role of the user table, never with headers of the client.
\<close>

definition ee_proxy_handler ::
    "jwt_lib \<Rightarrow> world \<Rightarrow> sidecar_call \<Rightarrow> (string \<rightharpoonup> string) \<Rightarrow> string \<Rightarrow> string \<Rightarrow> string \<Rightarrow> server \<Rightarrow> ee_response" where
  "ee_proxy_handler L W sidecar jar meth path body s =
     (if ee_sidecar_url (w_env W) = None then Ee_Reply 503 ''EE not active''
      else case current_user L (w_env W) (w_now W) (w_flt W) (h_users (sv_hub s)) jar of
             Inl (code, msg) \<Rightarrow> Ee_Reply code msg
           | Inr claims \<Rightarrow>
               if 1048576 < length body then Ee_Reply 413 ''body too large''
               else (case sidecar meth path body (if body = [] then [] else ''application/json'') (c_sub claims) (c_role claims) of
                       Some (status, t) \<Rightarrow> Ee_Reply status t | None \<Rightarrow> Ee_Reply 502 ''EE sidecar unavailable''))"

section \<open>Facts\<close>

text \<open>A change of an agent's probes that succeeds tells a connected agent all its enabled probes.\<close>

theorem probe_change_is_pushed:
  assumes "probe_upsert_handler L dec enc W jar body s = (s', Probes_Json out)"
    and "h_agents (sv_hub s) (pb_agent_id body) = Some entry"
  shows "h_agent_out (sv_hub s') = h_agent_out (sv_hub s) @
    [(ae_tx entry, Probe (HealthProbeSyncRequest (List.map_filter (row_to_spec dec)
       (filter (\<lambda>r. hp_enabled r \<noteq> 0) (sort_key hp_name (filter (\<lambda>r. hp_agent_id r = pb_agent_id body) (od_probes (sv_ops s'))))))))]"
proof -
  obtain actor where a: "require_auth L W jar s = Some actor"
    using assms(1) by (auto simp: probe_upsert_handler_def with_auth_def split: option.splits)
  obtain d i where u: "upsert_health_probe (w_flt W) (pb_agent_id body) (pb_name body) (pb_kind body) (pb_target body)
      (max (pb_interval_secs body) 1) (max (pb_timeout_secs body) 1) (pb_expect_status body) (pb_expect_body body)
      (pb_enabled body) (enc (pb_env body)) (w_now W) (sv_ops s) = (d, Inr i)"
    using assms(1) a by (auto simp: probe_upsert_handler_def with_auth_def db_error_def split: if_splits prod.splits sum.splits)
  define s1 where "s1 = audit_sv W (Some actor) (Some (pb_agent_id body)) ''health_probe.upsert'' True
     (Some (''name='' @ pb_name body @ '' kind='' @ pb_kind body @ '' target='' @ pb_target body)) (s\<lparr>sv_ops := d\<rparr>)"
  have s': "s' = push_to_agent dec W (pb_agent_id body) s1" "\<not> w_flt W ''list_health_probes_for''"
    using assms(1) unfolding probe_upsert_handler_def with_auth_def a option.case u prod.case sum.case Let_def s1_def [symmetric]
    by (auto simp: db_error_def list_health_probes_for_def query_def split: if_splits sum.splits option.splits)
  have "h_agents (sv_hub s1) = h_agents (sv_hub s)" "h_agent_out (sv_hub s1) = h_agent_out (sv_hub s)" "sv_ops s1 = d"
    by (simp_all add: s1_def)
  then show ?thesis
    using assms(2) s' by (simp add: push_to_agent_def list_health_probes_for_def query_def on_hub_def deliver_def send_agent_def)
qed

text \<open>The snapshot counts each enabled probe of an agent once.\<close>

lemma snapshot_counts:
  assumes "fold snapshot_step rows Map.empty a = Some (n, green, red, unknown)"
  shows "n = length (filter (\<lambda>r. hp_enabled r \<noteq> 0 \<and> hp_agent_id r = a) rows) \<and> n = green + red + unknown"
proof -
  have "case fold snapshot_step rows m a of
      Some (n', g', r', u') \<Rightarrow>
        n' = (case m a of Some (n, _) \<Rightarrow> n | None \<Rightarrow> 0) + length (filter (\<lambda>r. hp_enabled r \<noteq> 0 \<and> hp_agent_id r = a) rows) \<and>
        ((case m a of Some (n, g, r, u) \<Rightarrow> n = g + r + u | None \<Rightarrow> True) \<longrightarrow> n' = g' + r' + u')
    | None \<Rightarrow> True" for m
  proof (induction rows arbitrary: m)
    case (Cons r rows)
    show ?case using Cons [of "snapshot_step r m"]
      by (cases "m a") (auto simp: snapshot_step_def count_probe_def split: option.splits if_splits)
  qed (auto split: option.splits)
  from this [of Map.empty] show ?thesis using assms by simp
qed

text \<open>A label that was added resolves to its agent, and one that was removed does not.\<close>

lemma label_added:
  assumes "label_add_handler L W jar a l s = (s', Reply 200 ''ok'')"
  shows "agents_for_label (\<lambda>_. False) (sv_ops s') (trim_ws l) = Inr as \<Longrightarrow> a \<in> set as"
  using assms by (auto simp: label_add_handler_def with_auth_def db_error_def add_label_def stmt_def agents_for_label_def query_def
      sql_insert_or_ignore_def Let_def image_iff split: option.splits if_splits)

lemma label_removed:
  assumes "label_delete_handler L W jar a l s = (s', Reply 200 ''deleted'')"
  shows "agents_for_label (\<lambda>_. False) (sv_ops s') l = Inr as \<Longrightarrow> a \<notin> set as"
  using assms by (auto simp: label_delete_handler_def with_auth_def db_error_def remove_label_def stmt_def agents_for_label_def query_def
      Let_def split: option.splits if_splits bool.splits)

text \<open>
  The sidecar signs a user in: an account is only created within the seat limit, an existing one keeps its role, and
  the token carries the role of the table, not the one asked for.
\<close>

theorem sidecar_sign_in_keeps_roles:
  assumes "auth_resolve_handler L W login role mfa s = (s', Ee_Token t)"
  shows "\<exists>row\<in>set (db_users (h_users (sv_hub s'))). u_login row = login \<and> t = issue_internal_jwt L W login (u_role row) mfa \<and>
    (case sql_fetch_optional (\<lambda>u. u_login u = login) (db_users (h_users (sv_hub s))) of
       Some old \<Rightarrow> u_role row = u_role old
     | None \<Rightarrow> int (length (db_users (h_users (sv_hub s)))) < seat_limit (w_flt W) (h_users (sv_hub s)))"
proof -
  let ?d = "h_users (sv_hub s)" and ?P = "\<lambda>u. u_login u = login"
  define r where "r = (if role = ''admin'' \<or> role = ''viewer'' then role else ''viewer'')"
  obtain d' x where u: "upsert_login_with_seat_check (w_flt W) login r (w_now W) (seat_limit (w_flt W) ?d) ?d = (d', x)" by fastforce
  have nf: "\<not> w_flt W ''upsert_login''" using assms u by (auto simp: auth_resolve_handler_def r_def upsert_login_with_seat_check_def Let_def)
  show ?thesis
  proof (cases "sql_fetch_optional ?P (db_users ?d)")
    case (Some old)
    let ?us = "sql_update ?P (\<lambda>u. u\<lparr>u_last_login_at := w_now W\<rparr>) (db_users ?d)"
    have row: "sql_fetch_optional ?P ?us = Some (old\<lparr>u_last_login_at := w_now W\<rparr>)"
      using Some by (simp add: fetch_login_update)
    then have "s' = on_hub (\<lambda>h. h\<lparr>h_users := ?d\<lparr>db_users := ?us\<rparr>\<rparr>) s" "t = issue_internal_jwt L W login (u_role old) mfa"
      using assms Some nf fetch_SomeD [OF Some] unfolding auth_resolve_handler_def Let_def r_def [symmetric]
      by (simp_all add: upsert_login_with_seat_check_def Let_def)
    then show ?thesis using fetch_SomeD [OF row] Some by (intro bexI [of _ "old\<lparr>u_last_login_at := w_now W\<rparr>"]) (auto simp: on_hub_def)
  next
    case None
    then show ?thesis
      using assms nf unfolding auth_resolve_handler_def Let_def r_def [symmetric]
      by (auto simp: upsert_login_with_seat_check_def Let_def on_hub_def sql_insert_def simp del: fetch_None_iff split: if_splits sum.splits)
  qed
qed

end
