(* ===== verification/K8s_Policy.thy ===== *)
theory K8s_Policy
  imports SF_Prelude
begin

text \<open>
  The admission policy of \<open>agent/src/k8s.rs\<close>: what a manifest may contain before the agent applies it to the
  cluster, and the apply loop over a multi-document manifest, the scale and the delete calls. JSON values are
  the datatype \<open>json\<close> of \<open>serde_json::Value\<close>; the YAML parser and the cluster are parameters.

  Shown: the sequence of early returns of \<open>validate_pod_spec\<close> is exactly the absence of a table of forbidden
  paths; nothing is sent to the cluster that did not pass the policy; and what the policy does not look at.
\<close>

section \<open>JSON values\<close>

datatype json_number = PosInt u64 | NegInt u64 | Float u64

datatype json =
    JNull
  | JBool bool
  | JNumber json_number
  | JString string
  | JArray "json list"
  | JObject "(string \<times> json) list"

fun json_get :: "string \<Rightarrow> json \<Rightarrow> json option" where
  "json_get k (JObject fields) = map_of fields k"
| "json_get k _ = None"

fun as_bool :: "json \<Rightarrow> bool option" where
  "as_bool (JBool b) = Some b" | "as_bool _ = None"

fun json_as_str :: "json \<Rightarrow> string option" where
  "json_as_str (JString s) = Some s" | "json_as_str _ = None"

fun as_array :: "json \<Rightarrow> json list option" where
  "as_array (JArray vs) = Some vs" | "as_array _ = None"

fun as_u64 :: "json \<Rightarrow> u64 option" where
  "as_u64 (JNumber (PosInt n)) = Some n" | "as_u64 _ = None"

text \<open>\<open>Value::pointer\<close> on the keys of a path; no key used here is an array index.\<close>

fun pointer :: "string list \<Rightarrow> json \<Rightarrow> json option" where
  "pointer [] v = Some v"
| "pointer (k # ks) v = Option.bind (json_get k v) (pointer ks)"

definition same_ignoring_case :: "string \<Rightarrow> string \<Rightarrow> bool" where
  "same_ignoring_case a b \<longleftrightarrow> to_ascii_lowercase a = to_ascii_lowercase b"

section \<open>The policy\<close>

datatype policy_error =
    May_Not_Enable string
  | Must_Disable_Automount
  | No_Host_Path
  | No_Projected_Token
  | No_Privileged string
  | No_Escalation string
  | No_Capabilities string
  | No_Unmasked_Proc string
  | No_Unconfined_Seccomp string
  | No_Host_Process string
  | No_Host_Ports string
  | Forced
  | Missing_Api_Version
  | Missing_Kind
  | Kind_Not_Allowed string string
  | Missing_Namespace
  | Namespace_Not_Allowed string
  | Missing_Pod_Spec string

definition ALLOWED_APPLY_RESOURCES :: "(string \<times> string) list" where
  "ALLOWED_APPLY_RESOURCES =
     [(''v1'', ''Pod''), (''v1'', ''Service''), (''v1'', ''ConfigMap''), (''v1'', ''Secret''),
      (''v1'', ''PersistentVolumeClaim''), (''apps/v1'', ''Deployment''), (''apps/v1'', ''StatefulSet''),
      (''apps/v1'', ''DaemonSet''), (''apps/v1'', ''ReplicaSet''), (''batch/v1'', ''Job''), (''batch/v1'', ''CronJob''),
      (''networking.k8s.io/v1'', ''Ingress''), (''autoscaling/v2'', ''HorizontalPodAutoscaler'')]"

text \<open>A \<open>for\<close> loop whose body may return an error.\<close>

fun each :: "('a \<Rightarrow> ('e, unit) result) \<Rightarrow> 'a list \<Rightarrow> ('e, unit) result" where
  "each f [] = Inr ()"
| "each f (x # xs) = try_bind (f x) (\<lambda>_. each f xs)"

definition check_host_field :: "json \<Rightarrow> string \<Rightarrow> (policy_error, unit) result" where
  "check_host_field spec field =
     ensure (Option.bind (json_get field spec) as_bool \<noteq> Some True) (May_Not_Enable field)"

definition check_volume :: "json \<Rightarrow> (policy_error, unit) result" where
  "check_volume volume =
     try_bind (ensure (json_get ''hostPath'' volume = None) No_Host_Path) (\<lambda>_.
       ensure (\<not> (case Option.bind (pointer [''projected'', ''sources''] volume) as_array of
                    Some sources \<Rightarrow> list_ex (\<lambda>source. json_get ''serviceAccountToken'' source \<noteq> None) sources
                  | None \<Rightarrow> False)) No_Projected_Token)"

definition check_container :: "string \<Rightarrow> json \<Rightarrow> (policy_error, unit) result" where
  "check_container field container =
     (let security = json_get ''securityContext'' container;
          at = (\<lambda>path. Option.bind security (pointer path))
      in
        try_bind (ensure (Option.bind (at [''privileged'']) as_bool \<noteq> Some True) (No_Privileged field)) (\<lambda>_.
        try_bind (ensure (Option.bind (at [''allowPrivilegeEscalation'']) as_bool \<noteq> Some True) (No_Escalation field)) (\<lambda>_.
        try_bind (ensure (case Option.bind (at [''capabilities'', ''add'']) as_array of Some cs \<Rightarrow> cs = [] | None \<Rightarrow> True)
          (No_Capabilities field)) (\<lambda>_.
        try_bind (ensure (case Option.bind (at [''procMount'']) json_as_str of
            Some md \<Rightarrow> \<not> same_ignoring_case md ''Unmasked'' | None \<Rightarrow> True) (No_Unmasked_Proc field)) (\<lambda>_.
        try_bind (ensure (case Option.bind (at [''seccompProfile'', ''type'']) json_as_str of
            Some md \<Rightarrow> \<not> same_ignoring_case md ''Unconfined'' | None \<Rightarrow> True) (No_Unconfined_Seccomp field)) (\<lambda>_.
        try_bind (ensure (Option.bind (at [''windowsOptions'', ''hostProcess'']) as_bool \<noteq> Some True)
          (No_Host_Process field)) (\<lambda>_.
        ensure (case Option.bind (json_get ''ports'' container) as_array of
            Some ports \<Rightarrow> \<not> list_ex (\<lambda>port. case Option.bind (json_get ''hostPort'' port) as_u64 of
                                    Some n \<Rightarrow> n > 0 | None \<Rightarrow> False) ports
          | None \<Rightarrow> True) (No_Host_Ports field))))))))"

definition check_containers :: "json \<Rightarrow> string \<Rightarrow> (policy_error, unit) result" where
  "check_containers spec field =
     (case Option.bind (json_get field spec) as_array of None \<Rightarrow> Inr () | Some cs \<Rightarrow> each (check_container field) cs)"

definition validate_pod_spec :: "json \<Rightarrow> (policy_error, unit) result" where
  "validate_pod_spec spec =
     try_bind (each (check_host_field spec) [''hostNetwork'', ''hostPID'', ''hostIPC'']) (\<lambda>_.
     try_bind (ensure (Option.bind (json_get ''automountServiceAccountToken'' spec) as_bool = Some False)
       Must_Disable_Automount) (\<lambda>_.
     try_bind (case Option.bind (json_get ''volumes'' spec) as_array of None \<Rightarrow> Inr () | Some vs \<Rightarrow> each check_volume vs) (\<lambda>_.
     each (check_containers spec) [''containers'', ''initContainers'', ''ephemeralContainers''])))"

definition pod_spec_pointer :: "string \<Rightarrow> string list option" where
  "pod_spec_pointer kind =
     (if kind = ''Pod'' then Some [''spec'']
      else if kind \<in> {''Deployment'', ''StatefulSet'', ''DaemonSet'', ''ReplicaSet'', ''Job''}
      then Some [''spec'', ''template'', ''spec'']
      else if kind = ''CronJob'' then Some [''spec'', ''jobTemplate'', ''spec'', ''template'', ''spec'']
      else None)"

definition validate_apply_document :: "json \<Rightarrow> string list \<Rightarrow> bool \<Rightarrow> (policy_error, unit) result" where
  "validate_apply_document document allowed_namespaces force =
     try_bind (ensure (\<not> force) Forced) (\<lambda>_.
     try_bind (ok_or (Option.bind (json_get ''apiVersion'' document) json_as_str) Missing_Api_Version) (\<lambda>api_version.
     try_bind (ok_or (Option.bind (json_get ''kind'' document) json_as_str) Missing_Kind) (\<lambda>kind.
     try_bind (ensure ((api_version, kind) \<in> set ALLOWED_APPLY_RESOURCES) (Kind_Not_Allowed api_version kind)) (\<lambda>_.
     try_bind (ok_or (case Option.bind (pointer [''metadata'', ''namespace''] document) json_as_str of
         Some ns \<Rightarrow> if ns = [] then None else Some ns | None \<Rightarrow> None) Missing_Namespace) (\<lambda>namespace.
     try_bind (ensure (namespace \<in> set allowed_namespaces) (Namespace_Not_Allowed namespace)) (\<lambda>_.
     case pod_spec_pointer kind of
       None \<Rightarrow> Inr ()
     | Some path \<Rightarrow> try_bind (ok_or (pointer path document) (Missing_Pod_Spec kind)) validate_pod_spec))))))"

section \<open>Applying, scaling, deleting\<close>

definition APPLY_NAMESPACES_ENV :: string where "APPLY_NAMESPACES_ENV = ''SHELLFLEET_K8S_APPLY_NAMESPACES''"

datatype apply_error =
    Not_Configured
  | No_Namespaces
  | Wildcard_Namespace
  | No_Client
  | Doc_Parse nat
  | Doc_Normalize nat
  | Doc_Policy nat policy_error
  | Doc_Types nat
  | Doc_Gvk nat
  | Doc_Discovery nat
  | Doc_Namespace nat
  | Doc_Patch nat

definition configured_apply_namespaces :: "(string \<rightharpoonup> string) \<Rightarrow> (apply_error, string list) result" where
  "configured_apply_namespaces env =
     try_bind (ok_or (env APPLY_NAMESPACES_ENV) Not_Configured) (\<lambda>raw.
       (let namespaces = filter (\<lambda>n. n \<noteq> []) (map trim (split_on CHR '','' raw))
        in try_bind (ensure (namespaces \<noteq> []) No_Namespaces) (\<lambda>_.
           try_bind (ensure (''*'' \<notin> set namespaces) Wildcard_Namespace) (\<lambda>_. Inr namespaces))))"

text \<open>
  The YAML parser, the normalisation of a parsed object to JSON, and the cluster: discovery says whether a kind
  is namespaced, and a patch is answered with the name of the applied object or refused.
\<close>

record ('o, 'g) kube =
  ku_client :: bool
  ku_parse :: "string \<Rightarrow> 'o option"
  ku_to_json :: "'o \<Rightarrow> json option"
  ku_types :: "'o \<Rightarrow> 'g option"
  ku_gvk :: "'g \<Rightarrow> (string \<times> string \<times> string) option"
  ku_pinned :: "string \<times> string \<times> string \<Rightarrow> bool option"
  ku_namespace :: "'o \<Rightarrow> string option"
  ku_patch :: "bool \<Rightarrow> string option \<Rightarrow> 'o \<Rightarrow> string option"

text \<open>\<open>str::split\<close> with a non-empty string pattern; \<open>acc\<close> is the piece being read, reversed.\<close>

fun split_str :: "string \<Rightarrow> string \<Rightarrow> string \<Rightarrow> string list" where
  "split_str pat acc [] = [rev acc]"
| "split_str pat acc (c # cs) =
     (if pat \<noteq> [] \<and> starts_with (c # cs) pat then rev acc # split_str pat [] (drop (length pat - 1) cs)
      else split_str pat (c # acc) cs)"

definition DOC_SEPARATOR :: string where
  "DOC_SEPARATOR = [char_of (10 :: nat)] @ ''---'' @ [char_of (10 :: nat)]"

text \<open>One document: what is sent to the cluster, and the line reported.\<close>

definition apply_doc ::
    "('o, 'g) kube \<Rightarrow> string list \<Rightarrow> bool \<Rightarrow> bool \<Rightarrow> nat \<Rightarrow> string
      \<Rightarrow> (bool \<times> string option \<times> 'o) list \<times> (apply_error, string) result" where
  "apply_doc K namespaces dry_run force i raw =
     (case
        (try_bind (ok_or (ku_parse K raw) (Doc_Parse i)) (\<lambda>obj.
         try_bind (ok_or (ku_to_json K obj) (Doc_Normalize i)) (\<lambda>document.
         try_bind (map_sum (Doc_Policy i) id (validate_apply_document document namespaces force)) (\<lambda>_.
         try_bind (ok_or (ku_types K obj) (Doc_Types i)) (\<lambda>types.
         try_bind (ok_or (ku_gvk K types) (Doc_Gvk i)) (\<lambda>gvk.
         try_bind (ok_or (ku_pinned K gvk) (Doc_Discovery i)) (\<lambda>namespaced.
         try_bind (if namespaced then try_bind (ok_or (ku_namespace K obj) (Doc_Namespace i)) (\<lambda>ns. Inr (Some ns)) else Inr None) (\<lambda>target.
           Inr (obj, snd (snd gvk), target))))))))) of
        Inl e \<Rightarrow> ([], Inl e)
      | Inr (obj, kind, target) \<Rightarrow>
          ([(dry_run, target, obj)],
           case ku_patch K dry_run target obj of None \<Rightarrow> Inl (Doc_Patch i)
           | Some name \<Rightarrow>
               Inr ((if dry_run then ''(dry-run)'' else ''applied'') @ '' '' @ kind @ ''/'' @
                    (case ku_namespace K obj of Some ns \<Rightarrow> ns | None \<Rightarrow> ''-'') @ '' '' @ name @ [char_of (10 :: nat)])))"

fun apply_docs ::
    "('o, 'g) kube \<Rightarrow> string list \<Rightarrow> bool \<Rightarrow> bool \<Rightarrow> nat \<Rightarrow> string list
      \<Rightarrow> (bool \<times> string option \<times> 'o) list \<times> (apply_error, string) result" where
  "apply_docs K namespaces dry_run force i [] = ([], Inr [])"
| "apply_docs K namespaces dry_run force i (raw # docs) =
     (if trim raw = [] then apply_docs K namespaces dry_run force (i + 1) docs
      else case apply_doc K namespaces dry_run force i (trim raw) of
             (sent, Inl e) \<Rightarrow> (sent, Inl e)
           | (sent, Inr line) \<Rightarrow>
               (case apply_docs K namespaces dry_run force (i + 1) docs of
                  (sent', Inl e) \<Rightarrow> (sent @ sent', Inl e)
                | (sent', Inr out) \<Rightarrow> (sent @ sent', Inr (line @ out))))"

definition k8s_apply ::
    "('o, 'g) kube \<Rightarrow> (string \<rightharpoonup> string) \<Rightarrow> string \<Rightarrow> bool \<Rightarrow> bool
      \<Rightarrow> (bool \<times> string option \<times> 'o) list \<times> (apply_error, string) result" where
  "k8s_apply K env yaml dry_run force =
     (case configured_apply_namespaces env of Inl e \<Rightarrow> ([], Inl e)
      | Inr namespaces \<Rightarrow>
          if \<not> ku_client K then ([], Inl No_Client)
          else apply_docs K namespaces dry_run force 0 (split_str DOC_SEPARATOR [] yaml))"

datatype scale_target = Scale_Deployment | Scale_StatefulSet | Scale_ReplicaSet

definition scale_kind :: "string \<Rightarrow> scale_target option" where
  "scale_kind kind =
     (let k = to_ascii_lowercase kind
      in if k \<in> {''deployment'', ''deploy'', ''deployments''} then Some Scale_Deployment
         else if k \<in> {''statefulset'', ''sts'', ''statefulsets''} then Some Scale_StatefulSet
         else if k \<in> {''replicaset'', ''rs'', ''replicasets''} then Some Scale_ReplicaSet
         else None)"

text \<open>\<open>g.max(0) as u32\<close>.\<close>

definition grace_period :: "int \<Rightarrow> u32" where
  "grace_period g = word_of_int (max g 0)"

section \<open>The policy as a table of forbidden paths\<close>

datatype sel = Key string | Each

text \<open>Whether some value at the path has the property.\<close>

fun anywhere :: "(json \<Rightarrow> bool) \<Rightarrow> sel list \<Rightarrow> json \<Rightarrow> bool" where
  "anywhere bad [] v = bad v"
| "anywhere bad (Key k # ss) v = (case json_get k v of None \<Rightarrow> False | Some w \<Rightarrow> anywhere bad ss w)"
| "anywhere bad (Each # ss) v = (case as_array v of None \<Rightarrow> False | Some vs \<Rightarrow> list_ex (anywhere bad ss) vs)"

definition is_true :: "json \<Rightarrow> bool" where "is_true v \<longleftrightarrow> v = JBool True"
definition is_mode :: "string \<Rightarrow> json \<Rightarrow> bool" where
  "is_mode md v \<longleftrightarrow> (case v of JString s \<Rightarrow> same_ignoring_case s md | _ \<Rightarrow> False)"
definition is_positive :: "json \<Rightarrow> bool" where
  "is_positive v \<longleftrightarrow> (case v of JNumber (PosInt n) \<Rightarrow> n > 0 | _ \<Rightarrow> False)"

definition container_table :: "(sel list \<times> (json \<Rightarrow> bool)) list" where
  "container_table =
     [([Key ''securityContext'', Key ''privileged''], is_true),
      ([Key ''securityContext'', Key ''allowPrivilegeEscalation''], is_true),
      ([Key ''securityContext'', Key ''capabilities'', Key ''add'', Each], \<lambda>_. True),
      ([Key ''securityContext'', Key ''procMount''], is_mode ''Unmasked''),
      ([Key ''securityContext'', Key ''seccompProfile'', Key ''type''], is_mode ''Unconfined''),
      ([Key ''securityContext'', Key ''windowsOptions'', Key ''hostProcess''], is_true),
      ([Key ''ports'', Each, Key ''hostPort''], is_positive)]"

definition pod_table :: "(sel list \<times> (json \<Rightarrow> bool)) list" where
  "pod_table =
     [([Key ''hostNetwork''], is_true), ([Key ''hostPID''], is_true), ([Key ''hostIPC''], is_true),
      ([Key ''volumes'', Each, Key ''hostPath''], \<lambda>_. True),
      ([Key ''volumes'', Each, Key ''projected'', Key ''sources'', Each, Key ''serviceAccountToken''], \<lambda>_. True)] @
     concat (map (\<lambda>field. map (\<lambda>(path, bad). (Key field # Each # path, bad)) container_table)
       [''containers'', ''initContainers'', ''ephemeralContainers''])"

definition hits :: "(sel list \<times> (json \<Rightarrow> bool)) list \<Rightarrow> json \<Rightarrow> bool" where
  "hits table v \<longleftrightarrow> list_ex (\<lambda>(path, bad). anywhere bad path v) table"

lemma then_Inr: "try_bind r (\<lambda>_ :: unit. f) = Inr y \<longleftrightarrow> r = Inr () \<and> f = Inr y"
  by (cases r) simp_all

lemma each_Inr: "each f xs = Inr () \<longleftrightarrow> (\<forall>x\<in>set xs. f x = Inr ())"
  by (induction xs) (auto simp: result_simps)

lemma as_Some [simp]:
  "as_bool v = Some b \<longleftrightarrow> v = JBool b" "json_as_str v = Some s \<longleftrightarrow> v = JString s" "as_array v = Some vs \<longleftrightarrow> v = JArray vs"
  "as_u64 v = Some n \<longleftrightarrow> v = JNumber (PosInt n)"
  by (cases v rule: as_bool.cases, simp_all, cases v rule: json_as_str.cases, simp_all, cases v rule: as_array.cases, simp_all,
      cases v rule: as_u64.cases, simp_all)

lemma hits_simps [simp]:
  "\<not> hits [] v" "hits ((path, bad) # table) v \<longleftrightarrow> anywhere bad path v \<or> hits table v"
  "hits (t1 @ t2) v \<longleftrightarrow> hits t1 v \<or> hits t2 v"
  by (simp_all add: hits_def)

text \<open>One row, for each of the shapes the checks have.\<close>

lemma row_keys: "anywhere bad (map Key ks @ ss) v \<longleftrightarrow> (case pointer ks v of None \<Rightarrow> False | Some w \<Rightarrow> anywhere bad ss w)"
  by (induction ks arbitrary: v) (auto split: option.splits bind_splits)

lemma row_bool: "(case x of None \<Rightarrow> False | Some w \<Rightarrow> is_true w) \<longleftrightarrow> Option.bind x as_bool = Some True"
  by (cases x) (auto simp: is_true_def)

lemma row_mode:
  "(case x of None \<Rightarrow> False | Some w \<Rightarrow> is_mode md w) \<longleftrightarrow>
     \<not> (case Option.bind x json_as_str of Some s \<Rightarrow> \<not> same_ignoring_case s md | None \<Rightarrow> True)"
  by (cases x) (auto simp: is_mode_def split: json.splits option.splits)

lemma row_nonempty:
  "(case x of None \<Rightarrow> False | Some w \<Rightarrow> anywhere (\<lambda>_. True) [Each] w) \<longleftrightarrow>
     \<not> (case Option.bind x as_array of Some cs \<Rightarrow> cs = [] | None \<Rightarrow> True)"
  by (cases x) (auto simp: list_ex_iff ex_in_conv split: option.splits)

lemma row_port:
  "anywhere is_positive [Key ''hostPort''] =
     (\<lambda>port. case Option.bind (json_get ''hostPort'' port) as_u64 of Some n \<Rightarrow> n > 0 | None \<Rightarrow> False)"
proof
  show "anywhere is_positive [Key ''hostPort''] port =
      (case Option.bind (json_get ''hostPort'' port) as_u64 of Some n \<Rightarrow> n > 0 | None \<Rightarrow> False)" for port
    by (cases "json_get ''hostPort'' port") (auto simp: is_positive_def split: option.splits json.splits json_number.splits)
qed

lemma row_each:
  "anywhere bad (Key k # Each # ss) v \<longleftrightarrow>
     (case Option.bind (json_get k v) as_array of None \<Rightarrow> False | Some us \<Rightarrow> list_ex (anywhere bad ss) us)"
  by (cases "json_get k v") auto

lemma check_container_iff: "check_container field c = Inr () \<longleftrightarrow> \<not> hits container_table c"
proof -
  have sc: "anywhere bad (Key ''securityContext'' # map Key ks @ ss) c \<longleftrightarrow>
      (case Option.bind (json_get ''securityContext'' c) (pointer ks) of None \<Rightarrow> False | Some w \<Rightarrow> anywhere bad ss w)" for bad ks ss
    by (cases "json_get ''securityContext'' c") (simp_all add: row_keys)
  note rows = sc [of _ "[''privileged'']" "[]"] sc [of _ "[''allowPrivilegeEscalation'']" "[]"]
    sc [of _ "[''capabilities'', ''add'']" "[Each]"] sc [of _ "[''procMount'']" "[]"]
    sc [of _ "[''seccompProfile'', ''type'']" "[]"] sc [of _ "[''windowsOptions'', ''hostProcess'']" "[]"]
  have ports: "\<not> anywhere is_positive [Key ''ports'', Each, Key ''hostPort''] c \<longleftrightarrow>
      (case Option.bind (json_get ''ports'' c) as_array of
         Some ports \<Rightarrow> \<not> list_ex (\<lambda>port. case Option.bind (json_get ''hostPort'' port) as_u64 of
                                 Some n \<Rightarrow> n > 0 | None \<Rightarrow> False) ports
       | None \<Rightarrow> True)"
    unfolding row_each row_port by (cases "Option.bind (json_get ''ports'' c) as_array") simp_all
  show ?thesis
    unfolding check_container_def container_table_def Let_def
    by (simp only: result_simps hits_simps de_Morgan_disj ports rows [unfolded list.map append.simps] row_bool row_mode row_nonempty
        anywhere.simps(1)) blast
qed

lemma check_volume_iff:
  "check_volume v = Inr () \<longleftrightarrow>
     \<not> hits [([Key ''hostPath''], \<lambda>_. True), ([Key ''projected'', Key ''sources'', Each, Key ''serviceAccountToken''], \<lambda>_. True)] v"
proof -
  have token: "anywhere (\<lambda>_. True) [Key ''serviceAccountToken''] = (\<lambda>source. json_get ''serviceAccountToken'' source \<noteq> None)"
    by (auto split: option.splits)
  have "anywhere (\<lambda>_. True) [Key ''projected'', Key ''sources'', Each, Key ''serviceAccountToken''] v \<longleftrightarrow>
      (case pointer [''projected'', ''sources''] v of None \<Rightarrow> False
       | Some w \<Rightarrow> anywhere (\<lambda>_. True) [Each, Key ''serviceAccountToken''] w)"
    using row_keys [of _ "[''projected'', ''sources'']" "[Each, Key ''serviceAccountToken'']" v] by simp
  also have "\<dots> \<longleftrightarrow> (case Option.bind (pointer [''projected'', ''sources''] v) as_array of
         Some sources \<Rightarrow> list_ex (\<lambda>source. json_get ''serviceAccountToken'' source \<noteq> None) sources | None \<Rightarrow> False)"
    unfolding anywhere.simps(3) token by (cases "pointer [''projected'', ''sources''] v") (auto split: option.splits)
  finally show ?thesis
    by (simp only: check_volume_def result_simps hits_simps) (auto split: option.splits)
qed

lemma hits_under:
  "hits (map (\<lambda>(path, bad). (Key k # Each # path, bad)) table) v \<longleftrightarrow>
     (case Option.bind (json_get k v) as_array of None \<Rightarrow> False | Some us \<Rightarrow> list_ex (hits table) us)"
proof (induction table)
  case (Cons row table)
  obtain path bad where "row = (path, bad)" by fastforce
  with Cons show ?case by (simp only: list.map prod.case hits_simps row_each) (auto simp: list_ex_iff split: option.splits)
qed (auto simp: list_ex_iff split: option.splits)

lemma loop_under:
  assumes "\<And>u. f u = Inr () \<longleftrightarrow> \<not> hits table u"
  shows "(case Option.bind (json_get k v) as_array of None \<Rightarrow> Inr () | Some us \<Rightarrow> each f us) = Inr () \<longleftrightarrow>
    \<not> hits (map (\<lambda>(path, bad). (Key k # Each # path, bad)) table) v"
  by (auto simp: hits_under each_Inr assms list_ex_iff split: option.splits)

text \<open>
  C31: the pod policy is a table. The sequence of loops and early returns of \<open>validate_pod_spec\<close> accepts a pod
  specification exactly when it sets \<open>automountServiceAccountToken\<close> to false and no value at any path of the table of
  forbidden settings is a forbidden one: host namespaces, host paths, projected tokens, and, in every kind of
  container, privilege, escalation, added capabilities, an unmasked \<open>/proc\<close>, disabled seccomp, Windows host
  processes and host ports.
\<close>
theorem pod_policy_is_the_table:
  "validate_pod_spec spec = Inr () \<longleftrightarrow>
     json_get ''automountServiceAccountToken'' spec = Some (JBool False) \<and> \<not> hits pod_table spec"
proof -
  have host: "check_host_field spec f = Inr () \<longleftrightarrow> \<not> anywhere is_true [Key f] spec" for f
    by (cases "json_get f spec") (auto simp: check_host_field_def result_simps is_true_def)
  have containers: "check_containers spec f = Inr () \<longleftrightarrow>
      \<not> hits (map (\<lambda>(path, bad). (Key f # Each # path, bad)) container_table) spec" for f
    unfolding check_containers_def by (rule loop_under) (rule check_container_iff)
  have volumes: "(case Option.bind (json_get ''volumes'' spec) as_array of None \<Rightarrow> Inr () | Some vs \<Rightarrow> each check_volume vs) = Inr () \<longleftrightarrow>
      \<not> hits [([Key ''volumes'', Each, Key ''hostPath''], \<lambda>_. True),
        ([Key ''volumes'', Each, Key ''projected'', Key ''sources'', Each, Key ''serviceAccountToken''], \<lambda>_. True)] spec"
    using loop_under [of check_volume, OF check_volume_iff, of "''volumes''" spec] by simp
  have mount: "Option.bind (json_get ''automountServiceAccountToken'' spec) as_bool = Some False \<longleftrightarrow>
      json_get ''automountServiceAccountToken'' spec = Some (JBool False)"
    by (auto split: bind_splits)
  have "validate_pod_spec spec = Inr () \<longleftrightarrow>
      (\<forall>f\<in>{''hostNetwork'', ''hostPID'', ''hostIPC''}. \<not> anywhere is_true [Key f] spec) \<and>
      json_get ''automountServiceAccountToken'' spec = Some (JBool False) \<and>
      \<not> hits [([Key ''volumes'', Each, Key ''hostPath''], \<lambda>_. True),
        ([Key ''volumes'', Each, Key ''projected'', Key ''sources'', Each, Key ''serviceAccountToken''], \<lambda>_. True)] spec \<and>
      (\<forall>f\<in>{''containers'', ''initContainers'', ''ephemeralContainers''}.
        \<not> hits (map (\<lambda>(path, bad). (Key f # Each # path, bad)) container_table) spec)"
    by (simp only: validate_pod_spec_def then_Inr each_Inr ensure_iff list.set host containers volumes mount)
  then show ?thesis unfolding pod_table_def
    by (simp only: hits_simps list.map concat.simps ball_simps append_Nil2) blast
qed

text \<open>
  The pod's own security context is not looked at. Whatever a pod specification that sets none puts under
  \<open>securityContext\<close> at the pod level (an unconfined seccomp profile for all its containers, for example), the
  policy's verdict stays the same.
\<close>
theorem pod_security_context_is_unchecked:
  "validate_pod_spec (JObject ((''securityContext'', v) # fs)) = validate_pod_spec (JObject fs)"
proof -
  have get: "json_get k (JObject ((''securityContext'', v) # fs)) = json_get k (JObject fs)"
    if "k \<noteq> ''securityContext''" for k
    using that by simp
  have "check_host_field (JObject ((''securityContext'', v) # fs)) f = check_host_field (JObject fs) f"
    "check_containers (JObject ((''securityContext'', v) # fs)) f = check_containers (JObject fs) f"
    if "f \<noteq> ''securityContext''" for f
    using get [OF that] by (simp_all only: check_host_field_def check_containers_def)
  then show ?thesis by (simp add: validate_pod_spec_def)
qed

lemma map_err_Inr: "map_sum f id r = Inr x \<longleftrightarrow> r = Inr x"
  by (cases r) auto

lemma apply_doc_sent:
  assumes "apply_doc K namespaces dry force i raw = (sent, r)" and "(d, target, obj) \<in> set sent"
  shows "d = dry \<and> (\<exists>document. ku_to_json K obj = Some document \<and> validate_apply_document document namespaces force = Inr ()) \<and>
    (target = None \<or> target = ku_namespace K obj)"
  using assms
  by (auto simp: apply_doc_def result_simps map_err_Inr split: sum.splits option.splits if_splits)

definition passed :: "('o, 'g) kube \<Rightarrow> string list \<Rightarrow> bool \<Rightarrow> bool \<Rightarrow> bool \<times> string option \<times> 'o \<Rightarrow> bool" where
  "passed K namespaces dry force = (\<lambda>(d, target, obj).
     d = dry \<and> (\<exists>document. ku_to_json K obj = Some document \<and> validate_apply_document document namespaces force = Inr ()) \<and>
     (target = None \<or> target = ku_namespace K obj))"

lemma apply_docs_sent: "p \<in> set (fst (apply_docs K namespaces dry force i docs)) \<Longrightarrow> passed K namespaces dry force p"
proof (induction docs arbitrary: i)
  case (Cons raw docs)
  obtain sent r where one: "apply_doc K namespaces dry force i (trim raw) = (sent, r)" by fastforce
  have "passed K namespaces dry force p" if "p \<in> set sent"
    using apply_doc_sent [OF one] that by (cases p) (simp add: passed_def)
  moreover have "passed K namespaces dry force p" if "p \<in> set (fst (apply_docs K namespaces dry force (i + 1) docs))"
    using Cons.IH that by blast
  moreover have "fst (apply_docs K namespaces dry force i (raw # docs)) \<in>
      {fst (apply_docs K namespaces dry force (i + 1) docs), sent, sent @ fst (apply_docs K namespaces dry force (i + 1) docs)}"
    by (cases r; cases "apply_docs K namespaces dry force (i + 1) docs") (auto simp: one split: sum.splits)
  ultimately show ?case using Cons.prems by auto
qed simp

lemma validated_namespace:
  assumes "validate_apply_document document namespaces force = Inr ()"
  shows "\<exists>ns. Option.bind (pointer [''metadata'', ''namespace''] document) json_as_str = Some ns \<and> ns \<in> set namespaces"
  using assms by (auto simp: validate_apply_document_def result_simps split: option.splits if_splits)

text \<open>
  C32: nothing unchecked reaches the cluster. Every patch that an apply sends, also when a later document fails,
  carries the caller's dry-run flag and an object whose manifest passed the policy without \<open>force\<close>; the
  namespace list was configured, is not empty and has no wildcard; and a namespaced patch goes to a namespace of that
  list (when the parsed object and its normalised form agree on \<open>metadata.namespace\<close>).
\<close>
theorem applied_documents_passed_policy:
  assumes sent: "(d, target, obj) \<in> set (fst (k8s_apply K env yaml dry force))"
    and norm: "\<And>document. ku_to_json K obj = Some document \<Longrightarrow>
      Option.bind (pointer [''metadata'', ''namespace''] document) json_as_str = ku_namespace K obj"
  shows "\<exists>namespaces document. configured_apply_namespaces env = Inr namespaces \<and> namespaces \<noteq> [] \<and> ''*'' \<notin> set namespaces \<and>
    ku_to_json K obj = Some document \<and> validate_apply_document document namespaces False = Inr () \<and>
    d = dry \<and> \<not> force \<and> (\<forall>ns. target = Some ns \<longrightarrow> ns \<in> set namespaces)"
proof -
  obtain namespaces where ns: "configured_apply_namespaces env = Inr namespaces"
    and "(d, target, obj) \<in> set (fst (apply_docs K namespaces dry force 0 (split_str DOC_SEPARATOR [] yaml)))"
    using sent by (auto simp: k8s_apply_def split: sum.splits if_splits)
  from apply_docs_sent [OF this(2)] obtain document where
    doc: "d = dry" "ku_to_json K obj = Some document" "validate_apply_document document namespaces force = Inr ()"
      "target = None \<or> target = ku_namespace K obj" by (auto simp: passed_def)
  have "\<not> force" using doc(3) by (simp add: validate_apply_document_def result_simps)
  moreover have "namespaces \<noteq> []" "''*'' \<notin> set namespaces"
    using ns by (auto simp: configured_apply_namespaces_def Let_def result_simps)
  ultimately show ?thesis using ns doc norm [OF doc(2)] validated_namespace [OF doc(3)] by auto
qed

definition demo_documents :: json where
  "demo_documents = JObject [(''apiVersion'', JString ''v1''), (''kind'', JString ''ConfigMap''),
     (''metadata'', JObject [(''namespace'', JString ''ops'')])]"

definition demo_kube :: "(json, unit) kube" where
  "demo_kube = \<lparr>ku_client = True, ku_parse = (\<lambda>s. if s = ''cm'' then Some demo_documents else None), ku_to_json = Some,
     ku_types = (\<lambda>_. Some ()), ku_gvk = (\<lambda>_. Some ([], ''v1'', ''ConfigMap'')), ku_pinned = (\<lambda>_. Some True),
     ku_namespace = (\<lambda>v. Option.bind (pointer [''metadata'', ''namespace''] v) json_as_str), ku_patch = (\<lambda>_ _ _. Some ''c'')\<rparr>"

theorem applied_documents_passed_policy_witness:
  "fst (k8s_apply demo_kube [APPLY_NAMESPACES_ENV \<mapsto> ''dev,ops''] ''cm'' True False) = [(True, Some ''ops'', demo_documents)] \<and>
   (\<exists>namespaces. configured_apply_namespaces [APPLY_NAMESPACES_ENV \<mapsto> ''dev,ops''] = Inr namespaces \<and> ''ops'' \<in> set namespaces)"
proof -
  let ?env = "[APPLY_NAMESPACES_ENV \<mapsto> ''dev,ops'']"
  have cfg: "configured_apply_namespaces ?env = Inr [''dev'', ''ops'']"
    by (simp add: configured_apply_namespaces_def) code_simp
  have sep: "split_str DOC_SEPARATOR [] ''cm'' = [''cm'']" "trim ''cm'' = ''cm''" by code_simp+
  have val: "validate_apply_document demo_documents [''dev'', ''ops''] False = Inr ()"
    by code_simp
  have out: "fst (k8s_apply demo_kube ?env ''cm'' True False) = [(True, Some ''ops'', demo_documents)]"
    by (simp add: k8s_apply_def cfg sep apply_doc_def demo_kube_def val del: split_str.simps) (simp add: demo_documents_def)
  then have "(True, Some ''ops'', demo_documents) \<in> set (fst (k8s_apply demo_kube ?env ''cm'' True False))" by simp
  from applied_documents_passed_policy [OF this] out show ?thesis by (auto simp: demo_kube_def)
qed

end
