(* ===== verification/Agent_Commands.thy ===== *)
theory Agent_Commands
  imports Utf8_Text Wire_Protocol
begin

text \<open>
  The commands the agent runs for an operator: \<open>docker.rs\<close>, \<open>deploy.rs\<close>, \<open>terminal.rs\<close>, \<open>systemd.rs\<close>,
  \<open>journal.rs\<close>, \<open>journal_stream.rs\<close>, \<open>logs.rs\<close>, \<open>apt.rs\<close> and \<open>exec.rs\<close>. No command goes through a shell except the
  allow-listed ones of \<open>exec.rs\<close>; each is an argument vector. Its elements are tagged by where they come from:
  a literal of the program, a value of the operator in a position where the tool reads options, or a value of
  the operator that the preceding option consumes. Running a command is a parameter.

  Shown: where values are checked, none is read as an option; where they are not (the image of a container or
  service), one can be; the command splitter inverts quoting.
\<close>

section \<open>Argument vectors\<close>

datatype arg = Lit string | Pos string | Opt_Val string

fun arg_str :: "arg \<Rightarrow> string" where
  "arg_str (Lit s) = s" | "arg_str (Pos s) = s" | "arg_str (Opt_Val s) = s"

definition argv :: "arg list \<Rightarrow> string list" where
  "argv as = map arg_str as"

definition lits :: "string list \<Rightarrow> arg list" where
  "lits ss = map Lit ss"

text \<open>Before a literal \<open>--\<close>, no operator value in an option position looks like an option (or is empty).\<close>

fun no_option :: "arg list \<Rightarrow> bool" where
  "no_option [] = True"
| "no_option (Lit s # as) = (s = ''--'' \<or> no_option as)"
| "no_option (Pos s # as) = (s \<noteq> [] \<and> \<not> starts_with s ''-'' \<and> no_option as)"
| "no_option (Opt_Val s # as) = no_option as"

section \<open>Checks on values\<close>

definition chars_in :: "string \<Rightarrow> string \<Rightarrow> bool" where
  "chars_in extra s \<longleftrightarrow> list_all (\<lambda>c. is_ascii_alphanumeric c \<or> c \<in> set extra) s"

definition is_ascii_hexdigit :: "char \<Rightarrow> bool" where
  "is_ascii_hexdigit c \<longleftrightarrow>
     (let n = (of_char c :: nat) in (48 \<le> n \<and> n \<le> 57) \<or> (65 \<le> n \<and> n \<le> 70) \<or> (97 \<le> n \<and> n \<le> 102))"

definition first_is :: "(char \<Rightarrow> bool) \<Rightarrow> string \<Rightarrow> bool" where
  "first_is P s \<longleftrightarrow> (case s of [] \<Rightarrow> False | c # _ \<Rightarrow> P c)"

definition validate_object_ref :: "string \<Rightarrow> (string, unit) result" where
  "validate_object_ref v =
     (if v = [] \<or> length v > 255 then Inl ''docker object reference must be 1..=255 characters''
      else if \<not> first_is is_ascii_alphanumeric v \<or> \<not> chars_in ''._-:'' v then Inl ''invalid docker object reference''
      else Inr ())"

definition validate_image_ref :: "string \<Rightarrow> (string, unit) result" where
  "validate_image_ref v =
     (if v = [] \<or> length v > 512 then Inl ''docker image reference must be 1..=512 characters''
      else if \<not> first_is is_ascii_alphanumeric v \<or> \<not> chars_in ''._-:/@+'' v then Inl ''invalid docker image reference''
      else Inr ())"

definition validate_network_driver :: "string \<Rightarrow> (string, unit) result" where
  "validate_network_driver v = map_sum (\<lambda>_. ''invalid docker network driver'') id (validate_object_ref v)"

definition validate_subnet :: "string \<Rightarrow> (string, unit) result" where
  "validate_subnet v =
     (if v = [] \<or> length v > 128 \<or> \<not> first_is is_ascii_hexdigit v \<or>
         \<not> list_all (\<lambda>c. is_ascii_hexdigit c \<or> c \<in> set ''.:/'') v
      then Inl ''invalid docker network subnet'' else Inr ())"

definition BACKSLASH :: char where "BACKSLASH = CHR 0x5C"

definition is_safe_token :: "string \<Rightarrow> bool" where
  "is_safe_token s \<longleftrightarrow> \<not> (s = [] \<or> starts_with s ''-'' \<or> length s > 256) \<and> chars_in (''._-@:'' @ [BACKSLASH]) s"

definition valid_unit_name :: "string \<Rightarrow> bool" where
  "valid_unit_name s \<longleftrightarrow> \<not> (s = [] \<or> starts_with s ''-'' \<or> length s > 256) \<and> chars_in (''._-@:'' @ [BACKSLASH]) s"

definition is_safe_unit_name :: "string \<Rightarrow> bool" where
  "is_safe_unit_name s \<longleftrightarrow> \<not> (s = [] \<or> starts_with s ''-'' \<or> length s > 256) \<and> chars_in (''._-@:'' @ [BACKSLASH]) s"

definition is_safe_since :: "string \<Rightarrow> bool" where
  "is_safe_since s \<longleftrightarrow> \<not> (s = [] \<or> starts_with s ''-'' \<or> length s > 64) \<and> chars_in '' :+,.-'' s"

definition valid_container_id :: "string \<Rightarrow> bool" where
  "valid_container_id s \<longleftrightarrow> s \<noteq> [] \<and> \<not> starts_with s ''-'' \<and> length s \<le> 256 \<and> chars_in ''_.-'' s"

definition validate_package_arg :: "string \<Rightarrow> (string, unit) result" where
  "validate_package_arg p =
     (if p = [] then Inl ''empty package name''
      else if starts_with p ''-'' \<or> ends_with p ''-'' then Inl (''package name must not start or end with '' @ [CHR 0x27, CHR ''-'', CHR 0x27])
      else if chars_in ''.+-:~'' p then Inr () else Inl ''package name contains unsupported characters'')"

section \<open>Docker\<close>

definition guarded :: "(string, unit) result \<Rightarrow> arg list \<Rightarrow> (string, arg list) result" where
  "guarded r as = try_bind r (\<lambda>_. Inr as)"

definition run_container_action_argv :: "string \<Rightarrow> DockerContainerAction \<Rightarrow> (string, arg list) result" where
  "run_container_action_argv i action =
     guarded (validate_object_ref i)
       (case action of Container_Start \<Rightarrow> lits [''start''] @ [Pos i] | Container_Stop \<Rightarrow> lits [''stop''] @ [Pos i]
        | Container_Restart \<Rightarrow> lits [''restart''] @ [Pos i] | Container_Remove \<Rightarrow> lits [''rm'', ''-f''] @ [Pos i])"

definition run_swarm_action_argv :: "string \<Rightarrow> SwarmAction \<Rightarrow> (string, arg list) result" where
  "run_swarm_action_argv name action =
     guarded (validate_object_ref name)
       (case action of
          Swarm_Scale n \<Rightarrow> lits [''service'', ''scale''] @ [Pos (name @ ''='' @ nat_to_dec (unat n))]
        | Swarm_ForceUpdate \<Rightarrow> lits [''service'', ''update'', ''--force''] @ [Pos name]
        | Swarm_Remove \<Rightarrow> lits [''service'', ''rm''] @ [Pos name])"

definition service_ps_argv :: "string \<Rightarrow> (string, arg list) result" where
  "service_ps_argv name = guarded (validate_object_ref name)
     (lits [''service'', ''ps''] @ [Pos name] @ lits [''--format'', ''{{json .}}'', ''--no-trunc''])"

definition service_inspect_argv :: "string \<Rightarrow> (string, arg list) result" where
  "service_inspect_argv name = guarded (validate_object_ref name) (lits [''service'', ''inspect''] @ [Pos name])"

definition stack_deploy_argv :: "string \<Rightarrow> bool \<Rightarrow> (string, arg list) result" where
  "stack_deploy_argv stack_name prune =
     guarded (validate_object_ref stack_name)
       (lits [''stack'', ''deploy'', ''--compose-file'', ''-'', ''--with-registry-auth''] @
        (if prune then lits [''--prune''] else []) @ [Pos stack_name])"

definition remove_image_argv :: "string \<Rightarrow> bool \<Rightarrow> (string, arg list) result" where
  "remove_image_argv i force = guarded (validate_image_ref i) (lits [''rmi''] @ (if force then lits [''--force''] else []) @ [Pos i])"

definition pull_image_argv :: "string \<Rightarrow> (string, arg list) result" where
  "pull_image_argv reference = guarded (validate_image_ref reference) (lits [''pull''] @ [Pos reference])"

definition inspect_network_argv :: "string \<Rightarrow> (string, arg list) result" where
  "inspect_network_argv i = guarded (validate_object_ref i) (lits [''network'', ''inspect''] @ [Pos i])"

definition create_network_argv :: "string \<Rightarrow> string \<Rightarrow> string option \<Rightarrow> bool \<Rightarrow> bool \<Rightarrow> (string, arg list) result" where
  "create_network_argv name driver subnet attachable internal =
     (let sub = (case subnet of Some s \<Rightarrow> if s = [] then None else Some s | None \<Rightarrow> None) in
      try_bind (validate_object_ref name) (\<lambda>_.
      try_bind (validate_network_driver driver) (\<lambda>_.
      try_bind (case sub of Some s \<Rightarrow> validate_subnet s | None \<Rightarrow> Inr ()) (\<lambda>_.
        Inr (lits [''network'', ''create'', ''--driver''] @ [Opt_Val driver] @
             (case sub of Some s \<Rightarrow> lits [''--subnet''] @ [Opt_Val s] | None \<Rightarrow> []) @
             (if attachable then lits [''--attachable''] else []) @ (if internal then lits [''--internal''] else []) @
             [Pos name])))))"

definition remove_network_argv :: "string \<Rightarrow> (string, arg list) result" where
  "remove_network_argv i = guarded (validate_object_ref i) (lits [''network'', ''rm''] @ [Pos i])"

definition inspect_volume_argv :: "string \<Rightarrow> (string, arg list) result" where
  "inspect_volume_argv name = guarded (validate_object_ref name) (lits [''volume'', ''inspect''] @ [Pos name])"

definition remove_volume_argv :: "string \<Rightarrow> bool \<Rightarrow> (string, arg list) result" where
  "remove_volume_argv name force =
     guarded (validate_object_ref name) (lits [''volume'', ''rm''] @ (if force then lits [''--force''] else []) @ [Pos name])"

definition stack_services_argv :: "string \<Rightarrow> (string, arg list) result" where
  "stack_services_argv name = guarded (validate_object_ref name)
     (lits [''stack'', ''services'', ''--format'', ''{{json .}}''] @ [Pos name])"

definition stack_tasks_argv :: "string \<Rightarrow> (string, arg list) result" where
  "stack_tasks_argv name = guarded (validate_object_ref name)
     (lits [''stack'', ''ps'', ''--no-trunc'', ''--format'', ''{{json .}}''] @ [Pos name])"

definition remove_stack_argv :: "string \<Rightarrow> (string, arg list) result" where
  "remove_stack_argv name = guarded (validate_object_ref name) (lits [''stack'', ''rm''] @ [Pos name])"

section \<open>Running and reporting\<close>

text \<open>A finished process: its exit code (none when killed by a signal) and its output.\<close>

record proc_output =
  o_code :: "int option"
  o_stdout :: string
  o_stderr :: string

type_synonym runner = "string list \<Rightarrow> (string, proc_output) result"

definition succeeded :: "proc_output \<Rightarrow> bool" where
  "succeeded out \<longleftrightarrow> o_code out = Some 0"

text \<open>\<open>{:?}\<close> of an \<open>Option<i32>\<close>.\<close>

definition code_debug :: "int option \<Rightarrow> string" where
  "code_debug c = (case c of None \<Rightarrow> ''None'' | Some n \<Rightarrow> ''Some('' @ int_to_dec n @ '')'')"

definition collect_log :: "string \<Rightarrow> string \<Rightarrow> string" where
  "collect_log stdout stderr =
     (let s = from_utf8_lossy stdout; err = from_utf8_lossy stderr
      in if err = [] then s else (if s = [] then [] else s @ [char_of (10 :: nat)]) @ err)"

definition exit_error :: "string \<Rightarrow> proc_output \<Rightarrow> string option" where
  "exit_error what out = (if succeeded out then None else Some (what @ code_debug (o_code out)))"

text \<open>The lifecycle and swarm actions report everything the command printed.\<close>

definition report_plain :: "runner \<Rightarrow> (string, arg list) result \<Rightarrow> bool \<times> string \<times> string option" where
  "report_plain run as =
     (case as of Inl e \<Rightarrow> (False, [], Some e)
      | Inr as \<Rightarrow>
          (case run (argv as) of Inl e \<Rightarrow> (False, [], Some (''docker spawn: '' @ e))
           | Inr out \<Rightarrow> (succeeded out, collect_log (o_stdout out) (o_stderr out), exit_error ''exit code '' out)))"

text \<open>The others keep the tail of it; \<open>None\<close>: the truncation panicked.\<close>

definition report_tail :: "runner \<Rightarrow> string \<Rightarrow> (string, arg list) result \<Rightarrow> (bool \<times> string \<times> string option) option" where
  "report_tail run what as =
     (case as of Inl e \<Rightarrow> Some (False, [], Some e)
      | Inr as \<Rightarrow>
          (case run (argv as) of Inl e \<Rightarrow> Some (False, [], Some (''spawn: '' @ e))
           | Inr out \<Rightarrow>
               map_option (\<lambda>lg. (succeeded out, lg, exit_error (''docker '' @ what @ '' exit '') out))
                 (combine_stdout_stderr (o_stdout out) (o_stderr out))))"

definition run_container_action :: "runner \<Rightarrow> string \<Rightarrow> DockerContainerAction \<Rightarrow> bool \<times> string \<times> string option" where
  "run_container_action run i action = report_plain run (run_container_action_argv i action)"

definition run_swarm_action :: "runner \<Rightarrow> string \<Rightarrow> SwarmAction \<Rightarrow> bool \<times> string \<times> string option" where
  "run_swarm_action run name action = report_plain run (run_swarm_action_argv name action)"

text \<open>\<open>stack_deploy\<close> feeds the compose file through a pipe: the write, then the wait.\<close>

definition stack_deploy ::
    "(string list \<Rightarrow> (string, (string \<Rightarrow> string option) \<times> (string, proc_output) result) result) \<Rightarrow> string \<Rightarrow> string \<Rightarrow> bool \<Rightarrow>
     bool \<times> string \<times> string option" where
  "stack_deploy spawn stack_name compose_yaml prune =
     (case stack_deploy_argv stack_name prune of Inl e \<Rightarrow> (False, [], Some e)
      | Inr as \<Rightarrow>
          (case spawn (argv as) of Inl e \<Rightarrow> (False, [], Some (''docker spawn: '' @ e))
           | Inr (write_all, wait) \<Rightarrow>
               (case write_all compose_yaml of Some e \<Rightarrow> (False, [], Some (''write stdin: '' @ e))
                | None \<Rightarrow>
                    (case wait of Inl e \<Rightarrow> (False, [], Some (''docker wait: '' @ e))
                     | Inr out \<Rightarrow> (succeeded out, collect_log (o_stdout out) (o_stderr out), exit_error ''exit code '' out)))))"

definition remove_image :: "runner \<Rightarrow> string \<Rightarrow> bool \<Rightarrow> (bool \<times> string \<times> string option) option" where
  "remove_image run i force = report_tail run ''rmi'' (remove_image_argv i force)"

definition pull_image :: "runner \<Rightarrow> string \<Rightarrow> (bool \<times> string \<times> string option) option" where
  "pull_image run reference = report_tail run ''pull'' (pull_image_argv reference)"

definition remove_network :: "runner \<Rightarrow> string \<Rightarrow> (bool \<times> string \<times> string option) option" where
  "remove_network run i = report_tail run ''network rm'' (remove_network_argv i)"

definition remove_volume :: "runner \<Rightarrow> string \<Rightarrow> bool \<Rightarrow> (bool \<times> string \<times> string option) option" where
  "remove_volume run name force = report_tail run ''volume rm'' (remove_volume_argv name force)"

definition remove_stack :: "runner \<Rightarrow> string \<Rightarrow> (bool \<times> string \<times> string option) option" where
  "remove_stack run name = report_tail run ''stack rm'' (remove_stack_argv name)"

definition create_network ::
    "runner \<Rightarrow> string \<Rightarrow> string \<Rightarrow> string option \<Rightarrow> bool \<Rightarrow> bool \<Rightarrow> (bool \<times> string option \<times> string \<times> string option) option" where
  "create_network run name driver subnet attachable internal =
     (case create_network_argv name driver subnet attachable internal of Inl e \<Rightarrow> Some (False, None, [], Some e)
      | Inr as \<Rightarrow>
          (case run (argv as) of Inl e \<Rightarrow> Some (False, None, [], Some (''spawn: '' @ e))
           | Inr out \<Rightarrow>
               map_option (\<lambda>lg.
                 if succeeded out then (True, Some (trim_ws (from_utf8_lossy (o_stdout out))), lg, None)
                 else (False, None, lg, Some (''docker network create exit '' @ code_debug (o_code out))))
                 (combine_stdout_stderr (o_stdout out) (o_stderr out))))"

definition MAX_OUTPUT_BYTES :: nat where "MAX_OUTPUT_BYTES = 1048576"

definition inspect_network :: "runner \<Rightarrow> string \<Rightarrow> bool \<times> string \<times> string option" where
  "inspect_network run i =
     (case inspect_network_argv i of Inl e \<Rightarrow> (False, [], Some e)
      | Inr as \<Rightarrow>
          (case run (argv as) of Inl e \<Rightarrow> (False, [], Some (''spawn: '' @ e))
           | Inr out \<Rightarrow>
               (let stdout = from_utf8_lossy (o_stdout out)
                in if succeeded out \<and> length stdout > MAX_OUTPUT_BYTES
                   then (False, [], Some (''network inspect response exceeds '' @ nat_to_dec MAX_OUTPUT_BYTES @ ''-byte limit''))
                   else if succeeded out then (True, stdout, None)
                   else (False, stdout, Some (trim_ws (from_utf8_lossy (o_stderr out)))))))"

definition inspect_volume :: "runner \<Rightarrow> string \<Rightarrow> bool \<times> string \<times> string option" where
  "inspect_volume run name =
     (case inspect_volume_argv name of Inl e \<Rightarrow> (False, [], Some e)
      | Inr as \<Rightarrow>
          (case run (argv as) of Inl e \<Rightarrow> (False, [], Some (''spawn: '' @ e))
           | Inr out \<Rightarrow>
               if succeeded out then (True, from_utf8_lossy (o_stdout out), None)
               else (False, from_utf8_lossy (o_stdout out), Some (trim_ws (from_utf8_lossy (o_stderr out))))))"

section \<open>Creating containers and services\<close>

text \<open>
  \<open>split_command\<close>, over the characters of the command: the words so far, the current word, the open quote, and
  whether the last character was a backslash.
\<close>

type_synonym splitter = "string list list \<times> string list \<times> string option \<times> bool"

definition split_char :: "string \<Rightarrow> splitter \<Rightarrow> splitter" where
  "split_char ch st =
     (case st of (out, cur, quote, escaped) \<Rightarrow>
        if escaped then (out, cur @ [ch], quote, False)
        else if ch = [BACKSLASH] then (out, cur, quote, True)
        else (case quote of
                Some q \<Rightarrow> if q = ch then (out, cur, None, False) else (out, cur @ [ch], quote, False)
              | None \<Rightarrow>
                  if ch = [CHR 0x22] \<or> ch = [CHR 0x27] then (out, cur, Some ch, False)
                  else if is_whitespace ch then (if cur = [] then (out, [], None, False) else (out @ [cur], [], None, False))
                  else (out, cur @ [ch], None, False)))"

definition split_command :: "string list \<Rightarrow> string list list" where
  "split_command cmd =
     (case fold split_char cmd ([], [], None, False) of (out, cur, _, _) \<Rightarrow> if cur = [] then out else out @ [cur])"

definition command_words :: "string \<Rightarrow> string list" where
  "command_words command = map concat (split_command (chars command))"

text \<open>\<open>for p in list { let p = p.trim(); if !p.is_empty() { cmd.arg(flag).arg(p) } }\<close>, and the same for an option.\<close>

definition each_flag :: "string \<Rightarrow> string list \<Rightarrow> arg list" where
  "each_flag flag vs = concat (map (\<lambda>v. if trim_ws v = [] then [] else [Lit flag, Opt_Val (trim_ws v)]) vs)"

definition opt_list :: "'a option \<Rightarrow> 'a list" where
  "opt_list x = (case x of None \<Rightarrow> [] | Some v \<Rightarrow> [v])"

definition command_args :: "string option \<Rightarrow> arg list" where
  "command_args command = (case command of None \<Rightarrow> [] | Some c \<Rightarrow> Lit ''--'' # map Pos (command_words c))"

definition create_container_argv :: "ContainerSpec \<Rightarrow> (string, arg list) result" where
  "create_container_argv spec =
     (if trim_ws (cs_image spec) = [] then Inl ''image is required''
      else Inr
        (lits [''run''] @ (if cs_detached spec then lits [''-d''] else []) @
         each_flag ''--name'' (opt_list (cs_name spec)) @ each_flag ''-p'' (cs_ports spec) @ each_flag ''-e'' (cs_env spec) @
         each_flag ''-v'' (cs_volumes spec) @
         each_flag ''--restart'' (filter (\<lambda>r. trim_ws r \<noteq> ''no'') (opt_list (cs_restart_policy spec))) @
         each_flag ''--network'' (opt_list (cs_network spec)) @
         (if cs_pull spec then lits [''--pull'', ''always''] else []) @
         [Pos (cs_image spec)] @ command_args (cs_command spec)))"

definition create_service_argv :: "ServiceSpec \<Rightarrow> (string, arg list) result" where
  "create_service_argv spec =
     (if trim_ws (svs_image spec) = [] then Inl ''image is required''
      else if trim_ws (svs_name spec) = [] then Inl ''name is required''
      else Inr
        (lits [''service'', ''create'', ''--detach=true'', ''--name''] @ [Opt_Val (trim_ws (svs_name spec))] @
         each_flag ''--mode'' (opt_list (svs_mode spec)) @
         (case svs_replicas spec of
            Some n \<Rightarrow> if svs_mode spec \<noteq> Some ''global'' then [Lit ''--replicas'', Opt_Val (nat_to_dec (unat n))] else []
          | None \<Rightarrow> []) @
         each_flag ''--publish'' (svs_ports spec) @ each_flag ''--env'' (svs_env spec) @ each_flag ''--mount'' (svs_mounts spec) @
         each_flag ''--constraint'' (svs_constraints spec) @ each_flag ''--network'' (svs_networks spec) @
         each_flag ''--restart-condition'' (opt_list (svs_restart_condition spec)) @
         [Pos (svs_image spec)] @ command_args (svs_command spec)))"

text \<open>The command's result: the identifier is the last line of the output, or its first non-blank line.\<close>

definition report_created ::
    "runner \<Rightarrow> (string list \<Rightarrow> string) \<Rightarrow> (string, arg list) result \<Rightarrow> bool \<times> string option \<times> string \<times> string option" where
  "report_created run pick as =
     (case as of Inl e \<Rightarrow> (False, None, [], Some e)
      | Inr as \<Rightarrow>
          (case run (argv as) of Inl e \<Rightarrow> (False, None, [], Some (''docker spawn: '' @ e))
           | Inr out \<Rightarrow>
               (let i = trim_ws (pick (str_lines (from_utf8_lossy (o_stdout out))))
                in (succeeded out, if succeeded out \<and> i \<noteq> [] then Some i else None,
                    collect_log (o_stdout out) (o_stderr out), exit_error ''exit code '' out))))"

definition create_container :: "runner \<Rightarrow> ContainerSpec \<Rightarrow> bool \<times> string option \<times> string \<times> string option" where
  "create_container run spec = report_created run (\<lambda>ls. if ls = [] then [] else last ls) (create_container_argv spec)"

definition create_service :: "runner \<Rightarrow> ServiceSpec \<Rightarrow> bool \<times> string option \<times> string \<times> string option" where
  "create_service run spec =
     report_created run (\<lambda>ls. case find (\<lambda>l. trim_ws l \<noteq> []) ls of None \<Rightarrow> [] | Some l \<Rightarrow> l) (create_service_argv spec)"

section \<open>Services, journals, logs, shells\<close>

definition control_service_argv :: "string \<Rightarrow> string \<Rightarrow> (string, arg list) result" where
  "control_service_argv name action =
     (if action \<notin> {''start'', ''stop'', ''restart'', ''reload''} then Inl (''invalid action: '' @ action)
      else if \<not> is_safe_unit_name name then Inl (''invalid unit name: '' @ name)
      else Inr [Pos action, Pos name])"

definition control_service :: "runner \<Rightarrow> string \<Rightarrow> string \<Rightarrow> (string, unit) result" where
  "control_service run name action =
     try_bind (control_service_argv name action) (\<lambda>as.
     try_bind (run (argv as)) (\<lambda>out.
       if succeeded out then Inr () else Inl (trim_ws (from_utf8_lossy (o_stderr out)))))"

definition ALLOWED_PRIORITIES :: "string list" where
  "ALLOWED_PRIORITIES = [''emerg'', ''alert'', ''crit'', ''err'', ''warning'', ''notice'', ''info'', ''debug'']"

record StreamArgs =
  sa_stream_id :: string
  sa_units :: "string list"
  sa_priority :: "string option"
  sa_since :: "string option"
  sa_grep :: "string option"
  sa_identifier :: "string option"
  sa_lines :: u32
  sa_follow :: bool

fun each_unit :: "string list \<Rightarrow> (string, arg list) result" where
  "each_unit [] = Inr []"
| "each_unit (unit # units) =
     (if \<not> is_safe_token unit then Inl (''invalid unit name: '' @ unit)
      else try_bind (each_unit units) (\<lambda>as. Inr ([Lit ''-u'', Pos unit] @ as)))"

definition filter_arg ::
    "string \<Rightarrow> (string \<Rightarrow> bool) \<Rightarrow> (string \<Rightarrow> string) \<Rightarrow> string option \<Rightarrow> (string, arg list) result" where
  "filter_arg flag ok err v =
     (case v of None \<Rightarrow> Inr [] | Some s \<Rightarrow> if ok s then Inr [Lit flag, Pos s] else Inl (err s))"

definition build_argv :: "StreamArgs \<Rightarrow> (string, arg list) result" where
  "build_argv args =
     try_bind (each_unit (sa_units args)) (\<lambda>units.
     try_bind (filter_arg ''-p'' (\<lambda>p. p \<in> set ALLOWED_PRIORITIES) (\<lambda>p. ''invalid priority: '' @ p) (sa_priority args)) (\<lambda>pr.
     try_bind (filter_arg ''-t'' is_safe_token (\<lambda>i. ''invalid identifier: '' @ i) (sa_identifier args)) (\<lambda>idf.
     try_bind (filter_arg ''--since'' is_safe_since (\<lambda>s. ''invalid since value: '' @ s) (sa_since args)) (\<lambda>since.
     try_bind (filter_arg ''-g'' (\<lambda>g. \<not> (g = [] \<or> length g > 256 \<or> starts_with g ''-'')) (\<lambda>_. ''invalid grep pattern'') (sa_grep args)) (\<lambda>grep.
       Inr (lits [''--no-pager'', ''--output=short-iso''] @ (if sa_follow args then lits [''--follow''] else []) @
            lits [''--lines='' @ nat_to_dec (unat (min (sa_lines args) 10000))] @ units @ pr @ idf @ since @ grep))))))"

definition MAX_JOURNAL_LINES :: u32 where "MAX_JOURNAL_LINES = 10000"
definition MAX_DOCKER_TAIL :: u32 where "MAX_DOCKER_TAIL = 10000"

text \<open>The start of a stream and the command of its task, \<open>journal::start\<close> and \<open>logs::start\<close>.\<close>

definition journal_start_argv :: "string \<Rightarrow> u32 \<Rightarrow> bool \<Rightarrow> (string, arg list) result" where
  "journal_start_argv unit lns fol =
     (if \<not> valid_unit_name unit then Inl ''invalid unit name''
      else Inr (lits [''--no-pager'', ''--output=short-iso''] @ (if fol then lits [''--follow''] else []) @
                lits [''--lines='' @ nat_to_dec (unat (min lns MAX_JOURNAL_LINES))] @ [Lit ''-u'', Pos unit]))"

definition logs_start_argv :: "string \<Rightarrow> u32 \<Rightarrow> bool \<Rightarrow> (string, arg list) result" where
  "logs_start_argv container_id n_tail fol =
     (if \<not> valid_container_id container_id then Inl ''invalid container id''
      else Inr (lits [''logs''] @ (if fol then lits [''--follow''] else []) @
                lits [''--tail='' @ nat_to_dec (unat (min n_tail MAX_DOCKER_TAIL))] @ [Pos container_id]))"

definition spawn_docker_exec_argv :: "string \<Rightarrow> string \<Rightarrow> (string, arg list) result" where
  "spawn_docker_exec_argv container_id shell =
     (if container_id = [] \<or> starts_with container_id ''-'' \<or> length container_id > 256 then Inl ''invalid container id''
      else if \<not> chars_in ''_.-'' container_id then Inl ''container id has disallowed characters''
      else (let sh = (if shell = [] then ''sh'' else shell)
            in if starts_with sh ''-'' \<or> \<not> chars_in ''/_-.'' sh then Inl ''invalid shell''
               else Inr (lits [''exec'', ''-it''] @ [Pos container_id, Pos sh])))"

text \<open>
  The command of \<open>start_systemd_run\<close>: the package is the script's second argument, which the script passes to
  \<open>apt-get -y install --only-upgrade\<close>.
\<close>

definition systemd_run_argv :: "string \<Rightarrow> string \<Rightarrow> string option \<Rightarrow> (string, arg list) result" where
  "systemd_run_argv unit_name script_path package =
     try_bind (case package of Some p \<Rightarrow> validate_package_arg p | None \<Rightarrow> Inr ()) (\<lambda>_.
       Inr (lits [''--unit'', unit_name, ''--description'', ''shellfleet apt upgrade'', ''--property=Restart=no'',
                  ''--property=TimeoutStartSec=0'', ''--no-block'', ''/bin/sh'', script_path,
                  if package = None then ''all'' else ''package''] @ map Pos (opt_list package)))"

section \<open>The execution allow-list\<close>

definition EXEC_ALLOWLIST_ENV :: string where "EXEC_ALLOWLIST_ENV = ''SHELLFLEET_EXEC_ALLOW_JSON''"

text \<open>\<open>parse\<close> is \<open>serde_json::from_str::<Vec<String>>\<close>.\<close>

definition parse_command_allowlist :: "(string \<Rightarrow> string list option) \<Rightarrow> string option \<Rightarrow> (string, string list) result" where
  "parse_command_allowlist parse raw =
     try_bind (ok_or (case raw of Some v \<Rightarrow> if trim_ws v = [] then None else Some v | None \<Rightarrow> None)
       (EXEC_ALLOWLIST_ENV @ '' is not configured'')) (\<lambda>raw.
     try_bind (ok_or (parse raw) (EXEC_ALLOWLIST_ENV @ '' must be a JSON array of strings'')) (\<lambda>entries.
       (let es = filter (\<lambda>e. e \<noteq> []) (map trim_ws entries)
        in if es = [] then Inl (EXEC_ALLOWLIST_ENV @ '' must contain at least one command'') else Inr es)))"

definition command_allowed :: "string \<Rightarrow> string list \<Rightarrow> bool" where
  "command_allowed command allowlist \<longleftrightarrow> trim_ws command \<noteq> [] \<and> trim_ws command \<in> set allowlist"

definition exec_enabled :: "(string \<Rightarrow> string list option) \<Rightarrow> (string \<rightharpoonup> string) \<Rightarrow> bool" where
  "exec_enabled parse env \<longleftrightarrow> is_ok (parse_command_allowlist parse (env EXEC_ALLOWLIST_ENV))"

text \<open>The guard of \<open>exec::run\<close>: the argument vector of the shell and the clamped timeout.\<close>

definition exec_argv ::
    "(string \<Rightarrow> string list option) \<Rightarrow> (string \<rightharpoonup> string) \<Rightarrow> string \<Rightarrow> u64 \<Rightarrow> (string, string list \<times> u64) result" where
  "exec_argv parse env command timeout_secs =
     try_bind (parse_command_allowlist parse (env EXEC_ALLOWLIST_ENV)) (\<lambda>allowlist.
       if \<not> command_allowed command allowlist then Inl ''command blocked by agent execution allow-list''
       else Inr ([''/bin/sh'', ''-c'', command], min (max timeout_secs 1) 3600))"

section \<open>Checked values are not options\<close>

text \<open>A value that passes a check is not empty and does not begin with a dash.\<close>

definition not_option :: "string \<Rightarrow> bool" where
  "not_option s \<longleftrightarrow> s \<noteq> [] \<and> \<not> starts_with s ''-''"

lemma not_option_Cons: "not_option (c # s) \<longleftrightarrow> c \<noteq> CHR ''-''"
  by (simp add: not_option_def starts_with_def)

lemma not_option_app: "not_option s \<Longrightarrow> not_option (s @ t)"
  by (cases s) (simp_all add: not_option_Cons, simp add: not_option_def)

lemma first_is_plain: "first_is P s \<Longrightarrow> \<not> P (CHR ''-'') \<Longrightarrow> not_option s"
  by (cases s) (auto simp: first_is_def not_option_Cons)

lemma dash_facts [simp]: "\<not> is_ascii_alphanumeric (CHR ''-'')" "\<not> is_ascii_hexdigit (CHR ''-'')"
  by (simp_all add: is_ascii_alphanumeric_def is_ascii_hexdigit_def)

lemma object_ref_plain: "validate_object_ref v = Inr u \<Longrightarrow> not_option v"
  by (auto simp: validate_object_ref_def split: if_splits intro: first_is_plain)

lemma image_ref_plain: "validate_image_ref v = Inr u \<Longrightarrow> not_option v"
  by (auto simp: validate_image_ref_def split: if_splits intro: first_is_plain)

lemma package_plain: "validate_package_arg p = Inr u \<Longrightarrow> not_option p"
  by (auto simp: validate_package_arg_def not_option_def split: if_splits)

lemma unit_plain: "is_safe_token s \<Longrightarrow> not_option s" "valid_unit_name s \<Longrightarrow> not_option s" "is_safe_unit_name s \<Longrightarrow> not_option s"
    "is_safe_since s \<Longrightarrow> not_option s" "valid_container_id s \<Longrightarrow> not_option s"
  by (simp_all add: is_safe_token_def valid_unit_name_def is_safe_unit_name_def is_safe_since_def valid_container_id_def not_option_def)

lemma no_option_Pos [simp]: "no_option (Pos s # as) \<longleftrightarrow> not_option s \<and> no_option as"
  by (auto simp: not_option_def)

declare no_option.simps(3) [simp del]

lemma no_option_append: "no_option as \<Longrightarrow> no_option bs \<Longrightarrow> no_option (as @ bs)"
  by (induction as rule: no_option.induct) auto

lemma no_option_lits [simp]: "no_option (lits ss)" "no_option (lits ss @ as) \<longleftrightarrow> ''--'' \<in> set ss \<or> no_option as"
  by (induction ss) (auto simp: lits_def)

lemma guarded_Inr: "guarded r as = Inr bs \<longleftrightarrow> (\<exists>u. r = Inr u) \<and> bs = as"
  by (auto simp: guarded_def try_bind_Inr_iff)

lemmas argv_defs = guarded_Inr run_container_action_argv_def run_swarm_action_argv_def service_ps_argv_def
  service_inspect_argv_def stack_deploy_argv_def remove_image_argv_def pull_image_argv_def inspect_network_argv_def
  remove_network_argv_def inspect_volume_argv_def remove_volume_argv_def stack_services_argv_def stack_tasks_argv_def
  remove_stack_argv_def

text \<open>The commands whose values are all checked before the command is built.\<close>

inductive checked_command :: "arg list \<Rightarrow> bool" where
  "run_container_action_argv i act = Inr as \<Longrightarrow> checked_command as"
| "run_swarm_action_argv name act' = Inr as \<Longrightarrow> checked_command as"
| "service_ps_argv name = Inr as \<Longrightarrow> checked_command as"
| "service_inspect_argv name = Inr as \<Longrightarrow> checked_command as"
| "stack_deploy_argv name prune = Inr as \<Longrightarrow> checked_command as"
| "remove_image_argv i force = Inr as \<Longrightarrow> checked_command as"
| "pull_image_argv i = Inr as \<Longrightarrow> checked_command as"
| "create_network_argv name driver subnet attachable internal = Inr as \<Longrightarrow> checked_command as"
| "inspect_network_argv i = Inr as \<Longrightarrow> checked_command as"
| "remove_network_argv i = Inr as \<Longrightarrow> checked_command as"
| "inspect_volume_argv name = Inr as \<Longrightarrow> checked_command as"
| "remove_volume_argv name force = Inr as \<Longrightarrow> checked_command as"
| "stack_services_argv name = Inr as \<Longrightarrow> checked_command as"
| "stack_tasks_argv name = Inr as \<Longrightarrow> checked_command as"
| "remove_stack_argv name = Inr as \<Longrightarrow> checked_command as"
| "control_service_argv name action = Inr as \<Longrightarrow> checked_command as"
| "build_argv args = Inr as \<Longrightarrow> checked_command as"
| "journal_start_argv unit lns fol = Inr as \<Longrightarrow> checked_command as"
| "logs_start_argv container_id lns fol = Inr as \<Longrightarrow> checked_command as"
| "spawn_docker_exec_argv container_id shell = Inr as \<Longrightarrow> checked_command as"
| "systemd_run_argv unit_name script_path package = Inr as \<Longrightarrow> checked_command as"

lemma each_unit_no_option: "each_unit us = Inr as \<Longrightarrow> no_option as"
  by (induction us arbitrary: as) (auto simp: try_bind_Inr_iff unit_plain split: if_splits)

lemma filter_arg_no_option: "filter_arg flag ok err v = Inr as \<Longrightarrow> (\<And>s. ok s \<Longrightarrow> not_option s) \<Longrightarrow> no_option as"
  by (auto simp: filter_arg_def split: option.splits if_splits)

lemma priority_plain: "p \<in> set ALLOWED_PRIORITIES \<Longrightarrow> not_option p"
  by (auto simp: ALLOWED_PRIORITIES_def not_option_Cons)

lemma build_argv_no_option:
  assumes "build_argv args = Inr as"
  shows "no_option as"
proof -
  obtain us pr idf since grep where
      "each_unit (sa_units args) = Inr us"
      "filter_arg ''-p'' (\<lambda>p. p \<in> set ALLOWED_PRIORITIES) (\<lambda>p. ''invalid priority: '' @ p) (sa_priority args) = Inr pr"
      "filter_arg ''-t'' is_safe_token (\<lambda>i. ''invalid identifier: '' @ i) (sa_identifier args) = Inr idf"
      "filter_arg ''--since'' is_safe_since (\<lambda>s. ''invalid since value: '' @ s) (sa_since args) = Inr since"
      "filter_arg ''-g'' (\<lambda>g. \<not> (g = [] \<or> length g > 256 \<or> starts_with g ''-'')) (\<lambda>_. ''invalid grep pattern'') (sa_grep args) = Inr grep"
    and as: "as = lits [''--no-pager'', ''--output=short-iso''] @ (if sa_follow args then lits [''--follow''] else []) @
            lits [''--lines='' @ nat_to_dec (unat (min (sa_lines args) 10000))] @ us @ pr @ idf @ since @ grep"
    using assms unfolding build_argv_def try_bind_Inr_iff by blast
  then have "no_option us" "no_option pr" "no_option idf" "no_option since" "no_option grep"
    by (auto dest!: filter_arg_no_option intro: each_unit_no_option unit_plain priority_plain simp: not_option_def)
  then show ?thesis unfolding as by (auto intro!: no_option_append)
qed

lemma create_network_no_option: "create_network_argv name driver subnet attachable internal = Inr as \<Longrightarrow> no_option as"
  by (auto simp: create_network_argv_def Let_def try_bind_Inr_iff object_ref_plain split: option.splits if_splits
      intro!: no_option_append)

lemma service_no_option: "control_service_argv name action = Inr as \<Longrightarrow> no_option as"
  by (auto simp: control_service_argv_def not_option_Cons unit_plain split: if_splits)

lemma stream_no_option:
  "journal_start_argv unit lns fol = Inr as \<Longrightarrow> no_option as"
  "logs_start_argv container_id lns fol = Inr as \<Longrightarrow> no_option as"
  by (auto simp: journal_start_argv_def logs_start_argv_def unit_plain split: if_splits)

lemma shell_no_option: "spawn_docker_exec_argv container_id shell = Inr as \<Longrightarrow> no_option as"
  by (auto simp: spawn_docker_exec_argv_def Let_def not_option_def starts_with_def split: if_splits)

lemma systemd_run_no_option: "systemd_run_argv unit_name script_path package = Inr as \<Longrightarrow> no_option as"
  by (auto simp: systemd_run_argv_def try_bind_Inr_iff opt_list_def package_plain split: option.splits if_splits)

text \<open>C29: whatever the operator sends for an object, unit, filter, package, shell or container, a command that is
  built at all contains no operator value that the tool could take for an option.\<close>

theorem operator_values_are_not_options: "checked_command as \<Longrightarrow> no_option as"
proof (induction rule: checked_command.induct)
  case (1 i act as)
  then show ?case by (cases act) (auto simp: argv_defs object_ref_plain)
next
  case (2 name act' as)
  then show ?case by (cases act') (auto simp: argv_defs object_ref_plain not_option_app)
qed (auto simp: argv_defs object_ref_plain image_ref_plain
      intro: build_argv_no_option create_network_no_option service_no_option stream_no_option shell_no_option
        systemd_run_no_option)

theorem operator_values_are_not_options_witness:
  "\<exists>as. remove_image_argv ''nginx:1.27'' True = Inr as \<and> argv as = [''rmi'', ''--force'', ''nginx:1.27''] \<and> no_option as"
proof (intro exI conjI)
  let ?as = "[Lit ''rmi'', Lit ''--force'', Pos ''nginx:1.27'']"
  show r: "remove_image_argv ''nginx:1.27'' True = Inr ?as" by code_simp
  show "argv ?as = [''rmi'', ''--force'', ''nginx:1.27'']" by (simp add: argv_def)
  show "no_option ?as" by (rule operator_values_are_not_options, rule checked_command.intros(6), rule r)
qed

section \<open>The command splitter\<close>

text \<open>Every character behind a backslash, the words separated by a blank.\<close>

definition escape_word :: "string list \<Rightarrow> string list" where
  "escape_word w = concat (map (\<lambda>c. [[BACKSLASH], c]) w)"

fun escape_words :: "string list list \<Rightarrow> string list" where
  "escape_words [] = []"
| "escape_words [w] = escape_word w"
| "escape_words (w # v # ws) = escape_word w @ ['' ''] @ escape_words (v # ws)"

lemma split_escaped: "fold split_char (escape_word w) (out, cur, None, False) = (out, cur @ w, None, False)"
  by (induction w arbitrary: cur) (simp_all add: escape_word_def split_char_def)

lemma split_blank: "cur \<noteq> [] \<Longrightarrow> split_char '' '' (out, cur, None, False) = (out @ [cur], [], None, False)"
  by (simp add: split_char_def BACKSLASH_def is_whitespace_def WHITE_SPACE_def)

lemma split_escaped_words:
  "list_all (\<lambda>w. w \<noteq> []) ws \<Longrightarrow> ws \<noteq> [] \<Longrightarrow>
   fold split_char (escape_words ws) (out, [], None, False) = (out @ butlast ws, last ws, None, False)"
  by (induction ws arbitrary: out rule: escape_words.induct) (simp_all add: split_escaped split_blank)

text \<open>A command line written by escaping every character of its words is split into exactly these words,
  whatever quotes, blanks and backslashes they contain.\<close>

theorem split_command_roundtrip:
  "list_all (\<lambda>w. w \<noteq> []) ws \<Longrightarrow> split_command (escape_words ws) = ws"
  by (cases "ws = []") (auto simp: split_command_def split_escaped_words list_all_iff)

theorem split_command_roundtrip_witness:
  "split_command [[BACKSLASH], '' '', [BACKSLASH], [CHR 0x22], '' '', [BACKSLASH], [BACKSLASH]]
     = [['' '', [CHR 0x22]], [[BACKSLASH]]]"
  using split_command_roundtrip [of "[['' '', [CHR 0x22]], [[BACKSLASH]]]"] by (simp add: escape_word_def)

section \<open>The image is an unchecked value\<close>

lemma each_flag_no_option [simp]: "no_option (each_flag flag vs @ as) \<longleftrightarrow> flag = ''--'' \<and> (\<exists>v \<in> set vs. trim_ws v \<noteq> []) \<or> no_option as"
  by (induction vs) (auto simp: each_flag_def)

lemma command_args_no_option [simp]: "no_option (command_args c)"
  by (simp add: command_args_def split: option.splits)

lemma trim_ws_Nil [simp]: "trim_ws [] = []"
  by (simp add: trim_ws_def)

text \<open>An image that is an option, and the command it is read with.\<close>

definition demo_container :: ContainerSpec where
  "demo_container = \<lparr>cs_image = ''--privileged'', cs_name = None, cs_ports = [], cs_env = [], cs_volumes = [],
     cs_restart_policy = Some ''no'', cs_command = Some ''alpine sh'', cs_network = None, cs_detached = True, cs_pull = False\<rparr>"

lemma demo_container_argv:
  "create_container_argv demo_container =
     Inr [Lit ''run'', Lit ''-d'', Pos ''--privileged'', Lit ''--'', Pos ''alpine'', Pos ''sh'']"
  by code_simp

text \<open>The image of a container or service is placed where \<open>docker\<close> reads options and is not checked: the
  command is free of operator-chosen options exactly when the image does not begin with a dash. With
  \<open>--privileged\<close> for the image, the separator \<open>--\<close> that follows makes the first word of the command the image.\<close>

theorem image_is_read_as_an_option:
  "(create_container_argv spec = Inr as \<longrightarrow> (no_option as \<longleftrightarrow> \<not> starts_with (cs_image spec) ''-'')) \<and>
   (create_service_argv svc = Inr bs \<longrightarrow> (no_option bs \<longleftrightarrow> \<not> starts_with (svs_image svc) ''-''))"
  by (auto simp: create_container_argv_def create_service_argv_def not_option_def split: if_splits option.splits)

theorem image_is_read_as_an_option_witness:
  "\<exists>as. create_container_argv demo_container = Inr as \<and>
     argv as = [''run'', ''-d'', ''--privileged'', ''--'', ''alpine'', ''sh''] \<and> \<not> no_option as"
  using image_is_read_as_an_option [of demo_container "projr (create_container_argv demo_container)"]
  by (simp add: demo_container_argv argv_def) (simp add: demo_container_def not_option_def starts_with_def)

end
