(* ===== verification/Agent_Backup.thy ===== *)
theory Agent_Backup
  imports Agent_Commands "HOL-Library.Multiset"
begin

text \<open>
  \<open>agent/src/backup.rs\<close>: the destinations, the allow-list of host paths, taking a backup with \<open>tar\<close> to a local
  directory or to S3, and restoring one. The file system, \<open>tar\<close>, the clock and the S3 service are arguments;
  the service answers each call from the history of all calls so far, which the functions extend. A result
  \<open>None\<close> is the panic of the log truncation. Error texts keep their fixed part where the code prints a value
  in debug form.

  Shown: a backup that ran has read nothing outside the allowed trees, a multipart upload sends exactly the
  file in parts of the right size or aborts its session, the pump of a restore never forwards more than the
  limit, and a restore target that does not exist yet is checked by its spelling only.
\<close>

section \<open>Destinations\<close>

datatype Dest = Dest_Local string | Dest_S3 (dest_bucket: string) (dest_prefix: string)

text \<open>\<open>splitn(2, '/')\<close> with \<open>unwrap_or("")\<close>, \<open>trim_end_matches('/')\<close>, \<open>contains\<close>.\<close>

definition split2 :: "string \<Rightarrow> string \<times> string" where
  "split2 s = (case split_once_on (CHR ''/'') s of Some ab \<Rightarrow> ab | None \<Rightarrow> (s, []))"

definition trim_end_slash :: "string \<Rightarrow> string" where
  "trim_end_slash s = rev (dropWhile (\<lambda>c. c = CHR ''/'') (rev s))"

fun contains_str :: "string \<Rightarrow> string \<Rightarrow> bool" where
  "contains_str [] p = (p = [])"
| "contains_str (c # s) p = (starts_with (c # s) p \<or> contains_str s p)"

definition parse_dest :: "string \<Rightarrow> (string, Dest) result" where
  "parse_dest dest =
     (let trimmed = trim_ws dest
      in if trimmed = [] then Inl ''dest is empty''
         else case strip_prefix_str ''s3://'' trimmed of
           Some rest \<Rightarrow>
             (case split2 rest of (bucket, pre) \<Rightarrow>
                if bucket = [] then Inl ''s3 dest must include a bucket'' else Inr (Dest_S3 bucket (trim_end_slash pre)))
         | None \<Rightarrow>
             (case strip_prefix_str ''file://'' trimmed of
                Some rest \<Rightarrow> Inr (Dest_Local rest)
              | None \<Rightarrow>
                  if contains_str trimmed ''://'' then Inl ''unsupported destination scheme'' else Inr (Dest_Local trimmed)))"

section \<open>The allow-list\<close>

text \<open>\<open>Path::components\<close>, \<open>PathBuf::pop\<close>, \<open>Path::starts_with\<close> (on components) and \<open>Path::join\<close>.\<close>

datatype component = RootDir | CurDir | ParentDir | Normal string

definition components :: "string \<Rightarrow> component list" where
  "components p =
     (let segs = split_on (CHR ''/'') p
      in (if starts_with p ''/'' then [RootDir] else if hd segs = ''.'' then [CurDir] else []) @
         map (\<lambda>s. if s = ''..'' then ParentDir else Normal s) (filter (\<lambda>s. s \<noteq> [] \<and> s \<noteq> ''.'') segs))"

definition path_pop :: "component list \<Rightarrow> component list" where
  "path_pop out = (if out = [RootDir] then out else butlast out)"

definition path_join :: "string \<Rightarrow> string \<Rightarrow> string" where
  "path_join a b = (if starts_with b ''/'' then b else if a = [] \<or> ends_with a ''/'' then a @ b else a @ ''/'' @ b)"

fun normalize_step :: "component \<Rightarrow> component list \<Rightarrow> component list" where
  "normalize_step ParentDir out = path_pop out"
| "normalize_step CurDir out = out"
| "normalize_step RootDir out = [RootDir]"
| "normalize_step (Normal s) out = out @ [Normal s]"

definition normalize_lexical :: "string \<Rightarrow> component list" where
  "normalize_lexical p = fold normalize_step (components p) []"

definition path_under :: "component list \<Rightarrow> component list \<Rightarrow> bool" where
  "path_under p root \<longleftrightarrow> take (length root) p = root"

text \<open>The root as the second check sees it: resolved, or as spelled when it does not exist.\<close>

definition canonical_root :: "(string \<Rightarrow> string option) \<Rightarrow> string \<Rightarrow> component list" where
  "canonical_root canonicalize r = (case canonicalize r of Some c \<Rightarrow> components c | None \<Rightarrow> normalize_lexical r)"

definition within_roots :: "(string \<Rightarrow> string option) \<Rightarrow> string \<Rightarrow> string list \<Rightarrow> bool" where
  "within_roots canonicalize p roots \<longleftrightarrow>
     list_ex (\<lambda>r. path_under (normalize_lexical p) (normalize_lexical r)) roots \<and>
     (case canonicalize p of
        Some canon \<Rightarrow> list_ex (\<lambda>r. path_under (components canon) (canonical_root canonicalize r)) roots
      | None \<Rightarrow> True)"

definition DEFAULT_BACKUP_ROOTS :: "string list" where
  "DEFAULT_BACKUP_ROOTS = [''/var/lib/shellfleet'', ''/var/backups/shellfleet'']"

definition configured_backup_roots :: "string option \<Rightarrow> string list" where
  "configured_backup_roots raw =
     (let roots = (case raw of Some r \<Rightarrow> filter (\<lambda>s. s \<noteq> []) (map trim_ws (split_on (CHR '':'') r)) | None \<Rightarrow> [])
      in if roots = [] then DEFAULT_BACKUP_ROOTS else roots)"

definition backup_roots :: "(string \<rightharpoonup> string) \<Rightarrow> string list option" where
  "backup_roots env =
     (if env ''SHELLFLEET_ALLOW_UNRESTRICTED_BACKUPS'' = Some ''1'' then None
      else Some (configured_backup_roots (env ''SHELLFLEET_BACKUP_ROOTS'')))"


section \<open>Uploading to S3\<close>

datatype s3call =
    CreateMultipart string string
  | UploadPart string string string i32 string
  | CompleteMultipart string string string "(string option \<times> i32) list"
  | AbortMultipart string string string
  | PutObject string string string

text \<open>The service answers a call, the last of the history: an error, or the upload id or entity tag if any.\<close>

type_synonym s3svc = "s3call list \<Rightarrow> (string, string option) result"

definition s3_send :: "s3svc \<Rightarrow> s3call \<Rightarrow> s3call list \<Rightarrow> (string, string option) result \<times> s3call list" where
  "s3_send svc c hist = (svc (hist @ [c]), hist @ [c])"

definition MULTIPART_THRESHOLD :: nat where "MULTIPART_THRESHOLD = 64 * 1024 * 1024"
definition MULTIPART_CHUNK :: nat where "MULTIPART_CHUNK = 16 * 1024 * 1024"

text \<open>
  Reading a file: from a position, at most so many bytes; the empty answer is the end of the file. A read may
  be short, so a chunk is filled in a loop; \<open>chunk\<close> is the length of the buffer.
\<close>

type_synonym reader = "nat \<Rightarrow> nat \<Rightarrow> (string, string) result"

function fill_chunk :: "reader \<Rightarrow> nat \<Rightarrow> nat \<Rightarrow> string \<Rightarrow> (string, string) result" where
  "fill_chunk rd chunk pos buf =
     (case rd (pos + length buf) (chunk - length buf) of
        Inl e \<Rightarrow> Inl e
      | Inr bytes \<Rightarrow>
          if bytes = [] then Inr buf
          else if length buf + length bytes \<ge> chunk then Inr (buf @ bytes)
          else fill_chunk rd chunk pos (buf @ bytes))"
  by auto
termination by (relation "measure (\<lambda>(rd, chunk, pos, buf). chunk - length buf)") (auto simp flip: length_greater_0_conv)

declare fill_chunk.simps [simp del]

text \<open>
  The loop of \<open>upload_parts\<close>; it ends only when the file does. The state is the position, the part number, the
  parts so far and the calls made.
\<close>

partial_function (option) upload_loop ::
    "s3svc \<Rightarrow> reader \<Rightarrow> nat \<Rightarrow> string \<Rightarrow> string \<Rightarrow> string \<Rightarrow> nat \<Rightarrow> i32 \<Rightarrow> (string option \<times> i32) list \<Rightarrow> s3call list \<Rightarrow>
     ((string, (string option \<times> i32) list \<times> nat) result \<times> s3call list) option" where
  "upload_loop svc rd chunk bucket key upload_id pos part_number parts hist =
     (case fill_chunk rd chunk pos [] of
        Inl e \<Rightarrow> Some (Inl (''read: '' @ e), hist)
      | Inr buf \<Rightarrow>
          if buf = [] then Some (Inr (parts, pos), hist)
          else (case s3_send svc (UploadPart bucket key upload_id part_number buf) hist of
                  (Inl e, hist') \<Rightarrow> Some (Inl (''UploadPart#'' @ int_to_dec part_number @ '': '' @ e), hist')
                | (Inr e_tag, hist') \<Rightarrow>
                    upload_loop svc rd chunk bucket key upload_id (pos + length buf) (part_number + 1)
                      (parts @ [(e_tag, part_number)]) hist'))"

definition upload_parts ::
    "s3svc \<Rightarrow> (string, reader) result \<Rightarrow> nat \<Rightarrow> string \<Rightarrow> string \<Rightarrow> string \<Rightarrow> s3call list \<Rightarrow>
     ((string, (string option \<times> i32) list \<times> nat) result \<times> s3call list) option" where
  "upload_parts svc file chunk bucket key upload_id hist =
     (case file of Inl e \<Rightarrow> Some (Inl (''open: '' @ e), hist)
      | Inr rd \<Rightarrow> upload_loop svc rd chunk bucket key upload_id 0 1 [] hist)"

definition s3_multipart_upload ::
    "s3svc \<Rightarrow> (string, reader) result \<Rightarrow> nat \<Rightarrow> string \<Rightarrow> string \<Rightarrow> s3call list \<Rightarrow>
     ((string, nat) result \<times> s3call list) option" where
  "s3_multipart_upload svc file chunk bucket key hist =
     (case s3_send svc (CreateMultipart bucket key) hist of
        (Inl e, hist) \<Rightarrow> Some (Inl (''CreateMultipartUpload: '' @ e), hist)
      | (Inr None, hist) \<Rightarrow> Some (Inl ''CreateMultipartUpload returned no upload_id'', hist)
      | (Inr (Some upload_id), hist) \<Rightarrow>
          Option.bind (upload_parts svc file chunk bucket key upload_id hist) (\<lambda>(r, hist).
            case r of
              Inr (parts, total_bytes) \<Rightarrow>
                (case s3_send svc (CompleteMultipart bucket key upload_id parts) hist of
                   (Inl e, hist) \<Rightarrow> Some (Inl (''CompleteMultipartUpload: '' @ e), hist)
                 | (Inr _, hist) \<Rightarrow> Some (Inr total_bytes, hist))
            | Inl e \<Rightarrow> Some (Inl e, snd (s3_send svc (AbortMultipart bucket key upload_id) hist))))"

text \<open>\<open>ByteStream::from_path\<close> yields the content; the size is read from the metadata.\<close>

definition s3_put_object ::
    "s3svc \<Rightarrow> (string, string) result \<Rightarrow> nat option \<Rightarrow> string \<Rightarrow> string \<Rightarrow> s3call list \<Rightarrow> (string, nat) result \<times> s3call list" where
  "s3_put_object svc content size_of bucket key hist =
     (case content of Inl e \<Rightarrow> (Inl (''ByteStream::from_path: '' @ e), hist)
      | Inr body \<Rightarrow>
          (case s3_send svc (PutObject bucket key body) hist of
             (Inl e, hist) \<Rightarrow> (Inl (''PutObject: '' @ e), hist)
           | (Inr _, hist) \<Rightarrow> (Inr (case size_of of Some n \<Rightarrow> n | None \<Rightarrow> 0), hist)))"

section \<open>Lemmas on uploads\<close>

text \<open>A reader of a file: reads never fail, return what is there, and return nothing only at the end.\<close>

definition reads_file :: "reader \<Rightarrow> string \<Rightarrow> bool" where
  "reads_file rd content \<longleftrightarrow>
     (\<forall>pos n. \<exists>k \<le> n. rd pos n = Inr (take k (drop pos content)) \<and> (0 < n \<longrightarrow> 0 < k))"

lemma fill_chunk_file:
  assumes "reads_file rd content" and "buf = take (length buf) (drop pos content)" and "length buf < chunk"
  shows "fill_chunk rd chunk pos buf = Inr (take chunk (drop pos content))"
  using assms(2,3)
proof (induction rd\<equiv>rd chunk\<equiv>chunk pos\<equiv>pos buf rule: fill_chunk.induct)
  case (1 buf)
  obtain k where k: "k \<le> chunk - length buf" "0 < k"
    "rd (pos + length buf) (chunk - length buf) = Inr (take k (drop (pos + length buf) content))"
    using assms(1) 1(3) unfolding reads_file_def by (meson zero_less_diff)
  let ?bytes = "take k (drop (pos + length buf) content)"
  have app: "buf @ ?bytes = take (length buf + k) (drop pos content)"
    using 1(2) by (metis drop_drop take_add add.commute)
  show ?case
  proof (cases "?bytes = []")
    case True
    then have "length content \<le> pos + length buf" using k(2) by auto
    then have "take chunk (drop pos content) = buf" using 1(2,3) by (metis drop_eq_Nil le_diff_conv length_drop nat_le_linear take_all_iff add.commute less_imp_le)
    then show ?thesis by (subst fill_chunk.simps) (simp add: k(3) True)
  next
    case False
    show ?thesis
    proof (cases "length buf + length ?bytes \<ge> chunk")
      case True
      then have "length buf + k = chunk" using k(1) 1(3) by simp
      then show ?thesis using False True app by (subst fill_chunk.simps) (simp add: k(3))
    next
      case less: False
      have eq: "buf @ ?bytes = take (length (buf @ ?bytes)) (drop pos content)"
        using app by (metis length_take min.cobounded1 take_all_iff take_take min_def)
      have "fill_chunk rd chunk pos (buf @ ?bytes) = Inr (take chunk (drop pos content))"
        by (rule 1(1) [OF k(3) False less eq]) (use less in simp)
      then show ?thesis using False less by (subst fill_chunk.simps) (simp add: k(3))
    qed
  qed
qed


text \<open>The file cut into parts, and the calls that send them.\<close>

function chunks_of :: "nat \<Rightarrow> 'a list \<Rightarrow> 'a list list" where
  "chunks_of n xs = (if xs = [] \<or> n = 0 then [] else take n xs # chunks_of n (drop n xs))"
  by auto
termination by (relation "measure (\<lambda>(n, xs). length xs)") auto

declare chunks_of.simps [simp del]

lemma chunks_of_Nil [simp]: "chunks_of n [] = []"
  by (simp add: chunks_of.simps)

lemma chunks_of_step: "xs \<noteq> [] \<Longrightarrow> 0 < n \<Longrightarrow> chunks_of n xs = take n xs # chunks_of n (drop n xs)"
  by (subst chunks_of.simps) simp

lemma chunks_of_concat: "0 < n \<Longrightarrow> concat (chunks_of n xs) = xs"
  by (induction n xs rule: chunks_of.induct) (subst chunks_of.simps, auto)

lemma chunks_of_sizes:
  "0 < n \<Longrightarrow> (\<forall>b \<in> set (butlast (chunks_of n xs)). length b = n) \<and> (\<forall>b \<in> set (chunks_of n xs). b \<noteq> [] \<and> length b \<le> n)"
proof (induction n xs rule: chunks_of.induct)
  case (1 n xs)
  show ?case
  proof (cases "xs = []")
    case False
    define ys where "ys = chunks_of n (drop n xs)"
    have "(\<forall>b \<in> set (butlast ys). length b = n) \<and> (\<forall>b \<in> set ys. b \<noteq> [] \<and> length b \<le> n)"
      unfolding ys_def by (rule "1.IH" [OF _ "1.prems"]) (use False "1.prems" in simp)
    moreover have "chunks_of n xs = take n xs # ys" unfolding ys_def using False "1.prems" by (rule chunks_of_step)
    moreover have "ys = [] \<or> length (take n xs) = n" by (cases "n < length xs") (simp_all add: ys_def)
    moreover have "take n xs \<noteq> []" "length (take n xs) \<le> n" using False "1.prems" by simp_all
    ultimately show ?thesis by (simp only: butlast.simps list.set) auto
  qed simp
qed

fun part_calls :: "string \<Rightarrow> string \<Rightarrow> string \<Rightarrow> i32 \<Rightarrow> string list \<Rightarrow> s3call list" where
  "part_calls bucket key uid pn [] = []"
| "part_calls bucket key uid pn (b # bs) = UploadPart bucket key uid pn b # part_calls bucket key uid (pn + 1) bs"

lemma upload_loop_file:
  assumes rf: "reads_file rd content" and chunk: "0 < chunk"
  shows "pos \<le> length content \<Longrightarrow>
    \<exists>r h. upload_loop svc rd chunk bucket key uid pos pn parts hist = Some (r, hist @ h) \<and>
      (case r of
         Inr (ps, sent) \<Rightarrow> sent = length content \<and> h = part_calls bucket key uid pn (chunks_of chunk (drop pos content)) \<and>
           map snd ps = map snd parts @ [pn .. pn + int (length (chunks_of chunk (drop pos content))) - 1]
       | Inl e \<Rightarrow> \<exists>m. h = part_calls bucket key uid pn (take m (chunks_of chunk (drop pos content))))"
proof (induction "length content - pos" arbitrary: pos pn parts hist rule: less_induct)
  case less
  let ?buf = "take chunk (drop pos content)"
  have fc: "fill_chunk rd chunk pos [] = Inr ?buf" using fill_chunk_file [OF rf, of "[]" pos chunk] chunk by simp
  show ?case
  proof (cases "?buf = []")
    case True
    then have "pos = length content" "drop pos content = []" using less.prems chunk by auto
    then show ?thesis using fc by (subst upload_loop.simps) simp
  next
    case False
    let ?c = "UploadPart bucket key uid pn ?buf"
    have cs: "chunks_of chunk (drop pos content) = ?buf # chunks_of chunk (drop (pos + length ?buf) content)"
      using False chunk by (subst chunks_of_step) (auto simp: min_def add.commute)
    show ?thesis
    proof (cases "svc (hist @ [?c])")
      case (Inl e)
      then have "upload_loop svc rd chunk bucket key uid pos pn parts hist =
          Some (Inl (''UploadPart#'' @ int_to_dec pn @ '': '' @ e), hist @ [?c])"
        using fc False by (subst upload_loop.simps) (simp add: s3_send_def)
      moreover have "[?c] = part_calls bucket key uid pn (take 1 (chunks_of chunk (drop pos content)))" by (simp add: cs)
      ultimately show ?thesis by (intro exI [of _ "Inl _"] exI [of _ "[?c]"]) (simp, blast)
    next
      case (Inr tag)
      have step: "upload_loop svc rd chunk bucket key uid pos pn parts hist =
          upload_loop svc rd chunk bucket key uid (pos + length ?buf) (pn + 1) (parts @ [(tag, pn)]) (hist @ [?c])"
        using fc False Inr by (subst upload_loop.simps) (simp add: s3_send_def)
      have "length content - (pos + length ?buf) < length content - pos" "pos + length ?buf \<le> length content"
        using False less.prems by auto
      from less.hyps [OF this, of "pn + 1" "parts @ [(tag, pn)]" "hist @ [?c]"]
      obtain r h where r: "upload_loop svc rd chunk bucket key uid pos pn parts hist = Some (r, (hist @ [?c]) @ h)"
        and post: "case r of
         Inr (ps, sent) \<Rightarrow> sent = length content \<and> h = part_calls bucket key uid (pn + 1) (chunks_of chunk (drop (pos + length ?buf) content)) \<and>
           map snd ps = map snd (parts @ [(tag, pn)]) @ [pn + 1 .. pn + 1 + int (length (chunks_of chunk (drop (pos + length ?buf) content))) - 1]
       | Inl e \<Rightarrow> \<exists>m. h = part_calls bucket key uid (pn + 1) (take m (chunks_of chunk (drop (pos + length ?buf) content)))"
        unfolding step by blast
      have "case r of
         Inr (ps, sent) \<Rightarrow> sent = length content \<and> ?c # h = part_calls bucket key uid pn (chunks_of chunk (drop pos content)) \<and>
           map snd ps = map snd parts @ [pn .. pn + int (length (chunks_of chunk (drop pos content))) - 1]
       | Inl e \<Rightarrow> \<exists>m. ?c # h = part_calls bucket key uid pn (take m (chunks_of chunk (drop pos content)))"
      proof (cases r)
        case (Inl e)
        then obtain m where "h = part_calls bucket key uid (pn + 1) (take m (chunks_of chunk (drop (pos + length ?buf) content)))"
          using post by auto
        then have "?c # h = part_calls bucket key uid pn (take (Suc m) (chunks_of chunk (drop pos content)))" by (simp only: cs take_Suc_Cons part_calls.simps)
        then show ?thesis using Inl by (auto simp del: part_calls.simps)
      next
        case (Inr pt)
        then show ?thesis using post upto_rec1 [of pn] by (simp add: cs case_prod_beta algebra_simps)
      qed
      then show ?thesis using r by (intro exI [of _ r] exI [of _ "?c # h"]) (simp only: append_assoc append_Cons append_Nil simp_thms)
    qed
  qed
qed



text \<open>Five bytes in parts of two, read one byte at a time.\<close>

definition demo_reader :: reader where
  "demo_reader pos n = Inr (take (min 1 n) (drop pos ''abcde''))"

lemma demo_reader_ok: "reads_file demo_reader ''abcde''"
  unfolding reads_file_def demo_reader_def by (metis min.cobounded2 min_less_iff_conj zero_less_one)



section \<open>Taking a backup\<close>

text \<open>
  The host: environment, files (existence, resolved name, kind, size, content, reading), directories, \<open>tar\<close>, a
  temporary file, the clock, and S3. \<open>bw_stdin\<close> starts \<open>tar\<close> with a pipe: whether a write fails after what was
  written, and how the process ends on what it was given.
\<close>

record bworld =
  bw_env :: "string \<rightharpoonup> string"
  bw_exists :: "string \<Rightarrow> bool"
  bw_canon :: "string \<Rightarrow> string option"
  bw_is_file :: "string \<Rightarrow> bool"
  bw_mkdir :: "string \<Rightarrow> (string, unit) result"
  bw_size :: "string \<Rightarrow> nat option"
  bw_open :: "string \<Rightarrow> (string, reader) result"
  bw_content :: "string \<Rightarrow> (string, string) result"
  bw_tmp :: "(string, string) result"
  bw_now :: nat
  bw_tar :: runner
  bw_stdin :: "string list \<Rightarrow> (string, (string list \<Rightarrow> string option) \<times> (string list \<Rightarrow> (string, proc_output) result)) result"
  bw_s3 :: s3svc
  bw_get :: "string \<Rightarrow> string \<Rightarrow> (string, (string, string) result list) result"

text \<open>Success, archive, bytes, log, error; with the calls made to S3.\<close>

type_synonym backup_answer = "((bool \<times> string \<times> nat \<times> string \<times> string option) \<times> s3call list) option"

definition backup_failed :: "string \<Rightarrow> string \<Rightarrow> s3call list \<Rightarrow> backup_answer" where
  "backup_failed lg e hist = Some ((False, [], 0, lg, Some e), hist)"

definition NL :: string where "NL = [char_of (10 :: nat)]"

definition stderr_part :: "string \<Rightarrow> string \<Rightarrow> string" where
  "stderr_part title err = (if err = [] then [] else title @ NL @ from_utf8_lossy err)"

definition tar_create :: "string \<Rightarrow> string list \<Rightarrow> string list" where
  "tar_create archive existing = [''--ignore-failed-read'', ''-czf'', archive, ''--''] @ existing"

definition wrote :: "string \<Rightarrow> nat \<Rightarrow> string" where
  "wrote uri bytes = ''wrote '' @ uri @ '' ('' @ nat_to_dec bytes @ '' bytes)'' @ NL"

definition size_or_0 :: "bworld \<Rightarrow> string \<Rightarrow> nat" where
  "size_or_0 W p = (case bw_size W p of Some n \<Rightarrow> n | None \<Rightarrow> 0)"

definition backup_local :: "bworld \<Rightarrow> string \<Rightarrow> string list \<Rightarrow> string \<Rightarrow> string \<Rightarrow> s3call list \<Rightarrow> backup_answer" where
  "backup_local W archive_name existing lg dest_dir hist =
     (case bw_mkdir W dest_dir of Inl e \<Rightarrow> backup_failed lg (''mkdir '' @ dest_dir @ '': '' @ e) hist
      | Inr _ \<Rightarrow>
          (let archive_path = path_join dest_dir archive_name
           in case bw_tar W (tar_create archive_path existing) of Inl e \<Rightarrow> backup_failed lg (''spawn tar: '' @ e) hist
              | Inr out \<Rightarrow>
                  Option.bind (Utf8_Text.truncate (lg @ (if o_stdout out = [] then [] else from_utf8_lossy (o_stdout out)) @
                      stderr_part ''--- stderr ---'' (o_stderr out)) LOG_CAP) (\<lambda>lg.
                    if \<not> succeeded out then backup_failed lg (''tar exit '' @ code_debug (o_code out)) hist
                    else (let bytes = size_or_0 W archive_path
                          in map_option (\<lambda>lg. ((True, archive_path, bytes, lg, None), hist))
                               (Utf8_Text.truncate (lg @ wrote archive_path bytes) LOG_CAP)))))"

definition backup_s3 ::
    "bworld \<Rightarrow> string \<Rightarrow> string list \<Rightarrow> string \<Rightarrow> string \<Rightarrow> string \<Rightarrow> s3call list \<Rightarrow> backup_answer" where
  "backup_s3 W archive_name existing lg bucket pre hist =
     (let key = (if pre = [] then archive_name else pre @ ''/'' @ archive_name);
          s3_uri = ''s3://'' @ bucket @ ''/'' @ key
      in case bw_tmp W of Inl e \<Rightarrow> backup_failed lg (''tempfile: '' @ e) hist
         | Inr tmp_path \<Rightarrow>
             (case bw_tar W (tar_create tmp_path existing) of Inl e \<Rightarrow> backup_failed lg (''spawn tar: '' @ e) hist
              | Inr out \<Rightarrow>
                  Option.bind (Utf8_Text.truncate (lg @ stderr_part ''--- tar stderr ---'' (o_stderr out)) LOG_CAP) (\<lambda>lg.
                    if \<not> succeeded out then backup_failed lg (''tar exit '' @ code_debug (o_code out)) hist
                    else (let local_bytes = size_or_0 W tmp_path;
                              multi = (local_bytes \<ge> MULTIPART_THRESHOLD);
                              lg = lg @ ''uploading '' @ nat_to_dec local_bytes @
                                (if multi then '' bytes via multipart ('' @ nat_to_dec MULTIPART_CHUNK @ ''-byte chunks)''
                                 else '' bytes via PutObject'') @ NL
                          in Option.bind
                               (if multi then s3_multipart_upload (bw_s3 W) (bw_open W tmp_path) MULTIPART_CHUNK bucket key hist
                                else Some (s3_put_object (bw_s3 W) (bw_content W tmp_path) (bw_size W tmp_path) bucket key hist))
                               (\<lambda>(r, hist). case r of
                                  Inr uploaded \<Rightarrow>
                                    map_option (\<lambda>lg. ((True, s3_uri, uploaded, lg, None), hist)) (Utf8_Text.truncate (lg @ wrote s3_uri uploaded) LOG_CAP)
                                | Inl e \<Rightarrow> map_option (\<lambda>lg. ((False, [], 0, lg, Some e), hist)) (Utf8_Text.truncate lg LOG_CAP))))))"

definition run_backup ::
    "bworld \<Rightarrow> string \<Rightarrow> string list \<Rightarrow> string \<Rightarrow> BackupMode \<Rightarrow> s3call list \<Rightarrow> backup_answer" where
  "run_backup W name paths dest mode hist =
     (if mode = Mode_Restic then backup_failed [] ''restic mode is not implemented in this agent build'' hist
      else case parse_dest dest of Inl e \<Rightarrow> backup_failed [] e hist
      | Inr parsed \<Rightarrow>
          if paths = [] then backup_failed [] ''paths is empty'' hist
          else (let existing = filter (bw_exists W) paths;
                    bad = (case backup_roots (bw_env W) of
                             Some roots \<Rightarrow> filter (\<lambda>p. \<not> within_roots (bw_canon W) p roots) existing | None \<Rightarrow> []);
                    lg = (if length existing \<noteq> length paths
                          then ''WARN: skipping missing path(s): '' @
                               concat (map (\<lambda>p. p @ '' '') (filter (\<lambda>p. \<not> bw_exists W p) paths)) @ NL
                          else []);
                    archive_name = name @ ''-'' @ nat_to_dec (bw_now W) @ ''.tar.gz''
                in if existing = [] then backup_failed [] ''no requested paths exist on this host'' hist
                   else if bad \<noteq> []
                   then backup_failed [] (''path(s) outside SHELLFLEET_BACKUP_ROOTS allow-list: '' @ join_with '', '' bad) hist
                   else case parsed of
                     Dest_Local dest_dir \<Rightarrow> backup_local W archive_name existing lg dest_dir hist
                   | Dest_S3 bucket pre \<Rightarrow> backup_s3 W archive_name existing lg bucket pre hist))"

section \<open>Restoring\<close>

definition S3_RESTORE_MAX_BYTES_DEFAULT :: nat where "S3_RESTORE_MAX_BYTES_DEFAULT = 50 * 1024 * 1024 * 1024"

text \<open>\<open>str::parse::<u64>\<close>: an optional plus sign and decimal digits.\<close>

definition parse_u64 :: "string \<Rightarrow> nat option" where
  "parse_u64 s =
     (let ds = (if starts_with s ''+'' then tl s else s);
          digit = (\<lambda>c. of_char c - (48 :: nat));
          n = foldl (\<lambda>a c. 10 * a + digit c) 0 ds
      in if ds \<noteq> [] \<and> list_all (\<lambda>c. 48 \<le> (of_char c :: nat) \<and> (of_char c :: nat) \<le> 57) ds \<and> n < 2 ^ 64 then Some n else None)"

definition s3_restore_max_bytes :: "(string \<rightharpoonup> string) \<Rightarrow> nat" where
  "s3_restore_max_bytes env =
     (case Option.bind (env ''SHELLFLEET_S3_RESTORE_MAX_BYTES'') parse_u64 of Some n \<Rightarrow> n | None \<Rightarrow> S3_RESTORE_MAX_BYTES_DEFAULT)"

text \<open>
  The pump: chunks of the body, what was written so far, the running total (saturating at 64 bits). The result is
  the error, if any, and what was written.
\<close>

fun pump :: "(string list \<Rightarrow> string option) \<Rightarrow> nat \<Rightarrow> nat \<Rightarrow> string list \<Rightarrow> (string, string) result list \<Rightarrow> string option \<times> string list" where
  "pump wr max_bytes so_far sent [] = (None, sent)"
| "pump wr max_bytes so_far sent (Inl e # body) = (Some (''S3 body read: '' @ e), sent)"
| "pump wr max_bytes so_far sent (Inr chunk # body) =
     (let so_far' = min (so_far + length chunk) (2 ^ 64 - 1)
      in if so_far' > max_bytes
         then (Some (''S3 GetObject body exceeded SHELLFLEET_S3_RESTORE_MAX_BYTES ('' @ nat_to_dec max_bytes @ '' bytes); aborting restore''), sent)
         else (case wr (sent @ [chunk]) of
                 Some e \<Rightarrow> (Some (''tar stdin write: '' @ e), sent)
               | None \<Rightarrow> pump wr max_bytes so_far' (sent @ [chunk]) body))"

definition tar_extract :: "string \<Rightarrow> string \<Rightarrow> string list" where
  "tar_extract archive dest_root =
     [''-xzf'', archive, ''-C'', dest_root, ''--no-absolute-names'', ''--exclude=../*'', ''--exclude=*/../*'',
      ''--no-same-owner'', ''--no-same-permissions'']"

type_synonym restore_result = "(bool \<times> string \<times> string option) option"

text \<open>What both branches do with the finished \<open>tar\<close>.\<close>

definition tar_done :: "string \<Rightarrow> string \<Rightarrow> string \<Rightarrow> proc_output \<Rightarrow> restore_result" where
  "tar_done lg archive dest_root out =
     Option.bind (Utf8_Text.truncate (lg @ stderr_part ''--- tar stderr ---'' (o_stderr out)) LOG_CAP) (\<lambda>lg.
       if \<not> succeeded out then Some (False, lg, Some (''tar exit '' @ code_debug (o_code out)))
       else map_option (\<lambda>lg. (True, lg, None)) (Utf8_Text.truncate (lg @ ''restored '' @ archive @ '' into '' @ dest_root @ NL) LOG_CAP))"

definition restore_s3 :: "bworld \<Rightarrow> string \<Rightarrow> string \<Rightarrow> restore_result" where
  "restore_s3 W rest dest_root =
     (case split2 rest of (bucket, key) \<Rightarrow>
        if bucket = [] \<or> key = [] then Some (False, [], Some (''malformed archive URI: s3://'' @ rest))
        else case bw_get W bucket key of Inl e \<Rightarrow> Some (False, [], Some (''GetObject: '' @ e))
        | Inr body \<Rightarrow>
            (case bw_stdin W (tar_extract ''-'' dest_root) of Inl e \<Rightarrow> Some (False, [], Some (''spawn tar: '' @ e))
             | Inr (wr, wait) \<Rightarrow>
                 (case pump wr (s3_restore_max_bytes (bw_env W)) 0 [] body of
                    (Some e, _) \<Rightarrow> Some (False, [], Some e)
                  | (None, sent) \<Rightarrow>
                      (case wait sent of Inl e \<Rightarrow> Some (False, [], Some (''tar wait: '' @ e))
                       | Inr out \<Rightarrow> tar_done [] (''s3://'' @ bucket @ ''/'' @ key) dest_root out))))"

definition restore_local :: "bworld \<Rightarrow> string \<Rightarrow> string \<Rightarrow> restore_result" where
  "restore_local W archive_uri dest_root =
     (let loc = (case strip_prefix_str ''file://'' archive_uri of Some r \<Rightarrow> r | None \<Rightarrow> archive_uri)
      in if \<not> bw_is_file W loc then Some (False, [], Some (''archive not found: '' @ loc))
         else case bw_tar W (tar_extract loc dest_root) of Inl e \<Rightarrow> Some (False, [], Some (''spawn tar: '' @ e))
         | Inr out \<Rightarrow> tar_done (if o_stdout out = [] then [] else from_utf8_lossy (o_stdout out)) loc dest_root out)"

definition restore :: "bworld \<Rightarrow> string \<Rightarrow> string \<Rightarrow> restore_result" where
  "restore W archive_uri dest_root =
     (let d = trim_ws dest_root;
          outside = (case backup_roots (bw_env W) of Some roots \<Rightarrow> \<not> within_roots (bw_canon W) d roots | None \<Rightarrow> False)
      in if d = [] then Some (False, [], Some ''dest_root is empty'')
         else if outside then Some (False, [], Some ''restore dest_root is outside the SHELLFLEET_BACKUP_ROOTS allow-list'')
         else case bw_mkdir W d of Inl e \<Rightarrow> Some (False, [], Some (''mkdir '' @ d @ '': '' @ e))
         | Inr _ \<Rightarrow>
             (case strip_prefix_str ''s3://'' archive_uri of
                Some rest \<Rightarrow> restore_s3 W rest d
              | None \<Rightarrow> restore_local W archive_uri d))"


section \<open>Properties\<close>

text \<open>A path outside the roots, as spelled or, if it exists, as resolved.\<close>

definition outside_roots :: "(string \<Rightarrow> string option) \<Rightarrow> string \<Rightarrow> string list \<Rightarrow> bool" where
  "outside_roots canonicalize p roots \<longleftrightarrow>
     (\<forall>r \<in> set roots. \<not> path_under (normalize_lexical p) (normalize_lexical r)) \<or>
     (\<exists>c. canonicalize p = Some c \<and> (\<forall>r \<in> set roots. \<not> path_under (components c) (canonical_root canonicalize r)))"

lemma within_roots_iff: "within_roots canonicalize p roots \<longleftrightarrow> \<not> outside_roots canonicalize p roots"
  by (auto simp: within_roots_def outside_roots_def list_ex_iff split: option.splits)

lemma backup_refused:
  assumes roots: "backup_roots (bw_env W) = Some roots"
    and p: "p \<in> set paths" "bw_exists W p" "outside_roots (bw_canon W) p roots"
  shows "\<exists>e. \<forall>tar mkdir. run_backup (W\<lparr>bw_tar := tar, bw_mkdir := mkdir\<rparr>) name paths dest mode hist = backup_failed [] e hist"
proof -
  let ?bad = "filter (\<lambda>p. \<not> within_roots (bw_canon W) p roots) (filter (bw_exists W) paths)"
  have "filter (bw_exists W) paths \<noteq> []" "paths \<noteq> []" "?bad \<noteq> []"
    using p by (auto simp: filter_empty_conv within_roots_iff)
  moreover define e where "e = (if mode = Mode_Restic then ''restic mode is not implemented in this agent build''
    else case parse_dest dest of Inl e \<Rightarrow> e
    | Inr _ \<Rightarrow> ''path(s) outside SHELLFLEET_BACKUP_ROOTS allow-list: '' @ join_with '', '' ?bad)"
  ultimately have "run_backup (W\<lparr>bw_tar := tar, bw_mkdir := mkdir\<rparr>) name paths dest mode hist = backup_failed [] e hist"
    for tar mkdir
    by (cases "parse_dest dest") (simp_all add: run_backup_def roots Let_def del: filter_filter)
  then show ?thesis by blast
qed

lemma restore_refused:
  "backup_roots (bw_env W) = Some roots \<Longrightarrow> outside_roots (bw_canon W) (trim_ws dest_root) roots \<Longrightarrow>
   \<exists>e. \<forall>tar mkdir. restore (W\<lparr>bw_tar := tar, bw_mkdir := mkdir\<rparr>) uri dest_root = Some (False, [], Some e)"
  by (cases "trim_ws dest_root = []") (simp_all add: restore_def Let_def within_roots_iff)


text \<open>A host on which \<open>/var/lib/shellfleet/link\<close> is a link to \<open>/etc\<close> and everything else is as asked for.\<close>

definition demo_host :: bworld where
  "demo_host = \<lparr>bw_env = Map.empty, bw_exists = (\<lambda>p. p = ''/etc/passwd''),
     bw_canon = (\<lambda>p. if p = ''/var/lib/shellfleet/link'' then Some ''/etc'' else if p = ''/etc/passwd'' then Some p else None),
     bw_is_file = (\<lambda>_. True), bw_mkdir = (\<lambda>_. Inr ()), bw_size = (\<lambda>_. None), bw_open = (\<lambda>_. Inl []),
     bw_content = (\<lambda>_. Inl []), bw_tmp = Inl [], bw_now = 0,
     bw_tar = (\<lambda>_. Inr \<lparr>o_code = Some 0, o_stdout = [], o_stderr = []\<rparr>), bw_stdin = (\<lambda>_. Inl []),
     bw_s3 = (\<lambda>_. Inl []), bw_get = (\<lambda>_ _. Inl [])\<rparr>"

lemma demo_roots: "backup_roots (bw_env demo_host) = Some DEFAULT_BACKUP_ROOTS"
  by (simp add: demo_host_def backup_roots_def configured_backup_roots_def)

lemma demo_outside: "outside_roots (bw_canon demo_host) ''/etc/passwd'' DEFAULT_BACKUP_ROOTS"
proof -
  have "\<not> within_roots (bw_canon demo_host) ''/etc/passwd'' DEFAULT_BACKUP_ROOTS" by code_simp
  then show ?thesis by (simp add: within_roots_iff)
qed


text \<open>A restore target that does not exist yet is judged by its spelling. On a host where a link in an allowed
  directory leads to \<open>/etc\<close>, a restore into a new directory below the link, that is into a directory created in
  \<open>/etc\<close>, is carried out under the default restriction.\<close>

theorem restore_target_below_a_link_is_accepted:
  "bw_canon demo_host ''/var/lib/shellfleet/link'' = Some ''/etc'' \<and>
   outside_roots (bw_canon demo_host) ''/var/lib/shellfleet/link'' DEFAULT_BACKUP_ROOTS \<and>
   backup_roots (bw_env demo_host) = Some DEFAULT_BACKUP_ROOTS \<and>
   (\<exists>lg. restore demo_host ''/var/backups/shellfleet/a.tar.gz'' ''/var/lib/shellfleet/link/new'' = Some (True, lg, None))"
proof -
  have "\<not> within_roots (bw_canon demo_host) ''/var/lib/shellfleet/link'' DEFAULT_BACKUP_ROOTS" by code_simp
  moreover have "map_option (\<lambda>(ok, lg, e). (ok, e)) (restore demo_host ''/var/backups/shellfleet/a.tar.gz'' ''/var/lib/shellfleet/link/new'') = Some (True, None)"
    by code_simp
  ultimately show ?thesis using demo_roots by (auto simp: within_roots_iff) (simp add: demo_host_def)
qed

lemma pump_spec:
  assumes "max_bytes < 2 ^ 64 - 1"
  shows "so_far = length (concat sent) \<Longrightarrow> so_far \<le> max_bytes \<Longrightarrow> pump wr max_bytes so_far sent body = (e, sent') \<Longrightarrow>
    length (concat sent') \<le> max_bytes \<and> (\<exists>k. map Inr sent' = map Inr sent @ take k body) \<and> (e = None \<longrightarrow> map Inr sent' = map Inr sent @ body)"
proof (induction body arbitrary: so_far sent)
  case Nil
  then show ?case by auto
next
  case (Cons c body)
  show ?case
  proof (cases c)
    case (Inl er)
    then show ?thesis using Cons.prems by (auto intro: exI [of _ 0])
  next
    case (Inr chunk)
    let ?n = "min (so_far + length chunk) (2 ^ 64 - 1)"
    show ?thesis
    proof (cases "max_bytes < ?n \<or> wr (sent @ [chunk]) \<noteq> None")
      case True
      then have "sent' = sent" "e \<noteq> None" using Cons.prems(3) Inr by (auto simp: Let_def split: if_splits)
      then show ?thesis using Cons.prems by (auto intro: exI [of _ 0])
    next
      case False
      then have le: "?n \<le> max_bytes" and w: "wr (sent @ [chunk]) = None" by auto
      then have n: "?n = length (concat (sent @ [chunk]))" using assms Cons.prems(1) by (simp add: min_def split: if_splits)
      have "pump wr max_bytes ?n (sent @ [chunk]) body = (e, sent')" using Cons.prems(3) Inr le w by (auto simp: Let_def not_less split: if_splits)
      from Cons.IH [OF n le this]
      obtain k where k: "length (concat sent') \<le> max_bytes" "map Inr sent' = map Inr (sent @ [chunk]) @ take k body"
          "e = None \<longrightarrow> map Inr sent' = map Inr (sent @ [chunk]) @ body" by blast
      then have "map Inr sent' = map Inr sent @ take (Suc k) (c # body)" by (simp add: Inr)
      moreover have "e = None \<longrightarrow> map Inr sent' = map Inr sent @ c # body" using k(3) Inr by simp
      ultimately show ?thesis using k(1) by blast
    qed
  qed
qed

text \<open>The restore limit. Whatever the body of the object and however the pipe behaves, the chunks written to
  \<open>tar\<close> are an initial part of the body and together no longer than the limit; without an error they are the
  whole body. The limit must be below the largest 64-bit number, at which the running total saturates.\<close>

theorem restore_writes_at_most_the_limit:
  assumes "max_bytes < 2 ^ 64 - 1" and "pump wr max_bytes 0 [] body = (e, sent)"
  shows "length (concat sent) \<le> max_bytes \<and> (\<exists>k. map Inr sent = take k body) \<and> (e = None \<longrightarrow> map Inr sent = body)"
  using pump_spec [OF assms(1), of 0 "[]" wr body e sent] assms(2) by auto

theorem restore_writes_at_most_the_limit_witness:
  "\<exists>e. pump (\<lambda>_. None) 4 0 [] [Inr ''abc'', Inr ''de''] = (Some e, [''abc'']) \<and> length (concat [''abc'']) \<le> 4"
proof -
  obtain e where "pump (\<lambda>_. None) 4 0 [] [Inr ''abc'', Inr ''de''] = (Some e, [''abc''])" by simp
  with restore_writes_at_most_the_limit [OF _ this] show ?thesis by auto
qed


section \<open>Listing archives\<close>

text \<open>
  A directory entry: its name, and size and modification time if its metadata can be read; a page of a bucket
  listing: objects with key, size and time, whether it is truncated, and the continuation token.
\<close>

record s3page =
  pg_contents :: "(string option \<times> int option \<times> i64 option) list"
  pg_truncated :: "bool option"
  pg_next :: "string option"

type_synonym s3lister = "string \<Rightarrow> string option \<Rightarrow> string option \<Rightarrow> (string, s3page) result"

definition local_archive :: "string \<Rightarrow> string \<times> (u64 \<times> i64 option) option \<Rightarrow> BackupArchive option" where
  "local_archive dir entry =
     (case entry of (name, meta) \<Rightarrow>
        if \<not> ends_with name ''.tar.gz'' then None
        else map_option (\<lambda>(len, mtime). \<lparr>ba_name = name, ba_uri = path_join dir name, ba_bytes = len,
               ba_mtime = (case mtime of Some t \<Rightarrow> t | None \<Rightarrow> 0)\<rparr>) meta)"

definition s3_archive :: "string \<Rightarrow> string option \<times> int option \<times> i64 option \<Rightarrow> BackupArchive option" where
  "s3_archive bucket obj =
     (case obj of (key, size_of, mtime) \<Rightarrow>
        Option.bind key (\<lambda>key.
          if \<not> ends_with key ''.tar.gz'' then None
          else Some \<lparr>ba_name = last (split_on (CHR ''/'') key), ba_uri = ''s3://'' @ bucket @ ''/'' @ key,
                 ba_bytes = of_int (max (case size_of of Some n \<Rightarrow> n | None \<Rightarrow> 0) 0),
                 ba_mtime = (case mtime of Some t \<Rightarrow> t | None \<Rightarrow> 0)\<rparr>))"

partial_function (option) list_pages ::
    "s3lister \<Rightarrow> string \<Rightarrow> string option \<Rightarrow> string option \<Rightarrow> BackupArchive list \<Rightarrow> (string, BackupArchive list) result option" where
  "list_pages send bucket pre continuation out =
     (case send bucket pre continuation of
        Inl e \<Rightarrow> Some (Inl (''ListObjectsV2: '' @ e))
      | Inr page \<Rightarrow>
          (let out = out @ List.map_filter (s3_archive bucket) (pg_contents page)
           in if pg_truncated page \<noteq> Some True \<or> pg_next page = None then Some (Inr out)
              else list_pages send bucket pre (pg_next page) out))"

definition newest_first :: "BackupArchive list \<Rightarrow> BackupArchive list" where
  "newest_first out = sort_key (\<lambda>a. - ba_mtime a) out"

text \<open>\<open>None\<close>: the service never stops sending pages.\<close>

definition list_archives ::
    "s3lister \<Rightarrow> (string \<Rightarrow> bool) \<Rightarrow> (string \<Rightarrow> (string, (string \<times> (u64 \<times> i64 option) option) list) result) \<Rightarrow> string \<Rightarrow>
     (bool \<times> BackupArchive list \<times> string option) option" where
  "list_archives send is_dir read_dir dest =
     (case parse_dest dest of Inl e \<Rightarrow> Some (False, [], Some e)
      | Inr (Dest_Local dir) \<Rightarrow>
          if \<not> is_dir dir then Some (True, [], None)
          else (case read_dir dir of Inl e \<Rightarrow> Some (False, [], Some (''read_dir: '' @ e))
                | Inr entries \<Rightarrow> Some (True, newest_first (List.map_filter (local_archive dir) entries), None))
      | Inr (Dest_S3 bucket pre) \<Rightarrow>
          map_option (\<lambda>r. case r of Inl e \<Rightarrow> (False, [], Some e) | Inr out \<Rightarrow> (True, newest_first out, None))
            (list_pages send bucket (if pre = [] then None else Some (pre @ ''/'')) None []))"

text \<open>The pages of a bucket, one after the other: each but the last is truncated and names the next.\<close>

fun serves :: "s3lister \<Rightarrow> string \<Rightarrow> string option \<Rightarrow> string option \<Rightarrow> s3page list \<Rightarrow> bool" where
  "serves send bucket pre tok [] = False"
| "serves send bucket pre tok (p # ps) =
     (send bucket pre tok = Inr p \<and>
      (if ps = [] then pg_truncated p \<noteq> Some True \<or> pg_next p = None
       else pg_truncated p = Some True \<and> pg_next p \<noteq> None \<and> serves send bucket pre (pg_next p) ps))"

lemma map_filter_append: "List.map_filter f (xs @ ys) = List.map_filter f xs @ List.map_filter f ys"
  by (simp add: List.map_filter_def)

lemma list_pages_all:
  "serves send bucket pre tok ps \<Longrightarrow>
   list_pages send bucket pre tok out = Some (Inr (out @ List.map_filter (s3_archive bucket) (concat (map pg_contents ps))))"
proof (induction ps arbitrary: tok out)
  case (Cons p ps)
  then show ?case
    by (subst list_pages.simps) (auto simp: Let_def map_filter_append split: if_splits)
qed simp

text \<open>A bucket listing ends with its last page, contains every archive of every page, and is sorted with the
  newest first.\<close>

theorem bucket_listing_is_complete:
  assumes "parse_dest dest = Inr (Dest_S3 bucket pre)"
    and "serves send bucket (if pre = [] then None else Some (pre @ ''/'')) None ps"
  shows "\<exists>out. list_archives send is_dir read_dir dest = Some (True, out, None) \<and>
    mset out = mset (List.map_filter (s3_archive bucket) (concat (map pg_contents ps))) \<and>
    sorted (map (\<lambda>a. - ba_mtime a) out)"
  using list_pages_all [OF assms(2), of "[]"] assms(1) by (simp add: list_archives_def newest_first_def)

definition demo_bucket :: s3lister where
  "demo_bucket bucket pre tok =
     Inr (if tok = None then \<lparr>pg_contents = [(Some ''p/a.tar.gz'', Some 3, Some 10), (Some ''p/note'', Some 1, None)],
                              pg_truncated = Some True, pg_next = Some ''t''\<rparr>
          else \<lparr>pg_contents = [(Some ''p/b.tar.gz'', None, Some 20)], pg_truncated = None, pg_next = None\<rparr>)"

theorem bucket_listing_is_complete_witness:
  "\<exists>out. list_archives demo_bucket (\<lambda>_. False) (\<lambda>_. Inl []) ''s3://b/p/'' = Some (True, out, None) \<and> size (mset out) = 2"
proof -
  let ?ps = "map (\<lambda>t. projr (demo_bucket ''b'' (Some ''p/'') t)) [None, Some ''t'']"
  have d: "parse_dest ''s3://b/p/'' = Inr (Dest_S3 ''b'' ''p'')" by code_simp
  have s: "serves demo_bucket ''b'' (if ''p'' = [] then None else Some (''p'' @ ''/'')) None ?ps"
    by (simp add: demo_bucket_def)
  have l: "length (List.map_filter (s3_archive ''b'') (concat (map pg_contents ?ps))) = 2" by code_simp
  show ?thesis
    using bucket_listing_is_complete [OF d s, of "\<lambda>_. False" "\<lambda>_. Inl []"] l by (metis size_mset)
qed

end
