(* ===== verification/Agent_Exec.thy ===== *)
theory Agent_Exec
  imports Agent_Commands
begin

text \<open>
  \<open>exec::run\<close> in \<open>agent/src/exec.rs\<close>: an allow-listed command runs under a shell while two tasks read its output,
  sharing one byte budget through an atomic counter. The readers are a step relation in which their reads, loads
  and compare-and-exchange steps interleave in any order and an exchange may fail at any time; the rest of \<open>run\<close>
  is a function of how the process ended and what the readers left.

  Shown: however the readers interleave, they keep together at most the budget, keep an initial part of each
  stream, and cut only when the budget is used up to the last byte; no reader is ever stuck; and a command that
  is not on the list has no effect.
\<close>

section \<open>The readers\<close>

text \<open>A reader waits for data, holds a block, holds a block and a loaded budget, or has ended.\<close>

datatype reader_state = Idle | Have string | Loaded string nat | Closed

record exec_io =
  io_budget :: nat
  io_limited :: bool
  io_reader :: "bool \<Rightarrow> reader_state"
  io_read :: "bool \<Rightarrow> string"
  io_sent :: "bool \<Rightarrow> string list"

definition exec_io_start :: exec_io where
  "exec_io_start = \<lparr>io_budget = MAX_OUTPUT_BYTES, io_limited = False, io_reader = (\<lambda>_. Idle), io_read = (\<lambda>_. []), io_sent = (\<lambda>_. [])\<rparr>"

definition set_reader :: "bool \<Rightarrow> reader_state \<Rightarrow> exec_io \<Rightarrow> exec_io" where
  "set_reader i r s = s\<lparr>io_reader := (io_reader s)(i := r)\<rparr>"

definition send_chunk :: "bool \<Rightarrow> string \<Rightarrow> exec_io \<Rightarrow> exec_io" where
  "send_chunk i c s = s\<lparr>io_sent := (io_sent s)(i := io_sent s i @ [c])\<rparr>"

text \<open>What follows the reservation: the block, or what fits of it and the end.\<close>

definition pass_on :: "bool \<Rightarrow> string \<Rightarrow> nat \<Rightarrow> exec_io \<Rightarrow> exec_io" where
  "pass_on i buf reserved s =
     (if reserved < length buf
      then set_reader i Closed ((send_chunk i (take reserved buf) s)\<lparr>io_limited := True\<rparr>)
      else set_reader i Idle (send_chunk i buf s))"

definition BUF_LEN :: nat where "BUF_LEN = 8192"

inductive read_to_limit :: "exec_io \<Rightarrow> exec_io \<Rightarrow> bool" where
  read: "io_reader s i = Idle \<Longrightarrow> buf \<noteq> [] \<Longrightarrow> length buf \<le> BUF_LEN \<Longrightarrow>
     read_to_limit s (set_reader i (Have buf) (s\<lparr>io_read := (io_read s)(i := io_read s i @ buf)\<rparr>))"
| eof: "io_reader s i = Idle \<Longrightarrow> read_to_limit s (set_reader i Closed s)"
| load: "io_reader s i = Have buf \<Longrightarrow>
     read_to_limit s (if min (length buf) (io_budget s) = 0 then pass_on i buf 0 s else set_reader i (Loaded buf (io_budget s)) s)"
| cas_ok: "io_reader s i = Loaded buf cur \<Longrightarrow> io_budget s = cur \<Longrightarrow>
     read_to_limit s (pass_on i buf (min (length buf) cur) (s\<lparr>io_budget := cur - min (length buf) cur\<rparr>))"
| cas_fail: "io_reader s i = Loaded buf cur \<Longrightarrow> read_to_limit s (set_reader i (Have buf) s)"

inductive exec_io_reach :: "exec_io \<Rightarrow> bool" where
  start: "exec_io_reach exec_io_start"
| step: "exec_io_reach s \<Longrightarrow> read_to_limit s t \<Longrightarrow> exec_io_reach t"

inductive_cases read_to_limitE: "read_to_limit s t"

section \<open>The result\<close>

record ExecResult =
  er_exit_code :: i32
  er_stdout :: string
  er_stderr :: string
  er_error :: "string option"
  er_truncated :: bool
  er_timed_out :: bool
  er_duration_ms :: nat

definition blocked_result :: "string \<Rightarrow> ExecResult" where
  "blocked_result e = \<lparr>er_exit_code = -1, er_stdout = [], er_stderr = [], er_error = Some e, er_truncated = False,
     er_timed_out = False, er_duration_ms = 0\<rparr>"

fun concat_chunks :: "string \<Rightarrow> string list \<Rightarrow> string" where
  "concat_chunks buf [] = buf"
| "concat_chunks buf (chunk # chunks) =
     (if length buf + length chunk > MAX_OUTPUT_BYTES then buf @ take (MAX_OUTPUT_BYTES - length buf) chunk
      else concat_chunks (buf @ chunk) chunks)"

definition concatenate :: "string list \<Rightarrow> string" where
  "concatenate chunks = from_utf8_lossy (concat_chunks [] chunks)"

text \<open>
  How the run went: the child process could be started; the first of its exit (with the code, if any), the
  deadline and the full budget; for each reader, whether it ended within the grace period and with which
  error; the readers' state; the time taken.
\<close>

datatype exec_end = Exited "i32 option" | Deadline | Budget_Full

record exec_outcome =
  eo_spawn :: "(string, unit) result"
  eo_end :: exec_end
  eo_joined :: "bool \<Rightarrow> string option option"
  eo_io :: exec_io
  eo_ms :: nat

definition reader_error :: "string option \<Rightarrow> string option \<Rightarrow> string option" where
  "reader_error e1 e2 =
     (case (e1, e2) of (Some a, Some b) \<Rightarrow> Some (''stdout: '' @ a @ '', stderr: '' @ b)
      | (Some a, None) \<Rightarrow> Some a | (None, Some b) \<Rightarrow> Some b | (None, None) \<Rightarrow> None)"

definition joined_error :: "string option option \<Rightarrow> string option" where
  "joined_error j = (case j of Some e \<Rightarrow> e | None \<Rightarrow> None)"

definition exec_run ::
    "(string \<Rightarrow> string list option) \<Rightarrow> (string \<rightharpoonup> string) \<Rightarrow> (string list \<Rightarrow> u64 \<Rightarrow> exec_outcome) \<Rightarrow> string \<Rightarrow> u64 \<Rightarrow> ExecResult" where
  "exec_run parse env host command timeout_secs =
     (case exec_argv parse env command timeout_secs of
        Inl e \<Rightarrow> blocked_result e
      | Inr (as, dur) \<Rightarrow>
          (let oc = host as dur
           in case eo_spawn oc of
                Inl e \<Rightarrow> (blocked_result (''spawn failed: '' @ e))\<lparr>er_duration_ms := eo_ms oc\<rparr>
              | Inr _ \<Rightarrow>
                  (let e1 = joined_error (eo_joined oc False); e2 = joined_error (eo_joined oc True);
                       readers_aborted = (eo_joined oc False = None \<or> eo_joined oc True = None);
                       reader_failed = (e1 \<noteq> None \<or> e2 \<noteq> None)
                   in \<lparr>er_exit_code = (case eo_end oc of Exited (Some c) \<Rightarrow> c | _ \<Rightarrow> -1),
                       er_stdout = concatenate (io_sent (eo_io oc) False),
                       er_stderr = concatenate (io_sent (eo_io oc) True),
                       er_error = reader_error e1 e2,
                       er_truncated = (io_limited (eo_io oc) \<or> readers_aborted \<or> reader_failed),
                       er_timed_out = (eo_end oc = Deadline),
                       er_duration_ms = eo_ms oc\<rparr>)))"

section \<open>The invariant of the readers\<close>

text \<open>The block a reader holds, which it has read but not yet sent.\<close>

fun held :: "reader_state \<Rightarrow> string" where
  "held (Have buf) = buf" | "held (Loaded buf _) = buf" | "held _ = []"

definition sent :: "exec_io \<Rightarrow> bool \<Rightarrow> string" where
  "sent s i = concat (io_sent s i)"

text \<open>
  Budget and output add up; the loaded budget is never zero; a reader that holds a block holds a non-empty one;
  a stream that is not cut is complete up to the held block; a cut one is an initial part, its reader has ended
  and the budget is used up.
\<close>

definition reader_ok :: "exec_io \<Rightarrow> bool \<Rightarrow> bool" where
  "reader_ok s i \<longleftrightarrow>
     (\<exists>rest. io_read s i = sent s i @ rest \<and>
        (rest = held (io_reader s i) \<or> io_limited s \<and> io_budget s = 0 \<and> io_reader s i = Closed)) \<and>
     (\<forall>buf. io_reader s i = Have buf \<longrightarrow> buf \<noteq> []) \<and>
     (\<forall>buf cur. io_reader s i = Loaded buf cur \<longrightarrow> buf \<noteq> [] \<and> 0 < cur)"

definition exec_io_inv :: "exec_io \<Rightarrow> bool" where
  "exec_io_inv s \<longleftrightarrow>
     io_budget s + length (sent s False) + length (sent s True) = MAX_OUTPUT_BYTES \<and>
     (io_limited s \<longrightarrow> io_budget s = 0) \<and> reader_ok s False \<and> reader_ok s True"


lemma inv_start: "exec_io_inv exec_io_start"
  by (simp add: exec_io_inv_def reader_ok_def exec_io_start_def sent_def)

lemmas io_defs = exec_io_inv_def reader_ok_def sent_def set_reader_def send_chunk_def

text \<open>A step of one reader leaves the other's condition as long as what it depends on stays.\<close>

lemma inv_split:
  "exec_io_inv s \<longleftrightarrow> io_budget s + length (sent s i) + length (sent s (\<not> i)) = MAX_OUTPUT_BYTES \<and>
     (io_limited s \<longrightarrow> io_budget s = 0) \<and> reader_ok s i \<and> reader_ok s (\<not> i)"
  by (cases i) (auto simp: exec_io_inv_def)

lemma reader_ok_other:
  assumes "reader_ok s j" "io_reader t j = io_reader s j" "io_read t j = io_read s j" "io_sent t j = io_sent s j"
    "io_limited s \<longrightarrow> io_limited t" "io_budget s = 0 \<longrightarrow> io_budget t = 0"
  shows "reader_ok t j"
  using assms by (auto simp: reader_ok_def sent_def)

lemma inv_read:
  assumes "exec_io_inv s" "io_reader s i = Idle" "buf \<noteq> []"
  shows "exec_io_inv (set_reader i (Have buf) (s\<lparr>io_read := (io_read s)(i := io_read s i @ buf)\<rparr>))" (is "exec_io_inv ?t")
proof -
  have "reader_ok ?t (\<not> i)"
    by (rule reader_ok_other [of s]) (use assms(1) in \<open>auto simp: inv_split [of s i] set_reader_def\<close>)
  moreover have "reader_ok ?t i" using assms by (auto simp: inv_split [of s i] reader_ok_def sent_def set_reader_def)
  ultimately show ?thesis using assms(1) by (simp add: inv_split [of _ i] sent_def set_reader_def)
qed

lemma inv_set:
  assumes "exec_io_inv s" "held (io_reader s i) = held r" "io_reader s i \<noteq> Closed"
    "\<And>buf cur. r = Loaded buf cur \<Longrightarrow> 0 < cur" "\<And>buf. r = Have buf \<or> (\<exists>cur. r = Loaded buf cur) \<Longrightarrow> buf \<noteq> []"
  shows "exec_io_inv (set_reader i r s)"
proof -
  have "reader_ok (set_reader i r s) (\<not> i)"
    by (rule reader_ok_other [of s]) (use assms(1) in \<open>auto simp: inv_split [of s i] set_reader_def\<close>)
  moreover have "reader_ok (set_reader i r s) i"
  proof -
    have "io_read s i = sent s i @ held r" using assms(1,2,3) by (auto simp: inv_split [of s i] reader_ok_def)
    then show ?thesis using assms(4,5) by (cases r) (auto simp: reader_ok_def sent_def set_reader_def)
  qed
  ultimately show ?thesis using assms(1) by (simp add: inv_split [of _ i] sent_def set_reader_def)
qed

lemma inv_pass_on:
  assumes "exec_io_inv s" "held (io_reader s i) = buf" "io_reader s i \<noteq> Closed" "k = min (length buf) (io_budget s)"
  shows "exec_io_inv (pass_on i buf k (s\<lparr>io_budget := io_budget s - k\<rparr>))" (is "exec_io_inv ?t")
proof -
  have s: "io_budget s + length (sent s i) + length (sent s (\<not> i)) = MAX_OUTPUT_BYTES" "io_limited s \<longrightarrow> io_budget s = 0"
    "reader_ok s (\<not> i)" "io_read s i = sent s i @ buf"
    using assms(1,2,3) by (auto simp: inv_split [of s i] reader_ok_def)
  have "reader_ok ?t (\<not> i)"
    by (rule reader_ok_other [of s]) (use s(2,3) assms(4) in \<open>auto simp: pass_on_def set_reader_def send_chunk_def\<close>)
  moreover have "reader_ok ?t i"
  proof (cases "k < length buf")
    case True
    then have "k = io_budget s" using assms(4) by (simp add: min_def split: if_splits)
    then show ?thesis using s(4) True
      by (auto simp: pass_on_def reader_ok_def sent_def set_reader_def send_chunk_def intro: exI [of _ "drop k buf"])
  next
    case False
    then show ?thesis using s(4) by (auto simp: pass_on_def reader_ok_def sent_def set_reader_def send_chunk_def)
  qed
  moreover have "io_budget ?t + length (sent ?t i) + length (sent ?t (\<not> i)) = MAX_OUTPUT_BYTES" "io_limited ?t \<longrightarrow> io_budget ?t = 0"
    using s(1,2) assms(4) by (auto simp: pass_on_def sent_def set_reader_def send_chunk_def min_def)
  ultimately show ?thesis unfolding inv_split [of ?t i] by blast
qed

lemma inv_step: "read_to_limit s t \<Longrightarrow> exec_io_inv s \<Longrightarrow> exec_io_inv t"
proof (induction rule: read_to_limit.induct)
  case (read s i buf)
  then show ?case by (simp add: inv_read)
next
  case (eof s i)
  then show ?case by (auto intro: inv_set)
next
  case (load s i buf)
  then have ne: "buf \<noteq> []" by (auto simp: inv_split [of s i] reader_ok_def)
  show ?case
  proof (cases "io_budget s = 0")
    case True
    then have same: "s\<lparr>io_budget := io_budget s - 0\<rparr> = s" by (cases s) simp
    have "exec_io_inv (pass_on i buf 0 s)"
      using inv_pass_on [OF load(2), of i buf 0] load(1) True unfolding same by simp
    then show ?thesis using True by simp
  next
    case False
    then have nz: "min (length buf) (io_budget s) \<noteq> 0" using ne by (simp add: min_def)
    show ?thesis unfolding if_not_P [OF nz] using load ne False by (auto intro!: inv_set)
  qed
next
  case (cas_ok s i buf cur)
  then show ?case using inv_pass_on [OF cas_ok(3), of i buf "min (length buf) cur"] by simp
next
  case (cas_fail s i buf cur)
  then have "buf \<noteq> []" by (auto simp: inv_split [of s i] reader_ok_def)
  then show ?case using cas_fail by (auto intro!: inv_set)
qed

lemma inv_reach: "exec_io_reach s \<Longrightarrow> exec_io_inv s"
  by (induction rule: exec_io_reach.induct) (auto intro: inv_start inv_step)


lemma reach_reader: "exec_io_reach s \<Longrightarrow> reader_ok s i"
  using inv_reach [of s] by (cases i) (auto simp: exec_io_inv_def)

lemma reach_complete:
  "exec_io_reach s \<Longrightarrow> \<not> io_limited s \<Longrightarrow> io_reader s i \<in> {Idle, Closed} \<Longrightarrow> sent s i = io_read s i"
  using reach_reader [of s i] by (auto simp: reader_ok_def)

lemma reach_bound: "exec_io_reach s \<Longrightarrow> length (sent s i) \<le> MAX_OUTPUT_BYTES"
  using inv_reach [of s] by (cases i) (auto simp: exec_io_inv_def)

section \<open>Properties\<close>

text \<open>C33: the output budget. However the two readers interleave, the blocks they pass on are an initial part of
  each stream and together no longer than the budget; a stream is cut only when the budget is used up to the
  last byte, and as long as it is not, a reader between blocks has passed on all it read.\<close>

theorem exec_output_is_bounded:
  assumes "exec_io_reach s"
  shows "length (sent s False) + length (sent s True) \<le> MAX_OUTPUT_BYTES \<and>
    (\<forall>i. \<exists>rest. io_read s i = sent s i @ rest) \<and>
    (io_limited s \<longrightarrow> length (sent s False) + length (sent s True) = MAX_OUTPUT_BYTES) \<and>
    (\<not> io_limited s \<longrightarrow> (\<forall>i. io_reader s i \<in> {Idle, Closed} \<longrightarrow> sent s i = io_read s i))"
proof -
  have s: "exec_io_inv s" using assms by (rule inv_reach)
  have "\<exists>rest. io_read s i = sent s i @ rest" for i using reach_reader [OF assms, of i] unfolding reader_ok_def by blast
  moreover have "sent s i = io_read s i" if "\<not> io_limited s" "io_reader s i \<in> {Idle, Closed}" for i
    by (rule reach_complete [OF assms that])
  ultimately show ?thesis using s unfolding exec_io_inv_def by auto
qed

text \<open>Standard output reads two bytes and passes them on.\<close>

lemma demo_exec_reach:
  "\<exists>s. exec_io_reach s \<and> io_read s False = ''hi'' \<and> io_reader s False = Idle \<and> \<not> io_limited s"
proof -
  let ?a = "set_reader False (Have ''hi'') (exec_io_start\<lparr>io_read := (io_read exec_io_start)(False := io_read exec_io_start False @ ''hi'')\<rparr>)"
  let ?b = "set_reader False (Loaded ''hi'' (io_budget ?a)) ?a"
  let ?c = "pass_on False ''hi'' (min (length ''hi'') (io_budget ?b)) (?b\<lparr>io_budget := io_budget ?b - min (length ''hi'') (io_budget ?b)\<rparr>)"
  have "exec_io_reach ?a"
    by (rule exec_io_reach.step [OF exec_io_reach.start], rule read_to_limit.read)
      (simp_all add: exec_io_start_def BUF_LEN_def)
  moreover have "read_to_limit ?a ?b"
    using read_to_limit.load [of ?a False "''hi''"] by (simp add: set_reader_def exec_io_start_def MAX_OUTPUT_BYTES_def)
  moreover have "read_to_limit ?b ?c"
    by (rule read_to_limit.cas_ok) (simp_all add: set_reader_def)
  ultimately have "exec_io_reach ?c" by (blast intro: exec_io_reach.step)
  then show ?thesis
    by (rule exI [of _ ?c, OF conjI])
      (simp add: pass_on_def set_reader_def send_chunk_def exec_io_start_def MAX_OUTPUT_BYTES_def)
qed

theorem exec_output_is_bounded_witness:
  "\<exists>s. exec_io_reach s \<and> sent s False = ''hi'' \<and> length (sent s False) + length (sent s True) \<le> MAX_OUTPUT_BYTES"
proof -
  obtain s where s: "exec_io_reach s" "io_read s False = ''hi''" "io_reader s False = Idle" "\<not> io_limited s"
    using demo_exec_reach by blast
  from exec_output_is_bounded [OF s(1)] s show ?thesis by auto
qed

text \<open>Progress. From every state a reader that has not ended can end by steps of its
  own alone, without the other moving: a failed exchange is retried and never waits for the other reader.\<close>

theorem exec_reader_can_always_finish:
  "\<exists>t. read_to_limit\<^sup>*\<^sup>* s t \<and> io_reader t i = Closed \<and> io_reader t (\<not> i) = io_reader s (\<not> i)"
proof -
  have other: "io_reader (set_reader i r u) (\<not> i) = io_reader u (\<not> i)"
    "io_reader (pass_on i buf k u) (\<not> i) = io_reader u (\<not> i)" "io_reader (set_reader i r u) i = r"
    "io_reader (pass_on i buf k u) i \<in> {Idle, Closed}" for r u buf k
    by (simp_all add: set_reader_def pass_on_def send_chunk_def)
  have idle: "\<exists>t. read_to_limit\<^sup>*\<^sup>* u t \<and> io_reader t i = Closed \<and> io_reader t (\<not> i) = io_reader u (\<not> i)"
    if "io_reader u i \<in> {Idle, Closed}" for u
  proof (cases "io_reader u i = Idle")
    case True
    then show ?thesis using read_to_limit.eof [of u i] other(1,3) by (blast intro: r_into_rtranclp)
  qed (use that in auto)
  have loaded: "\<exists>t. read_to_limit u t \<and> io_reader t i \<in> {Idle, Closed} \<and> io_reader t (\<not> i) = io_reader u (\<not> i)"
    if "io_reader u i = Loaded buf (io_budget u)" for u buf
    using read_to_limit.cas_ok [OF that refl] other
    by (intro exI [of _ "pass_on i buf (min (length buf) (io_budget u)) (u\<lparr>io_budget := io_budget u - min (length buf) (io_budget u)\<rparr>)"] conjI) auto
  have have_block: "\<exists>t. read_to_limit\<^sup>*\<^sup>* u t \<and> io_reader t i \<in> {Idle, Closed} \<and> io_reader t (\<not> i) = io_reader u (\<not> i)"
    if u: "io_reader u i = Have buf" for u buf
  proof (cases "min (length buf) (io_budget u) = 0")
    case True
    then have "read_to_limit u (pass_on i buf 0 u)" using read_to_limit.load [OF u] by simp
    then show ?thesis using other(2,4) by (intro exI [of _ "pass_on i buf 0 u"] conjI) (auto intro: r_into_rtranclp)
  next
    case False
    let ?v = "set_reader i (Loaded buf (io_budget u)) u"
    have v: "read_to_limit u ?v" using read_to_limit.load [OF u] False by simp
    have "io_reader ?v i = Loaded buf (io_budget ?v)" by (simp add: set_reader_def)
    from loaded [OF this] obtain t where "read_to_limit ?v t" "io_reader t i \<in> {Idle, Closed}" "io_reader t (\<not> i) = io_reader ?v (\<not> i)" by blast
    with v show ?thesis by (intro exI [of _ t] conjI) (auto simp: other(1) intro: converse_rtranclp_into_rtranclp)
  qed
  have "\<exists>u. read_to_limit\<^sup>*\<^sup>* s u \<and> io_reader u i \<in> {Idle, Closed} \<and> io_reader u (\<not> i) = io_reader s (\<not> i)"
  proof (cases "io_reader s i")
    case (Have buf)
    then show ?thesis by (rule have_block)
  next
    case (Loaded buf cur)
    then have "read_to_limit s (set_reader i (Have buf) s)" by (rule read_to_limit.cas_fail)
    moreover obtain t where "read_to_limit\<^sup>*\<^sup>* (set_reader i (Have buf) s) t" "io_reader t i \<in> {Idle, Closed}"
        "io_reader t (\<not> i) = io_reader (set_reader i (Have buf) s) (\<not> i)"
      using have_block [of "set_reader i (Have buf) s" buf] other(3) by blast
    ultimately show ?thesis using other(1) by (intro exI [of _ t] conjI) (auto intro: converse_rtranclp_into_rtranclp)
  qed auto
  then show ?thesis using idle by (metis rtranclp_trans)
qed


lemma concat_chunks_fit: "length buf + length (concat cs) \<le> MAX_OUTPUT_BYTES \<Longrightarrow> concat_chunks buf cs = buf @ concat cs"
  by (induction cs arbitrary: buf) auto

lemma exec_argv_Inl:
  "parse_command_allowlist parse (env EXEC_ALLOWLIST_ENV) = Inr allow \<Longrightarrow> trim_ws command \<notin> set allow \<Longrightarrow>
   exec_argv parse env command t = Inl ''command blocked by agent execution allow-list''"
  by (simp add: exec_argv_def command_allowed_def)

text \<open>What an execution reports. Without a list, or if the trimmed command is not literally on it, nothing is
  started and the result is the refusal, whatever the host would do. Otherwise the shell gets exactly the command,
  with a time limit between a second and an hour, and when the result is not marked truncated, its two texts are
  everything the two streams produced.\<close>

theorem exec_result_is_what_ran:
  "(case parse_command_allowlist parse (env EXEC_ALLOWLIST_ENV) of
      Inl e \<Rightarrow> exec_run parse env host command t = blocked_result e
    | Inr allow \<Rightarrow>
        if trim_ws command = [] \<or> trim_ws command \<notin> set allow
        then exec_run parse env host command t = blocked_result ''command blocked by agent execution allow-list''
        else let oc = host [''/bin/sh'', ''-c'', command] (min (max t 1) 3600); r = exec_run parse env host command t
             in (exec_io_reach (eo_io oc) \<and> (\<forall>i. eo_joined oc i \<noteq> None \<longrightarrow> io_reader (eo_io oc) i = Closed) \<and>
                 eo_spawn oc = Inr () \<and> \<not> er_truncated r \<longrightarrow>
                   er_stdout r = from_utf8_lossy (io_read (eo_io oc) False) \<and>
                   er_stderr r = from_utf8_lossy (io_read (eo_io oc) True) \<and> er_error r = None))"
proof (cases "parse_command_allowlist parse (env EXEC_ALLOWLIST_ENV)")
  case (Inl e)
  then show ?thesis by (simp add: exec_run_def exec_argv_def)
next
  case (Inr allow)
  show ?thesis
  proof (cases "trim_ws command = [] \<or> trim_ws command \<notin> set allow")
    case True
    then show ?thesis using Inr by (simp add: exec_run_def exec_argv_def command_allowed_def)
  next
    case False
    let ?oc = "host [''/bin/sh'', ''-c'', command] (min (max t 1) 3600)"
    let ?r = "exec_run parse env host command t"
    have "er_stdout ?r = from_utf8_lossy (io_read (eo_io ?oc) False) \<and>
        er_stderr ?r = from_utf8_lossy (io_read (eo_io ?oc) True) \<and> er_error ?r = None"
      if io: "exec_io_reach (eo_io ?oc)" and closed: "\<forall>i. eo_joined ?oc i \<noteq> None \<longrightarrow> io_reader (eo_io ?oc) i = Closed"
        and sp: "eo_spawn ?oc = Inr ()" and nt: "\<not> er_truncated ?r"
    proof -
      let ?s = "eo_io ?oc"
      have argv: "exec_argv parse env command t = Inr ([''/bin/sh'', ''-c'', command], min (max t 1) 3600)"
        using Inr False by (simp add: exec_argv_def command_allowed_def)
      have j: "\<not> io_limited ?s" "eo_joined ?oc False = Some None" "eo_joined ?oc True = Some None" "er_error ?r = None"
        using nt sp argv by (auto simp: exec_run_def Let_def reader_error_def joined_error_def split: option.splits)
      have "io_reader ?s i = Closed" for i using closed j(2,3) by (cases i) auto
      then have "concatenate (io_sent ?s i) = from_utf8_lossy (io_read ?s i)" for i
        using reach_complete [OF io j(1), of i] reach_bound [OF io, of i] concat_chunks_fit [of "[]" "io_sent ?s i"]
        by (simp add: concatenate_def sent_def)
      then show ?thesis using j(4) argv sp by (simp add: exec_run_def Let_def)
    qed
    then show ?thesis using Inr False by (simp add: Let_def)
  qed
qed

text \<open>A host on which \<open>uptime\<close> prints nothing and exits.\<close>

definition demo_outcome :: exec_outcome where
  "demo_outcome = \<lparr>eo_spawn = Inr (), eo_end = Exited (Some 0), eo_joined = (\<lambda>_. Some None),
     eo_io = set_reader True Closed (set_reader False Closed exec_io_start), eo_ms = 5\<rparr>"

lemma demo_outcome_io: "exec_io_reach (eo_io demo_outcome)" "io_reader (eo_io demo_outcome) i = Closed"
proof -
  have "exec_io_reach (set_reader False Closed exec_io_start)"
    by (rule exec_io_reach.step [OF exec_io_reach.start], rule read_to_limit.eof) (simp add: exec_io_start_def)
  then have "exec_io_reach (set_reader True Closed (set_reader False Closed exec_io_start))"
    by (rule exec_io_reach.step, intro read_to_limit.eof) (simp add: set_reader_def exec_io_start_def)
  then show "exec_io_reach (eo_io demo_outcome)" by (simp add: demo_outcome_def)
  show "io_reader (eo_io demo_outcome) i = Closed" by (simp add: demo_outcome_def set_reader_def)
qed

definition demo_exec_env :: "string \<rightharpoonup> string" where
  "demo_exec_env = [EXEC_ALLOWLIST_ENV \<mapsto> ''j'']"

lemma demo_allow: "parse_command_allowlist (\<lambda>_. Some [''uptime'']) (demo_exec_env EXEC_ALLOWLIST_ENV) = Inr [''uptime'']"
  by code_simp

lemma demo_trim: "trim_ws ''uptime'' = ''uptime''"
  by code_simp

lemma demo_not_truncated: "\<not> er_truncated (exec_run (\<lambda>_. Some [''uptime'']) demo_exec_env (\<lambda>_ _. demo_outcome) ''uptime'' 0)"
  using demo_allow demo_trim
  by (simp add: exec_run_def exec_argv_def command_allowed_def Let_def demo_outcome_def joined_error_def set_reader_def exec_io_start_def)

theorem exec_result_is_what_ran_witness:
  "er_error (exec_run (\<lambda>_. Some [''uptime'']) demo_exec_env (\<lambda>_ _. demo_outcome) ''uptime'' 0) = None"
  using exec_result_is_what_ran [of "\<lambda>_. Some [''uptime'']" demo_exec_env "\<lambda>_ _. demo_outcome" "''uptime''" 0]
    demo_allow demo_trim demo_outcome_io demo_not_truncated
  by (simp add: Let_def demo_outcome_def)

end
