(* ===== verification/Agent_Start.thy ===== *)
theory Agent_Start
  imports Job_Handlers
begin

text \<open>
  \<open>agent/src/credentials.rs\<close> and the start of \<open>agent/src/main.rs\<close>: the agent's three credential files, the
  runtime mode it accepts to run in, pairing, rotation and the loop that connects to the server.

  The state directory is a map from file names to nodes, and the system calls that fail are given by an oracle,
  so a crash in the middle of \<open>persist\<close> leaves what \<open>persist\<close> leaves when the next call fails. The
  network is a record of functions over a state of its own (\<open>net\<close>). A locale states what the agent relies on
  of a control plane; it is interpreted on the server's own handlers. Shown: the connect loop tries at most
  four bearers, restricted mode is unprivileged, and a rotation that was cut off is recovered by the
  restarted agent exactly when the refresh token had reached the disk.
\<close>

section \<open>Credential store\<close>

datatype io_error = InvalidInput string | InvalidData string | OtherIo string | SysCall string

datatype node = Regular string | Directory | Symlink | Special

type_synonym state_dir = "string \<rightharpoonup> node"

definition ACCESS_TOKEN_FILE :: string where "ACCESS_TOKEN_FILE = ''agent-token.txt''"
definition REFRESH_TOKEN_FILE :: string where "REFRESH_TOKEN_FILE = ''agent-refresh.txt''"
definition TOKEN_EXPIRY_FILE :: string where "TOKEN_EXPIRY_FILE = ''agent-token-expiry.txt''"
definition MAX_CREDENTIAL_BYTES :: nat where "MAX_CREDENTIAL_BYTES = 16 * 1024"

text \<open>\<open>O_NOFOLLOW\<close>: a symbolic link is not opened.\<close>

definition open_secret :: "fault \<Rightarrow> state_dir \<Rightarrow> string \<Rightarrow> (io_error, node option) result" where
  "open_secret flt d f =
     (if flt (''open '' @ f) then Inl (SysCall ''open'')
      else case d f of Some Symlink \<Rightarrow> Inl (SysCall ''ELOOP'') | x \<Rightarrow> Inr x)"

definition read_trimmed :: "fault \<Rightarrow> state_dir \<Rightarrow> string \<Rightarrow> (io_error, string option) result" where
  "read_trimmed flt d f =
     (case open_secret flt d f of
        Inl e \<Rightarrow> Inl e
      | Inr None \<Rightarrow> Inr None
      | Inr (Some (Regular content)) \<Rightarrow>
          if flt (''read '' @ f) then Inl (SysCall ''read'')
          else (let bytes = take (MAX_CREDENTIAL_BYTES + 1) content
                in if length bytes > MAX_CREDENTIAL_BYTES then Inl (InvalidData ''credential exceeds 16384-byte limit'')
                   else if \<not> valid_utf8 bytes then Inl (InvalidData ''invalid utf-8 sequence'')
                   else (let v = trim_ws bytes in Inr (if v = [] then None else Some v)))
      | Inr (Some _) \<Rightarrow> Inl (OtherIo ''credential path is not a regular file''))"

definition access_token :: "fault \<Rightarrow> state_dir \<Rightarrow> (io_error, string option) result" where
  "access_token flt d = read_trimmed flt d ACCESS_TOKEN_FILE"

definition refresh_token :: "fault \<Rightarrow> state_dir \<Rightarrow> (io_error, string option) result" where
  "refresh_token flt d = read_trimmed flt d REFRESH_TOKEN_FILE"

definition token_expiry :: "fault \<Rightarrow> state_dir \<Rightarrow> (io_error, int option) result" where
  "token_expiry flt d =
     (case read_trimmed flt d TOKEN_EXPIRY_FILE of
        Inl e \<Rightarrow> Inl e
      | Inr None \<Rightarrow> Inr None
      | Inr (Some raw) \<Rightarrow>
          (case parse_i64 raw of Some i \<Rightarrow> Inr (Some i) | None \<Rightarrow> Inl (InvalidData ''invalid agent token expiry'')))"

text \<open>
  The temporary file is renamed over the target, which fails on a directory; a failure before the rename changes
  nothing, one while the directory is synchronised comes after the change.
\<close>

definition atomic_write :: "fault \<Rightarrow> string \<Rightarrow> string \<Rightarrow> state_dir \<Rightarrow> state_dir \<times> (io_error, unit) result" where
  "atomic_write flt f contents d =
     (if flt (''write '' @ f) then (d, Inl (SysCall ''write''))
      else if d f = Some Directory then (d, Inl (SysCall ''rename''))
      else (d(f \<mapsto> Regular contents), if flt (''sync '' @ f) then Inl (SysCall ''sync'') else Inr ()))"

definition replace_optional ::
    "fault \<Rightarrow> string \<Rightarrow> string option \<Rightarrow> state_dir \<Rightarrow> state_dir \<times> (io_error, unit) result" where
  "replace_optional flt f contents d =
     (case contents of
        Some c \<Rightarrow> atomic_write flt f c d
      | None \<Rightarrow>
          if d f = None then (d, Inr ())
          else if flt (''remove '' @ f) \<or> d f = Some Directory then (d, Inl (SysCall ''remove''))
          else (d(f := None), if flt (''sync '' @ f) then Inl (SysCall ''sync'') else Inr ()))"

definition non_blank :: "string option \<Rightarrow> string option" where
  "non_blank x = (case x of Some v \<Rightarrow> if trim_ws v = [] then None else Some v | None \<Rightarrow> None)"

definition persist ::
    "fault \<Rightarrow> string \<Rightarrow> string option \<Rightarrow> int option \<Rightarrow> state_dir \<Rightarrow> state_dir \<times> (io_error, unit) result" where
  "persist flt access refresh expires_at d =
     (if trim_ws access = [] then (d, Inl (InvalidInput ''access token must not be empty''))
      else if length access > MAX_CREDENTIAL_BYTES
      then (d, Inl (InvalidInput ''access token exceeds credential size limit''))
      else if (case refresh of Some v \<Rightarrow> length v > MAX_CREDENTIAL_BYTES | None \<Rightarrow> False)
      then (d, Inl (InvalidInput ''refresh token exceeds credential size limit''))
      else case replace_optional flt REFRESH_TOKEN_FILE (non_blank refresh) d of
             (d1, Inl e) \<Rightarrow> (d1, Inl e)
           | (d1, Inr _) \<Rightarrow>
               (case replace_optional flt TOKEN_EXPIRY_FILE (map_option int_to_dec expires_at) d1 of
                  (d2, Inl e) \<Rightarrow> (d2, Inl e)
                | (d2, Inr _) \<Rightarrow> atomic_write flt ACCESS_TOKEN_FILE access d2))"

section \<open>Runtime mode\<close>

datatype AgentRuntimeMode = Managed | Restricted

fun parse_runtime_mode :: "string option \<Rightarrow> (string, AgentRuntimeMode) result" where
  "parse_runtime_mode None = Inr Managed"
| "parse_runtime_mode (Some v) =
     (if v = ''managed'' then Inr Managed
      else if v = ''restricted'' then Inr Restricted
      else Inl (''invalid SHELLFLEET_AGENT_MODE='' @ debug_str v @ ''; expected managed or restricted''))"

fun validate_runtime :: "AgentRuntimeMode \<Rightarrow> u32 \<Rightarrow> u64 \<Rightarrow> bool \<Rightarrow> (string, unit) result" where
  "validate_runtime Managed uid caps in_docker =
     (if uid \<noteq> 0 then Inl ''managed mode requires root; use shellfleet-agent-mode to change modes'' else Inr ())"
| "validate_runtime Restricted uid caps in_docker =
     (if uid = 0 then Inl ''restricted mode refuses root; use the packaged managed mode for host administration''
      else if caps \<noteq> 0 then Inl ''restricted mode refuses effective Linux capabilities''
      else if in_docker then Inl ''restricted mode refuses membership in the root-equivalent docker group''
      else Inr ())"

text \<open>\<open>u64::from_str_radix(_, 16)\<close> and \<open>parse::<gid_t>\<close>: an optional plus sign, digits, and no overflow.\<close>

definition hex_value :: "char \<Rightarrow> nat option" where
  "hex_value c =
     (let n = (of_char c :: nat)
      in if 48 \<le> n \<and> n \<le> 57 then Some (n - 48) else if 97 \<le> n \<and> n \<le> 102 then Some (n - 87)
         else if 65 \<le> n \<and> n \<le> 70 then Some (n - 55) else None)"

fun parse_hex :: "string \<Rightarrow> nat \<Rightarrow> nat option" where
  "parse_hex [] acc = Some acc"
| "parse_hex (c # cs) acc = (case hex_value c of None \<Rightarrow> None | Some v \<Rightarrow> parse_hex cs (16 * acc + v))"

definition unsigned_body :: "string \<Rightarrow> string" where
  "unsigned_body s = (case s of CHR ''+'' # c # cs \<Rightarrow> c # cs | _ \<Rightarrow> s)"

definition from_str_radix16 :: "string \<Rightarrow> u64 option" where
  "from_str_radix16 s =
     (if s = [] then None
      else case parse_hex (unsigned_body s) 0 of
             Some n \<Rightarrow> if n < 2 ^ 64 then Some (word_of_nat n) else None
           | None \<Rightarrow> None)"

definition parse_u32 :: "string \<Rightarrow> u32 option" where
  "parse_u32 s =
     (if s = [] then None
      else case parse_digits (unsigned_body s) of
             Some n \<Rightarrow> if n < 2 ^ 32 then Some (word_of_nat n) else None
           | None \<Rightarrow> None)"

fun find_map :: "('a \<Rightarrow> 'b option) \<Rightarrow> 'a list \<Rightarrow> 'b option" where
  "find_map f [] = None"
| "find_map f (x # xs) = (case f x of Some y \<Rightarrow> Some y | None \<Rightarrow> find_map f xs)"

definition effective_capabilities :: "string option \<Rightarrow> u64" where
  "effective_capabilities status =
     (case Option.bind (Option.bind status (\<lambda>s. find_map (strip_prefix_str (''CapEff:'' @ [char_of (9 :: nat)])) (str_lines s)))
             (\<lambda>h. from_str_radix16 (trim_ws h)) of Some c \<Rightarrow> c | None \<Rightarrow> 0)"

definition docker_line :: "string \<Rightarrow> u32 option" where
  "docker_line line =
     (let fs = split_on CHR '':'' line
      in if hd fs = ''docker'' \<and> 2 < length fs then parse_u32 (fs ! 2) else None)"

definition docker_gid :: "string option \<Rightarrow> u32 option" where
  "docker_gid groups = Option.bind groups (\<lambda>g. find_map docker_line (str_lines g))"

text \<open>What \<open>assert_runtime_mode\<close> asks the system for; \<open>sys_groups\<close> is the answer of \<open>getgroups\<close>, if it has one.\<close>

record sys =
  sys_mode :: "string option"
  sys_euid :: u32
  sys_status :: "string option"
  sys_group_file :: "string option"
  sys_groups :: "u32 list option"

definition in_docker_group :: "sys \<Rightarrow> bool" where
  "in_docker_group S =
     (case docker_gid (sys_group_file S) of None \<Rightarrow> False
      | Some g \<Rightarrow> (case sys_groups S of None \<Rightarrow> False | Some gs \<Rightarrow> g \<in> set gs))"

text \<open>\<open>Inl\<close>: the exit status.\<close>

definition assert_runtime_mode :: "sys \<Rightarrow> (nat, AgentRuntimeMode) result" where
  "assert_runtime_mode S =
     (case parse_runtime_mode (sys_mode S) of Inl _ \<Rightarrow> Inl 78
      | Inr m \<Rightarrow>
          (case validate_runtime m (sys_euid S) (effective_capabilities (sys_status S)) (in_docker_group S) of
             Inl _ \<Rightarrow> Inl 78
           | Inr _ \<Rightarrow> Inr m))"

section \<open>Pairing and rotation\<close>

record DeviceAuthResponse =
  da_device_code :: string
  da_user_code :: string
  da_verification_uri :: string
  da_interval :: nat

datatype DeviceTokenResponse = DT_Token string "string option" "int option" | DT_Error string

definition REFRESH_PROACTIVE_SECS :: int where "REFRESH_PROACTIVE_SECS = 300"

datatype handshake = Connected | HttpRejected nat | HandshakeError | TimedOut

text \<open>
  The network as the agent meets it, over a state \<open>'w\<close>. An answer that did not arrive or did not parse is
  \<open>None\<close>; a refresh answer carries whether its status is a success. \<open>n_disk\<close> says which system calls fail
  at the moment, \<open>n_sleep\<close> lets seconds pass.
\<close>

record 'w net =
  n_now :: "'w \<Rightarrow> int"
  n_disk :: "'w \<Rightarrow> fault"
  n_sleep :: "nat \<Rightarrow> 'w \<Rightarrow> 'w"
  n_request :: "'w \<Rightarrow> 'w \<times> DeviceAuthResponse option"
  n_token :: "string \<Rightarrow> 'w \<Rightarrow> 'w \<times> DeviceTokenResponse option"
  n_refresh :: "string \<Rightarrow> 'w \<Rightarrow> 'w \<times> (bool \<times> DeviceTokenResponse option) option"
  n_connect :: "string \<Rightarrow> 'w \<Rightarrow> 'w \<times> handshake"

definition saturating_i64 :: "int \<Rightarrow> int" where
  "saturating_i64 i = max (- (2 ^ 63)) (min i (2 ^ 63 - 1))"

definition persist_token_triple ::
    "fault \<Rightarrow> int \<Rightarrow> string \<Rightarrow> string option \<Rightarrow> int option \<Rightarrow> state_dir \<Rightarrow> state_dir \<times> (io_error, unit) result" where
  "persist_token_triple flt now access refresh expires_in d =
     persist flt access refresh (map_option (\<lambda>secs. saturating_i64 (now + secs)) expires_in) d"

datatype pair_result = Paired string | Pair_Exit nat | Pair_Panic | Pair_Waiting

text \<open>The polling loop, for at most the given number of polls; \<open>Pair_Waiting\<close> when it is still polling then.\<close>

fun pair_loop ::
    "nat \<Rightarrow> 'w net \<Rightarrow> DeviceAuthResponse \<Rightarrow> state_dir \<Rightarrow> 'w \<Rightarrow> state_dir \<times> 'w \<times> pair_result" where
  "pair_loop 0 N auth d w = (d, w, Pair_Waiting)"
| "pair_loop (Suc k) N auth d w =
     (case n_token N (da_device_code auth) (n_sleep N (da_interval auth) w) of
        (w', None) \<Rightarrow> pair_loop k N auth d w'
      | (w', Some (DT_Token access refresh expires_in)) \<Rightarrow>
          (case persist_token_triple (n_disk N w') (n_now N w') access refresh expires_in d of
             (d', Inl _) \<Rightarrow> (d', w', Pair_Exit 1)
           | (d', Inr _) \<Rightarrow> (d', w', Paired access))
      | (w', Some (DT_Error error)) \<Rightarrow>
          if error \<noteq> ''authorization_pending'' then (d, w', Pair_Exit 1) else pair_loop k N auth d w')"

definition pair :: "nat \<Rightarrow> 'w net \<Rightarrow> state_dir \<Rightarrow> 'w \<Rightarrow> state_dir \<times> 'w \<times> pair_result" where
  "pair k N d w =
     (case n_request N w of (w', None) \<Rightarrow> (d, w', Pair_Panic) | (w', Some auth) \<Rightarrow> pair_loop k N auth d w')"

definition refresh_token_pair :: "'w net \<Rightarrow> string \<Rightarrow> state_dir \<Rightarrow> 'w \<Rightarrow> state_dir \<times> 'w \<times> string option" where
  "refresh_token_pair N refresh d w =
     (case n_refresh N refresh w of
        (w', Some (True, Some (DT_Token access new_refresh expires_in))) \<Rightarrow>
          (case persist_token_triple (n_disk N w') (n_now N w') access new_refresh expires_in d of
             (d', Inl _) \<Rightarrow> (d', w', None)
           | (d', Inr _) \<Rightarrow> (d', w', Some access))
      | (w', _) \<Rightarrow> (d, w', None))"

datatype PairingMode = RequireExisting | Always | IfNeeded

definition pairing_mode :: "string list \<Rightarrow> PairingMode" where
  "pairing_mode args =
     (if list_ex (\<lambda>a. a = ''--pair'' \<or> a = ''pair'') args then Always
      else if list_ex (\<lambda>a. a = ''--pair-if-needed'') args then IfNeeded
      else RequireExisting)"

definition should_read_stored_credentials :: "PairingMode \<Rightarrow> bool" where
  "should_read_stored_credentials mode \<longleftrightarrow> mode \<noteq> Always"

definition should_pair_after_rejection :: "PairingMode \<Rightarrow> nat option \<Rightarrow> bool" where
  "should_pair_after_rejection mode status \<longleftrightarrow> mode = IfNeeded \<and> status = Some 401"

definition should_refresh_after_rejection :: "nat option \<Rightarrow> bool" where
  "should_refresh_after_rejection status \<longleftrightarrow> status = Some 401"

fun websocket_rejection_status :: "handshake \<Rightarrow> nat option" where
  "websocket_rejection_status (HttpRejected code) = Some code"
| "websocket_rejection_status _ = None"

section \<open>Starting and connecting\<close>

datatype start_outcome = Online_As string | Exit nat | Panicked | Waiting

fun pair_outcome :: "pair_result \<Rightarrow> (start_outcome, string) result" where
  "pair_outcome (Paired t) = Inr t"
| "pair_outcome (Pair_Exit c) = Inl (Exit c)"
| "pair_outcome Pair_Panic = Inl Panicked"
| "pair_outcome Pair_Waiting = Inl Waiting"

text \<open>A read whose error is reported and taken for an absent file.\<close>

definition or_none :: "('e, 'a option) result \<Rightarrow> 'a option" where
  "or_none r = (case r of Inr x \<Rightarrow> x | Inl _ \<Rightarrow> None)"

definition stored_token :: "fault \<Rightarrow> PairingMode \<Rightarrow> state_dir \<Rightarrow> (start_outcome, string option) result" where
  "stored_token flt mode d =
     (if should_read_stored_credentials mode
      then (case access_token flt d of Inl _ \<Rightarrow> Inl (Exit 1) | Inr t \<Rightarrow> Inr t)
      else Inr None)"

text \<open>The token to start with, and whether a rejection may still be repaired by pairing.\<close>

definition select_token ::
    "nat \<Rightarrow> 'w net \<Rightarrow> PairingMode \<Rightarrow> state_dir \<Rightarrow> 'w \<Rightarrow> state_dir \<times> 'w \<times> (start_outcome, string \<times> bool) result" where
  "select_token k N mode d w =
     (case stored_token (n_disk N w) mode d of
        Inl e \<Rightarrow> (d, w, Inl e)
      | Inr stored \<Rightarrow>
          (case (mode, stored) of
             (IfNeeded, Some t) \<Rightarrow> (d, w, Inr (t, True))
           | (RequireExisting, Some t) \<Rightarrow> (d, w, Inr (t, False))
           | (RequireExisting, None) \<Rightarrow> (d, w, Inl (Exit 1))
           | _ \<Rightarrow> (case pair k N d w of (d', w', p) \<Rightarrow> (d', w', map_sum id (\<lambda>t. (t, False)) (pair_outcome p)))))"

text \<open>\<open>i64\<close> subtraction, which wraps in a release build.\<close>

definition wrap_i64 :: "int \<Rightarrow> int" where
  "wrap_i64 i = (i + 2 ^ 63) mod 2 ^ 64 - 2 ^ 63"

definition is_stale :: "int option \<Rightarrow> int \<Rightarrow> bool" where
  "is_stale expiry now \<longleftrightarrow> (case expiry of None \<Rightarrow> True | Some e \<Rightarrow> wrap_i64 (e - now) < REFRESH_PROACTIVE_SECS)"

definition proactive_refresh :: "'w net \<Rightarrow> string \<Rightarrow> state_dir \<Rightarrow> 'w \<Rightarrow> state_dir \<times> 'w \<times> string" where
  "proactive_refresh N token d w =
     (case or_none (refresh_token (n_disk N w) d) of
        None \<Rightarrow> (d, w, token)
      | Some refresh \<Rightarrow>
          if is_stale (or_none (token_expiry (n_disk N w) d)) (n_now N w)
          then (case refresh_token_pair N refresh d w of
                  (d', w', Some t) \<Rightarrow> (d', w', t)
                | (d', w', None) \<Rightarrow> (d', w', token))
          else (d, w, token))"

text \<open>A bearer that is not a header value, and an address that is none, end the process.\<close>

definition header_value_ok :: "string \<Rightarrow> bool" where
  "header_value_ok s \<longleftrightarrow>
     list_all (\<lambda>c. (of_char c :: nat) = 9 \<or> (32 \<le> (of_char c :: nat) \<and> (of_char c :: nat) \<noteq> 127)) s"

definition bearer_header :: "string \<Rightarrow> string" where
  "bearer_header token = ''Bearer '' @ token"

text \<open>What a rejected connection leads to: a rotation, a fresh pairing, or the end.\<close>

definition try_refresh :: "'w net \<Rightarrow> bool \<Rightarrow> nat option \<Rightarrow> state_dir \<Rightarrow> 'w \<Rightarrow> state_dir \<times> 'w \<times> string option" where
  "try_refresh N refreshed status d w =
     (if \<not> refreshed \<and> should_refresh_after_rejection status
      then (case or_none (refresh_token (n_disk N w) d) of
              None \<Rightarrow> (d, w, None)
            | Some refresh \<Rightarrow> refresh_token_pair N refresh d w)
      else (d, w, None))"

lemma try_refresh_Some: "try_refresh N refreshed status d w = (d', w', Some t) \<Longrightarrow> \<not> refreshed"
  by (simp add: try_refresh_def split: if_splits)

text \<open>The result lists the bearers presented, in order.\<close>

function connect_loop ::
    "nat \<Rightarrow> 'w net \<Rightarrow> bool \<Rightarrow> PairingMode \<Rightarrow> bool \<Rightarrow> bool \<Rightarrow> string \<Rightarrow> state_dir \<Rightarrow> 'w
      \<Rightarrow> state_dir \<times> 'w \<times> start_outcome \<times> string list" where
  "connect_loop k N url_ok mode repair refreshed token d w =
     (if \<not> url_ok \<or> \<not> header_value_ok (bearer_header token) then (d, w, Exit 1, [])
      else case n_connect N token w of
        (w1, Connected) \<Rightarrow> (d, w1, Online_As token, [token])
      | (w1, TimedOut) \<Rightarrow> (d, w1, Exit 1, [token])
      | (w1, rejection) \<Rightarrow>
          (let status = websocket_rejection_status rejection
           in case try_refresh N refreshed status d w1 of
                (d2, w2, Some t) \<Rightarrow>
                  (case connect_loop k N url_ok mode repair True t d2 w2 of
                     (d3, w3, r, ts) \<Rightarrow> (d3, w3, r, token # ts))
              | (d2, w2, None) \<Rightarrow>
                  if repair \<and> should_pair_after_rejection mode status
                  then (case pair k N d2 w2 of
                          (d3, w3, Paired t) \<Rightarrow>
                            (case connect_loop k N url_ok mode False False t d3 w3 of
                               (d4, w4, r, ts) \<Rightarrow> (d4, w4, r, token # ts))
                        | (d3, w3, Pair_Exit c) \<Rightarrow> (d3, w3, Exit c, [token])
                        | (d3, w3, Pair_Panic) \<Rightarrow> (d3, w3, Panicked, [token])
                        | (d3, w3, Pair_Waiting) \<Rightarrow> (d3, w3, Waiting, [token]))
                  else (d2, w2, Exit 1, [token])))"
  by pat_completeness auto
termination
  by (relation "measure (\<lambda>(k, N, url_ok, mode, repair, refreshed, token, d, w).
        (if repair then 2 else 0) + (if refreshed then 0 else 1))")
    (auto dest: try_refresh_Some [OF sym])

declare connect_loop.simps [simp del]

definition agent_main ::
    "nat \<Rightarrow> 'w net \<Rightarrow> bool \<Rightarrow> sys \<Rightarrow> string list \<Rightarrow> state_dir \<Rightarrow> 'w
      \<Rightarrow> state_dir \<times> 'w \<times> start_outcome \<times> string list" where
  "agent_main k N url_ok S args d w =
     (let mode = pairing_mode args
      in case assert_runtime_mode S of
           Inl c \<Rightarrow> (d, w, Exit c, [])
         | Inr _ \<Rightarrow>
             (case select_token k N mode d w of
                (d1, w1, Inl e) \<Rightarrow> (d1, w1, e, [])
              | (d1, w1, Inr (token, repair)) \<Rightarrow>
                  (case proactive_refresh N token d1 w1 of
                     (d2, w2, token') \<Rightarrow> connect_loop k N url_ok mode repair False token' d2 w2)))"

section \<open>Lemmas\<close>

subsection \<open>Tokens and files\<close>

definition wf_token :: "string \<Rightarrow> bool" where
  "wf_token t \<longleftrightarrow> t \<noteq> [] \<and> length t \<le> MAX_CREDENTIAL_BYTES \<and> list_all is_ascii_alphanumeric t"

lemma alnum_ascii: "is_ascii_alphanumeric c \<Longrightarrow> (of_char c :: nat) < 123 \<and> 48 \<le> (of_char c :: nat)"
  by (auto simp: is_ascii_alphanumeric_def Let_def)

lemma ascii_step: "(of_char c :: nat) < 128 \<Longrightarrow> utf8_step c cs = (1, True)"
  by (simp add: utf8_step_def wanted_def)

lemma ascii_chars: "list_all (\<lambda>c. (of_char c :: nat) < 128) s \<Longrightarrow> chars s = map (\<lambda>c. [c]) s \<and> valid_utf8 s"
  by (induction s) (simp_all add: ascii_step)

lemma alnum_not_whitespace: "is_ascii_alphanumeric c \<Longrightarrow> \<not> is_whitespace [c]"
  using alnum_ascii [of c] by (auto simp: is_whitespace_def WHITE_SPACE_def)

lemma dropWhile_all: "\<forall>x\<in>set xs. \<not> P x \<Longrightarrow> dropWhile P xs = xs"
  by (cases xs) auto

lemma wf_token_facts:
  assumes "list_all is_ascii_alphanumeric t"
  shows "trim_ws t = t" and "valid_utf8 t" and "header_value_ok t" and "trim t = t"
proof -
  have a: "list_all (\<lambda>c. (of_char c :: nat) < 128) t"
    using assms alnum_ascii by (force simp: list_all_iff)
  have "\<forall>x\<in>set (map (\<lambda>c. [c]) t). \<not> is_whitespace x"
    using assms by (auto simp: list_all_iff alnum_not_whitespace)
  then have "dropWhile is_whitespace (map (\<lambda>c. [c]) t) = map (\<lambda>c. [c]) t"
    "dropWhile is_whitespace (rev (map (\<lambda>c. [c]) t)) = rev (map (\<lambda>c. [c]) t)"
    by (auto intro!: dropWhile_all simp del: map_eq_conv)
  then show "trim_ws t = t" using ascii_chars [OF a] by (simp add: trim_ws_def)
  show "valid_utf8 t" using ascii_chars [OF a] by simp
  show "header_value_ok t" using assms by (force simp: header_value_ok_def list_all_iff dest: alnum_ascii)
  have "\<forall>x\<in>set t. \<not> is_ascii_ws x" using assms by (force simp: is_ascii_ws_def list_all_iff dest: alnum_ascii)
  then show "trim t = t" by (simp add: trim_def dropWhile_all)
qed

lemma bearer_ok: "wf_token t \<Longrightarrow> header_value_ok (bearer_header t)"
  using wf_token_facts(3) by (simp add: wf_token_def header_value_ok_def bearer_header_def)

lemma read_token:
  assumes "wf_token t" and "d f = Some (Regular t)"
  shows "read_trimmed (\<lambda>_. False) d f = Inr (Some t)"
  using assms wf_token_facts [of t] by (simp add: read_trimmed_def open_secret_def wf_token_def Let_def)

lemmas file_names = ACCESS_TOKEN_FILE_def REFRESH_TOKEN_FILE_def TOKEN_EXPIRY_FILE_def

lemma replace_cases:
  assumes "replace_optional flt f c d = (d', x)"
  shows "d' = d \<and> x \<noteq> Inr () \<or> d' = d(f := map_option Regular c)"
  using assms by (auto simp: replace_optional_def atomic_write_def split: option.splits if_splits)

lemma replace_Some: "replace_optional flt f (Some c) d = atomic_write flt f c d"
  by (simp add: replace_optional_def)

lemma replace_ok: "d f \<noteq> Some Directory \<Longrightarrow> replace_optional (\<lambda>_. False) f c d = (d(f := map_option Regular c), Inr ())"
  by (auto simp: replace_optional_def atomic_write_def split: option.splits)

abbreviation credential_files :: "string set" where
  "credential_files \<equiv> {ACCESS_TOKEN_FILE, REFRESH_TOKEN_FILE, TOKEN_EXPIRY_FILE}"

definition dir_ok :: "state_dir \<Rightarrow> bool" where
  "dir_ok d \<longleftrightarrow> (\<forall>f\<in>credential_files. d f \<noteq> Some Directory)"

lemma dir_ok_upd: "dir_ok d \<Longrightarrow> dir_ok (d(f := map_option Regular c))"
  by (auto simp: dir_ok_def)

lemma persist_tokens:
  assumes "wf_token a" and "wf_token r"
  shows "persist flt a (Some r) e d =
    (case replace_optional flt REFRESH_TOKEN_FILE (Some r) d of
       (d1, Inl x) \<Rightarrow> (d1, Inl x)
     | (d1, Inr _) \<Rightarrow>
         (case replace_optional flt TOKEN_EXPIRY_FILE (map_option int_to_dec e) d1 of
            (d2, Inl x) \<Rightarrow> (d2, Inl x)
          | (d2, Inr _) \<Rightarrow> replace_optional flt ACCESS_TOKEN_FILE (Some a) d2))"
  using assms replace_Some [of flt ACCESS_TOKEN_FILE a]
  by (simp add: persist_def wf_token_def wf_token_facts non_blank_def cong: sum.case_cong)

text \<open>What an interrupted or complete \<open>persist\<close> leaves behind: the old set, or at least the new refresh token.\<close>

lemma persist_cut:
  assumes wf: "wf_token a" "wf_token r" and ok: "dir_ok d0"
  obtains (nothing) "fst (persist flt a (Some r) e d0) = d0"
  | (refresh) "fst (persist flt a (Some r) e d0) REFRESH_TOKEN_FILE = Some (Regular r)"
      and "fst (persist flt a (Some r) e d0) ACCESS_TOKEN_FILE \<in> {d0 ACCESS_TOKEN_FILE, Some (Regular a)}"
      and "dir_ok (fst (persist flt a (Some r) e d0))"
proof -
  obtain d1 x1 where 1: "replace_optional flt REFRESH_TOKEN_FILE (Some r) d0 = (d1, x1)" by fastforce
  obtain d2 x2 where 2: "replace_optional flt TOKEN_EXPIRY_FILE (map_option int_to_dec e) d1 = (d2, x2)" by fastforce
  obtain d3 x3 where 3: "replace_optional flt ACCESS_TOKEN_FILE (Some a) d2 = (d3, x3)" by fastforce
  have ok1: "dir_ok d1" using replace_cases [OF 1] ok dir_ok_upd by metis
  have ok2: "dir_ok d2" using replace_cases [OF 2] ok1 dir_ok_upd by metis
  have ok3: "dir_ok d3" using replace_cases [OF 3] ok2 dir_ok_upd by metis
  have d2: "d2 REFRESH_TOKEN_FILE = d1 REFRESH_TOKEN_FILE" "d2 ACCESS_TOKEN_FILE = d1 ACCESS_TOKEN_FILE"
    using replace_cases [OF 2] by (auto simp: file_names)
  have d3: "d3 REFRESH_TOKEN_FILE = d2 REFRESH_TOKEN_FILE" "d3 ACCESS_TOKEN_FILE \<in> {d2 ACCESS_TOKEN_FILE, Some (Regular a)}"
    using replace_cases [OF 3] by (auto simp: file_names)
  have p: "fst (persist flt a (Some r) e d0) = (if x1 \<noteq> Inr () then d1 else if x2 \<noteq> Inr () then d2 else d3)"
    by (cases x1; cases x2) (simp_all add: persist_tokens [OF wf] 1 2 3)
  show thesis
  proof (cases "d1 = d0 \<and> x1 \<noteq> Inr ()")
    case True
    with p have "fst (persist flt a (Some r) e d0) = d0" by simp
    then show thesis by (rule nothing)
  next
    case False
    then have "d1 REFRESH_TOKEN_FILE = Some (Regular r)" "d1 ACCESS_TOKEN_FILE = d0 ACCESS_TOKEN_FILE"
      using replace_cases [OF 1] by (auto simp: file_names)
    with p d2 d3 ok1 ok2 ok3 refresh show thesis by (auto split: if_splits)
  qed
qed

lemma persist_ok:
  assumes "wf_token a" and "wf_token r" and "dir_ok d"
  shows "\<exists>d'. persist (\<lambda>_. False) a (Some r) e d = (d', Inr ())"
proof -
  have "d f \<noteq> Some Directory" if "f \<in> credential_files" for f using assms(3) that unfolding dir_ok_def by blast
  then show ?thesis
    by (simp add: persist_tokens [OF assms(1,2)] replace_ok file_names del: replace_Some)
qed

subsection \<open>The control plane the agent relies on\<close>

text \<open>
  \<open>accepts\<close>: an access token opens a connection; \<open>known\<close>: a refresh token is on record; \<open>rotates\<close>: a refresh
  with it succeeds. A rejected connection and a refused refresh change none of them.
\<close>

locale control_plane =
  fixes N :: "'w net" and accepts :: "string \<Rightarrow> 'w \<Rightarrow> bool" and known :: "string \<Rightarrow> 'w \<Rightarrow> bool"
    and rotates :: "string \<Rightarrow> 'w \<Rightarrow> bool"
  assumes connect_accepted: "wf_token t \<Longrightarrow> accepts t w \<Longrightarrow> snd (n_connect N t w) = Connected"
    and connect_refused: "wf_token t \<Longrightarrow> \<not> accepts t w \<Longrightarrow> n_connect N t w = (w, HttpRejected 401)"
    and rotate: "rotates r w \<Longrightarrow>
      \<exists>w' a' r' e. n_refresh N r w = (w', Some (True, Some (DT_Token a' (Some r') e))) \<and>
        wf_token a' \<and> wf_token r' \<and> accepts a' w' \<and> n_disk N w' = n_disk N w"
    and rotate_refused: "\<not> known r w \<Longrightarrow>
      \<exists>w' e. n_refresh N r w = (w', Some (True, Some (DT_Error e))) \<and> n_disk N w' = n_disk N w \<and>
        (\<forall>t. accepts t w' = accepts t w) \<and> (\<forall>x. known x w' = known x w)"
begin

lemma refresh_succeeds:
  assumes "rotates r w" and "n_disk N w = (\<lambda>_. False)"
    and "dir_ok d"
  shows "\<exists>d' w' a'. refresh_token_pair N r d w = (d', w', Some a') \<and> wf_token a' \<and> accepts a' w'"
proof -
  from rotate [OF assms(1)] obtain w' a' r' e
    where n: "n_refresh N r w = (w', Some (True, Some (DT_Token a' (Some r') e)))"
      "wf_token a'" "wf_token r'" "accepts a' w'" "n_disk N w' = n_disk N w" by blast
  from persist_ok [OF n(2,3) assms(3)] obtain d'
    where "persist (\<lambda>_. False) a' (Some r') (map_option (\<lambda>secs. saturating_i64 (n_now N w' + secs)) e) d = (d', Inr ())"
    by blast
  with n assms(2) show ?thesis by (simp add: refresh_token_pair_def persist_token_triple_def)
qed

lemma accepted_connects:
  assumes "wf_token t" and "accepts t w" and "url_ok"
  shows "\<exists>d' w' ts. connect_loop k N url_ok mode repair refreshed t d w = (d', w', Online_As t, ts)"
proof -
  obtain w' where "n_connect N t w = (w', Connected)" using connect_accepted [OF assms(1,2)] by (metis prod.collapse)
  with assms bearer_ok [OF assms(1)] show ?thesis by (subst connect_loop.simps) simp
qed

text \<open>With a refresh token that still works, a restart ends connected, whatever the access token is worth.\<close>

lemma restart_connects:
  assumes a: "wf_token a" "d ACCESS_TOKEN_FILE = Some (Regular a)"
    and r: "wf_token r" "d REFRESH_TOKEN_FILE = Some (Regular r)" "rotates r w"
    and env: "n_disk N w = (\<lambda>_. False)" "url_ok" "is_ok (assert_runtime_mode S)"
      "dir_ok d"
  shows "\<exists>d' w' t ts. agent_main k N url_ok S [] d w = (d', w', Online_As t, ts)"
proof -
  have rd: "access_token (\<lambda>_. False) d = Inr (Some a)" "refresh_token (\<lambda>_. False) d = Inr (Some r)"
    using a r by (simp_all add: access_token_def refresh_token_def read_token)
  obtain d1 w1 t1 where f: "refresh_token_pair N r d w = (d1, w1, Some t1)" "wf_token t1" "accepts t1 w1"
    using refresh_succeeds [OF r(3) env(1,4)] by blast
  have main: "agent_main k N url_ok S [] d w =
      (case proactive_refresh N a d w of (d2, w2, t) \<Rightarrow> connect_loop k N url_ok RequireExisting False False t d2 w2)"
    using env(1,3) rd by (auto simp: agent_main_def is_ok_iff pairing_mode_def select_token_def stored_token_def
        should_read_stored_credentials_def)
  show ?thesis
  proof (cases "is_stale (or_none (token_expiry (\<lambda>_. False) d)) (n_now N w)")
    case True
    with f rd env(1) have "proactive_refresh N a d w = (d1, w1, t1)" by (simp add: proactive_refresh_def or_none_def)
    with main accepted_connects [OF f(2,3) env(2)] show ?thesis by fastforce
  next
    case False
    with rd env(1) have p: "proactive_refresh N a d w = (d, w, a)" by (simp add: proactive_refresh_def or_none_def)
    show ?thesis
    proof (cases "accepts a w")
      case True
      with main p accepted_connects [OF a(1) True env(2)] show ?thesis by fastforce
    next
      case False
      have "try_refresh N False (Some 401) d w = (d1, w1, Some t1)"
        using f(1) rd env(1) by (simp add: try_refresh_def should_refresh_after_rejection_def or_none_def)
      then have "connect_loop k N url_ok RequireExisting False False a d w =
          (case connect_loop k N url_ok RequireExisting False True t1 d1 w1 of (d3, w3, o3, ts) \<Rightarrow> (d3, w3, o3, a # ts))"
        using connect_refused [OF a(1) False] bearer_ok [OF a(1)] env(2) by (subst connect_loop.simps) simp
      moreover obtain d2 w2 ts where
        "connect_loop k N url_ok RequireExisting False True t1 d1 w1 = (d2, w2, Online_As t1, ts)"
        using accepted_connects [OF f(2,3) env(2)] by blast
      ultimately show ?thesis using main p by simp
    qed
  qed
qed

text \<open>With both credentials unknown to the control plane, a restart without pairing ends the process.\<close>

lemma restart_locked_out:
  assumes a: "wf_token a" "d ACCESS_TOKEN_FILE = Some (Regular a)" "\<not> accepts a w"
    and r: "wf_token r" "d REFRESH_TOKEN_FILE = Some (Regular r)" "\<not> known r w"
    and env: "n_disk N w = (\<lambda>_. False)" "url_ok" "is_ok (assert_runtime_mode S)"
  shows "\<exists>w' ts. agent_main k N url_ok S [] d w = (d, w', Exit 1, ts)"
proof -
  have rd: "access_token (\<lambda>_. False) d = Inr (Some a)" "refresh_token (\<lambda>_. False) d = Inr (Some r)"
    using a r by (simp_all add: access_token_def refresh_token_def read_token)
  have refused: "\<exists>w'. refresh_token_pair N r d v = (d, w', None) \<and> n_disk N w' = n_disk N v \<and>
      (\<forall>t. accepts t w' = accepts t v) \<and> (\<forall>x. known x w' = known x v)" if "\<not> known r v" for v
    using rotate_refused [OF that] by (auto simp: refresh_token_pair_def)
  have main: "agent_main k N url_ok S [] d w =
      (case proactive_refresh N a d w of (d2, w2, t) \<Rightarrow> connect_loop k N url_ok RequireExisting False False t d2 w2)"
    using env(1,3) rd by (auto simp: agent_main_def is_ok_iff pairing_mode_def select_token_def stored_token_def
        should_read_stored_credentials_def)
  obtain w1 where w1: "proactive_refresh N a d w = (d, w1, a)" "n_disk N w1 = (\<lambda>_. False)" "\<not> accepts a w1" "\<not> known r w1"
    using refused [OF r(3)] rd env(1) a(3) r(3)
    by (cases "is_stale (or_none (token_expiry (\<lambda>_. False) d)) (n_now N w)") (auto simp: proactive_refresh_def or_none_def)
  obtain w2 where "try_refresh N False (Some 401) d w1 = (d, w2, None)"
    using refused [OF w1(4)] rd w1(2) by (auto simp: try_refresh_def should_refresh_after_rejection_def or_none_def)
  then have "connect_loop k N url_ok RequireExisting False False a d w1 = (d, w2, Exit 1, [a])"
    using connect_refused [OF a(1) w1(3)] bearer_ok [OF a(1)] env(2) by (subst connect_loop.simps) simp
  with main w1(1) show ?thesis by simp
qed

end

subsection \<open>The server as control plane\<close>

text \<open>
  The handlers of \<open>device_auth.rs\<close> and the socket handler of \<open>main.rs\<close> as the network of one agent: the pairing
  tables, the hub, a clock, and random draws by position. Refusals are JSON bodies with status 200, a
  failed insert of the request is a text that does not parse.
\<close>

definition ALPHANUMERIC :: string where
  "ALPHANUMERIC = ''ABCDEFGHIJKLMNOPQRSTUVWXYZabcdefghijklmnopqrstuvwxyz0123456789''"

definition random_alphanumeric :: "(nat \<Rightarrow> nat \<Rightarrow> nat) \<Rightarrow> nat \<Rightarrow> nat \<Rightarrow> string" where
  "random_alphanumeric rnd k n = map (\<lambda>i. ALPHANUMERIC ! (rnd k i mod 62)) [0 ..< n]"

definition random_token :: "(nat \<Rightarrow> nat \<Rightarrow> nat) \<Rightarrow> nat \<Rightarrow> string" where
  "random_token rnd k = random_alphanumeric rnd k 64"

record plane =
  pl_pairing :: pairing
  pl_server :: server
  pl_now :: int
  pl_draws :: nat
  pl_disk :: fault

definition token_reply :: "plane \<Rightarrow> pairing \<times> token_response \<Rightarrow> plane \<times> DeviceTokenResponse" where
  "token_reply w r =
     (w\<lparr>pl_pairing := fst r, pl_draws := pl_draws w + 2\<rparr>,
      case snd r of AgentToken a b \<Rightarrow> DT_Token a (Some b) (Some ACCESS_TOKEN_TTL_SECS)
      | CliToken a \<Rightarrow> DT_Token a None None | TokenError e \<Rightarrow> DT_Error e)"

definition server_request :: "(nat \<Rightarrow> nat \<Rightarrow> nat) \<Rightarrow> world \<Rightarrow> plane \<Rightarrow> plane \<times> DeviceAuthResponse option" where
  "server_request rnd W w =
     (case request_device_auth (w_flt W) (random_alphanumeric rnd (pl_draws w) 32)
             (random_alphanumeric rnd (pl_draws w + 1) 8) (pl_now w) (pl_pairing w) of
        (s, Inl _) \<Rightarrow> (w\<lparr>pl_pairing := s, pl_draws := pl_draws w + 2\<rparr>, None)
      | (s, Inr (dc, uc)) \<Rightarrow>
          (w\<lparr>pl_pairing := s, pl_draws := pl_draws w + 2\<rparr>,
           Some \<lparr>da_device_code = dc, da_user_code = uc,
                 da_verification_uri = env_or (w_env W) ''UI_URL'' ''https://dashboard.example.com/'' @ ''device'',
                 da_interval = 5\<rparr>))"

definition server_connect :: "world \<Rightarrow> string \<Rightarrow> plane \<Rightarrow> plane \<times> handshake" where
  "server_connect W t w =
     (case agent_ws_handler (W\<lparr>w_now := pl_now w\<rparr>) (Some (bearer_header t))
             (pl_server w\<lparr>sv_tokens := p_tokens (pl_pairing w)\<rparr>) of
        (_, Inl (c, _)) \<Rightarrow> (w, HttpRejected c)
      | (s, Inr _) \<Rightarrow> (w\<lparr>pl_server := s\<rparr>, Connected))"

definition server_net :: "(nat \<Rightarrow> nat \<Rightarrow> nat) \<Rightarrow> world \<Rightarrow> plane net" where
  "server_net rnd W =
     \<lparr>n_now = pl_now, n_disk = pl_disk, n_sleep = (\<lambda>k w. w\<lparr>pl_now := pl_now w + int k\<rparr>),
      n_request = server_request rnd W,
      n_token = (\<lambda>dc w. map_prod id Some (token_reply w
        (poll_device_token (w_flt W) dc (random_token rnd (pl_draws w)) (random_token rnd (pl_draws w + 1)) (pl_now w) (pl_pairing w)))),
      n_refresh = (\<lambda>r w. map_prod id (\<lambda>x. Some (True, Some x)) (token_reply w
        (refresh_device_token (w_flt W) r (random_token rnd (pl_draws w)) (random_token rnd (pl_draws w + 1)) (pl_now w) (pl_pairing w)))),
      n_connect = server_connect W\<rparr>"

definition plane_accepts :: "world \<Rightarrow> string \<Rightarrow> plane \<Rightarrow> bool" where
  "plane_accepts W t w \<longleftrightarrow>
     is_legacy (w_env W) t \<or> token_exists (w_flt W) (pl_now w) (p_tokens (pl_pairing w)) t"

definition plane_known :: "string \<Rightarrow> plane \<Rightarrow> bool" where
  "plane_known r w \<longleftrightarrow> (\<exists>t\<in>set (p_tokens (pl_pairing w)). refreshable r (pl_now w) t)"

definition plane_rotates :: "(nat \<Rightarrow> nat \<Rightarrow> nat) \<Rightarrow> world \<Rightarrow> string \<Rightarrow> plane \<Rightarrow> bool" where
  "plane_rotates rnd W r w \<longleftrightarrow>
     \<not> w_flt W ''replace_token'' \<and> \<not> w_flt W ''token_exists'' \<and> plane_known r w \<and>
     random_token rnd (pl_draws w) \<notin> t_token ` set (p_tokens (pl_pairing w))"

lemma alphanumeric_nth: "n < 62 \<Longrightarrow> is_ascii_alphanumeric (ALPHANUMERIC ! n)"
proof -
  have "list_all is_ascii_alphanumeric ALPHANUMERIC" "length ALPHANUMERIC = 62"
    by (simp_all add: ALPHANUMERIC_def is_ascii_alphanumeric_def)
  then show "n < 62 \<Longrightarrow> is_ascii_alphanumeric (ALPHANUMERIC ! n)" by (simp add: list_all_length)
qed

lemma random_token_wf: "wf_token (random_token rnd k)"
  by (simp add: wf_token_def random_token_def random_alphanumeric_def MAX_CREDENTIAL_BYTES_def list_all_iff alphanumeric_nth)

lemma bearer_of: "wf_token t \<Longrightarrow> agent_bearer (Some (bearer_header t)) = Some t"
  by (simp add: agent_bearer_def bearer_header_def strip_prefix_str_def starts_with_def wf_token_def wf_token_facts)

text \<open>Both directions of a refresh, on the tables.\<close>

lemma refresh_issues:
  assumes "\<not> flt ''replace_token''" and "\<exists>t\<in>set (p_tokens s). refreshable p now t" and "a \<notin> t_token ` set (p_tokens s)"
  shows "\<exists>s'. refresh_device_token flt p a r now s = (s', AgentToken a r) \<and>
    (\<exists>row\<in>set (p_tokens s). refreshable p now row \<and> p_tokens s' = sql_delete (refreshable p now) (p_tokens s) @
      [token_pair a (t_hostname row) now (now + ACCESS_TOKEN_TTL_SECS) r (now + REFRESH_TOKEN_TTL_SECS)])"
proof -
  obtain row where row: "sql_fetch_optional (refreshable p now) (p_tokens s) = Some row"
    using assms(2) by (cases "sql_fetch_optional (refreshable p now) (p_tokens s)") auto
  have "t_token (token_pair a h now e r x) \<notin> t_token ` set (sql_delete (refreshable p now) (p_tokens s))" for h e x
    using assms(3) by (auto simp: token_pair_def)
  then show ?thesis
    using assms(1) row fetch_SomeD [OF row]
    by (auto simp: refresh_device_token_def replace_token_on_refresh_def sql_insert_def)
qed

lemma refresh_refused:
  assumes "\<not> (\<exists>t\<in>set (p_tokens s). refreshable p now t)"
  shows "\<exists>e. refresh_device_token flt p a r now s = (s, TokenError e)"
proof -
  have "sql_fetch_optional (refreshable p now) (p_tokens s) = None" using assms by simp
  then show ?thesis by (simp add: refresh_device_token_def replace_token_on_refresh_def del: fetch_None_iff)
qed

interpretation shell_plane: control_plane "server_net rnd W" "plane_accepts W" plane_known "plane_rotates rnd W"
  for rnd W
proof unfold_locales
  fix t r w
  show "wf_token t \<Longrightarrow> plane_accepts W t w \<Longrightarrow> snd (n_connect (server_net rnd W) t w) = Connected"
    by (auto simp: server_net_def server_connect_def agent_ws_handler_def bearer_of plane_accepts_def)
  show "wf_token t \<Longrightarrow> \<not> plane_accepts W t w \<Longrightarrow> n_connect (server_net rnd W) t w = (w, HttpRejected 401)"
    by (auto simp: server_net_def server_connect_def agent_ws_handler_def bearer_of plane_accepts_def)
  show "\<exists>w' a' r' e. n_refresh (server_net rnd W) r w = (w', Some (True, Some (DT_Token a' (Some r') e))) \<and>
        wf_token a' \<and> wf_token r' \<and> plane_accepts W a' w' \<and> n_disk (server_net rnd W) w' = n_disk (server_net rnd W) w"
    if "plane_rotates rnd W r w"
  proof -
    let ?a = "random_token rnd (pl_draws w)" and ?r = "random_token rnd (pl_draws w + 1)"
    have pre: "\<not> w_flt W ''replace_token''" "\<exists>t\<in>set (p_tokens (pl_pairing w)). refreshable r (pl_now w) t"
      "?a \<notin> t_token ` set (p_tokens (pl_pairing w))" "\<not> w_flt W ''token_exists''"
      using that unfolding plane_rotates_def plane_known_def by blast+
    from refresh_issues [where flt = "w_flt W" and r = ?r, OF pre(1-3)]
    obtain s' where s': "refresh_device_token (w_flt W) r ?a ?r (pl_now w) (pl_pairing w) = (s', AgentToken ?a ?r)"
      and ts: "\<exists>h. p_tokens s' = sql_delete (refreshable r (pl_now w)) (p_tokens (pl_pairing w)) @
        [token_pair ?a h (pl_now w) (pl_now w + ACCESS_TOKEN_TTL_SECS) ?r (pl_now w + REFRESH_TOKEN_TTL_SECS)]"
      by blast
    have "plane_accepts W ?a (w\<lparr>pl_pairing := s', pl_draws := pl_draws w + 2\<rparr>)"
      using ts pre(4) by (auto simp: plane_accepts_def token_exists_def token_pair_def ACCESS_TOKEN_TTL_SECS_def)
    with s' show ?thesis by (simp add: server_net_def token_reply_def random_token_wf)
  qed
  show "\<exists>w' e. n_refresh (server_net rnd W) r w = (w', Some (True, Some (DT_Error e))) \<and>
        n_disk (server_net rnd W) w' = n_disk (server_net rnd W) w \<and>
        (\<forall>t. plane_accepts W t w' = plane_accepts W t w) \<and> (\<forall>x. plane_known x w' = plane_known x w)"
    if "\<not> plane_known r w"
  proof -
    obtain e where "refresh_device_token (w_flt W) r (random_token rnd (pl_draws w)) (random_token rnd (pl_draws w + 1))
        (pl_now w) (pl_pairing w) = (pl_pairing w, TokenError e)"
      using refresh_refused [of "pl_pairing w" r "pl_now w"] \<open>\<not> plane_known r w\<close> unfolding plane_known_def by blast
    then show ?thesis by (simp add: server_net_def token_reply_def plane_known_def plane_accepts_def)
  qed
qed

section \<open>Properties\<close>

lemma connect_loop_rejected:
  assumes "url_ok" and "header_value_ok (bearer_header token)" and h: "n_connect N token w = (w1, h)"
    and "h \<noteq> Connected" and "h \<noteq> TimedOut"
    and "try_refresh N refreshed (websocket_rejection_status h) d w1 = (d2, w2, x)"
  shows "connect_loop k N url_ok mode repair refreshed token d w =
    (case x of
       Some t \<Rightarrow> (case connect_loop k N url_ok mode repair True t d2 w2 of (d3, w3, r, ts) \<Rightarrow> (d3, w3, r, token # ts))
     | None \<Rightarrow>
        if repair \<and> should_pair_after_rejection mode (websocket_rejection_status h)
        then (case pair k N d2 w2 of
                (d3, w3, Paired t) \<Rightarrow>
                  (case connect_loop k N url_ok mode False False t d3 w3 of (d4, w4, r, ts) \<Rightarrow> (d4, w4, r, token # ts))
              | (d3, w3, Pair_Exit c) \<Rightarrow> (d3, w3, Exit c, [token])
              | (d3, w3, Pair_Panic) \<Rightarrow> (d3, w3, Panicked, [token])
              | (d3, w3, Pair_Waiting) \<Rightarrow> (d3, w3, Waiting, [token]))
        else (d2, w2, Exit 1, [token]))"
  using assms by (subst connect_loop.simps) (cases h; cases x; auto simp: Let_def)

definition tries_left :: "bool \<Rightarrow> bool \<Rightarrow> nat" where
  "tries_left repair refreshed = (if repair then 2 else 0) + (if refreshed then 0 else 1)"

definition tries_ok :: "nat \<Rightarrow> 'd \<times> 'w \<times> start_outcome \<times> string list \<Rightarrow> bool" where
  "tries_ok n res \<longleftrightarrow> (case res of (d, w, r, ts) \<Rightarrow>
     length ts \<le> n + 1 \<and> (\<forall>t. r = Online_As t \<longrightarrow> ts \<noteq> [] \<and> last ts = t))"

lemma tries_ok_Cons:
  "tries_ok m res \<Longrightarrow> m < n \<Longrightarrow> tries_ok n (case res of (d, w, r, ts) \<Rightarrow> (d, w, r, token # ts))"
  by (auto simp: tries_ok_def split: prod.splits)

lemma connect_loop_tries: "tries_ok (tries_left repair refreshed) (connect_loop k N url_ok mode repair refreshed token d w)"
proof (induction "tries_left repair refreshed" arbitrary: repair refreshed token d w rule: less_induct)
  case less
  show ?case
  proof (cases "url_ok \<and> header_value_ok (bearer_header token)")
    case ok: True
    obtain w1 h where h: "n_connect N token w = (w1, h)" by fastforce
    show ?thesis
    proof (cases "h = Connected \<or> h = TimedOut")
      case True
      with ok h show ?thesis by (subst connect_loop.simps) (auto simp: tries_ok_def)
    next
      case False
      obtain d2 w2 x where tr: "try_refresh N refreshed (websocket_rejection_status h) d w1 = (d2, w2, x)"
        by (metis prod.exhaust)
      note eq = connect_loop_rejected [OF _ _ h _ _ tr, of url_ok k mode repair]
      show ?thesis
      proof (cases x)
        case (Some t)
        then have "tries_left repair True < tries_left repair refreshed"
          using try_refresh_Some tr by (fastforce simp: tries_left_def)
        from tries_ok_Cons [OF less [OF this] this] Some ok False show ?thesis by (subst eq) simp_all
      next
        case None
        obtain d3 w3 p where p: "pair k N d2 w2 = (d3, w3, p)" by (metis prod.exhaust)
        have "repair \<Longrightarrow> tries_left False False < tries_left repair refreshed" by (simp add: tries_left_def)
        note step = tries_ok_Cons [OF less [OF this] this]
        show ?thesis
          using ok False None step by (subst eq) (auto simp: p tries_ok_def [of _ "(_, _, Exit _, _)"]
              tries_ok_def [of _ "(_, _, Panicked, _)"] tries_ok_def [of _ "(_, _, Waiting, _)"] split: pair_result.splits)
      qed
    qed
  qed (subst connect_loop.simps, auto simp: tries_ok_def)
qed

lemma pair_outcome_not_online:
  "map_sum id (\<lambda>t. (t, False)) (pair_outcome p) = Inl e \<Longrightarrow> e \<noteq> Online_As t"
  "map_sum id (\<lambda>t. (t, False)) (pair_outcome p) = Inr (t, rep) \<Longrightarrow> \<not> rep"
  by (cases p; auto)+

text \<open>
  C18: connecting ends. Whatever the network answers and whichever files are unreadable, the agent's start presents at
  most four bearer tokens, and at most two when it may not pair on a rejection (one rotation, one retry): a
  rejection never leads to another round with the same rights. If it ends connected, it is with the last bearer it
  presented. (The loop that waits for an operator to approve a pairing is bounded separately, by the number of
  polls \<open>k\<close>.)
\<close>

theorem connecting_ends_after_four_bearers:
  assumes "agent_main k N url_ok S args d w = (d', w', r, ts)"
  shows "length ts \<le> 4 \<and> (pairing_mode args \<noteq> IfNeeded \<longrightarrow> length ts \<le> 2) \<and>
    (\<forall>t. r = Online_As t \<longrightarrow> ts \<noteq> [] \<and> last ts = t)"
proof (cases "is_ok (assert_runtime_mode S)")
  case True
  then obtain m where m: "assert_runtime_mode S = Inr m" by (auto simp: is_ok_iff)
  obtain d1 w1 x where sel: "select_token k N (pairing_mode args) d w = (d1, w1, x)" by (metis prod.exhaust)
  show ?thesis
  proof (cases x)
    case (Inl e)
    then have "e \<noteq> Online_As t" for t
      using sel by (auto simp: select_token_def stored_token_def pair_outcome_not_online
          split: sum.splits if_splits PairingMode.splits option.splits prod.splits)
    with Inl m sel assms show ?thesis by (auto simp: agent_main_def)
  next
    case (Inr tr)
    obtain t repair where tr: "tr = (t, repair)" by fastforce
    have rep: "repair \<Longrightarrow> pairing_mode args = IfNeeded"
      using sel Inr tr by (auto simp: select_token_def dest: pair_outcome_not_online(2)
          split: sum.splits PairingMode.splits option.splits prod.splits)
    obtain d2 w2 t' where "proactive_refresh N t d1 w1 = (d2, w2, t')" by (metis prod.exhaust)
    with assms m sel Inr tr connect_loop_tries [of repair False k N url_ok "pairing_mode args" t' d2 w2] rep
    show ?thesis by (auto simp: agent_main_def tries_ok_def tries_left_def split: if_splits)
  qed
next
  case False
  then obtain c where "assert_runtime_mode S = Inl c" by (cases "assert_runtime_mode S") auto
  with assms show ?thesis by (auto simp: agent_main_def)
qed

definition demo_sys :: sys where
  "demo_sys = \<lparr>sys_mode = None, sys_euid = 0, sys_status = None, sys_group_file = None, sys_groups = None\<rparr>"

definition always_rejects :: "unit net" where
  "always_rejects = \<lparr>n_now = (\<lambda>_. 0), n_disk = (\<lambda>_ _. False), n_sleep = (\<lambda>_ w. w),
     n_request = (\<lambda>w. (w, Some \<lparr>da_device_code = ''d'', da_user_code = ''u'', da_verification_uri = ''v'', da_interval = 5\<rparr>)),
     n_token = (\<lambda>_ w. (w, Some (DT_Token ''p'' (Some ''q'') (Some 3600)))),
     n_refresh = (\<lambda>_ w. (w, Some (True, Some (DT_Token ''n'' (Some ''m'') (Some 3600))))),
     n_connect = (\<lambda>_ w. (w, HttpRejected 401))\<rparr>"

theorem connecting_ends_after_four_bearers_witness:
  "\<exists>d' w' r ts. agent_main 9 always_rejects True demo_sys [''--pair-if-needed''] [ACCESS_TOKEN_FILE \<mapsto> Regular ''t''] () =
     (d', w', r, ts) \<and> length ts \<le> 4"
  using connecting_ends_after_four_bearers [of 9 always_rejects True demo_sys "[''--pair-if-needed'']"
      "[ACCESS_TOKEN_FILE \<mapsto> Regular ''t'']" "()"]
  by (metis prod.exhaust)

lemma rotation_result:
  assumes "n_refresh (server_net rnd W) r w = (w1, Some (True, Some (DT_Token a' (Some r') e)))"
  shows "a' = random_token rnd (pl_draws w) \<and> r' = random_token rnd (pl_draws w + 1) \<and> e = Some ACCESS_TOKEN_TTL_SECS \<and>
    pl_now w1 = pl_now w \<and> pl_draws w1 = pl_draws w + 2 \<and>
    (\<exists>h. p_tokens (pl_pairing w1) = sql_delete (refreshable r (pl_now w)) (p_tokens (pl_pairing w)) @
      [token_pair a' h (pl_now w) (pl_now w + ACCESS_TOKEN_TTL_SECS) r' (pl_now w + REFRESH_TOKEN_TTL_SECS)])"
proof (cases rule: refresh_token_cases [of "w_flt W" r "random_token rnd (pl_draws w)" "random_token rnd (pl_draws w + 1)"
      "pl_now w" "pl_pairing w"])
  case (issued h ts)
  from refresh_Inr [OF issued(1)] assms issued(2,3) show ?thesis
    by (auto simp: server_net_def token_reply_def)
next
  case refused
  with assms show ?thesis by (auto simp: server_net_def token_reply_def)
qed

text \<open>
  C17: a rotation that was cut off. An agent that holds an access token and its refresh token rotates them with the
  server, and its process is killed, or a system call fails, at any point while it stores the answer. The files of
  its state directory are then as they were, or at least the refresh token is the new one. Started again as a
  service within the refresh token's thirty days, with its disk and the server working, the agent comes online
  exactly if the new refresh token had reached the disk. Otherwise the server has forgotten both credentials the
  agent still has, and it exits: it has to be paired again.
\<close>

theorem interrupted_rotation_recovers:
  assumes row: "keyed t_token (p_tokens (pl_pairing w))" "row \<in> set (p_tokens (pl_pairing w))" "t_token row = a"
      "refreshable r (pl_now w) row"
    and single: "\<forall>t\<in>set (p_tokens (pl_pairing w)). t_refresh_token t = Some r \<longrightarrow> t = row"
    and wf: "wf_token a" "wf_token r" "\<not> is_legacy (w_env W) a"
    and disk: "d ACCESS_TOKEN_FILE = Some (Regular a)" "d REFRESH_TOKEN_FILE = Some (Regular r)" "dir_ok d"
    and rotation: "n_refresh (server_net rnd W) r w = (w1, Some (True, Some (DT_Token a' (Some r') e)))"
      "a' \<noteq> a" "r' \<noteq> r"
    and cut_off: "d1 = fst (persist_token_triple flt (pl_now w1) a' (Some r') e d)"
    and restart: "w2 = w1\<lparr>pl_now := later, pl_disk := (\<lambda>_. False)\<rparr>" "later < pl_now w + REFRESH_TOKEN_TTL_SECS"
      "\<not> w_flt W ''replace_token''" "\<not> w_flt W ''token_exists''"
      "random_token rnd (pl_draws w1) \<notin> t_token ` set (p_tokens (pl_pairing w1))" "is_ok (assert_runtime_mode S)"
  shows "if d1 REFRESH_TOKEN_FILE = Some (Regular r')
      then \<exists>d' w' t ts. agent_main k (server_net rnd W) True S [] d1 w2 = (d', w', Online_As t, ts)
      else d1 = d \<and> (\<exists>w' ts. agent_main k (server_net rnd W) True S [] d1 w2 = (d, w', Exit 1, ts))"
proof -
  let ?main = "agent_main k (server_net rnd W) True S [] d1 w2"
  from rotation_result [OF rotation(1)] obtain h where new: "wf_token a'" "wf_token r'"
      and ts: "p_tokens (pl_pairing w1) = sql_delete (refreshable r (pl_now w)) (p_tokens (pl_pairing w)) @
      [token_pair a' h (pl_now w) (pl_now w + ACCESS_TOKEN_TTL_SECS) r' (pl_now w + REFRESH_TOKEN_TTL_SECS)]"
    by (auto simp: random_token_wf)
  have quiet: "n_disk (server_net rnd W) w2 = (\<lambda>_. False)" by (simp add: server_net_def restart(1))
  have "refreshable r' later (token_pair a' h (pl_now w) (pl_now w + ACCESS_TOKEN_TTL_SECS) r' (pl_now w + REFRESH_TOKEN_TTL_SECS))"
    using restart(2) by (simp add: refreshable_def token_pair_def)
  then have rot: "plane_rotates rnd W r' w2"
    using restart ts by (auto simp: plane_rotates_def plane_known_def)
  have gone: "x \<notin> set (sql_delete (refreshable r (pl_now w)) (p_tokens (pl_pairing w)))" if "x = row" for x
    using that row(4) by simp
  have known: "\<not> plane_known r w2"
    using single gone rotation(3) ts restart(1)
    by (auto simp: plane_known_def refreshable_def token_pair_def)
  have "t_token t \<noteq> a" if "t \<in> set (p_tokens (pl_pairing w1))" for t
  proof
    assume a: "t_token t = a"
    then have "t \<in> set (sql_delete (refreshable r (pl_now w)) (p_tokens (pl_pairing w)))"
      using that ts rotation(2) by (auto simp: token_pair_def)
    moreover from this have "t = row" using keyed_unique [OF row(1) _ row(2), of t] a row(3) by simp
    ultimately show False using gone by blast
  qed
  then have accepts: "\<not> plane_accepts W a w2" using wf(3) restart(1) by (auto simp: plane_accepts_def token_exists_def)
  have locked: "\<exists>w' ts. ?main = (d, w', Exit 1, ts)" if "d1 = d"
    unfolding that
    by (rule shell_plane.restart_locked_out [OF wf(1) disk(1) accepts wf(2) disk(2) known quiet TrueI restart(6)])
  have online: "\<exists>d' w' t ts. ?main = (d', w', Online_As t, ts)"
    if c: "d1 REFRESH_TOKEN_FILE = Some (Regular r')" "d1 ACCESS_TOKEN_FILE \<in> {d ACCESS_TOKEN_FILE, Some (Regular a')}" "dir_ok d1"
  proof -
    obtain b where b: "wf_token b" "d1 ACCESS_TOKEN_FILE = Some (Regular b)" using c(2) disk(1) wf(1) new(1) by auto
    show ?thesis by (rule shell_plane.restart_connects [OF b new(2) c(1) rot quiet TrueI restart(6) c(3)])
  qed
  show ?thesis
  proof (cases rule: persist_cut [OF new disk(3), of flt "map_option (\<lambda>secs. saturating_i64 (pl_now w1 + secs)) e"])
    case 1
    then have "d1 = d" by (simp add: cut_off persist_token_triple_def)
    with locked [OF this] disk(2) rotation(3) show ?thesis by simp
  next
    case 2
    then have "d1 REFRESH_TOKEN_FILE = Some (Regular r')"
      "d1 ACCESS_TOKEN_FILE \<in> {d ACCESS_TOKEN_FILE, Some (Regular a')}" "dir_ok d1"
      unfolding cut_off persist_token_triple_def by auto
    with online [OF this] show ?thesis by simp
  qed
qed

definition demo_plane :: plane where
  "demo_plane = \<lparr>pl_pairing = demo_pairing, pl_server = demo_server, pl_now = 100, pl_draws = 0, pl_disk = (\<lambda>_. False)\<rparr>"

definition demo_dir :: state_dir where
  "demo_dir = [ACCESS_TOKEN_FILE \<mapsto> Regular ''acc'', REFRESH_TOKEN_FILE \<mapsto> Regular ''ref'']"

abbreviation demo_net :: "plane net" where
  "demo_net \<equiv> server_net (\<lambda>k i. k) demo_world"

lemma demo_rotation:
  "\<exists>w1. n_refresh demo_net ''ref'' demo_plane =
     (w1, Some (True, Some (DT_Token (random_token (\<lambda>k i. k) 0) (Some (random_token (\<lambda>k i. k) 1)) (Some ACCESS_TOKEN_TTL_SECS))))"
proof -
  have "random_token (\<lambda>k i. k) 0 \<noteq> ''acc''" by code_simp
  then show ?thesis
    using refresh_issues [where flt = "\<lambda>_. False" and s = demo_pairing and p = "''ref''" and now = 100
        and a = "random_token (\<lambda>k i. k) 0" and r = "random_token (\<lambda>k i. k) (Suc 0)"]
    by (auto simp: server_net_def token_reply_def demo_plane_def demo_world_def demo_pairing_def refreshable_def token_pair_def)
qed

theorem interrupted_rotation_recovers_witness:
  "\<exists>w1 d1 w' ts. d1 REFRESH_TOKEN_FILE = Some (Regular ''ref'') \<and>
     agent_main 3 demo_net True demo_sys [] d1 (w1\<lparr>pl_now := 200, pl_disk := (\<lambda>_. False)\<rparr>) = (d1, w', Exit 1, ts)"
proof -
  obtain w1 where w1: "n_refresh demo_net ''ref'' demo_plane =
     (w1, Some (True, Some (DT_Token (random_token (\<lambda>k i. k) 0) (Some (random_token (\<lambda>k i. k) 1)) (Some ACCESS_TOKEN_TTL_SECS))))"
    using demo_rotation by blast
  have diff: "random_token (\<lambda>k i. k) 0 \<noteq> ''acc''" "random_token (\<lambda>k i. k) 1 \<noteq> ''ref''"
      "random_token (\<lambda>k i. k) 2 \<noteq> ''acc''" "random_token (\<lambda>k i. k) 2 \<noteq> random_token (\<lambda>k i. k) 0"
    by code_simp+
  let ?flt = "\<lambda>c. c = ''write '' @ REFRESH_TOKEN_FILE"
  let ?d1 = "fst (persist_token_triple ?flt (pl_now w1) (random_token (\<lambda>k i. k) 0) (Some (random_token (\<lambda>k i. k) 1)) (Some ACCESS_TOKEN_TTL_SECS) demo_dir)"
  have d1: "?d1 = demo_dir"
    using random_token_wf [of "\<lambda>k i. k"]
    by (simp add: persist_token_triple_def persist_tokens replace_optional_def atomic_write_def)
  have "if ?d1 REFRESH_TOKEN_FILE = Some (Regular (random_token (\<lambda>k i. k) 1))
      then \<exists>d' w' t ts. agent_main 3 demo_net True demo_sys [] ?d1 (w1\<lparr>pl_now := 200, pl_disk := (\<lambda>_. False)\<rparr>) = (d', w', Online_As t, ts)
      else ?d1 = demo_dir \<and> (\<exists>w' ts. agent_main 3 demo_net True demo_sys [] ?d1 (w1\<lparr>pl_now := 200, pl_disk := (\<lambda>_. False)\<rparr>) = (demo_dir, w', Exit 1, ts))"
  proof (rule interrupted_rotation_recovers [where row = "token_pair ''acc'' (Some ''host'') 10 3610 ''ref'' 9999"
        and a = "''acc''" and r = "''ref''" and w = demo_plane and flt = ?flt, OF _ _ _ _ _ _ _ _ _ _ _ w1 _ _ refl refl])
    show "random_token (\<lambda>k i. k) (pl_draws w1) \<notin> t_token ` set (p_tokens (pl_pairing w1))"
      using rotation_result [OF w1] diff by (auto simp: demo_plane_def demo_pairing_def token_pair_def numeral_2_eq_2)
  qed (use diff in \<open>auto simp: demo_plane_def demo_pairing_def keyed_def refreshable_def token_pair_def wf_token_def
      is_ascii_alphanumeric_def MAX_CREDENTIAL_BYTES_def demo_dir_def dir_ok_def file_names is_legacy_def demo_world_def
      demo_auth_env_def env_or_def REFRESH_TOKEN_TTL_SECS_def assert_runtime_mode_def demo_sys_def\<close>)
  moreover have "demo_dir REFRESH_TOKEN_FILE = Some (Regular ''ref'')" by (simp add: demo_dir_def)
  ultimately show ?thesis using d1 diff(2) by (metis node.inject option.inject)
qed

text \<open>
  Restricted mode. An agent that starts in restricted mode is not root, holds no effective capability that its
  status file shows, and is in no docker group that its group file names; what it cannot read counts as harmless.
\<close>

theorem restricted_mode_is_unprivileged:
  assumes "assert_runtime_mode S = Inr Restricted"
  shows "sys_mode S = Some ''restricted'' \<and> sys_euid S \<noteq> 0 \<and> effective_capabilities (sys_status S) = 0 \<and>
    (\<forall>g gs. docker_gid (sys_group_file S) = Some g \<longrightarrow> sys_groups S = Some gs \<longrightarrow> g \<notin> set gs)"
proof -
  have m: "parse_runtime_mode (sys_mode S) = Inr Restricted"
    using assms by (auto simp: assert_runtime_mode_def split: sum.splits)
  then have "sys_mode S = Some ''restricted''" by (cases "sys_mode S") (auto split: if_splits)
  with m assms show ?thesis by (auto simp: assert_runtime_mode_def in_docker_group_def split: if_splits sum.splits option.splits)
qed

end
