(* ===== verification/Webhook.thy ===== *)
theory Webhook
  imports Agent_Start "HOL-Library.Multiset"
begin

text \<open>
  \<open>server/src/webhook.rs\<close>: notifications to outside receivers. An event is put on a bounded queue, a dispatcher
  hands it to at most twenty deliveries at a time, and each delivery formats it for one configured receiver,
  posts it and records the outcome in the audit table.

  The environment and the answers of the receivers are arguments. The deliveries of one event run in parallel
  tasks; their requests and audit rows are listed here in the order of the receivers. A formatter that panics
  has the result \<open>None\<close> and ends its delivery without a request. Shown: what leaves the server without an
  opt-in does not depend on the agent or its output, nothing is lost or duplicated on the queue and its
  bounds hold, escaping can be undone and leaves no markup, and text from a receiver reaches the audit
  table without control characters.
\<close>

section \<open>Text\<close>

definition NEWLINE :: string where "NEWLINE = [char_of (10 :: nat)]"
definition ARROW_SIGN :: string where "ARROW_SIGN = map char_of [226, 134, 146 :: nat]"
definition CHECK_MARK :: string where "CHECK_MARK = map char_of [226, 156, 133 :: nat]"
definition WARNING_SIGN :: string where "WARNING_SIGN = map char_of [226, 154, 160, 239, 184, 143 :: nat]"
definition CROSS_MARK :: string where "CROSS_MARK = map char_of [226, 157, 140 :: nat]"

definition WEBHOOK_LOG_CAP :: nat where "WEBHOOK_LOG_CAP = 3000"
definition TELEGRAM_LOG_CAP :: nat where "TELEGRAM_LOG_CAP = 3500"

text \<open>The \<open>while\<close> loop that walks to the next character boundary.\<close>

function next_boundary :: "string \<Rightarrow> nat \<Rightarrow> nat" where
  "next_boundary s start =
     (if start < length s \<and> \<not> is_char_boundary s start then next_boundary s (start + 1) else start)"
  by pat_completeness auto
termination
  by (relation "measure (\<lambda>(s, start). length s - start)") auto

declare next_boundary.simps [simp del]

definition truncate_text :: "string \<Rightarrow> nat \<Rightarrow> string" where
  "truncate_text s cap =
     (if length s \<le> cap then s
      else (let start = next_boundary s (length s - cap) in truncated_head start @ drop start s))"

definition last_n_lines :: "string \<Rightarrow> nat \<Rightarrow> string" where
  "last_n_lines lg n = join_with NEWLINE (rev (take n (rev (str_lines lg))))"

definition is_good :: "string \<Rightarrow> bool" where
  "is_good status \<longleftrightarrow> status \<in> {''success'', ''green'', ''connected''}"

definition push_error :: "string \<Rightarrow> string option \<Rightarrow> string" where
  "push_error lead error =
     (case error of Some e \<Rightarrow> if e = [] then [] else NEWLINE @ lead @ e | None \<Rightarrow> [])"

definition push_tail :: "string \<Rightarrow> string" where
  "push_tail tail =
     (if tail = [] then [] else NEWLINE @ ''```'' @ NEWLINE @ tail @ NEWLINE @ ''```'')"

definition slack_text :: "string \<Rightarrow> string \<Rightarrow> string \<Rightarrow> string option \<Rightarrow> string \<Rightarrow> string" where
  "slack_text headline agent_id status error lg =
     (let icon = (if is_good status then '':white_check_mark:'' else if status = ''disconnected'' then '':warning:'' else '':x:'')
      in icon @ '' *'' @ headline @ ''* on `'' @ agent_id @ ''` '' @ ARROW_SIGN @ '' *'' @ status @ ''*'' @
         push_error ''> error: '' error @ push_tail (last_n_lines lg 6))"

definition chat_icon :: "string \<Rightarrow> string" where
  "chat_icon status = (if is_good status then CHECK_MARK else if status = ''disconnected'' then WARNING_SIGN else CROSS_MARK)"

definition discord_body :: "string \<Rightarrow> string \<Rightarrow> string \<Rightarrow> string option \<Rightarrow> string \<Rightarrow> string" where
  "discord_body headline agent_id status error lg =
     chat_icon status @ '' **'' @ headline @ ''** on `'' @ agent_id @ ''` '' @ ARROW_SIGN @ '' **'' @ status @ ''**'' @
     push_error ''> error: '' error @ push_tail (last_n_lines lg 6)"

text \<open>The cut at the end slices at a byte, and panics inside a character.\<close>

definition discord_text :: "string \<Rightarrow> string \<Rightarrow> string \<Rightarrow> string option \<Rightarrow> string \<Rightarrow> string option" where
  "discord_text headline agent_id status error lg = keep_tail 1900 (discord_body headline agent_id status error lg)"

definition escape_char :: "string \<Rightarrow> string" where
  "escape_char c =
     (if c = ''&'' then ''&amp;'' else if c = ''<'' then ''&lt;'' else if c = ''>'' then ''&gt;''
      else if c = [CHR 0x27] then ''&#39;'' else if c = [CHR 0x22] then ''&quot;'' else c)"

definition html_escape :: "string \<Rightarrow> string" where
  "html_escape s = concat (map escape_char (chars s))"

definition is_control_char :: "string \<Rightarrow> bool" where
  "is_control_char c \<longleftrightarrow>
     (case map of_char c of [n] \<Rightarrow> n < (32 :: nat) \<or> n = 127 | [m, n] \<Rightarrow> m = 194 \<and> 128 \<le> n \<and> n \<le> 159 | _ \<Rightarrow> False)"

definition is_bidi :: "string \<Rightarrow> bool" where
  "is_bidi c \<longleftrightarrow> map of_char c \<in> set (map (\<lambda>n. [226, 128, n]) [170 ..< (175 :: nat)] @ map (\<lambda>n. [226, 129, n]) [166 ..< 170])"

definition ESC :: string where "ESC = [char_of (27 :: nat)]"

definition is_final :: "string \<Rightarrow> bool" where
  "is_final c \<longleftrightarrow> (case map of_char c of [n] \<Rightarrow> 64 \<le> n \<and> n \<le> (126 :: nat) | _ \<Rightarrow> False)"

definition KEPT :: "string list" where "KEPT = [[char_of (9 :: nat)], [char_of (10 :: nat)], [char_of (13 :: nat)]]"

fun skip_csi :: "string list \<Rightarrow> string list" where
  "skip_csi [] = []"
| "skip_csi (n # cs) = (if is_final n then cs else skip_csi cs)"

lemma skip_csi_length: "length (skip_csi cs) \<le> length cs"
  by (induction cs) auto

function strip_chars :: "string list \<Rightarrow> string list" where
  "strip_chars [] = []"
| "strip_chars (c # cs) =
     (if c = ESC then (case cs of n # rest \<Rightarrow> if n = ''['' then strip_chars (skip_csi rest) else strip_chars cs
                                | [] \<Rightarrow> [])
      else if is_bidi c then strip_chars cs
      else if is_control_char c \<and> c \<notin> set KEPT then strip_chars cs
      else c # strip_chars cs)"
  by pat_completeness auto
termination
  by (relation "measure length") (auto simp: less_Suc_eq_le intro: le_SucI skip_csi_length)

definition strip_ansi :: "string \<Rightarrow> string" where
  "strip_ansi s = concat (strip_chars (chars s))"

definition telegram_text :: "string \<Rightarrow> string \<Rightarrow> string \<Rightarrow> string option \<Rightarrow> string \<Rightarrow> string" where
  "telegram_text headline agent_id status error lg =
     chat_icon status @ '' <b>'' @ html_escape headline @ ''</b> on <code>'' @ html_escape agent_id @ ''</code> '' @ ARROW_SIGN @
     '' <b>'' @ html_escape status @ ''</b>'' @
     push_error ''<i>error:</i> '' (map_option html_escape error) @
     (let tail = last_n_lines lg 8
      in if tail = [] then [] else NEWLINE @ ''<pre>'' @ html_escape (truncate_text tail TELEGRAM_LOG_CAP) @ ''</pre>'')"

section \<open>Configuration\<close>

datatype Sink = GenericJson string | Slack string | Discord string | Telegram string string

fun sink_label :: "Sink \<Rightarrow> string" where
  "sink_label (GenericJson _) = ''generic''"
| "sink_label (Slack _) = ''slack''"
| "sink_label (Discord _) = ''discord''"
| "sink_label (Telegram _ _) = ''telegram''"

definition env_or_empty :: "env \<Rightarrow> string \<Rightarrow> string" where
  "env_or_empty env name = env_or env name []"

definition env_with_fallback :: "env \<Rightarrow> string \<Rightarrow> string \<Rightarrow> string" where
  "env_with_fallback env pfx sfx =
     (let prefixed = env_or_empty env (pfx @ sfx) in if prefixed \<noteq> [] then prefixed else env_or_empty env sfx)"

definition env_bool_with_fallback :: "env \<Rightarrow> string \<Rightarrow> string \<Rightarrow> bool" where
  "env_bool_with_fallback env pfx sfx \<longleftrightarrow>
     to_ascii_lowercase (trim_ws (env_with_fallback env pfx sfx)) \<in> {''1'', ''true'', ''yes'', ''on''}"

record WebhookPrivacy =
  expose_agent_id :: bool
  include_output :: bool

definition configured_privacy :: "env \<Rightarrow> string \<Rightarrow> WebhookPrivacy" where
  "configured_privacy env pfx =
     \<lparr>expose_agent_id = env_bool_with_fallback env pfx ''WEBHOOK_EXPOSE_AGENT_ID'',
      include_output = env_bool_with_fallback env pfx ''WEBHOOK_INCLUDE_OUTPUT''\<rparr>"

definition generic_sink :: "env \<Rightarrow> string \<Rightarrow> Sink list" where
  "generic_sink env pfx =
     (let url = env_with_fallback env pfx ''WEBHOOK_URL'';
          specific = env_or_empty env (pfx @ ''WEBHOOK_FORMAT'');
          format = (if specific \<noteq> [] then specific else env_or env ''WEBHOOK_FORMAT'' ''json'')
      in if url = [] then [] else if format = ''slack'' then [Slack url] else [GenericJson url])"

definition configured_sinks :: "env \<Rightarrow> string \<Rightarrow> Sink list" where
  "configured_sinks env pfx =
     (let slack_url = env_with_fallback env pfx ''SLACK_WEBHOOK_URL'';
          discord_url = env_with_fallback env pfx ''DISCORD_WEBHOOK_URL'';
          token = env_with_fallback env pfx ''TELEGRAM_BOT_TOKEN'';
          chat_id = env_with_fallback env pfx ''TELEGRAM_CHAT_ID''
      in generic_sink env pfx @
         (if slack_url \<noteq> [] then [Slack slack_url] else []) @
         (if discord_url \<noteq> [] then [Discord discord_url] else []) @
         (if token \<noteq> [] \<and> chat_id \<noteq> [] then [Telegram token chat_id] else []))"

section \<open>Events and deliveries\<close>

record Event =
  ev_kind :: string
  ev_headline :: string
  ev_agent_id :: string
  ev_status :: string
  ev_log :: string
  ev_error :: "string option"
  ev_at :: int

definition sanitize_outbound_event :: "Event \<Rightarrow> WebhookPrivacy \<Rightarrow> Event" where
  "sanitize_outbound_event e p =
     (let e1 = (if expose_agent_id p then e else e\<lparr>ev_agent_id := ''<redacted-agent>''\<rparr>)
      in if include_output p then e1 else e1\<lparr>ev_log := [], ev_error := None\<rparr>)"

text \<open>The bodies of the requests, before they are encoded as JSON.\<close>

datatype body =
    JsonPayload string string string string "string option" int
  | SlackPayload string
  | DiscordPayload string
  | TelegramPayload string string string bool

datatype send_error = Timeout | Connect | Redirect | Body | Decode | OtherError

fun request_error_summary :: "send_error \<Rightarrow> string" where
  "request_error_summary Timeout = ''request timed out''"
| "request_error_summary Connect = ''connection failed''"
| "request_error_summary Redirect = ''redirect policy failed''"
| "request_error_summary Body = ''request body failed''"
| "request_error_summary Decode = ''response decode failed''"
| "request_error_summary OtherError = ''request failed''"

text \<open>An answer: its status code and its text.\<close>

type_synonym hook_reply = "(send_error, nat \<times> string) result"

fun build_request :: "Sink \<Rightarrow> Event \<Rightarrow> (string \<times> body) option" where
  "build_request (GenericJson url) e =
     Some (url, JsonPayload (ev_kind e) (ev_agent_id e) (ev_status e) (ev_log e) (ev_error e) (ev_at e))"
| "build_request (Slack url) e =
     Some (url, SlackPayload (slack_text (ev_headline e) (ev_agent_id e) (ev_status e) (ev_error e) (ev_log e)))"
| "build_request (Discord url) e =
     map_option (\<lambda>t. (url, DiscordPayload t)) (discord_text (ev_headline e) (ev_agent_id e) (ev_status e) (ev_error e) (ev_log e))"
| "build_request (Telegram token chat_id) e =
     Some (''https://api.telegram.org/bot'' @ token @ ''/sendMessage'',
           TelegramPayload chat_id (telegram_text (ev_headline e) (ev_agent_id e) (ev_status e) (ev_error e) (ev_log e)) ''HTML'' True)"

definition snippet :: "string \<Rightarrow> string" where
  "snippet text_body = html_escape (concat (take 200 (chars (strip_ansi text_body))))"

definition delivery_outcome :: "string \<Rightarrow> hook_reply \<Rightarrow> bool \<times> string" where
  "delivery_outcome lab r =
     (case r of
        Inr (code, text_body) \<Rightarrow>
          if 200 \<le> code \<and> code < 300 then (True, ''sink='' @ lab @ '' code='' @ nat_to_dec code)
          else (False, ''sink='' @ lab @ '' code='' @ nat_to_dec code @ '' body='' @ snippet text_body)
      | Inl e \<Rightarrow> (False, ''sink='' @ lab @ '' send: '' @ request_error_summary e))"

text \<open>The request sent, if the formatter did not panic, and the audit rows with it.\<close>

definition deliver_one ::
    "fault \<Rightarrow> int \<Rightarrow> (string \<times> body \<Rightarrow> hook_reply) \<Rightarrow> Sink \<Rightarrow> Event \<Rightarrow> string \<Rightarrow> auth_db \<Rightarrow> auth_db \<times> (string \<times> body) list" where
  "deliver_one flt now http sink e audit_agent_id d =
     (case build_request sink e of
        None \<Rightarrow> (d, [])
      | Some req \<Rightarrow>
          (case delivery_outcome (sink_label sink) (http req) of
             (ok, detail) \<Rightarrow>
               (record_audit flt now (Some ''webhook'') (Some audit_agent_id) (''webhook.'' @ ev_kind e) ok (Some detail) d, [req])))"

fun deliver_all ::
    "fault \<Rightarrow> int \<Rightarrow> (string \<times> body \<Rightarrow> hook_reply) \<Rightarrow> Sink list \<Rightarrow> Event \<Rightarrow> string \<Rightarrow> auth_db \<Rightarrow> auth_db \<times> (string \<times> body) list" where
  "deliver_all flt now http [] e a d = (d, [])"
| "deliver_all flt now http (s # ss) e a d =
     (case deliver_one flt now http s e a d of
        (d1, reqs) \<Rightarrow> (case deliver_all flt now http ss e a d1 of (d2, reqs') \<Rightarrow> (d2, reqs @ reqs')))"

text \<open>\<open>client_error\<close>: the message when the HTTP client cannot be built.\<close>

definition fire_inner ::
    "env \<Rightarrow> fault \<Rightarrow> int \<Rightarrow> string option \<Rightarrow> (string \<times> body \<Rightarrow> hook_reply) \<Rightarrow> string \<Rightarrow> Event \<Rightarrow> auth_db
      \<Rightarrow> auth_db \<times> (string \<times> body) list" where
  "fire_inner env flt now client_error http pfx event d =
     (let sinks = configured_sinks env pfx
      in if sinks = [] then (d, [])
         else (let e = sanitize_outbound_event event (configured_privacy env pfx);
                   truncated = truncate_text (ev_log e) WEBHOOK_LOG_CAP
               in case client_error of
                    Some msg \<Rightarrow>
                      (record_audit flt now (Some ''webhook'') (Some (ev_agent_id event)) (''webhook.'' @ ev_kind e) False
                         (Some (''client: '' @ msg)) d, [])
                  | None \<Rightarrow> deliver_all flt now http sinks (e\<lparr>ev_log := truncated\<rparr>) (ev_agent_id event) d))"

section \<open>The queue\<close>

definition QUEUE_CAP :: nat where "QUEUE_CAP = 1000"
definition MAX_CONCURRENT_DELIVERIES :: nat where "MAX_CONCURRENT_DELIVERIES = 20"

text \<open>
  The channel, the job the dispatcher has received and holds while it waits for a permit, the deliveries that have
  one, and (for the statement of the properties) the events fired, dropped and finished so far.
\<close>

record dispatch =
  q_jobs :: "(string \<times> Event) list"
  q_held :: "(string \<times> Event) option"
  q_running :: "(string \<times> Event) list"
  q_finished :: "(string \<times> Event) list"
  q_dropped :: "(string \<times> Event) list"
  q_db :: auth_db

definition fire :: "env \<Rightarrow> fault \<Rightarrow> int \<Rightarrow> string \<Rightarrow> Event \<Rightarrow> dispatch \<Rightarrow> dispatch" where
  "fire env flt now pfx e s =
     (if configured_sinks env pfx = [] then s
      else if length (q_jobs s) < QUEUE_CAP then s\<lparr>q_jobs := q_jobs s @ [(pfx, e)]\<rparr>
      else s\<lparr>q_dropped := q_dropped s @ [(pfx, e)],
             q_db := record_audit flt now (Some ''webhook'') (Some (ev_agent_id e)) (''webhook.'' @ ev_kind e) False
                       (Some ''dispatch queue full, event dropped'') (q_db s)\<rparr>)"

datatype dispatch_op =
    Fire env fault int string Event
  | Receive
  | Acquire
  | Finish nat env fault int "string option" "string \<times> body \<Rightarrow> hook_reply"

definition finish_delivery ::
    "nat \<Rightarrow> env \<Rightarrow> fault \<Rightarrow> int \<Rightarrow> string option \<Rightarrow> (string \<times> body \<Rightarrow> hook_reply) \<Rightarrow> dispatch \<Rightarrow> dispatch" where
  "finish_delivery i env flt now client_error http s =
     (if i < length (q_running s)
      then (let job = q_running s ! i
            in s\<lparr>q_running := take i (q_running s) @ drop (Suc i) (q_running s), q_finished := q_finished s @ [job],
                 q_db := fst (fire_inner env flt now client_error http (fst job) (snd job) (q_db s))\<rparr>)
      else s)"

text \<open>One turn of the dispatcher loop is \<open>Receive\<close> followed by \<open>Acquire\<close>; both wait for their condition.\<close>

fun dispatch_step :: "dispatch \<Rightarrow> dispatch_op \<Rightarrow> dispatch" where
  "dispatch_step s (Fire env flt now pfx e) = fire env flt now pfx e s"
| "dispatch_step s Receive =
     (case (q_held s, q_jobs s) of (None, j # js) \<Rightarrow> s\<lparr>q_held := Some j, q_jobs := js\<rparr> | _ \<Rightarrow> s)"
| "dispatch_step s Acquire =
     (case q_held s of
        Some j \<Rightarrow> if length (q_running s) < MAX_CONCURRENT_DELIVERIES
                  then s\<lparr>q_held := None, q_running := q_running s @ [j]\<rparr> else s
      | None \<Rightarrow> s)"
| "dispatch_step s (Finish i env flt now ce http) = finish_delivery i env flt now ce http s"

section \<open>The events\<close>

text \<open>\<open>i64\<close> division truncates towards zero.\<close>

definition i64_div :: "int \<Rightarrow> int \<Rightarrow> int" where
  "i64_div a b = sgn a * sgn b * (\<bar>a\<bar> div \<bar>b\<bar>)"

fun hook_event :: "hook \<Rightarrow> string \<times> Event" where
  "hook_event (Hook_Update agent_id status lg error t) =
     (''UPDATE_'', \<lparr>ev_kind = ''update_result'', ev_headline = ''shellfleet apt upgrade'', ev_agent_id = agent_id,
        ev_status = status, ev_log = lg, ev_error = error, ev_at = t\<rparr>)"
| "hook_event (Hook_Health agent_id probe_name st detail t) =
     (''HEALTH_'', \<lparr>ev_kind = ''health_probe.transition'', ev_headline = ''shellfleet health probe `'' @ probe_name @ ''`'',
        ev_agent_id = agent_id, ev_status = (case st of Green \<Rightarrow> ''green'' | Red \<Rightarrow> ''red''), ev_log = detail,
        ev_error = None, ev_at = t\<rparr>)"
| "hook_event (Hook_Backup agent_id name success lg error t) =
     (''BACKUP_'', \<lparr>ev_kind = ''backup_job.result'', ev_headline = ''shellfleet backup `'' @ name @ ''`'',
        ev_agent_id = agent_id, ev_status = (if success then ''success'' else ''failed''), ev_log = lg, ev_error = error, ev_at = t\<rparr>)"
| "hook_event (Hook_Disconnect agent_id t) =
     (''DISCONNECT_'', \<lparr>ev_kind = ''agent.disconnect'', ev_headline = ''shellfleet agent'', ev_agent_id = agent_id,
        ev_status = ''disconnected'', ev_log = [], ev_error = None, ev_at = t\<rparr>)"
| "hook_event (Hook_Connect agent_id t) =
     (''CONNECT_'', \<lparr>ev_kind = ''agent.connect'', ev_headline = ''shellfleet agent'', ev_agent_id = agent_id,
        ev_status = ''connected'', ev_log = [], ev_error = None, ev_at = t\<rparr>)"
| "hook_event (Hook_Still_Offline agent_id down_secs t) =
     (''DISCONNECT_'', \<lparr>ev_kind = ''agent.still_offline'', ev_headline = ''shellfleet agent'', ev_agent_id = agent_id,
        ev_status = ''still offline for '' @ int_to_dec (i64_div down_secs 60) @ ''m'', ev_log = [], ev_error = None, ev_at = t\<rparr>)"

section \<open>Lemmas\<close>

subsection \<open>Characters\<close>

lemma follow_cont: "follow k cs = n \<Longrightarrow> \<forall>b\<in>set (take n cs). is_cont b"
  by (induction k cs arbitrary: n rule: follow.induct) (auto split: if_splits)

lemma step_high:
  assumes "utf8_step c cs = (n, ok)" and "128 \<le> (of_char c :: nat)"
  shows "\<forall>b\<in>set (take n (c # cs)). 128 \<le> (of_char b :: nat)"
proof (cases "n = 1")
  case False
  then obtain k where k: "cs \<noteq> []" "second_ok (of_char c) (hd cs)" "n = follow (k - 1) (tl cs) + 2"
    using assms(1) by (auto simp: utf8_step_def Let_def split: option.splits if_splits)
  then have t: "take n (c # cs) = c # hd cs # take (follow (k - 1) (tl cs)) (tl cs)" by (cases cs) auto
  have "128 \<le> (of_char (hd cs) :: nat)" using k(2) by (auto simp: second_ok_def Let_def split: if_splits)
  then show ?thesis using follow_cont [OF refl, of "k - 1" "tl cs"] assms(2) unfolding t by (auto simp: is_cont_def)
qed (use assms(2) in auto)

text \<open>A character is one ASCII byte, or has none.\<close>

lemma chars_shape: "x \<in> set (chars s) \<Longrightarrow> (\<exists>c. x = [c] \<and> (of_char c :: nat) < 128) \<or> (\<forall>b\<in>set x. 128 \<le> (of_char b :: nat))"
proof (induction s rule: chars.induct)
  case (2 c cs)
  obtain n ok where st: "utf8_step c cs = (n, ok)" by fastforce
  show ?case
  proof (cases "x \<in> set (chars (drop n (c # cs)))")
    case True
    then show ?thesis using 2(1) [OF st [symmetric]] by blast
  next
    case False
    then have x: "x = take n (c # cs)" using 2(2) st by simp
    show ?thesis
    proof (cases "(of_char c :: nat) < 128")
      case True
      then show ?thesis using ascii_step [OF True, of cs] st x by simp
    qed (use step_high [OF st] x in auto)
  qed
qed simp

definition escape_byte :: "char \<Rightarrow> string" where
  "escape_byte b = escape_char [b]"

lemma escape_high: "128 \<le> (of_char b :: nat) \<Longrightarrow> escape_byte b = [b]"
  by (auto simp: escape_byte_def escape_char_def)

lemma concat_map_concat: "concat (map (\<lambda>x. concat (map f x)) xs) = concat (map f (concat xs))"
  by (induction xs) simp_all

lemma html_escape_bytes: "html_escape s = concat (map escape_byte s)"
proof -
  have "escape_char x = concat (map escape_byte x)" if "x \<in> set (chars s)" for x
    using chars_shape [OF that]
  proof
    assume high: "\<forall>b\<in>set x. 128 \<le> (of_char b :: nat)"
    then have "concat (map escape_byte x) = x" by (induction x) (simp_all add: escape_high)
    moreover have "escape_char x = x" using high by (auto simp: escape_char_def)
    ultimately show ?thesis by simp
  qed (auto simp: escape_byte_def)
  then have "html_escape s = concat (map (\<lambda>x. concat (map escape_byte x)) (chars s))"
    by (simp add: html_escape_def cong: map_cong)
  also have "\<dots> = concat (map escape_byte (concat (chars s)))" by (rule concat_map_concat)
  finally show ?thesis by (simp add: chars_concat)
qed

definition ENTITIES :: "(string \<times> char) list" where
  "ENTITIES = [(''&amp;'', CHR ''&''), (''&lt;'', CHR ''<''), (''&gt;'', CHR ''>''), (''&#39;'', CHR 0x27), (''&quot;'', CHR 0x22)]"

text \<open>A reader that decodes the five entities.\<close>

function html_unescape :: "string \<Rightarrow> string" where
  "html_unescape [] = []"
| "html_unescape (c # cs) =
     (case find (\<lambda>(ent, b). starts_with (c # cs) ent) ENTITIES of
        Some (ent, b) \<Rightarrow> b # html_unescape (drop (length ent - 1) cs)
      | None \<Rightarrow> c # html_unescape cs)"
  by pat_completeness auto
termination
  by (relation "measure length") auto

lemma unescape_entity:
  assumes "(ent, b) \<in> set ENTITIES" shows "html_unescape (ent @ t) = b # html_unescape t"
  using assms by (auto simp: ENTITIES_def starts_with_def)

lemma unescape_plain: "c \<noteq> CHR ''&'' \<Longrightarrow> html_unescape (c # t) = c # html_unescape t"
  by (simp add: ENTITIES_def starts_with_def)

lemma unescape_byte: "html_unescape (escape_byte b @ t) = b # html_unescape t"
proof -
  have "(escape_byte b, b) \<in> set ENTITIES \<or> b \<noteq> CHR ''&'' \<and> escape_byte b = [b]"
    by (simp add: ENTITIES_def escape_byte_def escape_char_def)
  then show ?thesis using unescape_entity unescape_plain by auto
qed

lemma html_roundtrip: "html_unescape (html_escape s) = s"
  unfolding html_escape_bytes by (induction s) (simp_all add: unescape_byte del: html_unescape.simps(2))

definition is_one_char :: "string \<Rightarrow> bool" where
  "is_one_char x \<longleftrightarrow> x \<noteq> [] \<and> utf8_step (hd x) (tl x) = (length x, True)"

lemma chars_of_chars: "\<forall>x\<in>set xs. is_one_char x \<Longrightarrow> chars (concat xs) = xs \<and> valid_utf8 (concat xs)"
proof (induction xs)
  case (Cons x xs)
  then obtain c cs where x: "x = c # cs" "utf8_step c cs = (Suc (length cs), True)" by (cases x) (auto simp: is_one_char_def)
  then have "utf8_step c (cs @ concat xs) = (Suc (length cs), True)" using utf8_step_take [OF x(2), of "concat xs"] by simp
  with Cons x show ?case by simp
qed simp

lemma valid_chars: "valid_utf8 s \<Longrightarrow> x \<in> set (chars s) \<Longrightarrow> is_one_char x"
proof (induction s rule: chars.induct)
  case (2 c cs)
  obtain n ok where st: "utf8_step c cs = (n, ok)" by fastforce
  have ok: ok "valid_utf8 (drop n (c # cs))" using 2(2) st by auto
  have "is_one_char (take n (c # cs))"
    using st ok(1) utf8_step_take [of c cs n "[]"] utf8_step_pos [OF st] utf8_step_le [OF st] take_step [OF st]
    by (auto simp: is_one_char_def min_absorb2)
  with 2(1) [OF st [symmetric] ok(2)] 2(3) st show ?case by auto
qed simp

lemma skip_csi_set: "set (skip_csi cs) \<subseteq> set cs"
  by (induction cs) auto

lemma strip_chars_clean:
  "x \<in> set (strip_chars cs) \<Longrightarrow> x \<in> set cs \<and> \<not> is_bidi x \<and> (is_control_char x \<longrightarrow> x \<in> set KEPT)"
proof (induction cs rule: strip_chars.induct)
  case (2 c cs)
  show ?case
  proof (cases "c = ESC")
    case True
    show ?thesis
    proof (cases cs)
      case Nil
      then show ?thesis using 2 True by simp
    next
      case (Cons n rest)
      then show ?thesis
        using 2(1,2) [OF True Cons] 2(6) True skip_csi_set [of rest] by (cases "n = ''[''") auto
    qed
  next
    case False
    then show ?thesis using 2(3-6) by (auto split: if_splits)
  qed
qed simp

lemma ascii_one_char: "(of_char c :: nat) < 128 \<Longrightarrow> is_one_char [c]"
  by (simp add: is_one_char_def ascii_step)

text \<open>What may stand in the audit table: no control character but tabs and line breaks, no override, no markup.\<close>

definition harmless :: "string \<Rightarrow> bool" where
  "harmless c \<longleftrightarrow> \<not> is_bidi c \<and> (is_control_char c \<longrightarrow> c \<in> set KEPT) \<and>
     c \<notin> {''<'', ''>'', [CHR 0x27], [CHR 0x22]}"

lemma escape_char_pieces:
  assumes "is_one_char c" and "\<not> is_bidi c"
    and "is_control_char c \<longrightarrow> c \<in> set KEPT"
  shows "\<exists>ps. escape_char c = concat ps \<and> length ps \<le> 6 \<and> (\<forall>p\<in>set ps. is_one_char p \<and> harmless p)"
proof (cases "escape_char c = c")
  case True
  with assms show ?thesis by (intro exI [of _ "[c]"]) (auto simp: harmless_def escape_char_def split: if_splits)
next
  case False
  then have "escape_char c \<in> {''&amp;'', ''&lt;'', ''&gt;'', ''&#39;'', ''&quot;''}"
    by (auto simp: escape_char_def split: if_splits)
  then show ?thesis
    by (intro exI [of _ "map (\<lambda>b. [b]) (escape_char c)"])
      (auto simp: ascii_one_char harmless_def is_bidi_def is_control_char_def KEPT_def)
qed

lemma concat_pieces:
  assumes "\<forall>c\<in>set cs. \<exists>ps. f c = concat ps \<and> length ps \<le> k \<and> (\<forall>p\<in>set ps. Q p)"
  shows "\<exists>ps. concat (map f cs) = concat ps \<and> length ps \<le> k * length cs \<and> (\<forall>p\<in>set ps. Q p)"
  using assms
proof (induction cs)
  case (Cons c cs)
  then obtain ps qs where "f c = concat ps" "length ps \<le> k" "\<forall>p\<in>set ps. Q p" "concat (map f cs) = concat qs"
    "length qs \<le> k * length cs" "\<forall>p\<in>set qs. Q p" by auto
  then show ?case by (intro exI [of _ "ps @ qs"]) auto
qed simp

section \<open>Properties\<close>

text \<open>
  Text from outside in the audit table. Whatever a receiver answers with, the part of it that a failed delivery
  records is at most 1200 characters, none of which is a control character (tabs and line breaks apart), a
  bidirectional override, an angle bracket or a quote.
\<close>

theorem receiver_text_is_harmless:
  assumes "valid_utf8 answer"
  shows "length (chars (snippet answer)) \<le> 1200 \<and> (\<forall>c\<in>set (chars (snippet answer)). harmless c)"
proof -
  let ?cs = "strip_chars (chars answer)"
  have one: "\<forall>x\<in>set ?cs. is_one_char x" using valid_chars [OF assms] strip_chars_clean by blast
  then have cs: "chars (strip_ansi answer) = ?cs" using chars_of_chars by (simp add: strip_ansi_def)
  have tk: "chars (concat (take 200 ?cs)) = take 200 ?cs" using chars_of_chars [of "take 200 ?cs"] one by (auto dest: in_set_takeD)
  have "\<exists>ps. escape_char c = concat ps \<and> length ps \<le> 6 \<and> (\<forall>p\<in>set ps. is_one_char p \<and> harmless p)"
    if "c \<in> set (take 200 ?cs)" for c
    using escape_char_pieces [of c] strip_chars_clean [of c "chars answer"] in_set_takeD [OF that] one by blast
  then obtain ps where ps: "snippet answer = concat ps" "length ps \<le> 6 * length (take 200 ?cs)"
      "\<forall>p\<in>set ps. is_one_char p \<and> harmless p"
    using concat_pieces [of "take 200 ?cs" escape_char 6 "\<lambda>p. is_one_char p \<and> harmless p"]
    by (auto simp: snippet_def html_escape_def cs tk)
  then show ?thesis using chars_of_chars [of ps] by auto
qed

theorem receiver_text_is_harmless_witness:
  "harmless ''&'' \<and> (\<forall>c\<in>set (chars (snippet (ESC @ ''[31m<b>'' @ ESC @ ''[0m''))). harmless c) \<and>
   snippet (ESC @ ''[31m<b>'' @ ESC @ ''[0m'') = ''&lt;b&gt;''"
proof -
  have s: "snippet (ESC @ ''[31m<b>'' @ ESC @ ''[0m'') = ''&lt;b&gt;''" by code_simp
  have v: "valid_utf8 (ESC @ ''[31m<b>'' @ ESC @ ''[0m'')" by code_simp
  have "harmless ''&''" by code_simp
  then show ?thesis using receiver_text_is_harmless [OF v] s by simp
qed

text \<open>
  Escaping loses nothing and lets no markup through: the five entities decode to the text that was escaped, and
  the escaped text has no angle bracket or quote.
\<close>

theorem html_escape_is_reversible:
  "html_unescape (html_escape s) = s \<and> set (html_escape s) \<inter> {CHR ''<'', CHR ''>'', CHR 0x27, CHR 0x22} = {}"
proof -
  have "set (escape_byte b) \<inter> {CHR ''<'', CHR ''>'', CHR 0x27, CHR 0x22} = {}" for b
    by (auto simp: escape_byte_def escape_char_def split: if_splits)
  then have "set (concat (map escape_byte s)) \<inter> {CHR ''<'', CHR ''>'', CHR 0x27, CHR 0x22} = {}" by (induction s) auto
  then show ?thesis by (simp add: html_roundtrip) (simp add: html_escape_bytes)
qed

subsection \<open>Privacy\<close>

lemma deliver_all_requests: "snd (deliver_all flt now http ss e a d) = List.map_filter (\<lambda>s. build_request s e) ss"
  by (induction ss arbitrary: d)
    (simp_all add: deliver_one_def map_filter_simps case_prod_beta split: option.splits)

definition requests :: "env \<Rightarrow> string option \<Rightarrow> string \<Rightarrow> Event \<Rightarrow> (string \<times> body) list" where
  "requests env ce pfx e =
     (if ce = None
      then List.map_filter (\<lambda>s. build_request s
             (let e' = sanitize_outbound_event e (configured_privacy env pfx)
              in e'\<lparr>ev_log := truncate_text (ev_log e') WEBHOOK_LOG_CAP\<rparr>)) (configured_sinks env pfx)
      else [])"

lemma fire_inner_requests: "snd (fire_inner env flt now ce http pfx e d) = requests env ce pfx e"
  by (auto simp: fire_inner_def requests_def deliver_all_requests Let_def map_filter_simps split: option.splits)

text \<open>
  C21: notifications are private unless opted in. Take any configuration of receivers. If showing the agent was not
  opted in, the requests sent for an event are the same whichever agent it is about; if including output was not
  opted in, they are the same whatever was in the log and in the error. No answer of a receiver, failing
  statement or earlier state of the tables makes a difference either.
\<close>

theorem notifications_are_private_by_default:
  shows "(\<not> expose_agent_id (configured_privacy env pfx) \<longrightarrow>
       snd (fire_inner env flt now ce http pfx (e\<lparr>ev_agent_id := x\<rparr>) d) = snd (fire_inner env flt' now' ce http' pfx e d')) \<and>
    (\<not> include_output (configured_privacy env pfx) \<longrightarrow>
       snd (fire_inner env flt now ce http pfx (e\<lparr>ev_log := l, ev_error := err\<rparr>) d) = snd (fire_inner env flt' now' ce http' pfx e d'))"
proof (intro conjI impI)
  let ?p = "configured_privacy env pfx"
  assume "\<not> expose_agent_id ?p"
  then have "sanitize_outbound_event (e\<lparr>ev_agent_id := x\<rparr>) ?p = sanitize_outbound_event e ?p"
    by (simp add: sanitize_outbound_event_def)
  then show "snd (fire_inner env flt now ce http pfx (e\<lparr>ev_agent_id := x\<rparr>) d) = snd (fire_inner env flt' now' ce http' pfx e d')"
    by (simp add: fire_inner_requests requests_def)
next
  let ?p = "configured_privacy env pfx"
  assume "\<not> include_output ?p"
  then have "sanitize_outbound_event (e\<lparr>ev_log := l, ev_error := err\<rparr>) ?p = sanitize_outbound_event e ?p"
    by (simp add: sanitize_outbound_event_def)
  then show "snd (fire_inner env flt now ce http pfx (e\<lparr>ev_log := l, ev_error := err\<rparr>) d) = snd (fire_inner env flt' now' ce http' pfx e d')"
    by (simp add: fire_inner_requests requests_def)
qed

definition demo_hook_event :: Event where
  "demo_hook_event = \<lparr>ev_kind = ''backup_job.result'', ev_headline = ''shellfleet backup `db`'', ev_agent_id = ''db-01'',
     ev_status = ''failed'', ev_log = ''password=x'', ev_error = Some ''token'', ev_at = 5\<rparr>"

definition demo_hook_env :: env where
  "demo_hook_env = [''SLACK_WEBHOOK_URL'' \<mapsto> ''https://hook'']"

lemma demo_privacy: "configured_privacy demo_hook_env ''BACKUP_'' = \<lparr>expose_agent_id = False, include_output = False\<rparr>"
  by (simp add: configured_privacy_def env_bool_with_fallback_def env_with_fallback_def env_or_empty_def env_or_def
      demo_hook_env_def trim_ws_def to_ascii_lowercase_def)

theorem notifications_are_private_by_default_witness:
  "snd (fire_inner demo_hook_env (\<lambda>_. False) 9 None (\<lambda>_. Inl Timeout) ''BACKUP_'' (demo_hook_event\<lparr>ev_agent_id := ''web-02''\<rparr>) demo_db) =
   snd (fire_inner demo_hook_env (\<lambda>_. False) 9 None (\<lambda>_. Inl Timeout) ''BACKUP_'' demo_hook_event demo_db)"
  using notifications_are_private_by_default [of demo_hook_env "''BACKUP_''"] demo_privacy by simp

subsection \<open>The queue\<close>

text \<open>The events of a run that had a receiver configured when they were fired.\<close>

fun fired :: "dispatch_op list \<Rightarrow> (string \<times> Event) list" where
  "fired [] = []"
| "fired (Fire env flt now pfx e # ops) = (if configured_sinks env pfx = [] then [] else [(pfx, e)]) @ fired ops"
| "fired (_ # ops) = fired ops"

definition inside :: "dispatch \<Rightarrow> (string \<times> Event) multiset" where
  "inside s = mset (q_jobs s) + (case q_held s of Some j \<Rightarrow> {#j#} | None \<Rightarrow> {#}) + mset (q_running s)"

definition dispatch_ok :: "dispatch \<Rightarrow> bool" where
  "dispatch_ok s \<longleftrightarrow> length (q_jobs s) \<le> QUEUE_CAP \<and> length (q_running s) \<le> MAX_CONCURRENT_DELIVERIES"

lemma mset_remove_nth: "i < length xs \<Longrightarrow> mset (take i xs @ drop (Suc i) xs) + {#xs ! i#} = mset xs"
proof -
  assume "i < length xs"
  then have "xs = take i xs @ xs ! i # drop (Suc i) xs" by (simp add: id_take_nth_drop)
  then have "mset xs = mset (take i xs @ xs ! i # drop (Suc i) xs)" by simp
  then show ?thesis by simp
qed

lemma dispatch_step_ok:
  assumes "dispatch_ok s"
  shows "dispatch_ok (dispatch_step s a) \<and>
    inside (dispatch_step s a) + mset (q_finished (dispatch_step s a)) + mset (q_dropped (dispatch_step s a)) =
      inside s + mset (q_finished s) + mset (q_dropped s) + mset (fired [a])"
proof (cases a)
  case (Finish i env flt now ce http)
  then show ?thesis
    using assms mset_remove_nth [of i "q_running s"]
    by (auto simp: dispatch_ok_def inside_def finish_delivery_def Let_def min_def ac_simps split: option.splits)
qed (use assms in \<open>auto simp: dispatch_ok_def inside_def fire_def MAX_CONCURRENT_DELIVERIES_def split: option.splits list.splits\<close>)

lemma fired_append: "fired (a # ops) = fired [a] @ fired ops"
  by (cases a) simp_all


definition demo_queue :: dispatch where
  "demo_queue = \<lparr>q_jobs = [], q_held = None, q_running = [], q_finished = [], q_dropped = [], q_db = demo_db\<rparr>"


subsection \<open>Cutting texts\<close>

lemma next_boundary_ok:
  "start \<le> length s \<Longrightarrow> start \<le> next_boundary s start \<and> is_char_boundary s (next_boundary s start)"
proof (induction s start rule: next_boundary.induct)
  case (1 s start)
  show ?case
  proof (cases "start < length s \<and> \<not> is_char_boundary s start")
    case True
    with 1(1) [OF True] show ?thesis by (simp add: next_boundary.simps [of s start])
  next
    case False
    with 1(2) show ?thesis by (auto simp: next_boundary.simps [of s start] is_char_boundary_def)
  qed
qed

lemma truncate_text_boundary:
  assumes "cap < length s"
  shows "\<exists>k. length s - cap \<le> k \<and> is_char_boundary s k \<and> truncate_text s cap = truncated_head k @ drop k s"
  using assms next_boundary_ok [of "length s - cap" s] by (auto simp: truncate_text_def Let_def)

lemma one_line:
  assumes "char_of (10 :: nat) \<notin> set s" and "s \<noteq> []" and "0 < n"
  shows "last_n_lines s n = s"
  using assms by (simp add: last_n_lines_def str_lines_def split_on_single Let_def)

lemma accents_no_newline: "char_of (10 :: nat) \<notin> set (accents n @ ''a'')"
proof -
  have "CHR ''a'' \<noteq> char_of (10 :: nat)" by code_simp
  then show ?thesis by (auto simp: accents_def E_ACUTE_def)
qed

lemma discord_text_panics: "discord_text h a st er (accents 1000 @ ''a'') = None"
proof -
  obtain pre where "discord_body h a st er (accents 1000 @ ''a'') = pre @ push_tail (accents 1000 @ ''a'')"
    using one_line [OF accents_no_newline, of 1000 6] by (simp add: discord_body_def)
  then obtain pre where b: "discord_body h a st er (accents 1000 @ ''a'') = pre @ accents 1000 @ ''a'' @ NEWLINE @ ''```''"
    by (simp add: push_tail_def accents_def E_ACUTE_def flip: append_assoc)
  let ?s = "pre @ accents 1000 @ ''a'' @ NEWLINE @ ''```''"
  have len: "length ?s = length pre + 2005" by (simp add: accents_facts NEWLINE_def)
  have "?s ! (length ?s - 1900) = accents 1000 ! (2 * 52 + 1)"
    unfolding len by (simp add: nth_append accents_facts)
  then have "?s ! (length ?s - 1900) = char_of (169 :: nat)" using accents_nth [of 52 1000] by simp
  then show ?thesis unfolding discord_text_def b keep_tail_None len by (simp add: is_cont_def)
qed

text \<open>
  A long accented output silences Discord. Cutting a log for the other receivers walks to a character boundary
  and always succeeds. The Discord formatter cuts at a byte. So when output is included, a log of a thousand
  accented letters and a plain one, whatever the headline, the agent, the status and the error are, makes the
  formatter of a Discord receiver panic: no request is sent and no audit row tells of it, while a Slack receiver
  in its place gets the event and leaves a row.
\<close>

theorem discord_delivery_can_panic:
  assumes "configured_sinks env pfx = [Discord url]" and "configured_sinks env' pfx = [Slack url]"
    and "include_output (configured_privacy env pfx)" and "include_output (configured_privacy env' pfx)"
    and "ev_log e = accents 1000 @ ''a''" and "\<not> flt ''record_audit''"
  shows "(\<forall>t n. n < length t \<longrightarrow> (\<exists>k\<ge>length t - n. is_char_boundary t k \<and> truncate_text t n = truncated_head k @ drop k t)) \<and>
    fire_inner env flt now None http pfx e d = (d, []) \<and>
    (\<exists>req row. snd (fire_inner env' flt now None http pfx e d) = [req] \<and>
       db_audit (fst (fire_inner env' flt now None http pfx e d)) = db_audit d @ [row])"
proof (intro conjI)
  show "\<forall>t n. n < length t \<longrightarrow> (\<exists>k\<ge>length t - n. is_char_boundary t k \<and> truncate_text t n = truncated_head k @ drop k t)"
    using truncate_text_boundary by blast
  have short: "truncate_text (accents 1000 @ ''a'') WEBHOOK_LOG_CAP = accents 1000 @ ''a''"
    by (simp add: truncate_text_def WEBHOOK_LOG_CAP_def accents_facts)
  show "fire_inner env flt now None http pfx e d = (d, [])"
    using assms(1,3,5) short
    by (simp add: fire_inner_def sanitize_outbound_event_def deliver_one_def discord_text_panics Let_def)
  show "\<exists>req row. snd (fire_inner env' flt now None http pfx e d) = [req] \<and>
       db_audit (fst (fire_inner env' flt now None http pfx e d)) = db_audit d @ [row]"
    using assms(2,4,5,6) short
    by (auto simp: fire_inner_def sanitize_outbound_event_def deliver_one_def record_audit_def Let_def split: prod.splits)
qed

definition discord_env :: env where
  "discord_env = [''DISCORD_WEBHOOK_URL'' \<mapsto> ''https://d'', ''WEBHOOK_INCLUDE_OUTPUT'' \<mapsto> ''on'']"

definition slack_env :: env where
  "slack_env = [''SLACK_WEBHOOK_URL'' \<mapsto> ''https://d'', ''WEBHOOK_INCLUDE_OUTPUT'' \<mapsto> ''on'']"

theorem discord_delivery_can_panic_witness:
  "fire_inner discord_env (\<lambda>_. False) 9 None (\<lambda>_. Inl Timeout) ''BACKUP_'' (demo_hook_event\<lparr>ev_log := accents 1000 @ ''a''\<rparr>) demo_db = (demo_db, [])"
proof -
  have "env_bool_with_fallback discord_env ''BACKUP_'' ''WEBHOOK_INCLUDE_OUTPUT''"
    "env_bool_with_fallback slack_env ''BACKUP_'' ''WEBHOOK_INCLUDE_OUTPUT''"
    unfolding env_bool_with_fallback_def env_with_fallback_def env_or_empty_def env_or_def discord_env_def slack_env_def by code_simp+
  moreover have "configured_sinks discord_env ''BACKUP_'' = [Discord ''https://d'']"
    "configured_sinks slack_env ''BACKUP_'' = [Slack ''https://d'']"
    by (simp_all add: configured_sinks_def generic_sink_def env_with_fallback_def env_or_empty_def env_or_def discord_env_def slack_env_def)
  ultimately show ?thesis
    using discord_delivery_can_panic [of discord_env "''BACKUP_''" "''https://d''" slack_env
        "demo_hook_event\<lparr>ev_log := accents 1000 @ ''a''\<rparr>" "\<lambda>_. False" 9 "\<lambda>_. Inl Timeout" demo_db]
    by (simp add: configured_privacy_def)
qed

end
