(* ===== verification/Agent_Lists.thy ===== *)
theory Agent_Lists
  imports Agent_Commands K8s_Policy Agent_Start Agent_Backup
begin

text \<open>
  What the agent reads from its host: the listings of \<open>agent/src/docker.rs\<close> and \<open>systemd.rs\<close>, the prune
  operations, the system statistics of \<open>stats.rs\<close>, and the parsers they share. A command is a \<open>runner\<close>
  (its arguments to its output), JSON is decoded by an argument \<open>parse_json\<close> that keeps the members of an
  object in order; rows are then read the way the derived deserialisers read them.

  Decimal numbers become binary floats with exact rounding (\<open>float_bits\<close>), so the sizes docker prints are the
  sizes the agent reports. Shown: what a listing contains is what its lines say, sections of a prune report are
  kept apart, and the fallback parser of the service list puts padded columns into the wrong fields.
\<close>

section \<open>Words and numbers\<close>

text \<open>\<open>split_whitespace\<close> and \<open>splitn(n, char::is_whitespace)\<close>, over the characters of a text.\<close>

fun ws_words :: "string list \<Rightarrow> string \<Rightarrow> string list" where
  "ws_words [] cur = (if cur = [] then [] else [cur])"
| "ws_words (c # cs) cur =
     (if is_whitespace c then (if cur = [] then ws_words cs [] else cur # ws_words cs []) else ws_words cs (cur @ c))"

definition split_whitespace :: "string \<Rightarrow> string list" where
  "split_whitespace s = ws_words (chars s) []"

fun splitn_ws :: "nat \<Rightarrow> string list \<Rightarrow> string \<Rightarrow> string list" where
  "splitn_ws 0 cs cur = []"
| "splitn_ws (Suc 0) cs cur = [cur @ concat cs]"
| "splitn_ws (Suc (Suc n)) [] cur = [cur]"
| "splitn_ws (Suc (Suc n)) (c # cs) cur =
     (if is_whitespace c then cur # splitn_ws (Suc n) cs [] else splitn_ws (Suc (Suc n)) cs (cur @ c))"

text \<open>\<open>splitn(n, char)\<close> for an ASCII character.\<close>

fun splitn_on :: "char \<Rightarrow> nat \<Rightarrow> string \<Rightarrow> string list" where
  "splitn_on c 0 s = []"
| "splitn_on c (Suc 0) s = [s]"
| "splitn_on c (Suc (Suc n)) s =
     (case split_once_on c s of None \<Rightarrow> [s] | Some (a, b) \<Rightarrow> a # splitn_on c (Suc n) b)"

definition trim_start_ws :: "string \<Rightarrow> string" where
  "trim_start_ws s = concat (dropWhile is_whitespace (chars s))"

text \<open>
  Decimal text to a binary float of \<open>p\<close> bits with smallest exponent \<open>emin\<close>: the value \<open>n / d\<close> is rounded to the
  nearest representable one, ties to even, and its encoding is returned without the sign; \<open>big\<close> encodes infinity.
\<close>

fun ilog2 :: "nat \<Rightarrow> nat" where
  "ilog2 n = (if n < 2 then 0 else Suc (ilog2 (n div 2)))"

declare ilog2.simps [simp del]

definition flog2 :: "nat \<Rightarrow> nat \<Rightarrow> int" where
  "flog2 n d =
     (if d \<le> n then int (ilog2 (n div d))
      else (let k = ilog2 (d div n) in if d \<le> 2 ^ k * n then - int k else - int (k + 1)))"

definition round_half_even :: "nat \<Rightarrow> nat \<Rightarrow> nat" where
  "round_half_even n d =
     (let q = n div d; r = n mod d
      in if 2 * r < d then q else if d < 2 * r then q + 1 else if even q then q else q + 1)"

definition float_bits :: "nat \<Rightarrow> int \<Rightarrow> nat \<Rightarrow> nat \<Rightarrow> nat \<Rightarrow> nat" where
  "float_bits p emin big n d =
     (if n = 0 then 0
      else (let e = max emin (flog2 n d); s = e - (int p - 1);
                m = (if 0 \<le> s then round_half_even n (d * 2 ^ nat s) else round_half_even (n * 2 ^ nat (- s)) d)
            in min big (nat (e - emin) * 2 ^ (p - 1) + m)))"

definition F32_INF :: nat where "F32_INF = 255 * 2 ^ 23"
definition F64_INF :: nat where "F64_INF = 2047 * 2 ^ 52"

text \<open>A finite \<open>f64\<close> as mantissa and exponent.\<close>

definition f64_parts :: "nat \<Rightarrow> nat \<times> int" where
  "f64_parts bits =
     (let field = bits div 2 ^ 52
      in if field = 0 then (bits, -1074) else (2 ^ 52 + bits mod 2 ^ 52, int field - 1075))"

text \<open>Multiplication by an integer constant (exact in \<open>f64\<close>), and \<open>as u64\<close>, which truncates and saturates.\<close>

definition f64_mul :: "nat \<Rightarrow> nat \<Rightarrow> nat" where
  "f64_mul bits k =
     (if bits = F64_INF then F64_INF
      else (case f64_parts bits of (m, s) \<Rightarrow>
              if 0 \<le> s then float_bits 53 (-1022) F64_INF (m * k * 2 ^ nat s) 1
              else float_bits 53 (-1022) F64_INF (m * k) (2 ^ nat (- s))))"

definition f64_as_u64 :: "nat \<Rightarrow> u64" where
  "f64_as_u64 bits =
     (if bits = F64_INF then - 1
      else (case f64_parts bits of (m, s) \<Rightarrow>
              (let v = (if 0 \<le> s then m * 2 ^ nat s else m div 2 ^ nat (- s)) in word_of_nat (min v (2 ^ 64 - 1)))))"

text \<open>The grammar of \<open>parse::<f32>\<close> and \<open>parse::<f64>\<close>: sign, and a name or a decimal with an optional exponent.\<close>

datatype decimal = Ratio nat nat | Infinite | Not_A_Number

definition all_digits :: "string \<Rightarrow> bool" where
  "all_digits s \<longleftrightarrow> list_all (\<lambda>c. 48 \<le> (of_char c :: nat) \<and> (of_char c :: nat) \<le> 57) s"

definition strip_sign :: "string \<Rightarrow> bool \<times> string" where
  "strip_sign s = (case s of c # cs \<Rightarrow> if c = CHR ''-'' then (True, cs) else if c = CHR ''+'' then (False, cs) else (False, s) | [] \<Rightarrow> (False, []))"

definition parse_exponent :: "string option \<Rightarrow> int option" where
  "parse_exponent e =
     (case e of None \<Rightarrow> Some 0
      | Some t \<Rightarrow> (case strip_sign t of (neg, ds) \<Rightarrow>
          if ds = [] \<or> \<not> all_digits ds then None else Some ((if neg then - 1 else 1) * int (SF_Prelude.dec_value ds))))"

definition parse_mantissa :: "string \<Rightarrow> (nat \<times> nat) option" where
  "parse_mantissa m =
     (case (case split_once_on CHR ''.'' m of Some (a, b) \<Rightarrow> (a, b) | None \<Rightarrow> (m, [])) of (whole, fraction) \<Rightarrow>
        if (whole = [] \<and> fraction = []) \<or> \<not> all_digits whole \<or> \<not> all_digits fraction then None
        else Some (SF_Prelude.dec_value (whole @ fraction), length fraction))"

definition parse_decimal :: "string \<Rightarrow> (bool \<times> decimal) option" where
  "parse_decimal s =
     (case strip_sign s of (neg, t) \<Rightarrow>
        (let low = to_ascii_lowercase t
         in if low = ''inf'' \<or> low = ''infinity'' then Some (neg, Infinite)
            else if low = ''nan'' then Some (neg, Not_A_Number)
            else (case (case split_once_on CHR ''e'' (map (\<lambda>c. if c = CHR ''E'' then CHR ''e'' else c) t) of
                          Some (a, b) \<Rightarrow> (a, Some b) | None \<Rightarrow> (t, None)) of (m, e) \<Rightarrow>
                    (case (parse_mantissa m, parse_exponent e) of
                       (Some (n, k), Some x) \<Rightarrow>
                         (let x' = x - int k
                          in Some (neg, if 0 \<le> x' then Ratio (n * 10 ^ nat x') 1 else Ratio n (10 ^ nat (- x'))))
                     | _ \<Rightarrow> None))))"

fun f32_magnitude :: "decimal \<Rightarrow> nat" where
  "f32_magnitude (Ratio n d) = float_bits 24 (-126) F32_INF n d"
| "f32_magnitude Infinite = F32_INF"
| "f32_magnitude Not_A_Number = F32_INF + 2 ^ 22"

definition parse_f32 :: "string \<Rightarrow> f32 option" where
  "parse_f32 s = map_option (\<lambda>(neg, x). word_of_nat (f32_magnitude x + (if neg then 2 ^ 31 else 0))) (parse_decimal s)"

definition f32_or_0 :: "string \<Rightarrow> f32" where
  "f32_or_0 s = (case parse_f32 s of Some b \<Rightarrow> b | None \<Rightarrow> 0)"

text \<open>\<open>parse::<f64>\<close> followed by \<open>as u64\<close>: a negative number and a NaN become 0.\<close>

definition f64_text_as_u64 :: "nat \<Rightarrow> string \<Rightarrow> u64 option" where
  "f64_text_as_u64 k s =
     map_option (\<lambda>(neg, x).
       if neg then 0
       else case x of Ratio n d \<Rightarrow> f64_as_u64 (f64_mul (float_bits 53 (-1022) F64_INF n d) k)
            | Infinite \<Rightarrow> - 1 | Not_A_Number \<Rightarrow> 0) (parse_decimal s)"

section \<open>Sizes\<close>

definition size_multiplier :: "string \<Rightarrow> nat option" where
  "size_multiplier unit =
     map_of [([], 1), (''B'', 1), (''KB'', 1000), (''MB'', 1000000), (''GB'', 1000000000), (''TB'', 1000000000000),
             (''KIB'', 1024), (''MIB'', 1024 * 1024), (''GIB'', 1024 * 1024 * 1024)]
       (to_ascii_uppercase (trim_ws unit))"

definition is_size_char :: "char \<Rightarrow> bool" where
  "is_size_char c \<longleftrightarrow> (48 \<le> (of_char c :: nat) \<and> (of_char c :: nat) \<le> 57) \<or> c = CHR ''.''"

definition parse_docker_size :: "string \<Rightarrow> u64" where
  "parse_docker_size raw =
     (let s = trim_ws raw; num = takeWhile is_size_char s; unit = dropWhile is_size_char s
      in if s = [] then 0
         else case (parse_decimal num, size_multiplier unit) of
                (Some _, Some k) \<Rightarrow> (case f64_text_as_u64 k num of Some v \<Rightarrow> v | None \<Rightarrow> 0)
              | _ \<Rightarrow> 0)"

definition parse_pair :: "string \<Rightarrow> u64 \<times> u64" where
  "parse_pair s =
     (let parts = map trim_ws (split_on CHR ''/'' s)
      in (parse_docker_size (parts ! 0), if 1 < length parts then parse_docker_size (parts ! 1) else 0))"

section \<open>Rows\<close>

type_synonym json_parser = "string \<Rightarrow> (string, json) result"

definition ok_json :: "(string, json) result \<Rightarrow> json option" where
  "ok_json r = (case r of Inr j \<Rightarrow> Some j | Inl _ \<Rightarrow> None)"

definition no_duplicate :: "string list \<Rightarrow> (string \<times> json) list \<Rightarrow> bool" where
  "no_duplicate names kvs \<longleftrightarrow> distinct (filter (\<lambda>k. k \<in> set names) (map fst kvs))"

text \<open>
  A struct of strings is read from an object (a duplicate member is an error, unknown ones are skipped) or from
  an array in declaration order; a missing field is an error unless it has a default.
\<close>

fun str_field :: "bool \<Rightarrow> json option \<Rightarrow> string option" where
  "str_field dflt None = (if dflt then Some [] else None)"
| "str_field dflt (Some (JString s)) = Some s"
| "str_field dflt (Some _) = None"

fun row_fields :: "bool \<Rightarrow> string list \<Rightarrow> json \<Rightarrow> string list option" where
  "row_fields dflt names (JObject kvs) =
     (if no_duplicate names kvs then those (map (\<lambda>n. str_field dflt (map_of kvs n)) names) else None)"
| "row_fields dflt names (JArray vs) =
     (if length vs \<le> length names
      then those (map (\<lambda>i. str_field dflt (if i < length vs then Some (vs ! i) else None)) [0 ..< length names]) else None)"
| "row_fields dflt names _ = None"

text \<open>The loop over the lines of an output: blank lines and rows that do not parse are skipped.\<close>

definition ndjson :: "json_parser \<Rightarrow> bool \<Rightarrow> (json \<Rightarrow> 'a option) \<Rightarrow> string \<Rightarrow> 'a list" where
  "ndjson parse_json trimmed row stdout =
     List.map_filter (\<lambda>line.
       if trim_ws line = [] then None
       else Option.bind (ok_json (parse_json (if trimmed then trim_ws line else line))) row) (str_lines (from_utf8_lossy stdout))"

definition list_rows :: "runner \<Rightarrow> string \<Rightarrow> string list \<Rightarrow> (string \<Rightarrow> 'a list) \<Rightarrow> (string, 'a list) result" where
  "list_rows run lead args rows =
     (case run args of
        Inl e \<Rightarrow> Inl (lead @ e)
      | Inr out \<Rightarrow>
          if \<not> succeeded out then Inl (trim_ws (from_utf8_lossy (o_stderr out))) else Inr (rows (o_stdout out)))"

definition JSON_FORMAT :: "string list" where "JSON_FORMAT = [''--format'', ''{{json .}}'']"

section \<open>Docker listings\<close>

definition docker_available :: "runner \<Rightarrow> bool" where
  "docker_available run =
     (case run [''version'', ''--format'', ''{{.Server.Version}}''] of Inl _ \<Rightarrow> False | Inr out \<Rightarrow> succeeded out)"

text \<open>\<open>DockerInfo\<close>: its optional swarm member, and of that the node state and whether the node is a manager.\<close>

fun swarm_info :: "json \<Rightarrow> (string \<times> bool) option" where
  "swarm_info (JObject kvs) =
     (case (map_of kvs ''LocalNodeState'', map_of kvs ''ControlAvailable'') of
        (Some (JString st), Some (JBool b)) \<Rightarrow>
          if no_duplicate [''LocalNodeState'', ''ControlAvailable''] kvs then Some (st, b) else None
      | _ \<Rightarrow> None)"
| "swarm_info (JArray [JString st, JBool b]) = Some (st, b)"
| "swarm_info _ = None"

fun docker_info :: "json \<Rightarrow> (string \<times> bool) option option" where
  "docker_info (JObject kvs) =
     (if \<not> no_duplicate [''Swarm''] kvs then None
      else case map_of kvs ''Swarm'' of None \<Rightarrow> Some None | Some JNull \<Rightarrow> Some None | Some j \<Rightarrow> map_option Some (swarm_info j))"
| "docker_info (JArray [JNull]) = Some None"
| "docker_info (JArray [j]) = map_option Some (swarm_info j)"
| "docker_info _ = None"

definition swarm_role :: "json_parser \<Rightarrow> runner \<Rightarrow> SwarmRole" where
  "swarm_role parse_json run =
     (if \<not> docker_available run then NotInSwarm
      else case run ([''info''] @ JSON_FORMAT) of
        Inl _ \<Rightarrow> NotInSwarm
      | Inr out \<Rightarrow>
          if \<not> succeeded out then NotInSwarm
          else (case Option.bind (ok_json (parse_json (from_utf8_lossy (o_stdout out)))) docker_info of
                  Some (Some (st, control)) \<Rightarrow> if st \<noteq> ''active'' then NotInSwarm else if control then Manager else Worker
                | _ \<Rightarrow> NotInSwarm))"

definition container_row :: "json \<Rightarrow> DockerContainer option" where
  "container_row j =
     (case row_fields False [''ID'', ''Names'', ''Image'', ''State'', ''Status'', ''Ports''] j of
        Some [i, names, img, st, status, ports] \<Rightarrow>
          Some \<lparr>dc_id = concat (take 12 (chars i)), dc_names = names, dc_image = img, dc_state = st, dc_status = status, dc_ports = ports\<rparr>
      | _ \<Rightarrow> None)"

definition list_containers :: "json_parser \<Rightarrow> runner \<Rightarrow> (string, DockerContainer list) result" where
  "list_containers pj run =
     list_rows run ''docker spawn: '' ([''ps'', ''-a''] @ JSON_FORMAT @ [''--no-trunc'']) (ndjson pj True container_row)"

definition service_row :: "bool \<Rightarrow> json \<Rightarrow> SwarmService option" where
  "service_row dflt j =
     (case row_fields dflt [''ID'', ''Name'', ''Mode'', ''Replicas'', ''Image'', ''Ports''] j of
        Some [i, name, mode, replicas, img, ports] \<Rightarrow>
          Some \<lparr>ss_id = i, ss_name = name, ss_mode = mode, ss_replicas = replicas, ss_image = img, ss_ports = ports\<rparr>
      | _ \<Rightarrow> None)"

definition list_swarm_services :: "json_parser \<Rightarrow> runner \<Rightarrow> (string, SwarmService list) result" where
  "list_swarm_services pj run =
     list_rows run ''docker spawn: '' ([''service'', ''ls''] @ JSON_FORMAT) (ndjson pj True (service_row False))"

definition node_row :: "json \<Rightarrow> SwarmNode option" where
  "node_row j =
     (case row_fields False [''ID'', ''Hostname'', ''Status'', ''Availability'', ''ManagerStatus'', ''EngineVersion''] j of
        Some [i, hostname, status, availability, manager_status, engine] \<Rightarrow>
          Some \<lparr>sn_id = i, sn_hostname = hostname, sn_status = status, sn_availability = availability,
                sn_manager_status = manager_status, sn_engine_version = engine\<rparr>
      | _ \<Rightarrow> None)"

definition list_swarm_nodes :: "json_parser \<Rightarrow> runner \<Rightarrow> (string, SwarmNode list) result" where
  "list_swarm_nodes pj run = list_rows run ''docker spawn: '' ([''node'', ''ls''] @ JSON_FORMAT) (ndjson pj True node_row)"

definition task_row :: "bool \<Rightarrow> json \<Rightarrow> SwarmTask option" where
  "task_row dflt j =
     (case row_fields dflt [''ID'', ''Name'', ''Node'', ''DesiredState'', ''CurrentState'', ''Error'', ''Image''] j of
        Some [i, name, node, desired, current, error, img] \<Rightarrow>
          Some \<lparr>st_id = i, st_name = name, st_node = node, st_desired_state = desired, st_current_state = current,
                st_error = error, st_image = img\<rparr>
      | _ \<Rightarrow> None)"

definition guarded_rows ::
    "runner \<Rightarrow> string \<Rightarrow> (string, arg list) result \<Rightarrow> (string \<Rightarrow> 'a list) \<Rightarrow> (string, 'a list) result" where
  "guarded_rows run lead as rows = (case as of Inl e \<Rightarrow> Inl e | Inr as \<Rightarrow> list_rows run lead (argv as) rows)"

definition service_ps :: "json_parser \<Rightarrow> runner \<Rightarrow> string \<Rightarrow> (string, SwarmTask list) result" where
  "service_ps pj run name = guarded_rows run ''docker spawn: '' (service_ps_argv name) (ndjson pj True (task_row False))"

definition stack_services :: "json_parser \<Rightarrow> runner \<Rightarrow> string \<Rightarrow> (string, SwarmService list) result" where
  "stack_services pj run name = guarded_rows run ''spawn: '' (stack_services_argv name) (ndjson pj False (service_row True))"

definition stack_tasks :: "json_parser \<Rightarrow> runner \<Rightarrow> string \<Rightarrow> (string, SwarmTask list) result" where
  "stack_tasks pj run name = guarded_rows run ''spawn: '' (stack_tasks_argv name) (ndjson pj False (task_row True))"

definition image_row :: "json \<Rightarrow> DockerImage option" where
  "image_row j =
     (case row_fields True [''ID'', ''Repository'', ''Tag'', ''Size'', ''CreatedSince'', ''CreatedAt''] j of
        Some [i, repository, tg, sz, since, created_at] \<Rightarrow>
          Some \<lparr>di_id = (case strip_prefix_str ''sha256:'' i of Some t \<Rightarrow> t | None \<Rightarrow> i), di_repository = repository, di_tag = tg,
                di_size_bytes = parse_docker_size sz, di_created = (if since = [] then created_at else since)\<rparr>
      | _ \<Rightarrow> None)"

definition list_images :: "json_parser \<Rightarrow> runner \<Rightarrow> (string, DockerImage list) result" where
  "list_images pj run = list_rows run ''spawn: '' ([''images'', ''--no-trunc''] @ JSON_FORMAT) (ndjson pj True image_row)"

definition is_truthy :: "string \<Rightarrow> bool" where
  "is_truthy s \<longleftrightarrow> s \<in> {''true'', ''True'', ''1''}"

definition network_row :: "json \<Rightarrow> DockerNetwork option" where
  "network_row j =
     (case row_fields True [''ID'', ''Name'', ''Driver'', ''Scope'', ''CreatedAt'', ''IPv6'', ''Internal'', ''Attachable''] j of
        Some [i, name, driver, scope, created_at, ipv6, internal, attachable] \<Rightarrow>
          Some \<lparr>dn_id = i, dn_name = name, dn_driver = driver, dn_scope = scope, dn_created = created_at,
                dn_ipv6 = is_truthy ipv6, dn_internal = is_truthy internal, dn_attachable = is_truthy attachable\<rparr>
      | _ \<Rightarrow> None)"

definition list_networks :: "json_parser \<Rightarrow> runner \<Rightarrow> (string, DockerNetwork list) result" where
  "list_networks pj run = list_rows run ''spawn: '' ([''network'', ''ls'', ''--no-trunc''] @ JSON_FORMAT) (ndjson pj False network_row)"

definition volume_row :: "json \<Rightarrow> DockerVolume option" where
  "volume_row j =
     (case row_fields True [''Name'', ''Driver'', ''Mountpoint'', ''Size'', ''Labels''] j of
        Some [name, driver, mountpoint, sz, labels] \<Rightarrow>
          Some \<lparr>dv_name = name, dv_driver = driver, dv_mountpoint = mountpoint, dv_size_bytes = parse_docker_size sz,
                dv_created = [], dv_labels = labels\<rparr>
      | _ \<Rightarrow> None)"

definition list_volumes :: "json_parser \<Rightarrow> runner \<Rightarrow> (string, DockerVolume list) result" where
  "list_volumes pj run = list_rows run ''spawn: '' ([''volume'', ''ls''] @ JSON_FORMAT) (ndjson pj False volume_row)"

definition stack_row :: "json \<Rightarrow> SwarmStack option" where
  "stack_row j =
     (case row_fields True [''Name'', ''Services'', ''Orchestrator''] j of
        Some [name, services, orchestrator] \<Rightarrow>
          Some \<lparr>sst_name = name, sst_services = (case parse_u32 services of Some n \<Rightarrow> n | None \<Rightarrow> 0), sst_orchestrator = orchestrator\<rparr>
      | _ \<Rightarrow> None)"

definition list_stacks :: "json_parser \<Rightarrow> runner \<Rightarrow> (string, SwarmStack list) result" where
  "list_stacks pj run = list_rows run ''spawn: '' ([''stack'', ''ls''] @ JSON_FORMAT) (ndjson pj False stack_row)"

definition trim_percent :: "string \<Rightarrow> string" where
  "trim_percent s = rev (dropWhile (\<lambda>c. c = CHR ''%'') (rev s))"

definition stats_row :: "json \<Rightarrow> DockerContainerStats option" where
  "stats_row j =
     (case row_fields True [''ID'', ''Name'', ''CPUPerc'', ''MemUsage'', ''NetIO'', ''BlockIO'', ''PIDs''] j of
        Some [i, name, cpu, mem, net_io, block_io, pids] \<Rightarrow>
          Some \<lparr>dcs_id = i, dcs_name = name, dcs_cpu_percent = f32_or_0 (trim_ws (trim_percent cpu)),
                dcs_mem_bytes = fst (parse_pair mem), dcs_mem_limit_bytes = snd (parse_pair mem),
                dcs_net_rx_bytes = fst (parse_pair net_io), dcs_net_tx_bytes = snd (parse_pair net_io),
                dcs_blk_read_bytes = fst (parse_pair block_io), dcs_blk_write_bytes = snd (parse_pair block_io),
                dcs_pids = (case parse_u32 pids of Some n \<Rightarrow> n | None \<Rightarrow> 0)\<rparr>
      | _ \<Rightarrow> None)"

definition container_stats :: "json_parser \<Rightarrow> runner \<Rightarrow> (string, DockerContainerStats list) result" where
  "container_stats pj run = list_rows run ''spawn: '' ([''stats'', ''--no-stream''] @ JSON_FORMAT) (ndjson pj False stats_row)"

section \<open>Inspecting a service\<close>

text \<open>\<open>value[key]\<close> is null when the member is missing; the \<open>as_\<close> functions of a null are absent.\<close>

definition at_key :: "string \<Rightarrow> json \<Rightarrow> json" where
  "at_key k j = (case json_get k j of Some v \<Rightarrow> v | None \<Rightarrow> JNull)"

definition str_or :: "string \<Rightarrow> json \<Rightarrow> string" where
  "str_or dflt j = (case json_as_str j of Some s \<Rightarrow> s | None \<Rightarrow> dflt)"

definition u64_or_0 :: "json \<Rightarrow> u64" where
  "u64_or_0 j = (case as_u64 j of Some n \<Rightarrow> n | None \<Rightarrow> 0)"

definition array_or_nil :: "json \<Rightarrow> json list" where
  "array_or_nil j = (case as_array j of Some vs \<Rightarrow> vs | None \<Rightarrow> [])"

fun split_once_str :: "string \<Rightarrow> string \<Rightarrow> (string \<times> string) option" where
  "split_once_str p [] = (if p = [] then Some ([], []) else None)"
| "split_once_str p (c # cs) =
     (if starts_with (c # cs) p then Some ([], drop (length p) (c # cs))
      else map_option (\<lambda>(a, b). (c # a, b)) (split_once_str p cs))"

definition image_digest :: "string \<Rightarrow> string \<times> string" where
  "image_digest img =
     (case split_once_str ''@sha256:'' img of Some (tg, digest) \<Rightarrow> (tg, ''sha256:'' @ digest) | None \<Rightarrow> (img, []))"

definition service_mode :: "json \<Rightarrow> string \<times> u32 option" where
  "service_mode m =
     (case json_get ''Replicated'' m of
        Some repl \<Rightarrow> (''replicated'', map_option ucast (as_u64 (at_key ''Replicas'' repl)))
      | None \<Rightarrow> (if json_get ''Global'' m \<noteq> None then (''global'', None) else (''unknown'', None)))"

definition mount_text :: "json \<Rightarrow> string" where
  "mount_text m =
     ''type='' @ str_or ''?'' (at_key ''Type'' m) @ '',source='' @ str_or [] (at_key ''Source'' m) @ '',target='' @ str_or [] (at_key ''Target'' m)"

definition port_text :: "json \<Rightarrow> string" where
  "port_text p =
     nat_to_dec (unat (u64_or_0 (at_key ''PublishedPort'' p))) @ '':'' @ nat_to_dec (unat (u64_or_0 (at_key ''TargetPort'' p))) @ ''/'' @
     str_or ''tcp'' (at_key ''Protocol'' p)"

definition service_summary :: "json \<Rightarrow> SwarmServiceSpecSummary" where
  "service_summary inspect =
     (let spec = at_key ''Spec'' inspect; template = at_key ''TaskTemplate'' spec; container = at_key ''ContainerSpec'' template;
          img = image_digest (str_or [] (at_key ''Image'' container)); mode = service_mode (at_key ''Mode'' spec)
      in \<lparr>sss_image = fst img, sss_image_digest = snd img, sss_mode = fst mode, sss_replicas = snd mode,
          sss_created_at = str_or [] (at_key ''CreatedAt'' inspect), sss_updated_at = str_or [] (at_key ''UpdatedAt'' inspect),
          sss_env = List.map_filter json_as_str (array_or_nil (at_key ''Env'' container)),
          sss_mounts = map mount_text (array_or_nil (at_key ''Mounts'' container)),
          sss_networks = List.map_filter (\<lambda>n. json_as_str (at_key ''Target'' n)) (array_or_nil (at_key ''Networks'' template)),
          sss_constraints = List.map_filter json_as_str (array_or_nil (at_key ''Constraints'' (at_key ''Placement'' template))),
          sss_published_ports = map port_text (array_or_nil (at_key ''Ports'' (at_key ''EndpointSpec'' spec)))\<rparr>)"

definition service_inspect :: "json_parser \<Rightarrow> runner \<Rightarrow> string \<Rightarrow> (string, SwarmServiceSpecSummary) result" where
  "service_inspect pj run name =
     (case service_inspect_argv name of Inl e \<Rightarrow> Inl e
      | Inr as \<Rightarrow>
          (case run (argv as) of
             Inl e \<Rightarrow> Inl (''docker spawn: '' @ e)
           | Inr out \<Rightarrow>
               if \<not> succeeded out then Inl (trim_ws (from_utf8_lossy (o_stderr out)))
               else (case pj (from_utf8_lossy (o_stdout out)) of
                       Inl e \<Rightarrow> Inl (''parse inspect json: '' @ e)
                     | Inr (JArray (i # _)) \<Rightarrow> Inr (service_summary i)
                     | Inr _ \<Rightarrow> Inl ''empty inspect array'')))"

section \<open>Pruning\<close>

definition RECLAIMED :: string where "RECLAIMED = ''Total reclaimed space:''"

text \<open>\<open>trim_start_matches(pattern)\<close> removes every leading copy.\<close>

function trim_start_matches :: "string \<Rightarrow> string \<Rightarrow> string" where
  "trim_start_matches p s = (if p \<noteq> [] \<and> starts_with s p then trim_start_matches p (drop (length p) s) else s)"
  by pat_completeness auto
termination
  by (relation "measure (\<lambda>(p, s). length s)") (auto simp: starts_with_iff)

declare trim_start_matches.simps [simp del]

definition reclaimed_of :: "string \<Rightarrow> u64" where
  "reclaimed_of l = parse_docker_size (trim_ws (trim_start_matches RECLAIMED l))"

fun volume_prune_lines :: "string list \<Rightarrow> bool \<Rightarrow> string list \<Rightarrow> u64 \<Rightarrow> string list \<times> u64" where
  "volume_prune_lines [] in_deleted removed bytes = (removed, bytes)"
| "volume_prune_lines (line # ls) in_deleted removed bytes =
     (let l = trim_ws line
      in if starts_with l ''Deleted Volumes'' then volume_prune_lines ls True removed bytes
         else if starts_with l RECLAIMED then volume_prune_lines ls False removed (reclaimed_of l)
         else if in_deleted \<and> l \<noteq> [] then volume_prune_lines ls in_deleted (removed @ [l]) bytes
         else volume_prune_lines ls in_deleted removed bytes)"

text \<open>\<open>None\<close>: keeping the tail of the output panicked.\<close>

definition prune_volumes :: "runner \<Rightarrow> (bool \<times> string list \<times> u64 \<times> string \<times> string option) option" where
  "prune_volumes run =
     (case run [''volume'', ''prune'', ''--force''] of
        Inl e \<Rightarrow> Some (False, [], 0, [], Some (''spawn: '' @ e))
      | Inr out \<Rightarrow>
          map_option (\<lambda>lg.
            if \<not> succeeded out then (False, [], 0, lg, Some (''docker volume prune exit '' @ code_debug (o_code out)))
            else (case volume_prune_lines (str_lines lg) False [] 0 of (removed, bytes) \<Rightarrow> (True, removed, bytes, lg, None)))
            (combine_stdout_stderr (o_stdout out) (o_stderr out)))"

record PruneOutcome =
  po_success :: bool
  po_reclaimed_bytes :: u64
  po_containers :: "string list"
  po_images :: "string list"
  po_networks :: "string list"
  po_volumes :: "string list"
  po_log :: string
  po_error :: "string option"

definition default_outcome :: PruneOutcome where
  "default_outcome = \<lparr>po_success = False, po_reclaimed_bytes = 0, po_containers = [], po_images = [], po_networks = [],
     po_volumes = [], po_log = [], po_error = None\<rparr>"

text \<open>\<open>Vec<Row>\<close>: an absent member is the default, anything but an array of rows fails the whole object.\<close>

definition rows_member :: "string list \<Rightarrow> json option \<Rightarrow> string list list option" where
  "rows_member names j =
     (case j of None \<Rightarrow> Some [] | Some (JArray vs) \<Rightarrow> those (map (row_fields True names) vs) | Some _ \<Rightarrow> None)"

definition df_of :: "json option \<Rightarrow> json option \<Rightarrow> json option \<Rightarrow> (string list list \<times> string list list \<times> string list list) option" where
  "df_of i c v =
     (case (rows_member [''ID'', ''Containers'', ''Size''] i, rows_member [''ID'', ''State'', ''Size''] c,
            rows_member [''Name'', ''Links'', ''Size''] v) of
        (Some is, Some cs, Some vs) \<Rightarrow> Some (is, cs, vs) | _ \<Rightarrow> None)"

fun df_rows :: "json \<Rightarrow> (string list list \<times> string list list \<times> string list list) option" where
  "df_rows (JObject kvs) =
     (if no_duplicate [''Images'', ''Containers'', ''Volumes''] kvs
      then df_of (map_of kvs ''Images'') (map_of kvs ''Containers'') (map_of kvs ''Volumes'') else None)"
| "df_rows (JArray vs) =
     (if length vs \<le> 3
      then df_of (if 0 < length vs then Some (vs ! 0) else None) (if 1 < length vs then Some (vs ! 1) else None)
             (if 2 < length vs then Some (vs ! 2) else None) else None)"
| "df_rows _ = None"

definition zero_count :: "string \<Rightarrow> bool" where
  "zero_count s \<longleftrightarrow> (case parse_i64 s of Some n \<Rightarrow> n = 0 | None \<Rightarrow> True)"

definition unused :: "string list list \<Rightarrow> string list list" where
  "unused rows = filter (\<lambda>r. zero_count (r ! 1)) rows"

definition stopped :: "string list list \<Rightarrow> string list list" where
  "stopped rows = filter (\<lambda>r. r ! 1 \<in> {''exited'', ''created'', ''dead''}) rows"

definition total_size :: "string list list \<Rightarrow> u64" where
  "total_size rows = sum_list (map (\<lambda>r. parse_docker_size (r ! 2)) rows)"

definition EM_DASH :: string where "EM_DASH = map char_of [226, 128, 148 :: nat]"

definition system_prune_preview :: "json_parser \<Rightarrow> runner \<Rightarrow> bool \<Rightarrow> PruneOutcome" where
  "system_prune_preview pj run prune_vols =
     (case run ([''system'', ''df'', ''-v''] @ JSON_FORMAT) of
        Inl e \<Rightarrow> default_outcome\<lparr>po_error := Some (''spawn: '' @ e)\<rparr>
      | Inr out \<Rightarrow>
          if \<not> succeeded out then default_outcome\<lparr>po_error := Some (trim_ws (from_utf8_lossy (o_stderr out)))\<rparr>
          else (case (case Option.bind (ok_json (pj (from_utf8_lossy (o_stdout out)))) df_rows of
                        Some d \<Rightarrow> d | None \<Rightarrow> ([], [], [])) of (imgs, conts, vols) \<Rightarrow>
                 (let i = unused imgs; c = stopped conts; v = (if prune_vols then unused vols else []);
                      bytes = total_size i + total_size c + total_size v
                  in default_outcome\<lparr>po_success := True, po_images := map (\<lambda>r. r ! 0) i, po_containers := map (\<lambda>r. r ! 0) c,
                       po_volumes := map (\<lambda>r. r ! 0) v, po_reclaimed_bytes := bytes,
                       po_log := ''preview: '' @ nat_to_dec (length c) @ '' container(s), '' @ nat_to_dec (length i) @ '' image(s), '' @
                         nat_to_dec (length v) @ '' volume(s) '' @ EM_DASH @ '' ~'' @ nat_to_dec (unat bytes) @ '' bytes'' @ NL\<rparr>)))"

datatype prune_section = Sec_Containers | Sec_Images | Sec_Networks | Sec_Volumes

definition prune_heading :: "string \<Rightarrow> prune_section option" where
  "prune_heading l =
     map_of [(''Deleted Containers:'', Sec_Containers), (''Deleted Images:'', Sec_Images), (''Deleted Networks:'', Sec_Networks),
             (''Deleted Volumes:'', Sec_Volumes)] l"

fun add_removed :: "prune_section option \<Rightarrow> string \<Rightarrow> PruneOutcome \<Rightarrow> PruneOutcome" where
  "add_removed (Some Sec_Containers) l p = p\<lparr>po_containers := po_containers p @ [l]\<rparr>"
| "add_removed (Some Sec_Images) l p = p\<lparr>po_images := po_images p @ [l]\<rparr>"
| "add_removed (Some Sec_Networks) l p = p\<lparr>po_networks := po_networks p @ [l]\<rparr>"
| "add_removed (Some Sec_Volumes) l p = p\<lparr>po_volumes := po_volumes p @ [l]\<rparr>"
| "add_removed None l p = p"

fun prune_lines :: "string list \<Rightarrow> prune_section option \<Rightarrow> PruneOutcome \<Rightarrow> PruneOutcome" where
  "prune_lines [] sec p = p"
| "prune_lines (line # ls) sec p =
     (let l = trim_ws line
      in case prune_heading l of
           Some h \<Rightarrow> prune_lines ls (Some h) p
         | None \<Rightarrow>
             if starts_with l RECLAIMED then prune_lines ls None (p\<lparr>po_reclaimed_bytes := reclaimed_of l\<rparr>)
             else if l = [] then prune_lines ls None p
             else prune_lines ls sec (add_removed sec l p))"

definition system_prune_apply :: "runner \<Rightarrow> bool \<Rightarrow> PruneOutcome option" where
  "system_prune_apply run prune_vols =
     (case run ([''system'', ''prune'', ''-af''] @ (if prune_vols then [''--volumes''] else [])) of
        Inl e \<Rightarrow> Some (default_outcome\<lparr>po_error := Some (''spawn: '' @ e)\<rparr>)
      | Inr out \<Rightarrow>
          map_option (\<lambda>lg. prune_lines (str_lines lg) None
              (default_outcome\<lparr>po_success := succeeded out, po_log := lg, po_error := exit_error ''docker system prune exit '' out\<rparr>))
            (combine_stdout_stderr (o_stdout out) (o_stderr out)))"

section \<open>Services\<close>

definition systemd_available :: "runner \<Rightarrow> bool" where
  "systemd_available run = (case run [''--version''] of Inl _ \<Rightarrow> False | Inr out \<Rightarrow> succeeded out)"

text \<open>An \<open>Option<String>\<close> member: absent and null are none, anything but a string fails the row.\<close>

fun opt_str_field :: "json option \<Rightarrow> string option option" where
  "opt_str_field None = Some None"
| "opt_str_field (Some JNull) = Some None"
| "opt_str_field (Some (JString s)) = Some (Some s)"
| "opt_str_field (Some _) = None"

definition SYSTEMCTL_FIELDS :: "string list" where
  "SYSTEMCTL_FIELDS = [''unit'', ''load'', ''active'', ''sub'', ''description'']"

fun systemctl_row :: "json \<Rightarrow> string option list option" where
  "systemctl_row (JObject kvs) =
     (if no_duplicate SYSTEMCTL_FIELDS kvs then those (map (\<lambda>n. opt_str_field (map_of kvs n)) SYSTEMCTL_FIELDS) else None)"
| "systemctl_row (JArray vs) = (if length vs = 5 then those (map (\<lambda>v. opt_str_field (Some v)) vs) else None)"
| "systemctl_row _ = None"

definition or_empty :: "string option \<Rightarrow> string" where
  "or_empty x = (case x of Some s \<Rightarrow> s | None \<Rightarrow> [])"

fun service_of_row :: "string option list \<Rightarrow> ServiceInfo option" where
  "service_of_row [unit, load, active, sub, descr] =
     map_option (\<lambda>n. \<lparr>si_name = n, si_description = or_empty descr, si_status = or_empty sub, si_active_state = or_empty active\<rparr>) unit"
| "service_of_row _ = None"

definition BULLET :: string where "BULLET = map char_of [226, 151, 143 :: nat]"

definition piece :: "string list \<Rightarrow> nat \<Rightarrow> string" where
  "piece ps i = (if i < length ps then ps ! i else [])"

definition plain_service :: "string \<Rightarrow> ServiceInfo option" where
  "plain_service raw_line =
     (let line = trim_start_ws (trim_start_matches BULLET (trim_start_ws raw_line));
          it = filter (\<lambda>s. s \<noteq> []) (splitn_ws 5 (chars line) [])
      in if line = [] \<or> it = [] \<or> CHR ''.'' \<notin> set (piece it 0) then None
         else Some \<lparr>si_name = piece it 0, si_description = trim_ws (piece it 4), si_status = piece it 3, si_active_state = piece it 2\<rparr>)"

definition LIST_UNITS :: "string list" where
  "LIST_UNITS = [''list-units'', ''--type=service'', ''--all'', ''--no-pager'']"

definition list_services :: "json_parser \<Rightarrow> runner \<Rightarrow> (string, ServiceInfo list) result" where
  "list_services pj run =
     (case run (LIST_UNITS @ [''--output=json'']) of
        Inl e \<Rightarrow> Inl (''systemctl spawn: '' @ e)
      | Inr js \<Rightarrow>
          (case (if succeeded js
                 then Option.bind (ok_json (pj (from_utf8_lossy (o_stdout js))))
                        (\<lambda>j. Option.bind (as_array j) (\<lambda>vs. those (map systemctl_row vs)))
                 else None) of
             Some rows \<Rightarrow> Inr (List.map_filter service_of_row rows)
           | None \<Rightarrow>
               (case run (LIST_UNITS @ [''--no-legend'', ''--plain'']) of
                  Inl e \<Rightarrow> Inl (''systemctl spawn: '' @ e)
                | Inr out \<Rightarrow>
                    if \<not> succeeded out then Inl (from_utf8_lossy (o_stderr out))
                    else Inr (List.map_filter plain_service (str_lines (from_utf8_lossy (o_stdout out)))))))"

section \<open>Statistics\<close>

text \<open>The files under \<open>/proc\<close> the agent reads (\<open>None\<close>: unreadable), its host name, and the \<open>df\<close> command.\<close>

record procfs =
  pf_file :: "string \<Rightarrow> string option"
  pf_hostname :: "string option"
  pf_df :: runner

definition file_or_empty :: "procfs \<Rightarrow> string \<Rightarrow> string" where
  "file_or_empty P f = (case pf_file P f of Some s \<Rightarrow> s | None \<Rightarrow> [])"

definition first_or :: "string \<Rightarrow> string list \<Rightarrow> string" where
  "first_or dflt xs = (case xs of x # _ \<Rightarrow> x | [] \<Rightarrow> dflt)"

definition meminfo_line :: "string \<Rightarrow> (string \<times> u64) option" where
  "meminfo_line line =
     (case split_on CHR '':'' line of
        k # rest # _ \<Rightarrow> map_option (\<lambda>n. (k, word_of_nat n)) (parse_u64 (first_or ''0'' (split_whitespace (trim_ws rest))))
      | _ \<Rightarrow> None)"

definition parse_meminfo :: "procfs \<Rightarrow> (string \<rightharpoonup> u64)" where
  "parse_meminfo P = map_of (rev (List.map_filter meminfo_line (str_lines (file_or_empty P ''/proc/meminfo''))))"

definition read_uptime :: "procfs \<Rightarrow> u64" where
  "read_uptime P =
     (case Option.bind (pf_file P ''/proc/uptime'') (\<lambda>s. case split_whitespace s of w # _ \<Rightarrow> f64_text_as_u64 1 w | [] \<Rightarrow> None) of
        Some n \<Rightarrow> n | None \<Rightarrow> 0)"

definition read_loadavg :: "procfs \<Rightarrow> f32 \<times> f32 \<times> f32" where
  "read_loadavg P = (let it = split_whitespace (file_or_empty P ''/proc/loadavg'')
     in (f32_or_0 (piece it 0), f32_or_0 (piece it 1), f32_or_0 (piece it 2)))"

definition read_cpu_count :: "procfs \<Rightarrow> u32" where
  "read_cpu_count P =
     (case pf_file P ''/proc/cpuinfo'' of None \<Rightarrow> 1
      | Some s \<Rightarrow> (let n = word_of_nat (length (filter (\<lambda>l. starts_with l ''processor'') (str_lines s))) in if 0 < n then n else 1))"

definition read_kernel :: "procfs \<Rightarrow> string" where
  "read_kernel P = (case pf_file P ''/proc/sys/kernel/osrelease'' of Some s \<Rightarrow> trim_ws s | None \<Rightarrow> ''unknown'')"

definition read_hostname :: "procfs \<Rightarrow> string" where
  "read_hostname P = (case pf_hostname P of Some h \<Rightarrow> from_utf8_lossy h | None \<Rightarrow> ''unknown'')"

definition u64_word :: "string list \<Rightarrow> nat \<Rightarrow> u64" where
  "u64_word ws i = (if i < length ws then (case parse_u64 (ws ! i) of Some n \<Rightarrow> word_of_nat n | None \<Rightarrow> 0) else 0)"

definition read_root_disk :: "procfs \<Rightarrow> u64 \<times> u64" where
  "read_root_disk P =
     (case pf_df P [''-Pk'', ''/''] of
        Inl _ \<Rightarrow> (0, 0)
      | Inr out \<Rightarrow>
          if \<not> succeeded out then (0, 0)
          else (case drop 1 (str_lines (from_utf8_lossy (o_stdout out))) of
                  row # _ \<Rightarrow> (let ws = split_whitespace row in (u64_word ws 1, u64_word ws 2))
                | [] \<Rightarrow> (0, 0)))"

definition mem_or_0 :: "u64 option \<Rightarrow> u64" where
  "mem_or_0 x = (case x of Some n \<Rightarrow> n | None \<Rightarrow> 0)"

definition stats_snapshot :: "procfs \<Rightarrow> Message" where
  "stats_snapshot P =
     (let mem = parse_meminfo P;
          available = (case mem ''MemAvailable'' of Some n \<Rightarrow> Some n | None \<Rightarrow> mem ''MemFree'')
      in case (read_loadavg P, read_root_disk P) of ((load_1, load_5, load_15), (root_total, root_used)) \<Rightarrow>
           Host (SystemStatsResponse (read_hostname P) (read_kernel P) (read_uptime P) (read_cpu_count P) load_1 load_5 load_15
             (mem_or_0 (mem ''MemTotal'')) (mem_or_0 available) (mem_or_0 (mem ''SwapTotal'')) (mem_or_0 (mem ''SwapFree''))
             root_total root_used))"

section \<open>Padded columns\<close>

lemma ascii_append: "list_all (\<lambda>c. (of_char c :: nat) < 128) s \<Longrightarrow> chars (s @ t) = map (\<lambda>c. [c]) s @ chars t"
  by (induction s) (simp_all add: ascii_step)

text \<open>A word of plain ASCII: no white space, no bullet.\<close>

definition ascii_word :: "string \<Rightarrow> bool" where
  "ascii_word s \<longleftrightarrow> s \<noteq> [] \<and> list_all (\<lambda>c. 32 < (of_char c :: nat) \<and> (of_char c :: nat) < 127) s"

lemma ascii_word_facts:
  assumes "ascii_word s"
  shows "list_all (\<lambda>c. (of_char c :: nat) < 128) s" and "c \<in> set s \<Longrightarrow> \<not> is_whitespace [c]"
  using assms by (force simp: ascii_word_def list_all_iff is_whitespace_def WHITE_SPACE_def)+

lemma splitn_word:
  assumes "\<forall>c\<in>set s. \<not> is_whitespace [c]" and "is_whitespace w"
  shows "splitn_ws (Suc (Suc n)) (map (\<lambda>c. [c]) s @ w # cs) cur = (cur @ s) # splitn_ws (Suc n) cs []"
  using assms by (induction s arbitrary: cur) simp_all

abbreviation BLANK :: string where "BLANK \<equiv> '' ''"

lemma blank_white: "is_whitespace BLANK" "is_whitespace [CHR '' '']"
  by (simp_all add: is_whitespace_def WHITE_SPACE_def)

text \<open>
  The columns of \<open>systemctl\<close>'s table are padded with blanks, but the fallback parser of the service list splits at
  each single blank into five pieces before it drops the empty ones. One blank between the columns gives the
  unit's states. With three blanks after the unit name, everything after the load state is taken for the
  active state, and the unit has no status and no description.
\<close>

theorem padded_columns_are_misread:
  assumes "ascii_word unit" and "CHR ''.'' \<in> set unit" and "ascii_word load" and "ascii_word active" and "ascii_word sub"
    and "valid_utf8 descr" and "descr \<noteq> []" and "trim_ws descr = descr"
  shows "plain_service (unit @ BLANK @ load @ BLANK @ active @ BLANK @ sub @ BLANK @ descr) =
      Some \<lparr>si_name = unit, si_description = descr, si_status = sub, si_active_state = active\<rparr> \<and>
    plain_service (unit @ BLANK @ BLANK @ BLANK @ load @ BLANK @ active @ BLANK @ sub @ BLANK @ descr) =
      Some \<lparr>si_name = unit, si_description = [], si_status = [], si_active_state = active @ BLANK @ sub @ BLANK @ descr\<rparr>"
proof -
  have start: "trim_start_ws (trim_start_matches BULLET (trim_start_ws (unit @ t))) = unit @ t" for t
  proof -
    obtain c cs where u: "unit = c # cs" "(of_char c :: nat) < 127" "\<not> is_whitespace [c]"
      using assms(1) ascii_word_facts(2) [OF assms(1)] by (cases unit) (auto simp: ascii_word_def)
    have "trim_start_ws (unit @ t) = unit @ t"
      using u ascii_step [of c] by (simp add: trim_start_ws_def chars_concat)
    moreover have "trim_start_matches BULLET (unit @ t) = unit @ t"
      using u by (subst trim_start_matches.simps) (auto simp: BULLET_def starts_with_def)
    ultimately show ?thesis by simp
  qed
  have ch: "chars (w @ BLANK @ t) = map (\<lambda>c. [c]) w @ BLANK # chars t" if "ascii_word w" for w t
  proof -
    have "list_all (\<lambda>c. (of_char c :: nat) < 128) (w @ BLANK)" using ascii_word_facts(1) [OF that] by simp
    from ascii_append [OF this, of t] show ?thesis by simp
  qed
  have bl: "chars (BLANK @ t) = BLANK # chars t" for t using ascii_append [of BLANK t] by simp
  have words: "\<forall>c\<in>set w. \<not> is_whitespace [c]" if "ascii_word w" for w using ascii_word_facts(2) [OF that] by blast
  have s5: "splitn_ws (Suc (Suc n)) (map (\<lambda>c. [c]) w @ BLANK # cs) [] = w # splitn_ws (Suc n) cs []" if "ascii_word w" for w n cs
    using splitn_word [OF words [OF that] blank_white(1)] by simp
  have "splitn_ws 5 (chars (unit @ BLANK @ load @ BLANK @ active @ BLANK @ sub @ BLANK @ descr)) [] = [unit, load, active, sub, descr]"
    using assms(1,3-5) by (simp add: ch s5 chars_concat eval_nat_numeral del: append_Cons append_Nil)
  moreover have "splitn_ws 5 (chars (unit @ BLANK @ BLANK @ BLANK @ load @ BLANK @ active @ BLANK @ sub @ BLANK @ descr)) [] =
      [unit, [], [], load, active @ BLANK @ sub @ BLANK @ descr]"
    using assms(1,3) blank_white by (simp add: ch bl s5 chars_concat eval_nat_numeral del: append_Cons append_Nil)
  ultimately show ?thesis
    using assms start by (auto simp: plain_service_def Let_def piece_def ascii_word_def simp del: append_Cons append_Nil)
qed

end
