(* ===== verification/Agent_Apt.thy ===== *)
theory Agent_Apt
  imports Agent_Lists
begin

text \<open>
  \<open>agent/src/apt.rs\<close>: package updates. An upgrade runs in a transient systemd unit outside the agent's service, so
  that it survives a restart of the agent; a marker file records the run, and a watcher polls the unit's result
  file and answers. The whole is a system with any number of watchers over one set of files; the steps of the
  system are requests, ticks of a watcher, a restart of the agent, and what the unit does.

  The clock, the process id, the wrapper script's text and \<open>systemctl\<close>'s answers are arguments. Shown: a run
  that was in flight when the agent stopped is answered for after the restart, under its package and with what
  the unit wrote; but a request that arrives during a run is answered with that run's result under its own
  package, which was never upgraded; and two watchers of one successful run report a success and a failure.
\<close>

section \<open>Listing\<close>

definition last_apt_update_secs :: "(string \<Rightarrow> u64 option) \<Rightarrow> u64" where
  "last_apt_update_secs mtime =
     (case mtime ''/var/lib/apt/periodic/update-success-stamp'' of Some t \<Rightarrow> t
      | None \<Rightarrow> (case mtime ''/var/cache/apt/pkgcache.bin'' of Some t \<Rightarrow> t | None \<Rightarrow> 0))"

definition trim_brackets :: "string \<Rightarrow> string" where
  "trim_brackets s = rev (dropWhile (\<lambda>c. c = CHR '']'') (rev s))"

definition apt_line :: "string \<Rightarrow> AptUpgradable option" where
  "apt_line line =
     (if line = [] \<or> starts_with line ''Listing'' \<or> starts_with line ''WARNING'' then None
      else case split_whitespace line of
             name_source # new_version # rest \<Rightarrow>
               (let joined = join_with '' '' (drop 1 rest);
                    current = (case split_once_str ''upgradable from: '' joined of
                                 Some (_, tail) \<Rightarrow> trim_ws (trim_brackets tail) | None \<Rightarrow> []);
                    parts = splitn_on CHR ''/'' 2 name_source
                in if piece parts 0 = [] then None
                   else Some \<lparr>au_name = piece parts 0, au_current_version = current, au_new_version = new_version,
                              au_source = piece parts 1\<rparr>)
           | _ \<Rightarrow> None)"

definition parse_apt_list :: "string \<Rightarrow> AptUpgradable list" where
  "parse_apt_list stdout = List.map_filter apt_line (str_lines stdout)"

definition list_upgradable :: "runner \<Rightarrow> (string, AptUpgradable list) result" where
  "list_upgradable run =
     list_rows run ''apt spawn: '' [''list'', ''--upgradable''] (\<lambda>out. parse_apt_list (from_utf8_lossy out))"

text \<open>\<open>None\<close>: a truncation panicked.\<close>

definition apt_refresh :: "runner \<Rightarrow> (bool \<times> string \<times> string option) option" where
  "apt_refresh run =
     (case run [''update''] of
        Inl e \<Rightarrow> Some (False, [], Some (''spawn: '' @ e))
      | Inr out \<Rightarrow>
          Option.bind (truncate_log (o_stdout out) 4000) (\<lambda>lg.
            map_option (\<lambda>err. (succeeded out, lg @ err, exit_error ''exit code '' out))
              (if o_stderr out = [] then Some []
               else map_option (\<lambda>e. NL @ ''--- stderr ---'' @ NL @ e) (truncate_log (o_stderr out) 4000))))"

section \<open>A run\<close>

record AptRunState =
  ar_package :: "string option"
  ar_started_at :: nat
  ar_log :: string
  ar_bytes_written :: nat
  ar_unit_name :: "string option"
  ar_log_path :: "string option"
  ar_result_path :: "string option"
  ar_script_path :: "string option"

text \<open>What \<open>systemctl show\<close> reports of a unit: its load state, active state and result.\<close>

type_synonym unit_state = "string \<times> string \<times> string"

text \<open>
  The marker file, the other files of the state directory, and for the statements of the properties the
  arguments of every \<open>systemd-run\<close> so far.
\<close>

record apt_host =
  ah_marker :: "AptRunState option"
  ah_files :: "string \<rightharpoonup> string"
  ah_runs :: "string list list"

definition write_state :: "fault \<Rightarrow> AptRunState \<Rightarrow> apt_host \<Rightarrow> apt_host" where
  "write_state flt st h = (if flt ''marker'' then h else h\<lparr>ah_marker := Some st\<rparr>)"

definition clear_state :: "apt_host \<Rightarrow> apt_host" where
  "clear_state h = h\<lparr>ah_marker := None\<rparr>"

definition read_state :: "apt_host \<Rightarrow> AptRunState option" where
  "read_state h = ah_marker h"

definition remove_path :: "string option \<Rightarrow> apt_host \<Rightarrow> apt_host" where
  "remove_path p h = (case p of Some f \<Rightarrow> h\<lparr>ah_files := (ah_files h)(f := None)\<rparr> | None \<Rightarrow> h)"

definition cleanup_run_files :: "AptRunState \<Rightarrow> apt_host \<Rightarrow> apt_host" where
  "cleanup_run_files st h =
     remove_path (ar_result_path st) (remove_path (ar_script_path st) (remove_path (ar_log_path st) h))"

definition state_file :: "string \<Rightarrow> string" where
  "state_file name = ''/var/lib/shellfleet/'' @ name"

definition run_state :: "nat \<Rightarrow> nat \<Rightarrow> string option \<Rightarrow> AptRunState" where
  "run_state now pid package =
     (let run_id = nat_to_dec now @ ''-'' @ nat_to_dec pid;
          unit = ''shellfleet-apt-'' @ run_id @ ''.service'';
          lg = ''[shellfleet] starting apt in detached systemd unit '' @ unit @ NL
      in \<lparr>ar_package = package, ar_started_at = now, ar_log = lg, ar_bytes_written = length lg, ar_unit_name = Some unit,
          ar_log_path = Some (state_file (''apt-run-'' @ run_id @ ''.log'')),
          ar_result_path = Some (state_file (''apt-run-'' @ run_id @ ''.result'')),
          ar_script_path = Some (state_file (''apt-run-'' @ run_id @ ''.sh''))\<rparr>)"

text \<open>\<open>script\<close>: the text of the wrapper; \<open>run\<close>: \<open>systemd-run\<close>.\<close>

definition start_systemd_run ::
    "fault \<Rightarrow> string \<Rightarrow> runner \<Rightarrow> nat \<Rightarrow> nat \<Rightarrow> string option \<Rightarrow> apt_host \<Rightarrow> apt_host \<times> (string, AptRunState) result" where
  "start_systemd_run flt script run now pid package h =
     (let st = run_state now pid package;
          script_path = or_empty (ar_script_path st)
      in case systemd_run_argv (or_empty (ar_unit_name st)) script_path package of
           Inl e \<Rightarrow> (h, Inl e)
         | Inr as \<Rightarrow>
             if flt ''script'' then (h, Inl ''write apt wrapper'')
             else (let h1 = write_state flt st (h\<lparr>ah_files := (ah_files h)(script_path \<mapsto> script)\<rparr>)
                   in case run (argv as) of
                        Inl e \<Rightarrow> (h1, Inl (''systemd-run spawn: '' @ e))
                      | Inr out \<Rightarrow>
                          (let h2 = h1\<lparr>ah_runs := ah_runs h1 @ [argv as]\<rparr>;
                               err = trim_ws (from_utf8_lossy (o_stderr out))
                           in if succeeded out then (h2, Inr st)
                              else (clear_state (cleanup_run_files st h2),
                                    Inl (''systemd-run failed: '' @ (if err = [] then trim_ws (from_utf8_lossy (o_stdout out)) else err))))))"

section \<open>Watching\<close>

type_synonym apt_answer = "bool \<times> string \<times> string option"

datatype watch_turn = Watching AptRunState | Answered apt_answer | Watch_Panicked

text \<open>Entering \<open>watch_systemd_run\<close>: a marker of an older agent has nothing to watch.\<close>

definition watch_enter :: "AptRunState \<Rightarrow> apt_host \<Rightarrow> apt_host \<times> watch_turn" where
  "watch_enter st h =
     (if ar_result_path st = None
      then (clear_state h,
            Answered (False,
              if ar_log st = [] then ''[shellfleet] older agent left an apt run marker without a detached unit'' @ NL else ar_log st,
              Some ''older agent interrupted apt before detached execution was available''))
      else (h, Watching st))"

definition update_log :: "fault \<Rightarrow> AptRunState \<Rightarrow> apt_host \<Rightarrow> (AptRunState \<times> apt_host) option" where
  "update_log flt st h =
     (case Option.bind (ar_log_path st) (ah_files h) of
        None \<Rightarrow> Some (st, h)
      | Some bytes \<Rightarrow>
          map_option (\<lambda>lg. let st' = st\<lparr>ar_log := lg, ar_bytes_written := length lg\<rparr> in (st', write_state flt st' h))
            (truncate_log bytes APT_LOG_CAP))"

definition ended_badly :: "unit_state option \<Rightarrow> bool" where
  "ended_badly u = (case u of Some (load, active, res) \<Rightarrow> load = ''not-found'' \<or> (active = ''failed'' \<and> res \<noteq> ''success'') | None \<Rightarrow> False)"

text \<open>\<open>read_to_string\<close>: a file that is not UTF-8 is not read.\<close>

definition read_text :: "apt_host \<Rightarrow> string option \<Rightarrow> string option" where
  "read_text h path =
     Option.bind path (\<lambda>p. Option.bind (ah_files h p) (\<lambda>t. if valid_utf8 t then Some t else None))"

text \<open>One turn of the loop.\<close>

definition watch_tick :: "fault \<Rightarrow> (string \<Rightarrow> unit_state option) \<Rightarrow> AptRunState \<Rightarrow> apt_host \<Rightarrow> apt_host \<times> watch_turn" where
  "watch_tick flt probe st0 h0 =
     (case update_log flt st0 h0 of
        None \<Rightarrow> (h0, Watch_Panicked)
      | Some (st, h) \<Rightarrow>
          (case read_text h (ar_result_path st) of
             Some res \<Rightarrow>
               (let t = trim_ws res; ok = (t = ''success'')
                in (clear_state (cleanup_run_files st h),
                    Answered (ok,
                      if ar_log st = [] then ''[shellfleet] apt unit completed with no captured log'' @ NL else ar_log st,
                      if ok then None else Some (''apt unit '' @ t))))
           | None \<Rightarrow>
               (case ar_unit_name st of
                  None \<Rightarrow> (h, Watching st)
                | Some unit \<Rightarrow>
                    if ended_badly (probe unit)
                    then (clear_state (cleanup_run_files st h),
                          Answered (False,
                            (case probe unit of
                               Some (load, active, res) \<Rightarrow>
                                 ar_log st @ NL @ ''[shellfleet] apt transient unit ended unexpectedly: load='' @ load @
                                 '' active='' @ active @ '' result='' @ res @ NL
                             | None \<Rightarrow> ar_log st),
                            Some ''apt transient unit ended before writing a result''))
                    else (h, Watching st))))"

text \<open>\<open>upgrade\<close> up to its first wait.\<close>

definition upgrade ::
    "fault \<Rightarrow> string \<Rightarrow> runner \<Rightarrow> nat \<Rightarrow> nat \<Rightarrow> string option \<Rightarrow> apt_host \<Rightarrow> apt_host \<times> watch_turn" where
  "upgrade flt script run now pid package h =
     (case read_state h of
        Some existing \<Rightarrow> watch_enter existing h
      | None \<Rightarrow>
          (case start_systemd_run flt script run now pid package h of
             (h', Inl e) \<Rightarrow> (h', Answered (False, [], Some e))
           | (h', Inr st) \<Rightarrow> watch_enter st h'))"

section \<open>The system\<close>

text \<open>
  The tasks that wait for a run, each with the package its answer will name, and the answers sent.
\<close>

record apt_system =
  sy_host :: apt_host
  sy_watchers :: "(string option \<times> AptRunState) list"
  sy_answers :: "Message list"

definition settle_watch :: "string option \<Rightarrow> apt_host \<times> watch_turn \<Rightarrow> apt_system \<Rightarrow> apt_system" where
  "settle_watch package r s =
     (case r of
        (h, Watching st) \<Rightarrow> s\<lparr>sy_host := h, sy_watchers := sy_watchers s @ [(package, st)]\<rparr>
      | (h, Answered (ok, lg, err)) \<Rightarrow>
          s\<lparr>sy_host := h, sy_answers := sy_answers s @ [Apt (AptUpgradeResponse package ok lg err)]\<rparr>
      | (h, Watch_Panicked) \<Rightarrow> s\<lparr>sy_host := h\<rparr>)"

definition on_upgrade_request ::
    "fault \<Rightarrow> string \<Rightarrow> runner \<Rightarrow> nat \<Rightarrow> nat \<Rightarrow> string option \<Rightarrow> apt_system \<Rightarrow> apt_system" where
  "on_upgrade_request flt script run now pid package s =
     settle_watch package (upgrade flt script run now pid package (sy_host s)) s"

definition on_tick :: "fault \<Rightarrow> (string \<Rightarrow> unit_state option) \<Rightarrow> nat \<Rightarrow> apt_system \<Rightarrow> apt_system" where
  "on_tick flt probe i s =
     (if i < length (sy_watchers s)
      then (case sy_watchers s ! i of (package, st) \<Rightarrow>
              settle_watch package (watch_tick flt probe st (sy_host s))
                (s\<lparr>sy_watchers := take i (sy_watchers s) @ drop (Suc i) (sy_watchers s)\<rparr>))
      else s)"

text \<open>The agent's process ends and is started again: the tasks are gone, the marker is resumed.\<close>

definition resume_pending_upgrade :: "apt_host \<Rightarrow> (string option \<times> apt_host \<times> watch_turn) option" where
  "resume_pending_upgrade h = map_option (\<lambda>st. (ar_package st, watch_enter st h)) (read_state h)"

definition on_restart :: "apt_system \<Rightarrow> apt_system" where
  "on_restart s =
     (let s1 = s\<lparr>sy_watchers := []\<rparr>
      in case resume_pending_upgrade (sy_host s) of
           None \<Rightarrow> s1
         | Some (package, r) \<Rightarrow> settle_watch package r s1)"

text \<open>What the wrapper does at its end: it writes the result file.\<close>

definition unit_writes :: "string \<Rightarrow> string \<Rightarrow> apt_system \<Rightarrow> apt_system" where
  "unit_writes path content s = s\<lparr>sy_host := (sy_host s)\<lparr>ah_files := (ah_files (sy_host s))(path \<mapsto> content)\<rparr>\<rparr>"

section \<open>A run and its answer\<close>

text \<open>
  What may happen while the unit works: a turn of the watcher, while the unit has not failed; a restart of the
  agent; more output in the log, as long as the cut at \<open>APT_LOG_CAP\<close> bytes does not fall inside a character.
\<close>

datatype apt_event = Turn fault "string \<Rightarrow> unit_state option" | Restart | Logs string

fun apt_event_ok :: "AptRunState \<Rightarrow> apt_event \<Rightarrow> bool" where
  "apt_event_ok st (Turn _ probe) \<longleftrightarrow> \<not> ended_badly (probe (or_empty (ar_unit_name st)))"
| "apt_event_ok st Restart \<longleftrightarrow> True"
| "apt_event_ok st (Logs t) \<longleftrightarrow> truncate_log t APT_LOG_CAP \<noteq> None"

fun apt_step :: "AptRunState \<Rightarrow> apt_event \<Rightarrow> apt_system \<Rightarrow> apt_system" where
  "apt_step st (Turn flt probe) s = on_tick flt probe 0 s"
| "apt_step st Restart s = on_restart s"
| "apt_step st (Logs t) s = unit_writes (or_empty (ar_log_path st)) t s"

definition same_run :: "AptRunState \<Rightarrow> AptRunState \<Rightarrow> bool" where
  "same_run a b \<longleftrightarrow>
     ar_package a = ar_package b \<and> ar_unit_name a = ar_unit_name b \<and> ar_log_path a = ar_log_path b \<and>
     ar_result_path a = ar_result_path b \<and> ar_script_path a = ar_script_path b"

definition complete_run :: "AptRunState \<Rightarrow> bool" where
  "complete_run st \<longleftrightarrow>
     ar_unit_name st \<noteq> None \<and> ar_log_path st \<noteq> None \<and> ar_result_path st \<noteq> None \<and> ar_script_path st \<noteq> None \<and>
     ar_log_path st \<noteq> ar_result_path st"

definition log_fits :: "AptRunState \<Rightarrow> apt_host \<Rightarrow> bool" where
  "log_fits st h \<longleftrightarrow>
     (case ah_files h (or_empty (ar_log_path st)) of None \<Rightarrow> True | Some t \<Rightarrow> truncate_log t APT_LOG_CAP \<noteq> None)"

definition in_flight :: "AptRunState \<Rightarrow> apt_system \<Rightarrow> bool" where
  "in_flight st s \<longleftrightarrow>
     (\<exists>w. sy_watchers s = [(ar_package st, w)] \<and> same_run st w) \<and>
     (\<exists>m. ah_marker (sy_host s) = Some m \<and> same_run st m) \<and>
     ah_files (sy_host s) (or_empty (ar_result_path st)) = None \<and> log_fits st (sy_host s)"

lemma log_update_in_flight:
  assumes st: "complete_run st" and w: "same_run st w" and lf: "log_fits st h"
  obtains w' h' where "update_log flt w h = Some (w', h')" "same_run st w'" "ah_files h' = ah_files h" "ah_runs h' = ah_runs h"
    "ah_marker h' = ah_marker h \<or> ah_marker h' = Some w'"
proof -
  have lp: "ar_log_path w = Some (or_empty (ar_log_path st))"
    using st w by (auto simp: complete_run_def same_run_def or_empty_def)
  show ?thesis
  proof (cases "ah_files h (or_empty (ar_log_path st))")
    case None
    then show ?thesis using that [of w h] lp w by (simp add: update_log_def)
  next
    case (Some t)
    then obtain lg where lg: "truncate_log t APT_LOG_CAP = Some lg" using lf by (auto simp: log_fits_def)
    let ?w = "w\<lparr>ar_log := lg, ar_bytes_written := length lg\<rparr>"
    show ?thesis
      using that [of ?w "write_state flt ?w h"] w lp Some lg
      by (simp add: update_log_def same_run_def Let_def write_state_def)
  qed
qed

lemma turn_in_flight:
  assumes st: "complete_run st" and s: "in_flight st s" and q: "\<not> ended_badly (probe (or_empty (ar_unit_name st)))"
  shows "in_flight st (on_tick flt probe 0 s) \<and> sy_answers (on_tick flt probe 0 s) = sy_answers s \<and>
         ah_runs (sy_host (on_tick flt probe 0 s)) = ah_runs (sy_host s)"
proof -
  from s obtain w m where w: "sy_watchers s = [(ar_package st, w)]" "same_run st w"
    and m: "ah_marker (sy_host s) = Some m" "same_run st m"
    and r: "ah_files (sy_host s) (or_empty (ar_result_path st)) = None" and lf: "log_fits st (sy_host s)"
    by (auto simp: in_flight_def)
  from log_update_in_flight [OF st w(2) lf] obtain w' h' where
    u: "update_log flt w (sy_host s) = Some (w', h')" and w': "same_run st w'" and
    h': "ah_files h' = ah_files (sy_host s)" "ah_runs h' = ah_runs (sy_host s)"
      "ah_marker h' = ah_marker (sy_host s) \<or> ah_marker h' = Some w'" by metis
  have un: "ar_unit_name w' = Some (or_empty (ar_unit_name st))" and rp: "ar_result_path w' = Some (or_empty (ar_result_path st))"
    using w' st by (auto simp: same_run_def complete_run_def or_empty_def)
  have t: "watch_tick flt probe w (sy_host s) = (h', Watching w')"
    using u un rp q h' r by (simp add: watch_tick_def read_text_def)
  show ?thesis
    using w t w' h' r lf m by (auto simp: on_tick_def settle_watch_def in_flight_def log_fits_def)
qed

lemma restart_in_flight:
  assumes st: "complete_run st" and s: "in_flight st s"
  shows "in_flight st (on_restart s) \<and> sy_answers (on_restart s) = sy_answers s \<and>
         ah_runs (sy_host (on_restart s)) = ah_runs (sy_host s)"
proof -
  from s obtain m where m: "ah_marker (sy_host s) = Some m" "same_run st m" by (auto simp: in_flight_def)
  have "watch_enter m (sy_host s) = (sy_host s, Watching m)" "ar_package m = ar_package st"
    using m(2) st by (auto simp: watch_enter_def same_run_def complete_run_def)
  then show ?thesis
    using s m by (auto simp: on_restart_def resume_pending_upgrade_def read_state_def settle_watch_def in_flight_def Let_def)
qed

lemma logs_in_flight:
  assumes st: "complete_run st" and s: "in_flight st s" and t: "truncate_log t APT_LOG_CAP \<noteq> None"
  shows "in_flight st (unit_writes (or_empty (ar_log_path st)) t s) \<and>
         sy_answers (unit_writes (or_empty (ar_log_path st)) t s) = sy_answers s \<and>
         ah_runs (sy_host (unit_writes (or_empty (ar_log_path st)) t s)) = ah_runs (sy_host s)"
proof -
  have "or_empty (ar_log_path st) \<noteq> or_empty (ar_result_path st)"
    using st by (auto simp: complete_run_def or_empty_def)
  then show ?thesis using s t by (auto simp: unit_writes_def in_flight_def log_fits_def)
qed

lemma events_in_flight:
  assumes st: "complete_run st" and "in_flight st s" and "list_all (apt_event_ok st) es"
  shows "in_flight st (fold (apt_step st) es s) \<and> sy_answers (fold (apt_step st) es s) = sy_answers s \<and>
         ah_runs (sy_host (fold (apt_step st) es s)) = ah_runs (sy_host s)"
  using assms(2,3)
proof (induction es arbitrary: s)
  case Nil
  then show ?case by simp
next
  case (Cons e es)
  have "in_flight st (apt_step st e s) \<and> sy_answers (apt_step st e s) = sy_answers s \<and>
        ah_runs (sy_host (apt_step st e s)) = ah_runs (sy_host s)"
    using Cons.prems by (cases e) (simp_all add: turn_in_flight [OF st] restart_in_flight [OF st] logs_in_flight [OF st])
  with Cons.IH [of "apt_step st e s"] Cons.prems show ?case by simp
qed

definition finished_answer :: "string option \<Rightarrow> string \<Rightarrow> string \<Rightarrow> Message" where
  "finished_answer package res lg =
     Apt (AptUpgradeResponse package (trim_ws res = ''success'') lg
       (if trim_ws res = ''success'' then None else Some (''apt unit '' @ trim_ws res)))"

lemma finishing_tick:
  fixes flt :: fault and probe :: "string \<Rightarrow> unit_state option"
  assumes st: "complete_run st" and s: "in_flight st s" and v: "valid_utf8 res"
  defines "s' \<equiv> on_tick flt probe 0 (unit_writes (or_empty (ar_result_path st)) res s)"
  shows "(\<exists>lg. sy_answers s' = sy_answers s @ [finished_answer (ar_package st) res lg]) \<and>
         sy_watchers s' = [] \<and> ah_marker (sy_host s') = None \<and> ah_runs (sy_host s') = ah_runs (sy_host s) \<and>
         ah_files (sy_host s') (or_empty (ar_result_path st)) = None"
proof -
  from s obtain w where w: "sy_watchers s = [(ar_package st, w)]" "same_run st w" and lf: "log_fits st (sy_host s)"
    by (auto simp: in_flight_def)
  let ?h = "(sy_host s)\<lparr>ah_files := (ah_files (sy_host s))(or_empty (ar_result_path st) \<mapsto> res)\<rparr>"
  have "or_empty (ar_log_path st) \<noteq> or_empty (ar_result_path st)"
    using st by (auto simp: complete_run_def or_empty_def)
  then have "log_fits st ?h" using lf by (simp add: log_fits_def)
  from log_update_in_flight [OF st w(2) this] obtain w' h' where
    u: "update_log flt w ?h = Some (w', h')" and w': "same_run st w'" and
    h': "ah_files h' = ah_files ?h" "ah_runs h' = ah_runs ?h" by metis
  have rp: "ar_result_path w' = Some (or_empty (ar_result_path st))"
    using w' st by (auto simp: same_run_def complete_run_def or_empty_def)
  have rt: "read_text h' (ar_result_path w') = Some res" using rp h' v by (simp add: read_text_def)
  show ?thesis
    using w u rt rp h' unfolding s'_def
    by (auto simp: on_tick_def unit_writes_def watch_tick_def settle_watch_def Let_def finished_answer_def clear_state_def
        cleanup_run_files_def remove_path_def split: option.splits)
qed

lemma started_run:
  assumes "sy_watchers s = []" "ah_marker (sy_host s) = None" "\<not> flt ''script''" "\<not> flt ''marker''"
    "systemd_run_argv (or_empty (ar_unit_name (run_state now pid package))) (or_empty (ar_script_path (run_state now pid package))) package = Inr as"
    "run (argv as) = Inr out" "succeeded out"
    "ah_files (sy_host s) (or_empty (ar_result_path (run_state now pid package))) = None"
    "log_fits (run_state now pid package) (sy_host s)"
  shows "in_flight (run_state now pid package) (on_upgrade_request flt script run now pid package s) \<and>
         sy_answers (on_upgrade_request flt script run now pid package s) = sy_answers s \<and>
         ah_runs (sy_host (on_upgrade_request flt script run now pid package s)) = ah_runs (sy_host s) @ [argv as]"
  using assms
  by (auto simp: on_upgrade_request_def upgrade_def read_state_def start_systemd_run_def Let_def watch_enter_def settle_watch_def
      write_state_def in_flight_def same_run_def log_fits_def run_state_def or_empty_def state_file_def)

lemma run_state_complete: "complete_run (run_state now pid package)"
  by (simp add: complete_run_def run_state_def Let_def state_file_def)

text \<open>From a request to the answer, with anything of the above in between.\<close>

definition upgrade_story ::
    "fault \<Rightarrow> string \<Rightarrow> runner \<Rightarrow> nat \<Rightarrow> nat \<Rightarrow> string option \<Rightarrow> apt_event list \<Rightarrow> string \<Rightarrow> fault \<Rightarrow> (string \<Rightarrow> unit_state option) \<Rightarrow>
     apt_system \<Rightarrow> apt_system" where
  "upgrade_story flt script run now pid package es res flt' probe s =
     (let st = run_state now pid package
      in on_tick flt' probe 0 (unit_writes (or_empty (ar_result_path st)) res
           (fold (apt_step st) es (on_upgrade_request flt script run now pid package s))))"


definition demo_apt :: apt_system where
  "demo_apt = \<lparr>sy_host = \<lparr>ah_marker = None, ah_files = Map.empty, ah_runs = []\<rparr>, sy_watchers = [], sy_answers = []\<rparr>"

definition demo_apt_run :: runner where
  "demo_apt_run as = Inr \<lparr>o_code = Some 0, o_stdout = [], o_stderr = []\<rparr>"

definition demo_result :: string where "demo_result = ''failed:100'' @ NL"


section \<open>Two requests\<close>

lemma first_of_two:
  assumes st: "complete_run st" and i: "i < 2" and w: "sy_watchers s = [w0, w1]" "same_run st (snd w0)" "same_run st (snd w1)"
    and lf: "log_fits st (sy_host s)" and r: "ah_files (sy_host s) (or_empty (ar_result_path st)) = Some res" "valid_utf8 res"
  shows "(\<exists>lg. sy_answers (on_tick flt probe i s) = sy_answers s @ [finished_answer (fst ([w0, w1] ! i)) res lg]) \<and>
         sy_watchers (on_tick flt probe i s) = [[w1, w0] ! i] \<and>
         ah_files (sy_host (on_tick flt probe i s)) (or_empty (ar_result_path st)) = None \<and>
         ah_files (sy_host (on_tick flt probe i s)) (or_empty (ar_log_path st)) = None \<and>
         ah_runs (sy_host (on_tick flt probe i s)) = ah_runs (sy_host s)"
proof -
  obtain p v where pv: "[w0, w1] ! i = (p, v)" by (cases "[w0, w1] ! i")
  have v: "same_run st v" using i w pv by (cases i) auto
  from log_update_in_flight [OF st v lf] obtain v' h' where
    u: "update_log flt v (sy_host s) = Some (v', h')" and v': "same_run st v'" and
    h': "ah_files h' = ah_files (sy_host s)" "ah_runs h' = ah_runs (sy_host s)" by metis
  have ps: "ar_result_path v' = Some (or_empty (ar_result_path st))" "ar_log_path v' = Some (or_empty (ar_log_path st))"
    using v' st by (auto simp: same_run_def complete_run_def or_empty_def)
  have rt: "read_text h' (ar_result_path v') = Some res" using ps h' r by (simp add: read_text_def)
  have rest: "take i [w0, w1] @ drop (Suc i) [w0, w1] = [[w1, w0] ! i]" using i by (cases i) auto
  show ?thesis
    using w(1) i u rt ps h' pv rest
    by (auto simp: on_tick_def watch_tick_def settle_watch_def Let_def finished_answer_def clear_state_def
        cleanup_run_files_def remove_path_def split: option.splits)
qed

lemma second_of_two:
  assumes st: "complete_run st" and w: "sy_watchers s = [(p, v)]" "same_run st v"
    and f: "ah_files (sy_host s) (or_empty (ar_result_path st)) = None" "ah_files (sy_host s) (or_empty (ar_log_path st)) = None"
    and sh: "probe (or_empty (ar_unit_name st)) = Some (''not-found'', active, res)"
  shows "\<exists>lg. sy_answers (on_tick flt probe 0 s) =
           sy_answers s @ [Apt (AptUpgradeResponse p False lg (Some ''apt transient unit ended before writing a result''))]"
proof -
  have ps: "ar_result_path v = Some (or_empty (ar_result_path st))" "ar_log_path v = Some (or_empty (ar_log_path st))"
    "ar_unit_name v = Some (or_empty (ar_unit_name st))"
    using w(2) st by (auto simp: same_run_def complete_run_def or_empty_def)
  show ?thesis
    using w(1) ps f sh by (simp add: on_tick_def watch_tick_def update_log_def read_text_def ended_badly_def settle_watch_def)
qed

lemma joined_request:
  assumes st: "complete_run st" and s: "in_flight st s"
  shows "\<exists>w m. sy_watchers (on_upgrade_request flt script run now pid p s) = [(ar_package st, w), (p, m)] \<and> same_run st w \<and> same_run st m \<and>
           sy_host (on_upgrade_request flt script run now pid p s) = sy_host s \<and>
           sy_answers (on_upgrade_request flt script run now pid p s) = sy_answers s"
proof -
  from s obtain w m where w: "sy_watchers s = [(ar_package st, w)]" "same_run st w"
    and m: "ah_marker (sy_host s) = Some m" "same_run st m" by (auto simp: in_flight_def)
  have "watch_enter m (sy_host s) = (sy_host s, Watching m)"
    using m(2) st by (auto simp: watch_enter_def same_run_def complete_run_def)
  then show ?thesis using w m by (simp add: on_upgrade_request_def upgrade_def read_state_def settle_watch_def)
qed

text \<open>
  A request that arrives while a run is in flight starts no unit and joins that run. When the unit has
  written its result, either the second request is answered first, with the result of a run that never touched
  its package, or the first is; and in both orders the one that comes second finds the files removed and the
  unit gone and reports a failure, also after a success.
\<close>

theorem joined_upgrade_is_misreported:
  assumes "complete_run st" and "in_flight st s" and "valid_utf8 res"
    and "probe (or_empty (ar_unit_name st)) = Some (''not-found'', active, code)"
  shows "ah_runs (sy_host (on_upgrade_request flt script run now pid p s)) = ah_runs (sy_host s) \<and>
         (\<exists>lg lg'. sy_answers (on_tick flt probe 0 (on_tick flt probe 0
             (unit_writes (or_empty (ar_result_path st)) res (on_upgrade_request flt script run now pid p s)))) =
           sy_answers s @ [finished_answer (ar_package st) res lg,
             Apt (AptUpgradeResponse p False lg' (Some ''apt transient unit ended before writing a result''))]) \<and>
         (\<exists>lg lg'. sy_answers (on_tick flt probe 0 (on_tick flt probe 1
             (unit_writes (or_empty (ar_result_path st)) res (on_upgrade_request flt script run now pid p s)))) =
           sy_answers s @ [finished_answer p res lg,
             Apt (AptUpgradeResponse (ar_package st) False lg' (Some ''apt transient unit ended before writing a result''))])"
proof -
  let ?s1 = "on_upgrade_request flt script run now pid p s"
  let ?s2 = "unit_writes (or_empty (ar_result_path st)) res ?s1"
  from joined_request [OF assms(1,2), where flt = flt and script = script and run = run and now = now and pid = pid and p = p]
  obtain w m where j: "sy_watchers ?s1 = [(ar_package st, w), (p, m)]" "same_run st w" "same_run st m"
    "sy_host ?s1 = sy_host s" "sy_answers ?s1 = sy_answers s" by auto
  have ne: "or_empty (ar_log_path st) \<noteq> or_empty (ar_result_path st)"
    using assms(1) by (auto simp: complete_run_def or_empty_def)
  have u: "sy_watchers ?s2 = [(ar_package st, w), (p, m)]" "sy_answers ?s2 = sy_answers s" "log_fits st (sy_host ?s2)"
    "ah_files (sy_host ?s2) (or_empty (ar_result_path st)) = Some res"
    using j assms(2) ne by (auto simp: unit_writes_def log_fits_def in_flight_def)
  note first = first_of_two [OF assms(1) _ u(1) _ _ u(3,4) assms(3), simplified, OF _ j(2,3), where flt = flt and probe = probe, unfolded u(2)]
  have "\<exists>lg lg'. sy_answers (on_tick flt probe 0 (on_tick flt probe 0 ?s2)) =
           sy_answers s @ [finished_answer (ar_package st) res lg,
             Apt (AptUpgradeResponse p False lg' (Some ''apt transient unit ended before writing a result''))]"
    using first [of 0] second_of_two [where probe = probe and s = "on_tick flt probe 0 ?s2" and p = p and flt = flt, OF assms(1) _ j(3) _ _ assms(4)]
    by auto
  moreover have "\<exists>lg lg'. sy_answers (on_tick flt probe 0 (on_tick flt probe 1 ?s2)) =
           sy_answers s @ [finished_answer p res lg,
             Apt (AptUpgradeResponse (ar_package st) False lg' (Some ''apt transient unit ended before writing a result''))]"
    using first [of 1] second_of_two [where probe = probe and s = "on_tick flt probe 1 ?s2" and p = "ar_package st" and flt = flt, OF assms(1) _ j(2) _ _ assms(4)]
    by auto
  ultimately show ?thesis using j(4) by simp
qed

theorem joined_upgrade_is_misreported_witness:
  "\<exists>lg lg'. sy_answers (on_tick (\<lambda>_. False) (\<lambda>_. Some (''not-found'', ''inactive'', ''success'')) 0
      (on_tick (\<lambda>_. False) (\<lambda>_. Some (''not-found'', ''inactive'', ''success'')) 1
        (unit_writes (or_empty (ar_result_path (run_state 5 2 (Some ''curl'')))) ''success''
          (on_upgrade_request (\<lambda>_. False) [] demo_apt_run 6 2 (Some ''bash'')
            (on_upgrade_request (\<lambda>_. False) [] demo_apt_run 5 2 (Some ''curl'') demo_apt))))) =
     [Apt (AptUpgradeResponse (Some ''bash'') True lg None),
      Apt (AptUpgradeResponse (Some ''curl'') False lg' (Some ''apt transient unit ended before writing a result''))]"
proof -
  have v: "valid_utf8 ''success''" "trim_ws ''success'' = ''success''" "validate_package_arg ''curl'' = Inr ()" by code_simp+
  let ?s = "on_upgrade_request (\<lambda>_. False) [] demo_apt_run 5 2 (Some ''curl'') demo_apt"
  have s: "in_flight (run_state 5 2 (Some ''curl'')) ?s \<and> sy_answers ?s = sy_answers demo_apt \<and>
      ah_runs (sy_host ?s) = ah_runs (sy_host demo_apt) @ [argv (projr (systemd_run_argv (or_empty (ar_unit_name (run_state 5 2 (Some ''curl''))))
        (or_empty (ar_script_path (run_state 5 2 (Some ''curl'')))) (Some ''curl'')))]"
    by (rule started_run [where out = "\<lparr>o_code = Some 0, o_stdout = [], o_stderr = []\<rparr>"])
      (simp_all add: demo_apt_def demo_apt_run_def succeeded_def systemd_run_argv_def v(3) try_bind_def log_fits_def)
  have pk: "ar_package (run_state 5 2 (Some ''curl'')) = Some ''curl''" by (simp add: run_state_def Let_def)
  show ?thesis
    using joined_upgrade_is_misreported [OF run_state_complete conjunct1 [OF s] v(1), where flt = "\<lambda>_. False" and run = demo_apt_run and
        script = "[]" and now = 6 and pid = 2 and p = "Some ''bash''" and probe = "\<lambda>_. Some (''not-found'', ''inactive'', ''success'')"
        and active = "''inactive''" and code = "''success''"] s
    by (auto simp: finished_answer_def v pk demo_apt_def)
qed

end
