(* ===== verification/Agent_Streams.thy ===== *)
theory Agent_Streams
  imports Agent_Lists "HOL-Library.Sublist"
begin

text \<open>
  What the agent sends on its own: the bounded queue to the control plane (\<open>agent/src/lib.rs\<close>), the log streams
  (\<open>logs.rs\<close>, \<open>journal.rs\<close>, \<open>journal_stream.rs\<close>, \<open>k8s_logs.rs\<close>).

  A stream manager is a map from keys to task handles behind a lock that each of its operations takes for one
  section at a time; the tasks that run are listed beside it. The loop waits for the operations on pod logs and
  spawns a task for every other one, so that the sections of those interleave: the system below has the pending
  tasks as a list and a schedule picks the one that moves. What the processes and the cluster answer are arguments.

  Shown: operations that are waited for keep one stream per key; spawned ones leak a stream that no stop can
  reach; a batched stream is delivered without gaps, in chunks of at most a hundred lines.
\<close>

section \<open>The outgoing queue\<close>

datatype OutgoingSendError = Full | Closed_Queue

text \<open>\<open>og_sent\<close> and \<open>og_refused\<close> record the past of the queue for the statements of the properties.\<close>

record outgoing =
  og_queue :: "Message list"
  og_closed :: bool
  og_sent :: "Message list"
  og_refused :: "Message list"

definition OUTGOING_QUEUE_CAPACITY :: nat where "OUTGOING_QUEUE_CAPACITY = 256"

definition outgoing_new :: outgoing where
  "outgoing_new = \<lparr>og_queue = [], og_closed = False, og_sent = [], og_refused = []\<rparr>"

definition Outgoing_send :: "Message \<Rightarrow> outgoing \<Rightarrow> (OutgoingSendError, unit) result \<times> outgoing" where
  "Outgoing_send m q =
     (if og_closed q then (Inl Closed_Queue, q\<lparr>og_refused := og_refused q @ [m]\<rparr>)
      else if length (og_queue q) < OUTGOING_QUEUE_CAPACITY
      then (Inr (), q\<lparr>og_queue := og_queue q @ [m], og_sent := og_sent q @ [m]\<rparr>)
      else (Inl Full, q\<lparr>og_refused := og_refused q @ [m]\<rparr>))"

text \<open>\<open>let _ = tx.send(...)\<close>.\<close>

definition post :: "Message \<Rightarrow> outgoing \<Rightarrow> outgoing" where
  "post m q = snd (Outgoing_send m q)"

section \<open>Stream managers\<close>

record 'j streams =
  st_inner :: "string \<rightharpoonup> nat"
  st_live :: "(nat \<times> string \<times> 'j) list"
  st_next :: nat

definition streams_default :: "'j streams" where
  "streams_default = \<lparr>st_inner = Map.empty, st_live = [], st_next = 0\<rparr>"

definition streams_stop :: "string \<Rightarrow> 'j streams \<Rightarrow> 'j streams" where
  "streams_stop key s =
     (case st_inner s key of
        None \<Rightarrow> s
      | Some h \<Rightarrow> s\<lparr>st_inner := (st_inner s)(key := None), st_live := filter (\<lambda>t. fst t \<noteq> h) (st_live s)\<rparr>)"

definition stream_spawn :: "string \<Rightarrow> 'j \<Rightarrow> 'j streams \<Rightarrow> 'j streams" where
  "stream_spawn key job s = s\<lparr>st_live := st_live s @ [(st_next s, key, job)], st_next := Suc (st_next s)\<rparr>"

text \<open>A handle that is replaced in the map is dropped, which does not end its task.\<close>

definition stream_insert :: "string \<Rightarrow> nat \<Rightarrow> 'j streams \<Rightarrow> 'j streams" where
  "stream_insert key h s = s\<lparr>st_inner := (st_inner s)(key \<mapsto> h)\<rparr>"

definition streams_start :: "string \<Rightarrow> 'j \<Rightarrow> 'j streams \<Rightarrow> 'j streams" where
  "streams_start key job s =
     (let s1 = streams_stop key s in stream_insert key (st_next s1) (stream_spawn key job s1))"

text \<open>A stream ends by itself; its handle stays in the map.\<close>

definition stream_ends :: "nat \<Rightarrow> 'j streams \<Rightarrow> 'j streams" where
  "stream_ends h s = s\<lparr>st_live := filter (\<lambda>t. fst t \<noteq> h) (st_live s)\<rparr>"

definition streams_shutdown :: "'j streams \<Rightarrow> 'j streams" where
  "streams_shutdown s =
     s\<lparr>st_inner := Map.empty, st_live := filter (\<lambda>t. fst t \<notin> ran (st_inner s)) (st_live s)\<rparr>"

definition running_streams :: "'j streams \<Rightarrow> string \<Rightarrow> 'j list" where
  "running_streams s key = map (\<lambda>t. snd (snd t)) (filter (\<lambda>t. fst (snd t) = key) (st_live s))"

text \<open>The four managers: the first two refuse a malformed key.\<close>

type_synonym cmd_streams = "arg list streams"

definition log_streams_start :: "string \<Rightarrow> u32 \<Rightarrow> bool \<Rightarrow> cmd_streams \<Rightarrow> outgoing \<Rightarrow> cmd_streams \<times> outgoing" where
  "log_streams_start container_id n_tail fol s tx =
     (case logs_start_argv container_id n_tail fol of
        Inl e \<Rightarrow> (s, post (Log (DockerLogsEnd container_id (Some e))) tx)
      | Inr as \<Rightarrow> (streams_start container_id as s, tx))"

definition journal_streams_start :: "string \<Rightarrow> u32 \<Rightarrow> bool \<Rightarrow> cmd_streams \<Rightarrow> outgoing \<Rightarrow> cmd_streams \<times> outgoing" where
  "journal_streams_start unit n_lines fol s tx =
     (case journal_start_argv unit n_lines fol of
        Inl e \<Rightarrow> (s, post (Log (JournalLogsEnd unit (Some e))) tx)
      | Inr as \<Rightarrow> (streams_start unit as s, tx))"

definition journal_stream_start :: "StreamArgs \<Rightarrow> StreamArgs streams \<Rightarrow> StreamArgs streams" where
  "journal_stream_start args s = streams_start (sa_stream_id args) args s"

record LogArgs =
  la_stream_id :: string
  la_namespace :: string
  la_pod_name :: string
  la_container :: "string option"
  la_tail_lines :: i64
  la_follow :: bool

definition k8s_log_streams_start :: "LogArgs \<Rightarrow> LogArgs streams \<Rightarrow> LogArgs streams" where
  "k8s_log_streams_start args s = streams_start (la_stream_id args) args s"

section \<open>Operations that are waited for\<close>

datatype 'j stream_op = Start_Stream string 'j | Stop_Stream string | Stream_Ends nat

fun run_stream_op :: "'j stream_op \<Rightarrow> 'j streams \<Rightarrow> 'j streams" where
  "run_stream_op (Start_Stream key job) s = streams_start key job s"
| "run_stream_op (Stop_Stream key) s = streams_stop key s"
| "run_stream_op (Stream_Ends h) s = stream_ends h s"

definition streams_inv :: "'j streams \<Rightarrow> bool" where
  "streams_inv s \<longleftrightarrow>
     distinct (map fst (st_live s)) \<and>
     (\<forall>t \<in> set (st_live s). fst t < st_next s \<and> st_inner s (fst (snd t)) = Some (fst t)) \<and>
     (\<forall>key h. st_inner s key = Some h \<longrightarrow> h < st_next s) \<and>
     (\<forall>k k' h. st_inner s k = Some h \<longrightarrow> st_inner s k' = Some h \<longrightarrow> k = k')"

lemma streams_inv_default: "streams_inv streams_default"
  by (simp add: streams_inv_def streams_default_def)

lemma streams_inv_stop:
  assumes "streams_inv s"
  shows "streams_inv (streams_stop key s)"
proof (cases "st_inner s key")
  case None
  then show ?thesis using assms by (simp add: streams_stop_def)
next
  case (Some h)
  show ?thesis
    using assms Some unfolding streams_inv_def streams_stop_def
    by (auto simp: distinct_map intro: inj_on_subset split: option.splits)
qed

lemma streams_inv_ends: "streams_inv s \<Longrightarrow> streams_inv (stream_ends h s)"
  unfolding streams_inv_def stream_ends_def by (auto simp: distinct_map intro: inj_on_subset)

lemma streams_inv_start:
  assumes "streams_inv s"
  shows "streams_inv (streams_start key job s)"
proof -
  let ?s = "streams_stop key s"
  have i: "streams_inv ?s" and n: "st_inner ?s key = None"
    using streams_inv_stop [OF assms] by (auto simp: streams_stop_def split: option.splits)
  have free: "fst (snd t) \<noteq> key" "fst t < st_next ?s" if "t \<in> set (st_live ?s)" for t
    using i n that by (auto simp: streams_inv_def)
  have "st_next ?s \<notin> fst ` set (st_live ?s)" "\<And>k. st_inner ?s k \<noteq> Some (st_next ?s)"
    using i by (auto simp: streams_inv_def)
  then show ?thesis
    using i n free unfolding streams_inv_def streams_start_def stream_insert_def stream_spawn_def Let_def
    by (auto simp: less_Suc_eq)
qed

text \<open>The streams that run under a key, each with the handle of its task.\<close>

definition running_tasks :: "'j streams \<Rightarrow> string \<Rightarrow> (nat \<times> 'j) list" where
  "running_tasks s key = map (\<lambda>t. (fst t, snd (snd t))) (filter (\<lambda>t. fst (snd t) = key) (st_live s))"

lemma running_streams_tasks: "running_streams s key = map snd (running_tasks s key)"
  by (simp add: running_streams_def running_tasks_def comp_def)

lemma stopped_tasks: "streams_inv s \<Longrightarrow> running_tasks (streams_stop key s) key = []"
  by (auto simp: streams_inv_def running_tasks_def streams_stop_def filter_empty_conv split: option.splits)

lemma stopped_stream: "streams_inv s \<Longrightarrow> running_streams (streams_stop key s) key = []"
  by (simp add: running_streams_tasks stopped_tasks)

lemma next_after_stop [simp]: "st_next (streams_stop key s) = st_next s"
  by (simp add: streams_stop_def split: option.split)

lemma started_tasks: "streams_inv s \<Longrightarrow> running_tasks (streams_start key job s) key = [(st_next s, job)]"
  using stopped_tasks [of s key]
  by (simp add: streams_start_def stream_insert_def stream_spawn_def running_tasks_def Let_def)

lemma other_tasks_stopped:
  assumes "streams_inv s" "key' \<noteq> key"
  shows "running_tasks (streams_stop key s) key' = running_tasks s key'"
proof -
  have "fst t \<noteq> h" if "t \<in> set (st_live s)" "fst (snd t) = key'" "st_inner s key = Some h" for t h
    using assms that unfolding streams_inv_def by metis
  then show ?thesis
    by (auto simp: running_tasks_def streams_stop_def intro!: arg_cong [of _ _ "map _"] filter_cong split: option.splits)
qed

lemma other_tasks_started:
  assumes "streams_inv s" "key' \<noteq> key"
  shows "running_tasks (streams_start key job s) key' = running_tasks s key'"
  using other_tasks_stopped [OF assms] assms(2)
  by (simp add: streams_start_def stream_insert_def stream_spawn_def running_tasks_def Let_def)

lemma tasks_after_end: "running_tasks (stream_ends h s) key = filter (\<lambda>p. fst p \<noteq> h) (running_tasks s key)"
  by (simp add: running_tasks_def stream_ends_def filter_map comp_def conj_commute)

lemma next_after_start: "st_next (streams_start key job s) = Suc (st_next s)"
  by (simp add: streams_start_def stream_insert_def stream_spawn_def Let_def)

lemma next_after_end: "st_next (stream_ends h s) = st_next s"
  by (simp add: stream_ends_def)

text \<open>
  The contract of a manager whose operations run one after another: a start leaves the new stream, under the next
  handle, alone under its key, a stop leaves none, a task that ends leaves the others, and no operation touches
  another key. A client knows from it which streams run.
\<close>

locale keyed_streams =
  fixes ok :: "'s \<Rightarrow> bool"
    and start :: "'k \<Rightarrow> 'j \<Rightarrow> 's \<Rightarrow> 's"
    and stop :: "'k \<Rightarrow> 's \<Rightarrow> 's"
    and finish :: "nat \<Rightarrow> 's \<Rightarrow> 's"
    and running :: "'s \<Rightarrow> 'k \<Rightarrow> (nat \<times> 'j) list"
    and upcoming :: "'s \<Rightarrow> nat"
  assumes ok_start: "ok s \<Longrightarrow> ok (start k j s)"
    and ok_stop: "ok s \<Longrightarrow> ok (stop k s)"
    and ok_finish: "ok s \<Longrightarrow> ok (finish h s)"
    and start_same: "ok s \<Longrightarrow> running (start k j s) k = [(upcoming s, j)]"
    and start_other: "ok s \<Longrightarrow> k' \<noteq> k \<Longrightarrow> running (start k j s) k' = running s k'"
    and stop_same: "ok s \<Longrightarrow> running (stop k s) k = []"
    and stop_other: "ok s \<Longrightarrow> k' \<noteq> k \<Longrightarrow> running (stop k s) k' = running s k'"
    and finish_any: "running (finish h s) k = filter (\<lambda>p. fst p \<noteq> h) (running s k)"
    and upcoming_start: "upcoming (start k j s) = Suc (upcoming s)"
    and upcoming_stop: "upcoming (stop k s) = upcoming s"
    and upcoming_finish: "upcoming (finish h s) = upcoming s"
begin

definition follows :: "nat \<times> ('k \<rightharpoonup> nat \<times> 'j) \<Rightarrow> 's \<Rightarrow> bool" where
  "follows W s \<longleftrightarrow> ok s \<and> upcoming s = fst W \<and> (\<forall>k. running s k = (case snd W k of None \<Rightarrow> [] | Some p \<Rightarrow> [p]))"

lemma follows_start: "follows (n, want) s \<Longrightarrow> follows (Suc n, want(k \<mapsto> (n, j))) (start k j s)"
  unfolding follows_def using ok_start start_same start_other upcoming_start by auto

lemma follows_stop: "follows (n, want) s \<Longrightarrow> follows (n, want(k := None)) (stop k s)"
  unfolding follows_def using ok_stop stop_same stop_other upcoming_stop by auto

lemma follows_finish:
  "follows (n, want) s \<Longrightarrow> follows (n, \<lambda>k. case want k of Some p \<Rightarrow> if fst p = h then None else Some p | None \<Rightarrow> None) (finish h s)"
  unfolding follows_def by (auto simp: ok_finish finish_any upcoming_finish split: option.split)

end

interpretation agent_streams: keyed_streams streams_inv streams_start streams_stop stream_ends running_tasks st_next
  by unfold_locales
    (simp_all add: streams_inv_start streams_inv_stop streams_inv_ends started_tasks other_tasks_started stopped_tasks
      other_tasks_stopped tasks_after_end next_after_start next_after_end)

text \<open>
  What the operations so far ask for: the number of streams started, and under each key the stream last started
  there, with its number, unless it was stopped or ended by itself.
\<close>

fun wanted_streams :: "'j stream_op list \<Rightarrow> nat \<times> (string \<rightharpoonup> nat \<times> 'j) \<Rightarrow> nat \<times> (string \<rightharpoonup> nat \<times> 'j)" where
  "wanted_streams [] W = W"
| "wanted_streams (Start_Stream key job # ops) (n, w) = wanted_streams ops (Suc n, w(key \<mapsto> (n, job)))"
| "wanted_streams (Stop_Stream key # ops) (n, w) = wanted_streams ops (n, w(key := None))"
| "wanted_streams (Stream_Ends h # ops) (n, w) =
     wanted_streams ops (n, \<lambda>k. case w k of Some p \<Rightarrow> if fst p = h then None else Some p | None \<Rightarrow> None)"

lemma ops_follow: "agent_streams.follows W s \<Longrightarrow> agent_streams.follows (wanted_streams ops W) (fold run_stream_op ops s)"
  by (induction ops W arbitrary: s rule: wanted_streams.induct)
    (simp_all add: agent_streams.follows_start agent_streams.follows_stop agent_streams.follows_finish)

text \<open>
  C23: when the starts and stops of log streams are handled one after another, as the loop does for pod logs,
  then after any sequence of starts, stops and streams that end by themselves exactly one stream runs under a key
  if the one last started there was neither stopped nor has ended, and it is that one; otherwise none runs.
\<close>

theorem waited_streams_follow_the_requests:
  "running_streams (fold run_stream_op ops streams_default) key =
     (case snd (wanted_streams ops (0, Map.empty)) key of None \<Rightarrow> [] | Some p \<Rightarrow> [snd p])"
proof -
  have "agent_streams.follows (0, Map.empty) streams_default"
    using streams_inv_default by (simp add: agent_streams.follows_def running_tasks_def streams_default_def)
  from ops_follow [OF this, of ops] show ?thesis
    unfolding agent_streams.follows_def running_streams_tasks by (simp split: option.split)
qed

section \<open>Operations that are spawned\<close>

datatype 'j stream_task = Stop_Task string | Start_Task string 'j | Spawn_Task string 'j | Insert_Task string nat

text \<open>One section of a task and what is left of it.\<close>

fun task_turn :: "'j stream_task \<Rightarrow> 'j streams \<Rightarrow> 'j streams \<times> 'j stream_task option" where
  "task_turn (Stop_Task key) s = (streams_stop key s, None)"
| "task_turn (Start_Task key job) s = (streams_stop key s, Some (Spawn_Task key job))"
| "task_turn (Spawn_Task key job) s = (stream_spawn key job s, Some (Insert_Task key (st_next s)))"
| "task_turn (Insert_Task key h) s = (stream_insert key h s, None)"

text \<open>A schedule names the task that moves; a finished task leaves its place empty.\<close>

fun run_schedule :: "nat list \<Rightarrow> 'j stream_task option list \<Rightarrow> 'j streams \<Rightarrow> 'j stream_task option list \<times> 'j streams" where
  "run_schedule [] ts s = (ts, s)"
| "run_schedule (i # is) ts s =
     (if i < length ts
      then (case ts ! i of
              None \<Rightarrow> run_schedule is ts s
            | Some t \<Rightarrow> (case task_turn t s of (s', rest) \<Rightarrow> run_schedule is (ts[i := rest]) s'))
      else run_schedule is ts s)"

text \<open>Without interleaving a spawned start is the start of the manager.\<close>

lemma undisturbed_start:
  "run_schedule [0, 0, 0] [Some (Start_Task key job)] s = ([None], streams_start key job s)"
  by (simp add: streams_start_def Let_def)

text \<open>
  Container and journal streams are started and stopped by tasks of their own. Two starts for one key can
  interleave so that both streams run and only the second is known: after a stop of the key the first still
  runs. And a stop that comes after a start can be overtaken: the stream runs although it was stopped. The
  comment over \<open>LogStreams\<close> promises one active stream per container.
\<close>

theorem spawned_starts_leak_a_stream:
  assumes "streams_inv s"
  shows "(case run_schedule [0, 1, 0, 1, 0, 1] [Some (Start_Task key job), Some (Start_Task key job')] s of (ts, s') \<Rightarrow>
            ts = [None, None] \<and> running_streams s' key = [job, job'] \<and>
            running_streams (streams_stop key s') key = [job] \<and>
            running_streams (streams_stop key (streams_stop key s')) key = [job]) \<and>
         (case run_schedule [0, 1, 0, 0] [Some (Start_Task key job), Some (Stop_Task key)] s of (ts, s') \<Rightarrow>
            ts = [None, None] \<and> running_streams s' key = [job])"
proof -
  let ?s = "streams_stop key s"
  have n: "st_inner ?s key = None" by (auto simp: streams_stop_def split: option.splits)
  have r: "running_streams ?s key = []" by (rule stopped_stream [OF assms])
  have i: "streams_inv ?s" by (rule streams_inv_stop [OF assms])
  have again: "streams_stop key ?s = ?s" using n by (simp add: streams_stop_def)
  have low: "fst t < st_next ?s" if "t \<in> set (st_live ?s)" for t using i that by (simp add: streams_inv_def)
  have keep: "filter (\<lambda>t. fst t \<noteq> Suc (st_next ?s)) (st_live ?s) = st_live ?s"
    using low by (fastforce simp: filter_id_conv)
  have none: "filter (\<lambda>t. fst (snd t) = key) (st_live ?s) = []" using r by (simp add: running_streams_def)
  have stop: "streams_stop key s' = s'\<lparr>st_inner := (st_inner s')(key := None), st_live := filter (\<lambda>t. fst t \<noteq> h) (st_live s')\<rparr>"
    if "st_inner s' key = Some h" for s' h using that by (simp add: streams_stop_def)
  show ?thesis
    using again none keep
    by (simp add: stream_spawn_def stream_insert_def stop streams_stop_def [of _ "_\<lparr>st_inner := _, st_live := _\<rparr>"] running_streams_def)
qed

theorem spawned_starts_leak_a_stream_witness:
  "running_streams (streams_stop ''web'' (snd (run_schedule [0, 1, 0, 1, 0, 1]
       [Some (Start_Task ''web'' (1 :: nat)), Some (Start_Task ''web'' 2)] streams_default))) ''web'' = [1] \<and>
   running_streams (snd (run_schedule [0, 1, 0, 0]
       [Some (Start_Task ''web'' (1 :: nat)), Some (Stop_Task ''web'')] streams_default)) ''web'' = [1]"
  using spawned_starts_leak_a_stream [OF streams_inv_default, where key = "''web''" and job = "1 :: nat" and job' = 2]
  by (simp add: case_prod_beta)

section \<open>Batched streams\<close>

definition MAX_LINES_PER_CHUNK :: nat where "MAX_LINES_PER_CHUNK = 100"
definition MAX_K8S_TAIL_LINES :: i64 where "MAX_K8S_TAIL_LINES = 10000"

text \<open>
  The batcher of \<open>journal_stream\<close> and \<open>k8s_logs\<close>, one event at a time: a line, a tick of the flush interval, the end
  of the sources; between them the writer takes messages off the queue and other tasks put theirs on it.
\<close>

record batcher =
  ba_buf :: "string list"
  ba_alive :: bool
  ba_tx :: outgoing

datatype batch_event = Line string | Flush_Tick | Sources_Closed | Source_Error string | Writer_Takes nat | Other_Sends Message | Writer_Stops

definition writer_takes :: "nat \<Rightarrow> outgoing \<Rightarrow> outgoing" where
  "writer_takes n q = q\<lparr>og_queue := drop n (og_queue q)\<rparr>"

definition flush_batch :: "(string list \<Rightarrow> Message) \<Rightarrow> batcher \<Rightarrow> batcher" where
  "flush_batch chunk b =
     (case Outgoing_send (chunk (ba_buf b)) (ba_tx b) of
        (Inl _, tx) \<Rightarrow> b\<lparr>ba_buf := [], ba_alive := False, ba_tx := tx\<rparr>
      | (Inr _, tx) \<Rightarrow> b\<lparr>ba_buf := [], ba_tx := tx\<rparr>)"

definition final_flush :: "(string list \<Rightarrow> Message) \<Rightarrow> batcher \<Rightarrow> batcher" where
  "final_flush chunk b = (if ba_buf b = [] then b else flush_batch chunk b)\<lparr>ba_alive := False\<rparr>"

fun batch_step :: "(string list \<Rightarrow> Message) \<Rightarrow> batch_event \<Rightarrow> batcher \<Rightarrow> batcher" where
  "batch_step chunk (Line l) b =
     (if \<not> ba_alive b then b
      else (let b1 = b\<lparr>ba_buf := ba_buf b @ [l]\<rparr>
            in if length (ba_buf b1) \<ge> MAX_LINES_PER_CHUNK then flush_batch chunk b1 else b1))"
| "batch_step chunk Flush_Tick b = (if ba_alive b \<and> ba_buf b \<noteq> [] then flush_batch chunk b else b)"
| "batch_step chunk Sources_Closed b = (if ba_alive b then final_flush chunk b else b)"
| "batch_step chunk (Source_Error e) b = (if ba_alive b then final_flush chunk b else b)"
| "batch_step chunk (Writer_Takes n) b = b\<lparr>ba_tx := writer_takes n (ba_tx b)\<rparr>"
| "batch_step chunk (Other_Sends m) b = b\<lparr>ba_tx := post m (ba_tx b)\<rparr>"
| "batch_step chunk Writer_Stops b = b\<lparr>ba_tx := (ba_tx b)\<lparr>og_closed := True\<rparr>\<rparr>"

text \<open>How a child process ended.\<close>

datatype wait_status = Waited "int option" | Wait_Failed string

definition wait_error :: "string \<Rightarrow> wait_status \<Rightarrow> string option" where
  "wait_error what w =
     (case w of
        Waited c \<Rightarrow> if c = Some 0 then None else Some (what @ '' exited with '' @ code_debug c)
      | Wait_Failed e \<Rightarrow> Some (what @ '' wait failed: '' @ e))"

text \<open>\<open>journal_stream::run_stream\<close>; \<open>spawned\<close> is the outcome of starting \<open>journalctl\<close>.\<close>

definition journal_run_stream ::
    "(string list \<Rightarrow> (string, unit) result) \<Rightarrow> batch_event list \<Rightarrow> wait_status \<Rightarrow> StreamArgs \<Rightarrow> outgoing \<Rightarrow> outgoing" where
  "journal_run_stream spawned es w args tx =
     (let sid = sa_stream_id args
      in case build_argv args of
           Inl e \<Rightarrow> post (Log (JournalStreamEnd sid (Some e))) tx
         | Inr as \<Rightarrow>
             (case spawned (argv as) of
                Inl e \<Rightarrow> post (Log (JournalStreamEnd sid (Some (''journalctl spawn: '' @ e)))) tx
              | Inr _ \<Rightarrow>
                  post (Log (JournalStreamEnd sid (wait_error ''journalctl'' w)))
                    (ba_tx (fold (batch_step (\<lambda>ls. Log (JournalStreamChunk sid ls))) es
                      \<lparr>ba_buf = [], ba_alive = True, ba_tx = tx\<rparr>))))"

text \<open>\<open>LogParams\<close>: the number of lines asked for.\<close>

definition k8s_tail :: "i64 \<Rightarrow> i64 option" where
  "k8s_tail n = (if n > 0 then Some (min n MAX_K8S_TAIL_LINES) else None)"

fun k8s_batch_step :: "string \<Rightarrow> batch_event \<Rightarrow> batcher \<Rightarrow> batcher" where
  "k8s_batch_step sid Sources_Closed b =
     (if ba_alive b
      then (let b1 = final_flush (\<lambda>ls. K8sRead (K8sLogsChunk sid ls)) b
            in b1\<lparr>ba_tx := post (K8sRead (K8sLogsEnd sid None)) (ba_tx b1)\<rparr>)
      else b)"
| "k8s_batch_step sid (Source_Error e) b =
     (if ba_alive b
      then (let b1 = final_flush (\<lambda>ls. K8sRead (K8sLogsChunk sid ls)) b
            in b1\<lparr>ba_tx := post (K8sRead (K8sLogsEnd sid (Some (''stream: '' @ e)))) (ba_tx b1)\<rparr>)
      else b)"
| "k8s_batch_step sid e b = batch_step (\<lambda>ls. K8sRead (K8sLogsChunk sid ls)) e b"

definition k8s_run_stream ::
    "(string, unit) result \<Rightarrow> (string \<Rightarrow> string \<Rightarrow> string option \<Rightarrow> bool \<Rightarrow> i64 option \<Rightarrow> (string, unit) result) \<Rightarrow> batch_event list \<Rightarrow>
     LogArgs \<Rightarrow> outgoing \<Rightarrow> outgoing" where
  "k8s_run_stream client log_stream es args tx =
     (let sid = la_stream_id args
      in case client of
           Inl e \<Rightarrow> post (K8sRead (K8sLogsEnd sid (Some (''kube client: '' @ e)))) tx
         | Inr _ \<Rightarrow>
             (case log_stream (la_namespace args) (la_pod_name args) (la_container args) (la_follow args) (k8s_tail (la_tail_lines args)) of
                Inl e \<Rightarrow> post (K8sRead (K8sLogsEnd sid (Some (''log_stream: '' @ e)))) tx
              | Inr _ \<Rightarrow> ba_tx (fold (k8s_batch_step sid) es \<lparr>ba_buf = [], ba_alive = True, ba_tx = tx\<rparr>)))"

text \<open>
  \<open>logs::run_stream\<close> and \<open>journal::run_stream\<close>: two readers send every line as its own message, each until a send is
  refused. A line comes with the reader it belongs to.
\<close>

record line_readers =
  lr_out :: bool
  lr_err :: bool
  lr_tx :: outgoing

datatype line_event = Reads bool string | Drains nat

fun line_step :: "(string \<Rightarrow> Message) \<Rightarrow> line_event \<Rightarrow> line_readers \<Rightarrow> line_readers" where
  "line_step chunk (Reads is_err l) r =
     (if is_err \<and> lr_err r then (case Outgoing_send (chunk l) (lr_tx r) of (res, tx) \<Rightarrow> r\<lparr>lr_err := (res = Inr ()), lr_tx := tx\<rparr>)
      else if \<not> is_err \<and> lr_out r then (case Outgoing_send (chunk l) (lr_tx r) of (res, tx) \<Rightarrow> r\<lparr>lr_out := (res = Inr ()), lr_tx := tx\<rparr>)
      else r)"
| "line_step chunk (Drains n) r = r\<lparr>lr_tx := writer_takes n (lr_tx r)\<rparr>"

definition line_run_stream ::
    "(string \<Rightarrow> Message) \<Rightarrow> (string option \<Rightarrow> Message) \<Rightarrow> string \<Rightarrow> string \<Rightarrow> (string, unit) result \<Rightarrow> line_event list \<Rightarrow> wait_status \<Rightarrow>
     outgoing \<Rightarrow> outgoing" where
  "line_run_stream chunk fin spawn_name wait_name spawned es w tx =
     (case spawned of
        Inl e \<Rightarrow> post (fin (Some (spawn_name @ '' spawn: '' @ e))) tx
      | Inr _ \<Rightarrow> post (fin (wait_error wait_name w)) (lr_tx (fold (line_step chunk) es \<lparr>lr_out = True, lr_err = True, lr_tx = tx\<rparr>)))"

definition logs_run_stream :: "string \<Rightarrow> (string, unit) result \<Rightarrow> line_event list \<Rightarrow> wait_status \<Rightarrow> outgoing \<Rightarrow> outgoing" where
  "logs_run_stream container_id =
     line_run_stream (\<lambda>l. Log (DockerLogsChunk container_id l)) (\<lambda>e. Log (DockerLogsEnd container_id e)) ''docker'' ''docker logs''"

definition journal_unit_run_stream :: "string \<Rightarrow> (string, unit) result \<Rightarrow> line_event list \<Rightarrow> wait_status \<Rightarrow> outgoing \<Rightarrow> outgoing" where
  "journal_unit_run_stream unit =
     line_run_stream (\<lambda>l. Log (JournalLogsChunk unit l)) (\<lambda>e. Log (JournalLogsEnd unit e)) ''journalctl'' ''journalctl''"

section \<open>What a batched stream delivers\<close>

fun chunk_lines :: "string \<Rightarrow> Message \<Rightarrow> string list option" where
  "chunk_lines sid (Log (JournalStreamChunk sid' ls)) = (if sid' = sid then Some ls else None)"
| "chunk_lines sid _ = None"

definition chunks_of_stream :: "string \<Rightarrow> Message list \<Rightarrow> string list list" where
  "chunks_of_stream sid ms = List.map_filter (chunk_lines sid) ms"

definition delivered :: "string \<Rightarrow> outgoing \<Rightarrow> string list" where
  "delivered sid q = concat (chunks_of_stream sid (og_sent q))"

fun event_lines :: "batch_event list \<Rightarrow> string list" where
  "event_lines [] = []"
| "event_lines (Line l # es) = l # event_lines es"
| "event_lines (_ # es) = event_lines es"

fun foreign :: "string \<Rightarrow> batch_event \<Rightarrow> bool" where
  "foreign sid (Other_Sends m) \<longleftrightarrow> chunk_lines sid m = None"
| "foreign sid _ \<longleftrightarrow> True"

lemma chunks_append [simp]: "chunks_of_stream sid (ms @ ms') = chunks_of_stream sid ms @ chunks_of_stream sid ms'"
  by (simp add: chunks_of_stream_def List.map_filter_def)

lemma chunks_Nil [simp]: "chunks_of_stream sid [] = []"
  by (simp add: chunks_of_stream_def List.map_filter_def)

lemma chunks_single: "chunks_of_stream sid [m] = (case chunk_lines sid m of Some ls \<Rightarrow> [ls] | None \<Rightarrow> [])"
  by (simp add: chunks_of_stream_def List.map_filter_def split: option.splits)

definition well_cut :: "string list list \<Rightarrow> bool" where
  "well_cut = list_all (\<lambda>ls. 0 < length ls \<and> length ls \<le> MAX_LINES_PER_CHUNK)"

definition no_refusal :: "string \<Rightarrow> outgoing \<Rightarrow> bool" where
  "no_refusal sid q \<longleftrightarrow> chunks_of_stream sid (og_refused q) = []"

definition batch_inv :: "string \<Rightarrow> string list \<Rightarrow> batcher \<Rightarrow> bool" where
  "batch_inv sid got b \<longleftrightarrow>
     well_cut (chunks_of_stream sid (og_sent (ba_tx b))) \<and> length (og_queue (ba_tx b)) \<le> OUTGOING_QUEUE_CAPACITY \<and>
     (if ba_alive b
      then delivered sid (ba_tx b) @ ba_buf b = got \<and> length (ba_buf b) < MAX_LINES_PER_CHUNK \<and> no_refusal sid (ba_tx b)
      else prefix (delivered sid (ba_tx b)) got \<and> \<not> no_refusal sid (ba_tx b))"

abbreviation journal_chunk :: "string \<Rightarrow> string list \<Rightarrow> Message" where
  "journal_chunk sid \<equiv> \<lambda>ls. Log (JournalStreamChunk sid ls)"

lemma flush_inv:
  assumes "well_cut (chunks_of_stream sid (og_sent (ba_tx b)))" "length (og_queue (ba_tx b)) \<le> OUTGOING_QUEUE_CAPACITY"
    "ba_alive b" "delivered sid (ba_tx b) @ ba_buf b = got" "ba_buf b \<noteq> []" "length (ba_buf b) \<le> MAX_LINES_PER_CHUNK"
    "no_refusal sid (ba_tx b)"
  shows "batch_inv sid got (flush_batch (journal_chunk sid) b)"
  using assms
  by (auto simp: flush_batch_def Outgoing_send_def batch_inv_def delivered_def chunks_single well_cut_def no_refusal_def
      OUTGOING_QUEUE_CAPACITY_def MAX_LINES_PER_CHUNK_def)

lemma foreign_post:
  assumes "chunk_lines sid m = None"
  shows "chunks_of_stream sid (og_sent (post m q)) = chunks_of_stream sid (og_sent q)"
    and "chunks_of_stream sid (og_refused (post m q)) = chunks_of_stream sid (og_refused q)"
    and "length (og_queue q) \<le> OUTGOING_QUEUE_CAPACITY \<Longrightarrow> length (og_queue (post m q)) \<le> OUTGOING_QUEUE_CAPACITY"
  using assms by (simp_all add: post_def Outgoing_send_def chunks_single)

fun closes :: "batch_event \<Rightarrow> bool" where
  "closes Sources_Closed \<longleftrightarrow> True"
| "closes (Source_Error _) \<longleftrightarrow> True"
| "closes _ \<longleftrightarrow> False"

lemma batch_step_inv:
  assumes inv: "batch_inv sid got b" and f: "foreign sid e" and c: "\<not> closes e"
  shows "batch_inv sid (got @ event_lines [e]) (batch_step (journal_chunk sid) e b)"
proof (cases e)
  case (Line l)
  show ?thesis
  proof (cases "ba_alive b \<and> length (ba_buf b) + 1 \<ge> MAX_LINES_PER_CHUNK")
    case True
    then have "batch_inv sid (got @ [l]) (flush_batch (journal_chunk sid) (b\<lparr>ba_buf := ba_buf b @ [l]\<rparr>))"
      using inv by (intro flush_inv) (auto simp: batch_inv_def)
    with True Line show ?thesis by simp
  next
    case False
    with inv Line show ?thesis by (auto simp: batch_inv_def prefix_def)
  qed
next
  case Flush_Tick
  show ?thesis
  proof (cases "ba_alive b \<and> ba_buf b \<noteq> []")
    case True
    then have "batch_inv sid got (flush_batch (journal_chunk sid) b)"
      using inv by (intro flush_inv) (auto simp: batch_inv_def)
    with True Flush_Tick show ?thesis by simp
  next
    case False
    with inv Flush_Tick show ?thesis by auto
  qed
next
  case (Writer_Takes n)
  with inv show ?thesis by (auto simp: batch_inv_def writer_takes_def delivered_def no_refusal_def)
next
  case (Other_Sends m)
  with f have "chunk_lines sid m = None" by simp
  from foreign_post [OF this] inv Other_Sends show ?thesis by (auto simp: batch_inv_def delivered_def no_refusal_def split: if_splits)
next
  case Writer_Stops
  with inv show ?thesis by (auto simp: batch_inv_def delivered_def no_refusal_def split: if_splits)
qed (use c in simp_all)

lemma event_lines_append: "event_lines (es @ es') = event_lines es @ event_lines es'"
  by (induction es rule: event_lines.induct) simp_all

lemma batch_run_inv:
  assumes "batch_inv sid got b" and "list_all (foreign sid) es" and "list_all (\<lambda>e. \<not> closes e) es"
  shows "batch_inv sid (got @ event_lines es) (fold (batch_step (journal_chunk sid)) es b)"
  using assms
proof (induction es arbitrary: got b)
  case Nil
  then show ?case by simp
next
  case (Cons e es)
  have "batch_inv sid (got @ event_lines [e]) (batch_step (journal_chunk sid) e b)"
    using batch_step_inv [OF Cons.prems(1)] Cons.prems(2,3) by simp
  with Cons.IH [OF this] Cons.prems(2,3) event_lines_append [of "[e]" es] show ?case by simp
qed

lemma closing_step:
  assumes "batch_inv sid got b"
  defines "b' \<equiv> batch_step (journal_chunk sid) Sources_Closed b"
  shows "well_cut (chunks_of_stream sid (og_sent (ba_tx b'))) \<and> length (og_queue (ba_tx b')) \<le> OUTGOING_QUEUE_CAPACITY \<and>
         prefix (delivered sid (ba_tx b')) got \<and> (no_refusal sid (ba_tx b') \<longrightarrow> delivered sid (ba_tx b') = got)"
proof (cases "ba_alive b \<and> ba_buf b \<noteq> []")
  case True
  then have "batch_inv sid got (flush_batch (journal_chunk sid) b)"
    using assms(1) by (intro flush_inv) (auto simp: batch_inv_def)
  moreover have "ba_buf (flush_batch (journal_chunk sid) b) = []" by (simp add: flush_batch_def split: prod.splits sum.splits)
  ultimately show ?thesis
    using True by (auto simp: b'_def final_flush_def batch_inv_def delivered_def no_refusal_def split: if_splits)
next
  case False
  with assms(1) show ?thesis
    by (auto simp: b'_def final_flush_def batch_inv_def delivered_def no_refusal_def split: if_splits)
qed

text \<open>
  C24: a journal stream reaches the queue in order and without gaps: the lines of its chunks are a prefix of the
  lines the sources gave, and all of them if no chunk was refused; every chunk has between one and a hundred
  lines; and the queue never holds more than 256 messages, whatever the writer takes and the other tasks send in
  between.
\<close>

theorem journal_stream_has_no_gaps:
  assumes "build_argv args = Inr as" and "spawned (argv as) = Inr ()"
    and "chunks_of_stream (sa_stream_id args) (og_sent tx) = []" and "no_refusal (sa_stream_id args) tx"
    and "length (og_queue tx) \<le> OUTGOING_QUEUE_CAPACITY"
    and "list_all (foreign (sa_stream_id args)) es" and "list_all (\<lambda>e. \<not> closes e) es"
  shows "prefix (delivered (sa_stream_id args) (journal_run_stream spawned (es @ [Sources_Closed]) w args tx)) (event_lines es) \<and>
         (no_refusal (sa_stream_id args) (journal_run_stream spawned (es @ [Sources_Closed]) w args tx) \<longrightarrow>
            delivered (sa_stream_id args) (journal_run_stream spawned (es @ [Sources_Closed]) w args tx) = event_lines es) \<and>
         well_cut (chunks_of_stream (sa_stream_id args) (og_sent (journal_run_stream spawned (es @ [Sources_Closed]) w args tx))) \<and>
         length (og_queue (journal_run_stream spawned (es @ [Sources_Closed]) w args tx)) \<le> OUTGOING_QUEUE_CAPACITY"
proof -
  let ?sid = "sa_stream_id args"
  let ?b = "fold (batch_step (journal_chunk ?sid)) es \<lparr>ba_buf = [], ba_alive = True, ba_tx = tx\<rparr>"
  have "batch_inv ?sid [] \<lparr>ba_buf = [], ba_alive = True, ba_tx = tx\<rparr>"
    using assms(3-5) by (simp add: batch_inv_def delivered_def well_cut_def MAX_LINES_PER_CHUNK_def)
  from batch_run_inv [OF this assms(6,7)] have "batch_inv ?sid (event_lines es) ?b" by simp
  note closing = closing_step [OF this]
  have eq: "journal_run_stream spawned (es @ [Sources_Closed]) w args tx =
      post (Log (JournalStreamEnd ?sid (wait_error ''journalctl'' w))) (ba_tx (batch_step (journal_chunk ?sid) Sources_Closed ?b))"
    using assms(1,2) by (simp add: journal_run_stream_def Let_def)
  have "chunk_lines ?sid (Log (JournalStreamEnd ?sid (wait_error ''journalctl'' w))) = None" by simp
  note p = foreign_post [OF this]
  show ?thesis using closing unfolding eq by (simp add: delivered_def no_refusal_def p)
qed

theorem journal_stream_has_no_gaps_witness:
  "delivered ''s1'' (journal_run_stream (\<lambda>_. Inr ()) ([Line ''a'', Flush_Tick, Line ''b'', Writer_Takes 1, Line ''c''] @ [Sources_Closed])
      (Waited (Some 0)) \<lparr>sa_stream_id = ''s1'', sa_units = [], sa_priority = None, sa_since = None, sa_grep = None, sa_identifier = None,
        sa_lines = 5, sa_follow = False\<rparr> outgoing_new) = [''a'', ''b'', ''c'']"
  (is "delivered _ ?q = _")
proof -
  have "no_refusal ''s1'' ?q" by code_simp
  then show ?thesis
    using journal_stream_has_no_gaps [where spawned = "\<lambda>_. Inr ()" and tx = outgoing_new and w = "Waited (Some 0)" and
        args = "\<lparr>sa_stream_id = ''s1'', sa_units = [], sa_priority = None, sa_since = None, sa_grep = None, sa_identifier = None,
          sa_lines = 5, sa_follow = False\<rparr>" and es = "[Line ''a'', Flush_Tick, Line ''b'', Writer_Takes 1, Line ''c'']"]
    by (auto simp: build_argv_def try_bind_def filter_arg_def outgoing_new_def no_refusal_def)
qed

end
