(* ===== verification/Agent_Health.thy ===== *)
theory Agent_Health
  imports Agent_Streams
begin

text \<open>
  \<open>agent/src/health.rs\<close>: the health probes. A probe is a task that samples its target and reports when the
  state flips; the set of tasks is reconciled with the specifications the server sends. What the probed targets
  answer, the JSON text of a specification (\<open>to_string\<close>) and the debug form of a string are arguments.

  Shown: after a synchronisation the probes that run are the ones sent, with the unchanged ones left alone; the
  reports are the flips of the state, as long as the queue has room; a report the queue refuses is never sent
  again; and an exec probe runs a file of the probe directory with a vetted environment.
\<close>

section \<open>Health probes\<close>

definition HTTP_BODY_CAP :: nat where "HTTP_BODY_CAP = 1048576"

definition append_body_chunk :: "string \<Rightarrow> string \<Rightarrow> string option" where
  "append_body_chunk body chunk = (if length body + length chunk > HTTP_BODY_CAP then None else Some (body @ chunk))"

fun read_body :: "(string, string) result list \<Rightarrow> string \<Rightarrow> (string, string) result" where
  "read_body [] acc = Inr acc"
| "read_body (Inl e # _) acc = Inl (''read body: '' @ e)"
| "read_body (Inr c # cs) acc =
     (case append_body_chunk acc c of
        None \<Rightarrow> Inl (''response body exceeds '' @ nat_to_dec HTTP_BODY_CAP @ '' bytes'')
      | Some acc' \<Rightarrow> read_body cs acc')"

text \<open>\<open>get\<close> answers with a status and the chunks of the body; \<open>debug\<close> is the debug form of a string.\<close>

definition probe_http ::
    "(string \<Rightarrow> string) \<Rightarrow> (string, unit) result \<Rightarrow> (string \<Rightarrow> (string, u16 \<times> (string, string) result list) result) \<Rightarrow> HealthProbeSpec \<Rightarrow>
     HealthProbeState \<times> string" where
  "probe_http debug client get spec =
     (case client of
        Inl e \<Rightarrow> (Red, ''client build: '' @ e)
      | Inr _ \<Rightarrow>
     (case get (hps_target spec) of
        Inl e \<Rightarrow> (Red, ''connect: '' @ e)
      | Inr (status, body) \<Rightarrow>
          (let code = nat_to_dec (unat status);
               status_ok = (case hps_expect_status spec of Some want \<Rightarrow> status = want | None \<Rightarrow> 200 \<le> status \<and> status < 300)
           in if \<not> status_ok then (Red, ''unexpected status '' @ code)
              else (case hps_expect_body spec of
                      None \<Rightarrow> (Green, ''ok ('' @ code @ '')'')
                    | Some want \<Rightarrow>
                        (case read_body body [] of
                           Inl e \<Rightarrow> (Red, e)
                         | Inr bytes \<Rightarrow>
                             if contains_str (from_utf8_lossy bytes) want then (Green, ''ok ('' @ code @ '')'')
                             else (Red, ''body missing '' @ debug want @ '' (status '' @ code @ '')''))))))"

definition timeout_text :: "HealthProbeSpec \<Rightarrow> string" where
  "timeout_text spec = ''timeout after '' @ nat_to_dec (unat (max (hps_timeout_secs spec) 1)) @ ''s''"

text \<open>\<open>None\<close>: the deadline passed first.\<close>

definition probe_tcp :: "(string \<Rightarrow> (string, unit) result option) \<Rightarrow> HealthProbeSpec \<Rightarrow> HealthProbeState \<times> string" where
  "probe_tcp connect spec =
     (case connect (hps_target spec) of
        Some (Inr _) \<Rightarrow> (Green, ''ok'')
      | Some (Inl e) \<Rightarrow> (Red, ''connect: '' @ e)
      | None \<Rightarrow> (Red, timeout_text spec))"

definition is_ascii_alphabetic :: "char \<Rightarrow> bool" where
  "is_ascii_alphabetic c \<longleftrightarrow> is_ascii_alphanumeric c \<and> \<not> c \<in> set ''0123456789''"

definition BLOCKED_PROBE_KEYS :: "string list" where
  "BLOCKED_PROBE_KEYS =
     [''PATH'', ''BASH_ENV'', ''ENV'', ''CDPATH'', ''GLOBIGNORE'', ''SHELLOPTS'', ''BASHOPTS'', ''PYTHONHOME'', ''PYTHONPATH'',
      ''PYTHONSTARTUP'', ''PERL5LIB'', ''PERL5OPT'', ''RUBYLIB'', ''RUBYOPT'', ''NODE_OPTIONS'', ''JAVA_TOOL_OPTIONS'', ''JDK_JAVA_OPTIONS'']"

definition is_safe_probe_env_key :: "string \<Rightarrow> bool" where
  "is_safe_probe_env_key key \<longleftrightarrow>
     (case key of
        [] \<Rightarrow> False
      | c # cs \<Rightarrow> (c = CHR ''_'' \<or> is_ascii_alphabetic c) \<and> list_all (\<lambda>d. d = CHR ''_'' \<or> is_ascii_alphanumeric d) cs) \<and>
     key \<notin> set BLOCKED_PROBE_KEYS \<and> \<not> starts_with key ''LD_'' \<and> \<not> starts_with key ''DYLD_''"

definition PROBES_DIR :: string where "PROBES_DIR = ''/etc/shellfleet/probes.d''"
definition PROBE_PATH :: string where "PROBE_PATH = ''/usr/local/sbin:/usr/local/bin:/usr/sbin:/usr/bin:/sbin:/bin''"

definition probe_env :: "HealthProbeSpec \<Rightarrow> (string \<times> string) list" where
  "probe_env spec =
     (''PATH'', PROBE_PATH) #
     List.map_filter (\<lambda>kv. case split_once_on CHR ''='' kv of
                         Some (k, v) \<Rightarrow> if is_safe_probe_env_key k then Some (k, v) else None
                       | None \<Rightarrow> None) (hps_env spec)"

text \<open>The command of an exec probe: its path and its whole environment.\<close>

definition probe_command ::
    "(string \<Rightarrow> string) \<Rightarrow> (string \<Rightarrow> bool) \<Rightarrow> HealthProbeSpec \<Rightarrow> (string, string \<times> (string \<times> string) list) result" where
  "probe_command debug is_file spec =
     (let target = trim_ws (hps_target spec); path = PROBES_DIR @ ''/'' @ target
      in if target = [] \<or> contains_char target CHR ''/'' \<or> contains_char target BACKSLASH \<or> contains_str target ''..''
         then Inl (''invalid exec target '' @ debug target @ '' (must be a filename in /etc/shellfleet/probes.d/)'')
         else if \<not> is_file path then Inl (''script not found: '' @ path)
         else Inr (path, probe_env spec))"

definition first_200 :: "string \<Rightarrow> string" where
  "first_200 s = concat (take 200 (chars s))"

definition exec_detail :: "proc_output \<Rightarrow> HealthProbeState \<times> string" where
  "exec_detail out =
     (let first_line = (case find (\<lambda>l. trim_ws l \<noteq> []) (str_lines (from_utf8_lossy (o_stdout out))) of Some l \<Rightarrow> first_200 l | None \<Rightarrow> []);
          err = (case str_lines (from_utf8_lossy (o_stderr out)) of l # _ \<Rightarrow> first_200 l | [] \<Rightarrow> [])
      in if succeeded out then (Green, if first_line = [] then ''ok'' else first_line)
         else (Red, ''exit '' @ int_to_dec (case o_code out of Some c \<Rightarrow> c | None \<Rightarrow> -1) @ '' '' @ (if first_line \<noteq> [] then first_line else err)))"

datatype probe_wait = Exec_Output proc_output | Exec_Wait_Failed string | Exec_Timeout

definition probe_exec ::
    "(string \<Rightarrow> string) \<Rightarrow> (string \<Rightarrow> bool) \<Rightarrow> (string \<times> (string \<times> string) list \<Rightarrow> (string, probe_wait) result) \<Rightarrow> HealthProbeSpec \<Rightarrow>
     HealthProbeState \<times> string" where
  "probe_exec debug is_file spawn spec =
     (case probe_command debug is_file spec of
        Inl e \<Rightarrow> (Red, e)
      | Inr cmd \<Rightarrow>
          (case spawn cmd of
             Inl e \<Rightarrow> (Red, ''spawn: '' @ e)
           | Inr (Exec_Wait_Failed e) \<Rightarrow> (Red, ''wait: '' @ e)
           | Inr Exec_Timeout \<Rightarrow> (Red, timeout_text spec)
           | Inr (Exec_Output out) \<Rightarrow> exec_detail out))"

text \<open>The pause before the first sample, in milliseconds.\<close>

definition probe_jitter :: "string \<Rightarrow> u64" where
  "probe_jitter pid = foldl (\<lambda>a b. a + of_nat (of_char b)) 0 pid mod 5000"

text \<open>One turn of \<open>run_probe\<close>: a sample is a state, a duration in milliseconds, a detail and the clock.\<close>

type_synonym sample = "HealthProbeState \<times> nat \<times> string \<times> i64"

definition sample_result :: "HealthProbeSpec \<Rightarrow> sample \<Rightarrow> HealthProbeResult" where
  "sample_result spec smp =
     (case smp of (state, ms, detail, now) \<Rightarrow>
        \<lparr>hpr_id = hps_id spec, hpr_state = state, hpr_latency_ms = of_nat (min ms (2 ^ 32 - 1)), hpr_detail = detail, hpr_at = now\<rparr>)"

definition probe_turn :: "HealthProbeSpec \<Rightarrow> sample \<Rightarrow> HealthProbeState option \<times> outgoing \<Rightarrow> HealthProbeState option \<times> outgoing" where
  "probe_turn spec smp st =
     (case st of (last_state, tx) \<Rightarrow>
        if last_state \<noteq> Some (fst smp)
        then (Some (fst smp), post (Probe (HealthProbeReport [sample_result spec smp])) tx)
        else (last_state, tx))"

definition run_probe :: "HealthProbeSpec \<Rightarrow> sample list \<Rightarrow> outgoing \<Rightarrow> HealthProbeState option \<times> outgoing" where
  "run_probe spec samples tx = fold (probe_turn spec) samples (None, tx)"

section \<open>The set of probes\<close>

record probe_tasks =
  pt_tasks :: "string \<rightharpoonup> string \<times> nat"
  pt_live :: "(nat \<times> HealthProbeSpec) list"
  pt_next :: nat

definition probe_abort :: "nat \<Rightarrow> probe_tasks \<Rightarrow> probe_tasks" where
  "probe_abort h t = t\<lparr>pt_live := filter (\<lambda>x. fst x \<noteq> h) (pt_live t)\<rparr>"

definition probe_spawn :: "(HealthProbeSpec \<Rightarrow> string) \<Rightarrow> HealthProbeSpec \<Rightarrow> probe_tasks \<Rightarrow> probe_tasks" where
  "probe_spawn to_string p t =
     t\<lparr>pt_live := pt_live t @ [(pt_next t, p)], pt_tasks := (pt_tasks t)(hps_id p \<mapsto> (to_string p, pt_next t)), pt_next := Suc (pt_next t)\<rparr>"

definition sync_one :: "(HealthProbeSpec \<Rightarrow> string) \<Rightarrow> HealthProbeSpec \<Rightarrow> probe_tasks \<Rightarrow> probe_tasks" where
  "sync_one to_string p t =
     (case pt_tasks t (hps_id p) of
        Some (existing_sig, h) \<Rightarrow>
          if existing_sig = to_string p then t
          else probe_spawn to_string p (probe_abort h (t\<lparr>pt_tasks := (pt_tasks t)(hps_id p := None)\<rparr>))
      | None \<Rightarrow> probe_spawn to_string p t)"

text \<open>The keys that are not kept are aborted and removed.\<close>

definition sync_drop :: "string list \<Rightarrow> probe_tasks \<Rightarrow> probe_tasks" where
  "sync_drop keep t =
     t\<lparr>pt_tasks := (pt_tasks t) |` set keep,
       pt_live := filter (\<lambda>x. \<not> (hps_id (snd x) \<notin> set keep \<and> map_option snd (pt_tasks t (hps_id (snd x))) = Some (fst x)))
                    (pt_live t)\<rparr>"

definition health_sync :: "(HealthProbeSpec \<Rightarrow> string) \<Rightarrow> HealthProbeSpec list \<Rightarrow> probe_tasks \<Rightarrow> probe_tasks" where
  "health_sync to_string probes t = sync_drop (map hps_id probes) (fold (sync_one to_string) probes t)"

section \<open>Synchronisation\<close>

definition running_probes :: "probe_tasks \<Rightarrow> (string \<rightharpoonup> HealthProbeSpec)" where
  "running_probes t k = Option.bind (pt_tasks t k) (\<lambda>x. map_of (pt_live t) (snd x))"

definition probe_inv :: "(HealthProbeSpec \<Rightarrow> string) \<Rightarrow> probe_tasks \<Rightarrow> bool" where
  "probe_inv to_string t \<longleftrightarrow>
     distinct (map fst (pt_live t)) \<and>
     (\<forall>h p. (h, p) \<in> set (pt_live t) \<longrightarrow> h < pt_next t \<and> pt_tasks t (hps_id p) = Some (to_string p, h)) \<and>
     (\<forall>k sg h. pt_tasks t k = Some (sg, h) \<longrightarrow> (\<exists>p. (h, p) \<in> set (pt_live t) \<and> hps_id p = k))"

lemma probe_inv_live:
  assumes "probe_inv to_string t" "(h, p) \<in> set (pt_live t)"
  shows "h < pt_next t" "pt_tasks t (hps_id p) = Some (to_string p, h)" "map_of (pt_live t) h = Some p"
  using assms by (auto simp: probe_inv_def)

lemma probe_inv_task:
  assumes "probe_inv to_string t" "pt_tasks t k = Some (sg, h)"
  obtains p where "(h, p) \<in> set (pt_live t)" "hps_id p = k" "sg = to_string p" "running_probes t k = Some p"
proof -
  from assms obtain p where p: "(h, p) \<in> set (pt_live t)" "hps_id p = k" unfolding probe_inv_def by blast
  with probe_inv_live [OF assms(1) p(1)] assms(2) that [of p] show ?thesis by (simp add: running_probes_def)
qed

lemma running_None: "probe_inv to_string t \<Longrightarrow> running_probes t k = None \<longleftrightarrow> pt_tasks t k = None"
  by (cases "pt_tasks t k") (auto elim: probe_inv_task simp: running_probes_def)

lemma spawn_probe:
  assumes i: "probe_inv to_string t" and n: "pt_tasks t (hps_id p) = None"
  shows "probe_inv to_string (probe_spawn to_string p t)"
    and "running_probes (probe_spawn to_string p t) = (running_probes t)(hps_id p \<mapsto> p)"
    and "k \<noteq> hps_id p \<Longrightarrow> pt_tasks (probe_spawn to_string p t) k = pt_tasks t k"
proof -
  have low: "pt_next t \<notin> fst ` set (pt_live t)" using probe_inv_live(1) [OF i] by fastforce
  have other: "hps_id q \<noteq> hps_id p" if "(h, q) \<in> set (pt_live t)" for h q
    using probe_inv_live(2) [OF i that] n by auto
  show "probe_inv to_string (probe_spawn to_string p t)"
    unfolding probe_inv_def
  proof (intro conjI allI impI)
    show "distinct (map fst (pt_live (probe_spawn to_string p t)))"
      using i low by (auto simp: probe_inv_def probe_spawn_def)
    fix h q assume "(h, q) \<in> set (pt_live (probe_spawn to_string p t))"
    then have hq: "(h, q) \<in> set (pt_live t) \<or> (h = pt_next t \<and> q = p)" by (auto simp: probe_spawn_def)
    then show "h < pt_next (probe_spawn to_string p t)"
      using probe_inv_live(1) [OF i] by (auto simp: probe_spawn_def less_Suc_eq)
    from hq show "pt_tasks (probe_spawn to_string p t) (hps_id q) = Some (to_string q, h)"
      using probe_inv_live(2) [OF i] other by (auto simp: probe_spawn_def)
  next
    fix k sg h assume a: "pt_tasks (probe_spawn to_string p t) k = Some (sg, h)"
    show "\<exists>q. (h, q) \<in> set (pt_live (probe_spawn to_string p t)) \<and> hps_id q = k"
    proof (cases "k = hps_id p")
      case True
      with a show ?thesis by (auto simp: probe_spawn_def)
    next
      case False
      with a have "pt_tasks t k = Some (sg, h)" by (simp add: probe_spawn_def)
      then obtain q where "(h, q) \<in> set (pt_live t)" "hps_id q = k" by (rule probe_inv_task [OF i])
      then show ?thesis by (auto simp: probe_spawn_def)
    qed
  qed
  show "running_probes (probe_spawn to_string p t) = (running_probes t)(hps_id p \<mapsto> p)"
  proof
    fix k
    have "map_of (pt_live t) (pt_next t) = None" using low by (simp add: map_of_eq_None_iff)
    moreover have "h \<noteq> pt_next t" if "pt_tasks t k = Some (sg, h)" for sg h
      using that by (auto elim!: probe_inv_task [OF i] dest: probe_inv_live(1) [OF i])
    ultimately show "running_probes (probe_spawn to_string p t) k = ((running_probes t)(hps_id p \<mapsto> p)) k"
      by (cases "pt_tasks t k") (auto simp: running_probes_def probe_spawn_def map_add_def split: option.splits)
  qed
  show "k \<noteq> hps_id p \<Longrightarrow> pt_tasks (probe_spawn to_string p t) k = pt_tasks t k" by (simp add: probe_spawn_def)
qed

text \<open>Removing a key with its task.\<close>

definition forget :: "string set \<Rightarrow> probe_tasks \<Rightarrow> probe_tasks" where
  "forget ks t = t\<lparr>pt_tasks := (pt_tasks t) |` (- ks), pt_live := filter (\<lambda>x. hps_id (snd x) \<notin> ks) (pt_live t)\<rparr>"

lemma forget_probes:
  assumes i: "probe_inv to_string t"
  shows "probe_inv to_string (forget ks t)" and "running_probes (forget ks t) = (running_probes t) |` (- ks)"
proof -
  show "probe_inv to_string (forget ks t)"
    unfolding probe_inv_def
  proof (intro conjI allI impI)
    show "distinct (map fst (pt_live (forget ks t)))" using i by (simp add: probe_inv_def forget_def distinct_map_filter)
    fix h q assume "(h, q) \<in> set (pt_live (forget ks t))"
    then have "(h, q) \<in> set (pt_live t)" "hps_id q \<notin> ks" by (auto simp: forget_def)
    with probe_inv_live [OF i this(1)]
    show "h < pt_next (forget ks t)" "pt_tasks (forget ks t) (hps_id q) = Some (to_string q, h)" by (simp_all add: forget_def)
  next
    fix k sg h assume "pt_tasks (forget ks t) k = Some (sg, h)"
    then have "pt_tasks t k = Some (sg, h)" "k \<notin> ks" by (auto simp: forget_def restrict_map_def split: if_splits)
    then show "\<exists>q. (h, q) \<in> set (pt_live (forget ks t)) \<and> hps_id q = k"
      by (auto simp: forget_def elim!: probe_inv_task [OF i])
  qed
  then have i': "probe_inv to_string (forget ks t)" .
  show "running_probes (forget ks t) = (running_probes t) |` (- ks)"
  proof
    fix k
    show "running_probes (forget ks t) k = ((running_probes t) |` (- ks)) k"
    proof (cases "pt_tasks (forget ks t) k")
      case None
      then show ?thesis
        using running_None [OF i', of k] running_None [OF i, of k] by (auto simp: forget_def restrict_map_def split: if_splits)
    next
      case (Some x)
      obtain sg h where x: "x = (sg, h)" by (cases x)
      from Some x have t: "pt_tasks t k = Some (sg, h)" "k \<notin> ks" by (auto simp: forget_def restrict_map_def split: if_splits)
      from probe_inv_task [OF i' Some [unfolded x]] obtain p where
        p: "(h, p) \<in> set (pt_live (forget ks t))" "running_probes (forget ks t) k = Some p" by metis
      then have "(h, p) \<in> set (pt_live t)" by (auto simp: forget_def)
      with t have "running_probes t k = Some p" using probe_inv_live(3) [OF i] by (simp add: running_probes_def)
      with p t show ?thesis by simp
    qed
  qed
qed

lemma same_task:
  assumes i: "probe_inv to_string t" and k: "pt_tasks t k = Some (sg, h)" and x: "(h', q) \<in> set (pt_live t)"
  shows "h' = h \<longleftrightarrow> hps_id q = k"
proof -
  obtain p where p: "(h, p) \<in> set (pt_live t)" "hps_id p = k" by (rule probe_inv_task [OF i k])
  show ?thesis using probe_inv_live(2,3) [OF i x] probe_inv_live(2,3) [OF i p(1)] p(2) by auto
qed

lemma sync_one_probe:
  assumes i: "probe_inv to_string t" and inj: "inj to_string"
  shows "probe_inv to_string (sync_one to_string p t)"
    and "running_probes (sync_one to_string p t) = (running_probes t)(hps_id p \<mapsto> p)"
    and "k \<noteq> hps_id p \<or> running_probes t k = Some p \<Longrightarrow> pt_tasks (sync_one to_string p t) k = pt_tasks t k"
proof -
  have goal: "probe_inv to_string (sync_one to_string p t) \<and> running_probes (sync_one to_string p t) = (running_probes t)(hps_id p \<mapsto> p) \<and>
      (\<forall>k. k \<noteq> hps_id p \<or> running_probes t k = Some p \<longrightarrow> pt_tasks (sync_one to_string p t) k = pt_tasks t k)"
  proof (cases "pt_tasks t (hps_id p)")
    case None
    then have "running_probes t (hps_id p) = None" using running_None [OF i] by simp
    with spawn_probe [OF i None] None show ?thesis by (auto simp: sync_one_def)
  next
    case (Some x)
    obtain sg h where x: "x = (sg, h)" by (cases x)
    obtain q where q: "sg = to_string q" "running_probes t (hps_id p) = Some q"
      using probe_inv_task [OF i Some [unfolded x]] by metis
    show ?thesis
    proof (cases "sg = to_string p")
      case True
      with q inj have "running_probes t (hps_id p) = Some p" by (simp add: inj_eq)
      with True Some x i show ?thesis by (simp add: sync_one_def map_upd_triv)
    next
      case False
      have "filter (\<lambda>x. fst x \<noteq> h) (pt_live t) = filter (\<lambda>x. hps_id (snd x) \<noteq> hps_id p) (pt_live t)"
        using same_task [OF i Some [unfolded x]] by (intro filter_cong) auto
      moreover have "(pt_tasks t)(hps_id p := None) = (pt_tasks t) |` (- {hps_id p})" by (auto simp: restrict_map_def)
      ultimately have "probe_abort h (t\<lparr>pt_tasks := (pt_tasks t)(hps_id p := None)\<rparr>) = forget {hps_id p} t"
        by (simp add: probe_abort_def forget_def)
      with Some x False have s: "sync_one to_string p t = probe_spawn to_string p (forget {hps_id p} t)" by (simp add: sync_one_def)
      have n: "pt_tasks (forget {hps_id p} t) (hps_id p) = None" by (simp add: forget_def)
      have keep: "k \<noteq> hps_id p" if "running_probes t k = Some p" for k
        using that q False by auto
      show ?thesis
        unfolding s using spawn_probe [OF forget_probes(1) [OF i] n] forget_probes(2) [OF i, of "{hps_id p}"] keep
        by (auto simp: fun_eq_iff restrict_map_def forget_def)
    qed
  qed
  then show "probe_inv to_string (sync_one to_string p t)"
    "running_probes (sync_one to_string p t) = (running_probes t)(hps_id p \<mapsto> p)"
    "k \<noteq> hps_id p \<or> running_probes t k = Some p \<Longrightarrow> pt_tasks (sync_one to_string p t) k = pt_tasks t k" by blast+
qed

abbreviation specs_by_id :: "HealthProbeSpec list \<Rightarrow> (string \<rightharpoonup> HealthProbeSpec)" where
  "specs_by_id ps \<equiv> map_of (rev (map (\<lambda>p. (hps_id p, p)) ps))"

lemma sync_fold:
  assumes "probe_inv to_string t" and inj: "inj to_string"
  shows "probe_inv to_string (fold (sync_one to_string) ps t)"
    and "running_probes (fold (sync_one to_string) ps t) = running_probes t ++ specs_by_id ps"
    and "distinct (map hps_id ps) \<Longrightarrow> specs_by_id ps k = None \<or> running_probes t k = specs_by_id ps k \<Longrightarrow>
         pt_tasks (fold (sync_one to_string) ps t) k = pt_tasks t k"
  using assms(1)
proof (induction ps arbitrary: t)
  case Nil
  { case 1 then show ?case by simp next case 2 then show ?case by simp next case 3 then show ?case by simp }
next
  case (Cons p ps)
  {
    case 1
    then show ?case using Cons.IH(1) [OF sync_one_probe(1) [OF 1 inj]] by simp
  next
    case 2
    have "map_of (rev (map (\<lambda>p. (hps_id p, p)) (p # ps))) = [hps_id p \<mapsto> p] ++ specs_by_id ps"
      by (simp add: map_of_append)
    then show ?case
      using Cons.IH(2) [OF sync_one_probe(1) [OF 2 inj]] sync_one_probe(2) [OF 2 inj, of p] by (simp add: fun_eq_iff map_add_def split: option.split)
  next
    case 3
    have none: "specs_by_id ps (hps_id p) = None" using 3(1) by (simp add: map_of_eq_None_iff image_image)
    have spec: "specs_by_id (p # ps) k = (case specs_by_id ps k of Some q \<Rightarrow> Some q | None \<Rightarrow> if k = hps_id p then Some p else None)"
      by (simp add: map_add_def split: option.splits)
    have "pt_tasks (sync_one to_string p t) k = pt_tasks t k"
      using 3(2) none spec by (intro sync_one_probe(3) [OF 3(3) inj]) (auto split: option.splits if_splits)
    moreover have "specs_by_id ps k = None \<or> running_probes (sync_one to_string p t) k = specs_by_id ps k"
      using 3(2) none spec sync_one_probe(2) [OF 3(3) inj, of p] by (auto split: option.splits if_splits)
    ultimately show ?case
      using Cons.IH(3) [of "sync_one to_string p t"] 3(1) sync_one_probe(1) [OF 3(3) inj] by simp
  }
qed

lemma drop_is_forget:
  assumes "probe_inv to_string t"
  shows "sync_drop keep t = forget (- set keep) t"
proof -
  have "map_option snd (pt_tasks t (hps_id (snd x))) = Some (fst x)" if "x \<in> set (pt_live t)" for x
    using probe_inv_live(2) [OF assms, of "fst x" "snd x"] that by simp
  then have "filter (\<lambda>x. \<not> (hps_id (snd x) \<notin> set keep \<and> map_option snd (pt_tasks t (hps_id (snd x))) = Some (fst x))) (pt_live t) =
      filter (\<lambda>x. hps_id (snd x) \<in> set keep) (pt_live t)" by (intro filter_cong) auto
  then show ?thesis by (simp add: sync_drop_def forget_def)
qed

text \<open>
  C22: after a synchronisation the probes that run are exactly the ones sent, one per id and the last one for a
  repeated id; every running task is known under its id; and with distinct ids a probe whose specification did
  not change keeps its task. \<open>to_string\<close> gives different texts for different specifications.
\<close>

theorem probe_sync_refines_the_request:
  assumes "probe_inv to_string t" and "inj to_string"
  shows "probe_inv to_string (health_sync to_string ps t) \<and>
         running_probes (health_sync to_string ps t) = map_of (rev (map (\<lambda>p. (hps_id p, p)) ps)) \<and>
         (distinct (map hps_id ps) \<and> running_probes t k = map_of (rev (map (\<lambda>p. (hps_id p, p)) ps)) k \<longrightarrow>
            pt_tasks (health_sync to_string ps t) k = pt_tasks t k)"
proof -
  let ?t = "fold (sync_one to_string) ps t"
  note f = sync_fold [OF assms]
  have d: "health_sync to_string ps t = forget (- set (map hps_id ps)) ?t"
    unfolding health_sync_def by (rule drop_is_forget [OF f(1)])
  have dom: "specs_by_id ps i = None \<longleftrightarrow> i \<notin> set (map hps_id ps)" for i by (simp add: map_of_eq_None_iff image_image)
  have run: "running_probes (health_sync to_string ps t) = specs_by_id ps"
  proof
    fix i
    show "running_probes (health_sync to_string ps t) i = specs_by_id ps i"
      unfolding d forget_probes(2) [OF f(1)] f(2) using dom [of i]
      by (cases "specs_by_id ps i") (auto simp: restrict_map_def map_add_def)
  qed
  have inv: "probe_inv to_string (health_sync to_string ps t)" unfolding d by (rule forget_probes(1) [OF f(1)])
  have "pt_tasks (health_sync to_string ps t) k = pt_tasks t k"
    if "distinct (map hps_id ps)" "running_probes t k = specs_by_id ps k"
  proof (cases "specs_by_id ps k")
    case None
    then show ?thesis using running_None [OF inv] running_None [OF assms(1)] run that(2) by metis
  next
    case (Some p)
    with dom [of k] f(3) [OF that(1), of k] that(2) show ?thesis by (auto simp: d forget_def)
  qed
  with inv run show ?thesis by blast
qed

text \<open>A text of a specification that can be read back.\<close>

definition enc_str :: "string \<Rightarrow> string" where
  "enc_str s = concat (map (\<lambda>c. [CHR ''x'', c]) s) @ ''.''"

definition spec_words :: "HealthProbeSpec \<Rightarrow> string list" where
  "spec_words p =
     [hps_id p, hps_name p, case hps_kind p of Probe_Http \<Rightarrow> ''h'' | Probe_Tcp \<Rightarrow> ''t'' | Probe_Exec \<Rightarrow> ''e'', hps_target p,
      replicate (unat (hps_interval_secs p)) CHR ''i'', replicate (unat (hps_timeout_secs p)) CHR ''t'',
      (case hps_expect_status p of None \<Rightarrow> [] | Some n \<Rightarrow> replicate (Suc (unat n)) CHR ''s''),
      (case hps_expect_body p of None \<Rightarrow> [] | Some b \<Rightarrow> CHR ''b'' # b)] @ hps_env p"

definition demo_to_string :: "HealthProbeSpec \<Rightarrow> string" where
  "demo_to_string p = concat (map enc_str (spec_words p))"

lemma enc_str_append: "enc_str s @ u = enc_str s' @ u' \<Longrightarrow> s = s' \<and> u = u'"
proof (induction s arbitrary: s')
  case Nil
  then show ?case by (cases s') (simp_all add: enc_str_def)
next
  case (Cons c s)
  then show ?case by (cases s') (auto simp: enc_str_def)
qed

lemma enc_str_nonempty: "enc_str s \<noteq> []"
  by (simp add: enc_str_def)

lemma enc_words_inj: "concat (map enc_str ws) = concat (map enc_str ws') \<Longrightarrow> ws = ws'"
proof (induction ws arbitrary: ws')
  case Nil
  then show ?case by (cases ws') (simp_all add: enc_str_def)
next
  case (Cons w ws)
  then show ?case by (cases ws') (auto simp: enc_str_nonempty dest: enc_str_append)
qed

lemma spec_words_inj: "spec_words p = spec_words q \<Longrightarrow> p = q"
  by (rule HealthProbeSpec.equality)
    (auto simp: spec_words_def word_unat_eq_iff split: HealthProbeKind.splits option.splits)

lemma demo_to_string_inj: "inj demo_to_string"
  by (rule injI) (auto simp: demo_to_string_def dest: enc_words_inj intro: spec_words_inj)

definition demo_probe :: HealthProbeSpec where
  "demo_probe = \<lparr>hps_id = ''p1'', hps_name = ''web'', hps_kind = Probe_Tcp, hps_target = ''127.0.0.1:80'', hps_interval_secs = 30,
     hps_timeout_secs = 5, hps_expect_status = None, hps_expect_body = None, hps_env = []\<rparr>"

definition no_probes :: probe_tasks where
  "no_probes = \<lparr>pt_tasks = Map.empty, pt_live = [], pt_next = 0\<rparr>"

theorem probe_sync_refines_the_request_witness:
  "running_probes (health_sync demo_to_string [demo_probe\<lparr>hps_target := ''old:80''\<rparr>, demo_probe] no_probes) ''p1'' = Some demo_probe \<and>
   running_probes (health_sync demo_to_string [demo_probe\<lparr>hps_target := ''old:80''\<rparr>, demo_probe] no_probes) ''p2'' = None"
  using probe_sync_refines_the_request [OF _ demo_to_string_inj, where t = no_probes and ps = "[demo_probe\<lparr>hps_target := ''old:80''\<rparr>, demo_probe]"]
  by (simp add: probe_inv_def no_probes_def demo_probe_def)

section \<open>Reports\<close>

lemma post_room:
  "\<not> og_closed q \<Longrightarrow> length (og_queue q) < OUTGOING_QUEUE_CAPACITY \<Longrightarrow>
   post m q = q\<lparr>og_queue := og_queue q @ [m], og_sent := og_sent q @ [m]\<rparr>"
  by (simp add: post_def Outgoing_send_def)

abbreviation report_of :: "HealthProbeSpec \<Rightarrow> sample \<Rightarrow> Message" where
  "report_of spec smp \<equiv> Probe (HealthProbeReport [sample_result spec smp])"

lemma remdups_adj_snd: "remdups_adj (x # xs) = x # remdups_adj (dropWhile (\<lambda>y. y = x) xs)"
  by (induction xs) auto

lemma probe_turn_same: "probe_turn spec smp (Some (fst smp), tx) = (Some (fst smp), tx)"
  by (simp add: probe_turn_def)

lemma probe_turn_flip: "lst \<noteq> Some (fst smp) \<Longrightarrow> probe_turn spec smp (lst, tx) = (Some (fst smp), post (report_of spec smp) tx)"
  by (simp add: probe_turn_def)

lemma probe_turns:
  assumes "\<not> og_closed tx" "length (og_queue tx) + length samples \<le> OUTGOING_QUEUE_CAPACITY"
  shows "\<exists>ss. subseq ss samples \<and>
           og_sent (snd (fold (probe_turn spec) samples (lst, tx))) = og_sent tx @ map (report_of spec) ss \<and>
           map fst ss = (case lst of None \<Rightarrow> remdups_adj (map fst samples) | Some x \<Rightarrow> drop 1 (remdups_adj (x # map fst samples)))"
  using assms
proof (induction samples arbitrary: lst tx)
  case Nil
  show ?case by (rule exI [of _ "[]"]) (simp split: option.split)
next
  case (Cons smp samples)
  show ?case
  proof (cases "lst = Some (fst smp)")
    case True
    with Cons.IH [OF Cons.prems(1), of lst] Cons.prems(2) obtain ss where
      "subseq ss samples" "og_sent (snd (fold (probe_turn spec) samples (lst, tx))) = og_sent tx @ map (report_of spec) ss"
      "map fst ss = drop 1 (remdups_adj (fst smp # map fst samples))" by auto
    with True show ?thesis by (intro exI [of _ ss]) (auto simp: probe_turn_same)
  next
    case False
    let ?tx = "tx\<lparr>og_queue := og_queue tx @ [report_of spec smp], og_sent := og_sent tx @ [report_of spec smp]\<rparr>"
    have p: "post (report_of spec smp) tx = ?tx" using Cons.prems by (simp add: post_room)
    from Cons.IH [of ?tx "Some (fst smp)"] Cons.prems obtain ss where
      ss: "subseq ss samples" "og_sent (snd (fold (probe_turn spec) samples (Some (fst smp), ?tx))) = og_sent ?tx @ map (report_of spec) ss"
        "map fst ss = drop 1 (remdups_adj (fst smp # map fst samples))" by auto
    have "fst smp # map fst ss = remdups_adj (fst smp # map fst samples)"
      unfolding ss(3) by (subst (2) remdups_adj_snd) (simp add: remdups_adj_snd)
    moreover have "remdups_adj (x # fst smp # map fst samples) = x # remdups_adj (fst smp # map fst samples)" if "lst = Some x" for x
      using that False by simp
    ultimately show ?thesis
      using False ss p by (intro exI [of _ "smp # ss"]) (auto simp: probe_turn_flip split: option.splits)
  qed
qed

text \<open>
  As long as the queue has room, a probe reports exactly the flips of its state: the reports are those of a
  subsequence of the samples whose states are the states of the samples with repetitions removed.
\<close>

theorem probe_reports_are_the_flips:
  assumes "\<not> og_closed tx" and "length (og_queue tx) + length samples \<le> OUTGOING_QUEUE_CAPACITY"
  shows "\<exists>ss. subseq ss samples \<and>
           og_sent (snd (run_probe spec samples tx)) = og_sent tx @ map (\<lambda>smp. Probe (HealthProbeReport [sample_result spec smp])) ss \<and>
           map fst ss = remdups_adj (map fst samples)"
  using probe_turns [OF assms, of spec None] by (simp add: run_probe_def)

theorem probe_reports_are_the_flips_witness:
  "\<exists>ss. og_sent (snd (run_probe demo_probe [(Green, 3, ''ok'', 1), (Green, 4, ''ok'', 31), (Red, 0, ''connect'', 61)] outgoing_new)) =
        map (\<lambda>smp. Probe (HealthProbeReport [sample_result demo_probe smp])) ss \<and> map fst ss = [Green, Red]"
  using probe_reports_are_the_flips [where tx = outgoing_new and spec = demo_probe and
      samples = "[(Green, 3, ''ok'', 1), (Green, 4, ''ok'', 31), (Red, 0, ''connect'', 61)]"]
  by (auto simp: outgoing_new_def OUTGOING_QUEUE_CAPACITY_def)

lemma steady_state:
  "list_all (\<lambda>smp. fst smp = x) samples \<Longrightarrow> fold (probe_turn spec) samples (Some x, tx) = (Some x, tx)"
  by (induction samples) (simp_all add: probe_turn_def)

text \<open>
  A flip that meets a full queue is lost. The report is refused, the state counts as reported, and as long as
  the target stays in it no sample sends a report again, however much room the writer makes in the meantime.
\<close>

theorem refused_flip_is_never_retried:
  assumes "length (og_queue tx) = OUTGOING_QUEUE_CAPACITY" and "lst \<noteq> Some (fst smp)"
    and "list_all (\<lambda>later. fst later = fst smp) samples"
  shows "og_sent (snd (fold (probe_turn spec) samples (apsnd (writer_takes n) (probe_turn spec smp (lst, tx))))) = og_sent tx \<and>
         fst (fold (probe_turn spec) samples (apsnd (writer_takes n) (probe_turn spec smp (lst, tx)))) = Some (fst smp)"
  using assms
  by (simp add: probe_turn_def [of spec smp] steady_state post_def Outgoing_send_def writer_takes_def)

theorem refused_flip_is_never_retried_witness:
  "og_sent (snd (fold (probe_turn demo_probe) [(Red, 0, ''connect'', 61), (Red, 0, ''connect'', 91)]
     (apsnd (writer_takes 256) (probe_turn demo_probe (Red, 0, ''connect'', 31)
        (Some Green, outgoing_new\<lparr>og_queue := replicate 256 (Session Ping)\<rparr>))))) = []"
  using refused_flip_is_never_retried [where tx = "outgoing_new\<lparr>og_queue := replicate 256 (Session Ping)\<rparr>" and spec = demo_probe and
      n = 256 and lst = "Some Green" and smp = "(Red, 0, ''connect'', 31)" and samples = "[(Red, 0, ''connect'', 61), (Red, 0, ''connect'', 91)]"]
  by (simp add: OUTGOING_QUEUE_CAPACITY_def outgoing_new_def)

section \<open>Exec probes\<close>

text \<open>
  An exec probe runs a file directly under the probe directory, and apart from the fixed search path every
  variable it sees has a plain name that is neither a loader control nor on the block list.
\<close>

theorem exec_probe_is_vetted:
  assumes "probe_command debug is_file spec = Inr (path, env)"
  shows "(\<exists>name. path = ''/etc/shellfleet/probes.d/'' @ name \<and> name \<noteq> [] \<and> CHR ''/'' \<notin> set name \<and> \<not> contains_str name ''..'') \<and>
         (\<exists>rest. env = (''PATH'', PROBE_PATH) # rest \<and> (\<forall>kv \<in> set rest. is_safe_probe_env_key (fst kv) \<and> fst kv \<noteq> ''PATH''))"
proof -
  have "is_safe_probe_env_key k \<Longrightarrow> k \<noteq> ''PATH''" for k
    by (auto simp: is_safe_probe_env_key_def BLOCKED_PROBE_KEYS_def)
  then have "\<forall>kv \<in> set (drop 1 (probe_env spec)). is_safe_probe_env_key (fst kv) \<and> fst kv \<noteq> ''PATH''"
    by (auto simp: probe_env_def List.map_filter_def split: option.splits if_splits)
  moreover have "probe_env spec = (''PATH'', PROBE_PATH) # drop 1 (probe_env spec)" by (simp add: probe_env_def)
  moreover have "env = probe_env spec" "path = ''/etc/shellfleet/probes.d/'' @ trim_ws (hps_target spec)"
    "trim_ws (hps_target spec) \<noteq> []" "CHR ''/'' \<notin> set (trim_ws (hps_target spec))" "\<not> contains_str (trim_ws (hps_target spec)) ''..''"
    using assms by (auto simp: probe_command_def Let_def PROBES_DIR_def contains_char_def split: if_splits)
  ultimately show ?thesis by blast
qed

lemma body_cap: "length acc \<le> HTTP_BODY_CAP \<Longrightarrow> read_body cs acc = Inr b \<Longrightarrow> length b \<le> HTTP_BODY_CAP"
  by (induction cs acc rule: read_body.induct) (auto simp: append_body_chunk_def split: if_splits)

end
