(* ===== verification/Agent_K8s.thy ===== *)
theory Agent_K8s
  imports K8s_Policy Agent_Commands "HOL-Library.Multiset"
begin

text \<open>
  \<open>agent/src/k8s.rs\<close> apart from the policy: the listings of pods, deployments, services, ingresses, volume claims and
  events, the description of one object, scaling and deletion. The objects are records of the fields the agent
  reads, with the options the API has; the client's answers are arguments, a point of time is a number of
  nanoseconds. Shown: the listing of events is the newest two hundred in order, and a description never
  exceeds the limit of a message.
\<close>

section \<open>Objects\<close>

record k8s_meta =
  km_namespace :: "string option"
  km_name :: "string option"
  km_generate_name :: "string option"
  km_created :: "int option"

definition name_any :: "k8s_meta \<Rightarrow> string" where
  "name_any m = (case km_name m of Some n \<Rightarrow> n | None \<Rightarrow> (case km_generate_name m of Some n \<Rightarrow> n | None \<Rightarrow> []))"

definition text_or :: "string \<Rightarrow> string option \<Rightarrow> string" where
  "text_or d v = (case v of Some s \<Rightarrow> s | None \<Rightarrow> d)"

text \<open>\<open>TimeDelta::num_seconds\<close>: whole seconds, towards zero.\<close>

definition num_seconds :: "int \<Rightarrow> i64" where
  "num_seconds d = (if d < 0 then - ((- d) div 1000000000) else d div 1000000000)"

definition age_secs :: "int \<Rightarrow> int option \<Rightarrow> i64" where
  "age_secs now t = (case t of Some c \<Rightarrow> num_seconds (now - c) | None \<Rightarrow> 0)"

definition i32_or_0 :: "i32 option \<Rightarrow> i32" where
  "i32_or_0 v = (case v of Some n \<Rightarrow> n | None \<Rightarrow> 0)"

record pod_obj =
  po_meta :: k8s_meta
  po_phase :: "string option"
  po_statuses :: "(bool \<times> i32) list option"
  po_spec :: "(string list \<times> string option) option"

text \<open>\<open>restart_count.max(0) as u32\<close>, summed; the sum wraps in a release build.\<close>

definition restarts :: "(bool \<times> i32) list \<Rightarrow> u32" where
  "restarts cs = sum_list (map (\<lambda>c. word_of_int (max (snd c) 0)) cs)"

definition pod_row :: "int \<Rightarrow> pod_obj \<Rightarrow> K8sPod" where
  "pod_row now p =
     (let cs = (case po_statuses p of Some cs \<Rightarrow> cs | None \<Rightarrow> []);
          names = (case po_spec p of Some (ns, _) \<Rightarrow> ns | None \<Rightarrow> [])
      in \<lparr>kp_namespace = text_or [] (km_namespace (po_meta p)), kp_name = name_any (po_meta p), kp_phase = text_or ''Unknown'' (po_phase p),
          kp_ready = nat_to_dec (length (filter fst cs)) @ ''/'' @ nat_to_dec (length names), kp_restarts = restarts cs,
          kp_age_secs = age_secs now (km_created (po_meta p)), kp_node = Option.bind (po_spec p) snd, kp_containers = names\<rparr>)"

text \<open>Containers of the pod template are given by their images.\<close>

record deployment_obj =
  de_meta :: k8s_meta
  de_replicas :: "i32 option"
  de_images :: "string option list option"
  de_ready :: "i32 option"
  de_updated :: "i32 option"
  de_available :: "i32 option"

definition deployment_row :: "int \<Rightarrow> deployment_obj \<Rightarrow> K8sDeployment" where
  "deployment_row now d =
     \<lparr>kd_namespace = text_or [] (km_namespace (de_meta d)), kd_name = name_any (de_meta d),
      kd_ready = int_to_dec (i32_or_0 (de_ready d)) @ ''/'' @ int_to_dec (i32_or_0 (de_replicas d)),
      kd_up_to_date = i32_or_0 (de_updated d), kd_available = i32_or_0 (de_available d), kd_age_secs = age_secs now (km_created (de_meta d)),
      kd_image = (case de_images d of Some (i # _) \<Rightarrow> i | _ \<Rightarrow> None)\<rparr>"

record service_obj =
  sv_meta :: k8s_meta
  sv_type :: "string option"
  sv_cluster_ip :: "string option"
  sv_external_ips :: "string list option"
  sv_ports :: "(i32 \<times> i32 option \<times> string option) list option"

definition service_port :: "i32 \<times> i32 option \<times> string option \<Rightarrow> string" where
  "service_port p =
     (case p of (port, node_port, proto) \<Rightarrow>
        int_to_dec port @ (case node_port of Some np \<Rightarrow> '':'' @ int_to_dec np | None \<Rightarrow> []) @ ''/'' @ text_or ''TCP'' proto)"

definition k8s_service_row :: "int \<Rightarrow> service_obj \<Rightarrow> K8sService" where
  "k8s_service_row now s =
     \<lparr>ks_namespace = text_or [] (km_namespace (sv_meta s)), ks_name = name_any (sv_meta s), ks_kind = text_or ''ClusterIP'' (sv_type s),
      ks_cluster_ip = sv_cluster_ip s, ks_external_ips = (case sv_external_ips s of Some l \<Rightarrow> l | None \<Rightarrow> []),
      ks_ports = (case sv_ports s of Some ps \<Rightarrow> map service_port ps | None \<Rightarrow> []), ks_age_secs = age_secs now (km_created (sv_meta s))\<rparr>"

text \<open>The rules by their hosts, the addresses of the load balancer by address and host name.\<close>

record ingress_obj =
  in_meta :: k8s_meta
  in_class :: "string option"
  in_rules :: "string option list option"
  in_addresses :: "(string option \<times> string option) list option"

definition or_else :: "'a option \<Rightarrow> 'a option \<Rightarrow> 'a option" where
  "or_else a b = (case a of Some x \<Rightarrow> Some x | None \<Rightarrow> b)"

definition ingress_row :: "int \<Rightarrow> ingress_obj \<Rightarrow> K8sIngress" where
  "ingress_row now i =
     \<lparr>ki_namespace = text_or [] (km_namespace (in_meta i)), ki_name = name_any (in_meta i), ki_class = in_class i,
      ki_hosts = (case in_rules i of Some rs \<Rightarrow> List.map_filter id rs | None \<Rightarrow> []),
      ki_addresses = (case in_addresses i of Some es \<Rightarrow> List.map_filter (\<lambda>e. or_else (fst e) (snd e)) es | None \<Rightarrow> []),
      ki_age_secs = age_secs now (km_created (in_meta i))\<rparr>"

record pvc_obj =
  pv_meta :: k8s_meta
  pv_phase :: "string option"
  pv_volume :: "string option"
  pv_capacity :: "string \<rightharpoonup> string"
  pv_modes :: "string list option"
  pv_class :: "string option"

definition access_mode :: "string \<Rightarrow> string" where
  "access_mode m =
     (if m = ''ReadWriteOnce'' then ''RWO'' else if m = ''ReadOnlyMany'' then ''ROX''
      else if m = ''ReadWriteMany'' then ''RWX'' else if m = ''ReadWriteOncePod'' then ''RWOP'' else m)"

definition pvc_row :: "int \<Rightarrow> pvc_obj \<Rightarrow> K8sPvc" where
  "pvc_row now p =
     \<lparr>kpvc_namespace = text_or [] (km_namespace (pv_meta p)), kpvc_name = name_any (pv_meta p), kpvc_status = text_or ''Unknown'' (pv_phase p),
      kpvc_volume_name = pv_volume p, kpvc_capacity = pv_capacity p ''storage'',
      kpvc_access_modes = (case pv_modes p of Some ms \<Rightarrow> map access_mode ms | None \<Rightarrow> []), kpvc_storage_class = pv_class p,
      kpvc_age_secs = age_secs now (km_created (pv_meta p))\<rparr>"

record event_obj =
  ev_meta :: k8s_meta
  ev_type :: "string option"
  ev_reason :: "string option"
  ev_obj_kind :: "string option"
  ev_obj_name :: "string option"
  ev_message :: "string option"
  ev_count :: "i32 option"
  ev_last :: "int option"
  ev_time :: "int option"

definition event_row :: "int \<Rightarrow> event_obj \<Rightarrow> K8sEvent" where
  "event_row now e =
     \<lparr>ke_namespace = text_or [] (km_namespace (ev_meta e)), ke_kind = text_or ''Normal'' (ev_type e), ke_reason = text_or [] (ev_reason e),
      ke_object = text_or ''?'' (ev_obj_kind e) @ ''/'' @ text_or ''?'' (ev_obj_name e), ke_message = text_or [] (ev_message e),
      ke_count = (case ev_count e of Some n \<Rightarrow> n | None \<Rightarrow> 1),
      ke_age_secs = age_secs now (or_else (ev_last e) (or_else (ev_time e) (km_created (ev_meta e))))\<rparr>"

section \<open>The calls\<close>

text \<open>The client and what it answers.\<close>

record cluster =
  cl_client :: "(string, unit) result"
  cl_now :: int
  cl_pods :: "(string, pod_obj list) result"
  cl_deployments :: "(string, deployment_obj list) result"
  cl_services :: "(string, service_obj list) result"
  cl_ingresses :: "(string, ingress_obj list) result"
  cl_pvcs :: "(string, pvc_obj list) result"
  cl_events :: "(string, event_obj list) result"
  cl_get :: "string \<Rightarrow> string \<Rightarrow> string \<Rightarrow> (string, (string, string) result) result"
  cl_scale :: "scale_target \<Rightarrow> string \<Rightarrow> string \<Rightarrow> i32 \<Rightarrow> (string, unit) result"
  cl_delete :: "string \<Rightarrow> string \<Rightarrow> u32 option \<Rightarrow> (string, unit) result"

definition map_err :: "string \<Rightarrow> (string, 'a) result \<Rightarrow> (string, 'a) result" where
  "map_err what r = (case r of Inl e \<Rightarrow> Inl (what @ e) | Inr x \<Rightarrow> Inr x)"

definition k8s_available :: "cluster \<Rightarrow> bool" where
  "k8s_available K = (case cl_client K of Inr _ \<Rightarrow> True | Inl _ \<Rightarrow> False)"

definition listing :: "cluster \<Rightarrow> string \<Rightarrow> (cluster \<Rightarrow> (string, 'o list) result) \<Rightarrow> (int \<Rightarrow> 'o \<Rightarrow> 'r) \<Rightarrow> (string, 'r list) result" where
  "listing K what get row =
     try_bind (map_err ''kube client: '' (cl_client K)) (\<lambda>_.
     try_bind (map_err (''list '' @ what @ '': '') (get K)) (\<lambda>items.
       Inr (map (row (cl_now K)) items)))"

definition list_pods :: "cluster \<Rightarrow> (string, K8sPod list) result" where
  "list_pods K = listing K ''pods'' cl_pods pod_row"

definition list_deployments :: "cluster \<Rightarrow> (string, K8sDeployment list) result" where
  "list_deployments K = listing K ''deployments'' cl_deployments deployment_row"

definition list_k8s_services :: "cluster \<Rightarrow> (string, K8sService list) result" where
  "list_k8s_services K = listing K ''services'' cl_services k8s_service_row"

definition list_ingresses :: "cluster \<Rightarrow> (string, K8sIngress list) result" where
  "list_ingresses K = listing K ''ingresses'' cl_ingresses ingress_row"

definition list_pvcs :: "cluster \<Rightarrow> (string, K8sPvc list) result" where
  "list_pvcs K = listing K ''pvcs'' cl_pvcs pvc_row"

definition list_events :: "cluster \<Rightarrow> (string, K8sEvent list) result" where
  "list_events K =
     try_bind (listing K ''events'' cl_events event_row) (\<lambda>out. Inr (take 200 (sort_key ke_age_secs out)))"

definition DESCRIBED_KINDS :: "string list" where
  "DESCRIBED_KINDS = [''pod'', ''deployment'', ''service'', ''ingress'', ''pvc'', ''event'']"

text \<open>\<open>cl_get\<close>: the object with its managed fields removed, as YAML or the error of the conversion.\<close>

definition describe_one :: "cluster \<Rightarrow> string \<Rightarrow> string option \<Rightarrow> string \<Rightarrow> (string, string) result" where
  "describe_one K kind namespace name =
     (case namespace of
        None \<Rightarrow> Inl ''namespaced kind needs a namespace''
      | Some ns \<Rightarrow> try_bind (map_err ''get: '' (cl_get K kind ns name)) (\<lambda>y. map_err ''yaml: '' y))"

definition k8s_describe :: "cluster \<Rightarrow> string \<Rightarrow> string option \<Rightarrow> string \<Rightarrow> (string, string) result" where
  "k8s_describe K kind namespace name =
     try_bind (map_err ''kube client: '' (cl_client K)) (\<lambda>_.
     try_bind (if kind \<in> set DESCRIBED_KINDS then describe_one K kind namespace name else Inl (''unsupported kind: '' @ kind)) (\<lambda>yaml.
       if length yaml > MAX_OUTPUT_BYTES then Inl (''describe response exceeds '' @ nat_to_dec MAX_OUTPUT_BYTES @ ''-byte limit'')
       else Inr yaml))"

definition scale_name :: "scale_target \<Rightarrow> string" where
  "scale_name t = (case t of Scale_Deployment \<Rightarrow> ''deployment'' | Scale_StatefulSet \<Rightarrow> ''statefulset'' | Scale_ReplicaSet \<Rightarrow> ''replicaset'')"

definition k8s_scale :: "cluster \<Rightarrow> string \<Rightarrow> string \<Rightarrow> string \<Rightarrow> i32 \<Rightarrow> (string, unit) result" where
  "k8s_scale K kind namespace name replicas =
     try_bind (map_err ''kube client: '' (cl_client K)) (\<lambda>_.
       case scale_kind kind of
         Some t \<Rightarrow> map_err (''scale '' @ scale_name t @ '': '') (cl_scale K t namespace name replicas)
       | None \<Rightarrow> Inl (''unsupported scale kind: '' @ to_ascii_lowercase kind))"

definition k8s_delete_pod :: "cluster \<Rightarrow> string \<Rightarrow> string \<Rightarrow> i64 option \<Rightarrow> (string, unit) result" where
  "k8s_delete_pod K namespace name grace =
     try_bind (map_err ''kube client: '' (cl_client K)) (\<lambda>_.
       map_err ''delete pod: '' (cl_delete K namespace name (map_option grace_period grace)))"

section \<open>What is shown\<close>

lemma listing_Inr:
  "listing K what get row = Inr rows \<Longrightarrow> \<exists>items. get K = Inr items \<and> rows = map (row (cl_now K)) items"
  by (auto simp: listing_def try_bind_def map_err_def split: sum.splits)

text \<open>
  The listing of events: at most two hundred, by increasing age, and no event that was left out is younger than
  one that is listed; together they are the events of the cluster.
\<close>

theorem events_are_the_newest:
  assumes "list_events K = Inr out" and "cl_events K = Inr items"
  shows "length out \<le> 200 \<and> sorted (map ke_age_secs out) \<and>
         (\<exists>rest. mset (out @ rest) = mset (map (event_row (cl_now K)) items) \<and>
            (rest \<noteq> [] \<longrightarrow> length out = 200) \<and>
            (\<forall>x \<in> set out. \<forall>y \<in> set rest. ke_age_secs x \<le> ke_age_secs y))"
proof -
  let ?rows = "sort_key ke_age_secs (map (event_row (cl_now K)) items)"
  from assms have out: "out = take 200 ?rows"
    by (auto simp: list_events_def try_bind_def split: sum.splits dest: listing_Inr)
  have s: "sorted (map ke_age_secs (out @ drop 200 ?rows))" unfolding out by (simp del: map_append)
  have "mset (out @ drop 200 ?rows) = mset ?rows" unfolding out by (simp only: append_take_drop_id)
  moreover have "\<forall>x \<in> set out. \<forall>y \<in> set (drop 200 ?rows). ke_age_secs x \<le> ke_age_secs y"
    using s by (auto simp: sorted_append)
  moreover have "drop 200 ?rows \<noteq> [] \<longrightarrow> length out = 200" unfolding out by auto
  moreover have "sorted (map ke_age_secs out)" using s by (simp add: sorted_append)
  moreover have "length out \<le> 200" unfolding out by simp
  ultimately show ?thesis by (intro conjI exI [of _ "drop 200 ?rows"]) auto
qed

lemma description_fits: "k8s_describe K kind namespace name = Inr y \<Longrightarrow> length y \<le> MAX_OUTPUT_BYTES"
  by (auto simp: k8s_describe_def try_bind_def split: sum.splits if_splits)

end
