(* ===== verification/Agent_Dispatch.thy ===== *)
theory Agent_Dispatch
  imports Agent_Apt Agent_Health Agent_K8s Agent_Exec Config_Guard
begin

text \<open>
  The requests of \<open>agent/src/main.rs\<close> that are answered with one message: one definition per family of messages, each
  arm as in the \<open>match\<close>, over the operations of the other theories. The programs the agent starts, the files, the
  cluster and the object store are fields of a record of arguments; \<open>None\<close> stands for a task that panicked before
  its answer. Drift snapshots are parsed here.

  Shown: the answer to a request is the response of that request and names what the request named; no change of a
  swarm is made unless the host is a manager; and what a drift snapshot calls the enablement of a service is the
  substate that \<open>systemctl list-units\<close> prints in its fourth column.
\<close>

record host =
  ho_env :: "string \<rightharpoonup> string"
  ho_json :: json_parser
  ho_allowlist :: "string \<Rightarrow> string list option"
  ho_docker :: runner
  ho_systemctl :: runner
  ho_apt :: runner
  ho_apt_get :: runner
  ho_dpkg :: runner
  ho_deploy :: "string list \<Rightarrow> (string, (string \<Rightarrow> string option) \<times> (string, proc_output) result) result"
  ho_exec :: "string list \<Rightarrow> u64 \<Rightarrow> exec_outcome"
  ho_proc :: procfs
  ho_mtime :: "string \<Rightarrow> u64 option"
  ho_backup :: bworld
  ho_s3_calls :: "s3call list"
  ho_s3_list :: s3lister
  ho_is_dir :: "string \<Rightarrow> bool"
  ho_read_dir :: "string \<Rightarrow> (string, (string \<times> (u64 \<times> i64 option) option) list) result"
  ho_canon :: "string \<Rightarrow> string option"
  ho_resolve_error :: string
  ho_open :: "string \<Rightarrow> (string, string) result"
  ho_utf8_error :: "string \<Rightarrow> string"
  ho_write :: "string \<Rightarrow> string \<Rightarrow> (string, unit) result"
  ho_meta :: "string \<Rightarrow> (u64 \<times> i64 option) option"
  ho_bytes :: "string \<Rightarrow> string option"
  ho_sha256 :: "string \<Rightarrow> string"
  ho_kube :: bool
  ho_cluster :: cluster
  ho_apply :: "string \<Rightarrow> bool \<Rightarrow> bool \<Rightarrow> (string, string) result"

section \<open>Results as fields of a response\<close>

definition rows_or_error :: "(string, 'a list) result \<Rightarrow> 'a list \<times> string option" where
  "rows_or_error r = (case r of Inr v \<Rightarrow> (v, None) | Inl e \<Rightarrow> ([], Some e))"

definition done_or_error :: "(string, unit) result \<Rightarrow> bool \<times> string option" where
  "done_or_error r = (case r of Inr _ \<Rightarrow> (True, None) | Inl e \<Rightarrow> (False, Some e))"

definition NO_KUBE :: string where "NO_KUBE = ''agent built without k8s support''"
definition NOT_MANAGER :: string where "NOT_MANAGER = ''not a swarm manager''"

text \<open>The two builds of an arm on the cluster.\<close>

definition with_kube :: "host \<Rightarrow> (string, 'a) result \<Rightarrow> (string, 'a) result" where
  "with_kube H r = (if ho_kube H then r else Inl NO_KUBE)"

definition is_manager :: "host \<Rightarrow> bool" where
  "is_manager H \<longleftrightarrow> swarm_role (ho_json H) (ho_docker H) = Manager"

section \<open>Units, statistics, commands\<close>

definition control_service_answer :: "host \<Rightarrow> string \<Rightarrow> string \<Rightarrow> Message" where
  "control_service_answer H name action =
     (let success = (case control_service (ho_systemctl H) name action of Inr _ \<Rightarrow> True | Inl _ \<Rightarrow> False)
      in (Systemd (ControlServiceResponse name success (if success then None else Some ''Failed''))))"

fun answer_systemd :: "host \<Rightarrow> SystemdMsg \<Rightarrow> Message option" where
  "answer_systemd H ListServicesRequest =
     Some (Systemd (ListServicesResponse (fst (rows_or_error (list_services (ho_json H) (ho_systemctl H))))))"
| "answer_systemd H (ControlServiceRequest name action) = Some (control_service_answer H name action)"
| "answer_systemd H _ = None"

fun answer_exec :: "host \<Rightarrow> ExecMsg \<Rightarrow> Message option" where
  "answer_exec H (RunCommandRequest rid command timeout_secs) =
     (let r = exec_run (ho_allowlist H) (ho_env H) (ho_exec H) command timeout_secs
      in Some (Exec (RunCommandResponse rid (er_exit_code r) (er_stdout r) (er_stderr r) (er_error r) (er_truncated r)
           (er_timed_out r) (of_nat (er_duration_ms r)))))"
| "answer_exec H _ = None"

fun answer_apt :: "host \<Rightarrow> AptMsg \<Rightarrow> Message option" where
  "answer_apt H AptStatusRequest =
     (case rows_or_error (list_upgradable (ho_apt H)) of (upgradable, error) \<Rightarrow>
        Some (Apt (AptStatusResponse (error = None) upgradable (last_apt_update_secs (ho_mtime H)) error)))"
| "answer_apt H AptRefreshRequest =
     map_option (\<lambda>(success, lg, error). Apt (AptRefreshResponse success lg error)) (apt_refresh (ho_apt_get H))"
| "answer_apt H _ = None"

section \<open>Containers, images, networks, volumes\<close>

fun answer_image :: "host \<Rightarrow> ImageMsg \<Rightarrow> Message option" where
  "answer_image H DockerImageListRequest =
     (case rows_or_error (list_images (ho_json H) (ho_docker H)) of (images, error) \<Rightarrow>
        Some (Image (DockerImageListResponse (error = None) images error)))"
| "answer_image H (DockerImageRemoveRequest iid force) =
     map_option (\<lambda>(success, lg, error). Image (DockerImageRemoveResponse iid success lg error)) (remove_image (ho_docker H) iid force)"
| "answer_image H (DockerImagePullRequest reference) =
     map_option (\<lambda>(success, lg, error). Image (DockerImagePullResponse reference success lg error)) (pull_image (ho_docker H) reference)"
| "answer_image H _ = None"

fun answer_network :: "host \<Rightarrow> NetworkMsg \<Rightarrow> Message option" where
  "answer_network H DockerNetworkListRequest =
     (case rows_or_error (list_networks (ho_json H) (ho_docker H)) of (networks, error) \<Rightarrow>
        Some (Network (DockerNetworkListResponse (error = None) networks error)))"
| "answer_network H (DockerNetworkInspectRequest nid) =
     (case inspect_network (ho_docker H) nid of (success, js, error) \<Rightarrow>
        Some (Network (DockerNetworkInspectResponse nid success js error)))"
| "answer_network H (DockerNetworkCreateRequest name driver subnet attachable internal) =
     map_option (\<lambda>(success, nid, lg, error). Network (DockerNetworkCreateResponse name success nid lg error))
       (create_network (ho_docker H) name driver subnet attachable internal)"
| "answer_network H (DockerNetworkRemoveRequest nid) =
     map_option (\<lambda>(success, lg, error). Network (DockerNetworkRemoveResponse nid success lg error)) (remove_network (ho_docker H) nid)"
| "answer_network H _ = None"

fun answer_volume :: "host \<Rightarrow> VolumeMsg \<Rightarrow> Message option" where
  "answer_volume H DockerVolumeListRequest =
     (case rows_or_error (list_volumes (ho_json H) (ho_docker H)) of (volumes, error) \<Rightarrow>
        Some (Volume (DockerVolumeListResponse (error = None) volumes error)))"
| "answer_volume H (DockerVolumeInspectRequest name) =
     (case inspect_volume (ho_docker H) name of (success, js, error) \<Rightarrow>
        Some (Volume (DockerVolumeInspectResponse name success js error)))"
| "answer_volume H (DockerVolumeRemoveRequest name force) =
     map_option (\<lambda>(success, lg, error). Volume (DockerVolumeRemoveResponse name success lg error)) (remove_volume (ho_docker H) name force)"
| "answer_volume H DockerVolumePruneRequest =
     map_option (\<lambda>(success, removed, bytes, lg, error). Volume (DockerVolumePruneResponse success removed bytes lg error))
       (prune_volumes (ho_docker H))"
| "answer_volume H _ = None"

definition container_action_answer :: "host \<Rightarrow> string \<Rightarrow> DockerContainerAction \<Rightarrow> Message" where
  "container_action_answer H cid action =
     (case run_container_action (ho_docker H) cid action of (success, lg, error) \<Rightarrow>
        (Deploy (DockerContainerActionResponse cid success lg error)))"

fun answer_deploy :: "host \<Rightarrow> DeployMsg \<Rightarrow> Message option" where
  "answer_deploy H (DockerContainerActionRequest cid action) = Some (container_action_answer H cid action)"
| "answer_deploy H (DockerCreateContainerRequest spec) =
     (case create_container (ho_docker H) spec of (success, cid, lg, error) \<Rightarrow>
        Some (Deploy (DockerCreateContainerResponse success cid lg error)))"
| "answer_deploy H (SwarmCreateServiceRequest spec) =
     (if \<not> is_manager H then Some (Deploy (SwarmCreateServiceResponse False None [] (Some NOT_MANAGER)))
      else (case create_service (ho_docker H) spec of (success, sid, lg, error) \<Rightarrow>
              Some (Deploy (SwarmCreateServiceResponse success sid lg error))))"
| "answer_deploy H _ = None"

section \<open>Swarm\<close>

fun answer_stack :: "host \<Rightarrow> StackMsg \<Rightarrow> Message option" where
  "answer_stack H SwarmStackListRequest =
     (if \<not> is_manager H then Some (Stack (SwarmStackListResponse False False [] None))
      else (case rows_or_error (list_stacks (ho_json H) (ho_docker H)) of (stacks, error) \<Rightarrow>
              Some (Stack (SwarmStackListResponse (error = None) True stacks error))))"
| "answer_stack H (SwarmStackInspectRequest name) =
     (if \<not> is_manager H then Some (Stack (SwarmStackInspectResponse name False [] [] [] (Some NOT_MANAGER)))
      else (case rows_or_error (stack_tasks (ho_json H) (ho_docker H) name) of (tasks, error) \<Rightarrow>
              Some (Stack (SwarmStackInspectResponse name (error = None)
                (fst (rows_or_error (stack_services (ho_json H) (ho_docker H) name))) tasks [] error))))"
| "answer_stack H (SwarmStackRemoveRequest name) =
     (if \<not> is_manager H then Some (Stack (SwarmStackRemoveResponse name False [] (Some NOT_MANAGER)))
      else map_option (\<lambda>(success, lg, error). Stack (SwarmStackRemoveResponse name success lg error)) (remove_stack (ho_docker H) name))"
| "answer_stack H _ = None"

fun answer_swarm :: "host \<Rightarrow> SwarmMsg \<Rightarrow> Message option" where
  "answer_swarm H (SwarmServiceInspectRequest name) =
     (if \<not> is_manager H then Some (Swarm (SwarmServiceInspectResponse name False [] None [] (Some NOT_MANAGER)))
      else (let tasks = fst (rows_or_error (service_ps (ho_json H) (ho_docker H) name))
            in case service_inspect (ho_json H) (ho_docker H) name of
                 Inr spec \<Rightarrow> Some (Swarm (SwarmServiceInspectResponse name True tasks (Some spec) [] None))
               | Inl e \<Rightarrow> Some (Swarm (SwarmServiceInspectResponse name False tasks None [] (Some e)))))"
| "answer_swarm H (SwarmStackDeployRequest stack_name compose_yaml prune) =
     (if \<not> is_manager H then Some (Swarm (SwarmStackDeployResponse stack_name False [] (Some NOT_MANAGER)))
      else (case stack_deploy (ho_deploy H) stack_name compose_yaml prune of (success, lg, error) \<Rightarrow>
              Some (Swarm (SwarmStackDeployResponse stack_name success lg error))))"
| "answer_swarm H _ = None"

definition swarm_list_answer :: "host \<Rightarrow> Message" where
  "swarm_list_answer H =
     (if \<not> is_manager H then (Host (SwarmListResponse False False [] [] None))
      else (case rows_or_error (list_swarm_services (ho_json H) (ho_docker H)) of (services, svc_err) \<Rightarrow>
            case rows_or_error (list_swarm_nodes (ho_json H) (ho_docker H)) of (nodes, node_err) \<Rightarrow>
              (Host (SwarmListResponse True True services nodes (or_else svc_err node_err)))))"

definition swarm_action_answer :: "host \<Rightarrow> string \<Rightarrow> SwarmAction \<Rightarrow> Message" where
  "swarm_action_answer H name action =
     (if \<not> is_manager H then (Host (SwarmServiceActionResponse name False [] (Some NOT_MANAGER)))
      else (case run_swarm_action (ho_docker H) name action of (success, lg, error) \<Rightarrow>
              (Host (SwarmServiceActionResponse name success lg error))))"

fun answer_host :: "host \<Rightarrow> HostMsg \<Rightarrow> Message option" where
  "answer_host H SystemStatsRequest = Some (stats_snapshot (ho_proc H))"
| "answer_host H DockerListRequest =
     (case rows_or_error (list_containers (ho_json H) (ho_docker H)) of (containers, error) \<Rightarrow>
        Some (Host (DockerListResponse (error = None) (swarm_role (ho_json H) (ho_docker H)) containers error)))"
| "answer_host H SwarmListRequest = Some (swarm_list_answer H)"
| "answer_host H (SwarmServiceActionRequest name action) = Some (swarm_action_answer H name action)"
| "answer_host H _ = None"

section \<open>The cluster\<close>

definition describe_answer :: "host \<Rightarrow> string \<Rightarrow> string option \<Rightarrow> string \<Rightarrow> Message" where
  "describe_answer H kind namespace name =
     (case with_kube H (k8s_describe (ho_cluster H) kind namespace name) of
        Inr yaml \<Rightarrow> (K8sRead (K8sDescribeResponse kind namespace name yaml None))
      | Inl e \<Rightarrow> (K8sRead (K8sDescribeResponse kind namespace name [] (Some e))))"

fun answer_k8s_read :: "host \<Rightarrow> K8sReadMsg \<Rightarrow> Message option" where
  "answer_k8s_read H K8sListPodsRequest =
     (case rows_or_error (with_kube H (list_pods (ho_cluster H))) of (pods, error) \<Rightarrow> Some (K8sRead (K8sListPodsResponse pods error)))"
| "answer_k8s_read H K8sListDeploymentsRequest =
     (case rows_or_error (with_kube H (list_deployments (ho_cluster H))) of (deployments, error) \<Rightarrow>
        Some (K8sRead (K8sListDeploymentsResponse deployments error)))"
| "answer_k8s_read H K8sListServicesRequest =
     (case rows_or_error (with_kube H (list_k8s_services (ho_cluster H))) of (services, error) \<Rightarrow>
        Some (K8sRead (K8sListServicesResponse services error)))"
| "answer_k8s_read H K8sListIngressesRequest =
     (case rows_or_error (with_kube H (list_ingresses (ho_cluster H))) of (ingresses, error) \<Rightarrow>
        Some (K8sRead (K8sListIngressesResponse ingresses error)))"
| "answer_k8s_read H K8sListPvcsRequest =
     (case rows_or_error (with_kube H (list_pvcs (ho_cluster H))) of (pvcs, error) \<Rightarrow> Some (K8sRead (K8sListPvcsResponse pvcs error)))"
| "answer_k8s_read H K8sListEventsRequest =
     (case rows_or_error (with_kube H (list_events (ho_cluster H))) of (events, error) \<Rightarrow>
        Some (K8sRead (K8sListEventsResponse events error)))"
| "answer_k8s_read H (K8sDescribeRequest kind namespace name) = Some (describe_answer H kind namespace name)"
| "answer_k8s_read H _ = None"

fun answer_k8s_write :: "host \<Rightarrow> K8sWriteMsg \<Rightarrow> Message option" where
  "answer_k8s_write H (K8sApplyRequest yaml dry_run force) =
     (case with_kube H (ho_apply H yaml dry_run force) of
        Inr r \<Rightarrow> Some (K8sWrite (K8sApplyResponse r None))
      | Inl e \<Rightarrow> Some (K8sWrite (K8sApplyResponse [] (Some e))))"
| "answer_k8s_write H (K8sScaleRequest kind namespace name replicas) =
     (case done_or_error (with_kube H (k8s_scale (ho_cluster H) kind namespace name replicas)) of (success, error) \<Rightarrow>
        Some (K8sWrite (K8sScaleResponse kind namespace name success error)))"
| "answer_k8s_write H (K8sDeletePodRequest namespace name grace) =
     (case done_or_error (with_kube H (k8s_delete_pod (ho_cluster H) namespace name grace)) of (success, error) \<Rightarrow>
        Some (K8sWrite (K8sDeletePodResponse namespace name success error)))"
| "answer_k8s_write H _ = None"

text \<open>\<open>ho_apply\<close> on a cluster of the policy's model; \<open>say\<close> gives an error its text, which quotes the client's own.\<close>

definition apply_of :: "('o, 'g) kube \<Rightarrow> (string \<rightharpoonup> string) \<Rightarrow> (apply_error \<Rightarrow> string) \<Rightarrow> string \<Rightarrow> bool \<Rightarrow> bool \<Rightarrow> (string, string) result" where
  "apply_of K env say yaml dry_run force = map_sum say id (snd (k8s_apply K env yaml dry_run force))"

section \<open>Backups\<close>

fun answer_backup :: "host \<Rightarrow> BackupMsg \<Rightarrow> Message option" where
  "answer_backup H (BackupRunRequest bid name paths dest mode) =
     map_option (\<lambda>((success, archive_path, bytes, lg, error), _).
         Backup (BackupRunResponse bid name success archive_path (of_nat bytes) lg error))
       (run_backup (ho_backup H) name paths dest mode (ho_s3_calls H))"
| "answer_backup H (BackupListArchivesRequest bid name dest) =
     map_option (\<lambda>(success, archives, error). Backup (BackupListArchivesResponse bid success archives error))
       (list_archives (ho_s3_list H) (ho_is_dir H) (ho_read_dir H) dest)"
| "answer_backup H (BackupRestoreRequest bid archive_uri dest_root) =
     map_option (\<lambda>(success, lg, error). Backup (BackupRestoreResponse bid archive_uri dest_root success lg error))
       (restore (ho_backup H) archive_uri dest_root)"
| "answer_backup H _ = None"

section \<open>Configuration files\<close>

definition path_error_text :: "string \<Rightarrow> PathError \<Rightarrow> string" where
  "path_error_text os_error e =
     (case e of
        NotAbsolute \<Rightarrow> ''path must be absolute''
      | BlockedByDenyList p \<Rightarrow> ''path matches deny-list: '' @ p
      | OutsideAllowList \<Rightarrow> ''path is outside the allowed config-file locations (/etc, /opt, /usr/local/etc, /srv, /home, /var/log)''
      | InvalidUtf8 \<Rightarrow> ''path is not valid UTF-8''
      | Empty \<Rightarrow> ''path is empty''
      | ResolveFailed \<Rightarrow> ''path resolve failed: '' @ os_error)"

text \<open>
  \<open>ho_open\<close>: the bytes of a regular file that is not a link, or the error. One byte more than the limit is read, which is
  enough to see that the limit is exceeded.
\<close>

definition read_no_follow :: "host \<Rightarrow> string \<Rightarrow> nat \<Rightarrow> (string, string) result" where
  "read_no_follow H path max_bytes =
     try_bind (ho_open H path) (\<lambda>content.
       let bytes = take (max_bytes + 1) content
       in if length bytes > max_bytes then Inl (''config exceeds '' @ nat_to_dec max_bytes @ ''-byte response limit'')
          else if valid_utf8 bytes then Inr bytes else Inl (ho_utf8_error H bytes))"

fun answer_config :: "host \<Rightarrow> ConfigMsg \<Rightarrow> Message option" where
  "answer_config H (ReadConfigRequest path) =
     (case check_read (ho_canon H) path of
        Inl e \<Rightarrow> Some (Config (ReadConfigResponse path [] (Some (path_error_text (ho_resolve_error H) e))))
      | Inr safe_path \<Rightarrow>
          (case read_no_follow H safe_path MAX_OUTPUT_BYTES of
             Inr c \<Rightarrow> Some (Config (ReadConfigResponse path c None))
           | Inl e \<Rightarrow> Some (Config (ReadConfigResponse path [] (Some e)))))"
| "answer_config H (WriteConfigRequest path content) =
     (case check_write (ho_canon H) path of
        Inl e \<Rightarrow> Some (Config (WriteConfigResponse path False (Some (path_error_text (ho_resolve_error H) e))))
      | Inr target \<Rightarrow>
          (case ho_write H (write_target target) content of
             Inr _ \<Rightarrow> Some (Config (WriteConfigResponse path True None))
           | Inl e \<Rightarrow> Some (Config (WriteConfigResponse path False (Some e)))))"
| "answer_config H _ = None"

section \<open>Drift snapshots\<close>

definition HTAB :: char where "HTAB = CHR 0x09"

definition DPKG_FORMAT :: string where "DPKG_FORMAT = ''${Package}'' @ [HTAB] @ ''${Version}'' @ [HTAB] @ ''${Status}'' @ [CHR 0x0A]"
definition PS_FORMAT :: string where "PS_FORMAT = ''{{.Names}}'' @ [HTAB] @ ''{{.Image}}'' @ [HTAB] @ ''{{.State}}''"

definition drift_package :: "string \<Rightarrow> DriftPackage option" where
  "drift_package line =
     (case splitn_on HTAB 3 line of
        [name, version] \<Rightarrow> Some \<lparr>dp_name = name, dp_version = version, dp_status = []\<rparr>
      | [name, version, status] \<Rightarrow> Some \<lparr>dp_name = name, dp_version = version, dp_status = status\<rparr>
      | _ \<Rightarrow> None)"

definition drift_service :: "string \<Rightarrow> DriftService option" where
  "drift_service line =
     (let parts = split_whitespace line
      in if length parts \<ge> 4 then Some \<lparr>ds_name = parts ! 0, ds_active = parts ! 2, ds_enabled = parts ! 3\<rparr> else None)"

definition drift_container :: "string \<Rightarrow> DriftContainer option" where
  "drift_container line =
     (case splitn_on HTAB 3 line of
        [name, img, state] \<Rightarrow> Some \<lparr>dco_name = name, dco_image = img, dco_state = state\<rparr>
      | _ \<Rightarrow> None)"

text \<open>The output is parsed whatever the exit status.\<close>

definition drift_lines :: "(string \<Rightarrow> 'r option) \<Rightarrow> (string, proc_output) result \<Rightarrow> 'r list" where
  "drift_lines row r =
     (case r of Inr out \<Rightarrow> List.map_filter row (str_lines (from_utf8_lossy (o_stdout out))) | Inl _ \<Rightarrow> [])"

definition fingerprint_config_file :: "host \<Rightarrow> string \<Rightarrow> string \<Rightarrow> DriftConfigFile option" where
  "fingerprint_config_file H requested resolved =
     Option.bind (ho_meta H resolved) (\<lambda>(len, mtime).
     Option.bind (ho_bytes H resolved) (\<lambda>content.
       Some \<lparr>dcf_path = requested, dcf_hash = ho_sha256 H content, dcf_size = len,
             dcf_mtime = (case mtime of Some t \<Rightarrow> t | None \<Rightarrow> 0)\<rparr>))"

definition drift_config_fingerprint :: "host \<Rightarrow> string \<Rightarrow> DriftConfigFile option" where
  "drift_config_fingerprint H path =
     (case check_read (ho_canon H) path of Inr safe_path \<Rightarrow> fingerprint_config_file H path safe_path | Inl _ \<Rightarrow> None)"

definition DRIFT_CATEGORIES :: "string list" where
  "DRIFT_CATEGORIES = [''packages'', ''services'', ''containers'', ''configs'']"

definition drift_snapshot :: "host \<Rightarrow> string \<Rightarrow> string list \<Rightarrow> string list \<Rightarrow> Message" where
  "drift_snapshot H snapshot_id categories config_paths =
     (let cats = (if categories = [] then DRIFT_CATEGORIES else categories);
          packages = (if ''packages'' \<in> set cats then drift_lines drift_package (ho_dpkg H [''-W'', ''-f'', DPKG_FORMAT]) else []);
          services = (if ''services'' \<in> set cats
                      then drift_lines drift_service
                             (ho_systemctl H [''list-units'', ''--type=service'', ''--no-pager'', ''--no-legend'', ''--plain''])
                      else []);
          containers = (if ''containers'' \<in> set cats
                        then drift_lines drift_container (ho_docker H [''ps'', ''-a'', ''--format'', PS_FORMAT]) else []);
          configs = (if ''configs'' \<in> set cats then List.map_filter (drift_config_fingerprint H) config_paths else [])
      in Misc (DriftSnapshotResponse snapshot_id packages services containers configs None))"

definition prune_response :: "bool \<Rightarrow> PruneOutcome \<Rightarrow> Message" where
  "prune_response dry_run out =
     Misc (DockerSystemPruneResponse dry_run (po_success out) (po_reclaimed_bytes out) (po_containers out) (po_images out)
       (po_networks out) (po_volumes out) (po_log out) (po_error out))"

fun answer_misc :: "host \<Rightarrow> MiscMsg \<Rightarrow> Message option" where
  "answer_misc H (DockerSystemPruneRequest dry_run prune_vols) =
     map_option (prune_response dry_run)
       (if dry_run then Some (system_prune_preview (ho_json H) (ho_docker H) prune_vols) else system_prune_apply (ho_docker H) prune_vols)"
| "answer_misc H DockerStatsRequest =
     (case rows_or_error (container_stats (ho_json H) (ho_docker H)) of (snapshots, error) \<Rightarrow>
        Some (Misc (DockerStatsResponse (error = None) snapshots error)))"
| "answer_misc H (DriftSnapshotRequest snapshot_id categories config_paths) =
     Some (drift_snapshot H snapshot_id categories config_paths)"
| "answer_misc H _ = None"

section \<open>All requests that are answered at once\<close>

fun answer :: "host \<Rightarrow> Message \<Rightarrow> Message option" where
  "answer H (Systemd m) = answer_systemd H m"
| "answer H (Exec m) = answer_exec H m"
| "answer H (Apt m) = answer_apt H m"
| "answer H (Image m) = answer_image H m"
| "answer H (Network m) = answer_network H m"
| "answer H (Volume m) = answer_volume H m"
| "answer H (Deploy m) = answer_deploy H m"
| "answer H (Stack m) = answer_stack H m"
| "answer H (Swarm m) = answer_swarm H m"
| "answer H (Host m) = answer_host H m"
| "answer H (K8sRead m) = answer_k8s_read H m"
| "answer H (K8sWrite m) = answer_k8s_write H m"
| "answer H (Backup m) = answer_backup H m"
| "answer H (Config m) = answer_config H m"
| "answer H (Misc m) = answer_misc H m"
| "answer H _ = None"

section \<open>The response of a request\<close>

text \<open>Which message is a response to which request, with everything that both name.\<close>

definition responds_systemd :: "SystemdMsg \<Rightarrow> SystemdMsg \<Rightarrow> bool" where
  "responds_systemd req resp =
     (case req of
        ListServicesRequest \<Rightarrow> (case resp of ListServicesResponse _ \<Rightarrow> True | _ \<Rightarrow> False)
      | ControlServiceRequest n _ \<Rightarrow> (case resp of ControlServiceResponse n' ok e \<Rightarrow> (n' = n \<and> (ok \<longleftrightarrow> e = None)) | _ \<Rightarrow> False)
      | _ \<Rightarrow> False)"

definition responds_exec :: "ExecMsg \<Rightarrow> ExecMsg \<Rightarrow> bool" where
  "responds_exec req resp =
     (case req of
        RunCommandRequest r _ _ \<Rightarrow> (case resp of RunCommandResponse r' _ _ _ _ _ _ _ \<Rightarrow> (r' = r) | _ \<Rightarrow> False)
      | _ \<Rightarrow> False)"

definition responds_apt :: "AptMsg \<Rightarrow> AptMsg \<Rightarrow> bool" where
  "responds_apt req resp =
     (case req of
        AptStatusRequest \<Rightarrow> (case resp of AptStatusResponse ok _ _ e \<Rightarrow> (ok \<longleftrightarrow> e = None) | _ \<Rightarrow> False)
      | AptRefreshRequest \<Rightarrow> (case resp of AptRefreshResponse _ _ _ \<Rightarrow> True | _ \<Rightarrow> False)
      | _ \<Rightarrow> False)"

definition responds_image :: "ImageMsg \<Rightarrow> ImageMsg \<Rightarrow> bool" where
  "responds_image req resp =
     (case req of
        DockerImageListRequest \<Rightarrow> (case resp of DockerImageListResponse _ _ _ \<Rightarrow> True | _ \<Rightarrow> False)
      | DockerImageRemoveRequest i _ \<Rightarrow> (case resp of DockerImageRemoveResponse i' _ _ _ \<Rightarrow> (i' = i) | _ \<Rightarrow> False)
      | DockerImagePullRequest r \<Rightarrow> (case resp of DockerImagePullResponse r' _ _ _ \<Rightarrow> (r' = r) | _ \<Rightarrow> False)
      | _ \<Rightarrow> False)"

definition responds_network :: "NetworkMsg \<Rightarrow> NetworkMsg \<Rightarrow> bool" where
  "responds_network req resp =
     (case req of
        DockerNetworkListRequest \<Rightarrow> (case resp of DockerNetworkListResponse _ _ _ \<Rightarrow> True | _ \<Rightarrow> False)
      | DockerNetworkInspectRequest i \<Rightarrow> (case resp of DockerNetworkInspectResponse i' _ _ _ \<Rightarrow> (i' = i) | _ \<Rightarrow> False)
      | DockerNetworkCreateRequest n _ _ _ _ \<Rightarrow> (case resp of DockerNetworkCreateResponse n' _ _ _ _ \<Rightarrow> (n' = n) | _ \<Rightarrow> False)
      | DockerNetworkRemoveRequest i \<Rightarrow> (case resp of DockerNetworkRemoveResponse i' _ _ _ \<Rightarrow> (i' = i) | _ \<Rightarrow> False)
      | _ \<Rightarrow> False)"

definition responds_volume :: "VolumeMsg \<Rightarrow> VolumeMsg \<Rightarrow> bool" where
  "responds_volume req resp =
     (case req of
        DockerVolumeListRequest \<Rightarrow> (case resp of DockerVolumeListResponse _ _ _ \<Rightarrow> True | _ \<Rightarrow> False)
      | DockerVolumeInspectRequest n \<Rightarrow> (case resp of DockerVolumeInspectResponse n' _ _ _ \<Rightarrow> (n' = n) | _ \<Rightarrow> False)
      | DockerVolumeRemoveRequest n _ \<Rightarrow> (case resp of DockerVolumeRemoveResponse n' _ _ _ \<Rightarrow> (n' = n) | _ \<Rightarrow> False)
      | DockerVolumePruneRequest \<Rightarrow> (case resp of DockerVolumePruneResponse _ _ _ _ _ \<Rightarrow> True | _ \<Rightarrow> False)
      | _ \<Rightarrow> False)"

definition responds_deploy :: "DeployMsg \<Rightarrow> DeployMsg \<Rightarrow> bool" where
  "responds_deploy req resp =
     (case req of
        DockerContainerActionRequest i _ \<Rightarrow> (case resp of DockerContainerActionResponse i' _ _ _ \<Rightarrow> (i' = i) | _ \<Rightarrow> False)
      | DockerCreateContainerRequest _ \<Rightarrow> (case resp of DockerCreateContainerResponse _ _ _ _ \<Rightarrow> True | _ \<Rightarrow> False)
      | SwarmCreateServiceRequest _ \<Rightarrow> (case resp of SwarmCreateServiceResponse _ _ _ _ \<Rightarrow> True | _ \<Rightarrow> False)
      | _ \<Rightarrow> False)"

definition responds_stack :: "StackMsg \<Rightarrow> StackMsg \<Rightarrow> bool" where
  "responds_stack req resp =
     (case req of
        SwarmStackListRequest \<Rightarrow> (case resp of SwarmStackListResponse _ _ _ _ \<Rightarrow> True | _ \<Rightarrow> False)
      | SwarmStackInspectRequest n \<Rightarrow> (case resp of SwarmStackInspectResponse n' _ _ _ _ _ \<Rightarrow> (n' = n) | _ \<Rightarrow> False)
      | SwarmStackRemoveRequest n \<Rightarrow> (case resp of SwarmStackRemoveResponse n' _ _ _ \<Rightarrow> (n' = n) | _ \<Rightarrow> False)
      | _ \<Rightarrow> False)"

definition responds_swarm :: "SwarmMsg \<Rightarrow> SwarmMsg \<Rightarrow> bool" where
  "responds_swarm req resp =
     (case req of
        SwarmServiceInspectRequest n \<Rightarrow> (case resp of SwarmServiceInspectResponse n' _ _ _ _ _ \<Rightarrow> (n' = n) | _ \<Rightarrow> False)
      | SwarmStackDeployRequest n _ _ \<Rightarrow> (case resp of SwarmStackDeployResponse n' _ _ _ \<Rightarrow> (n' = n) | _ \<Rightarrow> False)
      | _ \<Rightarrow> False)"

definition responds_host :: "HostMsg \<Rightarrow> HostMsg \<Rightarrow> bool" where
  "responds_host req resp =
     (case req of
        DockerListRequest \<Rightarrow> (case resp of DockerListResponse _ _ _ _ \<Rightarrow> True | _ \<Rightarrow> False)
      | SwarmListRequest \<Rightarrow> (case resp of SwarmListResponse _ _ _ _ _ \<Rightarrow> True | _ \<Rightarrow> False)
      | SwarmServiceActionRequest n _ \<Rightarrow> (case resp of SwarmServiceActionResponse n' _ _ _ \<Rightarrow> (n' = n) | _ \<Rightarrow> False)
      | SystemStatsRequest \<Rightarrow> (case resp of SystemStatsResponse _ _ _ _ _ _ _ _ _ _ _ _ _ \<Rightarrow> True | _ \<Rightarrow> False)
      | _ \<Rightarrow> False)"

definition responds_k8s_read :: "K8sReadMsg \<Rightarrow> K8sReadMsg \<Rightarrow> bool" where
  "responds_k8s_read req resp =
     (case req of
        K8sListPodsRequest \<Rightarrow> (case resp of K8sListPodsResponse _ _ \<Rightarrow> True | _ \<Rightarrow> False)
      | K8sListDeploymentsRequest \<Rightarrow> (case resp of K8sListDeploymentsResponse _ _ \<Rightarrow> True | _ \<Rightarrow> False)
      | K8sListServicesRequest \<Rightarrow> (case resp of K8sListServicesResponse _ _ \<Rightarrow> True | _ \<Rightarrow> False)
      | K8sListIngressesRequest \<Rightarrow> (case resp of K8sListIngressesResponse _ _ \<Rightarrow> True | _ \<Rightarrow> False)
      | K8sListPvcsRequest \<Rightarrow> (case resp of K8sListPvcsResponse _ _ \<Rightarrow> True | _ \<Rightarrow> False)
      | K8sListEventsRequest \<Rightarrow> (case resp of K8sListEventsResponse es _ \<Rightarrow> (length es \<le> 200) | _ \<Rightarrow> False)
      | K8sDescribeRequest k n m \<Rightarrow> (case resp of K8sDescribeResponse k' n' m' y _ \<Rightarrow> (k' = k \<and> n' = n \<and> m' = m \<and> length y \<le> MAX_OUTPUT_BYTES) | _ \<Rightarrow> False)
      | _ \<Rightarrow> False)"

definition responds_k8s_write :: "K8sWriteMsg \<Rightarrow> K8sWriteMsg \<Rightarrow> bool" where
  "responds_k8s_write req resp =
     (case req of
        K8sApplyRequest _ _ _ \<Rightarrow> (case resp of K8sApplyResponse _ _ \<Rightarrow> True | _ \<Rightarrow> False)
      | K8sScaleRequest k n m _ \<Rightarrow> (case resp of K8sScaleResponse k' n' m' ok e \<Rightarrow> (k' = k \<and> n' = n \<and> m' = m \<and> (ok \<longleftrightarrow> e = None)) | _ \<Rightarrow> False)
      | K8sDeletePodRequest n m _ \<Rightarrow> (case resp of K8sDeletePodResponse n' m' ok e \<Rightarrow> (n' = n \<and> m' = m \<and> (ok \<longleftrightarrow> e = None)) | _ \<Rightarrow> False)
      | _ \<Rightarrow> False)"

definition responds_backup :: "BackupMsg \<Rightarrow> BackupMsg \<Rightarrow> bool" where
  "responds_backup req resp =
     (case req of
        BackupRunRequest i n _ _ _ \<Rightarrow> (case resp of BackupRunResponse i' n' _ _ _ _ _ \<Rightarrow> (i' = i \<and> n' = n) | _ \<Rightarrow> False)
      | BackupListArchivesRequest i _ _ \<Rightarrow> (case resp of BackupListArchivesResponse i' _ _ _ \<Rightarrow> (i' = i) | _ \<Rightarrow> False)
      | BackupRestoreRequest i u d \<Rightarrow> (case resp of BackupRestoreResponse i' u' d' _ _ _ \<Rightarrow> (i' = i \<and> u' = u \<and> d' = d) | _ \<Rightarrow> False)
      | _ \<Rightarrow> False)"

definition responds_config :: "ConfigMsg \<Rightarrow> ConfigMsg \<Rightarrow> bool" where
  "responds_config req resp =
     (case req of
        ReadConfigRequest p \<Rightarrow> (case resp of ReadConfigResponse p' _ _ \<Rightarrow> (p' = p) | _ \<Rightarrow> False)
      | WriteConfigRequest p _ \<Rightarrow> (case resp of WriteConfigResponse p' ok e \<Rightarrow> (p' = p \<and> (ok \<longleftrightarrow> e = None)) | _ \<Rightarrow> False)
      | _ \<Rightarrow> False)"

definition responds_misc :: "MiscMsg \<Rightarrow> MiscMsg \<Rightarrow> bool" where
  "responds_misc req resp =
     (case req of
        DockerSystemPruneRequest d _ \<Rightarrow> (case resp of DockerSystemPruneResponse d' _ _ _ _ _ _ _ _ \<Rightarrow> (d' = d) | _ \<Rightarrow> False)
      | DockerStatsRequest \<Rightarrow> (case resp of DockerStatsResponse _ _ _ \<Rightarrow> True | _ \<Rightarrow> False)
      | DriftSnapshotRequest s _ _ \<Rightarrow> (case resp of DriftSnapshotResponse s' _ _ _ _ _ \<Rightarrow> (s' = s) | _ \<Rightarrow> False)
      | _ \<Rightarrow> False)"

fun responds :: "Message \<Rightarrow> Message \<Rightarrow> bool" where
  "responds (Systemd req) m = (case m of Systemd resp \<Rightarrow> responds_systemd req resp | _ \<Rightarrow> False)"
| "responds (Exec req) m = (case m of Exec resp \<Rightarrow> responds_exec req resp | _ \<Rightarrow> False)"
| "responds (Apt req) m = (case m of Apt resp \<Rightarrow> responds_apt req resp | _ \<Rightarrow> False)"
| "responds (Image req) m = (case m of Image resp \<Rightarrow> responds_image req resp | _ \<Rightarrow> False)"
| "responds (Network req) m = (case m of Network resp \<Rightarrow> responds_network req resp | _ \<Rightarrow> False)"
| "responds (Volume req) m = (case m of Volume resp \<Rightarrow> responds_volume req resp | _ \<Rightarrow> False)"
| "responds (Deploy req) m = (case m of Deploy resp \<Rightarrow> responds_deploy req resp | _ \<Rightarrow> False)"
| "responds (Stack req) m = (case m of Stack resp \<Rightarrow> responds_stack req resp | _ \<Rightarrow> False)"
| "responds (Swarm req) m = (case m of Swarm resp \<Rightarrow> responds_swarm req resp | _ \<Rightarrow> False)"
| "responds (Host req) m = (case m of Host resp \<Rightarrow> responds_host req resp | _ \<Rightarrow> False)"
| "responds (K8sRead req) m = (case m of K8sRead resp \<Rightarrow> responds_k8s_read req resp | _ \<Rightarrow> False)"
| "responds (K8sWrite req) m = (case m of K8sWrite resp \<Rightarrow> responds_k8s_write req resp | _ \<Rightarrow> False)"
| "responds (Backup req) m = (case m of Backup resp \<Rightarrow> responds_backup req resp | _ \<Rightarrow> False)"
| "responds (Config req) m = (case m of Config resp \<Rightarrow> responds_config req resp | _ \<Rightarrow> False)"
| "responds (Misc req) m = (case m of Misc resp \<Rightarrow> responds_misc req resp | _ \<Rightarrow> False)"
| "responds _ m = False"

lemmas responds_defs =
  responds_systemd_def responds_exec_def responds_apt_def responds_image_def responds_network_def responds_volume_def responds_deploy_def responds_stack_def responds_swarm_def responds_host_def responds_k8s_read_def responds_k8s_write_def responds_backup_def responds_config_def responds_misc_def

text \<open>
  The requests whose task may give no answer: a log is cut at a byte that may lie inside a character, or a listing of the
  object store does not end.
\<close>

definition may_stay_silent :: "Message \<Rightarrow> bool" where
  "may_stay_silent m =
     (case m of
        Image req \<Rightarrow> (case req of DockerImageRemoveRequest _ _ \<Rightarrow> True | DockerImagePullRequest _ \<Rightarrow> True | _ \<Rightarrow> False)
      | Network req \<Rightarrow> (case req of DockerNetworkCreateRequest _ _ _ _ _ \<Rightarrow> True | DockerNetworkRemoveRequest _ \<Rightarrow> True | _ \<Rightarrow> False)
      | Volume req \<Rightarrow> (case req of DockerVolumeRemoveRequest _ _ \<Rightarrow> True | DockerVolumePruneRequest \<Rightarrow> True | _ \<Rightarrow> False)
      | Stack req \<Rightarrow> (case req of SwarmStackRemoveRequest _ \<Rightarrow> True | _ \<Rightarrow> False)
      | Apt req \<Rightarrow> (case req of AptRefreshRequest \<Rightarrow> True | _ \<Rightarrow> False)
      | Backup req \<Rightarrow> (case req of BackupRunRequest _ _ _ _ _ \<Rightarrow> True | BackupListArchivesRequest _ _ _ \<Rightarrow> True | BackupRestoreRequest _ _ _ \<Rightarrow> True | _ \<Rightarrow> False)
      | Misc req \<Rightarrow> (case req of DockerSystemPruneRequest dry_run _ \<Rightarrow> (\<not> dry_run) | _ \<Rightarrow> False)
      | _ \<Rightarrow> False)"

text \<open>The requests that are answered at once.\<close>

definition has_answer :: "Message \<Rightarrow> bool" where
  "has_answer m =
     (case m of
        Systemd req \<Rightarrow> (case req of ListServicesRequest \<Rightarrow> True | ControlServiceRequest _ _ \<Rightarrow> True | _ \<Rightarrow> False)
      | Exec req \<Rightarrow> (case req of RunCommandRequest _ _ _ \<Rightarrow> True | _ \<Rightarrow> False)
      | Apt req \<Rightarrow> (case req of AptStatusRequest \<Rightarrow> True | AptRefreshRequest \<Rightarrow> True | _ \<Rightarrow> False)
      | Image req \<Rightarrow> (case req of DockerImageListRequest \<Rightarrow> True | DockerImageRemoveRequest _ _ \<Rightarrow> True | DockerImagePullRequest _ \<Rightarrow> True | _ \<Rightarrow> False)
      | Network req \<Rightarrow> (case req of DockerNetworkListRequest \<Rightarrow> True | DockerNetworkInspectRequest _ \<Rightarrow> True | DockerNetworkCreateRequest _ _ _ _ _ \<Rightarrow> True | DockerNetworkRemoveRequest _ \<Rightarrow> True | _ \<Rightarrow> False)
      | Volume req \<Rightarrow> (case req of DockerVolumeListRequest \<Rightarrow> True | DockerVolumeInspectRequest _ \<Rightarrow> True | DockerVolumeRemoveRequest _ _ \<Rightarrow> True | DockerVolumePruneRequest \<Rightarrow> True | _ \<Rightarrow> False)
      | Deploy req \<Rightarrow> (case req of DockerContainerActionRequest _ _ \<Rightarrow> True | DockerCreateContainerRequest _ \<Rightarrow> True | SwarmCreateServiceRequest _ \<Rightarrow> True | _ \<Rightarrow> False)
      | Stack req \<Rightarrow> (case req of SwarmStackListRequest \<Rightarrow> True | SwarmStackInspectRequest _ \<Rightarrow> True | SwarmStackRemoveRequest _ \<Rightarrow> True | _ \<Rightarrow> False)
      | Swarm req \<Rightarrow> (case req of SwarmServiceInspectRequest _ \<Rightarrow> True | SwarmStackDeployRequest _ _ _ \<Rightarrow> True | _ \<Rightarrow> False)
      | Host req \<Rightarrow> (case req of DockerListRequest \<Rightarrow> True | SwarmListRequest \<Rightarrow> True | SwarmServiceActionRequest _ _ \<Rightarrow> True | SystemStatsRequest \<Rightarrow> True | _ \<Rightarrow> False)
      | K8sRead req \<Rightarrow> (case req of K8sListPodsRequest \<Rightarrow> True | K8sListDeploymentsRequest \<Rightarrow> True | K8sListServicesRequest \<Rightarrow> True | K8sListIngressesRequest \<Rightarrow> True | K8sListPvcsRequest \<Rightarrow> True | K8sListEventsRequest \<Rightarrow> True | K8sDescribeRequest _ _ _ \<Rightarrow> True | _ \<Rightarrow> False)
      | K8sWrite req \<Rightarrow> (case req of K8sApplyRequest _ _ _ \<Rightarrow> True | K8sScaleRequest _ _ _ _ \<Rightarrow> True | K8sDeletePodRequest _ _ _ \<Rightarrow> True | _ \<Rightarrow> False)
      | Backup req \<Rightarrow> (case req of BackupRunRequest _ _ _ _ _ \<Rightarrow> True | BackupListArchivesRequest _ _ _ \<Rightarrow> True | BackupRestoreRequest _ _ _ \<Rightarrow> True | _ \<Rightarrow> False)
      | Config req \<Rightarrow> (case req of ReadConfigRequest _ \<Rightarrow> True | WriteConfigRequest _ _ \<Rightarrow> True | _ \<Rightarrow> False)
      | Misc req \<Rightarrow> (case req of DockerSystemPruneRequest _ _ \<Rightarrow> True | DockerStatsRequest \<Rightarrow> True | DriftSnapshotRequest _ _ _ \<Rightarrow> True | _ \<Rightarrow> False)
      | _ \<Rightarrow> False)"

definition fits :: "Message \<Rightarrow> Message option \<Rightarrow> bool" where
  "fits req r \<longleftrightarrow>
     (case r of Some resp \<Rightarrow> has_answer req \<and> responds req resp | None \<Rightarrow> may_stay_silent req \<or> \<not> has_answer req)"

lemmas arm_defs =
  control_service_answer_def swarm_list_answer_def swarm_action_answer_def describe_answer_def container_action_answer_def

lemmas fits_simps = fits_def has_answer_def may_stay_silent_def responds_defs arm_defs

lemma events_bound: "length (fst (rows_or_error (with_kube H (list_events K)))) \<le> 200"
  by (auto simp: rows_or_error_def with_kube_def list_events_def try_bind_def split: sum.split)

lemma description_bound: "with_kube H (k8s_describe K kind namespace name) = Inr y \<Longrightarrow> length y \<le> MAX_OUTPUT_BYTES"
  by (auto simp: with_kube_def dest: description_fits split: if_splits)

lemma done_error: "fst (done_or_error r) \<longleftrightarrow> snd (done_or_error r) = None"
  by (simp add: done_or_error_def split: sum.split)

lemma fits_systemd: "fits (Systemd m) (answer_systemd H m)"
  by (cases m) (simp_all add: fits_simps Let_def)

lemma fits_exec: "fits (Exec m) (answer_exec H m)"
  by (cases m) (simp_all add: fits_simps Let_def)

lemma fits_apt: "fits (Apt m) (answer_apt H m)"
  by (cases m) (simp_all add: fits_simps split: option.split prod.split)

lemma fits_image: "fits (Image m) (answer_image H m)"
  by (cases m) (simp_all add: fits_simps split: option.split prod.split)

lemma fits_network: "fits (Network m) (answer_network H m)"
  by (cases m) (simp_all add: fits_simps split: option.split prod.split)

lemma fits_volume: "fits (Volume m) (answer_volume H m)"
  by (cases m) (simp_all add: fits_simps split: option.split prod.split)

lemma fits_deploy: "fits (Deploy m) (answer_deploy H m)"
  by (cases m) (simp_all add: fits_simps split: option.split prod.split)

lemma fits_stack: "fits (Stack m) (answer_stack H m)"
  by (cases m) (simp_all add: fits_simps split: option.split prod.split)

lemma fits_swarm: "fits (Swarm m) (answer_swarm H m)"
  by (cases m) (simp_all add: fits_simps Let_def split: option.split prod.split sum.split)

lemma fits_host: "fits (Host m) (answer_host H m)"
  by (cases m) (simp_all add: fits_simps stats_snapshot_def Let_def split: option.split prod.split)

lemma fits_k8s_read: "fits (K8sRead m) (answer_k8s_read H m)"
proof (cases m)
  case K8sListEventsRequest
  with events_bound [of H "ho_cluster H"] show ?thesis by (auto simp: fits_simps split: prod.split)
next
  case (K8sDescribeRequest kind namespace name)
  with description_bound [of H "ho_cluster H" kind namespace name] show ?thesis by (auto simp: fits_simps split: sum.split)
qed (simp_all add: fits_simps split: prod.split)

lemma fits_k8s_write: "fits (K8sWrite m) (answer_k8s_write H m)"
proof (cases m)
  case (K8sScaleRequest kind namespace name replicas)
  with done_error [of "with_kube H (k8s_scale (ho_cluster H) kind namespace name replicas)"] show ?thesis
    by (auto simp: fits_simps split: prod.split)
next
  case (K8sDeletePodRequest namespace name grace)
  with done_error [of "with_kube H (k8s_delete_pod (ho_cluster H) namespace name grace)"] show ?thesis
    by (auto simp: fits_simps split: prod.split)
qed (simp_all add: fits_simps split: sum.split)

lemma fits_backup: "fits (Backup m) (answer_backup H m)"
  by (cases m) (simp_all add: fits_simps split: option.split prod.split)

lemma fits_config: "fits (Config m) (answer_config H m)"
  by (cases m) (simp_all add: fits_simps split: sum.split)

lemma fits_misc: "fits (Misc m) (answer_misc H m)"
  by (cases m) (simp_all add: fits_simps drift_snapshot_def prune_response_def Let_def split: option.split prod.split)

lemmas fits_all =
  fits_systemd fits_exec fits_apt fits_image fits_network fits_volume fits_deploy fits_stack fits_swarm fits_host fits_k8s_read
  fits_k8s_write fits_backup fits_config fits_misc


section \<open>Managers, files, drift\<close>

text \<open>The requests that change a swarm, and how a host that is no manager refuses them.\<close>

definition manager_refusal :: "Message \<Rightarrow> Message option" where
  "manager_refusal req =
     (case req of
        Deploy (SwarmCreateServiceRequest _) \<Rightarrow> Some (Deploy (SwarmCreateServiceResponse False None [] (Some NOT_MANAGER)))
      | Stack (SwarmStackRemoveRequest name) \<Rightarrow> Some (Stack (SwarmStackRemoveResponse name False [] (Some NOT_MANAGER)))
      | Swarm (SwarmStackDeployRequest name _ _) \<Rightarrow> Some (Swarm (SwarmStackDeployResponse name False [] (Some NOT_MANAGER)))
      | Host (SwarmServiceActionRequest name _) \<Rightarrow> Some (Host (SwarmServiceActionResponse name False [] (Some NOT_MANAGER)))
      | _ \<Rightarrow> None)"

text \<open>A change of a swarm is refused, without asking anything but its role, on a host that is no manager.\<close>

theorem swarm_change_needs_a_manager:
  assumes "manager_refusal req \<noteq> None" and "\<not> is_manager H"
  shows "answer H req = manager_refusal req"
  using assms by (auto simp: manager_refusal_def arm_defs split: Message.splits DeployMsg.splits StackMsg.splits SwarmMsg.splits HostMsg.splits)

text \<open>
  C16: what the agent sends of a configuration file. Whatever the server asks for, a content in the answer to a
  read is the whole UTF-8 text, within the limit of a message, of the file that \<open>check_read\<close> resolved, and a
  fingerprint in a drift snapshot is that of a file it resolved; and such a file lies in an allowed tree and is
  on no deny list, whatever links there are.
\<close>

theorem sent_files_passed_the_guard:
  assumes "answer H req = Some resp"
  shows "(\<forall>path content. req = Config (ReadConfigRequest path) \<and> resp = Config (ReadConfigResponse path content None) \<longrightarrow>
            (\<exists>c. check_read (ho_canon H) path = Inr c \<and> ho_open H c = Inr content \<and> valid_utf8 content \<and>
               length content \<le> MAX_OUTPUT_BYTES \<and> allowed (to_ascii_lowercase c) \<and> denied_path (to_ascii_lowercase c) = None)) \<and>
         (\<forall>sid cats paths ps ss cs fs e. req = Misc (DriftSnapshotRequest sid cats paths) \<and> resp = Misc (DriftSnapshotResponse sid ps ss cs fs e) \<longrightarrow>
            (\<forall>f \<in> set fs. dcf_path f \<in> set paths \<and>
               (\<exists>c content. check_read (ho_canon H) (dcf_path f) = Inr c \<and> ho_bytes H c = Some content \<and> dcf_hash f = ho_sha256 H content \<and>
                  allowed (to_ascii_lowercase c) \<and> denied_path (to_ascii_lowercase c) = None)))"
proof -
  have guard: "allowed (to_ascii_lowercase c) \<and> denied_path (to_ascii_lowercase c) = None" if "check_read canon path = Inr c" for canon path c
    using that by (auto simp: check_read_def result_simps Let_def split: option.splits if_splits)
  have whole: "take (n + 1) xs = xs" if "length (take (n + 1) xs) \<le> n" for n and xs :: string
    using that by (auto simp: min_def split: if_splits)
  show ?thesis
  proof (intro conjI allI impI ballI)
    fix path content assume a: "req = Config (ReadConfigRequest path) \<and> resp = Config (ReadConfigResponse path content None)"
    then obtain c where c: "check_read (ho_canon H) path = Inr c" "read_no_follow H c MAX_OUTPUT_BYTES = Inr content"
      using assms by (auto split: sum.splits)
    then obtain raw where r: "ho_open H c = Inr raw" "length (take (MAX_OUTPUT_BYTES + 1) raw) \<le> MAX_OUTPUT_BYTES" "valid_utf8 content"
      "content = take (MAX_OUTPUT_BYTES + 1) raw"
      unfolding read_no_follow_def by (auto simp: try_bind_def Let_def split: sum.splits if_splits)
    with whole [OF r(2)] guard [OF c(1)] c(1)
    show "\<exists>c. check_read (ho_canon H) path = Inr c \<and> ho_open H c = Inr content \<and> valid_utf8 content \<and>
        length content \<le> MAX_OUTPUT_BYTES \<and> allowed (to_ascii_lowercase c) \<and> denied_path (to_ascii_lowercase c) = None"
      by auto
  next
    fix sid cats paths ps ss cs fs e f
    assume a: "req = Misc (DriftSnapshotRequest sid cats paths) \<and> resp = Misc (DriftSnapshotResponse sid ps ss cs fs e)" and f: "f \<in> set fs"
    then have "fs = (if ''configs'' \<in> set (if cats = [] then DRIFT_CATEGORIES else cats) then List.map_filter (drift_config_fingerprint H) paths else [])"
      using assms by (auto simp: drift_snapshot_def Let_def)
    with f obtain path where p: "path \<in> set paths" "drift_config_fingerprint H path = Some f"
      by (auto simp: List.map_filter_def split: if_splits)
    then obtain c where c: "check_read (ho_canon H) path = Inr c" "fingerprint_config_file H path c = Some f"
      by (auto simp: drift_config_fingerprint_def split: sum.splits)
    then show "dcf_path f \<in> set paths"
      "\<exists>c content. check_read (ho_canon H) (dcf_path f) = Inr c \<and> ho_bytes H c = Some content \<and> dcf_hash f = ho_sha256 H content \<and>
         allowed (to_ascii_lowercase c) \<and> denied_path (to_ascii_lowercase c) = None"
      using guard [OF c(1)] p(1) by (auto simp: fingerprint_config_file_def bind_eq_Some_conv)
  qed
qed

definition no_program :: runner where
  "no_program as = Inl ''No such file or directory''"

definition demo_cluster :: cluster where
  "demo_cluster = \<lparr>cl_client = Inl ''no kubeconfig'', cl_now = 0, cl_pods = Inr [], cl_deployments = Inr [], cl_services = Inr [],
     cl_ingresses = Inr [], cl_pvcs = Inr [], cl_events = Inr [], cl_get = (\<lambda>_ _ _. Inl ''none''), cl_scale = (\<lambda>_ _ _ _. Inl ''none''),
     cl_delete = (\<lambda>_ _ _. Inl ''none'')\<rparr>"

text \<open>A host with no programs, on which every path under \<open>/opt\<close> resolves to \<open>/etc/hosts\<close>.\<close>

definition demo_canon :: "string \<Rightarrow> string option" where
  "demo_canon p = (if starts_with p ''/opt/'' then Some ''/etc/hosts'' else Some p)"

definition demo_machine :: host where
  "demo_machine = \<lparr>ho_env = Map.empty, ho_json = (\<lambda>_. Inl ''syntax''), ho_allowlist = (\<lambda>_. None), ho_docker = no_program,
     ho_systemctl = no_program, ho_apt = no_program, ho_apt_get = no_program, ho_dpkg = no_program,
     ho_deploy = (\<lambda>_. Inl ''No such file or directory''), ho_exec = (\<lambda>_ _. demo_outcome),
     ho_proc = \<lparr>pf_file = (\<lambda>_. None), pf_hostname = None, pf_df = no_program\<rparr>, ho_mtime = (\<lambda>_. None), ho_backup = demo_host,
     ho_s3_calls = [], ho_s3_list = demo_bucket, ho_is_dir = (\<lambda>_. False), ho_read_dir = (\<lambda>_. Inr []),
     ho_canon = demo_canon, ho_resolve_error = [],
     ho_open = (\<lambda>p. if p = ''/etc/hosts'' then Inr ''127.0.0.1 localhost'' else Inl ''No such file or directory''),
     ho_utf8_error = (\<lambda>_. ''invalid utf-8''), ho_write = (\<lambda>_ _. Inr ()), ho_meta = (\<lambda>_. None), ho_bytes = (\<lambda>_. None),
     ho_sha256 = (\<lambda>_. []), ho_kube = False, ho_cluster = demo_cluster, ho_apply = apply_of demo_kube Map.empty (\<lambda>_. ''refused'')\<rparr>"


theorem sent_files_passed_the_guard_witness:
  "answer demo_machine (Config (ReadConfigRequest ''/opt/link'')) =
     Some (Config (ReadConfigResponse ''/opt/link'' ''127.0.0.1 localhost'' None)) \<and>
   (\<exists>c. ho_open demo_machine c = Inr ''127.0.0.1 localhost'' \<and> denied_path (to_ascii_lowercase c) = None)"
proof -
  have a: "answer demo_machine (Config (ReadConfigRequest ''/opt/link'')) =
     Some (Config (ReadConfigResponse ''/opt/link'' ''127.0.0.1 localhost'' None))"
  proof -
    have k: "ho_canon demo_machine = demo_canon" "ho_open demo_machine ''/etc/hosts'' = Inr ''127.0.0.1 localhost''"
      by (simp_all add: demo_machine_def)
    have c: "check_read demo_canon ''/opt/link'' = Inr ''/etc/hosts''" by (rule demo_link_read) code_simp
    have v: "valid_utf8 ''127.0.0.1 localhost''" by code_simp
    have l: "\<not> MAX_OUTPUT_BYTES < length ''127.0.0.1 localhost''" by (simp add: MAX_OUTPUT_BYTES_def)
    then have t: "take (MAX_OUTPUT_BYTES + 1) ''127.0.0.1 localhost'' = ''127.0.0.1 localhost''" by (intro take_all) linarith
    have r: "read_no_follow demo_machine ''/etc/hosts'' MAX_OUTPUT_BYTES = Inr ''127.0.0.1 localhost''"
      unfolding read_no_follow_def k try_bind_def sum.case Let_def t if_not_P [OF l] if_P [OF v] ..
    show ?thesis unfolding answer.simps answer_config.simps k c sum.case r ..
  qed
  from conjunct1 [OF sent_files_passed_the_guard [OF a], rule_format, OF conjI [OF refl refl]]
  obtain c where "ho_open demo_machine c = Inr ''127.0.0.1 localhost''" "denied_path (to_ascii_lowercase c) = None"
    by (elim exE conjE)
  then show ?thesis by (intro conjI a exI)
qed

text \<open>
  The line of a unit as \<open>systemctl list-units --plain --no-legend\<close> prints it has the columns unit, load, active, sub and
  description. What the snapshot reports as the enablement of the service is the fourth of them, the substate.
\<close>

theorem drift_enablement_is_the_substate:
  assumes "split_whitespace line = unit # load # active # sub # description"
  shows "drift_service line = Some \<lparr>ds_name = unit, ds_active = active, ds_enabled = sub\<rparr>"
  using assms by (simp add: drift_service_def)

lemma drift_enablement_example:
  "drift_service ''ssh.service loaded active running OpenBSD Secure Shell server'' =
     Some \<lparr>ds_name = ''ssh.service'', ds_active = ''active'', ds_enabled = ''running''\<rparr>"
  by code_simp

end
