(* ===== verification/Agent_Main.thy ===== *)
theory Agent_Main
  imports Agent_Dispatch Trusted_Gate
begin

text \<open>
  The connected agent: the loop of \<open>agent/src/main.rs\<close> with \<open>privileged/client.rs\<close>, \<open>terminal.rs\<close> and \<open>k8s_exec.rs\<close>. The state of
  the loop holds the outgoing queue, the sessions by id, the stream managers, the probes and the jobs that were
  spawned and not yet finished; a message from the server either changes it at once or adds a job, and jobs
  finish in any order. Terminals, the broker's socket and the frame codec are arguments.

  Shown: a payload reaches the broker only in the session of its request, which starts with its one start frame;
  a silent server is left within ninety seconds and one that talks is not; the probing of capabilities settles
  and any change wakes it up; stopping a pod terminal leaves its reader running.
\<close>

section \<open>Sessions\<close>

text \<open>The frames handed to a session and whether somebody still takes them.\<close>

record relay_session =
  rs_frames :: "byte list list"
  rs_open :: bool

record pty_session =
  pty_input :: "byte list list"
  pty_resize :: "(u16 \<times> u16) list"
  pty_open :: bool

definition pty_new :: pty_session where
  "pty_new = \<lparr>pty_input = [], pty_resize = [], pty_open = True\<rparr>"

definition pty_send :: "byte list \<Rightarrow> pty_session \<Rightarrow> pty_session" where
  "pty_send d s = (if pty_open s then s\<lparr>pty_input := pty_input s @ [d]\<rparr> else s)"

definition pty_send_size :: "u16 \<times> u16 \<Rightarrow> pty_session \<Rightarrow> pty_session" where
  "pty_send_size z s = (if pty_open s then s\<lparr>pty_resize := pty_resize s @ [z]\<rparr> else s)"

text \<open>\<open>RelaySession::send\<close>.\<close>

definition relay_send :: "byte list \<Rightarrow> relay_session \<Rightarrow> (string, relay_session) result" where
  "relay_send payload s =
     (if payload = [] \<or> length payload > MAX_TRUSTED_FRAME_BYTES then Inl ''trusted relay payload size is invalid''
      else if rs_open s then Inr (s\<lparr>rs_frames := rs_frames s @ [payload]\<rparr>)
      else Inl ''trusted host broker disconnected'')"

record loop_env =
  le_decode :: "byte list \<Rightarrow> TrustedClientFrame option"
  le_error_frame :: "string \<Rightarrow> byte list option"
  le_gate :: "string \<Rightarrow> (string, unit) result"
  le_root :: "string \<Rightarrow> (string, unit) result"
  le_pty :: "string list \<Rightarrow> (string, unit) result"
  le_pod :: "string \<Rightarrow> string \<Rightarrow> string option \<Rightarrow> string list \<Rightarrow> (string, unit) result"
  le_kube :: bool

definition decode_client :: "loop_env \<Rightarrow> byte list \<Rightarrow> TrustedClientFrame option" where
  "decode_client E bytes = (if length bytes > MAX_TRUSTED_FRAME_BYTES then None else le_decode E bytes)"

text \<open>\<open>encode_host(...).unwrap_or_default()\<close>.\<close>

definition error_payload :: "loop_env \<Rightarrow> string \<Rightarrow> byte list" where
  "error_payload E m =
     (case le_error_frame E m of Some b \<Rightarrow> if length b > MAX_TRUSTED_FRAME_BYTES then [] else b | None \<Rightarrow> [])"

definition relay_error :: "loop_env \<Rightarrow> string \<Rightarrow> string \<Rightarrow> Message" where
  "relay_error E rid m = Terminal (TrustedOperationHost rid True (error_payload E m))"

text \<open>\<open>client::connect\<close>: a new session that holds the first payload.\<close>

definition relay_connect :: "loop_env \<Rightarrow> string \<Rightarrow> byte list \<Rightarrow> (string, relay_session) result" where
  "relay_connect E rid first_payload =
     try_bind (map_err ''connect approval gate: '' (le_gate E rid)) (\<lambda>_.
       relay_send first_payload \<lparr>rs_frames = [], rs_open = True\<rparr>)"

text \<open>The frames of a relay's broker on their way to the server: \<open>decode\<close> says whether a frame is the last one.\<close>

fun relay_read :: "loop_env \<Rightarrow> (byte list \<Rightarrow> bool) \<Rightarrow> string \<Rightarrow> (string, byte list) result list \<Rightarrow> outgoing \<Rightarrow> outgoing" where
  "relay_read E is_last rid [] tx = tx"
| "relay_read E is_last rid (Inl e # fs) tx = post (relay_error E rid e) tx"
| "relay_read E is_last rid (Inr p # fs) tx =
     (let tx1 = post (Terminal (TrustedOperationHost rid (is_last p) p)) tx
      in if is_last p then tx1 else relay_read E is_last rid fs tx1)"

section \<open>The state of the loop\<close>

datatype job =
    Answer_Job Message
  | Post_Job Message
  | Docker_Job "arg list stream_task"
  | Journal_Job "arg list stream_task"
  | Stream_Job "StreamArgs stream_task"
  | Probe_Job "HealthProbeSpec list"
  | Upgrade_Job "string option"

record agent_loop =
  al_tx :: outgoing
  al_terms :: "string \<rightharpoonup> pty_session"
  al_exec :: "pty_session option"
  al_trusted :: "string \<rightharpoonup> relay_session"
  al_pods :: "string \<rightharpoonup> pty_session"
  al_pod_readers :: "string list"
  al_logs :: cmd_streams
  al_journals :: cmd_streams
  al_streams :: "StreamArgs streams"
  al_pod_logs :: "LogArgs streams"
  al_probes :: probe_tasks
  al_apt :: apt_system
  al_jobs :: "job list"
  al_last_read :: nat
  al_running :: bool

definition send_msg :: "Message \<Rightarrow> agent_loop \<Rightarrow> agent_loop" where
  "send_msg m s = s\<lparr>al_tx := post m (al_tx s)\<rparr>"

definition spawn_job :: "job \<Rightarrow> agent_loop \<Rightarrow> agent_loop" where
  "spawn_job j s = s\<lparr>al_jobs := al_jobs s @ [j]\<rparr>"

section \<open>The relay of trusted operations\<close>

definition inner_matches :: "TrustedClientFrame option \<Rightarrow> string \<Rightarrow> bool \<Rightarrow> bool \<Rightarrow> bool" where
  "inner_matches decoded rid is_start is_close =
     (case decoded of
        Some (StartFrame inner _ _) \<Rightarrow> is_start \<and> \<not> is_close \<and> inner = rid
      | Some (ApproveFrame sm _ _) \<Rightarrow> \<not> is_start \<and> \<not> is_close \<and> tm_request_id (sm_manifest sm) = rid
      | Some CloseFrame \<Rightarrow> \<not> is_start \<and> is_close
      | Some (CiphertextFrame _ _) \<Rightarrow> \<not> is_start \<and> \<not> is_close
      | Some (ResizeFrame _ _) \<Rightarrow> \<not> is_start \<and> \<not> is_close
      | None \<Rightarrow> False)"

definition on_trusted :: "loop_env \<Rightarrow> string \<Rightarrow> bool \<Rightarrow> bool \<Rightarrow> byte list \<Rightarrow> agent_loop \<Rightarrow> agent_loop" where
  "on_trusted E rid is_start is_close payload s =
     (if \<not> inner_matches (decode_client E payload) rid is_start is_close
      then send_msg (relay_error E rid ''trusted relay envelope mismatch'') s
      else if is_start then
        (if al_trusted s rid \<noteq> None then send_msg (relay_error E rid ''trusted request id is already active'') s
         else (case relay_connect E rid payload of
                 Inr session \<Rightarrow> s\<lparr>al_trusted := (al_trusted s)(rid \<mapsto> session)\<rparr>
               | Inl m \<Rightarrow> send_msg (relay_error E rid m) s))
      else
        (case al_trusted s rid of
           Some session \<Rightarrow>
             (let s1 = (case relay_send payload session of
                          Inr session' \<Rightarrow> s\<lparr>al_trusted := (al_trusted s)(rid \<mapsto> session')\<rparr>
                        | Inl m \<Rightarrow> send_msg (relay_error E rid m) s)
              in if is_close then s1\<lparr>al_trusted := (al_trusted s1)(rid := None)\<rparr> else s1)
         | None \<Rightarrow> send_msg (relay_error E rid ''trusted request is not active'') s))"

section \<open>Terminals\<close>

definition CRLF :: string where "CRLF = [CHR 0x0D, CHR 0x0A]"

definition bytes_of :: "string \<Rightarrow> byte list" where
  "bytes_of s = map (\<lambda>c. of_nat (of_char c)) s"

definition start_terminal :: "loop_env \<Rightarrow> string \<Rightarrow> agent_loop \<Rightarrow> agent_loop" where
  "start_terminal E sid s =
     (if sid = [] \<or> al_terms s sid \<noteq> None then s
      else (case le_root E sid of
              Inr _ \<Rightarrow> s\<lparr>al_terms := (al_terms s)(sid \<mapsto> pty_new)\<rparr>
            | Inl e \<Rightarrow> send_msg (Terminal (TerminalData sid (bytes_of (CRLF @ ''[root terminal unavailable: '' @ e @ '']'' @ CRLF)))) s))"

text \<open>\<open>abort\<close> of a pod session ends its supervisor, which has no further part here; its reader goes on.\<close>

definition stop_terminal :: "loop_env \<Rightarrow> string \<Rightarrow> agent_loop \<Rightarrow> agent_loop" where
  "stop_terminal E sid s =
     (let s1 = s\<lparr>al_terms := (al_terms s)(sid := None)\<rparr>
      in if le_kube E then s1\<lparr>al_pods := (al_pods s1)(sid := None)\<rparr> else s1)"

text \<open>Data and sizes go to the container terminal for the empty id, else to the host terminal, else to the pod terminal.\<close>

definition to_session :: "loop_env \<Rightarrow> (pty_session \<Rightarrow> pty_session) \<Rightarrow> string \<Rightarrow> agent_loop \<Rightarrow> agent_loop" where
  "to_session E f sid s =
     (if sid = [] then s\<lparr>al_exec := map_option f (al_exec s)\<rparr>
      else case al_terms s sid of
             Some session \<Rightarrow> s\<lparr>al_terms := (al_terms s)(sid \<mapsto> f session)\<rparr>
           | None \<Rightarrow>
               (case (if le_kube E then al_pods s sid else None) of
                  Some session \<Rightarrow> s\<lparr>al_pods := (al_pods s)(sid \<mapsto> f session)\<rparr>
                | None \<Rightarrow> s))"

definition docker_exec_start :: "loop_env \<Rightarrow> string \<Rightarrow> string \<Rightarrow> agent_loop \<Rightarrow> agent_loop" where
  "docker_exec_start E container_id shell s =
     (let s1 = s\<lparr>al_exec := None\<rparr>
      in case try_bind (spawn_docker_exec_argv container_id shell) (\<lambda>as. le_pty E (argv as)) of
           Inr _ \<Rightarrow> send_msg (Misc (DockerExecStartResponse container_id True None)) (s1\<lparr>al_exec := Some pty_new\<rparr>)
         | Inl e \<Rightarrow> send_msg (Misc (DockerExecStartResponse container_id False (Some e))) s1)"

definition k8s_exec :: "loop_env \<Rightarrow> string \<Rightarrow> string \<Rightarrow> string \<Rightarrow> string option \<Rightarrow> string list \<Rightarrow> agent_loop \<Rightarrow> agent_loop" where
  "k8s_exec E sid namespace pod_name container command s =
     (if \<not> le_kube E then send_msg (K8sRead (K8sExecResponse sid False (Some NO_KUBE))) s
      else (let s1 = s\<lparr>al_pods := (al_pods s)(sid := None)\<rparr>
            in case le_pod E namespace pod_name container (if command = [] then [''/bin/sh''] else command) of
                 Inr _ \<Rightarrow>
                   send_msg (K8sRead (K8sExecResponse sid True None))
                     (s1\<lparr>al_pods := (al_pods s1)(sid \<mapsto> pty_new), al_pod_readers := al_pod_readers s1 @ [sid]\<rparr>)
               | Inl e \<Rightarrow> send_msg (K8sRead (K8sExecResponse sid False (Some e))) s1))"

text \<open>The reader of a pod terminal: a block of at most 4096 bytes, or its end with the supervisor's banner.\<close>

definition pod_output :: "string \<Rightarrow> byte list \<Rightarrow> agent_loop \<Rightarrow> agent_loop" where
  "pod_output sid block s =
     (if sid \<in> set (al_pod_readers s)
      then (case Outgoing_send (Terminal (TerminalData sid block)) (al_tx s) of
              (Inr _, tx) \<Rightarrow> s\<lparr>al_tx := tx\<rparr>
            | (Inl _, tx) \<Rightarrow> s\<lparr>al_tx := tx, al_pod_readers := remove1 sid (al_pod_readers s)\<rparr>)
      else s)"

section \<open>Messages\<close>

record job_env =
  je_host :: host
  je_to_string :: "HealthProbeSpec \<Rightarrow> string"
  je_fault :: fault
  je_script :: string
  je_systemd_run :: runner
  je_now :: nat
  je_pid :: nat
  je_unit :: "string \<Rightarrow> unit_state option"

definition on_terminal :: "loop_env \<Rightarrow> TerminalMsg \<Rightarrow> agent_loop \<Rightarrow> agent_loop" where
  "on_terminal E m s =
     (case m of
        TrustedOperationClient rid is_start is_close payload \<Rightarrow> on_trusted E rid is_start is_close payload s
      | StartTerminalRequest sid \<Rightarrow> start_terminal E sid s
      | StopTerminalRequest sid \<Rightarrow> stop_terminal E sid s
      | TerminalData sid d \<Rightarrow> to_session E (pty_send d) sid s
      | TerminalResize sid cols rows \<Rightarrow> to_session E (pty_send_size (cols, rows)) sid s
      | TrustedOperationHost _ _ _ \<Rightarrow> s)"

definition on_log :: "LogMsg \<Rightarrow> agent_loop \<Rightarrow> agent_loop" where
  "on_log m s =
     (case m of
        DockerLogsRequest cid n_tail fol \<Rightarrow>
          spawn_job (case logs_start_argv cid n_tail fol of
                       Inl e \<Rightarrow> Post_Job (Log (DockerLogsEnd cid (Some e))) | Inr as \<Rightarrow> Docker_Job (Start_Task cid as)) s
      | DockerLogsStop cid \<Rightarrow> spawn_job (Docker_Job (Stop_Task cid)) s
      | JournalLogsRequest unit n_lines fol \<Rightarrow>
          spawn_job (case journal_start_argv unit n_lines fol of
                       Inl e \<Rightarrow> Post_Job (Log (JournalLogsEnd unit (Some e))) | Inr as \<Rightarrow> Journal_Job (Start_Task unit as)) s
      | JournalLogsStop unit \<Rightarrow> spawn_job (Journal_Job (Stop_Task unit)) s
      | JournalStreamRequest sid units priority since grep identifier n_lines fol \<Rightarrow>
          spawn_job (Stream_Job (Start_Task sid
            \<lparr>sa_stream_id = sid, sa_units = units, sa_priority = priority, sa_since = since, sa_grep = grep, sa_identifier = identifier,
             sa_lines = n_lines, sa_follow = fol\<rparr>)) s
      | JournalStreamStop sid \<Rightarrow> spawn_job (Stream_Job (Stop_Task sid)) s
      | _ \<Rightarrow> s)"

definition on_k8s :: "loop_env \<Rightarrow> K8sReadMsg \<Rightarrow> agent_loop \<Rightarrow> agent_loop" where
  "on_k8s E m s =
     (case m of
        K8sLogsRequest sid namespace pod_name container n_tail fol \<Rightarrow>
          if le_kube E
          then s\<lparr>al_pod_logs := k8s_log_streams_start \<lparr>la_stream_id = sid, la_namespace = namespace, la_pod_name = pod_name,
                   la_container = container, la_tail_lines = n_tail, la_follow = fol\<rparr> (al_pod_logs s)\<rparr>
          else send_msg (K8sRead (K8sLogsEnd sid (Some NO_KUBE))) s
      | K8sLogsStop sid \<Rightarrow> if le_kube E then s\<lparr>al_pod_logs := streams_stop sid (al_pod_logs s)\<rparr> else s
      | K8sExecRequest sid namespace pod_name container command \<Rightarrow> k8s_exec E sid namespace pod_name container command s
      | _ \<Rightarrow> if has_answer (K8sRead m) then spawn_job (Answer_Job (K8sRead m)) s else s)"

definition on_misc :: "loop_env \<Rightarrow> MiscMsg \<Rightarrow> agent_loop \<Rightarrow> agent_loop" where
  "on_misc E m s =
     (case m of
        DockerExecStartRequest cid shell \<Rightarrow> docker_exec_start E cid shell s
      | DockerExecStopRequest \<Rightarrow> s\<lparr>al_exec := None\<rparr>
      | _ \<Rightarrow> if has_answer (Misc m) then spawn_job (Answer_Job (Misc m)) s else s)"

definition agent_on_message :: "loop_env \<Rightarrow> host \<Rightarrow> Message \<Rightarrow> agent_loop \<Rightarrow> agent_loop" where
  "agent_on_message E H m s =
     (case m of
        Terminal t \<Rightarrow> on_terminal E t s
      | Log l \<Rightarrow> on_log l s
      | K8sRead k \<Rightarrow> on_k8s E k s
      | Misc x \<Rightarrow> on_misc E x s
      | Config c \<Rightarrow> (case answer H m of Some r \<Rightarrow> send_msg r s | None \<Rightarrow> s)
      | Probe p \<Rightarrow> (case p of HealthProbeSyncRequest ps \<Rightarrow> spawn_job (Probe_Job ps) s | _ \<Rightarrow> s)
      | Apt a \<Rightarrow> (case a of AptUpgradeRequest package \<Rightarrow> spawn_job (Upgrade_Job package) s
                   | _ \<Rightarrow> if has_answer m then spawn_job (Answer_Job m) s else s)
      | _ \<Rightarrow> if has_answer m then spawn_job (Answer_Job m) s else s)"

section \<open>Jobs\<close>

text \<open>The answers of the package updates go to the queue.\<close>

definition with_apt :: "(apt_system \<Rightarrow> apt_system) \<Rightarrow> agent_loop \<Rightarrow> agent_loop" where
  "with_apt f s =
     (let a = f (al_apt s) in fold send_msg (sy_answers a) (s\<lparr>al_apt := a\<lparr>sy_answers := []\<rparr>\<rparr>))"

definition respawn :: "('t \<Rightarrow> job) \<Rightarrow> 't option \<Rightarrow> agent_loop \<Rightarrow> agent_loop" where
  "respawn mk rest s = (case rest of Some t \<Rightarrow> spawn_job (mk t) s | None \<Rightarrow> s)"

fun run_job :: "job_env \<Rightarrow> job \<Rightarrow> agent_loop \<Rightarrow> agent_loop" where
  "run_job J (Answer_Job m) s = (case answer (je_host J) m of Some r \<Rightarrow> send_msg r s | None \<Rightarrow> s)"
| "run_job J (Post_Job m) s = send_msg m s"
| "run_job J (Docker_Job t) s =
     (case task_turn t (al_logs s) of (st, rest) \<Rightarrow> respawn Docker_Job rest (s\<lparr>al_logs := st\<rparr>))"
| "run_job J (Journal_Job t) s =
     (case task_turn t (al_journals s) of (st, rest) \<Rightarrow> respawn Journal_Job rest (s\<lparr>al_journals := st\<rparr>))"
| "run_job J (Stream_Job t) s =
     (case task_turn t (al_streams s) of (st, rest) \<Rightarrow> respawn Stream_Job rest (s\<lparr>al_streams := st\<rparr>))"
| "run_job J (Probe_Job ps) s = s\<lparr>al_probes := health_sync (je_to_string J) ps (al_probes s)\<rparr>"
| "run_job J (Upgrade_Job package) s =
     with_apt (on_upgrade_request (je_fault J) (je_script J) (je_systemd_run J) (je_now J) (je_pid J) package) s"

definition job_turn :: "job_env \<Rightarrow> nat \<Rightarrow> agent_loop \<Rightarrow> agent_loop" where
  "job_turn J i s =
     (if i < length (al_jobs s)
      then run_job J (al_jobs s ! i) (s\<lparr>al_jobs := take i (al_jobs s) @ drop (Suc i) (al_jobs s)\<rparr>)
      else s)"

section \<open>The loop\<close>

definition IDLE_TIMEOUT :: nat where "IDLE_TIMEOUT = 75"
definition WATCHDOG_PERIOD :: nat where "WATCHDOG_PERIOD = 15"
definition HEARTBEAT_PERIOD :: nat where "HEARTBEAT_PERIOD = 20"

text \<open>
  What wakes the loop or one of its tasks: a text frame with the time and what it parsed to, the end of the
  socket, a message taken off the queue and whether the write went through, the two timers, a turn of a job or of
  an upgrade's watcher, output of a pod.
\<close>

datatype loop_event =
    Text_Frame nat "Message option"
  | Socket_Ended
  | Writes bool
  | Heartbeat_Tick
  | Watchdog_Tick nat
  | Job_Turn nat
  | Apt_Turn nat
  | Pod_Output string "byte list"

fun loop_step :: "loop_env \<times> job_env \<Rightarrow> loop_event \<Rightarrow> agent_loop \<Rightarrow> agent_loop" where
  "loop_step env (Text_Frame now parsed) s =
     (let s1 = s\<lparr>al_last_read := now\<rparr>
      in case parsed of Some m \<Rightarrow> agent_on_message (fst env) (je_host (snd env)) m s1 | None \<Rightarrow> s1)"
| "loop_step env Socket_Ended s = s\<lparr>al_running := False\<rparr>"
| "loop_step env (Writes ok) s =
     (case og_queue (al_tx s) of
        [] \<Rightarrow> s
      | _ # rest \<Rightarrow> s\<lparr>al_tx := (al_tx s)\<lparr>og_queue := rest\<rparr>, al_running := ok\<rparr>)"
| "loop_step env Heartbeat_Tick s = send_msg (Session Ping) s"
| "loop_step env (Watchdog_Tick now) s = (if now - al_last_read s > IDLE_TIMEOUT then s\<lparr>al_running := False\<rparr> else s)"
| "loop_step env (Job_Turn i) s = job_turn (snd env) i s"
| "loop_step env (Apt_Turn i) s = with_apt (on_tick (je_fault (snd env)) (je_unit (snd env)) i) s"
| "loop_step env (Pod_Output sid block) s = pod_output sid block s"

definition loop_turn :: "(loop_env \<times> job_env) \<times> loop_event \<Rightarrow> agent_loop \<Rightarrow> agent_loop" where
  "loop_turn ev s = (if al_running s then loop_step (fst ev) (snd ev) s else s)"

definition loop_run :: "((loop_env \<times> job_env) \<times> loop_event) list \<Rightarrow> agent_loop \<Rightarrow> agent_loop" where
  "loop_run evs s = fold loop_turn evs s"

section \<open>Capabilities\<close>

text \<open>What \<open>exec\<close>, the gate socket, \<open>systemctl\<close>, Docker and the cluster say at the time of a probe.\<close>

definition probe_capabilities :: "host \<Rightarrow> (string \<Rightarrow> bool) \<Rightarrow> string list" where
  "probe_capabilities H exists_path =
     (if exec_enabled (ho_allowlist H) (ho_env H) then [''exec''] else []) @
     (if exists_path ''/run/shellfleet/approval-gate.sock'' \<or>
         (case ho_env H ''SHELLFLEET_GATE_SOCKET'' of Some p \<Rightarrow> exists_path p | None \<Rightarrow> False) then [''trusted-root''] else []) @
     (if systemd_available (ho_systemctl H) then [''systemd''] else []) @
     (if docker_available (ho_docker H)
      then ''docker'' # (case swarm_role (ho_json H) (ho_docker H) of NotInSwarm \<Rightarrow> [] | _ \<Rightarrow> [''swarm'']) else []) @
     (if ho_kube H \<and> k8s_available (ho_cluster H) then [''k8s''] else [])"

text \<open>The first message on a connection; an unreadable host name has a default.\<close>

definition register_message :: "host \<Rightarrow> (string \<Rightarrow> bool) \<Rightarrow> string option \<Rightarrow> Message" where
  "register_message H exists_path hostname =
     Session (Register (case hostname of Some n \<Rightarrow> from_utf8_lossy n | None \<Rightarrow> ''unknown-agent'') PROTOCOL_VERSION
       (probe_capabilities H exists_path) Map.empty)"

text \<open>The state with which the loop is entered: the registration is queued and a pending upgrade is resumed.\<close>

definition enter_loop :: "host \<Rightarrow> (string \<Rightarrow> bool) \<Rightarrow> string option \<Rightarrow> nat \<Rightarrow> apt_system \<Rightarrow> agent_loop" where
  "enter_loop H exists_path hostname now apt =
     with_apt on_restart
       \<lparr>al_tx = post (register_message H exists_path hostname) outgoing_new, al_terms = Map.empty, al_exec = None, al_trusted = Map.empty,
        al_pods = Map.empty, al_pod_readers = [], al_logs = streams_default, al_journals = streams_default, al_streams = streams_default,
        al_pod_logs = streams_default, al_probes = \<lparr>pt_tasks = Map.empty, pt_live = [], pt_next = 0\<rparr>, al_apt = apt, al_jobs = [],
        al_last_read = now, al_running = True\<rparr>"

record cap_probe =
  cp_delay :: nat
  cp_idle :: u32
  cp_current :: "string list"
  cp_tx :: outgoing

definition FAST :: nat where "FAST = 30"
definition SLOW :: nat where "SLOW = 300"
definition SETTLE_ROUNDS :: u32 where "SETTLE_ROUNDS = 6"

definition sat_inc :: "u32 \<Rightarrow> u32" where
  "sat_inc n = (if n = - 1 then n else n + 1)"

definition cap_round :: "string list \<Rightarrow> cap_probe \<Rightarrow> cap_probe" where
  "cap_round fresh c =
     (if fresh \<noteq> cp_current c
      then c\<lparr>cp_tx := post (Session (CapabilitiesUpdate fresh)) (cp_tx c), cp_current := fresh, cp_idle := 0, cp_delay := FAST\<rparr>
      else (let n = sat_inc (cp_idle c) in c\<lparr>cp_idle := n, cp_delay := (if n \<ge> SETTLE_ROUNDS then SLOW else cp_delay c)\<rparr>))"

section \<open>Invariants of the loop\<close>

definition is_start_of :: "(byte list \<Rightarrow> TrustedClientFrame option) \<Rightarrow> string \<Rightarrow> byte list \<Rightarrow> bool" where
  "is_start_of D rid f = (case D f of Some (StartFrame r _ _) \<Rightarrow> r = rid | _ \<Rightarrow> False)"

definition continues :: "(byte list \<Rightarrow> TrustedClientFrame option) \<Rightarrow> string \<Rightarrow> byte list \<Rightarrow> bool" where
  "continues D rid f =
     (case D f of
        Some (ApproveFrame sm _ _) \<Rightarrow> tm_request_id (sm_manifest sm) = rid
      | Some (StartFrame _ _ _) \<Rightarrow> False
      | Some _ \<Rightarrow> True
      | None \<Rightarrow> False)"

definition frames_ok :: "(byte list \<Rightarrow> TrustedClientFrame option) \<Rightarrow> string \<Rightarrow> byte list list \<Rightarrow> bool" where
  "frames_ok D rid fs \<longleftrightarrow>
     (case fs of [] \<Rightarrow> False | f # rest \<Rightarrow> is_start_of D rid f \<and> list_all (continues D rid) rest) \<and>
     list_all (\<lambda>f. 0 < length f \<and> length f \<le> MAX_TRUSTED_FRAME_BYTES) fs"

definition loop_inv :: "(byte list \<Rightarrow> TrustedClientFrame option) \<Rightarrow> agent_loop \<Rightarrow> bool" where
  "loop_inv D s \<longleftrightarrow>
     (\<forall>rid session. al_trusted s rid = Some session \<longrightarrow> frames_ok D rid (rs_frames session)) \<and>
     length (og_queue (al_tx s)) \<le> OUTGOING_QUEUE_CAPACITY"

lemma send_keeps [simp]: "al_trusted (send_msg m s) = al_trusted s" "al_last_read (send_msg m s) = al_last_read s"
  "al_running (send_msg m s) = al_running s" "al_pod_readers (send_msg m s) = al_pod_readers s"
  "al_tx (send_msg m s) = post m (al_tx s)"
  by (simp_all add: send_msg_def)

lemma spawn_keeps [simp]: "al_trusted (spawn_job j s) = al_trusted s" "al_last_read (spawn_job j s) = al_last_read s"
  "al_running (spawn_job j s) = al_running s" "al_pod_readers (spawn_job j s) = al_pod_readers s" "al_tx (spawn_job j s) = al_tx s"
  by (simp_all add: spawn_job_def)

lemma respawn_keeps [simp]: "al_trusted (respawn mk r s) = al_trusted s" "al_last_read (respawn mk r s) = al_last_read s"
  "al_running (respawn mk r s) = al_running s" "al_tx (respawn mk r s) = al_tx s"
  by (simp_all add: respawn_def split: option.split)

lemma post_bound: "length (og_queue q) \<le> OUTGOING_QUEUE_CAPACITY \<Longrightarrow> length (og_queue (post m q)) \<le> OUTGOING_QUEUE_CAPACITY"
  by (simp add: post_def Outgoing_send_def)

text \<open>Everything but the relay leaves the trusted sessions alone, and a message at most adds to the queue.\<close>

definition quiet :: "agent_loop \<Rightarrow> agent_loop \<Rightarrow> bool" where
  "quiet s t \<longleftrightarrow>
     al_trusted t = al_trusted s \<and> al_last_read t = al_last_read s \<and> al_running t = al_running s \<and>
     (length (og_queue (al_tx s)) \<le> OUTGOING_QUEUE_CAPACITY \<longrightarrow> length (og_queue (al_tx t)) \<le> OUTGOING_QUEUE_CAPACITY)"

lemma quiet_refl [simp]: "quiet s s"
  by (simp add: quiet_def)

lemma quiet_trans: "quiet s t \<Longrightarrow> quiet t u \<Longrightarrow> quiet s u"
  by (simp add: quiet_def)

lemma quiet_send [simp]: "quiet s (send_msg m s)"
  by (simp add: quiet_def post_bound)

lemma quiet_spawn [simp]: "quiet s (spawn_job j s)"
  by (simp add: quiet_def)

lemma quiet_sends: "quiet s (fold send_msg ms s)"
  by (induction ms arbitrary: s) (auto intro: quiet_trans [OF quiet_send])

lemma quiet_apt: "quiet s (with_apt f s)"
proof -
  have "quiet s (s\<lparr>al_apt := a\<rparr>)" for a by (simp add: quiet_def)
  then show ?thesis unfolding with_apt_def Let_def by (rule quiet_trans [OF _ quiet_sends])
qed

lemma quiet_terminals:
  "quiet s (start_terminal E sid s)" "quiet s (stop_terminal E sid s)" "quiet s (to_session E f sid s)"
  "quiet s (docker_exec_start E cid shell s)" "quiet s (k8s_exec E sid ns pod ctr cmd s)" "quiet s (pod_output sid block s)"
  by (auto simp: quiet_def start_terminal_def stop_terminal_def to_session_def docker_exec_start_def k8s_exec_def pod_output_def
      Let_def post_bound Outgoing_send_def split: option.split sum.split)

lemma quiet_job: "quiet s (run_job J j s)"
  by (cases j) (auto simp: quiet_apt split: option.split prod.split, auto simp: quiet_def)

lemma quiet_job_turn: "quiet s (job_turn J i s)"
proof -
  have "quiet s (s\<lparr>al_jobs := js\<rparr>)" for js by (simp add: quiet_def)
  then show ?thesis by (simp add: job_turn_def quiet_trans [OF _ quiet_job])
qed

lemma quiet_families: "quiet s (on_log m s)" "quiet s (on_k8s E k s)" "quiet s (on_misc E x s)"
proof -
  show "quiet s (on_log m s)" by (cases m) (simp_all add: on_log_def)
  show "quiet s (on_k8s E k s)"
    by (cases k) (auto simp: on_k8s_def quiet_terminals, auto simp: quiet_def)
  show "quiet s (on_misc E x s)"
    by (cases x) (auto simp: on_misc_def quiet_terminals, auto simp: quiet_def)
qed

lemma loop_message_cases:
  "quiet s (agent_on_message E H m s) \<or>
   (\<exists>rid is_start is_close payload. agent_on_message E H m s = on_trusted E rid is_start is_close payload s)"
proof (cases m)
  case (Terminal t)
  then show ?thesis by (cases t) (auto simp: agent_on_message_def on_terminal_def quiet_terminals)
qed (auto simp: agent_on_message_def quiet_families split: option.split ProbeMsg.split AptMsg.split)

lemma decoded_frame: "decode_client E p = Some f \<Longrightarrow> le_decode E p = Some f"
  by (simp add: decode_client_def split: if_splits)

lemma inner_start:
  assumes "inner_matches (decode_client E payload) rid True c"
  shows "is_start_of (le_decode E) rid payload"
proof -
  obtain f where f: "decode_client E payload = Some f" using assms by (auto simp: inner_matches_def split: option.splits)
  with assms decoded_frame [OF f] show ?thesis by (cases f) (auto simp: inner_matches_def is_start_of_def)
qed

lemma inner_continues:
  assumes "inner_matches (decode_client E payload) rid False c"
  shows "continues (le_decode E) rid payload"
proof -
  obtain f where f: "decode_client E payload = Some f" using assms by (auto simp: inner_matches_def split: option.splits)
  with assms decoded_frame [OF f] show ?thesis by (cases f) (auto simp: inner_matches_def continues_def)
qed

lemma relay_send_ok:
  assumes "relay_send payload session = Inr session'"
  shows "rs_frames session' = rs_frames session @ [payload]" "0 < length payload" "length payload \<le> MAX_TRUSTED_FRAME_BYTES"
  using assms by (auto simp: relay_send_def split: if_splits)

lemma relay_connect_ok:
  assumes "relay_connect E rid payload = Inr session"
  shows "rs_frames session = [payload]" "0 < length payload" "length payload \<le> MAX_TRUSTED_FRAME_BYTES"
  using assms relay_send_ok [of payload "\<lparr>rs_frames = [], rs_open = True\<rparr>" session]
  by (auto simp: relay_connect_def try_bind_def split: sum.splits)

lemma trusted_keeps: "al_last_read (on_trusted E rid st cl p s) = al_last_read s" "al_running (on_trusted E rid st cl p s) = al_running s"
  by (simp_all add: on_trusted_def Let_def split: option.split sum.split)

lemma trusted_inv:
  assumes inv: "loop_inv (le_decode E) s"
  shows "loop_inv (le_decode E) (on_trusted E rid is_start is_close payload s)"
proof -
  have old: "frames_ok (le_decode E) r (rs_frames x)" if "al_trusted s r = Some x" for r x
    using inv that by (simp add: loop_inv_def)
  have q: "length (og_queue (post m (al_tx s))) \<le> OUTGOING_QUEUE_CAPACITY" "length (og_queue (al_tx s)) \<le> OUTGOING_QUEUE_CAPACITY" for m
    using inv by (simp_all add: loop_inv_def post_bound)
  have fresh: "frames_ok (le_decode E) rid (rs_frames x)"
    if "relay_connect E rid payload = Inr x" "inner_matches (decode_client E payload) rid True is_close" for x
    using relay_connect_ok [OF that(1)] inner_start [OF that(2)] by (simp add: frames_ok_def)
  have more: "frames_ok (le_decode E) rid (rs_frames y)"
    if "al_trusted s rid = Some x" "relay_send payload x = Inr y" "inner_matches (decode_client E payload) rid False is_close" for x y
    using relay_send_ok [OF that(2)] inner_continues [OF that(3)] old [OF that(1)]
    by (cases "rs_frames x") (simp_all add: frames_ok_def)
  show ?thesis
  proof (cases "inner_matches (decode_client E payload) rid is_start is_close")
    case False
    then show ?thesis using old q by (simp add: on_trusted_def loop_inv_def)
  next
    case True
    show ?thesis
    proof (cases is_start)
      case True
      with \<open>inner_matches _ _ _ _\<close> show ?thesis
        using old q fresh by (auto simp: on_trusted_def loop_inv_def split: sum.split)
    next
      case False
      with \<open>inner_matches _ _ _ _\<close> show ?thesis
        using old q more by (auto simp: on_trusted_def loop_inv_def Let_def split: sum.split option.split)
    qed
  qed
qed

lemma quiet_inv: "quiet s t \<Longrightarrow> loop_inv D s \<Longrightarrow> loop_inv D t"
  by (simp add: quiet_def loop_inv_def)

lemma loop_step_inv:
  assumes inv: "loop_inv (le_decode (fst env)) s"
  shows "loop_inv (le_decode (fst env)) (loop_step env e s)"
proof (cases e)
  case (Text_Frame now parsed)
  let ?s = "s\<lparr>al_last_read := now\<rparr>"
  have i: "loop_inv (le_decode (fst env)) ?s" using inv by (simp add: loop_inv_def)
  show ?thesis
  proof (cases parsed)
    case None
    with i Text_Frame show ?thesis by simp
  next
    case (Some m)
    with loop_message_cases [of ?s "fst env" "je_host (snd env)" m] quiet_inv [OF _ i] trusted_inv [OF i] Text_Frame
    show ?thesis by auto
  qed
next
  case (Writes ok)
  with inv show ?thesis by (auto simp: loop_inv_def split: list.split)
next
  case (Job_Turn i)
  with quiet_inv [OF quiet_job_turn inv] show ?thesis by simp
next
  case (Apt_Turn i)
  with quiet_inv [OF quiet_apt inv] show ?thesis by simp
next
  case (Pod_Output sid block)
  with quiet_inv [OF quiet_terminals(6) inv] show ?thesis by simp
qed (use inv in \<open>simp_all add: loop_inv_def post_bound\<close>)

lemma enter_inv: "loop_inv D (enter_loop H exists_path hostname now apt)"
proof -
  have "loop_inv D t" if "al_trusted t = Map.empty" "al_tx t = post m outgoing_new" for t m
    using that by (simp add: loop_inv_def post_bound outgoing_new_def)
  then show ?thesis unfolding enter_loop_def by (intro quiet_inv [OF quiet_apt]) simp
qed


definition demo_loop_env :: loop_env where
  "demo_loop_env = \<lparr>le_decode = (\<lambda>b. if b = [1] then Some (StartFrame ''r1'' (RootCommand ''/bin/ls'' [] 5) [3])
                               else if b = [2] then Some (CiphertextFrame 0 [7]) else None),
     le_error_frame = (\<lambda>_. Some [9]), le_gate = (\<lambda>_. Inr ()), le_root = (\<lambda>_. Inr ()), le_pty = (\<lambda>_. Inr ()),
     le_pod = (\<lambda>_ _ _ _. Inr ()), le_kube = True\<rparr>"

definition demo_job_env :: job_env where
  "demo_job_env = \<lparr>je_host = demo_machine, je_to_string = demo_to_string, je_fault = (\<lambda>_. False), je_script = [], je_systemd_run = demo_apt_run,
     je_now = 0, je_pid = 1, je_unit = (\<lambda>_. None)\<rparr>"

definition demo_loop :: agent_loop where
  "demo_loop = \<lparr>al_tx = outgoing_new, al_terms = Map.empty, al_exec = None, al_trusted = Map.empty, al_pods = Map.empty, al_pod_readers = [],
     al_logs = streams_default, al_journals = streams_default, al_streams = streams_default, al_pod_logs = streams_default,
     al_probes = no_probes, al_apt = demo_apt, al_jobs = [], al_last_read = 0, al_running = True\<rparr>"

abbreviation demo_frame :: "nat \<Rightarrow> TerminalMsg \<Rightarrow> (loop_env \<times> job_env) \<times> loop_event" where
  "demo_frame t m \<equiv> ((demo_loop_env, demo_job_env), Text_Frame t (Some (Terminal m)))"


section \<open>The watchdog\<close>

lemma last_read_keeps:
  assumes "\<And>now m. snd ev \<noteq> Text_Frame now m"
  shows "al_last_read (loop_turn ev s) = al_last_read s"
proof -
  have "al_last_read (loop_step (fst ev) (snd ev) s) = al_last_read s"
    using assms quiet_job_turn [of s "snd (fst ev)"] quiet_apt [of s] quiet_terminals(6) [of s]
    by (cases "snd ev") (auto simp: quiet_def split: list.split)
  then show ?thesis by (simp add: loop_turn_def)
qed

lemma stopped_stays: "\<not> al_running s \<Longrightarrow> \<not> al_running (loop_run evs s)"
  by (induction evs arbitrary: s) (auto simp: loop_run_def loop_turn_def)

text \<open>Events under which a connection is kept, given the time of the last text frame.\<close>

fun healthy :: "loop_event list \<Rightarrow> nat \<Rightarrow> bool" where
  "healthy [] t = True"
| "healthy (Text_Frame now _ # es) t = healthy es now"
| "healthy (Socket_Ended # es) t = False"
| "healthy (Writes ok # es) t = (ok \<and> healthy es t)"
| "healthy (Watchdog_Tick now # es) t = (now - t \<le> IDLE_TIMEOUT \<and> healthy es t)"
| "healthy (_ # es) t = healthy es t"

lemma message_running: "al_running (agent_on_message E H m s) = al_running s" "al_last_read (agent_on_message E H m s) = al_last_read s"
  using loop_message_cases [of s E H m] by (auto simp: quiet_def trusted_keeps)

lemma healthy_runs:
  assumes "al_running s" and "healthy (map snd evs) (al_last_read s)"
  shows "al_running (loop_run evs s)"
  using assms
proof (induction evs arbitrary: s)
  case (Cons ev evs)
  have "al_running (loop_turn ev s) \<and> healthy (map snd evs) (al_last_read (loop_turn ev s))"
    using Cons.prems quiet_job_turn [of s "snd (fst ev)"] quiet_apt [of s] quiet_terminals(6) [of s]
    by (cases "snd ev") (auto simp: loop_turn_def message_running quiet_def Let_def split: list.split option.split)
  with Cons.IH show ?case by (simp add: loop_run_def)
qed (simp add: loop_run_def)

lemma silence_keeps:
  assumes "list_all (\<lambda>ev. \<forall>now m. snd ev \<noteq> Text_Frame now m) evs"
  shows "al_last_read (loop_run evs s) = al_last_read s"
  using assms
proof (induction evs arbitrary: s)
  case (Cons ev evs)
  with last_read_keeps [of ev s] show ?case by (simp add: loop_run_def)
qed (simp add: loop_run_def)

text \<open>
  The watchdog, whose ticks come every fifteen seconds. As long as every tick comes at most 75 seconds after the
  last text frame, writes go through and the socket stays, the loop goes on, whatever the messages are. And when
  no text frame arrives any more, the first tick after 75 seconds of silence, which comes within 90 seconds, ends
  the loop for good, whatever control frames, jobs and writes there are in between.
\<close>

theorem silent_server_is_left:
  assumes "al_running s" and "list_all (\<lambda>ev. \<forall>now m. snd ev \<noteq> Text_Frame now m) evs"
  shows "(healthy (map snd heard) (al_last_read s) \<longrightarrow> al_running (loop_run heard s)) \<and>
         (\<exists>tick. WATCHDOG_PERIOD dvd tick \<and> al_last_read s + IDLE_TIMEOUT < tick \<and> tick \<le> al_last_read s + 90 \<and>
            \<not> al_running (loop_run (evs @ ((env, Watchdog_Tick tick) # later)) s))"
proof -
  let ?t = "al_last_read s"
  define k where "k = (?t + IDLE_TIMEOUT) div WATCHDOG_PERIOD + 1"
  have k: "WATCHDOG_PERIOD * k > ?t + IDLE_TIMEOUT" "WATCHDOG_PERIOD * k \<le> ?t + 90"
    unfolding k_def WATCHDOG_PERIOD_def IDLE_TIMEOUT_def by presburger+
  let ?s = "loop_run evs s"
  have "al_last_read ?s = ?t" by (rule silence_keeps [OF assms(2)])
  then have "\<not> al_running (loop_turn (env, Watchdog_Tick (WATCHDOG_PERIOD * k)) ?s)"
    using k(1) by (auto simp: loop_turn_def)
  from stopped_stays [OF this, of later]
  have "\<not> al_running (loop_run (evs @ ((env, Watchdog_Tick (WATCHDOG_PERIOD * k)) # later)) s)" by (simp add: loop_run_def)
  with k healthy_runs [OF assms(1), of heard] show ?thesis by (intro conjI impI exI [of _ "WATCHDOG_PERIOD * k"]) auto
qed

theorem silent_server_is_left_witness:
  "al_running (loop_run [((demo_loop_env, demo_job_env), Watchdog_Tick 15), ((demo_loop_env, demo_job_env), Text_Frame 20 None), ((demo_loop_env, demo_job_env), Watchdog_Tick 90)] demo_loop) \<and>
   (\<exists>tick. 75 < tick \<and> tick \<le> 90 \<and>
      \<not> al_running (loop_run ([((demo_loop_env, demo_job_env), Heartbeat_Tick)] @ (((demo_loop_env, demo_job_env), Watchdog_Tick tick) # [])) demo_loop))"
  using silent_server_is_left [where s = demo_loop and evs = "[((demo_loop_env, demo_job_env), Heartbeat_Tick)]" and env = "(demo_loop_env, demo_job_env)" and later = "[]" and
      heard = "[((demo_loop_env, demo_job_env), Watchdog_Tick 15), ((demo_loop_env, demo_job_env), Text_Frame 20 None), ((demo_loop_env, demo_job_env), Watchdog_Tick 90)]"]
  by (auto simp: demo_loop_def IDLE_TIMEOUT_def)

section \<open>Capabilities settle\<close>

lemma sat_inc_of_nat: "n < 100 \<Longrightarrow> sat_inc (of_nat n) = of_nat (Suc n)"
proof -
  assume n: "n < 100"
  then have "(of_nat n :: u32) \<noteq> - 1"
    by (simp add: word_unat_eq_iff unat_of_nat unsigned_minus_1_eq_mask mask_eq_exp_minus_1)
  then show ?thesis by (simp add: sat_inc_def add.commute)
qed

text \<open>
  A change of the capabilities is announced at once, as long as the queue has room, and sets the fast cadence; after
  six more rounds without a change, and not before, the cadence is slow, and nothing was announced in between.
\<close>

theorem capability_probe_settles:
  assumes "fresh \<noteq> cp_current c" and "n < 100"
  shows "cp_tx ((cap_round fresh ^^ (Suc n)) c) = post (Session (CapabilitiesUpdate fresh)) (cp_tx c) \<and>
         cp_delay ((cap_round fresh ^^ (Suc n)) c) = (if n < 6 then FAST else SLOW)"
proof -
  have "(cap_round fresh ^^ (Suc n)) c = (cap_round fresh c)\<lparr>cp_idle := of_nat n, cp_delay := (if n < 6 then FAST else SLOW)\<rparr>"
    using assms(2)
  proof (induction n)
    case 0
    then show ?case using assms(1) by (simp add: cap_round_def)
  next
    case (Suc n)
    have six: "SETTLE_ROUNDS \<le> of_nat (Suc n) \<longleftrightarrow> 6 \<le> Suc n"
    proof -
      have "unat (of_nat (Suc n) :: u32) = Suc n" using Suc.prems by (simp add: unat_of_nat del: of_nat_Suc)
      then show ?thesis by (simp add: SETTLE_ROUNDS_def word_le_nat_alt del: of_nat_Suc)
    qed
    have cur: "cp_current (cap_round fresh c) = fresh" using assms(1) by (simp add: cap_round_def)
    have "(cap_round fresh ^^ (Suc (Suc n))) c = cap_round fresh ((cap_round fresh ^^ (Suc n)) c)" by simp
    also have "\<dots> = cap_round fresh ((cap_round fresh c)\<lparr>cp_idle := of_nat n, cp_delay := (if n < 6 then FAST else SLOW)\<rparr>)"
      using Suc.IH Suc.prems by (simp del: funpow.simps)
    also have "\<dots> = (cap_round fresh c)\<lparr>cp_idle := of_nat (Suc n), cp_delay := (if Suc n < 6 then FAST else SLOW)\<rparr>"
    proof -
      have "sat_inc (of_nat n) = of_nat (Suc n)" using sat_inc_of_nat [of n] Suc.prems by linarith
      then show ?thesis
        unfolding cap_round_def [of fresh "cap_round fresh c\<lparr>cp_idle := of_nat n, cp_delay := (if n < 6 then FAST else SLOW)\<rparr>"]
        using six cur by (simp add: Let_def del: of_nat_Suc)
    qed
    finally show ?case .
  qed
  then show ?thesis using assms(1) by (simp add: cap_round_def del: funpow.simps)
qed

section \<open>Pod terminals\<close>

text \<open>
  The header of \<open>k8s_exec.rs\<close> says that a stop aborts the pumps. Only the supervisor is aborted: after the stop of a pod
  terminal its output is still sent to the server.
\<close>

theorem stopped_pod_terminal_keeps_sending:
  assumes "sid \<in> set (al_pod_readers s)" and "\<not> og_closed (al_tx s)" and "length (og_queue (al_tx s)) < OUTGOING_QUEUE_CAPACITY"
  shows "og_sent (al_tx (pod_output sid block (stop_terminal E sid s))) = og_sent (al_tx s) @ [Terminal (TerminalData sid block)]"
  using assms by (simp add: pod_output_def stop_terminal_def Let_def Outgoing_send_def)

text \<open>A relay session whose broker has gone is kept until a close arrives: a new start of the request is refused.\<close>

theorem ended_relay_blocks_its_request:
  assumes "al_trusted s rid = Some session" and "inner_matches (decode_client E payload) rid True False"
  shows "on_trusted E rid True False payload s = send_msg (relay_error E rid ''trusted request id is already active'') s"
  using assms by (simp add: on_trusted_def)

end
