(* ===== verification/Spec2Isabelle.thy ===== *)
theory Spec2Isabelle
  imports Operation_Routing Byte_Codec Internal_Gate Throttle Session_Auth Device_Pairing Trusted_Gate Config_Guard
    Second_Factor Desk_Handlers K8s_Policy Agent_Backup Agent_Exec Fleet_Core Ui_Hub Jobs_Db Agent_Hub Agent_Safety
    Webhook Agent_Main
begin

text \<open>
  ShellFleet: a verification development of the server, the agent and the code they share.

  \<^bold>\<open>The program.\<close> A server keeps a fleet of hosts under one web interface. An agent on each host opens a WebSocket
  to the server, registers and answers messages; operators connect over a WebSocket or over HTTP and send commands
  that the server passes on, after it has checked the session, the role, the policy of an enterprise sidecar and,
  for some, the approval of a second person. The agent runs the commands; operations that need root go through a
  broker process of its own, which wants a signed approval. Around this stand the sign-in with its second factor,
  the pairing of new agents, a programmatic API with keys, scheduled jobs, notifications to chat services, and the
  durable picture of the fleet.

  \<^bold>\<open>The theories, and the code they model\<close> (paths under \<open>src/\<close>).

  \<^item> \<open>SF_Prelude\<close>: machine types, Rust's \<open>Result\<close>, byte strings and their functions, SQL tables as lists of rows with
    the statements used, and the induction rule for runs. \<open>Single_Use\<close>: the locale of a store of single-use tickets.
  \<^item> \<open>Wire_Protocol\<close>: every message of \<open>shared/src/lib.rs\<close>. \<open>Ui_Security\<close>: the table of \<open>shared/src/security.rs\<close>, which
    says for each message a browser may send its policy action and whether it needs an administrator or an approval.
    \<open>Operation_Routing\<close>: who owns a terminal, a log stream or an exec session (\<open>server/src/operation_routing.rs\<close>).
  \<^item> \<open>Byte_Codec\<close>, \<open>Internal_Auth\<close>, \<open>Internal_Gate\<close>: length-prefixed encodings, signed requests between server and
    sidecar, the table of used nonces (\<open>shared/src/internal_auth.rs\<close>, \<open>server/src/internal_auth.rs\<close>,
    \<open>agent/src/privileged/framing.rs\<close>).
  \<^item> \<open>Throttle\<close>: lock-out, token buckets, client addresses (\<open>throttle.rs\<close>, \<open>anon_limiter.rs\<close>, \<open>ip_allowlist.rs\<close>).
    \<open>Users_Db\<close> and \<open>Session_Auth\<close>: accounts, invites, seats, sessions, CSRF and roles (\<open>db.rs\<close>, \<open>auth.rs\<close>, \<open>csrf.rs\<close>,
    \<open>rbac.rs\<close>, \<open>users.rs\<close>). \<open>Second_Factor\<close>: one-time and recovery codes and their encryption (\<open>mfa.rs\<close>, \<open>crypto.rs\<close>).
    \<open>Device_Pairing\<close>: pairing of agents and of the terminal client, and the tokens (\<open>device_auth.rs\<close>, \<open>cli_auth.rs\<close>).
  \<^item> \<open>Ui_Hub\<close>, \<open>Agent_Hub\<close>, \<open>Agent_Safety\<close>: the two sides of \<open>server/src/main.rs\<close> and what holds of runs in which their
    events interleave. \<open>Fleet_Core\<close>: the durable fleet (\<open>server/src/core\<close>). \<open>Jobs_Db\<close>, \<open>Job_Handlers\<close>, \<open>Desk_Handlers\<close>: the
    operational tables, the handlers on them, the schedulers, and the requests of the sidecar (\<open>fan_out.rs\<close>,
    \<open>update_windows.rs\<close>, \<open>backups.rs\<close>, \<open>health.rs\<close>, \<open>labels.rs\<close>, \<open>notifications.rs\<close>, \<open>ee.rs\<close>). \<open>Api_Keys\<close>: the programmatic
    API (\<open>api_auth.rs\<close>, \<open>api_v1.rs\<close>, \<open>agent_dispatch.rs\<close>). \<open>Webhook\<close>: the notifications, their texts, the queue in front
    of the deliveries (\<open>webhook.rs\<close>).
  \<^item> \<open>Trusted_Gate\<close>: the root broker of the agent (\<open>shared/src/trusted.rs\<close>, \<open>agent/src/privileged\<close>,
    \<open>agent/src/bin/shellfleet-approval-gate.rs\<close>). \<open>Config_Guard\<close>: the files the server may read and write (\<open>config.rs\<close>).
    \<open>K8s_Policy\<close>: the policy on manifests (\<open>k8s.rs\<close>). \<open>Agent_Commands\<close>: the arguments of the commands the agent runs
    (\<open>docker.rs\<close>, \<open>deploy.rs\<close>, \<open>systemd.rs\<close>, \<open>journal.rs\<close>, \<open>journal_stream.rs\<close>, \<open>logs.rs\<close>, \<open>terminal.rs\<close>, \<open>apt.rs\<close>).
    \<open>Agent_Backup\<close>, \<open>Agent_Exec\<close>, \<open>Utf8_Text\<close>: backups, one-shot commands with their two readers, and cutting output
    (\<open>backup.rs\<close>, \<open>exec.rs\<close>).
  \<^item> The agent's process. \<open>Agent_Start\<close>: the credential files, the runtime mode, pairing, refresh and the connect loop,
    against the server of \<open>Device_Pairing\<close> (\<open>credentials.rs\<close> and the first part of \<open>main.rs\<close>). \<open>Agent_Lists\<close>: the listings
    parsed from the output of \<open>docker\<close>, \<open>systemctl\<close> and \<open>df\<close> and from \<open>/proc\<close>, with Rust's number parsers (\<open>docker.rs\<close>,
    \<open>systemd.rs\<close>, \<open>stats.rs\<close>). \<open>Agent_Apt\<close>: package upgrades in a detached unit, their marker and the watcher that survives
    a restart (\<open>apt.rs\<close>). \<open>Agent_Streams\<close>: the bounded queue to the server, the stream managers and the batching of lines
    (\<open>lib.rs\<close>, \<open>logs.rs\<close>, \<open>journal.rs\<close>, \<open>journal_stream.rs\<close>, \<open>k8s_logs.rs\<close>). \<open>Agent_Health\<close>: the probes (\<open>health.rs\<close>).
    \<open>Agent_K8s\<close>: the cluster's listings and single operations (\<open>k8s.rs\<close>). \<open>Agent_Dispatch\<close>: every request that is answered
    at once, arm by arm, with the functions above in place (\<open>main.rs\<close>). \<open>Agent_Main\<close>: the loop with its sessions,
    spawned tasks, timers and capabilities (\<open>main.rs\<close>, \<open>privileged/client.rs\<close>, \<open>k8s_exec.rs\<close>).

  \<^bold>\<open>How the code is translated.\<close> A struct is a record with the source's fields, an enum a datatype, an async handler a
  function from the state to the new state and the answer; \<open>?\<close> is \<open>try_bind\<close>. A handler that awaits something other
  tasks can overtake is split there into parts (\<open>verify_read\<close> and \<open>verify_finish\<close>, \<open>teardown_remove\<close> and \<open>teardown_debounce\<close>,
  \<open>list_archives_begin\<close> and \<open>list_archives_end\<close>), and the theorems on interleaving quantify over the events between them;
  a handler with no such part is one step. A table is the list of its rows in order of insertion. A fault oracle says
  which statements, and which sends on a channel, fail; no theorem assumes that they succeed unless it says so.
  The agent's loop is a step function on events: a text frame, a timer, a write, a turn of a spawned task; a task that
  takes a lock several times is split at the locks (\<open>stream_task\<close>), so that schedules interleave as tokio's do.
  The integers are words where they can wrap (client ids, frame lengths, counters of the encrypted channel) and
  \<open>int\<close> with the range written out elsewhere. Text is the byte string that Rust holds.

  \<^bold>\<open>What is an argument.\<close> Libraries that are not part of the sources are arguments: HMAC, SHA-256, AES-GCM, ed25519 and
  base64 (\<open>primitives\<close>, \<open>mfa_lib\<close>, \<open>gate_crypto\<close>), the JWT coder (\<open>jwt_lib\<close>), the JSON coder (\<open>fleet_json\<close>, \<open>dec\<close>, \<open>enc\<close>),
  address parsing (\<open>ip_lib\<close>), cron (\<open>cron_lib\<close>), the S3 client, \<open>tar\<close>, \<open>docker\<close> and the file system of the agent
  (\<open>host\<close>), the cluster (\<open>cluster\<close>), the broker's socket (\<open>loop_env\<close>), the HTTP clients (\<open>net\<close>, \<open>hook_reply\<close>), the answers of
  the sidecar (\<open>ee_sidecar\<close>). What a theorem needs of them is a hypothesis of that theorem (decoding gives
  back what was encoded, the hash is injective on the values that occur, a cron time lies after the time asked for),
  and its witness instantiates them.

  \<^bold>\<open>What is shown.\<close>
  \<^item> Commands. A command reaches an agent only from a live session whose user passed every gate of the security table; it is cut off when the session is revoked; the table itself is consistent; a write to the HTTP
    API needs an administrator and the CSRF token; the programmatic API acts only for a live key of an
    administrator whose policy allows it, and the policy denies by default.
  \<^item> Routing. An operation has one owner and output goes only to operators who may see the agent and, for a
    stream, own it; an agent's socket keeps the identity of its token; the state of the hub is consistent
    after any run of events, with at most one notification per disconnect; the durable fleet refines the
    abstract map from agents to what they last said.
  \<^item> Credentials. Approvals of root operations, pairing codes, refresh tokens, invites and recovery codes are spent at
    most once, each an interpretation of \<open>ticket_store\<close>; a signed request is accepted once; a session after a second
    factor proves a code; guesses are bounded through the locale \<open>leaky_bucket\<close> of \<open>Throttle\<close>; seats and the last
    administrator are invariants.
  \<^item> Agent. Values of an operator are never read as options; backups and restores leave paths outside the roots
    alone; the manifests applied are those that pass the policy, which equals a declarative table; output of a command
    is bounded and its readers can always finish; an upload sends exactly the file and terminates.
  \<^item> The agent's process. Connecting presents at most four bearers; after an interrupted rotation the agent comes back
    online exactly if the new refresh token was stored (both through the locale \<open>control_plane\<close>, interpreted on the
    server's own handlers); every request answered at once gets the response of its type, with its ids; a
    configuration file that is sent passed the guard; a relay session holds its own frames only; an upgrade is
    answered once, whatever restarts there are; the running probes are those of the last synchronisation; the
    streams handled in order are those asked for (locale \<open>keyed_streams\<close>); a journal stream has no gaps. As plain
    theorems: a restricted agent is unprivileged, probe scripts are vetted, events are the newest, the watchdog leaves
    a silent server, the capability probe settles.
  \<^item> Jobs and notifications. A fan-out run accounts for every target; a window is fired at most once per cron time;
    every notification is delivered, waiting or dropped, once; it tells nothing of the agent and its output unless
    opted in; the text a receiver sends back is made harmless before it is recorded.
  \<^item> Where the code does not do what it means to, the theorem says what it does: an agent announced offline while it
    is connected, a rotated token that takes any identity, a recovery code that revives, a listing that takes another's
    answer, and as plain theorems of their theories the deny list and links (\<open>Config_Guard\<close>), the pod's security
    context (\<open>K8s_Policy\<close>), the image as an option (\<open>Agent_Commands\<close>), the restore target below a link (\<open>Agent_Backup\<close>),
    the cut inside a character (\<open>Utf8_Text\<close>), the races of invites (\<open>Session_Auth\<close>), the replaced factor (\<open>Second_Factor\<close>),
    the Discord message cut inside a character (\<open>Webhook\<close>), the joined upgrade that is misreported (\<open>Agent_Apt\<close>), the
    stream that leaks and the stop that is overtaken (\<open>Agent_Streams\<close>), the flip that is lost at a full queue
    (\<open>Agent_Health\<close>), the padded columns (\<open>Agent_Lists\<close>), the sub-state reported as enablement (\<open>Agent_Dispatch\<close>), the pod
    terminal that goes on after its stop and the relay that blocks its request id (\<open>Agent_Main\<close>).

  \<^bold>\<open>Loops.\<close> Loops over lists are folds or structural recursion. The upload loop and the page loop of \<open>Agent_Backup\<close> read
  until a source is empty and are \<open>partial_function\<close>s; the theorems prove that they return. The decoders of \<open>Utf8_Text\<close>
  and \<open>Byte_Codec\<close> end because each step consumes input. The readers of \<open>Agent_Exec\<close> are an inductive relation; that they
  can finish from every reachable state is a theorem. The connect loop of \<open>Agent_Start\<close> is a \<open>function\<close> that ends because
  a retry spends a right it had. Polling for the approval of a pairing waits for a person: \<open>pair_loop\<close> takes the number
  of polls, and its theorems hold for every number. No other definition uses fuel.

  \<^bold>\<open>Not modelled.\<close> Metrics, telemetry, TLS, constant headers, the probe catalogue and the passkey pages only move data or
  set up a library (the passkeys' logic is in the sidecar). The terminal client and the web interface are user
  interfaces over endpoints that are modelled. Of the agent: the shell wrapper of an upgrade (an argument), the pumps
  between a pseudo-terminal and its channels, and the byte streams of the cluster client beyond their order. The OAuth
  provider's calls are before the part of the callback that is modelled. The execution of an approved root operation
  is an argument of the broker. Time is one reading per step except where a handler reads it twice and the
  difference matters (the schedulers).
\<close>

end
